(* ===== verification/Prelude.thy ===== *)
theory Prelude
  imports Main
begin

text \<open>
  Shared ground of the development: the result type of a service call (an error, or a value),
  the operations a service is written with (throw when a condition holds, demand a row), and the
  laws of the three things a table (a list of rows) is used for: find the row with a key, update
  the rows a condition selects, and add up a column.
\<close>

named_theorems table_simps \<open>laws of finding, updating and summing rows\<close>

section \<open>Results of a service call\<close>

text \<open>
  A service either throws (\<^const>\<open>Inl\<close>) or returns (\<^const>\<open>Inr\<close>). Every service method that
  writes is \<open>@Transactional()\<close>: an exception rolls the whole transaction back, so an error
  carries no state and the caller keeps the state it started from.
\<close>

definition bindE :: "'e + 'a \<Rightarrow> ('a \<Rightarrow> 'e + 'b) \<Rightarrow> 'e + 'b" where
  "bindE m k = (case m of Inl e \<Rightarrow> Inl e | Inr x \<Rightarrow> k x)"

definition throwIf :: "bool \<Rightarrow> 'e \<Rightarrow> 'e + unit" where
  "throwIf b e = (if b then Inl e else Inr ())"

definition demand :: "'a option \<Rightarrow> 'e \<Rightarrow> 'e + 'a" where
  "demand x e = (case x of None \<Rightarrow> Inl e | Some v \<Rightarrow> Inr v)"

lemma bindE_Inl [simp]: "bindE (Inl e) k = Inl e"
  by (simp add: bindE_def)

lemma bindE_Inr [simp]: "bindE (Inr x) k = k x"
  by (simp add: bindE_def)

lemma bindE_eq_Inr [simp]: "bindE m k = Inr y \<longleftrightarrow> (\<exists>x. m = Inr x \<and> k x = Inr y)"
  by (cases m) auto

lemma bindE_eq_Inl: "bindE m k = Inl e \<longleftrightarrow> m = Inl e \<or> (\<exists>x. m = Inr x \<and> k x = Inl e)"
  by (cases m) auto

lemma bindE_assoc: "bindE (bindE m k) h = bindE m (\<lambda>x. bindE (k x) h)"
  by (cases m) auto

lemma case_prod_eq_Inr [simp]:
  "(case p of (a, b) \<Rightarrow> f a b) = Inr y \<longleftrightarrow> (\<exists>a b. p = (a, b) \<and> f a b = Inr y)"
  by (cases p) auto

lemma throwIf_eq_Inr [simp]: "throwIf b e = Inr u \<longleftrightarrow> \<not> b"
  by (simp add: throwIf_def)

lemma throwIf_eq_Inl [simp]: "throwIf b e = Inl e' \<longleftrightarrow> b \<and> e' = e"
  by (auto simp: throwIf_def)

lemma throwIf_True [simp]: "throwIf True e = Inl e"
  by (simp add: throwIf_def)

lemma throwIf_False [simp]: "throwIf False e = Inr ()"
  by (simp add: throwIf_def)

lemma demand_eq_Inr [simp]: "demand x e = Inr v \<longleftrightarrow> x = Some v"
  by (simp add: demand_def split: option.splits)

lemma demand_eq_Inl [simp]: "demand x e = Inl e' \<longleftrightarrow> x = None \<and> e' = e"
  by (auto simp: demand_def split: option.splits)

lemma demand_Some [simp]: "demand (Some v) e = Inr v"
  by (simp add: demand_def)

lemma demand_None [simp]: "demand None e = Inl e"
  by (simp add: demand_def)

section \<open>Tables\<close>

text \<open>
  \<open>find_by key k rows\<close> is \<open>SELECT ... WHERE key = k\<close> read with \<open>const [row] = ...\<close>: the
  first such row, if any. \<open>update_where P f rows\<close> is \<open>UPDATE ... SET f WHERE P\<close>.
\<close>

definition find_by :: "('r \<Rightarrow> 'k) \<Rightarrow> 'k \<Rightarrow> 'r list \<Rightarrow> 'r option" where
  "find_by key k rows = find (\<lambda>r. key r = k) rows"

definition update_where :: "('r \<Rightarrow> bool) \<Rightarrow> ('r \<Rightarrow> 'r) \<Rightarrow> 'r list \<Rightarrow> 'r list" where
  "update_where P f rows = map (\<lambda>r. if P r then f r else r) rows"

definition sum_where :: "('r \<Rightarrow> bool) \<Rightarrow> ('r \<Rightarrow> int) \<Rightarrow> 'r list \<Rightarrow> int" where
  "sum_where P g rows = sum_list (map g (filter P rows))"

text \<open>
  \<open>insert_unless clash err r rows\<close> is an \<open>INSERT\<close> into a table with a unique index: it fails with
  \<open>err\<close> when a row clashes with the new one.
\<close>

definition insert_unless :: "('r \<Rightarrow> bool) \<Rightarrow> 'e \<Rightarrow> 'r \<Rightarrow> 'r list \<Rightarrow> 'e + 'r list" where
  "insert_unless clash err r rows = (if list_ex clash rows then Inl err else Inr (rows @ [r]))"

lemma insert_unless_eq_Inr [simp]:
  "insert_unless clash err r rows = Inr rows' \<longleftrightarrow> (\<forall>x \<in> set rows. \<not> clash x) \<and> rows' = rows @ [r]"
  by (auto simp: insert_unless_def list_ex_iff)

lemma insert_unless_eq_Inl [simp]:
  "insert_unless clash err r rows = Inl e \<longleftrightarrow> (\<exists>x \<in> set rows. clash x) \<and> e = err"
  by (auto simp: insert_unless_def list_ex_iff)

lemma find_by_Nil [simp]: "find_by key k [] = None"
  by (simp add: find_by_def)

lemma find_by_Cons [simp]:
  "find_by key k (r # rows) = (if key r = k then Some r else find_by key k rows)"
  by (simp add: find_by_def)

lemma update_where_Nil [simp]: "update_where P f [] = []"
  by (simp add: update_where_def)

lemma update_where_Cons [simp]:
  "update_where P f (r # rows) = (if P r then f r else r) # update_where P f rows"
  by (simp add: update_where_def)

lemma sum_where_Nil [simp]: "sum_where P g [] = 0"
  by (simp add: sum_where_def)

lemma sum_where_Cons [simp]:
  "sum_where P g (r # rows) = (if P r then g r else 0) + sum_where P g rows"
  by (simp add: sum_where_def)

lemma sum_where_append [simp]: "sum_where P g (xs @ ys) = sum_where P g xs + sum_where P g ys"
  by (simp add: sum_where_def)

lemma length_update_where [simp]: "length (update_where P f rows) = length rows"
  by (simp add: update_where_def)

lemma find_by_key: "find_by key k rows = Some r \<Longrightarrow> key r = k"
  by (induction rows) (auto split: if_splits)

lemma find_by_in: "find_by key k rows = Some r \<Longrightarrow> r \<in> set rows"
  by (induction rows) (auto split: if_splits)

lemma find_by_None_iff: "find_by key k rows = None \<longleftrightarrow> k \<notin> key ` set rows"
  by (induction rows) auto

lemma find_by_distinct:
  "distinct (map key rows) \<Longrightarrow> r \<in> set rows \<Longrightarrow> find_by key (key r) rows = Some r"
  by (induction rows) auto

lemma find_by_distinct_iff:
  "distinct (map key rows) \<Longrightarrow> find_by key k rows = Some r \<longleftrightarrow> r \<in> set rows \<and> key r = k"
  using find_by_distinct find_by_in find_by_key by fastforce

lemma find_by_append:
  "find_by key k (xs @ ys) = (case find_by key k xs of None \<Rightarrow> find_by key k ys | Some r \<Rightarrow> Some r)"
  by (induction xs) auto

lemma find_by_snoc [table_simps]:
  "k \<notin> key ` set rows \<Longrightarrow> find_by key k (rows @ [r]) = (if key r = k then Some r else None)"
  by (induction rows) auto

lemma find_by_update_where [table_simps]:
  assumes "\<And>r. key (f r) = key r"
  shows "find_by key k (update_where P f rows)
       = map_option (\<lambda>r. if P r then f r else r) (find_by key k rows)"
  using assms by (induction rows) auto

lemma map_update_where [table_simps]:
  assumes "\<And>r. key (f r) = key r"
  shows "map key (update_where P f rows) = map key rows"
  using assms by (induction rows) auto

lemma set_update_where:
  "set (update_where P f rows) = (\<lambda>r. if P r then f r else r) ` set rows"
  by (induction rows) auto

lemma filter_update_where [table_simps]:
  assumes "\<And>r. Q (f r) = Q r"
  shows "filter Q (update_where P f rows) = update_where P f (filter Q rows)"
  using assms by (induction rows) auto

lemma sum_where_cong:
  "(\<And>r. r \<in> set rows \<Longrightarrow> P r = Q r) \<Longrightarrow> (\<And>r. r \<in> set rows \<Longrightarrow> P r \<Longrightarrow> g r = h r)
    \<Longrightarrow> sum_where P g rows = sum_where Q h rows"
  by (induction rows) auto

lemma sum_where_false: "(\<And>r. r \<in> set rows \<Longrightarrow> \<not> P r) \<Longrightarrow> sum_where P g rows = 0"
  by (induction rows) auto

lemma sum_where_nonneg: "(\<And>r. r \<in> set rows \<Longrightarrow> P r \<Longrightarrow> 0 \<le> g r) \<Longrightarrow> 0 \<le> sum_where P g rows"
  by (induction rows) auto

lemma sum_where_mono:
  "(\<And>r. r \<in> set rows \<Longrightarrow> P r \<Longrightarrow> g r \<le> h r) \<Longrightarrow> sum_where P g rows \<le> sum_where P h rows"
  by (induction rows) (auto intro: add_mono)

lemma sum_where_add:
  "sum_where P (\<lambda>r. g r + h r) rows = sum_where P g rows + sum_where P h rows"
  by (induction rows) auto

lemma sum_where_diff:
  "sum_where P (\<lambda>r. g r - h r) rows = sum_where P g rows - sum_where P h rows"
  by (induction rows) auto

lemma sum_where_split:
  "sum_where P g rows = sum_where (\<lambda>r. P r \<and> Q r) g rows + sum_where (\<lambda>r. P r \<and> \<not> Q r) g rows"
  by (induction rows) auto

lemma sum_where_update_where:
  assumes "\<And>r. P (f r) = P r"
  shows "sum_where P g (update_where Q f rows)
       = sum_where P (\<lambda>r. if Q r then g (f r) else g r) rows"
  using assms by (induction rows) auto

lemma sum_list_pick:
  "distinct ks \<Longrightarrow> sum_list (map (\<lambda>k. if x = k then (c::int) else 0) ks) = (if x \<in> set ks then c else 0)"
  by (induction ks) auto

text \<open>Summing a column over the rows that reference a key, over all keys, is summing the column.\<close>

lemma sum_where_partition:
  assumes "distinct ks" and "\<And>r. r \<in> set rows \<Longrightarrow> P r \<Longrightarrow> key r \<in> set ks"
  shows "sum_list (map (\<lambda>k. sum_where (\<lambda>r. P r \<and> key r = k) g rows) ks) = sum_where P g rows"
  using assms(2)
proof (induction rows)
  case Nil
  then show ?case by (induction ks) auto
next
  case (Cons r rows)
  have hit: "sum_list (map (\<lambda>k. if P r \<and> key r = k then g r else 0) ks) = (if P r then g r else 0)"
  proof (cases "P r")
    case True
    then have "key r \<in> set ks" using Cons.prems by simp
    with True \<open>distinct ks\<close> show ?thesis by (simp add: sum_list_pick)
  next
    case False
    then show ?thesis by (induction ks) auto
  qed
  have "sum_list (map (\<lambda>k. sum_where (\<lambda>r. P r \<and> key r = k) g (r # rows)) ks)
      = sum_list (map (\<lambda>k. if P r \<and> key r = k then g r else 0) ks)
        + sum_list (map (\<lambda>k. sum_where (\<lambda>r. P r \<and> key r = k) g rows) ks)"
    by (simp add: sum_list_addf)
  with hit Cons show ?case by simp
qed

end
