(* ===== verification/Money.thy ===== *)
theory Money
  imports JsString "HOL-Library.Signed_Division"
begin

text \<open>
  Money as whole minor units (\<open>packages/contracts/src/money.ts\<close>): reading an amount a person
  types, showing it, and splitting a total by shares in basis points.

  A JavaScript number in these functions is a whole number far below 2^53, where it is exact, so it
  is an \<open>int\<close>. \<open>BigInt\<close> division truncates towards zero: \<open>sdiv\<close>. The number format is the one
  \<open>Intl.NumberFormat\<close> documents for the locale \<open>en\<close>: groups of three digits and two decimals.
\<close>

section \<open>Amounts\<close>

definition MAX_MINOR_UNITS :: int where
  "MAX_MINOR_UNITS = 1000000000000"

definition is_minor_units :: "int \<Rightarrow> bool" where
  "is_minor_units n \<longleftrightarrow> 0 \<le> n \<and> n \<le> MAX_MINOR_UNITS"

definition is_positive_minor_units :: "int \<Rightarrow> bool" where
  "is_positive_minor_units n \<longleftrightarrow> 1 \<le> n \<and> n \<le> MAX_MINOR_UNITS"

text \<open>The regular expression of the source, \<open>^(\d{1,12})(?:\.(\d{1,2}))?$\<close>, as its two groups.\<close>

definition money_match :: "string \<Rightarrow> (string \<times> string) option" where
  "money_match s = (let whole = takeWhile is_digit s; rest = dropWhile is_digit s in
     if 1 \<le> length whole \<and> length whole \<le> 12 then
       (case rest of
          [] \<Rightarrow> Some (whole, [])
        | c # ds \<Rightarrow> if c = CHR ''.'' \<and> 1 \<le> length ds \<and> length ds \<le> 2 \<and> list_all is_digit ds
                    then Some (whole, ds) else None)
     else None)"

definition parseMoney :: "string \<Rightarrow> int option" where
  "parseMoney s = (let cleaned = filter (\<lambda>c. c \<noteq> CHR '','' \<and> \<not> is_space c) (trim s) in
     case money_match cleaned of
       None \<Rightarrow> None
     | Some (whole, frac) \<Rightarrow>
         (let total = int (num_of whole) * 100 + int (num_of (padEnd 2 (CHR ''0'') frac)) in
          if total \<le> MAX_MINOR_UNITS then Some total else None))"

text \<open>Digits in groups of three, as \<open>Intl.NumberFormat('en')\<close> writes them.\<close>

function group3 :: "nat \<Rightarrow> string" where
  "group3 n = (if n < 1000 then show_nat n
               else group3 (n div 1000) @ CHR '','' # padStart 3 (CHR ''0'') (show_nat (n mod 1000)))"
  by auto
termination by (relation "measure id") auto

declare group3.simps [simp del]

definition money_units :: "int \<Rightarrow> string" where
  "money_units n = group3 (nat (abs n div 100)) @ CHR ''.''
                    # padStart 2 (CHR ''0'') (show_nat (nat (abs n mod 100)))"

definition formatMoney :: "int \<Rightarrow> string \<Rightarrow> string" where
  "formatMoney n currency = (if n < 0 then ''-'' else []) @ currency @ '' '' @ money_units n"

lemma pad3_digits:
  "m < 1000 \<Longrightarrow> padStart 3 (CHR ''0'') (show_nat m)
    = [digit_char (m div 100), digit_char (m div 10 mod 10), digit_char (m mod 10)]"
proof -
  assume m: "m < 1000"
  have z: "digit_char 0 = CHR ''0''" by code_simp
  consider "m < 10" | "10 \<le> m" "m < 100" | "100 \<le> m" by linarith
  then show ?thesis
  proof cases
    case 1
    then show ?thesis by (simp add: padStart_def show_nat.simps[of m] z numeral_2_eq_2)
  next
    case 2
    then have "m div 10 < 10" by auto
    with 2 show ?thesis
      by (simp add: padStart_def show_nat.simps[of m] show_nat.simps[of "m div 10"] z)
  next
    case 3
    then have "\<not> m < 10" "\<not> m div 10 < 10" "m div 10 div 10 < 10" using m by auto
    then show ?thesis
      by (simp add: padStart_def show_nat.simps[of m] show_nat.simps[of "m div 10"]
          show_nat.simps[of "m div 100"] div_mult2_eq[symmetric])
  qed
qed

lemma show_nat_groups:
  "1000 \<le> n \<Longrightarrow> show_nat n = show_nat (n div 1000) @ padStart 3 (CHR ''0'') (show_nat (n mod 1000))"
proof -
  assume n: "1000 \<le> n"
  then have big: "\<not> n < 10" "\<not> n div 10 < 10" "\<not> n div 10 div 10 < 10" by auto
  have div3: "n div 10 div 10 div 10 = n div 1000"
    by (simp add: div_mult2_eq[symmetric])
  have d1: "n mod 1000 div 100 = n div 10 div 10 mod 10"
    using mod_mult2_eq[of n 100 10] by (simp add: div_mult2_eq[symmetric])
  have d2: "n mod 1000 div 10 mod 10 = n div 10 mod 10"
    using mod_mult2_eq[of n 10 100] by (simp add: mod_mod_cancel)
  have d3: "n mod 1000 mod 10 = n mod 10" by (simp add: mod_mod_cancel)
  have "show_nat n = show_nat (n div 10 div 10 div 10)
      @ [digit_char (n div 10 div 10 mod 10), digit_char (n div 10 mod 10), digit_char (n mod 10)]"
    using big
    by (simp only: show_nat.simps[of n] show_nat.simps[of "n div 10"] show_nat.simps[of "n div 10 div 10"]
        if_False append_assoc append.simps)
  then show ?thesis by (simp add: pad3_digits div3 d1 d2 d3)
qed

text \<open>What \<open>formatMoney\<close> prints are the digits of the amount, in groups.\<close>

lemma group3_digits: "filter (\<lambda>c. c \<noteq> CHR '','' \<and> \<not> is_space c) (group3 n) = show_nat n"
proof (induction n rule: group3.induct)
  case (1 n)
  have digits: "filter (\<lambda>c. c \<noteq> CHR '','' \<and> \<not> is_space c) s = s" if "\<forall>c \<in> set s. is_digit c" for s
    using that by (auto simp: filter_id_conv is_digit_def is_space_def)
  show ?case
  proof (cases "n < 1000")
    case True
    then show ?thesis by (simp add: group3.simps[of n] digits digits_show_nat)
  next
    case False
    then show ?thesis
      using 1 by (subst group3.simps)
        (simp add: digits[OF digits_padStart[OF digits_show_nat]] show_nat_groups[of n])
  qed
qed

lemma money_match_digits:
  assumes "\<forall>c \<in> set w. is_digit c" "1 \<le> length w" "length w \<le> 12"
    and "\<forall>c \<in> set f. is_digit c" "length f = 2"
  shows "money_match (w @ CHR ''.'' # f) = Some (w, f)"
proof -
  have "\<not> is_digit (CHR ''.'')" by (simp add: is_digit_def)
  moreover have "takeWhile is_digit (w @ CHR ''.'' # f) = w @ takeWhile is_digit (CHR ''.'' # f)"
    "dropWhile is_digit (w @ CHR ''.'' # f) = dropWhile is_digit (CHR ''.'' # f)"
    using assms(1) by (auto simp: takeWhile_append2 dropWhile_append2)
  ultimately show ?thesis
    using assms by (simp add: money_match_def Let_def list_all_iff)
qed

section \<open>Splitting a total\<close>

definition splitByBasisPoints :: "int \<Rightarrow> int list \<Rightarrow> string + int list" where
  "splitByBasisPoints amount shares =
     (if shares = [] then Inl ''Need at least one share''
      else if sum_list shares \<noteq> 10000 then Inl ''Shares must add up to 10000 basis points''
      else let parts = map (\<lambda>bp. (amount * bp) sdiv 10000) shares;
               allocated = sum_list parts
           in Inr (parts[length parts - 1 := parts ! (length parts - 1) + (amount - allocated)]))"

lemma sum_list_update_last:
  "xs \<noteq> [] \<Longrightarrow> sum_list (xs[length xs - 1 := xs ! (length xs - 1) + d]) = sum_list xs + (d::int)"
  by (induction xs rule: rev_induct) (auto simp: nth_append list_update_append)

lemma sdiv_nonneg: "0 \<le> (a::int) \<Longrightarrow> 0 < b \<Longrightarrow> a sdiv b = a div b"
  by (simp add: signed_divide_int_def sgn_if)

lemma split_length_sum:
  assumes "splitByBasisPoints amount shares = Inr parts"
  shows "length parts = length shares" and "sum_list parts = amount"
proof -
  let ?ps = "map (\<lambda>bp. (amount * bp) sdiv 10000) shares"
  have ne: "shares \<noteq> []"
    and parts: "parts = ?ps[length ?ps - 1 := ?ps ! (length ?ps - 1) + (amount - sum_list ?ps)]"
    using assms by (auto simp: splitByBasisPoints_def Let_def split: if_splits)
  show "length parts = length shares" by (simp add: parts)
  show "sum_list parts = amount"
    unfolding parts by (subst sum_list_update_last) (use ne in auto)
qed

lemma split_ok_iff:
  "(\<exists>parts. splitByBasisPoints amount shares = Inr parts) \<longleftrightarrow> shares \<noteq> [] \<and> sum_list shares = 10000"
  by (auto simp: splitByBasisPoints_def Let_def)

lemma floors_le:
  assumes "0 \<le> (amount::int)"
  shows "10000 * sum_list (map (\<lambda>bp. amount * bp div 10000) shares) \<le> amount * sum_list shares"
    and "amount * sum_list shares - 9999 * int (length shares)
          \<le> 10000 * sum_list (map (\<lambda>bp. amount * bp div 10000) shares)"
proof -
  have "10000 * (amount * bp div 10000) \<le> amount * bp" for bp :: int
    by simp
  then show "10000 * sum_list (map (\<lambda>bp. amount * bp div 10000) shares) \<le> amount * sum_list shares"
    by (induction shares) (simp_all add: algebra_simps add_mono)
  have "amount * bp - 9999 \<le> 10000 * (amount * bp div 10000)" for bp :: int
    by linarith
  then show "amount * sum_list shares - 9999 * int (length shares)
      \<le> 10000 * sum_list (map (\<lambda>bp. amount * bp div 10000) shares)"
  proof (induction shares)
    case (Cons bp shares)
    have "amount * bp - 9999 \<le> 10000 * (amount * bp div 10000)" by fact
    moreover have "amount * sum_list shares - 9999 * int (length shares)
        \<le> 10000 * sum_list (map (\<lambda>bp. amount * bp div 10000) shares)"
      using Cons by simp
    ultimately show ?case by (simp add: algebra_simps)
  qed simp
qed

text \<open>Every part is its floor, but for the last, which takes the fewer than \<open>length shares\<close> left over.\<close>

lemma split_parts:
  assumes "splitByBasisPoints amount shares = Inr parts" "0 \<le> amount" "\<forall>bp \<in> set shares. 0 \<le> bp"
    and "i < length parts"
  shows "amount * shares ! i div 10000 \<le> parts ! i"
    and "i < length parts - 1 \<Longrightarrow> parts ! i = amount * shares ! i div 10000"
    and "parts ! i \<le> amount * shares ! i div 10000 + int (length parts) - 1 \<or> length parts = 0"
proof -
  let ?fl = "map (\<lambda>bp. amount * bp div 10000) shares"
  have ne: "shares \<noteq> []" and sum: "sum_list shares = 10000"
    using assms(1) split_ok_iff by blast+
  have fl: "map (\<lambda>bp. (amount * bp) sdiv 10000) shares = ?fl"
    using assms(2,3) by (auto simp: sdiv_nonneg)
  have parts: "parts = ?fl[length shares - 1 := ?fl ! (length shares - 1) + (amount - sum_list ?fl)]"
    using assms(1) ne sum by (simp add: splitByBasisPoints_def Let_def fl)
  have len: "length parts = length shares" by (simp add: parts)
  have bounds: "0 \<le> amount - sum_list ?fl" "10000 * (amount - sum_list ?fl) \<le> 9999 * int (length shares)"
    using floors_le[OF assms(2), of shares] by (simp_all add: sum)
  then have rem: "amount - sum_list ?fl < int (length shares)"
    using ne by (cases shares) auto
  show "i < length parts - 1 \<Longrightarrow> parts ! i = amount * shares ! i div 10000"
    using assms(4) len by (auto simp: parts nth_list_update)
  show "amount * shares ! i div 10000 \<le> parts ! i"
    using assms(4) len bounds by (auto simp: parts nth_list_update)
  show "parts ! i \<le> amount * shares ! i div 10000 + int (length parts) - 1 \<or> length parts = 0"
    using assms(4) len rem by (auto simp: parts nth_list_update)
qed

lemma split_nonneg:
  assumes "splitByBasisPoints amount shares = Inr parts" "0 \<le> amount" "\<forall>bp \<in> set shares. 0 \<le> bp"
  shows "\<forall>p \<in> set parts. 0 \<le> p"
proof
  fix p assume "p \<in> set parts"
  then obtain i where i: "i < length parts" "p = parts ! i" by (auto simp: in_set_conv_nth)
  then have "0 \<le> amount * shares ! i div 10000"
    using assms split_length_sum(1)[OF assms(1)] by (simp add: pos_imp_zdiv_nonneg_iff)
  then show "0 \<le> p" using split_parts(1)[OF assms i(1)] i(2) by linarith
qed

end
