(* ===== verification/Dates.thy ===== *)
theory Dates
  imports JsString
begin

text \<open>
  Calendar dates as the program uses them: \<open>"YYYY-MM-DD"\<close> strings compared as strings, moved by
  whole days in UTC (\<open>apps/api/src/common/dates.ts\<close>), and subtracted to count days. The type
  keeps the three fields; its order is the order of the strings (\<open>iso_date_less\<close>).
  Years are whole numbers; the strings have four digits, so the comparison with strings is proved
  for the years 0 to 9999, which is what the request schemas accept.
\<close>

section \<open>Dates and their order\<close>

datatype date = Date (year: int) (month: nat) (day: nat)

instantiation date :: linorder
begin

definition less_eq_date :: "date \<Rightarrow> date \<Rightarrow> bool" where
  "less_eq_date a b \<longleftrightarrow> year a < year b \<or> (year a = year b \<and>
     (month a < month b \<or> (month a = month b \<and> day a \<le> day b)))"

definition less_date :: "date \<Rightarrow> date \<Rightarrow> bool" where
  "less_date a b \<longleftrightarrow> year a < year b \<or> (year a = year b \<and>
     (month a < month b \<or> (month a = month b \<and> day a < day b)))"

instance
proof
  fix a b c :: date
  show "a < b \<longleftrightarrow> a \<le> b \<and> \<not> b \<le> a" by (auto simp: less_eq_date_def less_date_def)
  show "a \<le> a" by (simp add: less_eq_date_def)
  show "a \<le> b \<Longrightarrow> b \<le> c \<Longrightarrow> a \<le> c" by (auto simp: less_eq_date_def)
  show "a \<le> b \<Longrightarrow> b \<le> a \<Longrightarrow> a = b" by (cases a; cases b) (auto simp: less_eq_date_def)
  show "a \<le> b \<or> b \<le> a" by (auto simp: less_eq_date_def)
qed

end

section \<open>The calendar\<close>

definition leap :: "int \<Rightarrow> bool" where
  "leap y \<longleftrightarrow> (4 dvd y \<and> \<not> 100 dvd y) \<or> 400 dvd y"

definition days_in_month :: "int \<Rightarrow> nat \<Rightarrow> nat" where
  "days_in_month y m = (if m = 2 then (if leap y then 29 else 28)
     else if m = 4 \<or> m = 6 \<or> m = 9 \<or> m = 11 then 30 else 31)"

definition valid_date :: "date \<Rightarrow> bool" where
  "valid_date d \<longleftrightarrow> 1 \<le> month d \<and> month d \<le> 12 \<and> 1 \<le> day d \<and> day d \<le> days_in_month (year d) (month d)"

definition next_day :: "date \<Rightarrow> date" where
  "next_day d =
    (if day d < days_in_month (year d) (month d) then Date (year d) (month d) (day d + 1)
     else if month d < 12 then Date (year d) (month d + 1) 1
     else Date (year d + 1) 1 1)"

definition prev_day :: "date \<Rightarrow> date" where
  "prev_day d =
    (if 1 < day d then Date (year d) (month d) (day d - 1)
     else if 1 < month d then Date (year d) (month d - 1) (days_in_month (year d) (month d - 1))
     else Date (year d - 1) 12 31)"

text \<open>\<open>addDays\<close>: \<open>setUTCDate(getUTCDate() + days)\<close> moves a date that many days on, or back.\<close>

definition addDays :: "date \<Rightarrow> int \<Rightarrow> date" where
  "addDays d n = (if 0 \<le> n then (next_day ^^ nat n) d else (prev_day ^^ nat (- n)) d)"

text \<open>One day at a time, as evaluation does it.\<close>

lemma addDays_code [code]:
  "addDays d n = (if n = 0 then d else if 0 < n then addDays (next_day d) (n - 1) else addDays (prev_day d) (n + 1))"
proof -
  consider "n = 0" | "0 < n" | "n < 0" by linarith
  then show ?thesis
  proof cases
    case 2
    then have "nat n = Suc (nat (n - 1))" by simp
    then show ?thesis using 2 by (simp add: addDays_def funpow_swap1)
  next
    case 3
    then have "nat (- n) = Suc (nat (- (n + 1)))" by simp
    then show ?thesis using 3 by (auto simp: addDays_def funpow_swap1)
  qed (simp add: addDays_def)
qed

text \<open>
  The day number since 1970-01-01 that \<open>Date\<close> keeps: ECMAScript's \<open>DayFromYear\<close>, the days of the
  months before, and the day of the month.
\<close>

definition day_from_year :: "int \<Rightarrow> int" where
  "day_from_year y = 365 * (y - 1970) + (y - 1969) div 4 - (y - 1901) div 100 + (y - 1601) div 400"

fun days_before_month :: "int \<Rightarrow> nat \<Rightarrow> int" where
  "days_before_month y 0 = 0"
| "days_before_month y (Suc m) = (if m = 0 then 0 else days_before_month y m + int (days_in_month y m))"

definition days_of :: "date \<Rightarrow> int" where
  "days_of d = day_from_year (year d) + days_before_month (year d) (month d) + int (day d) - 1"

text \<open>\<open>weekdayOf\<close>: \<open>getUTCDay\<close>, 0 for Sunday; 1970-01-01 was a Thursday.\<close>

definition weekdayOf :: "date \<Rightarrow> int" where
  "weekdayOf d = (days_of d + 4) mod 7"

definition daysPastDue :: "date \<Rightarrow> date \<Rightarrow> int" where
  "daysPastDue today dueDate = days_of today - days_of dueDate"

section \<open>Day numbers and days agree\<close>

lemma div_plus_one:
  assumes "0 < (k::int)" shows "(a + 1) div k = a div k + (if k dvd a + 1 then 1 else 0)"
proof -
  define q r where "q = a div k" and "r = a mod k"
  have a: "a = k * q + r" by (simp add: q_def r_def)
  have r: "0 \<le> r" "r < k" using assms by (simp_all add: r_def)
  show ?thesis
  proof (cases "r = k - 1")
    case True
    then have "a + 1 = k * (q + 1)" using a by (simp add: algebra_simps)
    then show ?thesis using assms by (simp add: q_def)
  next
    case False
    then have 1: "r + 1 < k" using r by simp
    have "(k * q + (r + 1)) div k = q + (r + 1) div k" using assms by simp
    moreover have "(r + 1) div k = 0" using r 1 by (simp add: div_pos_pos_trivial)
    ultimately have "(a + 1) div k = q" using a by (simp add: add.assoc)
    moreover have "\<not> k dvd a + 1"
    proof
      assume "k dvd a + 1"
      then have "k dvd r + 1" using a by (metis add.assoc dvd_add_times_triv_left_iff mult.commute)
      then show False using r 1 zdvd_not_zless [of "r + 1" k] by simp
    qed
    ultimately show ?thesis by (simp add: q_def)
  qed
qed

lemma dvd_minus_multiple: "(k::int) dvd c \<Longrightarrow> k dvd y - c \<longleftrightarrow> k dvd y"
  by (metis diff_add_cancel dvd_add_left_iff)

lemma day_from_year_Suc: "day_from_year (y + 1) = day_from_year y + (if leap y then 366 else 365)"
proof -
  have 4: "(y - 1968) div 4 = (y - 1969) div 4 + (if 4 dvd y then 1 else 0)"
    using div_plus_one [of 4 "y - 1969"] dvd_minus_multiple [of 4 1968 y] by simp
  have 100: "(y - 1900) div 100 = (y - 1901) div 100 + (if 100 dvd y then 1 else 0)"
    using div_plus_one [of 100 "y - 1901"] dvd_minus_multiple [of 100 1900 y] by simp
  have 400: "(y - 1600) div 400 = (y - 1601) div 400 + (if 400 dvd y then 1 else 0)"
    using div_plus_one [of 400 "y - 1601"] dvd_minus_multiple [of 400 1600 y] by simp
  have "day_from_year (y + 1) - day_from_year y =
      365 + (if 4 dvd y then 1 else 0) - (if 100 dvd y then 1 else 0) + (if 400 dvd y then 1 else (0::int))"
    using 4 100 400 by (simp add: day_from_year_def algebra_simps)
  moreover have "100 dvd y \<Longrightarrow> 4 dvd y" using dvd_trans [of 4 "100::int" y] by simp
  moreover have "400 dvd y \<Longrightarrow> 100 dvd y" using dvd_trans [of 100 "400::int" y] by simp
  ultimately show ?thesis
    by (cases "4 dvd y"; cases "100 dvd y"; cases "400 dvd y") (simp_all add: leap_def)
qed

lemma days_in_month_bounds: "28 \<le> days_in_month y m" "days_in_month y m \<le> 31" "0 < days_in_month y m"
  by (simp_all add: days_in_month_def)

lemma days_before_13: "days_before_month y 13 = (if leap y then 366 else 365)"
  by (simp add: eval_nat_numeral days_in_month_def)

lemma days_before_month_Suc:
  "1 \<le> m \<Longrightarrow> days_before_month y (Suc m) = days_before_month y m + int (days_in_month y m)"
  by simp

declare days_before_month.simps(2) [simp del]

lemma days_before_1 [simp]: "days_before_month y (Suc 0) = 0"
  by (simp add: days_before_month.simps)

lemma days_in_month_12: "days_in_month y 12 = 31"
  by (simp add: days_in_month_def)

lemma valid_next_day [simp]: "valid_date d \<Longrightarrow> valid_date (next_day d)"
  using days_in_month_bounds(3) [of "year d" "month d + 1"] days_in_month_bounds(3) [of "year d + 1" 1]
  by (auto simp: valid_date_def next_day_def)

lemma valid_prev_day [simp]: "valid_date d \<Longrightarrow> valid_date (prev_day d)"
  using days_in_month_bounds(3) [of "year d" "month d - 1"]
  by (auto simp: valid_date_def prev_day_def days_in_month_12)

lemma days_of_next_day [simp]:
  assumes "valid_date d" shows "days_of (next_day d) = days_of d + 1"
proof -
  consider (day) "day d < days_in_month (year d) (month d)"
    | (month) "day d = days_in_month (year d) (month d)" "month d < 12"
    | (year) "day d = days_in_month (year d) (month d)" "month d = 12"
    using assms by (fastforce simp: valid_date_def)
  then show ?thesis
  proof cases
    case day
    then show ?thesis by (simp add: next_day_def days_of_def)
  next
    case month
    then show ?thesis
      using assms by (simp add: next_day_def days_of_def days_before_month_Suc valid_date_def)
  next
    case year
    have "days_before_month (Dates.year d) 13
        = days_before_month (Dates.year d) 12 + int (days_in_month (Dates.year d) 12)"
      using days_before_month_Suc [of 12 "Dates.year d"] by simp
    then show ?thesis
      using year days_before_13 [of "Dates.year d"] day_from_year_Suc [of "Dates.year d"]
      by (simp add: next_day_def days_of_def)
  qed
qed

lemma next_prev_day [simp]: "valid_date d \<Longrightarrow> next_day (prev_day d) = d"
  by (cases d) (auto simp: valid_date_def next_day_def prev_day_def days_in_month_12)

lemma days_of_prev_day [simp]: "valid_date d \<Longrightarrow> days_of (prev_day d) = days_of d - 1"
  using days_of_next_day [of "prev_day d"] by simp

lemma valid_days: "valid_date d \<Longrightarrow> valid_date ((next_day ^^ n) d)" "valid_date d \<Longrightarrow> valid_date ((prev_day ^^ n) d)"
  by (induction n) auto

lemma days_of_days:
  "valid_date d \<Longrightarrow> days_of ((next_day ^^ n) d) = days_of d + int n"
  "valid_date d \<Longrightarrow> days_of ((prev_day ^^ n) d) = days_of d - int n"
  by (induction n) (auto simp: valid_days)

lemma valid_addDays [simp]: "valid_date d \<Longrightarrow> valid_date (addDays d n)"
  by (simp add: addDays_def valid_days)

lemma days_of_addDays [simp]: "valid_date d \<Longrightarrow> days_of (addDays d n) = days_of d + n"
  by (simp add: addDays_def days_of_days)

section \<open>The order of dates is the order of their day numbers\<close>

lemma day_from_year_le: "y \<le> z \<Longrightarrow> day_from_year y \<le> day_from_year z"
proof (induction "nat (z - y)" arbitrary: z)
  case (Suc n)
  then have "n = nat ((z - 1) - y)" "y \<le> z - 1" by auto
  then have "day_from_year y \<le> day_from_year (z - 1)" by (rule Suc(1))
  also have "\<dots> \<le> day_from_year z" using day_from_year_Suc [of "z - 1"] by (simp split: if_splits)
  finally show ?case .
qed simp

lemma days_before_month_le: "1 \<le> m \<Longrightarrow> m \<le> n \<Longrightarrow> days_before_month y m \<le> days_before_month y n"
proof (induction n)
  case (Suc n)
  then show ?case
    by (cases "m = Suc n") (auto simp: days_before_month_Suc)
qed simp

lemma days_before_next_month:
  assumes "valid_date d" and "month d < m" shows "days_before_month (year d) (month d) + int (day d) \<le> days_before_month (year d) m"
proof -
  have "days_before_month (year d) (Suc (month d)) \<le> days_before_month (year d) m"
    using assms by (intro days_before_month_le) auto
  then show ?thesis using assms by (simp add: days_before_month_Suc valid_date_def)
qed

lemma days_of_in_year:
  assumes "valid_date d"
  shows "day_from_year (year d) \<le> days_of d" "days_of d < day_from_year (year d + 1)"
proof -
  have "0 \<le> days_before_month (year d) (month d)"
    using days_before_month_le [of 1 "month d" "year d"] assms by (simp add: valid_date_def)
  then show "day_from_year (year d) \<le> days_of d"
    using assms by (simp add: days_of_def valid_date_def)
  show "days_of d < day_from_year (year d + 1)"
    using days_before_next_month [of d 13] assms days_before_13 [of "year d"]
      day_from_year_Suc [of "year d"] by (simp add: days_of_def valid_date_def)
qed

lemma days_of_strict_mono:
  assumes "valid_date a" "valid_date b" "a < b" shows "days_of a < days_of b"
proof -
  consider "year a < year b" | "year a = year b" "month a < month b"
    | "year a = year b" "month a = month b" "day a < day b"
    using assms(3) by (auto simp: less_date_def)
  then show ?thesis
  proof cases
    case 1
    then have "day_from_year (year a + 1) \<le> day_from_year (year b)" by (intro day_from_year_le) simp
    with days_of_in_year [OF assms(1)] days_of_in_year [OF assms(2)] show ?thesis by simp
  next
    case 2
    then show ?thesis
      using days_before_next_month [OF assms(1), of "month b"] assms(2) by (simp add: days_of_def valid_date_def)
  next
    case 3
    then show ?thesis by (simp add: days_of_def)
  qed
qed

lemma days_of_less_iff [simp]: "valid_date a \<Longrightarrow> valid_date b \<Longrightarrow> days_of a < days_of b \<longleftrightarrow> a < b"
  by (metis days_of_strict_mono not_less_iff_gr_or_eq)

lemma days_of_eq_iff [simp]: "valid_date a \<Longrightarrow> valid_date b \<Longrightarrow> days_of a = days_of b \<longleftrightarrow> a = b"
  by (metis days_of_strict_mono not_less_iff_gr_or_eq)

lemma days_of_le_iff [simp]: "valid_date a \<Longrightarrow> valid_date b \<Longrightarrow> days_of a \<le> days_of b \<longleftrightarrow> a \<le> b"
  by (meson days_of_less_iff leD leI)

lemma addDays_0 [simp]: "addDays d 0 = d"
  by (simp add: addDays_def)

lemma addDays_add: "valid_date d \<Longrightarrow> addDays (addDays d a) b = addDays d (a + b)"
  by (rule days_of_eq_iff [THEN iffD1]) simp_all

lemma addDays_mono: "valid_date d \<Longrightarrow> a \<le> b \<Longrightarrow> addDays d a \<le> addDays d b"
  by (rule days_of_le_iff [THEN iffD1]) simp_all

section \<open>The printed form\<close>

definition pad2 :: "nat \<Rightarrow> string" where
  "pad2 n = padStart 2 (CHR ''0'') (show_nat n)"

definition iso_date :: "date \<Rightarrow> string" where
  "iso_date d = padStart 4 (CHR ''0'') (show_nat (nat (year d))) @ ''-'' @ pad2 (month d) @ ''-'' @ pad2 (day d)"

text \<open>\<open>date.slice(5)\<close>: the month and day, \<open>"MM-DD"\<close>, what a yearly holiday is compared by.\<close>

definition month_day :: "date \<Rightarrow> string" where
  "month_day d = drop 5 (iso_date d)"

lemma num_of_bound: "\<forall>c \<in> set s. is_digit c \<Longrightarrow> num_of s < 10 ^ length s"
proof (induction s rule: rev_induct)
  case (snoc c s)
  then have "char_digit c \<le> 9" by (auto simp: is_digit_def char_digit_def)
  with snoc show ?case by (simp add: num_of_snoc)
qed simp

lemma num_of_Cons: "num_of (c # s) = char_digit c * 10 ^ length s + num_of s"
  using num_of_append [of "[c]" s] num_of_snoc [of "[]" c] by simp

lemma digits_less_iff:
  assumes "length s = length t" "\<forall>c \<in> set s. is_digit c" "\<forall>c \<in> set t. is_digit c"
  shows "s < t \<longleftrightarrow> num_of s < num_of t"
  using assms
proof (induction s t rule: list_induct2)
  case (Cons c s d t)
  have s: "num_of s < 10 ^ length s" and t: "num_of t < 10 ^ length s"
    using num_of_bound [of s] num_of_bound [of t] Cons by auto
  have "48 \<le> (of_char c :: nat)" "48 \<le> (of_char d :: nat)" using Cons.prems by (auto simp: is_digit_def)
  then have less: "c < d \<longleftrightarrow> char_digit c < char_digit d" and eq: "c = d \<longleftrightarrow> char_digit c = char_digit d"
    by (auto simp: less_char_def char_digit_def eq_diff_iff)
  show ?case
  proof (cases "char_digit c" "char_digit d" rule: linorder_cases)
    case less
    then have "(char_digit c + 1) * 10 ^ length s \<le> char_digit d * 10 ^ length s" by (intro mult_right_mono) auto
    with s t less \<open>c < d \<longleftrightarrow> _\<close> Cons.hyps show ?thesis by (simp add: num_of_Cons algebra_simps)
  next
    case equal
    with eq less Cons show ?thesis by (simp add: num_of_Cons)
  next
    case greater
    then have "(char_digit d + 1) * 10 ^ length s \<le> char_digit c * 10 ^ length s" by (intro mult_right_mono) auto
    with s t greater less eq Cons.hyps show ?thesis by (auto simp add: num_of_Cons algebra_simps)
  qed
qed simp

lemma append_less_iff: "length (s::string) = length t \<Longrightarrow> s @ u < t @ v \<longleftrightarrow> s < t \<or> (s = t \<and> u < v)"
  by (induction s t rule: list_induct2) auto

lemma pad_less_iff:
  assumes "m < 10 ^ Suc k" "n < 10 ^ Suc k"
  shows "padStart (Suc k) (CHR ''0'') (show_nat m) < padStart (Suc k) (CHR ''0'') (show_nat n) \<longleftrightarrow> m < n"
proof -
  let ?p = "\<lambda>n. padStart (Suc k) (CHR ''0'') (show_nat n)"
  have "length (?p m) = length (?p n)"
    using assms by (simp add: length_padStart length_show_nat max_absorb1)
  then have "?p m < ?p n \<longleftrightarrow> num_of (?p m) < num_of (?p n)"
    by (intro digits_less_iff digits_padStart digits_show_nat)
  then show ?thesis by simp
qed

lemma length_pad: "n < 10 ^ Suc k \<Longrightarrow> length (padStart (Suc k) (CHR ''0'') (show_nat n)) = Suc k"
  by (simp add: length_padStart length_show_nat max_absorb1)

lemma pad2_less_iff: "m < 100 \<Longrightarrow> n < 100 \<Longrightarrow> pad2 m < pad2 n \<longleftrightarrow> m < n"
  using pad_less_iff [of m 1 n] by (simp add: pad2_def numeral_2_eq_2)

lemma pad2_eq_iff [simp]: "pad2 m = pad2 n \<longleftrightarrow> m = n"
  by (simp add: pad2_def padStart_show_inject)

lemma length_pad2: "n < 100 \<Longrightarrow> length (pad2 n) = 2"
  using length_pad [of n 1] by (simp add: pad2_def numeral_2_eq_2)

lemma iso_date_less:
  assumes "valid_date a" "valid_date b" "0 \<le> year a" "year a \<le> 9999" "0 \<le> year b" "year b \<le> 9999"
  shows "iso_date a < iso_date b \<longleftrightarrow> a < b"
proof -
  let ?y = "\<lambda>d. padStart 4 (CHR ''0'') (show_nat (nat (year d)))"
  have bound: "nat (year a) < 10 ^ Suc 3" "nat (year b) < 10 ^ Suc 3" and four: "Suc 3 = 4"
    using assms by simp_all
  have len: "length (?y a) = 4" "length (?y b) = 4"
    using bound [THEN length_pad] by (simp_all only: four)
  have year: "?y a < ?y b \<longleftrightarrow> year a < year b" "?y a = ?y b \<longleftrightarrow> year a = year b"
    using pad_less_iff [OF bound] assms by (simp_all only: four padStart_show_inject) auto
  have md: "month a < 100" "month b < 100" "day a < 100" "day b < 100"
    using assms days_in_month_bounds(2) [of "year a" "month a"] days_in_month_bounds(2) [of "year b" "month b"]
    by (auto simp: valid_date_def)
  show ?thesis
    using len md by (simp add: iso_date_def append_less_iff year length_pad2 pad2_less_iff less_date_def)
qed

end
