(* ===== verification/Schema.thy ===== *)
theory Schema
  imports Complex_Main Dates
begin

text \<open>
  The tables of the database (\<open>packages/db/src/schema\<close>), one record per table and one list of rows
  per table in the state \<open>db\<close>. A \<open>uuid\<close> is a number: \<open>uuidv7()\<close> is time-ordered, so a
  fresh id is larger than every earlier one and \<open>next_id\<close> is the next to be given. An instant is a
  number of microseconds, what the columns hold (a \<open>Date\<close> of the code is a whole number of milliseconds), a \<open>date\<close> column a \<open>date\<close>, money a whole number of minor units,
  \<open>double precision\<close> a rational, \<open>jsonb\<close> a \<open>json\<close>. A nullable column is an \<open>option\<close>.
\<close>

section \<open>JSON values\<close>

type_synonym uuid = nat
type_synonym instant = int

datatype json =
    JNull
  | JBool bool
  | JInt int
  | JRat rat
  | JStr string
  | JUuid uuid
  | JArr "json list"
  | JObj "(string \<times> json) list"

definition json_opt :: "('a \<Rightarrow> json) \<Rightarrow> 'a option \<Rightarrow> json" where
  "json_opt f x = (case x of None \<Rightarrow> JNull | Some v \<Rightarrow> f v)"

section \<open>Standard columns\<close>

record has_id =
  row_id :: uuid

record base_row = has_id +
  createdAt :: instant
  updatedAt :: instant
  createdBy :: "uuid option"
  updatedBy :: "uuid option"
  version :: int

section \<open>Settings\<close>

datatype locale_code = En | Am
datatype calendar_display = Gregorian | Ethiopian | Both

record institution_row = base_row +
  inst_name :: string
  inst_shortName :: string
  inst_tagline :: "string option"
  inst_email :: "string option"
  inst_phone :: "string option"
  inst_website :: "string option"
  inst_address :: "string option"
  inst_city :: "string option"
  inst_country :: string
  inst_primaryColor :: string
  inst_locale :: locale_code
  inst_currency :: string
  inst_timezone :: string
  inst_calendarDisplay :: calendar_display
  inst_fiscalYearStart :: string
  inst_certificateRequiresPaidInFull :: bool
  inst_setupCompletedAt :: "instant option"

record branch_row = base_row +
  br_code :: string
  br_name :: string
  br_address :: "string option"
  br_phone :: "string option"
  br_isActive :: bool

record department_row = base_row +
  dept_code :: string
  dept_name :: string
  dept_description :: string
  dept_isActive :: bool
  dept_sortOrder :: int

record module_setting_row =
  mod_key :: string
  mod_enabled :: bool
  mod_updatedAt :: instant
  mod_updatedBy :: "uuid option"

record descriptor_row = base_row +
  ds_namespace :: string
  ds_code :: string
  ds_label :: string
  ds_sortOrder :: int
  ds_isActive :: bool

datatype field_type = FText | FLongText | FNumber | FDate | FSelect | FCheckbox
datatype entity_type = EStudent | EApplication | EStaff | ECohort

record custom_field_row = base_row +
  cf_entityType :: entity_type
  cf_key :: string
  cf_label :: string
  cf_fieldType :: field_type
  cf_options :: "string list"
  cf_required :: bool
  cf_helpText :: string
  cf_isActive :: bool
  cf_sortOrder :: int

record number_series_row =
  ns_key :: string
  ns_pattern :: string
  ns_updatedAt :: instant
  ns_updatedBy :: "uuid option"

record number_counter_row =
  nc_seriesKey :: string
  nc_scope :: string
  nc_lastValue :: nat
  nc_updatedAt :: instant

section \<open>Catalog\<close>

datatype program_type = LongCourse | ShortCourse | ExamPrep
datatype room_type = Classroom | Lab | Studio

record program_row = base_row +
  prog_departmentId :: uuid
  prog_code :: string
  prog_name :: string
  prog_type :: program_type
  prog_description :: string
  prog_isPublished :: bool
  prog_sortOrder :: int

record course_row = base_row +
  crs_programId :: uuid
  crs_code :: string
  crs_name :: string
  crs_levelOrder :: int
  crs_durationWeeks :: "int option"
  crs_totalHours :: "int option"
  crs_minAttendancePercent :: "int option"
  crs_minScore :: "rat option"
  crs_certificateEligible :: bool
  crs_isActive :: bool
  crs_sortOrder :: int

record prerequisite_row =
  pre_courseId :: uuid
  pre_prerequisiteCourseId :: uuid

record academic_year_row = base_row +
  ay_name :: string
  ay_startDate :: date
  ay_endDate :: date

record intake_row = base_row +
  itk_programId :: "uuid option"
  itk_name :: string
  itk_startDate :: date
  itk_registrationOpensAt :: "instant option"
  itk_registrationClosesAt :: "instant option"
  itk_isActive :: bool

record holiday_row = base_row +
  hol_date :: date
  hol_name :: string
  hol_isRecurringAnnually :: bool
  hol_branchId :: "uuid option"

record shift_row = base_row +
  sh_code :: string
  sh_name :: string
  sh_daysOfWeek :: "int list"
  sh_startTime :: string
  sh_endTime :: string
  sh_isActive :: bool

record room_row = base_row +
  rm_branchId :: uuid
  rm_code :: string
  rm_name :: string
  rm_type :: room_type
  rm_capacity :: int
  rm_features :: "string list"
  rm_isActive :: bool

section \<open>People\<close>

datatype gender = Female | Male
datatype student_status = StActive | StOnHold | StGraduated | StWithdrawn | StAlumni
datatype application_status =
    Submitted | Contacted | PlacementScheduled | Placed | Offered | Confirmed
  | Enrolled | Rejected | AppWithdrawn | Expired

record student_row = base_row +
  st_number :: string
  st_givenName :: string
  st_fatherName :: string
  st_grandfatherName :: "string option"
  st_gender :: gender
  st_dateOfBirth :: "date option"
  st_phone :: string
  st_email :: "string option"
  st_address :: "string option"
  st_city :: "string option"
  st_status :: student_status
  st_branchId :: uuid
  st_categoryCode :: "string option"
  st_customFields :: json

record guardian_row = has_id +
  gd_studentId :: uuid
  gd_name :: string
  gd_relationship :: string
  gd_phone :: string
  gd_email :: "string option"
  gd_isPrimary :: bool
  gd_isPayer :: bool
  gd_createdAt :: instant

record application_row = base_row +
  app_reference :: string
  app_status :: application_status
  app_givenName :: string
  app_fatherName :: string
  app_grandfatherName :: "string option"
  app_gender :: gender
  app_dateOfBirth :: "date option"
  app_phone :: string
  app_email :: "string option"
  app_address :: "string option"
  app_city :: "string option"
  app_branchId :: uuid
  app_source :: "string option"
  app_desiredCourseId :: "uuid option"
  app_preferredShiftId :: "uuid option"
  app_preferredIntakeId :: "uuid option"
  app_notes :: "string option"
  app_customFields :: json
  app_placementScore :: "rat option"
  app_placementCourseId :: "uuid option"
  app_placementNotes :: "string option"
  app_placedAt :: "instant option"
  app_studentId :: "uuid option"

datatype account_status = AccActive | AccDisabled

record user_row = base_row +
  usr_email :: string
  usr_displayName :: string
  usr_passwordHash :: "string option"
  usr_status :: account_status
  usr_mfaEnforced :: bool
  usr_failedLoginCount :: int
  usr_lockedUntil :: "instant option"
  usr_lastLoginAt :: "instant option"
  usr_passwordChangedAt :: "instant option"

record session_token_row = has_id +
  us_userId :: uuid
  us_tokenHash :: string
  us_createdAt :: instant
  us_lastSeenAt :: instant
  us_idleExpiresAt :: instant
  us_absoluteExpiresAt :: instant
  us_mfaVerifiedAt :: "instant option"
  us_mfaFailedAttempts :: int
  us_ipAddress :: "string option"
  us_userAgent :: "string option"
  us_revokedAt :: "instant option"
  us_revokedReason :: "string option"

record totp_factor_row = has_id +
  tf_userId :: uuid
  tf_secretCiphertext :: string
  tf_confirmedAt :: "instant option"
  tf_lastUsedTimeStep :: "int option"
  tf_createdAt :: instant
  tf_updatedAt :: instant

record recovery_code_row = has_id +
  rcv_userId :: uuid
  rcv_codeHash :: string
  rcv_usedAt :: "instant option"
  rcv_createdAt :: instant

record reset_token_row = has_id +
  prt_userId :: uuid
  prt_tokenHash :: string
  prt_expiresAt :: instant
  prt_usedAt :: "instant option"
  prt_requestedIp :: "string option"
  prt_createdAt :: instant

record security_event_row = has_id +
  se_occurredAt :: instant
  se_userId :: "uuid option"
  se_type :: string
  se_ipAddress :: "string option"
  se_userAgent :: "string option"
  se_metadata :: json

datatype scope_type = ScopeGlobal | ScopeBranch | ScopeDepartment

record role_row = base_row +
  rol_key :: string
  rol_name :: string
  rol_description :: string
  rol_isSystem :: bool
  rol_mfaRequired :: bool
  rol_allowedScopes :: "scope_type list"

record role_permission_row =
  rp_roleId :: uuid
  rp_permission :: string

record role_assignment_row = has_id +
  ra_userId :: uuid
  ra_roleId :: uuid
  ra_scopeType :: scope_type
  ra_scopeId :: "uuid option"
  ra_grantedBy :: "uuid option"
  ra_createdAt :: instant

record invitation_row = has_id +
  ui_userId :: uuid
  ui_tokenHash :: string
  ui_expiresAt :: instant
  ui_acceptedAt :: "instant option"
  ui_revokedAt :: "instant option"
  ui_invitedBy :: "uuid option"
  ui_createdAt :: instant

section \<open>Classes\<close>

datatype cohort_status = Planned | Open | Running | CohCompleted | Cancelled
datatype enrollment_status = Waitlisted | EnrActive | EnrCompleted | EnrFailed | EnrWithdrawn

record cohort_row = base_row +
  coh_name :: string
  coh_courseId :: uuid
  coh_intakeId :: "uuid option"
  coh_shiftId :: uuid
  coh_roomId :: uuid
  coh_instructorId :: "uuid option"
  coh_branchId :: uuid
  coh_startDate :: date
  coh_endDate :: date
  coh_maxSize :: int
  coh_status :: cohort_status

record session_row = has_id +
  ses_cohortId :: uuid
  ses_roomId :: uuid
  ses_instructorId :: "uuid option"
  ses_sessionDate :: date
  ses_startsAt :: instant
  ses_endsAt :: instant
  ses_createdAt :: instant

record enrollment_row = base_row +
  enr_studentId :: uuid
  enr_cohortId :: uuid
  enr_status :: enrollment_status
  enr_waitlistedAt :: "instant option"
  enr_enrolledAt :: "instant option"
  enr_withdrawnAt :: "instant option"
  enr_withdrawalReason :: "string option"
  enr_score :: "rat option"
  enr_attendancePercent :: "rat option"
  enr_completedAt :: "instant option"

section \<open>Billing\<close>

record fee_component =
  fc_name :: string
  fc_amount :: int

record plan_installment =
  pi_shareBp :: int
  pi_dueOffsetDays :: int

record fee_structure_row = base_row +
  fs_name :: string
  fs_courseId :: uuid
  fs_categoryCode :: "string option"
  fs_effectiveFrom :: date
  fs_currency :: string
  fs_components :: "fee_component list"
  fs_total :: int
  fs_isActive :: bool

record plan_row = base_row +
  pl_name :: string
  pl_installments :: "plan_installment list"
  pl_isDefault :: bool
  pl_isActive :: bool

datatype invoice_status = Issued | PartiallyPaid | InvPaid | InvVoid

record invoice_line =
  il_description :: string
  il_amount :: int

record invoice_row = base_row +
  inv_number :: string
  inv_studentId :: uuid
  inv_enrollmentId :: "uuid option"
  inv_cohortId :: "uuid option"
  inv_branchId :: uuid
  inv_currency :: string
  inv_status :: invoice_status
  inv_lines :: "invoice_line list"
  inv_subtotal :: int
  inv_discountTotal :: int
  inv_total :: int
  inv_paidTotal :: int

record installment_row = has_id +
  part_invoiceId :: uuid
  part_sequence :: nat
  part_dueDate :: date
  part_amount :: int
  part_paidAmount :: int

datatype payment_status = Posted | PayVoid
datatype payment_method = Cash | BankTransfer | Cheque

record payment_row = base_row +
  pay_invoiceId :: uuid
  pay_studentId :: uuid
  pay_branchId :: uuid
  pay_providerKey :: string
  pay_method :: payment_method
  pay_reference :: "string option"
  pay_amount :: int
  pay_currency :: string
  pay_status :: payment_status
  pay_receivedBy :: "uuid option"
  pay_receivedAt :: instant
  pay_voidedAt :: "instant option"

record allocation_row =
  al_paymentId :: uuid
  al_installmentId :: uuid
  al_amount :: int

datatype receipt_status = RcIssued | RcVoid

record receipt_row = has_id +
  rc_paymentId :: uuid
  rc_number :: string
  rc_branchId :: uuid
  rc_status :: receipt_status
  rc_issuedAt :: instant
  rc_voidedAt :: "instant option"

datatype discount_kind = Percent | Fixed

record discount_row = has_id +
  dc_invoiceId :: uuid
  dc_kind :: discount_kind
  dc_value :: int
  dc_amount :: int
  dc_reasonCode :: string
  dc_approvalId :: uuid
  dc_createdAt :: instant

datatype approval_status = Pending | Approved | ApRejected

text \<open>The \<open>type\<close> column and its \<open>payload\<close>: the request is for a discount, or for voiding a payment.\<close>

datatype approval_payload =
    DiscountRequest (req_kind: discount_kind) (req_value: int) (req_reasonCode: string) (req_note: string)
  | PaymentVoidRequest (req_receiptNumber: string) (req_amount: int)

datatype approval_type = ApDiscount | ApPaymentVoid

record approval_row = base_row +
  ap_type :: approval_type
  ap_status :: approval_status
  ap_subjectId :: uuid
  ap_payload :: approval_payload
  ap_summary :: string
  ap_reason :: string
  ap_requestedBy :: uuid
  ap_decidedBy :: "uuid option"
  ap_decisionNote :: "string option"
  ap_decidedAt :: "instant option"

section \<open>Documents and posts\<close>

datatype certificate_status = CertIssued | CertRevoked

record certificate_row = base_row +
  cert_serial :: string
  cert_enrollmentId :: uuid
  cert_studentId :: uuid
  cert_courseId :: uuid
  cert_studentName :: string
  cert_courseName :: string
  cert_completedOn :: date
  cert_token :: string
  cert_status :: certificate_status
  cert_issuedAt :: instant
  cert_revokedAt :: "instant option"
  cert_revokedReason :: "string option"

datatype card_status = CardActive | CardRevoked

record student_card_row = base_row +
  card_studentId :: uuid
  card_token :: string
  card_validFrom :: date
  card_validUntil :: date
  card_status :: card_status
  card_issuedAt :: instant
  card_revokedAt :: "instant option"

datatype reminder_outcome = ReminderQueued | NoContact

record reminder_row = has_id +
  rml_installmentId :: uuid
  rml_stage :: string
  rml_outcome :: reminder_outcome
  rml_createdAt :: instant

datatype post_kind = Announcement | News | Story

record post_row = base_row +
  post_slug :: string
  post_title :: string
  post_kind :: post_kind
  post_summary :: string
  post_body :: string
  post_publishAt :: "instant option"

section \<open>Audit log and outbox\<close>

record audit_content =
  au_occurredAt :: instant
  au_actorUserId :: "uuid option"
  au_actorEmail :: "string option"
  au_action :: string
  au_entityType :: string
  au_entityId :: json
  au_changes :: json
  au_requestId :: "string option"
  au_ipAddress :: "string option"
  au_userAgent :: "string option"

record audit_row = audit_content +
  au_seq :: nat
  au_prevHash :: "string option"
  au_hash :: string

record outbox_row = has_id +
  ob_type :: string
  ob_payload :: json
  ob_occurredAt :: instant
  ob_availableAt :: instant
  ob_correlationId :: "string option"
  ob_actorUserId :: "uuid option"
  ob_publishedAt :: "instant option"
  ob_attempts :: int
  ob_lastError :: "string option"

record idempotency_row = has_id +
  ik_principal :: string
  ik_key :: string
  ik_method :: string
  ik_path :: string
  ik_requestHash :: string
  ik_responseStatus :: nat
  ik_responseBody :: json
  ik_createdAt :: instant
  ik_expiresAt :: instant

record processed_row =
  pe_consumer :: string
  pe_eventId :: uuid
  pe_processedAt :: instant

section \<open>The database\<close>

text \<open>One extension per module, so that each reads only as far down as the tables it uses.\<close>

record system_db =
  next_id :: uuid
  audit_log :: "audit_row list"
  outbox_events :: "outbox_row list"
  idempotency_keys :: "idempotency_row list"
  processed_events :: "processed_row list"

record access_db = system_db +
  user_accounts :: "user_row list"
  user_sessions :: "session_token_row list"
  user_totp_factors :: "totp_factor_row list"
  user_recovery_codes :: "recovery_code_row list"
  password_reset_tokens :: "reset_token_row list"
  security_events :: "security_event_row list"
  roles :: "role_row list"
  role_permission_rows :: "role_permission_row list"
  user_role_assignments :: "role_assignment_row list"
  user_invitations :: "invitation_row list"

record settings_db = access_db +
  institution :: "institution_row list"
  branches :: "branch_row list"
  departments :: "department_row list"
  module_settings :: "module_setting_row list"
  descriptors :: "descriptor_row list"
  custom_field_definitions :: "custom_field_row list"
  number_series :: "number_series_row list"
  number_counters :: "number_counter_row list"

record catalog_db = settings_db +
  programs :: "program_row list"
  courses :: "course_row list"
  course_prerequisites :: "prerequisite_row list"
  academic_years :: "academic_year_row list"
  intakes :: "intake_row list"
  holidays :: "holiday_row list"
  shifts :: "shift_row list"
  rooms :: "room_row list"

record people_db = catalog_db +
  students :: "student_row list"
  student_guardians :: "guardian_row list"
  applications :: "application_row list"

record classes_db = people_db +
  cohorts :: "cohort_row list"
  class_sessions :: "session_row list"
  enrollments :: "enrollment_row list"

record db = classes_db +
  fee_structures :: "fee_structure_row list"
  payment_plans :: "plan_row list"
  invoices :: "invoice_row list"
  installments :: "installment_row list"
  payments :: "payment_row list"
  payment_allocations :: "allocation_row list"
  receipts :: "receipt_row list"
  discounts :: "discount_row list"
  approval_requests :: "approval_row list"
  reminder_log :: "reminder_row list"
  certificates :: "certificate_row list"
  student_cards :: "student_card_row list"
  posts :: "post_row list"

end
