(* ===== verification/MoneyFlow.thy ===== *)
theory MoneyFlow
  imports Money Schema "HOL-Library.Product_Lexorder" "HOL-Library.Multiset"
begin

text \<open>
  How money moves on an invoice (\<open>modules/billing/domain/money-flow.ts\<close>): the instalments of a new
  invoice, a payment spread over them oldest due first, a discount cut from the latest due backwards,
  and the status that follows from the totals. \<open>localeCompare\<close> on ISO dates is the order of the
  dates; JavaScript's sort is stable, as \<open>sort_key\<close> is.
\<close>

section \<open>The functions\<close>

definition owed :: "installment_row \<Rightarrow> int" where
  "owed i = part_amount i - part_paidAmount i"

definition dueOrder :: "installment_row \<Rightarrow> date \<times> nat" where
  "dueOrder i = (part_dueDate i, part_sequence i)"

definition byDueDate :: "installment_row list \<Rightarrow> installment_row list" where
  "byDueDate parts = sort_key dueOrder parts"

record new_installment =
  ni_sequence :: nat
  ni_dueDate :: date
  ni_amount :: int

definition buildInstallments :: "int \<Rightarrow> plan_installment list \<Rightarrow> date \<Rightarrow> string + new_installment list" where
  "buildInstallments amount plan issueDate =
     bindE (splitByBasisPoints amount (map pi_shareBp plan)) (\<lambda>amounts.
     Inr (map (\<lambda>i. \<lparr>ni_sequence = i + 1,
                      ni_dueDate = addDays issueDate (pi_dueOffsetDays (plan ! i)),
                      ni_amount = (if i < length amounts then amounts ! i else 0)\<rparr>) [0 ..< length plan]))"

type_synonym allocation = "uuid \<times> int"

fun allocate_loop :: "installment_row list \<Rightarrow> int \<Rightarrow> allocation list \<times> int" where
  "allocate_loop [] left = ([], left)"
| "allocate_loop (p # ps) left =
     (if left = 0 then ([], left)
      else let amount = min left (owed p) in
        if amount > 0 then
          (case allocate_loop ps (left - amount) of (as, r) \<Rightarrow> ((row_id p, amount) # as, r))
        else allocate_loop ps left)"

definition allocatePayment :: "installment_row list \<Rightarrow> int \<Rightarrow> allocation list \<times> int" where
  "allocatePayment parts amount = allocate_loop (byDueDate parts) amount"

fun discount_loop :: "installment_row list \<Rightarrow> int \<Rightarrow> (uuid \<times> int) list \<times> int" where
  "discount_loop [] left = ([], left)"
| "discount_loop (p # ps) left =
     (if left = 0 then ([], left)
      else let cut = min left (owed p) in
        if cut > 0 then
          (case discount_loop ps (left - cut) of (cs, r) \<Rightarrow> ((row_id p, part_amount p - cut) # cs, r))
        else discount_loop ps left)"

definition applyDiscount :: "installment_row list \<Rightarrow> int \<Rightarrow> string + (uuid \<times> int) list" where
  "applyDiscount parts amount = (case discount_loop (rev (byDueDate parts)) amount of (changes, left) \<Rightarrow>
     if left > 0 then Inl ''Discount is larger than what is unpaid'' else Inr changes)"

fun discountAmount :: "discount_kind \<Rightarrow> int \<Rightarrow> int \<Rightarrow> int" where
  "discountAmount Fixed v currentTotal = v"
| "discountAmount Percent v currentTotal = (currentTotal * v) sdiv 10000"

definition invoiceStatusFor :: "int \<Rightarrow> int \<Rightarrow> invoice_status" where
  "invoiceStatusFor total_due paid =
     (if paid \<ge> total_due then InvPaid else if paid > 0 then PartiallyPaid else Issued)"

datatype installment_status = PartPaid | PartPartial | PartDue | PartOverdue

definition installmentStatusFor :: "installment_row \<Rightarrow> date \<Rightarrow> installment_status" where
  "installmentStatusFor i today =
     (if part_paidAmount i \<ge> part_amount i then PartPaid
      else if part_dueDate i < today then PartOverdue
      else if part_paidAmount i > 0 then PartPartial else PartDue)"

section \<open>Instalments of a new invoice\<close>

lemma buildInstallments_ok:
  assumes "buildInstallments amount plan issueDate = Inr parts"
  shows "length parts = length plan" "sum_list (map ni_amount parts) = amount"
    "map ni_sequence parts = [1 ..< length plan + 1]"
    "map ni_dueDate parts = map (\<lambda>p. addDays issueDate (pi_dueOffsetDays p)) plan"
proof -
  obtain amounts where a: "splitByBasisPoints amount (map pi_shareBp plan) = Inr amounts"
    and parts: "parts = map (\<lambda>i. \<lparr>ni_sequence = i + 1,
        ni_dueDate = addDays issueDate (pi_dueOffsetDays (plan ! i)),
        ni_amount = (if i < length amounts then amounts ! i else 0)\<rparr>) [0 ..< length plan]"
    using assms by (auto simp: buildInstallments_def)
  note len = split_length_sum(1)[OF a]
  have "map ni_amount parts = amounts"
    using len by (intro nth_equalityI) (auto simp: parts)
  then show "sum_list (map ni_amount parts) = amount" using split_length_sum(2)[OF a] by simp
  show "length parts = length plan" by (simp add: parts)
  show "map ni_sequence parts = [1 ..< length plan + 1]"
    by (intro nth_equalityI) (auto simp: parts simp del: upt_Suc)
  show "map ni_dueDate parts = map (\<lambda>p. addDays issueDate (pi_dueOffsetDays p)) plan"
    by (intro nth_equalityI) (auto simp: parts)
qed

lemma buildInstallments_nonneg:
  assumes "buildInstallments amount plan issueDate = Inr parts" "0 \<le> amount"
    and "\<forall>p \<in> set plan. 0 \<le> pi_shareBp p"
  shows "\<forall>p \<in> set parts. 0 \<le> ni_amount p"
proof -
  obtain amounts where a: "splitByBasisPoints amount (map pi_shareBp plan) = Inr amounts"
    using assms(1) by (auto simp: buildInstallments_def)
  have "\<forall>p \<in> set amounts. 0 \<le> p"
    by (rule split_nonneg[OF a assms(2)]) (use assms(3) in auto)
  then show ?thesis using assms(1) a by (auto simp: buildInstallments_def)
qed

section \<open>Spreading a payment\<close>

text \<open>What an allocation gives an instalment.\<close>

definition allocated :: "allocation list \<Rightarrow> uuid \<Rightarrow> int" where
  "allocated as i = sum_where (\<lambda>a. fst a = i) snd as"

lemma allocated_simps [simp]:
  "allocated [] i = 0" "allocated (a # as) i = (if fst a = i then snd a else 0) + allocated as i"
  by (simp_all add: allocated_def)

lemma allocated_notin: "i \<notin> fst ` set as \<Longrightarrow> allocated as i = 0"
  by (induction as) auto

lemma allocate_loop_facts:
  "allocate_loop ps left = (as, r) \<Longrightarrow> 0 \<le> left \<Longrightarrow> \<forall>p \<in> set ps. 0 \<le> owed p \<Longrightarrow>
     sum_list (map snd as) + r = left \<and> 0 \<le> r \<and> (\<forall>a \<in> set as. 0 < snd a)
      \<and> fst ` set as \<subseteq> row_id ` set ps \<and> r = max 0 (left - sum_list (map owed ps))"
proof (induction ps left arbitrary: as r rule: allocate_loop.induct)
  case (2 p ps left)
  have nonneg: "0 \<le> sum_list (map owed ps)"
    using "2.prems"(3) by (intro sum_list_nonneg) auto
  have rest: "\<forall>p \<in> set ps. 0 \<le> owed p" using "2.prems" by auto
  let ?a = "min left (owed p)"
  show ?case
  proof (cases "left = 0")
    case True
    with "2.prems" nonneg show ?thesis by auto
  next
    case False
    show ?thesis
    proof (cases "?a > 0")
      case True
      then obtain bs where bs: "allocate_loop ps (left - ?a) = (bs, r)" "as = (row_id p, ?a) # bs"
        using "2.prems" False by (auto simp: Let_def split: prod.splits)
      have "0 \<le> left - ?a" by simp
      note ih = "2.IH"(1)[OF False refl True bs(1) this rest]
      then show ?thesis using bs(2) True "2.prems"(2) nonneg by (auto simp: max_def min_def split: if_splits)
    next
      case False': False
      then have loop: "allocate_loop ps left = (as, r)" using "2.prems" False by (simp add: Let_def)
      have "owed p = 0" using False' False "2.prems" by (auto simp: min_def split: if_splits)
      then show ?thesis using "2.IH"(2)[OF False refl False' loop "2.prems"(2) rest] by auto
    qed
  qed
qed auto

lemma allocate_loop_spec:
  assumes "allocate_loop ps left = (as, r)" "0 \<le> left" "\<forall>p \<in> set ps. 0 \<le> owed p"
  shows "sum_list (map snd as) + r = left" and "0 \<le> r"
    and "\<forall>a \<in> set as. 0 < snd a" and "fst ` set as \<subseteq> row_id ` set ps"
    and "r = max 0 (left - sum_list (map owed ps))"
  using allocate_loop_facts[OF assms] by blast+

lemma allocate_loop_parts:
  assumes "allocate_loop ps left = (as, r)" "0 \<le> left" "\<forall>p \<in> set ps. 0 \<le> owed p" "distinct (map row_id ps)"
  shows "distinct (map fst as) \<and> (\<forall>p \<in> set ps. 0 \<le> allocated as (row_id p) \<and> allocated as (row_id p) \<le> owed p)"
  using assms
proof (induction ps left arbitrary: as r rule: allocate_loop.induct)
  case (2 p ps left)
  let ?a = "min left (owed p)"
  show ?case
  proof (cases "left = 0")
    case True
    with "2.prems" show ?thesis by auto
  next
    case False
    have sub: "\<forall>p \<in> set ps. 0 \<le> owed p" "distinct (map row_id ps)" using "2.prems" by auto
    show ?thesis
    proof (cases "?a > 0")
      case True
      then obtain bs where bs: "allocate_loop ps (left - ?a) = (bs, r)" "as = (row_id p, ?a) # bs"
        using "2.prems" False by (auto simp: Let_def split: prod.splits)
      have pos: "0 \<le> left - ?a" by simp
      have ids: "fst ` set bs \<subseteq> row_id ` set ps" using allocate_loop_spec(4)[OF bs(1) pos sub(1)] .
      then have out: "row_id p \<notin> fst ` set bs" using "2.prems"(4) by auto
      have ih: "distinct (map fst bs)" "\<forall>p \<in> set ps. 0 \<le> allocated bs (row_id p) \<and> allocated bs (row_id p) \<le> owed p"
        using "2.IH"(1)[OF False refl True bs(1) pos sub] by auto
      have "row_id q \<noteq> row_id p" if "q \<in> set ps" for q using "2.prems"(4) that by (fastforce simp: image_iff)
      then show ?thesis
        using ih out allocated_notin[OF out] True "2.prems" by (auto simp: bs(2) image_iff)
    next
      case False': False
      then have loop: "allocate_loop ps left = (as, r)" using "2.prems" False by (simp add: Let_def)
      have ids: "fst ` set as \<subseteq> row_id ` set ps" using allocate_loop_spec(4)[OF loop "2.prems"(2) sub(1)] .
      then have "allocated as (row_id p) = 0" using "2.prems"(4) by (auto intro!: allocated_notin)
      then show ?thesis
        using "2.IH"(2)[OF False refl False' loop "2.prems"(2) sub] "2.prems"(3) by auto
    qed
  qed
qed auto

text \<open>An instalment gets money only when everything before it in the order is fully paid by it.\<close>

lemma allocate_loop_order:
  assumes "allocate_loop ps left = (as, r)" "0 \<le> left" "\<forall>p \<in> set ps. 0 \<le> owed p" "distinct (map row_id ps)"
    and "i < j" "j < length ps" "0 < allocated as (row_id (ps ! j))"
  shows "allocated as (row_id (ps ! i)) = owed (ps ! i)"
  using assms
proof (induction ps left arbitrary: as r i j rule: allocate_loop.induct)
  case (2 p ps left)
  let ?a = "min left (owed p)"
  have False: "left \<noteq> 0" using "2.prems" by auto
  have sub: "\<forall>p \<in> set ps. 0 \<le> owed p" "distinct (map row_id ps)" using "2.prems" by auto
  obtain j' where j: "j = Suc j'" "j' < length ps" using "2.prems"(5,6) by (cases j) auto
  have pj: "ps ! j' \<in> set ps" "row_id (ps ! j') \<noteq> row_id p"
    using "2.prems"(4) j by (auto simp: image_iff) (metis nth_mem)
  show ?case
  proof (cases "?a > 0")
    case True
    then obtain bs where bs: "allocate_loop ps (left - ?a) = (bs, r)" "as = (row_id p, ?a) # bs"
      using "2.prems" False by (auto simp: Let_def split: prod.splits)
    have pos: "0 \<le> left - ?a" by simp
    have out: "allocated bs (row_id p) = 0"
      using allocate_loop_spec(4)[OF bs(1) pos sub(1)] "2.prems"(4) by (auto intro!: allocated_notin)
    have jpos: "0 < allocated bs (row_id (ps ! j'))" using "2.prems"(7) j pj bs(2) by simp
    show ?thesis
    proof (cases i)
      case 0
      have "left - ?a \<noteq> 0"
      proof
        assume "left - ?a = 0"
        then have "bs = []" using bs(1) by (cases ps) auto
        with jpos show False by simp
      qed
      then have "?a = owed p" by (auto simp: min_def split: if_splits)
      with 0 out bs(2) show ?thesis by simp
    next
      case (Suc i')
      have "row_id (ps ! i') \<noteq> row_id p"
        using "2.prems"(4,5) j Suc by (auto simp: image_iff) (metis nth_mem order.strict_trans)
      moreover have "allocated bs (row_id (ps ! i')) = owed (ps ! i')"
        using "2.IH"(1)[OF False refl True bs(1) pos sub _ j(2) jpos] Suc j "2.prems"(5) by auto
      ultimately show ?thesis using Suc bs(2) by simp
    qed
  next
    case False': False
    then have loop: "allocate_loop ps left = (as, r)" using "2.prems" False by (simp add: Let_def)
    have zero: "owed p = 0" using False' False "2.prems" by (auto simp: min_def split: if_splits)
    have out: "allocated as (row_id p) = 0"
      using allocate_loop_spec(4)[OF loop "2.prems"(2) sub(1)] "2.prems"(4) by (auto intro!: allocated_notin)
    show ?thesis
    proof (cases i)
      case (Suc i')
      then show ?thesis
        using "2.IH"(2)[OF False refl False' loop "2.prems"(2) sub _ j(2)] j "2.prems"(5,7) by auto
    qed (use zero out in simp)
  qed
qed auto

lemma byDueDate_simps [simp]:
  "set (byDueDate parts) = set parts" "length (byDueDate parts) = length parts"
  "distinct (map f (byDueDate parts)) = distinct (map f parts)"
  "sum_list (map g (byDueDate parts)) = (sum_list (map g parts) :: int)"
proof -
  have m: "mset (byDueDate parts) = mset parts" by (simp add: byDueDate_def)
  show "set (byDueDate parts) = set parts" "length (byDueDate parts) = length parts"
    by (simp_all add: byDueDate_def)
  show "distinct (map f (byDueDate parts)) = distinct (map f parts)"
    using m by (metis mset_eq_imp_distinct_iff mset_map)
  have "sum_mset (mset (map g (byDueDate parts))) = sum_mset (mset (map g parts))"
    using m by (metis mset_map)
  then show "sum_list (map g (byDueDate parts)) = sum_list (map g parts)"
    by (simp only: sum_mset_sum_list)
qed

lemma byDueDate_sorted: "sorted (map dueOrder (byDueDate parts))"
  by (simp add: byDueDate_def)

lemma allocatePayment_spec:
  assumes "allocatePayment parts amount = (as, r)" "0 \<le> amount" "\<forall>p \<in> set parts. 0 \<le> owed p"
    and "distinct (map row_id parts)"
  shows "sum_list (map snd as) + r = amount" "r = max 0 (amount - sum_list (map owed parts))"
    and "\<forall>a \<in> set as. 0 < snd a" "fst ` set as \<subseteq> row_id ` set parts" "distinct (map fst as)"
    and "\<forall>p \<in> set parts. 0 \<le> allocated as (row_id p) \<and> allocated as (row_id p) \<le> owed p"
  using allocate_loop_spec[of "byDueDate parts" amount as r] allocate_loop_parts[of "byDueDate parts" amount as r]
    assms by (auto simp: allocatePayment_def)

lemma sum_allocated:
  assumes "distinct ids" "fst ` set as \<subseteq> set ids"
  shows "sum_list (map (allocated as) ids) = sum_list (map snd as)"
proof -
  have "sum_list (map (\<lambda>i. sum_where (\<lambda>a. True \<and> fst a = i) snd as) ids) = sum_where (\<lambda>_. True) snd as"
    by (rule sum_where_partition) (use assms in auto)
  then show ?thesis by (simp add: allocated_def[abs_def] sum_where_def)
qed

text \<open>Oldest due first: an instalment is paid only if every one due before it is paid up.\<close>

lemma allocatePayment_oldest_first:
  assumes "allocatePayment parts amount = (as, r)" "0 \<le> amount" "\<forall>p \<in> set parts. 0 \<le> owed p"
    and "distinct (map row_id parts)" "p \<in> set parts" "q \<in> set parts"
    and "dueOrder p < dueOrder q" "0 < allocated as (row_id q)"
  shows "allocated as (row_id p) = owed p"
proof -
  let ?ps = "byDueDate parts"
  obtain i j where i: "i < length ?ps" "?ps ! i = p" and j: "j < length ?ps" "?ps ! j = q"
    using assms(5,6) by (metis byDueDate_simps(1) in_set_conv_nth)
  have "i < j"
  proof (rule ccontr)
    assume "\<not> i < j"
    then have "map dueOrder ?ps ! j \<le> map dueOrder ?ps ! i"
      using i j byDueDate_sorted by (intro sorted_nth_mono) auto
    with i j assms(7) show False by simp
  qed
  then show ?thesis
    using allocate_loop_order[of ?ps amount as r i j] i j assms by (simp add: allocatePayment_def)
qed

section \<open>Cutting a discount\<close>

lemma allocate_loop_ids: "fst ` set (fst (allocate_loop qs l)) \<subseteq> row_id ` set qs"
proof (induction qs l rule: allocate_loop.induct)
  case (2 p ps left)
  let ?a = "min left (owed p)"
  show ?case
  proof (cases "left = 0 \<or> \<not> ?a > 0")
    case True
    then show ?thesis using "2.IH"(2)[OF _ refl] by (cases "left = 0") (auto simp: Let_def)
  next
    case False
    then have "fst ` set (fst (allocate_loop ps (left - ?a))) \<subseteq> row_id ` set ps"
      using "2.IH"(1)[OF _ refl] by blast
    with False show ?thesis by (cases "allocate_loop ps (left - ?a)") (auto simp: Let_def)
  qed
qed simp

text \<open>The cuts are what a payment of the same size would take, walking the other way.\<close>

definition new_amount :: "installment_row list \<Rightarrow> allocation \<Rightarrow> uuid \<times> int" where
  "new_amount ps = (\<lambda>(i, a). (i, (case find_by row_id i ps of Some p \<Rightarrow> part_amount p - a | None \<Rightarrow> 0)))"

lemma new_amount_Cons: "row_id p \<noteq> fst a \<Longrightarrow> new_amount (p # ps) a = new_amount ps a"
  by (cases a) (simp add: new_amount_def)

lemma discount_loop_allocate:
  assumes "distinct (map row_id ps)" "allocate_loop ps left = (as, r)"
  shows "discount_loop ps left = (map (new_amount ps) as, r)"
  using assms
proof (induction ps left arbitrary: as r rule: allocate_loop.induct)
  case (2 p ps left)
  let ?a = "min left (owed p)"
  have keep: "map (new_amount (p # ps)) bs = map (new_amount ps) bs" if "allocate_loop ps l = (bs, r')" for bs l r'
    using allocate_loop_ids[of ps l] that "2.prems"(1)
    by (intro map_cong) (auto intro!: new_amount_Cons simp: image_iff)
  show ?case
  proof (cases "left = 0")
    case True
    with "2.prems" show ?thesis by auto
  next
    case False
    show ?thesis
    proof (cases "?a > 0")
      case True
      then obtain bs where bs: "allocate_loop ps (left - ?a) = (bs, r)" "as = (row_id p, ?a) # bs"
        using "2.prems" False by (auto simp: Let_def split: prod.splits)
      have "discount_loop ps (left - ?a) = (map (new_amount ps) bs, r)"
        using "2.IH"(1)[OF False refl True _ bs(1)] "2.prems"(1) by simp
      then show ?thesis using False True bs(2) keep[OF bs(1)] by (simp add: Let_def new_amount_def)
    next
      case False': False
      then have loop: "allocate_loop ps left = (as, r)"
        using "2.prems" False by (auto simp: Let_def split: if_splits)
      have "discount_loop ps left = (map (new_amount ps) as, r)"
        using "2.IH"(2)[OF False refl False' _ loop] "2.prems"(1) by simp
      then show ?thesis using False False' keep[OF loop] by (auto simp: Let_def)
    qed
  qed
qed auto

text \<open>What an accepted discount does: the cuts add up to it, and none goes below what is paid.\<close>

lemma applyDiscount_Inr:
  assumes "applyDiscount parts amount = Inr changes" "0 \<le> amount" "\<forall>p \<in> set parts. 0 \<le> owed p"
    and "distinct (map row_id parts)"
  obtains cuts where "changes = map (new_amount parts) cuts" "sum_list (map snd cuts) = amount"
    "distinct (map fst cuts)" "fst ` set cuts \<subseteq> row_id ` set parts" "\<forall>c \<in> set cuts. 0 < snd c"
    "\<forall>p \<in> set parts. 0 \<le> allocated cuts (row_id p) \<and> allocated cuts (row_id p) \<le> owed p"
    "allocate_loop (rev (byDueDate parts)) amount = (cuts, 0)"
proof -
  let ?ps = "rev (byDueDate parts)"
  obtain cuts r where c: "allocate_loop ?ps amount = (cuts, r)" by (cases "allocate_loop ?ps amount")
  have d: "distinct (map row_id ?ps)" using assms(4) by (simp add: rev_map[symmetric])
  have nn: "\<forall>p \<in> set ?ps. 0 \<le> owed p" using assms(3) by simp
  note spec = allocate_loop_spec[OF c assms(2) nn] and parts = allocate_loop_parts[OF c assms(2) nn d]
  have "discount_loop ?ps amount = (map (new_amount ?ps) cuts, r)"
    by (rule discount_loop_allocate[OF d c])
  then have ch: "changes = map (new_amount ?ps) cuts" "r = 0"
    using assms(1) spec(2) by (auto simp: applyDiscount_def split: if_splits)
  have "find_by row_id i ?ps = find_by row_id i parts" for i
  proof (cases "find_by row_id i ?ps")
    case None
    then have "find_by row_id i parts = None" by (simp add: find_by_None_iff)
    with None show ?thesis by simp
  next
    case (Some a)
    then have "a \<in> set parts \<and> row_id a = i" using find_by_distinct_iff[OF d, of i a] by simp
    then have "find_by row_id i parts = Some a" using find_by_distinct_iff[OF assms(4), of i a] by blast
    with Some show ?thesis by simp
  qed
  then have "new_amount ?ps = new_amount parts" by (simp add: new_amount_def)
  with ch spec parts c show ?thesis by (intro that[of cuts]) auto
qed

lemma applyDiscount_ok_iff:
  assumes "0 \<le> amount" "\<forall>p \<in> set parts. 0 \<le> owed p" "distinct (map row_id parts)"
  shows "(\<exists>changes. applyDiscount parts amount = Inr changes) \<longleftrightarrow> amount \<le> sum_list (map owed parts)"
proof -
  let ?ps = "rev (byDueDate parts)"
  obtain cuts r where c: "allocate_loop ?ps amount = (cuts, r)" by (cases "allocate_loop ?ps amount")
  have "discount_loop ?ps amount = (map (new_amount ?ps) cuts, r)"
    by (rule discount_loop_allocate[OF _ c]) (use assms(3) in \<open>simp add: rev_map[symmetric]\<close>)
  moreover have "r = max 0 (amount - sum_list (map owed ?ps))"
    by (rule allocate_loop_spec(5)[OF c assms(1)]) (use assms(2) in simp)
  moreover have "sum_list (map owed ?ps) = sum_list (map owed parts)"
    using byDueDate_simps(4)[of owed parts] by (simp only: rev_map[symmetric] sum_list_rev)
  ultimately show ?thesis by (auto simp: applyDiscount_def)
qed

lemma applyDiscount_latest_first:
  assumes "allocate_loop (rev (byDueDate parts)) amount = (cuts, r)" "0 \<le> amount"
    and "\<forall>p \<in> set parts. 0 \<le> owed p" "distinct (map row_id parts)" "p \<in> set parts" "q \<in> set parts"
    and "dueOrder p < dueOrder q" "0 < allocated cuts (row_id p)"
  shows "allocated cuts (row_id q) = owed q"
proof -
  let ?ps = "byDueDate parts"
  obtain i j where i: "i < length ?ps" "?ps ! i = p" and j: "j < length ?ps" "?ps ! j = q"
    using assms(5,6) by (metis byDueDate_simps(1) in_set_conv_nth)
  have ij: "i < j"
  proof (rule ccontr)
    assume "\<not> i < j"
    then have "map dueOrder ?ps ! j \<le> map dueOrder ?ps ! i"
      using i j byDueDate_sorted by (intro sorted_nth_mono) auto
    with i j assms(7) show False by simp
  qed
  define n where "n = length ?ps"
  have "rev ?ps ! (n - Suc i) = p" "rev ?ps ! (n - Suc j) = q"
    using i j unfolding n_def by (auto simp: rev_nth simp del: byDueDate_simps(2))
  moreover have "n - Suc j < n - Suc i" "n - Suc i < length (rev ?ps)"
    using ij i(1) j(1) by (auto simp: n_def)
  moreover have "distinct (map row_id (rev ?ps))" using assms(4) by (simp add: rev_map[symmetric])
  ultimately show ?thesis
    using allocate_loop_order[OF assms(1,2), of "n - Suc j" "n - Suc i"] assms(3,8) by auto
qed

lemma discountAmount_bounds:
  assumes "0 \<le> t" "0 \<le> v" "v \<le> 10000"
  shows "0 \<le> discountAmount Percent v t" "discountAmount Percent v t \<le> t"
proof -
  have eq: "discountAmount Percent v t = t * v div 10000" using assms by (simp add: sdiv_nonneg)
  show "0 \<le> discountAmount Percent v t" unfolding eq using assms by (simp add: pos_imp_zdiv_nonneg_iff)
  have "t * v div 10000 \<le> t * 10000 div 10000" using assms by (intro zdiv_mono1 mult_left_mono) auto
  then show "discountAmount Percent v t \<le> t" unfolding eq by simp
qed

end
