(* ===== verification/Json.thy ===== *)
theory Json
  imports Schema "HOL-Library.Multiset"
begin

text \<open>
  \<open>canonicalJson\<close> (\<open>apps/api/src/common/json/canonical-json.ts\<close>): the text of a JSON value with the
  keys of every object in order. \<open>JSON.stringify\<close> of a string quotes it; the text of a number that
  is not whole and of a uuid is a parameter, \<open>printers\<close>.
\<close>

record printers =
  show_rat :: "rat \<Rightarrow> string"
  show_uuid :: "uuid \<Rightarrow> string"

definition show_int :: "int \<Rightarrow> string" where
  "show_int n = (if n < 0 then CHR ''-'' # show_nat (nat (- n)) else show_nat (nat n))"

definition hex_digit :: "nat \<Rightarrow> char" where
  "hex_digit d = (if d < 10 then digit_char d else char_of (87 + d))"

definition json_escape :: "char \<Rightarrow> string" where
  "json_escape c = (let n = (of_char c :: nat) in
     if n = 34 then [char_of (92::nat), char_of (34::nat)]
     else if n = 92 then [char_of (92::nat), char_of (92::nat)]
     else if n = 8 then char_of (92::nat) # ''b''
     else if n = 9 then char_of (92::nat) # ''t''
     else if n = 10 then char_of (92::nat) # ''n''
     else if n = 12 then char_of (92::nat) # ''f''
     else if n = 13 then char_of (92::nat) # ''r''
     else if n < 32 then char_of (92::nat) # ''u00'' @ [hex_digit (n div 16), hex_digit (n mod 16)]
     else [c])"

definition json_quote :: "string \<Rightarrow> string" where
  "json_quote s = char_of (34::nat) # concat (map json_escape s) @ [char_of (34::nat)]"

fun join :: "string \<Rightarrow> string list \<Rightarrow> string" where
  "join sep [] = []"
| "join sep [s] = s"
| "join sep (s # t # ss) = s @ sep @ join sep (t # ss)"

fun canonicalJson :: "printers \<Rightarrow> json \<Rightarrow> string"
and canonical_items :: "printers \<Rightarrow> json list \<Rightarrow> string list"
and canonical_fields :: "printers \<Rightarrow> (string \<times> json) list \<Rightarrow> (string \<times> string) list" where
  "canonicalJson p JNull = ''null''"
| "canonicalJson p (JBool b) = (if b then ''true'' else ''false'')"
| "canonicalJson p (JInt n) = show_int n"
| "canonicalJson p (JRat r) = show_rat p r"
| "canonicalJson p (JStr s) = json_quote s"
| "canonicalJson p (JUuid u) = json_quote (show_uuid p u)"
| "canonicalJson p (JArr xs) = ''['' @ join '','' (canonical_items p xs) @ '']''"
| "canonicalJson p (JObj fs) =
     CHR ''{'' # join '','' (map (\<lambda>(k, t). json_quote k @ '':'' @ t) (sort_key fst (canonical_fields p fs))) @ ''}''"
| "canonical_items p [] = []"
| "canonical_items p (x # xs) = canonicalJson p x # canonical_items p xs"
| "canonical_fields p [] = []"
| "canonical_fields p ((k, v) # fs) = (k, canonicalJson p v) # canonical_fields p fs"

lemma canonical_fields_map: "canonical_fields p fs = map (\<lambda>(k, v). (k, canonicalJson p v)) fs"
  by (induction fs) auto

lemma canonical_items_map: "canonical_items p xs = map (canonicalJson p) xs"
  by (induction xs) auto

lemma mset_short_eq: "mset xs = mset ys \<Longrightarrow> length xs \<le> 1 \<Longrightarrow> xs = ys"
proof (cases xs)
  case (Cons a as)
  moreover assume "mset xs = mset ys" "length xs \<le> 1"
  ultimately have "mset ys = {#a#}" by simp
  then have "ys = [a]" by (metis mset_single_iff)
  with Cons \<open>length xs \<le> 1\<close> show ?thesis by simp
qed simp

text \<open>An object's fields may be listed in any order.\<close>

lemma canonicalJson_permute:
  assumes "mset fs = mset gs" "distinct (map fst fs)"
  shows "canonicalJson p (JObj fs) = canonicalJson p (JObj gs)"
proof -
  let ?f = "\<lambda>(k, v). (k, canonicalJson p v)"
  have keys: "map fst (map ?f fs) = map fst fs" by (induction fs) auto
  have "sort_key fst (map ?f gs) = sort_key fst (map ?f fs)"
  proof (rule properties_for_sort_key)
    have "mset (map ?f fs) = mset (map ?f gs)"
      using assms(1) by (metis mset_map)
    then show "mset (sort_key fst (map ?f fs)) = mset (map ?f gs)" by simp
    show "sorted (map fst (sort_key fst (map ?f fs)))" by simp
    fix k assume "k \<in> set (sort_key fst (map ?f fs))"
    have one: "filter (\<lambda>x. fst k = fst x) xs = filter (\<lambda>x. fst k = fst x) ys"
      if "mset xs = mset ys" "distinct (map fst xs)" for xs ys :: "(string \<times> string) list"
    proof -
      have d: "distinct (map fst ys)" using that by (metis mset_eq_imp_distinct_iff mset_map)
      have small: "length (filter (\<lambda>x. fst k = fst x) zs) \<le> 1"
        if "distinct (map fst zs)" for zs :: "(string \<times> string) list"
        using that by (induction zs) (auto simp: filter_empty_conv image_iff)
      have m: "mset (filter (\<lambda>x. fst k = fst x) xs) = mset (filter (\<lambda>x. fst k = fst x) ys)"
        using that(1) by (simp add: mset_filter)
      show ?thesis by (rule mset_short_eq[OF m small[OF that(2)]])
    qed
    show "filter (\<lambda>x. fst k = fst x) (sort_key fst (map ?f fs)) = filter (\<lambda>x. fst k = fst x) (map ?f gs)"
    proof (rule one)
      show "mset (sort_key fst (map ?f fs)) = mset (map ?f gs)" by fact
      have "mset (map fst (sort_key fst (map ?f fs))) = mset (map fst fs)"
        using keys by (metis mset_map mset_sort)
      then show "distinct (map fst (sort_key fst (map ?f fs)))"
        using assms(2) mset_eq_imp_distinct_iff by blast
    qed
  qed
  then show ?thesis by (simp add: canonical_fields_map)
qed

end
