(* ===== verification/Numbering.thy ===== *)
theory Numbering
  imports Json
begin

text \<open>
  Document numbers (\<open>packages/contracts/src/numbering.ts\<close>): a pattern of literal characters and
  placeholders, checked when an institution sets it, and filled to give the counter's scope and the
  number. The regular expression \<open>\{([A-Z]+)(?::(\d+))?\}\<close> cuts a pattern into pieces.
\<close>

section \<open>Patterns\<close>

definition NUMBER_TOKENS :: "string list" where
  "NUMBER_TOKENS = [''YYYY'', ''YY'', ''MM'', ''FY'', ''BRANCH'']"

datatype piece = Lit char | Tok string "string option"

text \<open>After an opening brace: the token's name, its width and what follows the closing brace.\<close>

definition match_token :: "string \<Rightarrow> (string \<times> string option \<times> string) option" where
  "match_token s = (let name = takeWhile is_upper s in
     if name = [] then None
     else case dropWhile is_upper s of
            [] \<Rightarrow> None
          | c # r \<Rightarrow>
              if c = CHR ''}'' then Some (name, None, r)
              else if c = CHR '':'' then
                (let digits = takeWhile is_digit r in
                 case dropWhile is_digit r of
                   [] \<Rightarrow> None
                 | d # t \<Rightarrow> if digits \<noteq> [] \<and> d = CHR ''}'' then Some (name, Some digits, t) else None)
              else None)"

definition width_text :: "string option \<Rightarrow> string" where
  "width_text w = (case w of None \<Rightarrow> [] | Some d \<Rightarrow> CHR '':'' # d)"

definition token_text :: "string \<Rightarrow> string option \<Rightarrow> string" where
  "token_text n w = CHR ''{'' # n @ width_text w @ ''}''"

lemma match_token_SomeD:
  assumes "match_token s = Some (n, w, r)"
  shows "s = n @ width_text w @ CHR ''}'' # r" and "n \<noteq> []" and "\<forall>c \<in> set n. is_upper c"
    and "\<forall>d. w = Some d \<longrightarrow> d \<noteq> [] \<and> (\<forall>c \<in> set d. is_digit c)"
proof -
  define name rest where "name = takeWhile is_upper s" and "rest = dropWhile is_upper s"
  have s: "s = name @ rest" by (simp add: name_def rest_def)
  have up: "\<forall>c \<in> set name. is_upper c" by (auto simp: name_def dest: set_takeWhileD)
  have cut: "match_token s = (if name = [] then None else case rest of [] \<Rightarrow> None
      | c # r \<Rightarrow> if c = CHR ''}'' then Some (name, None, r)
          else if c = CHR '':'' then
            (case dropWhile is_digit r of [] \<Rightarrow> None
             | d # t \<Rightarrow> if takeWhile is_digit r \<noteq> [] \<and> d = CHR ''}''
                       then Some (name, Some (takeWhile is_digit r), t) else None)
          else None)"
    unfolding match_token_def Let_def name_def rest_def by (rule refl)
  have ne: "name \<noteq> []" using assms cut by (auto split: if_splits)
  obtain c t where t: "rest = c # t" using assms cut by (auto split: if_splits list.splits)
  have main: "n = name \<and> s = name @ width_text w @ CHR ''}'' # r
      \<and> (\<forall>d. w = Some d \<longrightarrow> d \<noteq> [] \<and> (\<forall>c \<in> set d. is_digit c))"
  proof (cases "c = CHR ''}''")
    case True
    with assms t ne cut have "n = name" "w = None" "r = t" by auto
    with t True s show ?thesis by (simp add: width_text_def)
  next
    case False
    with assms t ne cut have c: "c = CHR '':''" by (auto split: if_splits)
    define digits more where "digits = takeWhile is_digit t" and "more = dropWhile is_digit t"
    have dt: "t = digits @ more" by (simp add: digits_def more_def)
    have ds: "\<forall>c \<in> set digits. is_digit c" by (auto simp: digits_def dest: set_takeWhileD)
    have cut': "match_token s = (case more of [] \<Rightarrow> None
        | d # u \<Rightarrow> if digits \<noteq> [] \<and> d = CHR ''}'' then Some (name, Some digits, u) else None)"
      using cut t ne False c unfolding digits_def more_def by simp
    then obtain u where "more = CHR ''}'' # u" "n = name" "w = Some digits" "r = u" "digits \<noteq> []"
      using assms by (auto split: list.splits if_splits)
    then show ?thesis using s t c dt ds by (simp add: width_text_def)
  qed
  show "s = n @ width_text w @ CHR ''}'' # r" "n \<noteq> []" "\<forall>c \<in> set n. is_upper c"
    "\<forall>d. w = Some d \<longrightarrow> d \<noteq> [] \<and> (\<forall>c \<in> set d. is_digit c)"
    using main ne up by auto
qed

lemma match_token_length: "match_token s = Some (n, w, r) \<Longrightarrow> length r < length s"
  using match_token_SomeD(1) by fastforce

function pieces :: "string \<Rightarrow> piece list" where
  "pieces [] = []"
| "pieces (c # cs) =
     (case (if c = CHR ''{'' then match_token cs else None) of
        None \<Rightarrow> Lit c # pieces cs
      | Some (n, w, r) \<Rightarrow> Tok n w # pieces r)"
  by pat_completeness auto
termination
  by (relation "measure length") (auto dest: match_token_length split: if_splits)

fun piece_text :: "piece \<Rightarrow> string" where
  "piece_text (Lit c) = [c]"
| "piece_text (Tok n w) = token_text n w"

lemma pieces_text: "concat (map piece_text (pieces s)) = s"
proof (induction s rule: pieces.induct)
  case (2 c cs)
  then show ?case
    by (cases "if c = CHR ''{'' then match_token cs else None")
      (auto simp: token_text_def split: if_splits dest!: match_token_SomeD(1))
qed simp

section \<open>Checking a pattern\<close>

text \<open>\<open>rest.replace(whole, '')\<close>: the first occurrence is taken out.\<close>

fun remove_first :: "string \<Rightarrow> string \<Rightarrow> string" where
  "remove_first w [] = []"
| "remove_first w (c # cs) =
     (if take (length w) (c # cs) = w then drop (length w) (c # cs) else c # remove_first w cs)"

definition literal_ok :: "char \<Rightarrow> bool" where
  "literal_ok c \<longleftrightarrow> is_upper c \<or> is_lower c \<or> is_digit c \<or> c \<in> set ''-/_.''"

definition unknown_placeholder :: "string \<Rightarrow> string" where
  "unknown_placeholder whole = ''Unknown placeholder '' @ whole @ ''. Use ''
     @ join '', '' (map (\<lambda>t. CHR ''{'' # t @ ''}'') NUMBER_TOKENS) @ '' or {SEQ:n}.''"

fun check_tokens :: "piece list \<Rightarrow> nat \<Rightarrow> string \<Rightarrow> string + (nat \<times> string)" where
  "check_tokens [] seqCount rest = Inr (seqCount, rest)"
| "check_tokens (Lit c # ps) seqCount rest = check_tokens ps seqCount rest"
| "check_tokens (Tok n w # ps) seqCount rest =
     (let rest' = remove_first (token_text n w) rest in
      if n = ''SEQ'' then
        (case w of
           None \<Rightarrow> Inl ''Use {SEQ:n} with n between 1 and 12, e.g. {SEQ:5}.''
         | Some d \<Rightarrow> if num_of d < 1 \<or> num_of d > 12
                     then Inl ''Use {SEQ:n} with n between 1 and 12, e.g. {SEQ:5}.''
                     else check_tokens ps (seqCount + 1) rest')
      else if n \<notin> set NUMBER_TOKENS \<or> w \<noteq> None then Inl (unknown_placeholder (token_text n w))
      else check_tokens ps seqCount rest')"

definition checkNumberPattern :: "string \<Rightarrow> string option" where
  "checkNumberPattern pattern = (case check_tokens (pieces pattern) 0 pattern of
     Inl problem \<Rightarrow> Some problem
   | Inr (seqCount, rest) \<Rightarrow>
       if seqCount \<noteq> 1 then Some ''The pattern needs exactly one {SEQ:n} placeholder.''
       else if \<not> list_all literal_ok rest
            then Some ''Only letters, digits and - / _ . are allowed around placeholders.''
       else None)"

fun contains :: "string \<Rightarrow> string \<Rightarrow> bool" where
  "contains w [] \<longleftrightarrow> w = []"
| "contains w (c # cs) \<longleftrightarrow> take (length w) (c # cs) = w \<or> contains w cs"

definition patternUsesBranch :: "string \<Rightarrow> bool" where
  "patternUsesBranch pattern \<longleftrightarrow> contains ''{BRANCH}'' pattern"

section \<open>Filling a pattern\<close>

record number_context =
  ctx_year :: int
  ctx_month :: nat
  ctx_fiscalYear :: int
  ctx_branchCode :: "string option"

definition token_value :: "number_context \<Rightarrow> string \<Rightarrow> string \<Rightarrow> string + string" where
  "token_value ctx seq n =
     (if n = ''YYYY'' then Inr (show_int (ctx_year ctx))
      else if n = ''YY'' then Inr (padStart 2 (CHR ''0'') (show_int (ctx_year ctx mod 100)))
      else if n = ''MM'' then Inr (padStart 2 (CHR ''0'') (show_nat (ctx_month ctx)))
      else if n = ''FY'' then Inr (show_int (ctx_fiscalYear ctx))
      else if n = ''BRANCH'' then
        (case ctx_branchCode ctx of
           None \<Rightarrow> Inl ''This number pattern needs a branch''
         | Some b \<Rightarrow> if b = [] then Inl ''This number pattern needs a branch'' else Inr b)
      else Inr seq)"

fun fill_pieces :: "number_context \<Rightarrow> string \<Rightarrow> piece list \<Rightarrow> string + string" where
  "fill_pieces ctx seq [] = Inr []"
| "fill_pieces ctx seq (Lit c # ps) = bindE (fill_pieces ctx seq ps) (\<lambda>t. Inr (c # t))"
| "fill_pieces ctx seq (Tok n w # ps) =
     bindE (token_value ctx seq n) (\<lambda>v. bindE (fill_pieces ctx seq ps) (\<lambda>t. Inr (v @ t)))"

definition fill :: "string \<Rightarrow> number_context \<Rightarrow> string \<Rightarrow> string + string" where
  "fill pattern ctx seq = fill_pieces ctx seq (pieces pattern)"

definition numberScope :: "string \<Rightarrow> number_context \<Rightarrow> string + string" where
  "numberScope pattern ctx = fill pattern ctx ''{SEQ}''"

text \<open>The width: the first match of \<open>\{SEQ:(\d+)\}\<close>, or 1.\<close>

fun seq_width :: "string \<Rightarrow> string option" where
  "seq_width [] = None"
| "seq_width (c # cs) =
     (case (if c = CHR ''{'' then match_token cs else None) of
        Some (n, Some d, r) \<Rightarrow> if n = ''SEQ'' then Some d else seq_width cs
      | _ \<Rightarrow> seq_width cs)"

definition formatNumber :: "string \<Rightarrow> number_context \<Rightarrow> nat \<Rightarrow> string + string" where
  "formatNumber pattern ctx sequence =
     (let width = (case seq_width pattern of Some d \<Rightarrow> num_of d | None \<Rightarrow> 1) in
      fill pattern ctx (padStart width (CHR ''0'') (show_nat sequence)))"

section \<open>What a checked pattern is\<close>

fun seq_tokens :: "piece list \<Rightarrow> nat" where
  "seq_tokens [] = 0"
| "seq_tokens (Lit c # ps) = seq_tokens ps"
| "seq_tokens (Tok n w # ps) = (if n = ''SEQ'' then 1 else 0) + seq_tokens ps"

fun literals :: "piece list \<Rightarrow> string" where
  "literals [] = []"
| "literals (Lit c # ps) = c # literals ps"
| "literals (Tok n w # ps) = literals ps"

fun token_texts :: "piece list \<Rightarrow> string" where
  "token_texts [] = []"
| "token_texts (Lit c # ps) = token_texts ps"
| "token_texts (Tok n w # ps) = token_text n w @ token_texts ps"

definition known_token :: "string \<Rightarrow> string option \<Rightarrow> bool" where
  "known_token n w \<longleftrightarrow> (n = ''SEQ'' \<and> (\<exists>d. w = Some d \<and> 1 \<le> num_of d \<and> num_of d \<le> 12))
     \<or> (n \<in> set NUMBER_TOKENS \<and> w = None)"

lemma remove_first_mset: "mset s \<subseteq># mset (remove_first w s) + mset w"
proof (induction w s rule: remove_first.induct)
  case (2 w c cs)
  show ?case
  proof (cases "take (length w) (c # cs) = w")
    case True
    then have "mset (c # cs) = mset (drop (length w) (c # cs)) + mset w"
      by (metis append_take_drop_id mset_append union_commute)
    with True show ?thesis by (simp del: mset.simps)
  next
    case False
    with 2 show ?thesis by auto
  qed
qed simp

lemma check_tokens_ok:
  "check_tokens ps k rest = Inr (m, rest') \<Longrightarrow>
     (\<forall>n w. Tok n w \<in> set ps \<longrightarrow> known_token n w) \<and> m = k + seq_tokens ps
     \<and> mset rest \<subseteq># mset rest' + mset (token_texts ps)"
proof (induction ps k rest rule: check_tokens.induct)
  case (3 n w ps k rest)
  define mid where "mid = remove_first (token_text n w) rest"
  have mid: "mset rest \<subseteq># mset mid + mset (token_text n w)"
    unfolding mid_def by (rule remove_first_mset)
  have step: "mset rest \<subseteq># mset rest' + mset (token_texts (Tok n w # ps))"
    if "mset mid \<subseteq># mset rest' + mset (token_texts ps)"
  proof (rule mset_subset_eqI)
    fix a
    show "count (mset rest) a \<le> count (mset rest' + mset (token_texts (Tok n w # ps))) a"
      using mset_subset_eq_count[OF mid, of a] mset_subset_eq_count[OF that, of a] by simp
  qed
  show ?case
  proof (cases "n = ''SEQ''")
    case True
    with "3.prems" obtain d where d: "w = Some d" "\<not> (num_of d < 1 \<or> num_of d > 12)"
      and rec: "check_tokens ps (k + 1) mid = Inr (m, rest')"
      by (auto simp: Let_def mid_def split: option.splits if_splits)
    have "(\<forall>n w. Tok n w \<in> set ps \<longrightarrow> known_token n w) \<and> m = k + 1 + seq_tokens ps
      \<and> mset mid \<subseteq># mset rest' + mset (token_texts ps)"
      using "3.IH"(1)[OF refl True d(1) d(2)] rec unfolding mid_def by blast
    with step d True show ?thesis by (auto simp: known_token_def)
  next
    case False
    with "3.prems" have w: "\<not> (n \<notin> set NUMBER_TOKENS \<or> w \<noteq> None)"
      and rec: "check_tokens ps k mid = Inr (m, rest')"
      by (auto simp: Let_def mid_def split: if_splits)
    have "(\<forall>n w. Tok n w \<in> set ps \<longrightarrow> known_token n w) \<and> m = k + seq_tokens ps
      \<and> mset mid \<subseteq># mset rest' + mset (token_texts ps)"
      using "3.IH"(2)[OF refl False w] rec unfolding mid_def by blast
    with step w False show ?thesis by (auto simp: known_token_def)
  qed
qed auto

lemma mset_pieces: "mset (concat (map piece_text ps)) = mset (literals ps) + mset (token_texts ps)"
  by (induction ps rule: literals.induct) auto

lemma check_ok:
  assumes "checkNumberPattern pattern = None"
  shows "\<And>n w. Tok n w \<in> set (pieces pattern) \<Longrightarrow> known_token n w"
    and "seq_tokens (pieces pattern) = 1"
    and "\<forall>c \<in> set (literals (pieces pattern)). literal_ok c"
proof -
  obtain rest where c: "check_tokens (pieces pattern) 0 pattern = Inr (1, rest)" "list_all literal_ok rest"
    using assms by (auto simp: checkNumberPattern_def split: sum.splits prod.splits if_splits)
  note ok = check_tokens_ok[OF c(1)]
  show "\<And>n w. Tok n w \<in> set (pieces pattern) \<Longrightarrow> known_token n w" using ok by blast
  show "seq_tokens (pieces pattern) = 1" using ok by simp
  have "mset pattern = mset (literals (pieces pattern)) + mset (token_texts (pieces pattern))"
    by (metis mset_pieces pieces_text)
  with ok have "mset (literals (pieces pattern)) \<subseteq># mset rest" by simp
  then have "set (literals (pieces pattern)) \<subseteq> set rest" by (metis set_mset_mono set_mset_mset)
  with c(2) show "\<forall>c \<in> set (literals (pieces pattern)). literal_ok c" by (auto simp: list_all_iff)
qed

lemma split_at_seq:
  "seq_tokens ps = 1 \<Longrightarrow> \<exists>as w bs. ps = as @ Tok ''SEQ'' w # bs \<and> seq_tokens as = 0 \<and> seq_tokens bs = 0"
proof (induction ps rule: seq_tokens.induct)
  case (2 c ps)
  then obtain as w bs where "ps = as @ Tok ''SEQ'' w # bs" "seq_tokens as = 0" "seq_tokens bs = 0" by auto
  then show ?case by (intro exI[of _ "Lit c # as"] exI[of _ w] exI[of _ bs]) auto
next
  case (3 n w ps)
  show ?case
  proof (cases "n = ''SEQ''")
    case True
    with "3.prems" show ?thesis by (intro exI[of _ "[]"] exI[of _ w] exI[of _ ps]) auto
  next
    case False
    with 3 obtain as w' bs where "ps = as @ Tok ''SEQ'' w' # bs" "seq_tokens as = 0" "seq_tokens bs = 0" by auto
    with False show ?thesis by (intro exI[of _ "Tok n w # as"] exI[of _ w'] exI[of _ bs]) auto
  qed
qed simp

lemma fill_pieces_append:
  "fill_pieces ctx seq (as @ bs)
     = bindE (fill_pieces ctx seq as) (\<lambda>x. bindE (fill_pieces ctx seq bs) (\<lambda>y. Inr (x @ y)))"
proof (induction ctx seq as rule: fill_pieces.induct)
  case (1 ctx seq)
  then show ?case by (cases "fill_pieces ctx seq bs") auto
next
  case (2 ctx seq c ps)
  then show ?case by (simp add: bindE_assoc)
next
  case (3 ctx seq n w ps)
  then show ?case
    by (cases "token_value ctx seq n"; cases "fill_pieces ctx seq ps"; cases "fill_pieces ctx seq bs") auto
qed

lemma fill_pieces_no_seq:
  assumes "seq_tokens ps = 0" "\<And>n w. Tok n w \<in> set ps \<Longrightarrow> known_token n w"
  shows "fill_pieces ctx seq ps = fill_pieces ctx seq' ps"
  using assms
proof (induction ctx seq ps rule: fill_pieces.induct)
  case (3 ctx seq n w ps)
  then have "n \<in> set NUMBER_TOKENS" by (fastforce simp: known_token_def split: if_splits)
  then have "token_value ctx seq n = token_value ctx seq' n"
    by (auto simp: token_value_def NUMBER_TOKENS_def)
  with 3 show ?case by (cases "token_value ctx seq' n") (auto split: if_splits)
qed auto

text \<open>
  A checked pattern is a text around its one sequence placeholder; what fills the text is the same
  for every sequence.
\<close>

lemma fill_shape:
  assumes "checkNumberPattern pattern = None"
  shows "(\<exists>e. \<forall>seq. fill pattern ctx seq = Inl e) \<or> (\<exists>pre post. \<forall>seq. fill pattern ctx seq = Inr (pre @ seq @ post))"
proof -
  obtain as w bs where ps: "pieces pattern = as @ Tok ''SEQ'' w # bs" "seq_tokens as = 0" "seq_tokens bs = 0"
    using split_at_seq check_ok(2)[OF assms] by blast
  have known: "\<And>n w. Tok n w \<in> set as \<Longrightarrow> known_token n w" "\<And>n w. Tok n w \<in> set bs \<Longrightarrow> known_token n w"
    using check_ok(1)[OF assms] ps(1) by auto
  have seq: "token_value ctx s ''SEQ'' = Inr s" for s
    by (simp add: token_value_def)
  have f: "fill pattern ctx s = bindE (fill_pieces ctx [] as) (\<lambda>x. bindE (fill_pieces ctx [] bs) (\<lambda>y. Inr (x @ s @ y)))" for s
    using fill_pieces_no_seq[OF ps(2) known(1), of ctx s "[]"] fill_pieces_no_seq[OF ps(3) known(2), of ctx s "[]"]
    by (cases "fill_pieces ctx [] as"; cases "fill_pieces ctx [] bs")
      (auto simp: fill_def ps(1) fill_pieces_append seq)
  show ?thesis
    by (cases "fill_pieces ctx [] as"; cases "fill_pieces ctx [] bs") (auto simp: f)
qed

lemma contains_append: "contains w (x @ w @ y)"
proof (induction x)
  case Nil
  have "take (length w) (w @ y) = w" by simp
  then show ?case by (cases "w @ y") auto
qed simp

lemma uses_branch:
  assumes "Tok ''BRANCH'' None \<in> set (pieces pattern)"
  shows "patternUsesBranch pattern"
proof -
  obtain as bs where "pieces pattern = as @ Tok ''BRANCH'' None # bs"
    using assms by (meson split_list)
  then have "pattern = concat (map piece_text as) @ ''{BRANCH}'' @ concat (map piece_text bs)"
    using pieces_text[of pattern] by (simp add: token_text_def width_text_def)
  then show ?thesis unfolding patternUsesBranch_def by (metis contains_append)
qed

text \<open>Filling a checked pattern only fails when it wants a branch code that the context lacks.\<close>

lemma fill_total:
  assumes "checkNumberPattern pattern = None"
    and "patternUsesBranch pattern \<longrightarrow> (\<exists>b. ctx_branchCode ctx = Some b \<and> b \<noteq> [])"
  shows "\<exists>t. fill pattern ctx seq = Inr t"
proof -
  have "\<exists>t. fill_pieces ctx seq ps = Inr t" if "set ps \<subseteq> set (pieces pattern)" for ps
    using that
  proof (induction ps)
    case (Cons x ps)
    then obtain t where t: "fill_pieces ctx seq ps = Inr t" by auto
    show ?case
    proof (cases x)
      case (Tok n w)
      have known: "known_token n w" using Cons.prems Tok check_ok(1)[OF assms(1)] by auto
      have "\<exists>v. token_value ctx seq n = Inr v"
      proof (cases "n = ''BRANCH''")
        case True
        with known have "w = None" by (auto simp: known_token_def)
        with True Tok Cons.prems assms(2) uses_branch obtain b where "ctx_branchCode ctx = Some b" "b \<noteq> []" by auto
        with True show ?thesis by (simp add: token_value_def)
      qed (simp add: token_value_def)
      with t Tok show ?thesis by auto
    qed (use t in auto)
  qed simp
  then show ?thesis by (simp add: fill_def)
qed

lemma no_brace_show_int: "CHR ''{'' \<notin> set (show_int n)"
proof -
  have "\<not> is_digit (CHR ''{'')" by (simp add: is_digit_def)
  then have "CHR ''{'' \<notin> set (show_nat m)" for m using digits_show_nat by blast
  then show ?thesis by (auto simp: show_int_def)
qed

lemma no_brace_fill:
  assumes "fill_pieces ctx [] ps = Inr t" "\<forall>c \<in> set (literals ps). literal_ok c"
    and "\<And>b. ctx_branchCode ctx = Some b \<Longrightarrow> CHR ''{'' \<notin> set b"
  shows "CHR ''{'' \<notin> set t"
  using assms
proof (induction ps arbitrary: t)
  case (Cons x ps)
  have lit: "\<not> literal_ok (CHR ''{'')"
    by (simp add: literal_ok_def is_upper_def is_lower_def is_digit_def)
  have "\<not> is_digit (CHR ''{'')" by (simp add: is_digit_def)
  then have nat: "CHR ''{'' \<notin> set (show_nat m)" for m using digits_show_nat by blast
  show ?case
  proof (cases x)
    case (Lit c)
    with Cons lit show ?thesis by auto
  next
    case (Tok n w)
    with Cons.prems(1) obtain v u where "token_value ctx [] n = Inr v" "fill_pieces ctx [] ps = Inr u" "t = v @ u"
      by auto
    moreover from this(1) have "CHR ''{'' \<notin> set v"
      using Cons.prems(3) no_brace_show_int nat
      by (auto simp: token_value_def padStart_def split: if_splits option.splits)
    ultimately show ?thesis using Cons.IH Cons.prems Tok by auto
  qed
qed simp

lemma append_brace_cancel:
  "x @ CHR ''{'' # y = x' @ CHR ''{'' # y' \<Longrightarrow> CHR ''{'' \<notin> set x \<Longrightarrow> CHR ''{'' \<notin> set x' \<Longrightarrow> x = x' \<and> y = y'"
  by (induction x arbitrary: x') (case_tac x'; auto)+

text \<open>Two contexts that share a counter write the same number for the same sequence.\<close>

lemma scope_determines_number:
  assumes "checkNumberPattern pattern = None"
    and "numberScope pattern ctx = Inr scope" "numberScope pattern ctx' = Inr scope"
    and "\<And>b. ctx_branchCode ctx = Some b \<Longrightarrow> CHR ''{'' \<notin> set b"
    and "\<And>b. ctx_branchCode ctx' = Some b \<Longrightarrow> CHR ''{'' \<notin> set b"
  shows "formatNumber pattern ctx s = formatNumber pattern ctx' s"
proof -
  obtain as w bs where ps: "pieces pattern = as @ Tok ''SEQ'' w # bs" "seq_tokens as = 0" "seq_tokens bs = 0"
    using split_at_seq check_ok(2)[OF assms(1)] by blast
  have known: "\<And>n w. Tok n w \<in> set as \<Longrightarrow> known_token n w" "\<And>n w. Tok n w \<in> set bs \<Longrightarrow> known_token n w"
    using check_ok(1)[OF assms(1)] ps(1) by auto
  have lits: "literals (xs @ ys) = literals xs @ literals ys" for xs ys
    by (induction xs rule: literals.induct) auto
  have ok: "\<forall>c \<in> set (literals as). literal_ok c"
    using check_ok(3)[OF assms(1)] ps(1) by (auto simp: lits)
  have seq: "token_value c t ''SEQ'' = Inr t" for c t by (simp add: token_value_def)
  have f: "fill pattern c t = bindE (fill_pieces c [] as) (\<lambda>x. bindE (fill_pieces c [] bs) (\<lambda>y. Inr (x @ t @ y)))" for c t
    using fill_pieces_no_seq[OF ps(2) known(1), of c t "[]"] fill_pieces_no_seq[OF ps(3) known(2), of c t "[]"]
    by (cases "fill_pieces c [] as"; cases "fill_pieces c [] bs")
      (auto simp: fill_def ps(1) fill_pieces_append seq)
  obtain x y where x: "fill_pieces ctx [] as = Inr x" "fill_pieces ctx [] bs = Inr y" "scope = x @ ''{SEQ}'' @ y"
    using assms(2) by (auto simp: numberScope_def f)
  obtain x' y' where x': "fill_pieces ctx' [] as = Inr x'" "fill_pieces ctx' [] bs = Inr y'" "scope = x' @ ''{SEQ}'' @ y'"
    using assms(3) by (auto simp: numberScope_def f)
  have "CHR ''{'' \<notin> set x" "CHR ''{'' \<notin> set x'"
    using no_brace_fill x(1) x'(1) ok assms(4,5) by blast+
  then have "x = x' \<and> y = y'"
    using x(3) x'(3) append_brace_cancel[of x "''SEQ}'' @ y" x' "''SEQ}'' @ y'"] by auto
  with x x' show ?thesis by (simp add: formatNumber_def Let_def f)
qed

lemma format_shape:
  assumes "checkNumberPattern pattern = None" "numberScope pattern ctx = Inr scope"
  obtains pre post where "scope = pre @ ''{SEQ}'' @ post"
    "\<And>s. formatNumber pattern ctx s
       = Inr (pre @ padStart (case seq_width pattern of Some d \<Rightarrow> num_of d | None \<Rightarrow> 1) (CHR ''0'') (show_nat s) @ post)"
  using fill_shape[OF assms(1), of ctx] assms(2)
  by (auto simp: numberScope_def formatNumber_def Let_def)

lemma formatNumber_inject:
  assumes "checkNumberPattern pattern = None"
    and "formatNumber pattern ctx s = Inr x" "formatNumber pattern ctx t = Inr x"
  shows "s = t"
  using fill_shape[OF assms(1), of ctx] assms(2,3)
  by (auto simp: formatNumber_def Let_def padStart_show_inject)

end
