(* ===== verification/Errors.thy ===== *)
theory Errors
  imports Schema
begin

text \<open>
  The errors the services throw: one datatype per module, a constructor per function of its
  \<open>domain/errors.ts\<close>, with the HTTP status of the exception class and the code of the contract.
  The English message is left out; a parameter that only the message uses is kept as an argument.
  \<open>CrashError\<close> is \<open>throw new Error(...)\<close> and \<open>InternalServerErrorException\<close>, and
  \<open>UniqueViolation\<close>
  and \<open>CheckViolation\<close> a constraint of the database the service does not catch: all reach the client
  as a 500.
\<close>

datatype billing_error =
    FeeStructureNotFound | PaymentPlanNotFound | FeeStructureExists | BillingCodeTaken string
  | NoFeeStructure | NoPaymentPlan | InvoiceNotFound | AlreadyInvoiced | EnrollmentNotBillable
  | PaymentNotFound | InvoiceClosed | Overpayment int | UnknownProvider string
  | UnsupportedMethod string payment_method | PaymentNotPosted | ApprovalNotFound
  | ApprovalDecided | SelfApproval | RequestPending | DiscountTooSmall | DiscountTooLarge

fun billing_response :: "billing_error \<Rightarrow> nat \<times> string" where
  "billing_response FeeStructureNotFound = (404, ''FEE_STRUCTURE_NOT_FOUND'')"
| "billing_response PaymentPlanNotFound = (404, ''PAYMENT_PLAN_NOT_FOUND'')"
| "billing_response FeeStructureExists = (409, ''FEE_STRUCTURE_EXISTS'')"
| "billing_response (BillingCodeTaken _) = (409, ''CODE_TAKEN'')"
| "billing_response NoFeeStructure = (422, ''NO_FEE_STRUCTURE'')"
| "billing_response NoPaymentPlan = (422, ''NO_PAYMENT_PLAN'')"
| "billing_response InvoiceNotFound = (404, ''INVOICE_NOT_FOUND'')"
| "billing_response AlreadyInvoiced = (409, ''ALREADY_INVOICED'')"
| "billing_response EnrollmentNotBillable = (422, ''ENROLLMENT_NOT_BILLABLE'')"
| "billing_response PaymentNotFound = (404, ''PAYMENT_NOT_FOUND'')"
| "billing_response InvoiceClosed = (409, ''INVOICE_CLOSED'')"
| "billing_response (Overpayment _) = (422, ''OVERPAYMENT'')"
| "billing_response (UnknownProvider _) = (422, ''UNKNOWN_PAYMENT_PROVIDER'')"
| "billing_response (UnsupportedMethod _ _) = (422, ''UNSUPPORTED_PAYMENT_METHOD'')"
| "billing_response PaymentNotPosted = (409, ''PAYMENT_NOT_POSTED'')"
| "billing_response ApprovalNotFound = (404, ''APPROVAL_NOT_FOUND'')"
| "billing_response ApprovalDecided = (409, ''APPROVAL_ALREADY_DECIDED'')"
| "billing_response SelfApproval = (403, ''SELF_APPROVAL'')"
| "billing_response RequestPending = (409, ''REQUEST_ALREADY_PENDING'')"
| "billing_response DiscountTooSmall = (422, ''DISCOUNT_TOO_SMALL'')"
| "billing_response DiscountTooLarge = (422, ''DISCOUNT_TOO_LARGE'')"

datatype cohort_error =
    CohortNotFound | EnrollmentNotFound | RoomConflict | InstructorConflict
  | InvalidCohortTransition cohort_status cohort_status | NotEnrolling | AlreadyEnrolled
  | PrerequisitesNotMet | HasEnrollments string | NoSessions | TooManySessions
  | InvalidEnrollmentState string | ResultIncomplete "string list" | NotAnInstructor
  | CohortReferenceNotFound string | ScheduleLocked | CapacityBelowEnrolled | StudentNotActive

fun cohort_response :: "cohort_error \<Rightarrow> nat \<times> string" where
  "cohort_response CohortNotFound = (404, ''COHORT_NOT_FOUND'')"
| "cohort_response EnrollmentNotFound = (404, ''ENROLLMENT_NOT_FOUND'')"
| "cohort_response RoomConflict = (409, ''ROOM_CONFLICT'')"
| "cohort_response InstructorConflict = (409, ''INSTRUCTOR_CONFLICT'')"
| "cohort_response (InvalidCohortTransition _ _) = (409, ''INVALID_COHORT_TRANSITION'')"
| "cohort_response NotEnrolling = (409, ''COHORT_NOT_ENROLLING'')"
| "cohort_response AlreadyEnrolled = (409, ''ALREADY_ENROLLED'')"
| "cohort_response PrerequisitesNotMet = (422, ''PREREQUISITES_NOT_MET'')"
| "cohort_response (HasEnrollments _) = (409, ''COHORT_HAS_ENROLLMENTS'')"
| "cohort_response NoSessions = (422, ''NO_SESSIONS'')"
| "cohort_response TooManySessions = (422, ''TOO_MANY_SESSIONS'')"
| "cohort_response (InvalidEnrollmentState _) = (409, ''INVALID_ENROLLMENT_STATE'')"
| "cohort_response (ResultIncomplete _) = (422, ''RESULT_INCOMPLETE'')"
| "cohort_response NotAnInstructor = (422, ''NOT_AN_INSTRUCTOR'')"
| "cohort_response (CohortReferenceNotFound _) = (422, ''REFERENCE_NOT_FOUND'')"
| "cohort_response ScheduleLocked = (409, ''SCHEDULE_LOCKED'')"
| "cohort_response CapacityBelowEnrolled = (409, ''CAPACITY_BELOW_ENROLLED'')"
| "cohort_response StudentNotActive = (422, ''STUDENT_NOT_ACTIVE'')"

datatype admissions_error =
    ApplicationNotFound | InvalidApplicationTransition application_status string
  | ApplicationClosed | PlacementNotAllowed | PlacementDisabled | AlreadyConverted
  | NotReadyToConvert | AdmissionsReferenceNotFound string | AdmissionsBranchNotFound

fun admissions_response :: "admissions_error \<Rightarrow> nat \<times> string" where
  "admissions_response ApplicationNotFound = (404, ''APPLICATION_NOT_FOUND'')"
| "admissions_response (InvalidApplicationTransition _ _) = (409, ''INVALID_TRANSITION'')"
| "admissions_response ApplicationClosed = (409, ''APPLICATION_CLOSED'')"
| "admissions_response PlacementNotAllowed = (409, ''PLACEMENT_NOT_ALLOWED'')"
| "admissions_response PlacementDisabled = (422, ''PLACEMENT_DISABLED'')"
| "admissions_response AlreadyConverted = (409, ''ALREADY_CONVERTED'')"
| "admissions_response NotReadyToConvert = (409, ''NOT_READY_TO_CONVERT'')"
| "admissions_response (AdmissionsReferenceNotFound _) = (422, ''REFERENCE_NOT_FOUND'')"
| "admissions_response AdmissionsBranchNotFound = (422, ''BRANCH_NOT_FOUND'')"

datatype settings_error =
    SettingsCodeTaken string | BranchNotFound | DepartmentNotFound | DescriptorNotFound
  | CustomFieldNotFound | UnknownModule | ModuleDependency string | ModuleDisabled
  | UnknownSeries | LastActiveBranch | SetupCompleted | InvalidListValue string
  | UnknownPreset string

fun settings_response :: "settings_error \<Rightarrow> nat \<times> string" where
  "settings_response (SettingsCodeTaken _) = (409, ''CODE_TAKEN'')"
| "settings_response BranchNotFound = (404, ''BRANCH_NOT_FOUND'')"
| "settings_response DepartmentNotFound = (404, ''DEPARTMENT_NOT_FOUND'')"
| "settings_response DescriptorNotFound = (404, ''DESCRIPTOR_NOT_FOUND'')"
| "settings_response CustomFieldNotFound = (404, ''CUSTOM_FIELD_NOT_FOUND'')"
| "settings_response UnknownModule = (404, ''UNKNOWN_MODULE'')"
| "settings_response (ModuleDependency _) = (422, ''MODULE_DEPENDENCY'')"
| "settings_response ModuleDisabled = (404, ''MODULE_DISABLED'')"
| "settings_response UnknownSeries = (404, ''UNKNOWN_NUMBER_SERIES'')"
| "settings_response LastActiveBranch = (409, ''LAST_ACTIVE_BRANCH'')"
| "settings_response SetupCompleted = (409, ''SETUP_ALREADY_COMPLETED'')"
| "settings_response (InvalidListValue _) = (422, ''INVALID_LIST_VALUE'')"
| "settings_response (UnknownPreset _) = (422, ''UNKNOWN_PRESET'')"

datatype catalog_error =
    CatalogCodeTaken string | ProgramNotFound | ProgramMissing | CourseNotFound
  | CatalogBranchNotFound | CatalogDepartmentNotFound | CrossProgramPrerequisite
  | PrerequisiteCycle | HolidayExists | InvalidTimeRange | InvalidRegistrationWindow
  | AcademicYearNotFound | AcademicYearOverlap | IntakeNotFound | HolidayNotFound
  | ShiftNotFound | RoomNotFound

fun catalog_response :: "catalog_error \<Rightarrow> nat \<times> string" where
  "catalog_response (CatalogCodeTaken _) = (409, ''CODE_TAKEN'')"
| "catalog_response ProgramNotFound = (404, ''PROGRAM_NOT_FOUND'')"
| "catalog_response ProgramMissing = (422, ''PROGRAM_NOT_FOUND'')"
| "catalog_response CourseNotFound = (404, ''COURSE_NOT_FOUND'')"
| "catalog_response CatalogBranchNotFound = (422, ''BRANCH_NOT_FOUND'')"
| "catalog_response CatalogDepartmentNotFound = (422, ''DEPARTMENT_NOT_FOUND'')"
| "catalog_response CrossProgramPrerequisite = (422, ''CROSS_PROGRAM_PREREQUISITE'')"
| "catalog_response PrerequisiteCycle = (422, ''PREREQUISITE_CYCLE'')"
| "catalog_response HolidayExists = (409, ''HOLIDAY_EXISTS'')"
| "catalog_response InvalidTimeRange = (422, ''INVALID_TIME_RANGE'')"
| "catalog_response InvalidRegistrationWindow = (422, ''INVALID_REGISTRATION_WINDOW'')"
| "catalog_response AcademicYearNotFound = (404, ''ACADEMIC_YEAR_NOT_FOUND'')"
| "catalog_response AcademicYearOverlap = (409, ''ACADEMIC_YEAR_OVERLAP'')"
| "catalog_response IntakeNotFound = (404, ''INTAKE_NOT_FOUND'')"
| "catalog_response HolidayNotFound = (404, ''HOLIDAY_NOT_FOUND'')"
| "catalog_response ShiftNotFound = (404, ''SHIFT_NOT_FOUND'')"
| "catalog_response RoomNotFound = (404, ''ROOM_NOT_FOUND'')"

datatype student_error = StudentNotFound | DuplicateSuspected | StudentBranchNotFound

fun student_response :: "student_error \<Rightarrow> nat \<times> string" where
  "student_response StudentNotFound = (404, ''STUDENT_NOT_FOUND'')"
| "student_response DuplicateSuspected = (409, ''DUPLICATE_STUDENT_SUSPECTED'')"
| "student_response StudentBranchNotFound = (422, ''BRANCH_NOT_FOUND'')"

datatype access_error =
    RoleNotFound | ScopeNotAllowed string | ScopeNotAvailable | LastAdmin | CannotChangeSelf | UserNotFound
  | AssignmentNotFound | RoleAlreadyAssigned | InvalidInvitation | AlreadyActivated

fun access_response :: "access_error \<Rightarrow> nat \<times> string" where
  "access_response RoleNotFound = (422, ''ROLE_NOT_FOUND'')"
| "access_response (ScopeNotAllowed _) = (422, ''SCOPE_NOT_ALLOWED'')"
| "access_response ScopeNotAvailable = (422, ''SCOPE_NOT_AVAILABLE'')"
| "access_response LastAdmin = (409, ''LAST_ADMIN'')"
| "access_response CannotChangeSelf = (409, ''CANNOT_CHANGE_SELF'')"
| "access_response UserNotFound = (404, ''USER_NOT_FOUND'')"
| "access_response AssignmentNotFound = (404, ''ROLE_ASSIGNMENT_NOT_FOUND'')"
| "access_response RoleAlreadyAssigned = (409, ''ROLE_ALREADY_ASSIGNED'')"
| "access_response InvalidInvitation = (400, ''INVALID_INVITATION'')"
| "access_response AlreadyActivated = (409, ''ALREADY_ACTIVATED'')"

datatype auth_error =
    InvalidCredentials | Unauthenticated | MfaRequired | MfaEnrollmentRequired | InvalidMfaCode | MfaAlreadyEnabled
  | MfaNotEnabled | MfaEnforced | WeakPassword string | InvalidResetToken | InvalidCurrentPassword | EmailTaken

fun auth_response :: "auth_error \<Rightarrow> nat \<times> string" where
  "auth_response InvalidCredentials = (401, ''INVALID_CREDENTIALS'')"
| "auth_response Unauthenticated = (401, ''UNAUTHENTICATED'')"
| "auth_response MfaRequired = (403, ''MFA_REQUIRED'')"
| "auth_response MfaEnrollmentRequired = (403, ''MFA_ENROLLMENT_REQUIRED'')"
| "auth_response InvalidMfaCode = (401, ''INVALID_MFA_CODE'')"
| "auth_response MfaAlreadyEnabled = (409, ''MFA_ALREADY_ENABLED'')"
| "auth_response MfaNotEnabled = (409, ''MFA_NOT_ENABLED'')"
| "auth_response MfaEnforced = (403, ''MFA_ENFORCED'')"
| "auth_response (WeakPassword _) = (422, ''WEAK_PASSWORD'')"
| "auth_response InvalidResetToken = (400, ''INVALID_RESET_TOKEN'')"
| "auth_response InvalidCurrentPassword = (400, ''INVALID_CURRENT_PASSWORD'')"
| "auth_response EmailTaken = (409, ''EMAIL_TAKEN'')"

datatype document_error =
    CertificateNotFound | NotEligible string | CertificateAlreadyIssued | BalanceOutstanding | CertificateAlreadyRevoked
  | CardNotFound | VerificationNotFound | PdfUnavailable

fun document_response :: "document_error \<Rightarrow> nat \<times> string" where
  "document_response CertificateNotFound = (404, ''CERTIFICATE_NOT_FOUND'')"
| "document_response (NotEligible _) = (422, ''NOT_ELIGIBLE_FOR_CERTIFICATE'')"
| "document_response CertificateAlreadyIssued = (409, ''CERTIFICATE_ALREADY_ISSUED'')"
| "document_response BalanceOutstanding = (409, ''BALANCE_OUTSTANDING'')"
| "document_response CertificateAlreadyRevoked = (409, ''ALREADY_REVOKED'')"
| "document_response CardNotFound = (404, ''STUDENT_CARD_NOT_FOUND'')"
| "document_response VerificationNotFound = (404, ''VERIFICATION_NOT_FOUND'')"
| "document_response PdfUnavailable = (503, ''PDF_UNAVAILABLE'')"

datatype post_error = PostNotFound | PublishRestricted

fun post_response :: "post_error \<Rightarrow> nat \<times> string" where
  "post_response PostNotFound = (404, ''POST_NOT_FOUND'')"
| "post_response PublishRestricted = (403, ''POST_PUBLISH_RESTRICTED'')"

datatype import_error = InvalidFile string | TooManyRows nat | MissingColumns "string list"

fun import_response :: "import_error \<Rightarrow> nat \<times> string" where
  "import_response (InvalidFile _) = (422, ''INVALID_IMPORT_FILE'')"
| "import_response (TooManyRows _) = (422, ''TOO_MANY_ROWS'')"
| "import_response (MissingColumns _) = (422, ''MISSING_COLUMNS'')"

datatype idempotency_error = IdempotencyKeyRequired | InvalidIdempotencyKey | IdempotencyKeyReused

fun idempotency_response :: "idempotency_error \<Rightarrow> nat \<times> string" where
  "idempotency_response IdempotencyKeyRequired = (400, ''IDEMPOTENCY_KEY_REQUIRED'')"
| "idempotency_response InvalidIdempotencyKey = (400, ''INVALID_IDEMPOTENCY_KEY'')"
| "idempotency_response IdempotencyKeyReused = (422, ''IDEMPOTENCY_KEY_REUSED'')"

datatype app_error =
    Billing billing_error
  | Cohorts cohort_error
  | Admissions admissions_error
  | Settings settings_error
  | Catalog catalog_error
  | Students student_error
  | Access access_error
  | Auth auth_error
  | Documents document_error
  | Posts post_error
  | Imports import_error
  | Idempotency idempotency_error
  | PublicCourseNotFound
  | PublicReferenceNotFound string
  | InvalidDateRange
  | DateRangeTooLarge
  | SessionNotFound
  | ValidationFailed "string list"
  | InvalidOptions string
  | PermissionDenied
  | VersionRequired
  | VersionConflict
  | InvalidCursor
  | UniqueViolation string
  | CheckViolation string
  | CrashError string

fun http_response :: "app_error \<Rightarrow> nat \<times> string" where
  "http_response (Billing e) = billing_response e"
| "http_response (Cohorts e) = cohort_response e"
| "http_response (Admissions e) = admissions_response e"
| "http_response (Settings e) = settings_response e"
| "http_response (Catalog e) = catalog_response e"
| "http_response (Students e) = student_response e"
| "http_response (Access e) = access_response e"
| "http_response (Auth e) = auth_response e"
| "http_response (Documents e) = document_response e"
| "http_response (Posts e) = post_response e"
| "http_response (Imports e) = import_response e"
| "http_response (Idempotency e) = idempotency_response e"
| "http_response PublicCourseNotFound = (404, ''COURSE_NOT_FOUND'')"
| "http_response (PublicReferenceNotFound _) = (422, ''REFERENCE_NOT_FOUND'')"
| "http_response InvalidDateRange = (422, ''INVALID_DATE_RANGE'')"
| "http_response DateRangeTooLarge = (422, ''DATE_RANGE_TOO_LARGE'')"
| "http_response SessionNotFound = (404, ''SESSION_NOT_FOUND'')"
| "http_response (ValidationFailed _) = (400, ''VALIDATION_FAILED'')"
| "http_response (InvalidOptions _) = (422, ''INVALID_OPTIONS'')"
| "http_response PermissionDenied = (403, ''PERMISSION_DENIED'')"
| "http_response VersionRequired = (428, ''VERSION_REQUIRED'')"
| "http_response VersionConflict = (412, ''VERSION_CONFLICT'')"
| "http_response InvalidCursor = (400, ''INVALID_CURSOR'')"
| "http_response (UniqueViolation _) = (500, ''INTERNAL_ERROR'')"
| "http_response (CheckViolation _) = (500, ''INTERNAL_ERROR'')"
| "http_response (CrashError _) = (500, ''INTERNAL_ERROR'')"

end
