(* ===== verification/AuditLog.thy ===== *)
theory AuditLog
  imports Json Errors
begin

text \<open>
  The surroundings of a request (\<open>env\<close>) and the audit log: \<open>AuditService.record\<close> appends a
  hash-chained row in the caller's transaction, \<open>AuditService.verify\<close> recomputes the chain
  (\<open>apps/api/src/modules/audit\<close>).

  Parameters: \<open>sha256\<close>, the SHA-256 digest in hex of a string; \<open>wall\<close>, the date of an instant on the
  wall clock of a time zone (\<open>Intl.DateTimeFormat\<close>); \<open>to_iso\<close>, \<open>Date.toISOString\<close>; \<open>zoned\<close>, the
  instant of a date and a time of day in a time zone (\<open>AT TIME ZONE\<close>); \<open>similarity\<close>, the trigram
  similarity of two texts (\<open>pg_trgm\<close>); the printers.
\<close>

section \<open>The surroundings of a request\<close>

record actor =
  actor_userId :: uuid
  actor_email :: string
  actor_sessionId :: uuid

record request_meta =
  meta_requestId :: "string option"
  meta_ip :: "string option"
  meta_userAgent :: "string option"

record env = printers +
  now :: instant
  sha256 :: "string \<Rightarrow> string"
  wall :: "instant \<Rightarrow> string \<Rightarrow> date"
  to_iso :: "instant \<Rightarrow> string"
  zoned :: "date \<Rightarrow> string \<Rightarrow> string \<Rightarrow> instant"
  similarity :: "string \<Rightarrow> string \<Rightarrow> rat"
  cls_request :: "request_meta option"
  cls_actor :: "actor option"

text \<open>\<open>DEFAULT uuidv7()\<close>: the id of the next row inserted.\<close>

definition take_id :: "'a system_db_scheme \<Rightarrow> uuid \<times> 'a system_db_scheme" where
  "take_id d = (next_id d, d\<lparr>next_id := next_id d + 1\<rparr>)"

text \<open>\<open>$onUpdateFn\<close>: every update of a table with timestamps sets \<open>updatedAt\<close>.\<close>

definition touch :: "env \<Rightarrow> 'a base_row_scheme \<Rightarrow> 'a base_row_scheme" where
  "touch e r = r\<lparr>updatedAt := now e\<rparr>"

section \<open>Recording\<close>

definition content_json :: "env \<Rightarrow> 'a audit_content_scheme \<Rightarrow> json" where
  "content_json e c = JObj [
     (''occurredAt'', JStr (to_iso e (au_occurredAt c))),
     (''actorUserId'', json_opt JUuid (au_actorUserId c)),
     (''actorEmail'', json_opt JStr (au_actorEmail c)),
     (''action'', JStr (au_action c)),
     (''entityType'', JStr (au_entityType c)),
     (''entityId'', au_entityId c),
     (''changes'', au_changes c),
     (''requestId'', json_opt JStr (au_requestId c)),
     (''ipAddress'', json_opt JStr (au_ipAddress c)),
     (''userAgent'', json_opt JStr (au_userAgent c))]"

definition chainHash :: "env \<Rightarrow> 'a audit_content_scheme \<Rightarrow> string option \<Rightarrow> string" where
  "chainHash e c prevHash =
     sha256 e ((case prevHash of None \<Rightarrow> [] | Some h \<Rightarrow> h) @ [char_of (10::nat)]
               @ canonicalJson (printers.truncate e) (content_json e c))"

text \<open>The rows are kept in the order of \<open>seq\<close>, so the last one is the head of the chain.\<close>

definition last_audit :: "audit_row list \<Rightarrow> audit_row option" where
  "last_audit rows = (if rows = [] then None else Some (last rows))"

record audit_record =
  ar_action :: string
  ar_entityType :: string
  ar_entityId :: json
  ar_changes :: json

definition audit_content_of :: "env \<Rightarrow> actor option \<Rightarrow> audit_record \<Rightarrow> audit_content" where
  "audit_content_of e override entry =
     (let actor = (case override of Some a \<Rightarrow> Some a | None \<Rightarrow> cls_actor e) in
      \<lparr> au_occurredAt = now e,
        au_actorUserId = map_option actor_userId actor,
        au_actorEmail = map_option actor_email actor,
        au_action = ar_action entry,
        au_entityType = ar_entityType entry,
        au_entityId = ar_entityId entry,
        au_changes = ar_changes entry,
        au_requestId = Option.bind (cls_request e) meta_requestId,
        au_ipAddress = Option.bind (cls_request e) meta_ip,
        au_userAgent = Option.bind (cls_request e) meta_userAgent \<rparr>)"

definition audit_append :: "env \<Rightarrow> actor option \<Rightarrow> audit_record \<Rightarrow> audit_row list \<Rightarrow> audit_row list" where
  "audit_append e override entry rows =
     (let content = audit_content_of e override entry;
          prevHash = map_option au_hash (last_audit rows)
      in rows @ [audit_content.extend content
           (audit_row.fields (case last_audit rows of None \<Rightarrow> 1 | Some r \<Rightarrow> au_seq r + 1)
              prevHash (chainHash e content prevHash))])"

definition record_audit :: "env \<Rightarrow> audit_record \<Rightarrow> 'a system_db_scheme \<Rightarrow> 'a system_db_scheme" where
  "record_audit e entry d = d\<lparr>audit_log := audit_append e None entry (audit_log d)\<rparr>"

text \<open>\<open>this.audit.record({ action, entityType, entityId, changes })\<close>.\<close>

definition audit :: "env \<Rightarrow> string \<Rightarrow> string \<Rightarrow> json \<Rightarrow> (string \<times> json) list \<Rightarrow> 'a system_db_scheme \<Rightarrow> 'a system_db_scheme" where
  "audit e action entityType entityId changes d = record_audit e
     \<lparr> ar_action = action, ar_entityType = entityType, ar_entityId = entityId,
       ar_changes = JObj changes \<rparr> d"

section \<open>Verifying\<close>

text \<open>
  \<open>verify\<close> reads the log in batches of 1000 rows in the order of \<open>seq\<close>; the result is
  \<open>(intact, checked, brokenAtSeq)\<close>. \<open>verify_batch\<close> is the inner loop: the first broken row, or the
  state it leaves (previous hash, rows checked, last \<open>seq\<close>).
\<close>

definition VERIFY_BATCH :: nat where
  "VERIFY_BATCH = 1000"

definition row_broken :: "env \<Rightarrow> string option \<Rightarrow> audit_row \<Rightarrow> bool" where
  "row_broken e prevHash r \<longleftrightarrow>
     au_prevHash r \<noteq> prevHash \<or> chainHash e r (au_prevHash r) \<noteq> au_hash r"

fun verify_batch :: "env \<Rightarrow> audit_row list \<Rightarrow> string option \<Rightarrow> nat \<Rightarrow> nat
    \<Rightarrow> (bool \<times> nat \<times> nat option) + (string option \<times> nat \<times> nat)" where
  "verify_batch e [] prevHash checked afterSeq = Inr (prevHash, checked, afterSeq)"
| "verify_batch e (r # rs) prevHash checked afterSeq =
     (if row_broken e prevHash r then Inl (False, checked, Some (au_seq r))
      else verify_batch e rs (Some (au_hash r)) (checked + 1) (au_seq r))"

lemma verify_batch_afterSeq:
  "verify_batch e rs prevHash checked afterSeq = Inr (p, c, a)
    \<Longrightarrow> a = (if rs = [] then afterSeq else au_seq (last rs))"
  by (induction rs arbitrary: prevHash checked afterSeq) (auto split: if_splits)

definition next_batch :: "audit_row list \<Rightarrow> nat \<Rightarrow> audit_row list" where
  "next_batch rows afterSeq = take VERIFY_BATCH (sort_key au_seq (filter (\<lambda>r. afterSeq < au_seq r) rows))"

lemma next_batch_last:
  assumes "next_batch rows a \<noteq> []"
  shows "last (next_batch rows a) \<in> set (filter (\<lambda>r. a < au_seq r) rows)"
proof -
  have "last (next_batch rows a) \<in> set (next_batch rows a)" using assms by simp
  then have "last (next_batch rows a) \<in> set (sort_key au_seq (filter (\<lambda>r. a < au_seq r) rows))"
    unfolding next_batch_def by (rule in_set_takeD)
  then show ?thesis by simp
qed

lemma next_batch_shrinks:
  assumes "next_batch rows a \<noteq> []"
  shows "length (filter (\<lambda>r. au_seq (last (next_batch rows a)) < au_seq r) rows)
       < length (filter (\<lambda>r. a < au_seq r) rows)"
proof -
  let ?l = "last (next_batch rows a)"
  have l: "?l \<in> set rows" "a < au_seq ?l" using next_batch_last[OF assms] by auto
  have "filter (\<lambda>r. au_seq ?l < au_seq r) rows = filter (\<lambda>r. au_seq ?l < au_seq r) (filter (\<lambda>r. a < au_seq r) rows)"
    using l(2) by (auto intro: filter_cong)
  moreover have "length (filter (\<lambda>r. au_seq ?l < au_seq r) (filter (\<lambda>r. a < au_seq r) rows))
      < length (filter (\<lambda>r. a < au_seq r) rows)"
    by (rule length_filter_less[of ?l]) (use l in auto)
  ultimately show ?thesis by simp
qed

function verify_loop :: "env \<Rightarrow> audit_row list \<Rightarrow> string option \<Rightarrow> nat \<Rightarrow> nat \<Rightarrow> bool \<times> nat \<times> nat option" where
  "verify_loop e rows prevHash checked afterSeq =
     (if next_batch rows afterSeq = [] then (True, checked, None)
      else case verify_batch e (next_batch rows afterSeq) prevHash checked afterSeq of
             Inl broken \<Rightarrow> broken
           | Inr (p, c, a) \<Rightarrow> verify_loop e rows p c a)"
  by auto
termination
  by (relation "measure (\<lambda>(e, rows, p, c, a). length (filter (\<lambda>r. a < au_seq r) rows))")
    (auto dest!: verify_batch_afterSeq simp: next_batch_shrinks)

declare verify_loop.simps [simp del]

definition verify :: "env \<Rightarrow> audit_row list \<Rightarrow> bool \<times> nat \<times> nat option" where
  "verify e rows = verify_loop e rows None 0 0"

section \<open>The chain\<close>

text \<open>The chain in one pass: no row is broken, each checked against the hash of the one before it.\<close>

fun chained :: "env \<Rightarrow> string option \<Rightarrow> audit_row list \<Rightarrow> bool" where
  "chained e prevHash [] \<longleftrightarrow> True"
| "chained e prevHash (r # rs) \<longleftrightarrow> \<not> row_broken e prevHash r \<and> chained e (Some (au_hash r)) rs"

definition seq_sorted :: "audit_row list \<Rightarrow> bool" where
  "seq_sorted rows \<longleftrightarrow> sorted_wrt (<) (map au_seq rows) \<and> (\<forall>r \<in> set rows. 0 < au_seq r)"

lemma chained_append:
  "chained e p (xs @ ys) \<longleftrightarrow>
     chained e p xs \<and> chained e (if xs = [] then p else Some (au_hash (last xs))) ys"
  by (induction xs arbitrary: p) auto

lemma verify_batch_append:
  "verify_batch e (xs @ ys) p c a = (case verify_batch e xs p c a of
     Inl b \<Rightarrow> Inl b | Inr (p', c', a') \<Rightarrow> verify_batch e ys p' c' a')"
  by (induction xs arbitrary: p c a) auto

lemma next_batch_rest:
  assumes "sorted_wrt (<) (map au_seq (before @ rest))" "\<forall>r \<in> set before. au_seq r \<le> a"
    and "\<forall>r \<in> set rest. a < au_seq r"
  shows "next_batch (before @ rest) a = take VERIFY_BATCH rest"
proof -
  have "filter (\<lambda>r. a < au_seq r) (before @ rest) = rest"
    using assms(2,3) by (auto simp: filter_empty_conv filter_id_conv)
  moreover have "sorted (map au_seq rest)"
    using assms(1) by (simp add: sorted_wrt_append strict_sorted_imp_sorted)
  ultimately show ?thesis by (simp add: next_batch_def sort_key_id_if_sorted)
qed

lemma sorted_last_max: "sorted (map f xs) \<Longrightarrow> x \<in> set xs \<Longrightarrow> f x \<le> (f (last xs) :: nat)"
  by (induction xs rule: rev_induct) (auto simp: sorted_append)

lemma verify_loop_scan:
  assumes "sorted_wrt (<) (map au_seq (before @ rest))" "\<forall>r \<in> set before. au_seq r \<le> a"
    and "\<forall>r \<in> set rest. a < au_seq r"
  shows "verify_loop e (before @ rest) p c a
       = (case verify_batch e rest p c a of Inl b \<Rightarrow> b | Inr (p', c', a') \<Rightarrow> (True, c', None))"
  using assms
proof (induction "length rest" arbitrary: before rest p c a rule: less_induct)
  case less
  let ?now = "take VERIFY_BATCH rest" and ?later = "drop VERIFY_BATCH rest"
  have batch: "next_batch (before @ rest) a = ?now" by (rule next_batch_rest[OF less.prems])
  show ?case
  proof (cases "rest = []")
    case True
    with batch show ?thesis by (simp add: verify_loop.simps)
  next
    case False
    then have now: "?now \<noteq> []" by (simp add: VERIFY_BATCH_def)
    have split: "verify_batch e rest p c a = (case verify_batch e ?now p c a of
        Inl b \<Rightarrow> Inl b | Inr (p', c', a') \<Rightarrow> verify_batch e ?later p' c' a')"
      using verify_batch_append[of e ?now ?later p c a] by simp
    show ?thesis
    proof (cases "verify_batch e ?now p c a")
      case (Inl b)
      with now batch split show ?thesis by (simp add: verify_loop.simps)
    next
      case (Inr t)
      then obtain p' c' a' where t: "verify_batch e ?now p c a = Inr (p', c', a')" by (cases t) auto
      then have a': "a' = au_seq (last ?now)" using verify_batch_afterSeq now by fastforce
      have sorted: "sorted_wrt (<) (map au_seq (?now @ ?later))"
        using less.prems(1) by (simp add: sorted_wrt_append)
      have last: "last ?now \<in> set ?now" using now by simp
      have "\<forall>r \<in> set ?now. au_seq r \<le> a'"
      proof
        fix r assume "r \<in> set ?now"
        moreover have "sorted (map au_seq ?now)"
          using sorted by (metis map_append sorted_wrt_append strict_sorted_imp_sorted)
        ultimately show "au_seq r \<le> a'"
          unfolding a' by (intro sorted_last_max)
      qed
      moreover have "\<forall>r \<in> set ?later. a' < au_seq r"
        using sorted last unfolding a' map_append sorted_wrt_append by auto
      moreover have "\<forall>r \<in> set before. au_seq r \<le> a'"
      proof -
        have "a < a'" using less.prems(3) last unfolding a' by (meson in_set_takeD)
        with less.prems(2) show ?thesis by fastforce
      qed
      moreover have "length ?later < length rest" using False by (simp add: VERIFY_BATCH_def)
      ultimately have "verify_loop e ((before @ ?now) @ ?later) p' c' a'
          = (case verify_batch e ?later p' c' a' of Inl b \<Rightarrow> b | Inr (p', c', a') \<Rightarrow> (True, c', None))"
        using less.prems(1) by (intro less.hyps) auto
      then show ?thesis
        using now batch split t by (simp add: verify_loop.simps[of e "before @ rest"])
    qed
  qed
qed

lemma verify_batch_chained:
  "(\<exists>s. verify_batch e rows p c a = Inr s) \<longleftrightarrow> chained e p rows"
  by (induction rows arbitrary: p c a) auto

lemma verify_batch_checked:
  "verify_batch e rows p c a = Inr (p', c', a') \<Longrightarrow> c' = c + length rows"
  by (induction rows arbitrary: p c a) (fastforce split: if_splits)+

lemma verify_batch_Inl:
  "verify_batch e rows p c a = Inl b \<Longrightarrow> \<exists>pre r post. rows = pre @ r # post \<and> chained e p pre
     \<and> row_broken e (if pre = [] then p else Some (au_hash (last pre))) r
     \<and> b = (False, c + length pre, Some (au_seq r))"
proof (induction rows arbitrary: p c a)
  case (Cons r rs)
  show ?case
  proof (cases "row_broken e p r")
    case True
    with Cons.prems show ?thesis by (intro exI[of _ "[]"]) auto
  next
    case False
    with Cons.prems Cons.IH[of "Some (au_hash r)" "c + 1" "au_seq r"]
    obtain pre r' post where "rs = pre @ r' # post" "chained e (Some (au_hash r)) pre"
      "row_broken e (if pre = [] then Some (au_hash r) else Some (au_hash (last pre))) r'"
      "b = (False, c + 1 + length pre, Some (au_seq r'))" by auto
    with False show ?thesis by (intro exI[of _ "r # pre"] exI[of _ r'] exI[of _ post]) auto
  qed
qed simp

text \<open>
  Appending keeps the chain: a log that verifies still verifies after any number of records. The
  head of the chain is the hash of the last row, or none for the empty log.
\<close>

definition head_hash :: "audit_row list \<Rightarrow> string option" where
  "head_hash rows = map_option au_hash (last_audit rows)"

lemma row_broken_fields:
  "row_broken e p (audit_content.extend c (audit_row.fields s q h)) \<longleftrightarrow> q \<noteq> p \<or> chainHash e c q \<noteq> h"
  by (simp add: row_broken_def chainHash_def content_json_def audit_content.defs audit_row.defs)

lemma chained_audit_append:
  "chained e None rows \<Longrightarrow> chained e None (audit_append e' ov entry rows)"
  if "sha256 e' = sha256 e" "printers.truncate e' = printers.truncate e" "to_iso e' = to_iso e"
proof -
  have same: "chainHash e' c p = chainHash e c p" for c :: audit_content and p
    using that by (simp add: chainHash_def content_json_def)
  assume "chained e None rows"
  then show ?thesis
    by (auto simp: audit_append_def Let_def chained_append row_broken_fields same last_audit_def)
qed

lemma seq_sorted_audit_append: "seq_sorted rows \<Longrightarrow> seq_sorted (audit_append e ov entry rows)"
proof -
  have [simp]: "au_seq (audit_content.extend c (audit_row.fields s q h)) = s" for c s q h
    by (simp add: audit_content.defs audit_row.defs)
  assume "seq_sorted rows"
  moreover from this have "sorted (map au_seq rows)"
    by (simp add: seq_sorted_def strict_sorted_imp_sorted)
  then have "\<forall>r \<in> set rows. au_seq r \<le> au_seq (last rows)"
    by (blast intro: sorted_last_max[where f = au_seq])
  ultimately show ?thesis
    by (force simp: audit_append_def Let_def seq_sorted_def last_audit_def sorted_wrt_append less_Suc_eq_le)
qed

lemma verify_sorted:
  assumes "seq_sorted rows"
  shows "verify e rows = (case verify_batch e rows None 0 0 of Inl b \<Rightarrow> b | Inr (p, c, a) \<Rightarrow> (True, c, None))"
  using verify_loop_scan[of "[]" rows 0 e None 0] assms by (simp add: verify_def seq_sorted_def)

lemma verify_intact_iff:
  assumes "seq_sorted rows"
  shows "verify e rows = (True, length rows, None) \<longleftrightarrow> chained e None rows"
proof (cases "verify_batch e rows None 0 0")
  case (Inl b)
  then have "\<not> chained e None rows" using verify_batch_chained by (metis Inl_Inr_False)
  moreover have "fst b = False" using verify_batch_Inl[OF Inl] by auto
  ultimately show ?thesis using Inl by (auto simp: verify_sorted[OF assms])
next
  case (Inr s)
  then show ?thesis
    using verify_batch_chained[of e rows None 0 0] verify_batch_checked[of e rows None 0 0]
    by (cases s) (auto simp: verify_sorted[OF assms])
qed

text \<open>
  The text of a row in the chain: what is hashed. Two chains that end in the same hash and have the
  same length hash the same texts, or two different texts have the same digest.
\<close>

definition hashed_text :: "env \<Rightarrow> audit_row \<Rightarrow> string" where
  "hashed_text e r = canonicalJson (printers.truncate e) (content_json e r)"

definition hash_input :: "env \<Rightarrow> string option \<Rightarrow> audit_row \<Rightarrow> string" where
  "hash_input e p r = (case p of None \<Rightarrow> [] | Some h \<Rightarrow> h) @ [char_of (10::nat)] @ hashed_text e r"

definition input_at :: "env \<Rightarrow> audit_row list \<Rightarrow> nat \<Rightarrow> string" where
  "input_at e rows i = hash_input e (head_hash (take i rows)) (rows ! i)"

lemma chained_snoc_hash:
  assumes "chained e None (rows @ [r])"
  shows "au_hash r = sha256 e (hash_input e (head_hash rows) r)"
  using assms
  by (auto simp: chained_append row_broken_def chainHash_def hash_input_def hashed_text_def head_hash_def
      last_audit_def)

lemma hash_input_inject:
  assumes "hash_input e p r = hash_input e q s" "p = None \<longleftrightarrow> q = None"
    and "\<forall>h. p = Some h \<or> q = Some h \<longrightarrow> length h = 64"
  shows "p = q \<and> hashed_text e r = hashed_text e s"
  using assms by (cases p; cases q) (auto simp: hash_input_def)

lemma head_hash_Nil: "head_hash rows = None \<longleftrightarrow> rows = []"
  by (simp add: head_hash_def last_audit_def)

lemma head_hash_snoc: "head_hash (rows @ [r]) = Some (au_hash r)"
  by (simp add: head_hash_def last_audit_def)

lemma head_hash_length:
  assumes "chained e None rows" "\<forall>s. length (sha256 e s) = 64" "head_hash rows = Some h"
  shows "length h = 64"
  using assms
  by (cases rows rule: rev_cases)
    (auto simp: head_hash_snoc chained_snoc_hash head_hash_Nil[of "[]", simplified])

lemma chain_fork:
  assumes "\<forall>s. length (sha256 e s) = 64"
  shows "length xs = length ys \<Longrightarrow> chained e None xs \<Longrightarrow> chained e None ys \<Longrightarrow> head_hash xs = head_hash ys
    \<Longrightarrow> map (hashed_text e) xs = map (hashed_text e) ys
      \<or> (\<exists>i < length xs. input_at e xs i \<noteq> input_at e ys i
            \<and> sha256 e (input_at e xs i) = sha256 e (input_at e ys i))"
proof (induction xs ys rule: rev_induct2)
  case (4 x xs y ys)
  have sub: "chained e None xs" "chained e None ys"
    using "4.prems" by (auto simp: chained_append)
  have at: "input_at e (xs @ [x]) (length xs) = hash_input e (head_hash xs) x"
    "input_at e (ys @ [y]) (length xs) = hash_input e (head_hash ys) y"
    using "4.prems"(1) by (auto simp: input_at_def nth_append)
  have digests: "sha256 e (hash_input e (head_hash xs) x) = sha256 e (hash_input e (head_hash ys) y)"
    using "4.prems" by (simp add: head_hash_snoc chained_snoc_hash)
  show ?case
  proof (cases "hash_input e (head_hash xs) x = hash_input e (head_hash ys) y")
    case False
    with at digests show ?thesis by (metis length_append_singleton lessI)
  next
    case True
    have "head_hash xs = None \<longleftrightarrow> head_hash ys = None"
      using "4.prems"(1) by (cases xs; cases ys) (simp_all add: head_hash_Nil)
    with True have eq: "head_hash xs = head_hash ys" "hashed_text e x = hashed_text e y"
      using hash_input_inject[OF True] head_hash_length[OF sub(1) assms] head_hash_length[OF sub(2) assms]
      by auto
    then have "map (hashed_text e) xs = map (hashed_text e) ys
      \<or> (\<exists>i < length xs. input_at e xs i \<noteq> input_at e ys i
            \<and> sha256 e (input_at e xs i) = sha256 e (input_at e ys i))"
      using "4.IH" sub "4.prems"(1) by simp
    moreover have "input_at e (xs @ [x]) i = input_at e xs i" "input_at e (ys @ [y]) i = input_at e ys i"
      if "i < length xs" for i
      using that "4.prems"(1) by (auto simp: input_at_def nth_append)
    ultimately show ?thesis using eq(2) by (auto simp: less_Suc_eq)
  qed
qed auto

lemma seq_sorted_take: "seq_sorted rows \<Longrightarrow> seq_sorted (take n rows)"
  by (auto simp: seq_sorted_def take_map[symmetric] sorted_wrt_take dest: in_set_takeD)

lemma chained_take: "chained e p rows \<Longrightarrow> chained e p (take n rows)"
  by (metis append_take_drop_id chained_append)

end
