(* ===== verification/Versioning.thy ===== *)
theory Versioning
  imports AuditLog
begin

text \<open>
  Optimistic locking: \<open>updateWithVersion\<close> (\<open>packages/db/src/versioning.ts\<close>) and \<open>versionedRow\<close>,
  \<open>IfMatchVersion\<close> (\<open>apps/api/src/common/http/versioning.ts\<close>), on any table with the standard
  columns. The locale \<open>optimistic\<close> is the contract a versioned store promises its callers; the
  lemmas about writers that race are proved from the contract alone.
\<close>

section \<open>The update\<close>

datatype 'r update_result = Updated 'r | Conflict int | NotFound

definition updateWithVersion ::
  "env \<Rightarrow> ('a base_row_scheme \<Rightarrow> 'a base_row_scheme) \<Rightarrow> uuid \<Rightarrow> int \<Rightarrow> 'a base_row_scheme list
    \<Rightarrow> 'a base_row_scheme update_result \<times> 'a base_row_scheme list" where
  "updateWithVersion e values i expectedVersion rows =
     (let hit = (\<lambda>r. row_id r = i \<and> version r = expectedVersion);
          change = (\<lambda>r. (touch e (values r))\<lparr>version := version r + 1\<rparr>)
      in case map change (filter hit rows) of
           r # _ \<Rightarrow> (Updated r, update_where hit change rows)
         | [] \<Rightarrow> (case find_by row_id i rows of
                    Some r \<Rightarrow> (Conflict (version r), rows)
                  | None \<Rightarrow> (NotFound, rows)))"

definition versionedRow :: "app_error \<Rightarrow> 'r update_result \<Rightarrow> app_error + 'r" where
  "versionedRow notFound result = (case result of
     NotFound \<Rightarrow> Inl notFound
   | Conflict _ \<Rightarrow> Inl VersionConflict
   | Updated r \<Rightarrow> Inr r)"

text \<open>The header \<open>If-Match: "3"\<close>, \<open>^(?:W\/)?"?(\d{1,9})"?$\<close>.\<close>

definition strip_quote :: "string \<Rightarrow> string" where
  "strip_quote s = (case s of c # cs \<Rightarrow> if of_char c = (34::nat) then cs else s | [] \<Rightarrow> [])"

definition ifMatchVersion :: "string option \<Rightarrow> app_error + nat" where
  "ifMatchVersion header = (case header of
     None \<Rightarrow> Inl VersionRequired
   | Some h \<Rightarrow>
       (let t = trim h;
            u = strip_quote (if take 2 t = ''W/'' then drop 2 t else t);
            digits = takeWhile is_digit u
        in if 1 \<le> length digits \<and> length digits \<le> 9 \<and> strip_quote (dropWhile is_digit u) = []
           then Inr (num_of digits) else Inl VersionRequired))"

lemma versionedRow_eq_Inr [simp]: "versionedRow nf result = Inr r \<longleftrightarrow> result = Updated r"
  by (cases result) (auto simp: versionedRow_def)

lemma versionedRow_eq_Inl [simp]:
  "versionedRow nf result = Inl e \<longleftrightarrow> (result = NotFound \<and> e = nf) \<or> (\<exists>v. result = Conflict v) \<and> e = VersionConflict"
  by (cases result) (auto simp: versionedRow_def)

section \<open>The contract of a versioned store\<close>

locale optimistic =
  fixes good :: "'s \<Rightarrow> bool"
    and harmless :: "('r \<Rightarrow> 'r) \<Rightarrow> bool"
    and get :: "'k \<Rightarrow> 's \<Rightarrow> 'r option"
    and ver :: "'r \<Rightarrow> int"
    and upd :: "('r \<Rightarrow> 'r) \<Rightarrow> 'k \<Rightarrow> int \<Rightarrow> 's \<Rightarrow> 'r update_result \<times> 's"
  assumes hit: "good s \<Longrightarrow> harmless f \<Longrightarrow> get k s = Some r \<Longrightarrow> ver r = v \<Longrightarrow>
      \<exists>r' s'. upd f k v s = (Updated r', s') \<and> good s' \<and> get k s' = Some r' \<and> ver r' = v + 1"
    and frame: "good s \<Longrightarrow> harmless f \<Longrightarrow> j \<noteq> k \<Longrightarrow> get j (snd (upd f k v s)) = get j s"
    and stale: "good s \<Longrightarrow> get k s = Some r \<Longrightarrow> ver r \<noteq> v \<Longrightarrow> upd f k v s = (Conflict (ver r), s)"
    and missing: "good s \<Longrightarrow> get k s = None \<Longrightarrow> upd f k v s = (NotFound, s)"
begin

lemma good_upd: "good s \<Longrightarrow> harmless f \<Longrightarrow> good (snd (upd f k v s))"
proof (cases "get k s")
  case (Some r)
  assume "good s" "harmless f"
  then show ?thesis
    using Some hit[of s f k r "ver r"] stale[of s k r v f] by (cases "ver r = v") fastforce+
qed (simp add: missing)

lemma updated_iff:
  assumes "good s" "harmless f"
  shows "(\<exists>r'. fst (upd f k v s) = Updated r') \<longleftrightarrow> (\<exists>r. get k s = Some r \<and> ver r = v)"
proof (cases "get k s")
  case None
  then show ?thesis using assms missing by simp
next
  case (Some r)
  then show ?thesis
    using assms hit[of s f k r v] stale[of s k r v f] by (cases "ver r = v") auto
qed

lemma no_lost_update:
  assumes "good s" "harmless f" "upd f k v s = (Updated r, s')"
  shows "upd g k v s' = (Conflict (v + 1), s')"
proof -
  obtain r0 where "get k s = Some r0" "ver r0 = v"
    using assms updated_iff[of s f k v] by auto
  then have "good s'" "get k s' = Some r" "ver r = v + 1"
    using hit[of s f k r0 v] assms by auto
  then show ?thesis using stale by simp
qed

text \<open>Of writers that all read the same version, the first wins and every later one conflicts.\<close>

fun race :: "('r \<Rightarrow> 'r) list \<Rightarrow> 'k \<Rightarrow> int \<Rightarrow> 's \<Rightarrow> 'r update_result list" where
  "race [] k v s = []"
| "race (f # fs) k v s = (case upd f k v s of (x, s') \<Rightarrow> x # race fs k v s')"

lemma race_stale:
  assumes "good s" "get k s = Some r" "ver r \<noteq> v"
  shows "race fs k v s = replicate (length fs) (Conflict (ver r))"
  using assms by (induction fs) (auto simp: stale)

lemma race_one_winner:
  assumes "good s" "get k s = Some r" "ver r = v" "harmless f"
  shows "\<exists>r'. race (f # fs) k v s = Updated r' # replicate (length fs) (Conflict (v + 1))"
proof -
  obtain r' s' where u: "upd f k v s = (Updated r', s')" "good s'" "get k s' = Some r'" "ver r' = v + 1"
    using hit[OF assms(1,4,2,3)] by blast
  then show ?thesis using race_stale[of s' k r' v fs] by auto
qed

end

section \<open>The table is such a store\<close>

definition keeps_key :: "('a base_row_scheme \<Rightarrow> 'a base_row_scheme) \<Rightarrow> bool" where
  "keeps_key f \<longleftrightarrow> (\<forall>r. row_id (f r) = row_id r)"

definition ids_distinct :: "'a has_id_scheme list \<Rightarrow> bool" where
  "ids_distinct rows \<longleftrightarrow> distinct (map row_id rows)"

lemma same_row: "ids_distinct rows \<Longrightarrow> r \<in> set rows \<Longrightarrow> s \<in> set rows \<Longrightarrow> row_id r = row_id s \<Longrightarrow> r = s"
  by (metis find_by_distinct ids_distinct_def option.inject)

lemma touch_simps [simp]:
  "row_id (touch e r) = row_id r" "version (touch e r) = version r"
  "createdAt (touch e r) = createdAt r" "createdBy (touch e r) = createdBy r"
  "updatedBy (touch e r) = updatedBy r" "updatedAt (touch e r) = now e"
  "base_row.more (touch e r) = base_row.more r"
  by (simp_all add: touch_def)

text \<open>What the update comes to on a table whose ids are unique.\<close>

lemma updateWithVersion_hit:
  assumes "ids_distinct rows" "find_by row_id i rows = Some r" "version r = v"
  shows "updateWithVersion e f i v rows =
    (Updated ((touch e (f r))\<lparr>version := v + 1\<rparr>),
     update_where (\<lambda>x. row_id x = i) (\<lambda>x. (touch e (f x))\<lparr>version := v + 1\<rparr>) rows)"
proof -
  have only: "x = r" if "x \<in> set rows" "row_id x = i" for x
    using assms that find_by_distinct_iff[of row_id rows i]
    by (metis find_by_distinct ids_distinct_def option.inject)
  have mem: "r \<in> set rows" "row_id r = i"
    using assms find_by_in find_by_key by metis+
  have "filter (\<lambda>x. row_id x = i \<and> version x = v) rows \<noteq> []"
    using mem assms(3) by (auto simp: filter_empty_conv)
  then obtain y ys where y: "filter (\<lambda>x. row_id x = i \<and> version x = v) rows = y # ys"
    by (cases "filter (\<lambda>x. row_id x = i \<and> version x = v) rows") auto
  have "y \<in> set (filter (\<lambda>x. row_id x = i \<and> version x = v) rows)" unfolding y by simp
  then have "y = r" using only by simp
  moreover have "update_where (\<lambda>x. row_id x = i \<and> version x = v) (\<lambda>x. (touch e (f x))\<lparr>version := version x + 1\<rparr>) rows
      = update_where (\<lambda>x. row_id x = i) (\<lambda>x. (touch e (f x))\<lparr>version := v + 1\<rparr>) rows"
    using only assms(3) by (auto simp: update_where_def)
  ultimately show ?thesis using y assms(3) by (simp add: updateWithVersion_def Let_def)
qed

lemma updateWithVersion_stale:
  assumes "ids_distinct rows" "find_by row_id i rows = Some r" "version r \<noteq> v"
  shows "updateWithVersion e f i v rows = (Conflict (version r), rows)"
proof -
  have "x = r" if "x \<in> set rows" "row_id x = i" for x
    using assms that by (metis find_by_distinct ids_distinct_def option.inject)
  then have "filter (\<lambda>x. row_id x = i \<and> version x = v) rows = []"
    using assms(3) by (auto simp: filter_empty_conv)
  then show ?thesis using assms(2) by (simp add: updateWithVersion_def)
qed

lemma updateWithVersion_missing:
  assumes "find_by row_id i rows = None"
  shows "updateWithVersion e f i v rows = (NotFound, rows)"
proof -
  have "filter (\<lambda>x. row_id x = i \<and> version x = v) rows = []"
    using assms by (auto simp: filter_empty_conv find_by_None_iff)
  then show ?thesis using assms by (simp add: updateWithVersion_def)
qed

lemma updateWithVersion_Updated:
  assumes "ids_distinct rows" "updateWithVersion e f i v rows = (Updated r', rows')"
  obtains r where "find_by row_id i rows = Some r" "version r = v"
    "r' = (touch e (f r))\<lparr>version := v + 1\<rparr>"
    "rows' = update_where (\<lambda>x. row_id x = i) (\<lambda>x. (touch e (f x))\<lparr>version := v + 1\<rparr>) rows"
proof (cases "find_by row_id i rows")
  case None
  with assms(2) show ?thesis by (simp add: updateWithVersion_missing)
next
  case (Some r)
  with assms show ?thesis
    by (cases "version r = v") (auto simp: updateWithVersion_hit updateWithVersion_stale intro: that)
qed

lemma updateWithVersion_rows:
  assumes "ids_distinct rows" "updateWithVersion e f i v rows = (Updated r', rows')"
  shows "rows' = update_where (\<lambda>x. row_id x = i) (\<lambda>x. (touch e (f x))\<lparr>version := v + 1\<rparr>) rows"
  using assms by (elim updateWithVersion_Updated)

interpretation table: optimistic "\<lambda>rows. ids_distinct rows" "\<lambda>f. keeps_key f"
    "\<lambda>i rows. find_by row_id i rows" "\<lambda>r. version r" "\<lambda>f i v rows. updateWithVersion e f i v rows"
  for e
proof unfold_locales
  fix rows :: "'a base_row_scheme list" and f :: "'a base_row_scheme \<Rightarrow> 'a base_row_scheme" and i r v
  assume rows: "ids_distinct rows" and f: "keeps_key f"
    and r: "find_by row_id i rows = Some r" and v: "version r = v"
  have key: "row_id ((touch e (f x))\<lparr>version := v + 1\<rparr>) = row_id x" for x
    using f by (simp add: keeps_key_def)
  have "ids_distinct (update_where (\<lambda>x. row_id x = i) (\<lambda>x. (touch e (f x))\<lparr>version := v + 1\<rparr>) rows)"
    using rows by (simp add: ids_distinct_def map_update_where key)
  then show "\<exists>r' s'. updateWithVersion e f i v rows = (Updated r', s') \<and> ids_distinct s' \<and>
      find_by row_id i s' = Some r' \<and> version r' = v + 1"
    using find_by_key[OF r] by (simp add: updateWithVersion_hit[OF rows r v] find_by_update_where key r)
next
  fix rows :: "'a base_row_scheme list" and f :: "'a base_row_scheme \<Rightarrow> 'a base_row_scheme" and i j :: uuid and v
  assume rows: "ids_distinct rows" and f: "keeps_key f" and ne: "j \<noteq> i"
  have key: "row_id ((touch e (f x))\<lparr>version := v + 1\<rparr>) = row_id x" for x
    using f by (simp add: keeps_key_def)
  show "find_by row_id j (snd (updateWithVersion e f i v rows)) = find_by row_id j rows"
  proof (cases "find_by row_id i rows")
    case None
    then show ?thesis by (simp add: updateWithVersion_missing)
  next
    case (Some r)
    show ?thesis
    proof (cases "version r = v")
      case True
      have "map_option (\<lambda>x. if row_id x = i then (touch e (f x))\<lparr>version := v + 1\<rparr> else x) (find_by row_id j rows)
          = find_by row_id j rows"
        using ne by (cases "find_by row_id j rows") (auto dest: find_by_key)
      then show ?thesis by (simp add: updateWithVersion_hit[OF rows Some True] find_by_update_where key)
    next
      case False
      then show ?thesis by (simp add: updateWithVersion_stale[OF rows Some])
    qed
  qed
qed (auto simp: updateWithVersion_stale updateWithVersion_missing)

lemmas table_update_simps = updateWithVersion_hit updateWithVersion_stale updateWithVersion_missing

end
