(* ===== verification/Institution.thy ===== *)
theory Institution
  imports Numbering Versioning
begin

text \<open>
  The institution and its document numbers (\<open>apps/api/src/modules/settings\<close>:
  \<open>institution.service.ts\<close>, \<open>numbering.service.ts\<close>, \<open>domain/calendar.ts\<close>): the institution's own
  clock, its update, and the gapless counters. The locale \<open>number_issuer\<close> is what a counter promises
  whoever numbers records with it.
\<close>

section \<open>The institution\<close>

text \<open>\<open>{ field: { from, to } }\<close> of every field whose value differs (\<open>audit/domain/diff.ts\<close>); a field of
  \<open>after\<close> that is \<open>undefined\<close> is \<open>None\<close>.\<close>

definition diffChanges :: "(string \<times> json) list \<Rightarrow> (string \<times> json option) list \<Rightarrow> (string \<times> json) list" where
  "diffChanges before after = concat (map (\<lambda>(key, v). case v of
       None \<Rightarrow> []
     | Some new \<Rightarrow> (let old = map_of before key in
         if old = Some new then []
         else [(key, JObj [(''from'', case old of None \<Rightarrow> JNull | Some x \<Rightarrow> x), (''to'', new)])])) after)"

definition institution_row :: "'a settings_db_scheme \<Rightarrow> app_error + institution_row" where
  "institution_row d = (case institution d of
     r # _ \<Rightarrow> Inr r | [] \<Rightarrow> Inl (CrashError ''Institution row is missing''))"

definition localDate :: "env \<Rightarrow> instant \<Rightarrow> 'a settings_db_scheme \<Rightarrow> app_error + date" where
  "localDate e t d = bindE (institution_row d) (\<lambda>inst. Inr (wall e t (inst_timezone inst)))"

definition today :: "env \<Rightarrow> 'a settings_db_scheme \<Rightarrow> app_error + date" where
  "today e d = localDate e (now e) d"

record institution_update =
  iu_name :: "string option"
  iu_shortName :: "string option"
  iu_tagline :: "string option option"
  iu_email :: "string option option"
  iu_phone :: "string option option"
  iu_website :: "string option option"
  iu_address :: "string option option"
  iu_city :: "string option option"
  iu_country :: "string option"
  iu_primaryColor :: "string option"
  iu_locale :: "locale_code option"
  iu_currency :: "string option"
  iu_timezone :: "string option"
  iu_calendarDisplay :: "calendar_display option"
  iu_fiscalYearStart :: "string option"
  iu_certificateRequiresPaidInFull :: "bool option"

definition override :: "'a option \<Rightarrow> 'a \<Rightarrow> 'a" where
  "override new old = (case new of None \<Rightarrow> old | Some v \<Rightarrow> v)"

fun locale_json :: "locale_code \<Rightarrow> json" where
  "locale_json En = JStr ''en''" | "locale_json Am = JStr ''am''"

fun calendar_json :: "calendar_display \<Rightarrow> json" where
  "calendar_json Gregorian = JStr ''gregorian''"
| "calendar_json Ethiopian = JStr ''ethiopian''"
| "calendar_json Both = JStr ''both''"

definition institution_json :: "institution_row \<Rightarrow> (string \<times> json) list" where
  "institution_json r =
     [(''name'', JStr (inst_name r)), (''shortName'', JStr (inst_shortName r)),
      (''tagline'', json_opt JStr (inst_tagline r)), (''email'', json_opt JStr (inst_email r)),
      (''phone'', json_opt JStr (inst_phone r)), (''website'', json_opt JStr (inst_website r)),
      (''address'', json_opt JStr (inst_address r)), (''city'', json_opt JStr (inst_city r)),
      (''country'', JStr (inst_country r)), (''primaryColor'', JStr (inst_primaryColor r)),
      (''locale'', locale_json (inst_locale r)), (''currency'', JStr (inst_currency r)),
      (''timezone'', JStr (inst_timezone r)), (''calendarDisplay'', calendar_json (inst_calendarDisplay r)),
      (''fiscalYearStart'', JStr (inst_fiscalYearStart r)),
      (''certificateRequiresPaidInFull'', JBool (inst_certificateRequiresPaidInFull r))]"

definition institution_update_json :: "institution_update \<Rightarrow> (string \<times> json option) list" where
  "institution_update_json u =
     [(''name'', map_option JStr (iu_name u)), (''shortName'', map_option JStr (iu_shortName u)),
      (''tagline'', map_option (json_opt JStr) (iu_tagline u)), (''email'', map_option (json_opt JStr) (iu_email u)),
      (''phone'', map_option (json_opt JStr) (iu_phone u)), (''website'', map_option (json_opt JStr) (iu_website u)),
      (''address'', map_option (json_opt JStr) (iu_address u)), (''city'', map_option (json_opt JStr) (iu_city u)),
      (''country'', map_option JStr (iu_country u)), (''primaryColor'', map_option JStr (iu_primaryColor u)),
      (''locale'', map_option locale_json (iu_locale u)), (''currency'', map_option JStr (iu_currency u)),
      (''timezone'', map_option JStr (iu_timezone u)),
      (''calendarDisplay'', map_option calendar_json (iu_calendarDisplay u)),
      (''fiscalYearStart'', map_option JStr (iu_fiscalYearStart u)),
      (''certificateRequiresPaidInFull'', map_option JBool (iu_certificateRequiresPaidInFull u))]"

definition apply_institution_update :: "institution_update \<Rightarrow> actor \<Rightarrow> institution_row \<Rightarrow> institution_row" where
  "apply_institution_update u a r = r\<lparr>
     inst_name := override (iu_name u) (inst_name r),
     inst_shortName := override (iu_shortName u) (inst_shortName r),
     inst_tagline := override (iu_tagline u) (inst_tagline r),
     inst_email := override (iu_email u) (inst_email r),
     inst_phone := override (iu_phone u) (inst_phone r),
     inst_website := override (iu_website u) (inst_website r),
     inst_address := override (iu_address u) (inst_address r),
     inst_city := override (iu_city u) (inst_city r),
     inst_country := override (iu_country u) (inst_country r),
     inst_primaryColor := override (iu_primaryColor u) (inst_primaryColor r),
     inst_locale := override (iu_locale u) (inst_locale r),
     inst_currency := override (iu_currency u) (inst_currency r),
     inst_timezone := override (iu_timezone u) (inst_timezone r),
     inst_calendarDisplay := override (iu_calendarDisplay u) (inst_calendarDisplay r),
     inst_fiscalYearStart := override (iu_fiscalYearStart u) (inst_fiscalYearStart r),
     inst_certificateRequiresPaidInFull :=
       override (iu_certificateRequiresPaidInFull u) (inst_certificateRequiresPaidInFull r),
     updatedBy := Some (actor_userId a)\<rparr>"

definition updateInstitution :: "env \<Rightarrow> institution_update \<Rightarrow> int \<Rightarrow> actor \<Rightarrow> 'a settings_db_scheme
    \<Rightarrow> app_error + (institution_row \<times> 'a settings_db_scheme)" where
  "updateInstitution e u expectedVersion a d =
     bindE (institution_row d) (\<lambda>before.
     case updateWithVersion e (apply_institution_update u a) (row_id before) expectedVersion (institution d) of
       (result, rows) \<Rightarrow>
     bindE (versionedRow (CrashError ''Institution row is missing'') result) (\<lambda>row.
     Inr (row, audit e ''institution.updated'' ''institution'' (JUuid (row_id row))
                 (diffChanges (institution_json before) (institution_update_json u)) (d\<lparr>institution := rows\<rparr>))))"

section \<open>The institution's calendar\<close>

text \<open>\<open>fiscalYearStart.split('-').map(Number)\<close>, with the defaults of the destructuring.\<close>

definition month_day_of :: "string \<Rightarrow> nat \<times> nat" where
  "month_day_of s = (case dropWhile (\<lambda>c. c \<noteq> CHR ''-'') s of
     [] \<Rightarrow> (num_of s, 1)
   | _ # rest \<Rightarrow> (num_of (takeWhile (\<lambda>c. c \<noteq> CHR ''-'') s), num_of (takeWhile (\<lambda>c. c \<noteq> CHR ''-'') rest)))"

definition fiscalYearOf :: "date \<Rightarrow> string \<Rightarrow> int" where
  "fiscalYearOf parts start = (case month_day_of start of (m, d) \<Rightarrow>
     (let beforeStart = month parts < m \<or> (month parts = m \<and> day parts < d)
      in if beforeStart then year parts - 1 else year parts))"

definition numberContextAt :: "env \<Rightarrow> instant \<Rightarrow> institution_row \<Rightarrow> string option \<Rightarrow> number_context" where
  "numberContextAt e t inst branchCode = (let parts = wall e t (inst_timezone inst) in
     \<lparr> ctx_year = year parts, ctx_month = month parts,
       ctx_fiscalYear = fiscalYearOf parts (inst_fiscalYearStart inst), ctx_branchCode = branchCode \<rparr>)"

section \<open>Number series\<close>

datatype series_key = SeriesStudent | SeriesApplication | SeriesInvoice | SeriesReceipt | SeriesCertificate

fun series_name :: "series_key \<Rightarrow> string" where
  "series_name SeriesStudent = ''student''"
| "series_name SeriesApplication = ''application''"
| "series_name SeriesInvoice = ''invoice''"
| "series_name SeriesReceipt = ''receipt''"
| "series_name SeriesCertificate = ''certificate''"

fun defaultPattern :: "series_key \<Rightarrow> string" where
  "defaultPattern SeriesStudent = ''STU-{YYYY}-{SEQ:5}''"
| "defaultPattern SeriesApplication = ''APP-{YY}{MM}-{SEQ:4}''"
| "defaultPattern SeriesInvoice = ''INV-{FY}-{SEQ:6}''"
| "defaultPattern SeriesReceipt = ''RCP-{BRANCH}-{FY}-{SEQ:6}''"
| "defaultPattern SeriesCertificate = ''CERT-{YYYY}-{SEQ:5}''"

definition patternOf :: "series_key \<Rightarrow> 'a settings_db_scheme \<Rightarrow> string" where
  "patternOf key d = (case find_by ns_key (series_name key) (number_series d) of
     None \<Rightarrow> defaultPattern key | Some r \<Rightarrow> ns_pattern r)"

definition setPattern :: "env \<Rightarrow> series_key \<Rightarrow> string \<Rightarrow> actor \<Rightarrow> 'a settings_db_scheme \<Rightarrow> 'a settings_db_scheme" where
  "setPattern e key pattern a d =
     (let before = patternOf key d; k = series_name key;
          fresh = \<lparr>ns_key = k, ns_pattern = pattern, ns_updatedAt = now e, ns_updatedBy = Some (actor_userId a)\<rparr>
      in if before = pattern then d
         else audit e ''number_series.updated'' ''number_series'' (JStr k)
                [(''pattern'', JObj [(''from'', JStr before), (''to'', JStr pattern)])]
                (d\<lparr>number_series :=
                    (if find_by ns_key k (number_series d) = None then number_series d @ [fresh]
                     else update_where (\<lambda>r. ns_key r = k) (\<lambda>_. fresh) (number_series d))\<rparr>))"

text \<open>\<open>INSERT ... ON CONFLICT (series_key, scope) DO UPDATE SET last_value = last_value + 1\<close>.\<close>

definition is_counter :: "series_key \<Rightarrow> string \<Rightarrow> number_counter_row \<Rightarrow> bool" where
  "is_counter key scope r \<longleftrightarrow> nc_seriesKey r = series_name key \<and> nc_scope r = scope"

definition bump_counter :: "env \<Rightarrow> series_key \<Rightarrow> string \<Rightarrow> number_counter_row list \<Rightarrow> nat \<times> number_counter_row list" where
  "bump_counter e key scope rows = (case find (is_counter key scope) rows of
     None \<Rightarrow> (1, rows @ [\<lparr>nc_seriesKey = series_name key, nc_scope = scope, nc_lastValue = 1, nc_updatedAt = now e\<rparr>])
   | Some r \<Rightarrow> (nc_lastValue r + 1,
       update_where (is_counter key scope) (\<lambda>c. c\<lparr>nc_lastValue := nc_lastValue c + 1, nc_updatedAt := now e\<rparr>) rows))"

record issued =
  issued_number :: string
  issued_sequence :: nat

definition crash :: "string + 'a \<Rightarrow> app_error + 'a" where
  "crash r = (case r of Inl m \<Rightarrow> Inl (CrashError m) | Inr v \<Rightarrow> Inr v)"

text \<open>The first half of \<open>next\<close>: the pattern and the context the number is written in.\<close>

definition number_context_for :: "env \<Rightarrow> series_key \<Rightarrow> uuid option \<Rightarrow> 'a settings_db_scheme
    \<Rightarrow> app_error + number_context" where
  "number_context_for e key branchId d =
     bindE (institution_row d) (\<lambda>inst.
     bindE (if patternUsesBranch (patternOf key d) then
              (case branchId of
                 None \<Rightarrow> Inl (CrashError (''Number series '' @ series_name key @ '' needs a branch''))
               | Some b \<Rightarrow> bindE (demand (find_by row_id b (branches d)) (Settings BranchNotFound))
                            (\<lambda>branch. Inr (Some (br_code branch))))
            else Inr None) (\<lambda>branchCode.
     Inr (numberContextAt e (now e) inst branchCode)))"

definition next_number :: "env \<Rightarrow> series_key \<Rightarrow> uuid option \<Rightarrow> 'a settings_db_scheme
    \<Rightarrow> app_error + (issued \<times> 'a settings_db_scheme)" where
  "next_number e key branchId d =
     bindE (number_context_for e key branchId d) (\<lambda>ctx.
     bindE (crash (numberScope (patternOf key d) ctx)) (\<lambda>scope.
     case bump_counter e key scope (number_counters d) of (lastValue, rows) \<Rightarrow>
     bindE (crash (formatNumber (patternOf key d) ctx lastValue)) (\<lambda>number.
     Inr (\<lparr>issued_number = number, issued_sequence = lastValue\<rparr>, d\<lparr>number_counters := rows\<rparr>))))"

section \<open>The contract of a counter\<close>

text \<open>
  A counter, for whoever numbers records with it: it can be asked in every good state, and it gives
  the number after the last one and remembers it.
\<close>

locale number_issuer =
  fixes good :: "'s \<Rightarrow> bool"
    and issue :: "'s \<Rightarrow> (nat \<times> 's) option"
    and count :: "'s \<Rightarrow> nat"
  assumes available: "good s \<Longrightarrow> issue s \<noteq> None"
    and next_value: "good s \<Longrightarrow> issue s = Some (n, s') \<Longrightarrow> n = Suc (count s)"
    and remembered: "good s \<Longrightarrow> issue s = Some (n, s') \<Longrightarrow> good s' \<and> count s' = n"
begin

fun issues :: "nat \<Rightarrow> 's \<Rightarrow> (nat list \<times> 's) option" where
  "issues 0 s = Some ([], s)"
| "issues (Suc k) s = (case issue s of None \<Rightarrow> None
     | Some (n, s') \<Rightarrow> (case issues k s' of None \<Rightarrow> None | Some (ns, s'') \<Rightarrow> Some (n # ns, s'')))"

lemma gapless:
  "good s \<Longrightarrow> \<exists>s'. issues k s = Some ([Suc (count s) ..< Suc (count s + k)], s') \<and> good s' \<and> count s' = count s + k"
proof (induction k arbitrary: s)
  case (Suc k)
  obtain n s1 where n: "issue s = Some (n, s1)"
    using available[OF Suc.prems] by (cases "issue s") auto
  have s1: "issue s = Some (Suc (count s), s1)"
    using n next_value[OF Suc.prems n] by simp
  then have s1': "good s1" "count s1 = Suc (count s)" using remembered[OF Suc.prems s1] by simp_all
  obtain s2 where s2: "issues k s1 = Some ([Suc (count s1) ..< Suc (count s1 + k)], s2)" "good s2"
    "count s2 = count s1 + k" using Suc.IH[OF s1'(1)] by blast
  have "[Suc (count s) ..< Suc (count s + Suc k)] = Suc (count s) # [Suc (count s1) ..< Suc (count s1 + k)]"
    unfolding s1'(2) by (subst upt_conv_Cons) auto
  then show ?case using s1 s1'(2) s2 by (simp del: upt_Suc)
qed simp

end

section \<open>The counters of the program\<close>

definition last_value :: "series_key \<Rightarrow> string \<Rightarrow> number_counter_row list \<Rightarrow> nat" where
  "last_value key scope rows = (case find (is_counter key scope) rows of None \<Rightarrow> 0 | Some r \<Rightarrow> nc_lastValue r)"

definition number_ready :: "env \<Rightarrow> series_key \<Rightarrow> uuid option \<Rightarrow> 'a settings_db_scheme \<Rightarrow> bool" where
  "number_ready e key branchId d \<longleftrightarrow>
     checkNumberPattern (patternOf key d) = None \<and> institution d \<noteq> [] \<and>
     (patternUsesBranch (patternOf key d) \<longrightarrow>
        (\<exists>b r. branchId = Some b \<and> find_by row_id b (branches d) = Some r \<and> br_code r \<noteq> []))"

definition scope_for :: "env \<Rightarrow> series_key \<Rightarrow> uuid option \<Rightarrow> 'a settings_db_scheme \<Rightarrow> app_error + string" where
  "scope_for e key branchId d =
     bindE (number_context_for e key branchId d) (\<lambda>ctx. crash (numberScope (patternOf key d) ctx))"

definition number_count :: "env \<Rightarrow> series_key \<Rightarrow> uuid option \<Rightarrow> 'a settings_db_scheme \<Rightarrow> nat" where
  "number_count e key branchId d =
     (case scope_for e key branchId d of Inl _ \<Rightarrow> 0 | Inr scope \<Rightarrow> last_value key scope (number_counters d))"

lemma crash_eq_Inr [simp]: "crash r = Inr v \<longleftrightarrow> r = Inr v"
  by (cases r) (auto simp: crash_def)

lemma crash_simps [simp]: "crash (Inr v) = Inr v" "crash (Inl m) = Inl (CrashError m)"
  by (simp_all add: crash_def)

lemma find_update_where:
  "(\<And>r. P (f r) = P r) \<Longrightarrow> find P (update_where P f rows) = map_option f (find P rows)"
  by (induction rows) auto

lemma find_append: "find P (xs @ ys) = (case find P xs of None \<Rightarrow> find P ys | Some r \<Rightarrow> Some r)"
  by (induction xs) auto

lemma find_holds: "find P rows = Some r \<Longrightarrow> P r"
  by (induction rows) (auto split: if_splits)

lemma bump_counter_value:
  "bump_counter e key scope rows = (n, rows') \<Longrightarrow> n = Suc (last_value key scope rows) \<and> last_value key scope rows' = n"
  by (auto simp: bump_counter_def last_value_def find_append is_counter_def find_update_where split: option.splits)

lemma series_name_inject [simp]: "series_name k = series_name k' \<longleftrightarrow> k = k'"
  by (cases k; cases k') auto

lemma bump_counter_other:
  assumes "bump_counter e key scope rows = (n, rows')" "(key', scope') \<noteq> (key, scope)"
  shows "last_value key' scope' rows' = last_value key' scope' rows"
proof -
  have "find (is_counter key' scope') (update_where (is_counter key scope) f rows) = find (is_counter key' scope') rows"
    if "\<And>r. nc_seriesKey (f r) = nc_seriesKey r" "\<And>r. nc_scope (f r) = nc_scope r" for f
    using assms(2) that by (induction rows) (auto simp: is_counter_def)
  then show ?thesis
    using assms by (auto simp: bump_counter_def last_value_def find_append is_counter_def split: option.splits if_splits)
qed

lemma pattern_counters [simp]:
  "patternOf key (d\<lparr>number_counters := rows\<rparr>) = patternOf key d"
  "institution_row (d\<lparr>number_counters := rows\<rparr>) = institution_row d"
  by (simp_all add: institution_row_def patternOf_def)

lemma context_counters [simp]:
  "number_context_for e key b (d\<lparr>number_counters := rows\<rparr>) = number_context_for e key b d"
  by (simp add: number_context_for_def cong: option.case_cong)

lemma number_context_ready:
  assumes "number_ready e key b d"
  shows "\<exists>ctx. number_context_for e key b d = Inr ctx \<and>
    (patternUsesBranch (patternOf key d) \<longrightarrow> (\<exists>c. ctx_branchCode ctx = Some c \<and> c \<noteq> []))"
proof -
  obtain inst where "institution_row d = Inr inst"
    using assms by (cases "institution d") (auto simp: number_ready_def institution_row_def)
  with assms show ?thesis
    by (auto simp: number_ready_def number_context_for_def numberContextAt_def Let_def)
qed

lemma next_number_eq_Inr:
  "next_number e key b d = Inr (x, d') \<longleftrightarrow>
     (\<exists>ctx scope n rows number. number_context_for e key b d = Inr ctx
        \<and> numberScope (patternOf key d) ctx = Inr scope
        \<and> bump_counter e key scope (number_counters d) = (n, rows)
        \<and> formatNumber (patternOf key d) ctx n = Inr number
        \<and> x = \<lparr>issued_number = number, issued_sequence = n\<rparr> \<and> d' = d\<lparr>number_counters := rows\<rparr>)"
proof -
  have "(case p of (n, rows) \<Rightarrow> bindE (crash (formatNumber pt ctx n)) (\<lambda>number.
           Inr (\<lparr>issued_number = number, issued_sequence = n\<rparr>, d\<lparr>number_counters := rows\<rparr>))) = Inr (x, d')
      \<longleftrightarrow> (\<exists>n rows number. p = (n, rows) \<and> formatNumber pt ctx n = Inr number
           \<and> x = \<lparr>issued_number = number, issued_sequence = n\<rparr> \<and> d' = d\<lparr>number_counters := rows\<rparr>)"
    for p pt ctx by (cases p) auto
  then show ?thesis by (simp add: next_number_def)
qed

lemma next_number_frame:
  assumes "next_number e key b d = Inr (x, d')"
  shows "\<exists>rows. d' = d\<lparr>number_counters := rows\<rparr>"
  using assms by (auto simp: next_number_eq_Inr)

lemma next_number_step:
  assumes "next_number e key b d = Inr (x, d')"
  shows "issued_sequence x = Suc (number_count e key b d)" "number_count e key b d' = issued_sequence x"
  using assms
  by (auto simp: next_number_eq_Inr number_count_def scope_for_def dest!: bump_counter_value)

lemma next_number_available:
  assumes "number_ready e key b d"
  shows "\<exists>x d'. next_number e key b d = Inr (x, d')"
proof -
  obtain ctx where ctx: "number_context_for e key b d = Inr ctx"
    "patternUsesBranch (patternOf key d) \<longrightarrow> (\<exists>c. ctx_branchCode ctx = Some c \<and> c \<noteq> [])"
    using number_context_ready[OF assms] by blast
  have total: "\<exists>t. fill (patternOf key d) ctx seq = Inr t" for seq
    using fill_total ctx(2) assms by (auto simp: number_ready_def)
  obtain scope where "numberScope (patternOf key d) ctx = Inr scope"
    using total by (auto simp: numberScope_def)
  moreover obtain n rows where "bump_counter e key scope (number_counters d) = (n, rows)"
    by (cases "bump_counter e key scope (number_counters d)") auto
  moreover obtain number where "formatNumber (patternOf key d) ctx n = Inr number"
    using total by (auto simp: formatNumber_def Let_def)
  ultimately show ?thesis using ctx(1) next_number_eq_Inr by blast
qed

definition issue_number :: "env \<Rightarrow> series_key \<Rightarrow> uuid option \<Rightarrow> 'a settings_db_scheme
    \<Rightarrow> (nat \<times> 'a settings_db_scheme) option" where
  "issue_number e key b d =
     (case next_number e key b d of Inl _ \<Rightarrow> None | Inr (x, d') \<Rightarrow> Some (issued_sequence x, d'))"

interpretation counter: number_issuer "number_ready e key b" "issue_number e key b" "number_count e key b"
  for e key b
proof unfold_locales
  fix d :: "'a settings_db_scheme" and n d'
  show "number_ready e key b d \<Longrightarrow> issue_number e key b d \<noteq> None"
    using next_number_available by (fastforce simp: issue_number_def)
  assume "issue_number e key b d = Some (n, d')"
  then obtain x where x: "next_number e key b d = Inr (x, d')" "n = issued_sequence x"
    by (auto simp: issue_number_def split: sum.splits)
  then show "n = Suc (number_count e key b d)" using next_number_step(1) by blast
  assume "number_ready e key b d"
  then show "number_ready e key b d' \<and> number_count e key b d' = n"
    using next_number_step(2)[OF x(1)] next_number_frame[OF x(1)] x(2) by (auto simp: number_ready_def)
qed

text \<open>Every series' default pattern passes the check an institution's own patterns must pass.\<close>

lemma default_patterns_ok: "checkNumberPattern (defaultPattern key) = None"
  by (cases key) (simp_all, code_simp+)

end
