(* ===== verification/Authz.thy ===== *)
theory Authz
  imports Errors
begin

text \<open>
  Who may do what (\<open>packages/permissions\<close>, \<open>apps/api/src/common/authz/scope.ts\<close>): a caller
  holds grants, each one permission at one scope, and a service checks a permission at the branch or
  department of the record it has loaded. The locale \<open>authorizer\<close> is what a guard promises the code
  after it; both guards of the program are instances.
\<close>

section \<open>Permissions, scopes and roles\<close>

type_synonym permission = string

definition ALL_PERMISSIONS :: "permission list" where
  "ALL_PERMISSIONS =
    [''users.read'', ''users.invite'', ''users.manage'', ''roles.assign'', ''audit.read'',
     ''settings.read'', ''settings.manage'', ''catalog.read'', ''catalog.manage'',
     ''calendar.manage'', ''facilities.manage'', ''students.read'', ''students.manage'',
     ''admissions.read'', ''admissions.manage'', ''placement.record'', ''cohorts.read'',
     ''cohorts.manage'', ''enrollments.read'', ''enrollments.manage'', ''results.record'',
     ''fees.read'', ''fees.manage'', ''billing.read'', ''billing.invoice'',
     ''billing.receive'', ''billing.request'', ''approvals.decide'', ''certificates.read'',
     ''certificates.issue'', ''certificates.revoke'', ''posts.read'', ''posts.manage'',
     ''posts.publish'', ''reports.finance'', ''students.import'']"

definition isPermission :: "string \<Rightarrow> bool" where
  "isPermission p \<longleftrightarrow> p \<in> set ALL_PERMISSIONS"

datatype scope = Global | Branch uuid | Department uuid

record grant =
  gr_permission :: permission
  gr_scope :: scope

text \<open>A target that names no branch (\<open>undefined\<close>) or a record without one (\<open>null\<close>) matches no branch scope.\<close>

record target =
  tg_branchId :: "uuid option"
  tg_departmentId :: "uuid option"

datatype system_role = RoleAdmin | RoleCoordinator | RoleSecretary | RoleInstructor

fun role_permissions :: "system_role \<Rightarrow> permission list" where
  "role_permissions RoleAdmin = ALL_PERMISSIONS"
| "role_permissions RoleCoordinator =
    [''users.read'', ''settings.read'', ''catalog.read'', ''catalog.manage'',
     ''students.read'', ''admissions.read'', ''placement.record'', ''cohorts.read'',
     ''cohorts.manage'', ''enrollments.read'', ''results.record'', ''fees.read'',
     ''certificates.read'', ''certificates.issue'', ''posts.read'', ''posts.manage'']"
| "role_permissions RoleSecretary =
    [''settings.read'', ''catalog.read'', ''students.read'', ''students.manage'',
     ''admissions.read'', ''admissions.manage'', ''placement.record'', ''cohorts.read'',
     ''enrollments.read'', ''enrollments.manage'', ''fees.read'', ''billing.read'',
     ''billing.invoice'', ''billing.receive'', ''billing.request'', ''certificates.read'',
     ''posts.read'']"
| "role_permissions RoleInstructor = [''settings.read'', ''catalog.read'']"

fun role_allowedScopes :: "system_role \<Rightarrow> scope_type list" where
  "role_allowedScopes RoleAdmin = [ScopeGlobal]"
| "role_allowedScopes RoleCoordinator = [ScopeGlobal, ScopeDepartment]"
| "role_allowedScopes RoleSecretary = [ScopeGlobal, ScopeBranch]"
| "role_allowedScopes RoleInstructor = [ScopeGlobal]"

fun role_mfaRequired :: "system_role \<Rightarrow> bool" where
  "role_mfaRequired RoleAdmin = True"
| "role_mfaRequired RoleCoordinator = False"
| "role_mfaRequired RoleSecretary = False"
| "role_mfaRequired RoleInstructor = False"

section \<open>Checks\<close>

fun scopeCovers :: "scope \<Rightarrow> target option \<Rightarrow> bool" where
  "scopeCovers Global t = True"
| "scopeCovers s None = True"
| "scopeCovers (Branch i) (Some t) = (tg_branchId t = Some i)"
| "scopeCovers (Department i) (Some t) = (tg_departmentId t = Some i)"

definition hasPermission :: "grant list \<Rightarrow> permission \<Rightarrow> target option \<Rightarrow> bool" where
  "hasPermission grants p t = list_ex (\<lambda>g. gr_permission g = p \<and> scopeCovers (gr_scope g) t) grants"

record reach_sets =
  rs_all :: bool
  rs_branchIds :: "uuid list"
  rs_departmentIds :: "uuid list"

definition scopesFor :: "grant list \<Rightarrow> permission \<Rightarrow> reach_sets" where
  "scopesFor grants p = (let matching = filter (\<lambda>g. gr_permission g = p) grants in
     \<lparr> rs_all = list_ex (\<lambda>g. gr_scope g = Global) matching,
       rs_branchIds = concat (map (\<lambda>g. case gr_scope g of Branch i \<Rightarrow> [i] | _ \<Rightarrow> []) matching),
       rs_departmentIds = concat (map (\<lambda>g. case gr_scope g of Department i \<Rightarrow> [i] | _ \<Rightarrow> []) matching) \<rparr>)"

definition assertScope :: "grant list \<Rightarrow> permission \<Rightarrow> target option \<Rightarrow> app_error + unit" where
  "assertScope grants p t = throwIf (\<not> hasPermission grants p t) PermissionDenied"

definition at_branch :: "uuid \<Rightarrow> target option" where
  "at_branch b = Some \<lparr>tg_branchId = Some b, tg_departmentId = None\<rparr>"

definition at_department :: "uuid \<Rightarrow> target option" where
  "at_department d = Some \<lparr>tg_branchId = None, tg_departmentId = Some d\<rparr>"

datatype reach = ReachAll | ReachBranches "uuid list"

definition branchReach :: "grant list \<Rightarrow> permission \<Rightarrow> reach" where
  "branchReach grants p = (let r = scopesFor grants p in
     if rs_all r \<or> length (rs_departmentIds r) > 0 then ReachAll else ReachBranches (rs_branchIds r))"

text \<open>The condition \<open>reach === 'all' || reach.includes(branchId)\<close> that the lists filter by.\<close>

fun in_reach :: "reach \<Rightarrow> uuid \<Rightarrow> bool" where
  "in_reach ReachAll b = True"
| "in_reach (ReachBranches bs) b = (b \<in> set bs)"

definition assertBranchAccess :: "grant list \<Rightarrow> permission \<Rightarrow> uuid \<Rightarrow> app_error + unit" where
  "assertBranchAccess grants p b =
     (if \<not> in_reach (branchReach grants p) b then assertScope [] p None else Inr ())"

section \<open>What the checks decide\<close>

lemma assertScope_simps [simp]:
  "assertScope grants p t = Inr u \<longleftrightarrow> hasPermission grants p t"
  "assertScope grants p t = Inl e \<longleftrightarrow> \<not> hasPermission grants p t \<and> e = PermissionDenied"
  by (auto simp: assertScope_def)

lemma hasPermission_Nil [simp]: "\<not> hasPermission [] p t"
  by (simp add: hasPermission_def)

lemma hasPermission_branch_iff:
  "hasPermission grants p (at_branch b) \<longleftrightarrow>
     (\<exists>g \<in> set grants. gr_permission g = p \<and> (gr_scope g = Global \<or> gr_scope g = Branch b))"
proof -
  have "scopeCovers s (at_branch b) \<longleftrightarrow> s = Global \<or> s = Branch b" for s
    by (cases s) (auto simp: at_branch_def)
  then show ?thesis by (auto simp: hasPermission_def list_ex_iff)
qed

lemma hasPermission_department_iff:
  "hasPermission grants p (at_department d) \<longleftrightarrow>
     (\<exists>g \<in> set grants. gr_permission g = p \<and> (gr_scope g = Global \<or> gr_scope g = Department d))"
proof -
  have "scopeCovers s (at_department d) \<longleftrightarrow> s = Global \<or> s = Department d" for s
    by (cases s) (auto simp: at_department_def)
  then show ?thesis by (auto simp: hasPermission_def list_ex_iff)
qed

lemma hasPermission_anywhere_iff:
  "hasPermission grants p None \<longleftrightarrow> (\<exists>g \<in> set grants. gr_permission g = p)"
proof -
  have "scopeCovers s None" for s by (cases s) auto
  then show ?thesis by (auto simp: hasPermission_def list_ex_iff)
qed

lemma hasPermission_mono:
  "set gs \<subseteq> set hs \<Longrightarrow> hasPermission gs p t \<Longrightarrow> hasPermission hs p t"
  by (auto simp: hasPermission_def list_ex_iff)

lemma in_branchReach_iff:
  "in_reach (branchReach grants p) b \<longleftrightarrow>
     (\<exists>g \<in> set grants. gr_permission g = p \<and>
        (gr_scope g = Global \<or> gr_scope g = Branch b \<or> (\<exists>d. gr_scope g = Department d)))"
proof -
  have branches: "(\<exists>g \<in> set gs. b \<in> set (case gr_scope g of Branch i \<Rightarrow> [i] | _ \<Rightarrow> []))
      \<longleftrightarrow> (\<exists>g \<in> set gs. gr_scope g = Branch b)" for gs
    by (auto split: scope.splits) (metis list.set_intros(1) scope.simps(11))
  have depts: "concat (map (\<lambda>g. case gr_scope g of Department i \<Rightarrow> [i] | _ \<Rightarrow> []) gs) \<noteq> []
      \<longleftrightarrow> (\<exists>g \<in> set gs. \<exists>d. gr_scope g = Department d)" for gs
    by (induction gs) (auto split: scope.splits)
  show ?thesis
    using branches[of "filter (\<lambda>g. gr_permission g = p) grants"]
      depts[of "filter (\<lambda>g. gr_permission g = p) grants"]
    by (auto simp: branchReach_def scopesFor_def Let_def list_ex_iff)
qed

lemma assertBranchAccess_simps [simp]:
  "assertBranchAccess grants p b = Inr u \<longleftrightarrow> in_reach (branchReach grants p) b"
  "assertBranchAccess grants p b = Inl e \<longleftrightarrow> \<not> in_reach (branchReach grants p) b \<and> e = PermissionDenied"
  by (auto simp: assertBranchAccess_def)

section \<open>The contract of a guard\<close>

text \<open>
  A guard answers for one caller and one record; whatever it lets through, the caller holds the
  permission at a scope that reaches the record, and more grants never take access away.
\<close>

locale authorizer =
  fixes guard :: "grant list \<Rightarrow> permission \<Rightarrow> 'k \<Rightarrow> app_error + unit"
    and reaches :: "scope \<Rightarrow> 'k \<Rightarrow> bool"
  assumes sound: "guard grants p k = Inr () \<Longrightarrow> \<exists>g \<in> set grants. gr_permission g = p \<and> reaches (gr_scope g) k"
    and complete: "g \<in> set grants \<Longrightarrow> gr_permission g = p \<Longrightarrow> reaches (gr_scope g) k \<Longrightarrow> guard grants p k = Inr ()"
    and refusal: "guard grants p k = Inl e \<Longrightarrow> e = PermissionDenied"
begin

lemma passes_iff: "guard grants p k = Inr () \<longleftrightarrow> (\<exists>g \<in> set grants. gr_permission g = p \<and> reaches (gr_scope g) k)"
  using sound complete by blast

lemma refused_iff: "guard grants p k = Inl PermissionDenied \<longleftrightarrow> guard grants p k \<noteq> Inr ()"
  using refusal by (cases "guard grants p k") auto

lemma monotone: "set gs \<subseteq> set hs \<Longrightarrow> guard gs p k = Inr () \<Longrightarrow> guard hs p k = Inr ()"
  using passes_iff by blast

lemma no_grants: "guard [] p k = Inl PermissionDenied"
  using sound[of "[]" p k] refused_iff by auto

lemma other_permissions:
  assumes "\<forall>g \<in> set grants. gr_permission g \<noteq> p"
  shows "guard grants p k = Inl PermissionDenied"
  using assms sound refused_iff by metis

end

definition covers_branch :: "scope \<Rightarrow> uuid \<Rightarrow> bool" where
  "covers_branch s b \<longleftrightarrow> s = Global \<or> s = Branch b"

definition reads_branch :: "scope \<Rightarrow> uuid \<Rightarrow> bool" where
  "reads_branch s b \<longleftrightarrow> s = Global \<or> s = Branch b \<or> (\<exists>d. s = Department d)"

interpretation branch_write: authorizer "\<lambda>grants p b. assertScope grants p (at_branch b)" covers_branch
  by unfold_locales (auto simp: hasPermission_branch_iff covers_branch_def)

interpretation branch_read: authorizer assertBranchAccess reads_branch
  by unfold_locales (auto simp: in_branchReach_iff reads_branch_def)

lemma write_implies_read:
  "assertScope grants p (at_branch b) = Inr () \<Longrightarrow> assertBranchAccess grants p b = Inr ()"
  using branch_write.sound branch_read.complete
  by (metis covers_branch_def reads_branch_def)

end
