(* ===== verification/Settings.thy ===== *)
theory Settings
  imports Institution Authz
begin

text \<open>
  The settings the other modules consult (\<open>apps/api/src/modules/settings/application\<close>): module
  switches with their dependencies, the institution's dropdown lists, branches and departments, and
  the definitions of custom fields with the check of the values entered for them.
\<close>

section \<open>Module switches\<close>

datatype module_key =
    Website | PreRegistration | Placement | Certificates | StudentIds | FeeReminders | News

definition MODULE_KEYS :: "module_key list" where
  "MODULE_KEYS = [Website, PreRegistration, Placement, Certificates, StudentIds, FeeReminders, News]"

fun moduleName :: "module_key \<Rightarrow> string" where
  "moduleName Website = ''website''"
| "moduleName PreRegistration = ''pre_registration''"
| "moduleName Placement = ''placement''"
| "moduleName Certificates = ''certificates''"
| "moduleName StudentIds = ''student_ids''"
| "moduleName FeeReminders = ''fee_reminders''"
| "moduleName News = ''news''"

fun module_title :: "module_key \<Rightarrow> string" where
  "module_title Website = ''Public website''"
| "module_title PreRegistration = ''Online pre-registration''"
| "module_title Placement = ''Placement tests''"
| "module_title Certificates = ''Certificates''"
| "module_title StudentIds = ''Student ID cards''"
| "module_title FeeReminders = ''Fee reminders''"
| "module_title News = ''News and announcements''"

fun module_requires :: "module_key \<Rightarrow> module_key list" where
  "module_requires PreRegistration = [Website]"
| "module_requires k = []"

definition module_of :: "string \<Rightarrow> module_key option" where
  "module_of s = find_by moduleName s MODULE_KEYS"

definition isEnabled :: "module_key \<Rightarrow> 'a settings_db_scheme \<Rightarrow> bool" where
  "isEnabled k d = (case find_by mod_key (moduleName k) (module_settings d) of
     None \<Rightarrow> True | Some r \<Rightarrow> mod_enabled r)"

definition upsert_module :: "env \<Rightarrow> module_key \<Rightarrow> bool \<Rightarrow> actor \<Rightarrow> module_setting_row list \<Rightarrow> module_setting_row list" where
  "upsert_module e k enabled a rows =
     (let n = moduleName k;
          row = \<lparr>mod_key = n, mod_enabled = enabled, mod_updatedAt = now e, mod_updatedBy = Some (actor_userId a)\<rparr>
      in if find_by mod_key n rows = None then rows @ [row]
         else update_where (\<lambda>r. mod_key r = n) (\<lambda>_. row) rows)"

definition setModule :: "env \<Rightarrow> string \<Rightarrow> bool \<Rightarrow> actor \<Rightarrow> 'a settings_db_scheme \<Rightarrow> app_error + 'a settings_db_scheme" where
  "setModule e key enabled a d =
     bindE (demand (module_of key) (Settings UnknownModule)) (\<lambda>k.
     bindE (if enabled then
              (let missing = filter (\<lambda>dep. \<not> isEnabled dep d) (module_requires k) in
               throwIf (missing \<noteq> []) (Settings (ModuleDependency
                 (''Turn on '' @ join '', '' (map module_title missing) @ '' first.''))))
            else
              (let dependents = filter (\<lambda>other. isEnabled other d \<and> k \<in> set (module_requires other)) MODULE_KEYS in
               throwIf (dependents \<noteq> []) (Settings (ModuleDependency
                 (''Turn off '' @ join '', '' (map module_title dependents) @ '' first.''))))) (\<lambda>_.
     Inr (if isEnabled k d \<noteq> enabled then
            audit e (if enabled then ''module.enabled'' else ''module.disabled'') ''module'' (JStr key) []
              (d\<lparr>module_settings := upsert_module e k enabled a (module_settings d)\<rparr>)
          else d)))"

text \<open>A module that is on has everything it requires on.\<close>

definition modules_closed :: "'a settings_db_scheme \<Rightarrow> bool" where
  "modules_closed d \<longleftrightarrow> (\<forall>k. isEnabled k d \<longrightarrow> (\<forall>dep \<in> set (module_requires k). isEnabled dep d))"

section \<open>Dropdown lists\<close>

definition descriptor_for :: "string \<Rightarrow> string \<Rightarrow> 'a settings_db_scheme \<Rightarrow> descriptor_row option" where
  "descriptor_for namespace code d = find (\<lambda>r. ds_namespace r = namespace \<and> ds_code r = code) (descriptors d)"

definition isActiveCode :: "string \<Rightarrow> string \<Rightarrow> 'a settings_db_scheme \<Rightarrow> bool" where
  "isActiveCode namespace code d = (case descriptor_for namespace code d of None \<Rightarrow> False | Some r \<Rightarrow> ds_isActive r)"

definition assertActiveCode :: "string \<Rightarrow> string option \<Rightarrow> 'a settings_db_scheme \<Rightarrow> app_error + unit" where
  "assertActiveCode namespace code d = (case code of
     None \<Rightarrow> Inr ()
   | Some c \<Rightarrow> throwIf (\<not> isActiveCode namespace c d) (Settings (InvalidListValue namespace)))"

record create_descriptor =
  cd_namespace :: string
  cd_code :: string
  cd_label :: string
  cd_sortOrder :: int

definition createDescriptor :: "env \<Rightarrow> create_descriptor \<Rightarrow> actor \<Rightarrow> 'a settings_db_scheme
    \<Rightarrow> app_error + (descriptor_row \<times> 'a settings_db_scheme)" where
  "createDescriptor e inp a d = (case take_id d of (i, d1) \<Rightarrow>
     let row = \<lparr>row_id = i, createdAt = now e, updatedAt = now e,
                createdBy = Some (actor_userId a), updatedBy = Some (actor_userId a), version = 1,
                ds_namespace = cd_namespace inp, ds_code = cd_code inp, ds_label = cd_label inp,
                ds_sortOrder = cd_sortOrder inp, ds_isActive = True\<rparr> in
     bindE (insert_unless (\<lambda>r. ds_namespace r = ds_namespace row \<and> ds_code r = ds_code row)
              (Settings (SettingsCodeTaken ''value in this list'')) row (descriptors d1)) (\<lambda>rows.
     Inr (row, audit e ''descriptor.created'' ''descriptor'' (JUuid i)
       [(''namespace'', JStr (ds_namespace row)), (''code'', JStr (ds_code row)), (''label'', JStr (ds_label row))]
       (d1\<lparr>descriptors := rows\<rparr>))))"

record update_descriptor =
  ud_label :: "string option"
  ud_sortOrder :: "int option"
  ud_isActive :: "bool option"

definition apply_descriptor_update :: "update_descriptor \<Rightarrow> actor \<Rightarrow> descriptor_row \<Rightarrow> descriptor_row" where
  "apply_descriptor_update inp a r = r\<lparr>ds_label := override (ud_label inp) (ds_label r),
     ds_sortOrder := override (ud_sortOrder inp) (ds_sortOrder r),
     ds_isActive := override (ud_isActive inp) (ds_isActive r),
     updatedBy := Some (actor_userId a)\<rparr>"

definition updateDescriptor :: "env \<Rightarrow> uuid \<Rightarrow> update_descriptor \<Rightarrow> int \<Rightarrow> actor \<Rightarrow> 'a settings_db_scheme
    \<Rightarrow> app_error + (descriptor_row \<times> 'a settings_db_scheme)" where
  "updateDescriptor e i inp expectedVersion a d =
     bindE (demand (find_by row_id i (descriptors d)) (Settings DescriptorNotFound)) (\<lambda>before.
     case updateWithVersion e (apply_descriptor_update inp a) i expectedVersion (descriptors d) of
       (result, rows) \<Rightarrow>
     bindE (versionedRow (Settings DescriptorNotFound) result) (\<lambda>row.
     Inr (row, audit e ''descriptor.updated'' ''descriptor'' (JUuid i)
       ([(''namespace'', JStr (ds_namespace before)), (''code'', JStr (ds_code before))]
        @ diffChanges [(''label'', JStr (ds_label before)), (''sortOrder'', JInt (ds_sortOrder before)),
                       (''isActive'', JBool (ds_isActive before))]
                      [(''label'', map_option JStr (ud_label inp)), (''sortOrder'', map_option JInt (ud_sortOrder inp)),
                       (''isActive'', map_option JBool (ud_isActive inp))])
       (d\<lparr>descriptors := rows\<rparr>))))"

section \<open>Branches and departments\<close>

record create_branch =
  cb_code :: string
  cb_name :: string
  cb_address :: "string option"
  cb_phone :: "string option"

definition createBranch :: "env \<Rightarrow> create_branch \<Rightarrow> actor \<Rightarrow> 'a settings_db_scheme
    \<Rightarrow> app_error + (branch_row \<times> 'a settings_db_scheme)" where
  "createBranch e inp a d = (case take_id d of (i, d1) \<Rightarrow>
     let row = \<lparr>row_id = i, createdAt = now e, updatedAt = now e,
                createdBy = Some (actor_userId a), updatedBy = Some (actor_userId a), version = 1,
                br_code = cb_code inp, br_name = cb_name inp, br_address = cb_address inp,
                br_phone = cb_phone inp, br_isActive = True\<rparr> in
     bindE (insert_unless (\<lambda>r. br_code r = br_code row) (Settings (SettingsCodeTaken ''branch'')) row (branches d1)) (\<lambda>rows.
     Inr (row, audit e ''branch.created'' ''branch'' (JUuid i)
       [(''code'', JStr (br_code row)), (''name'', JStr (br_name row))] (d1\<lparr>branches := rows\<rparr>))))"

record update_branch =
  ub_name :: "string option"
  ub_address :: "string option option"
  ub_phone :: "string option option"
  ub_isActive :: "bool option"

definition assertAnotherActiveBranch :: "uuid \<Rightarrow> 'a settings_db_scheme \<Rightarrow> app_error + unit" where
  "assertAnotherActiveBranch excludingId d =
     throwIf (length (filter (\<lambda>b. br_isActive b \<and> row_id b \<noteq> excludingId) (branches d)) = 0) (Settings LastActiveBranch)"

definition apply_branch_update :: "update_branch \<Rightarrow> actor \<Rightarrow> branch_row \<Rightarrow> branch_row" where
  "apply_branch_update inp a r = r\<lparr>br_name := override (ub_name inp) (br_name r),
     br_address := override (ub_address inp) (br_address r),
     br_phone := override (ub_phone inp) (br_phone r),
     br_isActive := override (ub_isActive inp) (br_isActive r),
     updatedBy := Some (actor_userId a)\<rparr>"

definition updateBranch :: "env \<Rightarrow> uuid \<Rightarrow> update_branch \<Rightarrow> int \<Rightarrow> actor \<Rightarrow> 'a settings_db_scheme
    \<Rightarrow> app_error + (branch_row \<times> 'a settings_db_scheme)" where
  "updateBranch e i inp expectedVersion a d =
     bindE (demand (find_by row_id i (branches d)) (Settings BranchNotFound)) (\<lambda>before.
     bindE (if ub_isActive inp = Some False \<and> br_isActive before then assertAnotherActiveBranch i d else Inr ()) (\<lambda>_.
     case updateWithVersion e (apply_branch_update inp a) i expectedVersion (branches d) of
       (result, rows) \<Rightarrow>
     bindE (versionedRow (Settings BranchNotFound) result) (\<lambda>row.
     Inr (row, audit e ''branch.updated'' ''branch'' (JUuid i)
       (diffChanges [(''name'', JStr (br_name before)), (''address'', json_opt JStr (br_address before)),
                     (''phone'', json_opt JStr (br_phone before)), (''isActive'', JBool (br_isActive before))]
                    [(''name'', map_option JStr (ub_name inp)), (''address'', map_option (json_opt JStr) (ub_address inp)),
                     (''phone'', map_option (json_opt JStr) (ub_phone inp)), (''isActive'', map_option JBool (ub_isActive inp))])
       (d\<lparr>branches := rows\<rparr>)))))"

record create_department =
  cdp_code :: string
  cdp_name :: string
  cdp_description :: string
  cdp_sortOrder :: int

definition createDepartment :: "env \<Rightarrow> create_department \<Rightarrow> actor \<Rightarrow> 'a settings_db_scheme
    \<Rightarrow> app_error + (department_row \<times> 'a settings_db_scheme)" where
  "createDepartment e inp a d = (case take_id d of (i, d1) \<Rightarrow>
     let row = \<lparr>row_id = i, createdAt = now e, updatedAt = now e,
                createdBy = Some (actor_userId a), updatedBy = Some (actor_userId a), version = 1,
                dept_code = cdp_code inp, dept_name = cdp_name inp, dept_description = cdp_description inp,
                dept_isActive = True, dept_sortOrder = cdp_sortOrder inp\<rparr> in
     bindE (insert_unless (\<lambda>r. dept_code r = dept_code row) (Settings (SettingsCodeTaken ''department'')) row (departments d1)) (\<lambda>rows.
     Inr (row, audit e ''department.created'' ''department'' (JUuid i)
       [(''code'', JStr (dept_code row)), (''name'', JStr (dept_name row))] (d1\<lparr>departments := rows\<rparr>))))"

record update_department =
  udp_name :: "string option"
  udp_description :: "string option"
  udp_sortOrder :: "int option"
  udp_isActive :: "bool option"

definition apply_department_update :: "update_department \<Rightarrow> actor \<Rightarrow> department_row \<Rightarrow> department_row" where
  "apply_department_update inp a r = r\<lparr>dept_name := override (udp_name inp) (dept_name r),
     dept_description := override (udp_description inp) (dept_description r),
     dept_sortOrder := override (udp_sortOrder inp) (dept_sortOrder r),
     dept_isActive := override (udp_isActive inp) (dept_isActive r),
     updatedBy := Some (actor_userId a)\<rparr>"

definition updateDepartment :: "env \<Rightarrow> uuid \<Rightarrow> update_department \<Rightarrow> int \<Rightarrow> actor \<Rightarrow> 'a settings_db_scheme
    \<Rightarrow> app_error + (department_row \<times> 'a settings_db_scheme)" where
  "updateDepartment e i inp expectedVersion a d =
     bindE (demand (find_by row_id i (departments d)) (Settings DepartmentNotFound)) (\<lambda>before.
     case updateWithVersion e (apply_department_update inp a) i expectedVersion (departments d) of
       (result, rows) \<Rightarrow>
     bindE (versionedRow (Settings DepartmentNotFound) result) (\<lambda>row.
     Inr (row, audit e ''department.updated'' ''department'' (JUuid i)
       (diffChanges [(''name'', JStr (dept_name before)), (''description'', JStr (dept_description before)),
                     (''sortOrder'', JInt (dept_sortOrder before)), (''isActive'', JBool (dept_isActive before))]
                    [(''name'', map_option JStr (udp_name inp)), (''description'', map_option JStr (udp_description inp)),
                     (''sortOrder'', map_option JInt (udp_sortOrder inp)), (''isActive'', map_option JBool (udp_isActive inp))])
       (d\<lparr>departments := rows\<rparr>))))"

definition isActiveUnit :: "scope \<Rightarrow> 'a settings_db_scheme \<Rightarrow> bool" where
  "isActiveUnit s d = (case s of
     Global \<Rightarrow> False
   | Branch i \<Rightarrow> list_ex (\<lambda>b. row_id b = i \<and> br_isActive b) (branches d)
   | Department i \<Rightarrow> list_ex (\<lambda>b. row_id b = i \<and> dept_isActive b) (departments d))"

section \<open>Custom fields\<close>

text \<open>
  The values entered for custom fields, checked against the active definitions
  (\<open>customFieldValuesSchema\<close>): the cleaned object, or the keys that are wrong. A value is absent,
  \<open>null\<close> or given.
\<close>

definition iso_date_ok :: "string \<Rightarrow> bool" where
  "iso_date_ok s \<longleftrightarrow> length s = 10 \<and> s ! 4 = CHR ''-'' \<and> s ! 7 = CHR ''-''
     \<and> list_all is_digit (take 4 s @ take 2 (drop 5 s) @ drop 8 s)
     \<and> valid_date (Date (int (num_of (take 4 s))) (num_of (take 2 (drop 5 s))) (num_of (drop 8 s)))"

definition parseFieldValue :: "custom_field_row \<Rightarrow> json \<Rightarrow> json option" where
  "parseFieldValue f v = (case cf_fieldType f of
     FText \<Rightarrow> (case v of JStr s \<Rightarrow>
         let t = trim s in if length t \<le> 500 \<and> (cf_required f \<longrightarrow> t \<noteq> []) then Some (JStr t) else None
       | _ \<Rightarrow> None)
   | FLongText \<Rightarrow> (case v of JStr s \<Rightarrow>
         let t = trim s in if length t \<le> 4000 \<and> (cf_required f \<longrightarrow> t \<noteq> []) then Some (JStr t) else None
       | _ \<Rightarrow> None)
   | FNumber \<Rightarrow> (case v of JInt n \<Rightarrow> Some v | JRat r \<Rightarrow> Some v | _ \<Rightarrow> None)
   | FDate \<Rightarrow> (case v of JStr s \<Rightarrow> if iso_date_ok s then Some v else None | _ \<Rightarrow> None)
   | FSelect \<Rightarrow> (case v of JStr s \<Rightarrow> if s \<in> set (cf_options f) then Some v else None | _ \<Rightarrow> None)
   | FCheckbox \<Rightarrow> (case v of JBool b \<Rightarrow> Some v | _ \<Rightarrow> None))"

definition parseField :: "(string \<times> json) list \<Rightarrow> custom_field_row \<Rightarrow> string + (string \<times> json) list" where
  "parseField values f = (case map_of values (cf_key f) of
     None \<Rightarrow> if cf_required f then Inl (cf_key f) else Inr []
   | Some v \<Rightarrow>
       if v = JNull \<and> \<not> cf_required f then Inr [(cf_key f, JNull)]
       else (case parseFieldValue f v of None \<Rightarrow> Inl (cf_key f) | Some w \<Rightarrow> Inr [(cf_key f, w)]))"

definition listCustomFields :: "entity_type \<Rightarrow> 'a settings_db_scheme \<Rightarrow> custom_field_row list" where
  "listCustomFields t d = sort_key cf_sortOrder
     (sort_key cf_label (filter (\<lambda>f. cf_entityType f = t) (custom_field_definitions d)))"

definition validateValues :: "entity_type \<Rightarrow> (string \<times> json) list \<Rightarrow> 'a settings_db_scheme \<Rightarrow> app_error + json" where
  "validateValues t values d =
     (let results = map (parseField values) (filter cf_isActive (listCustomFields t d));
          problems = concat (map (\<lambda>r. case r of Inl k \<Rightarrow> [''customFields.'' @ k] | Inr _ \<Rightarrow> []) results)
      in if problems \<noteq> [] then Inl (ValidationFailed problems)
         else Inr (JObj (concat (map (\<lambda>r. case r of Inl _ \<Rightarrow> [] | Inr kv \<Rightarrow> kv) results))))"

definition checkOptions :: "field_type \<Rightarrow> string list \<Rightarrow> app_error + unit" where
  "checkOptions t options =
     (if t \<noteq> FSelect \<and> length options > 0 then Inl (InvalidOptions ''Only list fields have choices.'')
      else if t = FSelect \<and> length options < 2 then Inl (InvalidOptions ''Give a list at least 2 choices.'')
      else if \<not> distinct options then Inl (InvalidOptions ''Choices must be unique.'')
      else Inr ())"

record create_custom_field =
  ccf_entityType :: entity_type
  ccf_key :: string
  ccf_fieldType :: field_type
  ccf_label :: string
  ccf_options :: "string list"
  ccf_required :: bool
  ccf_helpText :: string
  ccf_sortOrder :: int

fun entity_name :: "entity_type \<Rightarrow> string" where
  "entity_name EStudent = ''student''" | "entity_name EApplication = ''application''"
| "entity_name EStaff = ''staff''" | "entity_name ECohort = ''cohort''"

fun field_type_name :: "field_type \<Rightarrow> string" where
  "field_type_name FText = ''text''" | "field_type_name FLongText = ''long_text''"
| "field_type_name FNumber = ''number''" | "field_type_name FDate = ''date''"
| "field_type_name FSelect = ''select''" | "field_type_name FCheckbox = ''checkbox''"

definition createCustomField :: "env \<Rightarrow> create_custom_field \<Rightarrow> actor \<Rightarrow> 'a settings_db_scheme
    \<Rightarrow> app_error + (custom_field_row \<times> 'a settings_db_scheme)" where
  "createCustomField e inp a d = (case take_id d of (i, d1) \<Rightarrow>
     let row = \<lparr>row_id = i, createdAt = now e, updatedAt = now e,
                createdBy = Some (actor_userId a), updatedBy = Some (actor_userId a), version = 1,
                cf_entityType = ccf_entityType inp, cf_key = ccf_key inp, cf_label = ccf_label inp,
                cf_fieldType = ccf_fieldType inp,
                cf_options = (if ccf_fieldType inp = FSelect then ccf_options inp else []),
                cf_required = ccf_required inp, cf_helpText = ccf_helpText inp, cf_isActive = True,
                cf_sortOrder = ccf_sortOrder inp\<rparr> in
     bindE (insert_unless (\<lambda>r. cf_entityType r = cf_entityType row \<and> cf_key r = cf_key row)
              (Settings (SettingsCodeTaken ''field'')) row (custom_field_definitions d1)) (\<lambda>rows.
     Inr (row, audit e ''custom_field.created'' ''custom_field'' (JUuid i)
       [(''entityType'', JStr (entity_name (cf_entityType row))), (''key'', JStr (cf_key row)),
        (''fieldType'', JStr (field_type_name (cf_fieldType row)))] (d1\<lparr>custom_field_definitions := rows\<rparr>))))"

record update_custom_field =
  ucf_label :: "string option"
  ucf_options :: "string list option"
  ucf_required :: "bool option"
  ucf_helpText :: "string option"
  ucf_sortOrder :: "int option"
  ucf_isActive :: "bool option"

definition apply_custom_field_update :: "update_custom_field \<Rightarrow> actor \<Rightarrow> custom_field_row \<Rightarrow> custom_field_row" where
  "apply_custom_field_update inp a r = r\<lparr>cf_label := override (ucf_label inp) (cf_label r),
     cf_options := override (ucf_options inp) (cf_options r),
     cf_required := override (ucf_required inp) (cf_required r),
     cf_helpText := override (ucf_helpText inp) (cf_helpText r),
     cf_sortOrder := override (ucf_sortOrder inp) (cf_sortOrder r),
     cf_isActive := override (ucf_isActive inp) (cf_isActive r),
     updatedBy := Some (actor_userId a)\<rparr>"

definition updateCustomField :: "env \<Rightarrow> uuid \<Rightarrow> update_custom_field \<Rightarrow> int \<Rightarrow> actor \<Rightarrow> 'a settings_db_scheme
    \<Rightarrow> app_error + (custom_field_row \<times> 'a settings_db_scheme)" where
  "updateCustomField e i inp expectedVersion a d =
     bindE (demand (find_by row_id i (custom_field_definitions d)) (Settings CustomFieldNotFound)) (\<lambda>before.
     bindE (case ucf_options inp of None \<Rightarrow> Inr () | Some os \<Rightarrow> checkOptions (cf_fieldType before) os) (\<lambda>_.
     case updateWithVersion e (apply_custom_field_update inp a) i expectedVersion (custom_field_definitions d) of
       (result, rows) \<Rightarrow>
     bindE (versionedRow (Settings CustomFieldNotFound) result) (\<lambda>row.
     Inr (row, audit e ''custom_field.updated'' ''custom_field'' (JUuid i)
       ((''key'', JStr (cf_key before)) #
        diffChanges [(''label'', JStr (cf_label before)), (''options'', JArr (map JStr (cf_options before))),
                     (''required'', JBool (cf_required before)), (''helpText'', JStr (cf_helpText before)),
                     (''sortOrder'', JInt (cf_sortOrder before)), (''isActive'', JBool (cf_isActive before))]
                    [(''label'', map_option JStr (ucf_label inp)), (''options'', map_option (\<lambda>os. JArr (map JStr os)) (ucf_options inp)),
                     (''required'', map_option JBool (ucf_required inp)), (''helpText'', map_option JStr (ucf_helpText inp)),
                     (''sortOrder'', map_option JInt (ucf_sortOrder inp)), (''isActive'', map_option JBool (ucf_isActive inp))])
       (d\<lparr>custom_field_definitions := rows\<rparr>)))))"

text \<open>What a create or an update can store: choices only on list fields, at least two, all different.\<close>

definition options_ok :: "custom_field_row \<Rightarrow> bool" where
  "options_ok f \<longleftrightarrow> (if cf_fieldType f = FSelect then 2 \<le> length (cf_options f) \<and> distinct (cf_options f)
                     else cf_options f = [])"

section \<open>Lemmas\<close>

lemma assertActiveCode_simps [simp]:
  "assertActiveCode ns code d = Inr u \<longleftrightarrow> (\<forall>c. code = Some c \<longrightarrow> isActiveCode ns c d)"
  by (cases code) (auto simp: assertActiveCode_def)

lemma moduleName_inject [simp]: "moduleName k = moduleName k' \<longleftrightarrow> k = k'"
  by (cases k; cases k') auto

lemma all_modules: "k \<in> set MODULE_KEYS"
  by (cases k) (auto simp: MODULE_KEYS_def)

lemma module_of_name: "module_of s = Some k \<Longrightarrow> s = moduleName k"
  unfolding module_of_def by (drule find_by_key) simp

lemma audit_frame [simp]:
  "module_settings (audit e x y z w d) = module_settings d" "branches (audit e x y z w d) = branches d"
  "descriptors (audit e x y z w d) = descriptors d" "institution (audit e x y z w d) = institution d"
  "departments (audit e x y z w d) = departments d" "number_series (audit e x y z w d) = number_series d"
  "number_counters (audit e x y z w d) = number_counters d"
  "custom_field_definitions (audit e x y z w d) = custom_field_definitions d"
  by (simp_all add: audit_def record_audit_def)

lemma isEnabled_upsert:
  "isEnabled k' (d\<lparr>module_settings := upsert_module e k on a rows\<rparr>)
     = (if k' = k then on else isEnabled k' (d\<lparr>module_settings := rows\<rparr>))"
proof -
  have upd: "find_by mod_key (moduleName k') (update_where (\<lambda>r. mod_key r = moduleName k) (\<lambda>_. row) rows)
      = (if k' = k then map_option (\<lambda>_. row) (find_by mod_key (moduleName k) rows)
         else find_by mod_key (moduleName k') rows)"
    if "mod_key row = moduleName k" for row k'
    using that by (induction rows) auto
  show ?thesis
    by (auto simp: isEnabled_def upsert_module_def Let_def upd find_by_append split: option.splits)
qed

lemma isEnabled_module_settings: "module_settings d = module_settings d' \<Longrightarrow> isEnabled k d = isEnabled k d'"
  by (simp add: isEnabled_def)

lemma setModule_closed:
  assumes "setModule e key on a d = Inr d'" "modules_closed d"
  shows "modules_closed d'"
proof -
  obtain k where k: "module_of key = Some k" using assms(1) by (auto simp: setModule_def)
  have on: "dep \<in> set (module_requires k) \<Longrightarrow> isEnabled dep d" if on for dep
    using assms(1) k that by (auto simp: setModule_def Let_def filter_empty_conv)
  have off: "k \<in> set (module_requires other) \<Longrightarrow> \<not> isEnabled other d" if "\<not> on" for other
    using assms(1) k that all_modules[of other] by (auto simp: setModule_def Let_def filter_empty_conv)
  have new: "isEnabled k' d' = (if k' = k then on else isEnabled k' d)" for k'
  proof (cases "isEnabled k d = on")
    case True
    then have "d' = d" using assms(1) k by (simp add: setModule_def)
    with True show ?thesis by simp
  next
    case False
    then have "module_settings d' = upsert_module e k on a (module_settings d)"
      using assms(1) k by (auto simp: setModule_def)
    then have "isEnabled k' d' = isEnabled k' (d\<lparr>module_settings := upsert_module e k on a (module_settings d)\<rparr>)"
      by (intro isEnabled_module_settings) simp
    then show ?thesis by (simp add: isEnabled_upsert)
  qed
  have not_self: "k \<notin> set (module_requires k)" by (cases k) auto
  show ?thesis
    unfolding modules_closed_def
  proof (intro allI impI ballI)
    fix k' dep assume k': "isEnabled k' d'" and dep: "dep \<in> set (module_requires k')"
    show "isEnabled dep d'"
    proof (cases "k' = k")
      case True
      with k' dep not_self on show ?thesis by (auto simp: new)
    next
      case False
      then have en: "isEnabled k' d" using k' by (simp add: new)
      then have "isEnabled dep d" using assms(2) dep by (auto simp: modules_closed_def)
      then show ?thesis using off en dep by (auto simp: new)
    qed
  qed
qed

lemma apply_branch_update_simps [simp]:
  "row_id (apply_branch_update inp a r) = row_id r"
  "br_isActive (apply_branch_update inp a r) = override (ub_isActive inp) (br_isActive r)"
  by (simp_all add: apply_branch_update_def)

lemma br_isActive_touch [simp]: "br_isActive ((touch e r)\<lparr>version := v\<rparr>) = br_isActive r"
  by (simp add: touch_def)

lemma updateBranch_keeps_active:
  assumes "updateBranch e i inp v a d = Inr (row, d')" "ids_distinct (branches d)"
    and "\<exists>b \<in> set (branches d). br_isActive b"
  shows "\<exists>b \<in> set (branches d'). br_isActive b"
proof -
  obtain before rows where before: "find_by row_id i (branches d) = Some before"
    and u: "updateWithVersion e (apply_branch_update inp a) i v (branches d) = (Updated row, rows)"
    and d': "branches d' = rows"
    and guard: "ub_isActive inp = Some False \<and> br_isActive before \<longrightarrow>
        filter (\<lambda>b. br_isActive b \<and> row_id b \<noteq> i) (branches d) \<noteq> []"
    using assms(1)
    by (auto simp: updateBranch_def assertAnotherActiveBranch_def split: if_splits)
  have rows: "rows = update_where (\<lambda>x. row_id x = i) (\<lambda>x. (touch e (apply_branch_update inp a x))\<lparr>version := v + 1\<rparr>) (branches d)"
    using assms(2) u by (elim updateWithVersion_Updated)
  have before_eq: "b = before" if "b \<in> set (branches d)" "row_id b = i" for b
    using that before assms(2) by (metis find_by_distinct ids_distinct_def option.inject)
  have kept: "b \<in> set rows" if "b \<in> set (branches d)" "row_id b \<noteq> i" for b
    using that by (auto simp: rows set_update_where image_iff)
  obtain b where b: "b \<in> set (branches d)" "br_isActive b" using assms(3) by blast
  show ?thesis
  proof (cases "row_id b = i \<and> ub_isActive inp = Some False")
    case True
    then have "br_isActive before" using b before_eq by blast
    with guard True obtain c where "c \<in> set (branches d)" "br_isActive c" "row_id c \<noteq> i"
      by (auto simp: filter_empty_conv)
    with kept d' show ?thesis by blast
  next
    case False
    let ?new = "if row_id b = i then (touch e (apply_branch_update inp a b))\<lparr>version := v + 1\<rparr> else b"
    have "?new \<in> set rows" using b by (auto simp: rows set_update_where)
    moreover have "br_isActive ?new"
      using False b(2) by (cases "ub_isActive inp") (auto simp: override_def)
    ultimately show ?thesis using d' by blast
  qed
qed

end
