(* ===== verification/Lookups.thy ===== *)
theory Lookups
  imports Settings
begin

text \<open>
  The reads that one module exports to another: the course with its department
  (\<open>catalog/application/courses.service.ts\<close>), the student who must exist
  (\<open>students/application/students.service.ts\<close>), and what billing needs to know of an enrollment
  (\<open>cohorts/application/enrollments.service.ts\<close>).
\<close>

definition program_row :: "uuid \<Rightarrow> 'a catalog_db_scheme \<Rightarrow> app_error + program_row" where
  "program_row i d = demand (find_by row_id i (programs d)) (Catalog ProgramNotFound)"

definition course_row :: "uuid \<Rightarrow> 'a catalog_db_scheme \<Rightarrow> app_error + course_row" where
  "course_row i d = demand (find_by row_id i (courses d)) (Catalog CourseNotFound)"

text \<open>The course and the department of its program; no course, no answer.\<close>

definition findWithDepartment :: "uuid \<Rightarrow> 'a catalog_db_scheme \<Rightarrow> app_error + (course_row \<times> uuid) option" where
  "findWithDepartment i d = (case find_by row_id i (courses d) of
     None \<Rightarrow> Inr None
   | Some row \<Rightarrow> bindE (program_row (crs_programId row) d) (\<lambda>program. Inr (Some (row, prog_departmentId program))))"

definition requireExisting :: "uuid \<Rightarrow> 'a people_db_scheme \<Rightarrow> app_error + student_row" where
  "requireExisting i d = demand (find_by row_id i (students d)) (Students StudentNotFound)"

record billing_context =
  bc_enrollmentId :: uuid
  bc_status :: enrollment_status
  bc_studentId :: uuid
  bc_cohortId :: uuid
  bc_courseId :: uuid
  bc_branchId :: uuid
  bc_startDate :: date
  bc_completedAt :: "instant option"

definition billingContext :: "uuid \<Rightarrow> 'a classes_db_scheme \<Rightarrow> billing_context option" where
  "billingContext i d =
     Option.bind (find_by row_id i (enrollments d)) (\<lambda>en.
     Option.bind (find_by row_id (enr_cohortId en) (cohorts d)) (\<lambda>c. Some
       \<lparr>bc_enrollmentId = row_id en, bc_status = enr_status en, bc_studentId = enr_studentId en,
        bc_cohortId = enr_cohortId en, bc_courseId = coh_courseId c, bc_branchId = coh_branchId c,
        bc_startDate = coh_startDate c, bc_completedAt = enr_completedAt en\<rparr>))"

end
