(* ===== verification/Fees.thy ===== *)
theory Fees
  imports MoneyFlow Lookups
begin

text \<open>
  What courses cost and how an invoice is split (\<open>billing/application/fees.service.ts\<close>): fee
  structures, effective from a date and possibly for one student category, and payment plans, of
  which at most one is the default.
\<close>

section \<open>Fee structures\<close>

record create_fee_structure =
  cfs_name :: string
  cfs_courseId :: uuid
  cfs_categoryCode :: "string option"
  cfs_effectiveFrom :: date
  cfs_components :: "fee_component list"

definition valid_fee_structure_request :: "create_fee_structure \<Rightarrow> bool" where
  "valid_fee_structure_request inp \<longleftrightarrow>
     1 \<le> length (cfs_components inp) \<and> length (cfs_components inp) \<le> 10 \<and>
     (\<forall>c \<in> set (cfs_components inp). is_positive_minor_units (fc_amount c))"

definition createStructure :: "env \<Rightarrow> create_fee_structure \<Rightarrow> actor \<Rightarrow> db \<Rightarrow> app_error + (fee_structure_row \<times> db)" where
  "createStructure e inp a d =
     bindE (findWithDepartment (cfs_courseId inp) d) (\<lambda>found.
     bindE (throwIf (found = None) (Billing FeeStructureNotFound)) (\<lambda>_.
     bindE (assertActiveCode ''student_category'' (cfs_categoryCode inp) d) (\<lambda>_.
     bindE (institution_row d) (\<lambda>inst.
     case take_id d of (i, d1) \<Rightarrow>
     let row = \<lparr>row_id = i, createdAt = now e, updatedAt = now e,
                createdBy = Some (actor_userId a), updatedBy = Some (actor_userId a), version = 1,
                fs_name = cfs_name inp, fs_courseId = cfs_courseId inp, fs_categoryCode = cfs_categoryCode inp,
                fs_effectiveFrom = cfs_effectiveFrom inp, fs_currency = inst_currency inst,
                fs_components = cfs_components inp,
                fs_total = sum_list (map fc_amount (cfs_components inp)), fs_isActive = True\<rparr> in
     bindE (insert_unless (\<lambda>r. fs_courseId r = fs_courseId row \<and> fs_categoryCode r = fs_categoryCode row
                              \<and> fs_effectiveFrom r = fs_effectiveFrom row)
              (Billing FeeStructureExists) row (fee_structures d1)) (\<lambda>rows.
     Inr (row, audit e ''fee_structure.created'' ''fee_structure'' (JUuid i)
       [(''name'', JStr (fs_name row)), (''courseId'', JUuid (fs_courseId row)), (''total'', JInt (fs_total row)),
        (''effectiveFrom'', JStr (iso_date (fs_effectiveFrom row)))] (d1\<lparr>fee_structures := rows\<rparr>)))))))"

record update_fee_structure =
  ufs_name :: "string option"
  ufs_isActive :: "bool option"

definition given_fields :: "(string \<times> bool) list \<Rightarrow> json" where
  "given_fields fs = JArr (map (\<lambda>(k, _). JStr k) (filter snd fs))"

definition apply_fee_update :: "update_fee_structure \<Rightarrow> actor \<Rightarrow> fee_structure_row \<Rightarrow> fee_structure_row" where
  "apply_fee_update inp a r = r\<lparr>fs_name := override (ufs_name inp) (fs_name r),
     fs_isActive := override (ufs_isActive inp) (fs_isActive r), updatedBy := Some (actor_userId a)\<rparr>"

definition updateStructure :: "env \<Rightarrow> uuid \<Rightarrow> update_fee_structure \<Rightarrow> int \<Rightarrow> actor \<Rightarrow> db
    \<Rightarrow> app_error + (fee_structure_row \<times> db)" where
  "updateStructure e i inp expectedVersion a d =
     (case updateWithVersion e (apply_fee_update inp a) i expectedVersion (fee_structures d) of (result, rows) \<Rightarrow>
     bindE (versionedRow (Billing FeeStructureNotFound) result) (\<lambda>row.
     Inr (row, audit e ''fee_structure.updated'' ''fee_structure'' (JUuid i)
       ([(''fields'', given_fields [(''name'', ufs_name inp \<noteq> None), (''isActive'', ufs_isActive inp \<noteq> None)])]
        @ (case ufs_isActive inp of None \<Rightarrow> [] | Some b \<Rightarrow> [(''isActive'', JBool b)]))
       (d\<lparr>fee_structures := rows\<rparr>))))"

text \<open>
  The price of a course on a date. An empty category is no category (\<open>categoryCode ? ... : ...\<close>).
  The rows are sorted by the source's comparison, the first one is the answer.
\<close>

definition fee_applies :: "uuid \<Rightarrow> string option \<Rightarrow> date \<Rightarrow> fee_structure_row \<Rightarrow> bool" where
  "fee_applies courseId categoryCode asOf r \<longleftrightarrow>
     fs_courseId r = courseId \<and> fs_isActive r \<and> fs_effectiveFrom r \<le> asOf \<and>
     (if categoryCode \<noteq> None \<and> categoryCode \<noteq> Some [] then fs_categoryCode r = categoryCode \<or> fs_categoryCode r = None
      else fs_categoryCode r = None)"

definition fee_rank :: "fee_structure_row \<Rightarrow> bool \<times> int" where
  "fee_rank r = (fs_categoryCode r = None, - days_of (fs_effectiveFrom r))"

definition resolve :: "uuid \<Rightarrow> string option \<Rightarrow> date \<Rightarrow> db \<Rightarrow> fee_structure_row option" where
  "resolve courseId categoryCode asOf d =
     (case sort_key fee_rank (filter (fee_applies courseId categoryCode asOf) (fee_structures d)) of
        [] \<Rightarrow> None | best # _ \<Rightarrow> Some best)"

section \<open>Payment plans\<close>

text \<open>\<open>planIsValid\<close> of the contract, with the bounds of its fields.\<close>

definition planIsValid :: "plan_installment list \<Rightarrow> bool" where
  "planIsValid parts \<longleftrightarrow> 1 \<le> length parts \<and> length parts \<le> 12 \<and>
     (\<forall>p \<in> set parts. 1 \<le> pi_shareBp p \<and> pi_shareBp p \<le> 10000 \<and> 0 \<le> pi_dueOffsetDays p \<and> pi_dueOffsetDays p \<le> 730) \<and>
     sum_list (map pi_shareBp parts) = 10000 \<and>
     list_all (\<lambda>i. pi_dueOffsetDays (parts ! (i - 1)) \<le> pi_dueOffsetDays (parts ! i)) [1 ..< length parts]"

definition findPlan :: "uuid \<Rightarrow> db \<Rightarrow> plan_row option" where
  "findPlan i d = find_by row_id i (payment_plans d)"

definition defaultPlan :: "db \<Rightarrow> plan_row option" where
  "defaultPlan d = find (\<lambda>p. pl_isDefault p \<and> pl_isActive p) (payment_plans d)"

definition clearDefault :: "env \<Rightarrow> db \<Rightarrow> db" where
  "clearDefault e d = d\<lparr>payment_plans := update_where pl_isDefault
     (\<lambda>p. (touch e p)\<lparr>pl_isDefault := False\<rparr>) (payment_plans d)\<rparr>"

text \<open>The unique indexes of the table: the name, and at most one default.\<close>

definition plan_clash :: "plan_row \<Rightarrow> plan_row \<Rightarrow> bool" where
  "plan_clash row r \<longleftrightarrow> row_id r \<noteq> row_id row \<and> (pl_name r = pl_name row \<or> (pl_isDefault r \<and> pl_isDefault row))"

record create_plan =
  cpl_name :: string
  cpl_installments :: "plan_installment list"
  cpl_isDefault :: bool

definition createPlan :: "env \<Rightarrow> create_plan \<Rightarrow> actor \<Rightarrow> db \<Rightarrow> app_error + (plan_row \<times> db)" where
  "createPlan e inp a d =
     (let d0 = (if cpl_isDefault inp then clearDefault e d else d) in
      case take_id d0 of (i, d1) \<Rightarrow>
      let row = \<lparr>row_id = i, createdAt = now e, updatedAt = now e,
                 createdBy = Some (actor_userId a), updatedBy = Some (actor_userId a), version = 1,
                 pl_name = cpl_name inp, pl_installments = cpl_installments inp,
                 pl_isDefault = cpl_isDefault inp, pl_isActive = True\<rparr> in
      bindE (insert_unless (plan_clash row) (Billing (BillingCodeTaken ''payment plan'')) row (payment_plans d1)) (\<lambda>rows.
      Inr (row, audit e ''payment_plan.created'' ''payment_plan'' (JUuid i)
        [(''name'', JStr (pl_name row)), (''instalments'', JInt (int (length (pl_installments row)))),
         (''isDefault'', JBool (pl_isDefault row))] (d1\<lparr>payment_plans := rows\<rparr>))))"

record update_plan =
  upl_name :: "string option"
  upl_isDefault :: "bool option"
  upl_isActive :: "bool option"

definition apply_plan_update :: "update_plan \<Rightarrow> actor \<Rightarrow> plan_row \<Rightarrow> plan_row" where
  "apply_plan_update inp a r = r\<lparr>pl_name := override (upl_name inp) (pl_name r),
     pl_isDefault := (if upl_isActive inp = Some False then False else override (upl_isDefault inp) (pl_isDefault r)),
     pl_isActive := override (upl_isActive inp) (pl_isActive r), updatedBy := Some (actor_userId a)\<rparr>"

definition updatePlan :: "env \<Rightarrow> uuid \<Rightarrow> update_plan \<Rightarrow> int \<Rightarrow> actor \<Rightarrow> db \<Rightarrow> app_error + (plan_row \<times> db)" where
  "updatePlan e i inp expectedVersion a d =
     (let d0 = (if upl_isDefault inp = Some True then clearDefault e d else d) in
      case updateWithVersion e (apply_plan_update inp a) i expectedVersion (payment_plans d0) of (result, rows) \<Rightarrow>
      bindE (case result of Updated row \<Rightarrow> throwIf (list_ex (plan_clash row) rows) (Billing (BillingCodeTaken ''payment plan''))
             | _ \<Rightarrow> Inr ()) (\<lambda>_.
      bindE (versionedRow (Billing PaymentPlanNotFound) result) (\<lambda>row.
      Inr (row, audit e ''payment_plan.updated'' ''payment_plan'' (JUuid i)
        [(''fields'', given_fields [(''name'', upl_name inp \<noteq> None), (''isDefault'', upl_isDefault inp \<noteq> None),
                                    (''isActive'', upl_isActive inp \<noteq> None)])]
        (d0\<lparr>payment_plans := rows\<rparr>)))))"

section \<open>Lemmas\<close>

lemma resolve_Some:
  assumes "resolve courseId categoryCode asOf d = Some best"
  shows "best \<in> set (fee_structures d)" "fee_applies courseId categoryCode asOf best"
    and "\<forall>r \<in> set (fee_structures d). fee_applies courseId categoryCode asOf r \<longrightarrow> fee_rank best \<le> fee_rank r"
proof -
  let ?rows = "filter (fee_applies courseId categoryCode asOf) (fee_structures d)"
  obtain rest where s: "sort_key fee_rank ?rows = best # rest"
    using assms by (auto simp: resolve_def split: list.splits)
  then have "best \<in> set ?rows" by (metis list.set_intros(1) set_sort)
  then show "best \<in> set (fee_structures d)" "fee_applies courseId categoryCode asOf best" by auto
  have "sorted (map fee_rank (best # rest))" using sorted_sort_key[of fee_rank ?rows] s by simp
  moreover have "set ?rows = set (best # rest)" using s by (metis set_sort)
  ultimately show "\<forall>r \<in> set (fee_structures d). fee_applies courseId categoryCode asOf r \<longrightarrow> fee_rank best \<le> fee_rank r"
    by fastforce
qed

lemma resolve_None_iff:
  "resolve courseId categoryCode asOf d = None \<longleftrightarrow>
     (\<forall>r \<in> set (fee_structures d). \<not> fee_applies courseId categoryCode asOf r)"
proof -
  let ?rows = "filter (fee_applies courseId categoryCode asOf) (fee_structures d)"
  have "resolve courseId categoryCode asOf d = None \<longleftrightarrow> sort_key fee_rank ?rows = []"
    by (simp add: resolve_def split: list.splits)
  also have "\<dots> \<longleftrightarrow> ?rows = []" by (metis length_0_conv length_sort)
  finally show ?thesis by (simp add: filter_empty_conv)
qed

text \<open>A retired plan made the default: every other plan has lost the flag, and this one is not active.\<close>

lemma updatePlan_retired_default:
  assumes "updatePlan e i inp v a d = Inr (row, d')" "upl_isDefault inp = Some True" "upl_isActive inp = None"
    and "find_by row_id i (payment_plans d) = Some plan" "\<not> pl_isActive plan" "ids_distinct (payment_plans d)"
  shows "defaultPlan d' = None"
proof -
  let ?ps = "payment_plans (clearDefault e d)"
  obtain rows where u: "updateWithVersion e (apply_plan_update inp a) i v ?ps = (Updated row, rows)"
    and d': "payment_plans d' = rows"
    using assms(1,2) by (auto simp: updatePlan_def Let_def audit_def record_audit_def split: prod.splits)
  have cleared: "\<not> pl_isDefault p" if "p \<in> set ?ps" for p
    using that by (auto simp: clearDefault_def set_update_where)
  have off: "\<not> pl_isActive p" if mem: "p \<in> set ?ps" and key: "row_id p = i" for p
  proof -
    have "\<exists>q \<in> set (payment_plans d). row_id p = row_id q \<and> pl_isActive p = pl_isActive q"
      using mem by (auto simp: clearDefault_def set_update_where touch_def)
    then obtain q where q: "q \<in> set (payment_plans d)" "row_id p = row_id q" "pl_isActive p = pl_isActive q"
      by blast
    moreover have "plan \<in> set (payment_plans d)" "row_id plan = i"
      using assms(4) by (auto dest: find_by_in find_by_key)
    ultimately have "q = plan" using same_row[OF assms(6)] key by metis
    then show ?thesis using q(3) assms(5) by simp
  qed
  have "ids_distinct ?ps"
    using assms(6) by (simp add: clearDefault_def ids_distinct_def map_update_where touch_def)
  then have rows: "rows = update_where (\<lambda>x. row_id x = i) (\<lambda>x. (touch e (apply_plan_update inp a x))\<lparr>version := v + 1\<rparr>) ?ps"
    using u by (elim updateWithVersion_Updated)
  have "\<not> (pl_isDefault p \<and> pl_isActive p)" if "p \<in> set rows" for p
    using that cleared off assms(3)
    by (auto simp: rows set_update_where apply_plan_update_def override_def touch_def split: if_splits)
  then show ?thesis by (auto simp: defaultPlan_def d' find_None_iff)
qed

end
