(* ===== verification/Invoices.thy ===== *)
theory Invoices
  imports Fees
begin

text \<open>
  Invoices and their instalments (\<open>billing/application/invoices.service.ts\<close>). Every operation that
  moves money changes the instalments and then calls \<open>settle\<close>, which recomputes the invoice's total,
  paid total and status from them. \<open>SELECT ... FOR UPDATE\<close> takes a lock and reads the row; here
  operations run one after another, so \<open>lock\<close> is the read.
\<close>

section \<open>Reading\<close>

definition invoice_row :: "uuid \<Rightarrow> db \<Rightarrow> app_error + invoice_row" where
  "invoice_row i d = demand (find_by row_id i (invoices d)) (Billing InvoiceNotFound)"

definition lock :: "uuid \<Rightarrow> db \<Rightarrow> app_error + invoice_row" where
  "lock i d = demand (find_by row_id i (invoices d)) (Billing InvoiceNotFound)"

definition installmentsOf :: "uuid \<Rightarrow> db \<Rightarrow> installment_row list" where
  "installmentsOf invoiceId d = sort_key part_sequence (filter (\<lambda>p. part_invoiceId p = invoiceId) (installments d))"

record installment_view =
  ivp_id :: uuid
  ivp_sequence :: nat
  ivp_dueDate :: date
  ivp_amount :: int
  ivp_paidAmount :: int
  ivp_status :: installment_status

record invoice_view =
  iv_id :: uuid
  iv_number :: string
  iv_studentId :: uuid
  iv_studentName :: string
  iv_studentNumber :: string
  iv_enrollmentId :: "uuid option"
  iv_branchId :: uuid
  iv_currency :: string
  iv_status :: invoice_status
  iv_lines :: "invoice_line list"
  iv_subtotal :: int
  iv_discountTotal :: int
  iv_total :: int
  iv_paidTotal :: int
  iv_balance :: int
  iv_installments :: "installment_view list"
  iv_createdAt :: instant
  iv_version :: int

definition presentInvoice :: "date \<Rightarrow> db \<Rightarrow> invoice_row \<Rightarrow> invoice_view" where
  "presentInvoice todayDate d row = (let owner = find_by row_id (inv_studentId row) (students d) in
     \<lparr>iv_id = row_id row, iv_number = inv_number row, iv_studentId = inv_studentId row,
      iv_studentName = (case owner of None \<Rightarrow> [] | Some s \<Rightarrow> st_givenName s @ '' '' @ st_fatherName s),
      iv_studentNumber = (case owner of None \<Rightarrow> [] | Some s \<Rightarrow> st_number s),
      iv_enrollmentId = inv_enrollmentId row, iv_branchId = inv_branchId row, iv_currency = inv_currency row,
      iv_status = inv_status row, iv_lines = inv_lines row, iv_subtotal = inv_subtotal row,
      iv_discountTotal = inv_discountTotal row, iv_total = inv_total row, iv_paidTotal = inv_paidTotal row,
      iv_balance = (if inv_status row = InvVoid then 0 else inv_total row - inv_paidTotal row),
      iv_installments = map (\<lambda>p. \<lparr>ivp_id = row_id p, ivp_sequence = part_sequence p, ivp_dueDate = part_dueDate p,
          ivp_amount = part_amount p, ivp_paidAmount = part_paidAmount p,
          ivp_status = installmentStatusFor p todayDate\<rparr>) (installmentsOf (row_id row) d),
      iv_createdAt = createdAt row, iv_version = version row\<rparr>)"

definition viewInvoice :: "env \<Rightarrow> uuid \<Rightarrow> db \<Rightarrow> app_error + invoice_view" where
  "viewInvoice e i d =
     bindE (invoice_row i d) (\<lambda>row. bindE (today e d) (\<lambda>t. Inr (presentInvoice t d row)))"

definition getInvoice :: "env \<Rightarrow> uuid \<Rightarrow> grant list \<Rightarrow> db \<Rightarrow> app_error + invoice_view" where
  "getInvoice e i grants d =
     bindE (invoice_row i d) (\<lambda>row.
     bindE (assertBranchAccess grants ''billing.read'' (inv_branchId row)) (\<lambda>_.
     bindE (today e d) (\<lambda>t. Inr (presentInvoice t d row))))"

text \<open>What is still owed on an enrollment's invoice, or none.\<close>

definition balanceForEnrollment :: "uuid \<Rightarrow> db \<Rightarrow> int option" where
  "balanceForEnrollment enrollmentId d =
     (case find_by inv_enrollmentId (Some enrollmentId) (invoices d) of
        None \<Rightarrow> None
      | Some row \<Rightarrow> Some (if inv_status row = InvVoid then 0 else inv_total row - inv_paidTotal row))"

section \<open>Creating\<close>

record create_invoice =
  ci_enrollmentId :: uuid
  ci_planId :: "uuid option"

text \<open>The unique indexes of the table: the number, and one invoice per enrollment.\<close>

definition invoice_clash :: "invoice_row \<Rightarrow> invoice_row \<Rightarrow> bool" where
  "invoice_clash row r \<longleftrightarrow> inv_number r = inv_number row
     \<or> (inv_enrollmentId row \<noteq> None \<and> inv_enrollmentId r = inv_enrollmentId row)"

text \<open>The price: the structure in force when the class starts, or else the one in force today.\<close>

definition price_for :: "uuid \<Rightarrow> string option \<Rightarrow> date \<Rightarrow> date \<Rightarrow> db \<Rightarrow> fee_structure_row option" where
  "price_for courseId categoryCode startDate todayDate d =
     (case resolve courseId categoryCode startDate d of
        Some s \<Rightarrow> Some s | None \<Rightarrow> resolve courseId categoryCode todayDate d)"

definition plan_for :: "uuid option \<Rightarrow> db \<Rightarrow> app_error + plan_row" where
  "plan_for planId d = (case planId of
     Some i \<Rightarrow> (case findPlan i d of
         Some p \<Rightarrow> if pl_isActive p then Inr p else Inl (Billing PaymentPlanNotFound)
       | None \<Rightarrow> Inl (Billing PaymentPlanNotFound))
   | None \<Rightarrow> demand (defaultPlan d) (Billing NoPaymentPlan))"

definition insertInstallments :: "uuid \<Rightarrow> new_installment list \<Rightarrow> db \<Rightarrow> db" where
  "insertInstallments invoiceId news d =
     d\<lparr>next_id := next_id d + length news,
       installments := installments d @ map (\<lambda>(k, n). \<lparr>row_id = next_id d + k, part_invoiceId = invoiceId,
         part_sequence = ni_sequence n, part_dueDate = ni_dueDate n, part_amount = ni_amount n,
         part_paidAmount = 0\<rparr>) (enumerate 0 news)\<rparr>"

definition new_invoice :: "env \<Rightarrow> actor \<Rightarrow> uuid \<Rightarrow> string \<Rightarrow> billing_context \<Rightarrow> fee_structure_row \<Rightarrow> invoice_row" where
  "new_invoice e a i number ctx structure =
     \<lparr>row_id = i, createdAt = now e, updatedAt = now e,
      createdBy = Some (actor_userId a), updatedBy = Some (actor_userId a), version = 1,
      inv_number = number, inv_studentId = bc_studentId ctx, inv_enrollmentId = Some (bc_enrollmentId ctx),
      inv_cohortId = Some (bc_cohortId ctx), inv_branchId = bc_branchId ctx, inv_currency = fs_currency structure,
      inv_status = Issued,
      inv_lines = map (\<lambda>c. \<lparr>il_description = fc_name c, il_amount = fc_amount c\<rparr>) (fs_components structure),
      inv_subtotal = fs_total structure, inv_discountTotal = 0, inv_total = fs_total structure, inv_paidTotal = 0\<rparr>"

text \<open>The two inserts and the audit entry, once the checks have passed.\<close>

definition storeInvoice :: "env \<Rightarrow> actor \<Rightarrow> string \<Rightarrow> billing_context \<Rightarrow> string \<Rightarrow> fee_structure_row \<Rightarrow> plan_row \<Rightarrow> date \<Rightarrow> db
    \<Rightarrow> app_error + (uuid \<times> db)" where
  "storeInvoice e a number ctx studentNumber structure plan todayDate d =
     (case take_id d of (i, d1) \<Rightarrow>
      let row = new_invoice e a i number ctx structure in
      bindE (insert_unless (invoice_clash row) (Billing AlreadyInvoiced) row (invoices d1)) (\<lambda>rows.
      bindE (crash (buildInstallments (fs_total structure) (pl_installments plan) todayDate)) (\<lambda>parts.
      Inr (i, audit e ''invoice.created'' ''invoice'' (JUuid i)
        [(''number'', JStr number), (''studentNumber'', JStr studentNumber),
         (''total'', JInt (inv_total row)), (''instalments'', JInt (int (length (pl_installments plan))))]
        (insertInstallments i parts (d1\<lparr>invoices := rows\<rparr>))))))"

definition createInvoice :: "env \<Rightarrow> create_invoice \<Rightarrow> grant list \<Rightarrow> actor \<Rightarrow> db \<Rightarrow> app_error + (invoice_view \<times> db)" where
  "createInvoice e inp grants a d =
     bindE (demand (billingContext (ci_enrollmentId inp) d) (Billing EnrollmentNotBillable)) (\<lambda>ctx.
     bindE (assertScope grants ''billing.invoice'' (at_branch (bc_branchId ctx))) (\<lambda>_.
     bindE (throwIf (bc_status ctx \<noteq> EnrActive \<and> bc_status ctx \<noteq> EnrCompleted) (Billing EnrollmentNotBillable)) (\<lambda>_.
     bindE (throwIf (find_by inv_enrollmentId (Some (bc_enrollmentId ctx)) (invoices d) \<noteq> None)
              (Billing AlreadyInvoiced)) (\<lambda>_.
     bindE (requireExisting (bc_studentId ctx) d) (\<lambda>student.
     bindE (today e d) (\<lambda>todayDate.
     bindE (demand (price_for (bc_courseId ctx) (st_categoryCode student) (bc_startDate ctx) todayDate d)
              (Billing NoFeeStructure)) (\<lambda>structure.
     bindE (plan_for (ci_planId inp) d) (\<lambda>plan.
     bindE (next_number e SeriesInvoice (Some (bc_branchId ctx)) d) (\<lambda>(number, d1).
     bindE (storeInvoice e a (issued_number number) ctx (st_number student) structure plan todayDate d1) (\<lambda>(i, d2).
     bindE (viewInvoice e i d2) (\<lambda>view. Inr (view, d2))))))))))))"

section \<open>Changing money\<close>

definition settle_row :: "env \<Rightarrow> actor \<Rightarrow> installment_row list \<Rightarrow> invoice_row \<Rightarrow> invoice_row" where
  "settle_row e a parts before =
     (let total_due = sum_list (map part_amount parts); paid = sum_list (map part_paidAmount parts) in
      (touch e before)\<lparr>inv_total := total_due, inv_paidTotal := paid,
        inv_discountTotal := inv_subtotal before - total_due,
        inv_status := (if inv_status before = InvVoid then InvVoid else invoiceStatusFor total_due paid),
        updatedBy := Some (actor_userId a), version := version before + 1\<rparr>)"

definition settle :: "env \<Rightarrow> uuid \<Rightarrow> actor \<Rightarrow> db \<Rightarrow> app_error + db" where
  "settle e invoiceId a d =
     bindE (invoice_row invoiceId d) (\<lambda>before.
     Inr (d\<lparr>invoices := update_where (\<lambda>r. row_id r = invoiceId)
              (\<lambda>_. settle_row e a (installmentsOf invoiceId d) before) (invoices d)\<rparr>))"

fun setAmounts :: "(uuid \<times> int) list \<Rightarrow> installment_row list \<Rightarrow> installment_row list" where
  "setAmounts [] parts = parts"
| "setAmounts ((i, newAmount) # changes) parts =
     setAmounts changes (update_where (\<lambda>p. row_id p = i) (\<lambda>p. p\<lparr>part_amount := newAmount\<rparr>) parts)"

record invoice_discount =
  idc_kind :: discount_kind
  idc_value :: int
  idc_reasonCode :: string
  idc_approvalId :: uuid

fun kind_name :: "discount_kind \<Rightarrow> string" where
  "kind_name Percent = ''percent''" | "kind_name Fixed = ''fixed''"

definition applyInvoiceDiscount :: "env \<Rightarrow> uuid \<Rightarrow> invoice_discount \<Rightarrow> actor \<Rightarrow> db \<Rightarrow> app_error + db" where
  "applyInvoiceDiscount e invoiceId dc a d =
     bindE (lock invoiceId d) (\<lambda>invoice.
     bindE (throwIf (inv_status invoice = InvVoid \<or> inv_status invoice = InvPaid) (Billing InvoiceClosed)) (\<lambda>_.
     let parts = installmentsOf invoiceId d;
         amount = discountAmount (idc_kind dc) (idc_value dc) (inv_total invoice) in
     bindE (throwIf (amount < 1) (Billing DiscountTooSmall)) (\<lambda>_.
     bindE (throwIf (amount > inv_total invoice - inv_paidTotal invoice) (Billing DiscountTooLarge)) (\<lambda>_.
     bindE (crash (applyDiscount parts amount)) (\<lambda>changes.
     case take_id (d\<lparr>installments := setAmounts changes (installments d)\<rparr>) of (i, d1) \<Rightarrow>
     bindE (settle e invoiceId a (d1\<lparr>discounts := discounts d1 @
        [\<lparr>row_id = i, dc_invoiceId = invoiceId, dc_kind = idc_kind dc, dc_value = idc_value dc, dc_amount = amount,
          dc_reasonCode = idc_reasonCode dc, dc_approvalId = idc_approvalId dc, dc_createdAt = now e\<rparr>]\<rparr>)) (\<lambda>d2.
     Inr (audit e ''invoice.discount_applied'' ''invoice'' (JUuid invoiceId)
       [(''number'', JStr (inv_number invoice)), (''kind'', JStr (kind_name (idc_kind dc))),
        (''amount'', JInt amount), (''approvalId'', JUuid (idc_approvalId dc))] d2)))))))"

end
