(* ===== verification/Payments.thy ===== *)
theory Payments
  imports Invoices
begin

text \<open>
  Recording and voiding payments (\<open>billing/application/payments.service.ts\<close>,
  \<open>billing/domain/providers.ts\<close>): a payment is spread over the instalments, gets a receipt number
  from the gapless counter and settles the invoice; a mistake is voided, never deleted.
\<close>

section \<open>Payment providers\<close>

record provider =
  pv_key :: string
  pv_name :: string
  pv_online :: bool
  pv_refunds :: bool
  pv_webhooks :: bool
  pv_methods :: "payment_method list"

definition manualProvider :: provider where
  "manualProvider = \<lparr>pv_key = ''manual'', pv_name = ''Manual'', pv_online = False, pv_refunds = False,
     pv_webhooks = False, pv_methods = [Cash, BankTransfer, Cheque]\<rparr>"

text \<open>A \<open>Map\<close> filled in order keeps the last provider of each key.\<close>

definition find_provider :: "provider list \<Rightarrow> string \<Rightarrow> provider option" where
  "find_provider providers key = find_by pv_key key (rev providers)"

definition defaultProviders :: "provider list" where
  "defaultProviders = [manualProvider]"

section \<open>Reading\<close>

definition payment_row :: "uuid \<Rightarrow> db \<Rightarrow> app_error + payment_row" where
  "payment_row i d = demand (find_by row_id i (payments d)) (Billing PaymentNotFound)"

record allocation_view =
  av_installmentId :: uuid
  av_sequence :: nat
  av_amount :: int

record payment_view =
  pvw_id :: uuid
  pvw_invoiceId :: uuid
  pvw_invoiceNumber :: string
  pvw_studentId :: uuid
  pvw_studentName :: string
  pvw_receiptNumber :: string
  pvw_branchId :: uuid
  pvw_providerKey :: string
  pvw_method :: payment_method
  pvw_reference :: "string option"
  pvw_amount :: int
  pvw_currency :: string
  pvw_status :: payment_status
  pvw_receivedAt :: instant
  pvw_voidedAt :: "instant option"
  pvw_allocations :: "allocation_view list"
  pvw_version :: int

text \<open>The inner joins of the source: a payment without its invoice, student or receipt is not shown.\<close>

definition presentPayment :: "uuid \<Rightarrow> db \<Rightarrow> payment_view option" where
  "presentPayment i d =
     Option.bind (find_by row_id i (payments d)) (\<lambda>p.
     Option.bind (find_by row_id (pay_invoiceId p) (invoices d)) (\<lambda>inv.
     Option.bind (find_by row_id (pay_studentId p) (students d)) (\<lambda>s.
     Option.bind (find_by rc_paymentId (row_id p) (receipts d)) (\<lambda>r. Some
       \<lparr>pvw_id = row_id p, pvw_invoiceId = pay_invoiceId p, pvw_invoiceNumber = inv_number inv,
        pvw_studentId = pay_studentId p, pvw_studentName = st_givenName s @ '' '' @ st_fatherName s,
        pvw_receiptNumber = rc_number r, pvw_branchId = pay_branchId p, pvw_providerKey = pay_providerKey p,
        pvw_method = pay_method p, pvw_reference = pay_reference p, pvw_amount = pay_amount p,
        pvw_currency = pay_currency p, pvw_status = pay_status p, pvw_receivedAt = pay_receivedAt p,
        pvw_voidedAt = pay_voidedAt p,
        pvw_allocations = sort_key av_sequence (concat (map (\<lambda>al.
            if al_paymentId al = row_id p then
              (case find_by row_id (al_installmentId al) (installments d) of
                 None \<Rightarrow> []
               | Some part \<Rightarrow> [\<lparr>av_installmentId = al_installmentId al, av_sequence = part_sequence part, av_amount = al_amount al\<rparr>])
            else []) (payment_allocations d))),
        pvw_version = version p\<rparr>))))"

definition viewPayment :: "uuid \<Rightarrow> db \<Rightarrow> app_error + payment_view" where
  "viewPayment i d = demand (presentPayment i d) (Billing PaymentNotFound)"

definition getPayment :: "uuid \<Rightarrow> grant list \<Rightarrow> db \<Rightarrow> app_error + payment_view" where
  "getPayment i grants d =
     bindE (payment_row i d) (\<lambda>row.
     bindE (assertBranchAccess grants ''billing.read'' (pay_branchId row)) (\<lambda>_. viewPayment i d))"

section \<open>Recording\<close>

record record_payment =
  rp_invoiceId :: uuid
  rp_amount :: int
  rp_method :: payment_method
  rp_reference :: "string option"

definition valid_payment_request :: "record_payment \<Rightarrow> bool" where
  "valid_payment_request inp \<longleftrightarrow> is_positive_minor_units (rp_amount inp) \<and>
     (rp_method inp \<in> {BankTransfer, Cheque} \<longrightarrow> rp_reference inp \<noteq> None \<and> rp_reference inp \<noteq> Some [])"

fun method_name :: "payment_method \<Rightarrow> string" where
  "method_name Cash = ''cash''"
| "method_name BankTransfer = ''bank_transfer''"
| "method_name Cheque = ''cheque''"

fun addPaid :: "allocation list \<Rightarrow> installment_row list \<Rightarrow> installment_row list" where
  "addPaid [] parts = parts"
| "addPaid ((i, amount) # as) parts =
     addPaid as (update_where (\<lambda>p. row_id p = i) (\<lambda>p. p\<lparr>part_paidAmount := part_paidAmount p + amount\<rparr>) parts)"

definition new_payment :: "env \<Rightarrow> actor \<Rightarrow> uuid \<Rightarrow> provider \<Rightarrow> record_payment \<Rightarrow> invoice_row \<Rightarrow> payment_row" where
  "new_payment e a i provider inp invoice =
     \<lparr>row_id = i, createdAt = now e, updatedAt = now e,
      createdBy = Some (actor_userId a), updatedBy = Some (actor_userId a), version = 1,
      pay_invoiceId = row_id invoice, pay_studentId = inv_studentId invoice, pay_branchId = inv_branchId invoice,
      pay_providerKey = pv_key provider, pay_method = rp_method inp, pay_reference = rp_reference inp,
      pay_amount = rp_amount inp, pay_currency = inv_currency invoice, pay_status = Posted,
      pay_receivedBy = Some (actor_userId a), pay_receivedAt = now e, pay_voidedAt = None\<rparr>"

text \<open>The payment, its allocations and the instalments they pay down.\<close>

definition storePayment :: "env \<Rightarrow> actor \<Rightarrow> provider \<Rightarrow> record_payment \<Rightarrow> invoice_row \<Rightarrow> allocation list \<Rightarrow> db \<Rightarrow> uuid \<times> db" where
  "storePayment e a provider inp invoice allocations d =
     (case take_id d of (i, d1) \<Rightarrow>
        (i, d1\<lparr>payments := payments d1 @ [new_payment e a i provider inp invoice],
               payment_allocations := payment_allocations d1
                 @ map (\<lambda>(part, amount). \<lparr>al_paymentId = i, al_installmentId = part, al_amount = amount\<rparr>) allocations,
               installments := addPaid allocations (installments d1)\<rparr>))"

text \<open>The receipt, with the next number of the series.\<close>

definition issueReceipt :: "env \<Rightarrow> uuid \<Rightarrow> uuid \<Rightarrow> db \<Rightarrow> app_error + (string \<times> db)" where
  "issueReceipt e paymentId branchId d =
     bindE (next_number e SeriesReceipt (Some branchId) d) (\<lambda>(number, d1).
     case take_id d1 of (i, d2) \<Rightarrow>
     let row = \<lparr>row_id = i, rc_paymentId = paymentId, rc_number = issued_number number, rc_branchId = branchId,
                rc_status = RcIssued, rc_issuedAt = now e, rc_voidedAt = None\<rparr> in
     bindE (insert_unless (\<lambda>r. rc_paymentId r = paymentId \<or> rc_number r = rc_number row)
              (UniqueViolation ''receipts'') row (receipts d2)) (\<lambda>rows.
     Inr (issued_number number, d2\<lparr>receipts := rows\<rparr>)))"

definition recordPayment :: "env \<Rightarrow> provider list \<Rightarrow> record_payment \<Rightarrow> grant list \<Rightarrow> actor \<Rightarrow> string \<Rightarrow> db
    \<Rightarrow> app_error + (payment_view \<times> db)" where
  "recordPayment e providers inp grants a providerKey d =
     bindE (demand (find_provider providers providerKey) (Billing (UnknownProvider providerKey))) (\<lambda>provider.
     bindE (throwIf (rp_method inp \<notin> set (pv_methods provider))
              (Billing (UnsupportedMethod (pv_name provider) (rp_method inp)))) (\<lambda>_.
     bindE (lock (rp_invoiceId inp) d) (\<lambda>invoice.
     bindE (assertScope grants ''billing.receive'' (at_branch (inv_branchId invoice))) (\<lambda>_.
     bindE (throwIf (inv_status invoice = InvVoid \<or> inv_status invoice = InvPaid) (Billing InvoiceClosed)) (\<lambda>_.
     case allocatePayment (installmentsOf (row_id invoice) d) (rp_amount inp) of (allocations, remainder) \<Rightarrow>
     bindE (throwIf (remainder > 0) (Billing (Overpayment (inv_total invoice - inv_paidTotal invoice)))) (\<lambda>_.
     case storePayment e a provider inp invoice allocations d of (i, d1) \<Rightarrow>
     bindE (settle e (row_id invoice) a d1) (\<lambda>d2.
     bindE (issueReceipt e i (inv_branchId invoice) d2) (\<lambda>(number, d3).
     let d4 = audit e ''payment.recorded'' ''payment'' (JUuid i)
       [(''receiptNumber'', JStr number), (''invoiceNumber'', JStr (inv_number invoice)),
        (''amount'', JInt (rp_amount inp)), (''method'', JStr (method_name (rp_method inp))),
        (''provider'', JStr (pv_key provider))] d3 in
     bindE (viewPayment i d4) (\<lambda>view. Inr (view, d4))))))))))"

section \<open>Voiding\<close>

fun subPaid :: "allocation_row list \<Rightarrow> installment_row list \<Rightarrow> installment_row list" where
  "subPaid [] parts = parts"
| "subPaid (al # as) parts =
     subPaid as (update_where (\<lambda>p. row_id p = al_installmentId al)
       (\<lambda>p. p\<lparr>part_paidAmount := part_paidAmount p - al_amount al\<rparr>) parts)"

definition reversePayment :: "env \<Rightarrow> actor \<Rightarrow> payment_row \<Rightarrow> db \<Rightarrow> db" where
  "reversePayment e a payment d = (let paymentId = row_id payment in
     d\<lparr>installments := subPaid (filter (\<lambda>al. al_paymentId al = paymentId) (payment_allocations d)) (installments d),
       payments := update_where (\<lambda>p. row_id p = paymentId) (\<lambda>p. (touch e p)\<lparr>pay_status := PayVoid,
         pay_voidedAt := Some (now e), updatedBy := Some (actor_userId a), version := version payment + 1\<rparr>) (payments d),
       receipts := update_where (\<lambda>r. rc_paymentId r = paymentId)
         (\<lambda>r. r\<lparr>rc_status := RcVoid, rc_voidedAt := Some (now e)\<rparr>) (receipts d)\<rparr>)"

definition voidPayment :: "env \<Rightarrow> uuid \<Rightarrow> uuid \<Rightarrow> actor \<Rightarrow> db \<Rightarrow> app_error + db" where
  "voidPayment e paymentId approvalId a d =
     bindE (payment_row paymentId d) (\<lambda>found.
     bindE (lock (pay_invoiceId found) d) (\<lambda>invoice.
     bindE (payment_row paymentId d) (\<lambda>payment.
     bindE (throwIf (pay_status payment \<noteq> Posted) (Billing PaymentNotPosted)) (\<lambda>_.
     bindE (settle e (row_id invoice) a (reversePayment e a payment d)) (\<lambda>d1.
     Inr (audit e ''payment.voided'' ''payment'' (JUuid paymentId)
       [(''invoiceNumber'', JStr (inv_number invoice)), (''amount'', JInt (pay_amount payment)),
        (''approvalId'', JUuid approvalId)] d1))))))"

end
