(* ===== verification/Approvals.thy ===== *)
theory Approvals
  imports Payments
begin

text \<open>
  Maker-checker (\<open>billing/application/approvals.service.ts\<close>): a discount or the voiding of a payment
  is requested by one person and made only when another approves, in the transaction of the
  decision. The payload is the \<open>jsonb\<close> the request
  operation wrote; reading a discount from any other payload is the crash of \<open>BigInt(NaN)\<close>.
\<close>

section \<open>Requesting\<close>

record approval_view =
  apv_id :: uuid
  apv_type :: approval_type
  apv_status :: approval_status
  apv_subjectId :: uuid
  apv_summary :: string
  apv_reason :: string
  apv_requestedBy :: "uuid \<times> string"
  apv_decidedBy :: "(uuid \<times> string) option"
  apv_decisionNote :: "string option"
  apv_createdAt :: instant
  apv_decidedAt :: "instant option"
  apv_version :: int

definition presentApproval :: "uuid \<Rightarrow> db \<Rightarrow> approval_view option" where
  "presentApproval i d =
     Option.bind (find_by row_id i (approval_requests d)) (\<lambda>r.
     Option.bind (find_by row_id (ap_requestedBy r) (user_accounts d)) (\<lambda>requester. Some
       \<lparr>apv_id = row_id r, apv_type = ap_type r, apv_status = ap_status r, apv_subjectId = ap_subjectId r,
        apv_summary = ap_summary r, apv_reason = ap_reason r,
        apv_requestedBy = (ap_requestedBy r, usr_displayName requester),
        apv_decidedBy = map_option (\<lambda>u. (u, case find_by row_id u (user_accounts d) of
            None \<Rightarrow> [] | Some x \<Rightarrow> usr_displayName x)) (ap_decidedBy r),
        apv_decisionNote = ap_decisionNote r, apv_createdAt = createdAt r, apv_decidedAt = ap_decidedAt r,
        apv_version = version r\<rparr>))"

record approval_input =
  ai_type :: approval_type
  ai_subjectId :: uuid
  ai_payload :: approval_payload
  ai_summary :: string
  ai_reason :: string

fun approval_type_name :: "approval_type \<Rightarrow> string" where
  "approval_type_name ApDiscount = ''discount''"
| "approval_type_name ApPaymentVoid = ''payment_void''"

definition approval_clash :: "approval_row \<Rightarrow> approval_row \<Rightarrow> bool" where
  "approval_clash row r \<longleftrightarrow> ap_type r = ap_type row \<and> ap_subjectId r = ap_subjectId row \<and> ap_status r = Pending"

definition createApproval :: "env \<Rightarrow> approval_input \<Rightarrow> actor \<Rightarrow> db \<Rightarrow> app_error + (approval_view \<times> db)" where
  "createApproval e inp a d = (case take_id d of (i, d1) \<Rightarrow>
     let row = \<lparr>row_id = i, createdAt = now e, updatedAt = now e,
                createdBy = Some (actor_userId a), updatedBy = Some (actor_userId a), version = 1,
                ap_type = ai_type inp, ap_status = Pending, ap_subjectId = ai_subjectId inp,
                ap_payload = ai_payload inp, ap_summary = ai_summary inp, ap_reason = ai_reason inp,
                ap_requestedBy = actor_userId a, ap_decidedBy = None, ap_decisionNote = None, ap_decidedAt = None\<rparr> in
     bindE (insert_unless (approval_clash row) (Billing RequestPending) row (approval_requests d1)) (\<lambda>rows.
     let d2 = audit e ''approval.requested'' ''approval'' (JUuid i)
       [(''type'', JStr (approval_type_name (ap_type row))), (''subjectId'', JUuid (ap_subjectId row)),
        (''summary'', JStr (ap_summary row))] (d1\<lparr>approval_requests := rows\<rparr>) in
     bindE (demand (presentApproval i d2) (Billing ApprovalNotFound)) (\<lambda>view. Inr (view, d2))))"

record request_discount =
  rd_kind :: discount_kind
  rd_value :: int
  rd_reasonCode :: string
  rd_note :: string

definition valid_discount_request :: "request_discount \<Rightarrow> bool" where
  "valid_discount_request inp \<longleftrightarrow> is_positive_minor_units (rd_value inp) \<and> rd_reasonCode inp \<noteq> []
     \<and> length (rd_reasonCode inp) \<le> 40 \<and> length (rd_note inp) \<le> 300
     \<and> (rd_kind inp = Percent \<longrightarrow> rd_value inp \<le> 10000)"

definition discount_summary :: "env \<Rightarrow> request_discount \<Rightarrow> invoice_row \<Rightarrow> int \<Rightarrow> string" where
  "discount_summary e inp invoice amount =
     (case rd_kind inp of
        Percent \<Rightarrow> show_rat e (of_int (rd_value inp) / 100) @ ''% off''
      | Fixed \<Rightarrow> formatMoney (rd_value inp) (inv_currency invoice) @ '' off'')
     @ '' invoice '' @ inv_number invoice @ '' ('' @ formatMoney amount (inv_currency invoice) @ '')''"

definition requestDiscount :: "env \<Rightarrow> uuid \<Rightarrow> request_discount \<Rightarrow> grant list \<Rightarrow> actor \<Rightarrow> db
    \<Rightarrow> app_error + (approval_view \<times> db)" where
  "requestDiscount e invoiceId inp grants a d =
     bindE (invoice_row invoiceId d) (\<lambda>invoice.
     bindE (assertScope grants ''billing.request'' (at_branch (inv_branchId invoice))) (\<lambda>_.
     bindE (throwIf (inv_status invoice = InvVoid \<or> inv_status invoice = InvPaid) (Billing InvoiceClosed)) (\<lambda>_.
     bindE (assertActiveCode ''discount_reason'' (Some (rd_reasonCode inp)) d) (\<lambda>_.
     let amount = discountAmount (rd_kind inp) (rd_value inp) (inv_total invoice) in
     bindE (throwIf (amount < 1) (Billing DiscountTooSmall)) (\<lambda>_.
     bindE (throwIf (amount > inv_total invoice - inv_paidTotal invoice) (Billing DiscountTooLarge)) (\<lambda>_.
     createApproval e
       \<lparr>ai_type = ApDiscount, ai_subjectId = invoiceId,
        ai_payload = DiscountRequest (rd_kind inp) (rd_value inp) (rd_reasonCode inp) (rd_note inp),
        ai_summary = discount_summary e inp invoice amount,
        ai_reason = (if rd_note inp \<noteq> [] then rd_note inp else rd_reasonCode inp)\<rparr> a d))))))"

definition requestVoid :: "env \<Rightarrow> uuid \<Rightarrow> string \<Rightarrow> grant list \<Rightarrow> actor \<Rightarrow> db \<Rightarrow> app_error + (approval_view \<times> db)" where
  "requestVoid e paymentId reason grants a d =
     bindE (payment_row paymentId d) (\<lambda>payment.
     bindE (assertScope grants ''billing.request'' (at_branch (pay_branchId payment))) (\<lambda>_.
     bindE (throwIf (pay_status payment \<noteq> Posted) (Billing PaymentNotPosted)) (\<lambda>_.
     bindE (viewPayment paymentId d) (\<lambda>view.
     createApproval e
       \<lparr>ai_type = ApPaymentVoid, ai_subjectId = paymentId,
        ai_payload = PaymentVoidRequest (pvw_receiptNumber view) (pay_amount payment),
        ai_summary = ''Void receipt '' @ pvw_receiptNumber view @ '' (''
          @ formatMoney (pay_amount payment) (pay_currency payment) @ '') on invoice '' @ pvw_invoiceNumber view,
        ai_reason = reason\<rparr> a d))))"

section \<open>Deciding\<close>

datatype decision = Approve | Reject

text \<open>The change an approved request makes.\<close>

definition runApproval :: "env \<Rightarrow> approval_row \<Rightarrow> actor \<Rightarrow> db \<Rightarrow> app_error + db" where
  "runApproval e request a d =
     (if ap_type request = ApDiscount then
        (case ap_payload request of
           DiscountRequest kind v reasonCode note \<Rightarrow>
             applyInvoiceDiscount e (ap_subjectId request)
               \<lparr>idc_kind = kind, idc_value = v, idc_reasonCode = reasonCode, idc_approvalId = row_id request\<rparr> a d
         | PaymentVoidRequest _ _ \<Rightarrow> Inl (CrashError ''The payload is not a discount''))
      else voidPayment e (ap_subjectId request) (row_id request) a d)"

definition apply_decision :: "env \<Rightarrow> decision \<Rightarrow> string \<Rightarrow> actor \<Rightarrow> approval_row \<Rightarrow> approval_row" where
  "apply_decision e choice note a r = r\<lparr>ap_status := (if choice = Approve then Approved else ApRejected),
     ap_decidedBy := Some (actor_userId a), ap_decisionNote := (if note = [] then None else Some note),
     ap_decidedAt := Some (now e), updatedBy := Some (actor_userId a)\<rparr>"

definition decide :: "env \<Rightarrow> uuid \<Rightarrow> decision \<Rightarrow> string \<Rightarrow> actor \<Rightarrow> db \<Rightarrow> app_error + (approval_view \<times> db)" where
  "decide e i choice note a d =
     bindE (demand (find_by row_id i (approval_requests d)) (Billing ApprovalNotFound)) (\<lambda>request.
     bindE (throwIf (ap_status request \<noteq> Pending) (Billing ApprovalDecided)) (\<lambda>_.
     bindE (throwIf (ap_requestedBy request = actor_userId a) (Billing SelfApproval)) (\<lambda>_.
     bindE (if choice = Approve then runApproval e request a d else Inr d) (\<lambda>d1.
     case updateWithVersion e (apply_decision e choice note a) i (version request) (approval_requests d1) of (result, rows) \<Rightarrow>
     bindE (versionedRow (Billing ApprovalNotFound) result) (\<lambda>_.
     let d2 = audit e (if choice = Approve then ''approval.approved'' else ''approval.rejected'') ''approval'' (JUuid i)
       [(''type'', JStr (approval_type_name (ap_type request))), (''subjectId'', JUuid (ap_subjectId request))]
       (d1\<lparr>approval_requests := rows\<rparr>) in
     bindE (demand (presentApproval i d2) (Billing ApprovalNotFound)) (\<lambda>view. Inr (view, d2)))))))"

end
