(* ===== verification/Ledger.thy ===== *)
theory Ledger
  imports Approvals
begin

text \<open>
  The books of the billing tables: what every operation that moves money keeps true of invoices,
  instalments, payments and allocations. \<open>ledger_base\<close> is what holds at every moment, also between
  a change of the instalments and \<open>settle\<close>; \<open>ledger_ok\<close> adds that every invoice agrees with its
  instalments, which \<open>settle\<close> re-establishes.
\<close>

section \<open>The invariant\<close>

definition parts_of :: "uuid \<Rightarrow> installment_row list \<Rightarrow> installment_row list" where
  "parts_of k parts = filter (\<lambda>p. part_invoiceId p = k) parts"

definition posted :: "payment_row list \<Rightarrow> uuid \<Rightarrow> bool" where
  "posted ps i \<longleftrightarrow> (\<exists>p \<in> set ps. row_id p = i \<and> pay_status p = Posted)"

text \<open>An invoice and its instalments: the check constraints of the table, and the status.\<close>

definition invoice_ok :: "installment_row list \<Rightarrow> invoice_row \<Rightarrow> bool" where
  "invoice_ok parts r \<longleftrightarrow>
     0 < inv_subtotal r
   \<and> inv_total r = sum_list (map part_amount (parts_of (row_id r) parts))
   \<and> inv_paidTotal r = sum_list (map part_paidAmount (parts_of (row_id r) parts))
   \<and> inv_discountTotal r = inv_subtotal r - inv_total r
   \<and> inv_total r \<le> inv_subtotal r
   \<and> (inv_status r = InvVoid \<or> inv_status r = invoiceStatusFor (inv_total r) (inv_paidTotal r))"

definition part_ok :: "installment_row \<Rightarrow> bool" where
  "part_ok p \<longleftrightarrow> 0 \<le> part_paidAmount p \<and> part_paidAmount p \<le> part_amount p"

definition paid_by :: "payment_row list \<Rightarrow> allocation_row list \<Rightarrow> uuid \<Rightarrow> int" where
  "paid_by ps als i = sum_where (\<lambda>al. posted ps (al_paymentId al) \<and> al_installmentId al = i) al_amount als"

definition payment_ok :: "uuid set \<Rightarrow> allocation_row list \<Rightarrow> payment_row \<Rightarrow> bool" where
  "payment_ok invs als p \<longleftrightarrow> 0 < pay_amount p \<and> pay_invoiceId p \<in> invs
     \<and> pay_amount p = sum_where (\<lambda>al. al_paymentId al = row_id p) al_amount als"

definition allocation_ok :: "payment_row list \<Rightarrow> installment_row list \<Rightarrow> allocation_row \<Rightarrow> bool" where
  "allocation_ok ps parts al \<longleftrightarrow> 0 < al_amount al \<and>
     (\<exists>p \<in> set ps. \<exists>part \<in> set parts. row_id p = al_paymentId al \<and> row_id part = al_installmentId al
        \<and> part_invoiceId part = pay_invoiceId p)"

definition ledger_base :: "db \<Rightarrow> bool" where
  "ledger_base d \<longleftrightarrow>
     ids_distinct (invoices d) \<and> ids_distinct (installments d) \<and> ids_distinct (payments d)
   \<and> (\<forall>r \<in> set (invoices d). row_id r < next_id d)
   \<and> (\<forall>p \<in> set (installments d). row_id p < next_id d)
   \<and> (\<forall>p \<in> set (payments d). row_id p < next_id d)
   \<and> (\<forall>p \<in> set (installments d). part_ok p \<and> part_invoiceId p \<in> row_id ` set (invoices d)
        \<and> part_paidAmount p = paid_by (payments d) (payment_allocations d) (row_id p))
   \<and> (\<forall>p \<in> set (payments d). payment_ok (row_id ` set (invoices d)) (payment_allocations d) p)
   \<and> (\<forall>al \<in> set (payment_allocations d). allocation_ok (payments d) (installments d) al)"

definition ledger_ok :: "db \<Rightarrow> bool" where
  "ledger_ok d \<longleftrightarrow> ledger_base d \<and> (\<forall>inv \<in> set (invoices d). invoice_ok (installments d) inv)"

text \<open>The state just before \<open>settle k\<close>: the books hold but for invoice \<open>k\<close>, which may be stale.\<close>

definition ledger_unsettled :: "uuid \<Rightarrow> db \<Rightarrow> bool" where
  "ledger_unsettled k d \<longleftrightarrow> ledger_base d
   \<and> (\<forall>inv \<in> set (invoices d). row_id inv \<noteq> k \<longrightarrow> invoice_ok (installments d) inv)
   \<and> (\<forall>inv \<in> set (invoices d). row_id inv = k \<longrightarrow> 0 < inv_subtotal inv
        \<and> sum_list (map part_amount (parts_of k (installments d))) \<le> inv_subtotal inv)"

section \<open>Loops as one pass\<close>

lemma addPaid_map:
  "addPaid as parts = map (\<lambda>p. p\<lparr>part_paidAmount := part_paidAmount p + allocated as (row_id p)\<rparr>) parts"
proof (induction as parts rule: addPaid.induct)
  case (2 i amount as parts)
  have "addPaid ((i, amount) # as) parts
      = map (\<lambda>p. p\<lparr>part_paidAmount := part_paidAmount p + allocated as (row_id p)\<rparr>)
          (update_where (\<lambda>p. row_id p = i) (\<lambda>p. p\<lparr>part_paidAmount := part_paidAmount p + amount\<rparr>) parts)"
    using 2 by simp
  then show ?case by (simp add: update_where_def)
qed simp

lemma subPaid_map:
  "subPaid als parts = map (\<lambda>p. p\<lparr>part_paidAmount := part_paidAmount p
     - sum_where (\<lambda>al. al_installmentId al = row_id p) al_amount als\<rparr>) parts"
proof (induction als parts rule: subPaid.induct)
  case (2 al as parts)
  have "subPaid (al # as) parts
      = map (\<lambda>p. p\<lparr>part_paidAmount := part_paidAmount p - sum_where (\<lambda>al. al_installmentId al = row_id p) al_amount as\<rparr>)
          (update_where (\<lambda>p. row_id p = al_installmentId al)
            (\<lambda>p. p\<lparr>part_paidAmount := part_paidAmount p - al_amount al\<rparr>) parts)"
    using 2 by simp
  then show ?case by (auto simp: update_where_def)
qed simp

lemma setAmounts_map:
  assumes "distinct (map fst cuts)" "\<And>p. p \<in> set parts \<Longrightarrow> row_id p \<in> fst ` set cuts \<Longrightarrow> find_by row_id (row_id p) ps = Some p"
    and "distinct (map row_id parts)"
  shows "setAmounts (map (new_amount ps) cuts) parts
       = map (\<lambda>p. p\<lparr>part_amount := part_amount p - allocated cuts (row_id p)\<rparr>) parts"
proof -
  have gen: "setAmounts (map (new_amount ps) cs) (map (\<lambda>p. p\<lparr>part_amount := part_amount p - allocated pre (row_id p)\<rparr>) parts)
      = map (\<lambda>p. p\<lparr>part_amount := part_amount p - allocated (pre @ cs) (row_id p)\<rparr>) parts"
    if "cuts = pre @ cs" for pre cs
    using that
  proof (induction cs arbitrary: "pre")
    case (Cons c cs)
    obtain i x where c: "c = (i, x)" by (cases c)
    have notin: "allocated pre i = 0"
      using assms(1) Cons.prems c by (auto intro!: allocated_notin)
    have "update_where (\<lambda>p. row_id p = i)
            (\<lambda>p. p\<lparr>part_amount := (case find_by row_id i ps of Some p \<Rightarrow> part_amount p - x | None \<Rightarrow> 0)\<rparr>)
            (map (\<lambda>p. p\<lparr>part_amount := part_amount p - allocated pre (row_id p)\<rparr>) parts)
        = map (\<lambda>p. p\<lparr>part_amount := part_amount p - allocated (pre @ [c]) (row_id p)\<rparr>) parts"
      unfolding update_where_def map_map
    proof (rule map_cong[OF refl])
      fix p assume p: "p \<in> set parts"
      have app: "allocated (pre @ [c]) j = allocated pre j + (if i = j then x else 0)" for j
        by (simp add: allocated_def c)
      show "((\<lambda>r. if row_id r = i then r\<lparr>part_amount := (case find_by row_id i ps of Some p \<Rightarrow> part_amount p - x | None \<Rightarrow> 0)\<rparr> else r)
              \<circ> (\<lambda>p. p\<lparr>part_amount := part_amount p - allocated pre (row_id p)\<rparr>)) p
          = p\<lparr>part_amount := part_amount p - allocated (pre @ [c]) (row_id p)\<rparr>"
      proof (cases "row_id p = i")
        case True
        then have "find_by row_id i ps = Some p" using assms(2)[OF p] Cons.prems c by auto
        with True notin show ?thesis by (simp add: app)
      next
        case False
        then show ?thesis by (simp add: app)
      qed
    qed
    then show ?case using Cons.IH[of "pre @ [c]"] Cons.prems by (simp add: c new_amount_def)
  qed simp
  show ?thesis using gen[of "[]" cuts] by simp
qed

section \<open>What the books depend on\<close>

lemma ledger_base_cong:
  assumes "ledger_base d" "invoices d' = invoices d" "installments d' = installments d" "payments d' = payments d"
    "payment_allocations d' = payment_allocations d" "next_id d \<le> next_id d'"
  shows "ledger_base d'"
  using assms unfolding ledger_base_def by (auto intro: order_less_le_trans)

lemma ledger_ok_cong:
  assumes "ledger_ok d" "invoices d' = invoices d" "installments d' = installments d" "payments d' = payments d"
    "payment_allocations d' = payment_allocations d" "next_id d \<le> next_id d'"
  shows "ledger_ok d'"
  using assms ledger_base_cong[of d d'] by (simp add: ledger_ok_def)

lemma ledger_unsettled_cong:
  assumes "ledger_unsettled k d" "invoices d' = invoices d" "installments d' = installments d" "payments d' = payments d"
    "payment_allocations d' = payment_allocations d" "next_id d \<le> next_id d'"
  shows "ledger_unsettled k d'"
  using assms ledger_base_cong[of d d'] by (simp add: ledger_unsettled_def)

lemma audit_billing [simp]:
  "invoices (audit e x y z w (d::db)) = invoices d" "installments (audit e x y z w d) = installments d"
  "payments (audit e x y z w d) = payments d" "payment_allocations (audit e x y z w d) = payment_allocations d"
  "receipts (audit e x y z w d) = receipts d" "fee_structures (audit e x y z w d) = fee_structures d"
  "payment_plans (audit e x y z w d) = payment_plans d" "approval_requests (audit e x y z w d) = approval_requests d"
  "discounts (audit e x y z w d) = discounts d" "next_id (audit e x y z w d) = next_id d"
  by (simp_all add: audit_def record_audit_def)

lemma take_id_eq [simp]: "take_id d = (i, d') \<longleftrightarrow> i = next_id d \<and> d' = d\<lparr>next_id := next_id d + 1\<rparr>"
  by (auto simp: take_id_def)

lemma sum_installmentsOf [simp]:
  "sum_list (map f (installmentsOf k d)) = (sum_list (map f (parts_of k (installments d))) :: int)"
proof -
  have "mset (map f (installmentsOf k d)) = mset (map f (parts_of k (installments d)))"
    by (simp add: installmentsOf_def parts_of_def)
  then show ?thesis by (metis sum_mset_sum_list)
qed

lemma set_installmentsOf [simp]: "set (installmentsOf k d) = set (parts_of k (installments d))"
  by (simp add: installmentsOf_def parts_of_def)

lemma distinct_installmentsOf:
  assumes "ids_distinct (installments d)"
  shows "distinct (map row_id (installmentsOf k d))"
proof -
  have "mset (map row_id (installmentsOf k d)) = mset (map row_id (parts_of k (installments d)))"
    by (simp add: installmentsOf_def parts_of_def)
  moreover have "distinct (map row_id (parts_of k (installments d)))"
    using assms by (auto simp: parts_of_def ids_distinct_def distinct_map inj_on_def)
  ultimately show ?thesis by (metis mset_eq_imp_distinct_iff)
qed

section \<open>Settling\<close>

lemma settle_row_simps [simp]:
  "row_id (settle_row e a parts r) = row_id r" "inv_subtotal (settle_row e a parts r) = inv_subtotal r"
  "inv_total (settle_row e a parts r) = sum_list (map part_amount parts)"
  "inv_paidTotal (settle_row e a parts r) = sum_list (map part_paidAmount parts)"
  "inv_discountTotal (settle_row e a parts r) = inv_subtotal r - sum_list (map part_amount parts)"
  "inv_status (settle_row e a parts r) = (if inv_status r = InvVoid then InvVoid
     else invoiceStatusFor (sum_list (map part_amount parts)) (sum_list (map part_paidAmount parts)))"
  by (simp_all add: settle_row_def Let_def touch_def)

lemma settle_eq_Inr:
  "settle e k a d = Inr d' \<longleftrightarrow> (\<exists>before. find_by row_id k (invoices d) = Some before
     \<and> d' = d\<lparr>invoices := update_where (\<lambda>r. row_id r = k)
           (\<lambda>_. settle_row e a (installmentsOf k d) before) (invoices d)\<rparr>)"
  by (auto simp: settle_def invoice_row_def)

lemma update_where_ids:
  "(\<And>r. P r \<Longrightarrow> row_id (f r) = row_id r) \<Longrightarrow> map row_id (update_where P f rows) = map row_id rows"
  by (induction rows) auto

lemma settle_ok:
  assumes "ledger_unsettled k d" "settle e k a d = Inr d'"
  shows "ledger_ok d'"
proof -
  obtain before where before: "find_by row_id k (invoices d) = Some before"
    and d': "d' = d\<lparr>invoices := update_where (\<lambda>r. row_id r = k)
           (\<lambda>_. settle_row e a (installmentsOf k d) before) (invoices d)\<rparr>"
    using assms(2) settle_eq_Inr by blast
  let ?rows = "update_where (\<lambda>r. row_id r = k) (\<lambda>_. settle_row e a (installmentsOf k d) before) (invoices d)"
  have b: "before \<in> set (invoices d)" "row_id before = k"
    using before find_by_in find_by_key by metis+
  have ids: "map row_id ?rows = map row_id (invoices d)"
    by (rule update_where_ids) (use b in simp)
  then have idset: "row_id ` set ?rows = row_id ` set (invoices d)" by (metis set_map)
  have base: "ledger_base d" using assms(1) by (simp add: ledger_unsettled_def)
  have bound: "\<forall>r \<in> set ?rows. row_id r < next_id d"
  proof
    fix r assume "r \<in> set ?rows"
    then have "row_id r \<in> row_id ` set (invoices d)" using idset by (metis imageI)
    then show "row_id r < next_id d" using base by (auto simp: ledger_base_def)
  qed
  have "ledger_base d'"
    using base bound unfolding d' by (simp add: ledger_base_def ids_distinct_def ids idset)
  moreover have "invoice_ok (installments d) r" if "r \<in> set ?rows" for r
  proof (cases "row_id r = k")
    case False
    then have "r \<in> set (invoices d)"
      using that b by (auto simp: set_update_where split: if_splits)
    with False show ?thesis using assms(1) by (simp add: ledger_unsettled_def)
  next
    case True
    then have "r = settle_row e a (installmentsOf k d) before"
      using that b by (auto simp: set_update_where split: if_splits)
    then show ?thesis
      using assms(1) b by (auto simp: invoice_ok_def ledger_unsettled_def)
  qed
  ultimately show ?thesis by (simp add: ledger_ok_def d')
qed

lemma ledger_ok_unsettled: "ledger_ok d \<Longrightarrow> ledger_unsettled k d"
  by (auto simp: ledger_ok_def ledger_unsettled_def invoice_ok_def)

text \<open>Parts that a change leaves as they are, seen from another invoice.\<close>

lemma parts_of_map:
  assumes "\<And>p. p \<in> set parts \<Longrightarrow> part_invoiceId (f p) = part_invoiceId p"
    and "\<And>p. p \<in> set parts \<Longrightarrow> part_invoiceId p = k \<Longrightarrow> f p = p"
  shows "parts_of k (map f parts) = parts_of k parts"
  using assms by (induction parts) (auto simp: parts_of_def)

lemma invoice_ok_parts:
  "parts_of (row_id r) parts' = parts_of (row_id r) parts \<Longrightarrow> invoice_ok parts' r = invoice_ok parts r"
  by (simp add: invoice_ok_def)

lemma base_part:
  assumes "ledger_base d" "p \<in> set (installments d)"
  shows "part_ok p" "part_invoiceId p \<in> row_id ` set (invoices d)" "row_id p < next_id d"
    "part_paidAmount p = paid_by (payments d) (payment_allocations d) (row_id p)" "0 \<le> owed p"
proof -
  have *: "part_ok p \<and> part_invoiceId p \<in> row_id ` set (invoices d) \<and> row_id p < next_id d
      \<and> part_paidAmount p = paid_by (payments d) (payment_allocations d) (row_id p)"
    using assms unfolding ledger_base_def by blast
  then show "part_ok p" "part_invoiceId p \<in> row_id ` set (invoices d)" "row_id p < next_id d"
    "part_paidAmount p = paid_by (payments d) (payment_allocations d) (row_id p)" by blast+
  have "part_paidAmount p \<le> part_amount p" using * unfolding part_ok_def by blast
  then show "0 \<le> owed p" by (simp add: owed_def)
qed

lemma base_payment:
  assumes "ledger_base d" "p \<in> set (payments d)"
  shows "payment_ok (row_id ` set (invoices d)) (payment_allocations d) p" "row_id p < next_id d"
  using assms by (simp_all add: ledger_base_def)

lemma base_allocation:
  assumes "ledger_base d" "al \<in> set (payment_allocations d)"
  obtains p part where "p \<in> set (payments d)" "part \<in> set (installments d)" "row_id p = al_paymentId al"
    "row_id part = al_installmentId al" "part_invoiceId part = pay_invoiceId p" "0 < al_amount al"
  using assms by (auto simp: ledger_base_def allocation_ok_def)

lemma base_distinct:
  assumes "ledger_base d"
  shows "ids_distinct (invoices d)" "ids_distinct (installments d)" "ids_distinct (payments d)"
    "r \<in> set (invoices d) \<Longrightarrow> row_id r < next_id d"
  using assms by (simp_all add: ledger_base_def)

lemma ledger_baseI:
  assumes "ids_distinct (invoices d)" "ids_distinct (installments d)" "ids_distinct (payments d)"
    and "\<And>r. r \<in> set (invoices d) \<Longrightarrow> row_id r < next_id d"
    and "\<And>p. p \<in> set (payments d) \<Longrightarrow> row_id p < next_id d"
    and "\<And>p. p \<in> set (installments d) \<Longrightarrow> part_ok p \<and> part_invoiceId p \<in> row_id ` set (invoices d)
        \<and> part_paidAmount p = paid_by (payments d) (payment_allocations d) (row_id p) \<and> row_id p < next_id d"
    and "\<And>p. p \<in> set (payments d) \<Longrightarrow> payment_ok (row_id ` set (invoices d)) (payment_allocations d) p"
    and "\<And>al. al \<in> set (payment_allocations d) \<Longrightarrow> allocation_ok (payments d) (installments d) al"
  shows "ledger_base d"
  unfolding ledger_base_def by (intro conjI ballI) (use assms in blast)+

lemma allocation_ok_mapI:
  assumes "p \<in> set ps" "q \<in> set parts" "row_id p = al_paymentId al" "row_id (f q) = al_installmentId al"
    "part_invoiceId (f q) = pay_invoiceId p" "0 < al_amount al"
  shows "allocation_ok ps (map f parts) al"
proof -
  have "f q \<in> set (map f parts)" using assms(2) by simp
  with assms show ?thesis unfolding allocation_ok_def by blast
qed

section \<open>Recording a payment\<close>

lemma posted_append: "posted (ps @ [p]) i \<longleftrightarrow> posted ps i \<or> (row_id p = i \<and> pay_status p = Posted)"
  by (auto simp: posted_def)

lemma posted_known: "posted ps i \<Longrightarrow> i \<in> row_id ` set ps"
  by (auto simp: posted_def)

definition allocation_rows :: "uuid \<Rightarrow> allocation list \<Rightarrow> allocation_row list" where
  "allocation_rows i as = map (\<lambda>(part, amount). \<lparr>al_paymentId = i, al_installmentId = part, al_amount = amount\<rparr>) as"

lemma sum_allocation_rows:
  "sum_where (\<lambda>al. P (al_paymentId al) \<and> al_installmentId al = j) al_amount (allocation_rows i as)
     = (if P i then allocated as j else 0)"
  "sum_where (\<lambda>al. al_paymentId al = j) al_amount (allocation_rows i as) = (if i = j then sum_list (map snd as) else 0)"
  by (induction as) (auto simp: allocation_rows_def)

lemma storePayment_unsettled:
  assumes ok: "ledger_ok d" and inv: "invoice \<in> set (invoices d)"
    and alloc: "allocatePayment (installmentsOf (row_id invoice) d) (rp_amount inp) = (as, r)" "r \<le> 0"
    and amount: "0 < rp_amount inp"
    and st: "storePayment e a pv inp invoice as d = (i, d')"
  shows "ledger_unsettled (row_id invoice) d'"
proof -
  let ?k = "row_id invoice"
  let ?P = "payments d" and ?A = "payment_allocations d" and ?I = "installments d"
  let ?new = "new_payment e a i pv inp invoice"
  let ?f = "\<lambda>p. p\<lparr>part_paidAmount := part_paidAmount p + allocated as (row_id p)\<rparr>"
  have base: "ledger_base d" using ok by (simp add: ledger_ok_def)
  have i: "i = next_id d" and d': "invoices d' = invoices d" "payments d' = ?P @ [?new]"
    "payment_allocations d' = ?A @ allocation_rows i as" "installments d' = map ?f ?I" "next_id d' = next_id d + 1"
    using st by (auto simp: storePayment_def take_id_def addPaid_map allocation_rows_def)
  have idI: "ids_distinct ?I" by (rule base_distinct(2)[OF base])
  have new: "row_id ?new = i" "pay_status ?new = Posted" "pay_amount ?new = rp_amount inp" "pay_invoiceId ?new = ?k"
    by (simp_all add: new_payment_def)
  have owedI: "0 \<le> owed p" if "p \<in> set ?I" for p
    by (rule base_part(5)[OF base that])
  have partsk: "set (installmentsOf ?k d) = {p \<in> set ?I. part_invoiceId p = ?k}"
    by (auto simp: parts_of_def)
  note spec = allocatePayment_spec[OF alloc(1) _ _ distinct_installmentsOf[OF idI]]
  have nn: "0 \<le> rp_amount inp" "\<forall>p \<in> set (installmentsOf ?k d). 0 \<le> owed p"
    using amount owedI partsk by auto
  have sum: "sum_list (map snd as) = rp_amount inp"
    using spec(1)[OF nn] spec(2)[OF nn] alloc(2) by simp
  have ids: "fst ` set as \<subseteq> row_id ` {p \<in> set ?I. part_invoiceId p = ?k}"
    using spec(4)[OF nn] partsk by simp
  have pos: "\<forall>x \<in> set as. 0 < snd x" using spec(3)[OF nn] .
  have same: "p = q" if "p \<in> set ?I" "q \<in> set ?I" "row_id p = row_id q" for p q
    by (rule same_row[OF idI that])
  have zero: "allocated as (row_id p) = 0" if "p \<in> set ?I" "part_invoiceId p \<noteq> ?k" for p
    using ids same[OF that(1)] that(2) by (intro allocated_notin) auto
  have some: "0 \<le> allocated as (row_id p) \<and> allocated as (row_id p) \<le> owed p" if "p \<in> set ?I" for p
    using spec(6)[OF nn] zero[OF that] owedI[OF that] that partsk by (cases "part_invoiceId p = ?k") auto
  have freshP: "j \<noteq> i" if "j \<in> row_id ` set ?P" for j
    using base_payment(2)[OF base] that by (fastforce simp: i)
  have known: "al_paymentId al \<in> row_id ` set ?P" if "al \<in> set ?A" for al
    using base_allocation[OF base that] by (metis imageI)
  have freshA: "al_paymentId al \<noteq> i" if "al \<in> set ?A" for al
    using known[OF that] freshP by blast
  have posted_new: "posted (?P @ [?new]) j \<longleftrightarrow> posted ?P j \<or> j = i" for j
    using new by (auto simp: posted_append)
  have not_old: "\<not> posted ?P i" using posted_known freshP by blast
  have paid: "paid_by (payments d') (payment_allocations d') j = paid_by ?P ?A j + allocated as j" for j
  proof -
    have "sum_where (\<lambda>al. posted (?P @ [?new]) (al_paymentId al) \<and> al_installmentId al = j) al_amount ?A
        = paid_by ?P ?A j"
      unfolding paid_by_def by (rule sum_where_cong) (use freshA posted_new in auto)
    moreover have "sum_where (\<lambda>al. posted (?P @ [?new]) (al_paymentId al) \<and> al_installmentId al = j) al_amount
        (allocation_rows i as) = allocated as j"
      using sum_allocation_rows(1)[of "posted (?P @ [?new])" j i as] posted_new by simp
    ultimately show ?thesis by (simp add: paid_by_def d')
  qed
  have keys: "map row_id (map ?f ?I) = map row_id ?I" by simp
  have parts: "part_ok p \<and> part_invoiceId p \<in> row_id ` set (invoices d')
      \<and> part_paidAmount p = paid_by (payments d') (payment_allocations d') (row_id p) \<and> row_id p < next_id d'"
    if mem: "p \<in> set (installments d')" for p
  proof -
    obtain q where q: "q \<in> set ?I" "p = ?f q" using mem d'(4) by auto
    note bq = base_part[OF base q(1)]
    show ?thesis using bq some[OF q(1)] q(2) paid d'(1,5) by (simp add: part_ok_def owed_def)
  qed
  have pays: "payment_ok (row_id ` set (invoices d')) (payment_allocations d') p" if "p \<in> set (payments d')" for p
  proof (cases "p \<in> set ?P")
    case True
    then have "row_id p \<noteq> i" using freshP by blast
    then show ?thesis
      using base_payment(1)[OF base True] sum_allocation_rows(2)[of "row_id p" i as] by (simp add: payment_ok_def d')
  next
    case False
    then have p: "p = ?new" using that d'(2) by simp
    have "sum_where (\<lambda>al. al_paymentId al = i) al_amount ?A = 0"
      by (rule sum_where_false) (use freshA in auto)
    then show ?thesis
      using sum_allocation_rows(2)[of i i as] sum amount inv by (simp add: p payment_ok_def new d')
  qed
  have allocs: "allocation_ok (payments d') (installments d') al" if mem: "al \<in> set (payment_allocations d')" for al
  proof (cases "al \<in> set ?A")
    case True
    then obtain p q where "p \<in> set ?P" "q \<in> set ?I" "row_id p = al_paymentId al" "row_id q = al_installmentId al"
      "part_invoiceId q = pay_invoiceId p" "0 < al_amount al"
      by (rule base_allocation[OF base])
    then show ?thesis unfolding d' by (intro allocation_ok_mapI[of p _ q]) auto
  next
    case False
    then obtain x where x: "x \<in> set as" "al = \<lparr>al_paymentId = i, al_installmentId = fst x, al_amount = snd x\<rparr>"
      using mem d'(3) by (auto simp: allocation_rows_def)
    then obtain q where "q \<in> set ?I" "part_invoiceId q = ?k" "row_id q = fst x" using ids by force
    then show ?thesis
      using x pos new unfolding d' by (intro allocation_ok_mapI[of ?new _ q]) auto
  qed
  have distinctP: "ids_distinct (payments d')"
    using base_distinct(3)[OF base] freshP new(1) by (auto simp: ids_distinct_def d'(2))
  have bounds: "\<forall>r \<in> set (invoices d'). row_id r < next_id d'" "\<forall>p \<in> set (payments d'). row_id p < next_id d'"
    using base_distinct(4)[OF base] base_payment(2)[OF base] new(1) by (auto simp: d'(1,2,5) i less_Suc_eq)
  have distinctI: "ids_distinct (installments d')" using idI by (simp only: ids_distinct_def d'(4) keys)
  have distinctV: "ids_distinct (invoices d')" using base_distinct(1)[OF base] d'(1) by simp
  have "ledger_base d'"
    by (rule ledger_baseI[OF distinctV distinctI distinctP bounds[rule_format] parts pays allocs])
  moreover have "invoice_ok (installments d') r" if "r \<in> set (invoices d')" "row_id r \<noteq> ?k" for r
  proof -
    have eq: "parts_of (row_id r) (map ?f ?I) = parts_of (row_id r) ?I"
      by (rule parts_of_map) (use zero that(2) in auto)
    have "invoice_ok ?I r" using ok that(1) unfolding ledger_ok_def d'(1) by blast
    then show ?thesis unfolding d'(4) invoice_ok_parts[OF eq] .
  qed
  moreover have "0 < inv_subtotal r \<and> sum_list (map part_amount (parts_of ?k (installments d'))) \<le> inv_subtotal r"
    if "r \<in> set (invoices d')" "row_id r = ?k" for r
  proof -
    have "map part_amount (parts_of ?k (map ?f ?I)) = map part_amount (parts_of ?k ?I)"
      by (simp add: parts_of_def filter_map comp_def)
    moreover have "invoice_ok ?I r" using ok that(1) unfolding ledger_ok_def d'(1) by blast
    ultimately show ?thesis unfolding d'(4) invoice_ok_def that(2) by simp
  qed
  ultimately show ?thesis unfolding ledger_unsettled_def by blast
qed

end
