(* ===== verification/Books.thy ===== *)
theory Books
  imports Ledger
begin

text \<open>
  Every operation of billing keeps the books of \<open>Ledger\<close>: recording and voiding a payment, a
  discount, a new invoice, the decision of a request, and, because they leave the invoices alone,
  the requests, prices and plans. The last section puts the operations together as the steps of a
  machine whose reachable states all have sound books.
\<close>

section \<open>Recording a payment\<close>

lemma issueReceipt_frame:
  assumes "issueReceipt e p b d = Inr (number, d')"
  shows "invoices d' = invoices d" "installments d' = installments d" "payments d' = payments d"
    "payment_allocations d' = payment_allocations d" "next_id d' = next_id d + 1"
    "fee_structures d' = fee_structures d" "payment_plans d' = payment_plans d"
    "approval_requests d' = approval_requests d" "discounts d' = discounts d"
  using assms by (auto simp: issueReceipt_def next_number_eq_Inr Let_def)

lemma recordPayment_Inr:
  assumes "recordPayment e ps inp grants a key d = Inr (v, d')"
  obtains pv invoice as r i d1 d2 number d3 where
    "find_provider ps key = Some pv" "find_by row_id (rp_invoiceId inp) (invoices d) = Some invoice"
    "inv_status invoice \<noteq> InvVoid" "inv_status invoice \<noteq> InvPaid"
    "allocatePayment (installmentsOf (row_id invoice) d) (rp_amount inp) = (as, r)" "r \<le> 0"
    "storePayment e a pv inp invoice as d = (i, d1)" "settle e (row_id invoice) a d1 = Inr d2"
    "issueReceipt e i (inv_branchId invoice) d2 = Inr (number, d3)"
    "\<exists>changes. d' = audit e ''payment.recorded'' ''payment'' (JUuid i) changes d3"
    "viewPayment i d' = Inr v"
  using assms by (auto simp: recordPayment_def lock_def Let_def intro: that)

lemma storePayment_frame:
  assumes "storePayment e a pv inp invoice as d = (i, d')"
  shows "i = next_id d" "invoices d' = invoices d" "payments d' = payments d @ [new_payment e a i pv inp invoice]"
    "fee_structures d' = fee_structures d" "payment_plans d' = payment_plans d" "receipts d' = receipts d"
    "approval_requests d' = approval_requests d" "discounts d' = discounts d" "next_id d' = next_id d + 1"
  using assms by (auto simp: storePayment_def take_id_def)

lemma settle_frame:
  assumes "settle e k a d = Inr d'"
  shows "installments d' = installments d" "payments d' = payments d" "payment_allocations d' = payment_allocations d"
    "fee_structures d' = fee_structures d" "payment_plans d' = payment_plans d" "next_id d' = next_id d"
    "approval_requests d' = approval_requests d" "discounts d' = discounts d" "receipts d' = receipts d"
  using assms by (auto simp: settle_eq_Inr)

lemma recordPayment_ok:
  assumes run: "recordPayment e ps inp grants a key d = Inr (v, d')" and ok: "ledger_ok d" and pos: "0 < rp_amount inp"
  shows "ledger_ok d'"
proof -
  from run obtain pv invoice as r i d1 d2 number d3 changes where
    invoice: "find_by row_id (rp_invoiceId inp) (invoices d) = Some invoice"
    and alloc: "allocatePayment (installmentsOf (row_id invoice) d) (rp_amount inp) = (as, r)" "r \<le> 0"
    and st: "storePayment e a pv inp invoice as d = (i, d1)" and se: "settle e (row_id invoice) a d1 = Inr d2"
    and re: "issueReceipt e i (inv_branchId invoice) d2 = Inr (number, d3)"
    and d': "d' = audit e ''payment.recorded'' ''payment'' (JUuid i) changes d3"
    by (elim recordPayment_Inr) blast
  have mem: "invoice \<in> set (invoices d)" using invoice by (rule find_by_in)
  have "ledger_unsettled (row_id invoice) d1" by (rule storePayment_unsettled[OF ok mem alloc pos st])
  then have "ledger_ok d2" using se by (rule settle_ok)
  then show ?thesis by (rule ledger_ok_cong) (use issueReceipt_frame[OF re] in \<open>simp_all add: d'\<close>)
qed

section \<open>Voiding a payment\<close>

lemma sum_where_filter: "sum_where P g (filter Q xs) = sum_where (\<lambda>x. Q x \<and> P x) g xs"
  by (induction xs) auto

lemma reversePayment_facts:
  fixes pay :: payment_row
  defines "f \<equiv> \<lambda>d p. p\<lparr>part_paidAmount := part_paidAmount p
     - sum_where (\<lambda>al. al_paymentId al = row_id pay \<and> al_installmentId al = row_id p) al_amount (payment_allocations d)\<rparr>"
    and "g \<equiv> \<lambda>e a (p :: payment_row). (touch e p)\<lparr>pay_status := PayVoid, pay_voidedAt := Some (now e),
       updatedBy := Some (actor_userId a), version := version pay + 1\<rparr>"
  shows "installments (reversePayment e a pay d) = map (f d) (installments d)"
    and "payments (reversePayment e a pay d) = update_where (\<lambda>p. row_id p = row_id pay) (g e a) (payments d)"
    and "invoices (reversePayment e a pay d) = invoices d" "next_id (reversePayment e a pay d) = next_id d"
    and "payment_allocations (reversePayment e a pay d) = payment_allocations d"
    and "fee_structures (reversePayment e a pay d) = fee_structures d" "payment_plans (reversePayment e a pay d) = payment_plans d"
    and "approval_requests (reversePayment e a pay d) = approval_requests d" "discounts (reversePayment e a pay d) = discounts d"
  by (simp_all add: reversePayment_def subPaid_map sum_where_filter Let_def f_def g_def)

lemma posted_void:
  assumes "ids_distinct ps" "\<And>p. row_id (g p) = row_id p" "\<And>p. pay_status (g p) = PayVoid"
  shows "posted (update_where (\<lambda>p. row_id p = k) g ps) i \<longleftrightarrow> posted ps i \<and> i \<noteq> k"
  using assms(2,3) by (auto simp: posted_def set_update_where)

lemma reversePayment_unsettled:
  assumes ok: "ledger_ok d" and pay: "pay \<in> set (payments d)" "pay_status pay = Posted"
  shows "ledger_unsettled (pay_invoiceId pay) (reversePayment e a pay d)"
proof -
  let ?d = "reversePayment e a pay d" and ?A = "payment_allocations d" and ?I = "installments d" and ?P = "payments d"
  let ?out = "\<lambda>i. sum_where (\<lambda>al. al_paymentId al = row_id pay \<and> al_installmentId al = i) al_amount ?A"
  let ?f = "\<lambda>p. p\<lparr>part_paidAmount := part_paidAmount p - ?out (row_id p)\<rparr>"
  let ?g = "\<lambda>p :: payment_row. (touch e p)\<lparr>pay_status := PayVoid, pay_voidedAt := Some (now e),
       updatedBy := Some (actor_userId a), version := version pay + 1\<rparr>"
  note facts = reversePayment_facts[where pay = pay and e = e and a = a and d = d]
  have base: "ledger_base d" using ok by (simp add: ledger_ok_def)
  have idP: "ids_distinct ?P" and idI: "ids_distinct ?I" using base_distinct[OF base] by blast+
  have g: "row_id (?g p) = row_id p" "pay_status (?g p) = PayVoid" "pay_amount (?g p) = pay_amount p"
    "pay_invoiceId (?g p) = pay_invoiceId p" for p by (simp_all add: touch_def)
  have isP: "posted ?P (row_id pay)" using pay by (auto simp: posted_def)
  have posted': "posted (payments ?d) i \<longleftrightarrow> posted ?P i \<and> i \<noteq> row_id pay" for i
    unfolding facts(2) by (rule posted_void[OF idP g(1,2)])
  have paid: "paid_by (payments ?d) (payment_allocations ?d) i = paid_by ?P ?A i - ?out i" for i
  proof -
    have "paid_by ?P ?A i
        = sum_where (\<lambda>al. (posted ?P (al_paymentId al) \<and> al_installmentId al = i) \<and> al_paymentId al = row_id pay) al_amount ?A
        + sum_where (\<lambda>al. (posted ?P (al_paymentId al) \<and> al_installmentId al = i) \<and> al_paymentId al \<noteq> row_id pay) al_amount ?A"
      unfolding paid_by_def by (rule sum_where_split)
    moreover have "sum_where (\<lambda>al. (posted ?P (al_paymentId al) \<and> al_installmentId al = i) \<and> al_paymentId al = row_id pay) al_amount ?A
        = ?out i" by (rule sum_where_cong) (use isP in auto)
    moreover have "sum_where (\<lambda>al. (posted ?P (al_paymentId al) \<and> al_installmentId al = i) \<and> al_paymentId al \<noteq> row_id pay) al_amount ?A
        = paid_by (payments ?d) (payment_allocations ?d) i"
      unfolding paid_by_def facts(5) by (rule sum_where_cong) (use posted' in auto)
    ultimately show ?thesis by simp
  qed
  have allocpos: "0 < al_amount al" if "al \<in> set ?A" for al by (rule base_allocation[OF base that])
  have out_nonneg: "0 \<le> ?out i" for i
    by (rule sum_where_nonneg) (use allocpos in \<open>auto intro: less_imp_le\<close>)
  have paid_nonneg: "0 \<le> paid_by (payments ?d) (payment_allocations ?d) i" for i
    unfolding paid_by_def by (rule sum_where_nonneg) (use allocpos in \<open>auto simp: facts(5) intro: less_imp_le\<close>)
  have idP': "ids_distinct (payments ?d)"
    using idP unfolding facts(2) ids_distinct_def by (subst map_update_where) (simp_all add: g)
  have parts: "part_ok p \<and> part_invoiceId p \<in> row_id ` set (invoices ?d)
      \<and> part_paidAmount p = paid_by (payments ?d) (payment_allocations ?d) (row_id p) \<and> row_id p < next_id ?d"
    if mem: "p \<in> set (installments ?d)" for p
  proof -
    obtain q where q: "q \<in> set ?I" "p = ?f q" using mem facts(1) by auto
    note bq = base_part[OF base q(1)]
    have "part_paidAmount p = paid_by (payments ?d) (payment_allocations ?d) (row_id q)"
      unfolding paid q(2) using bq(4) by simp
    moreover have "part_paidAmount p \<le> part_amount q" using bq(1) out_nonneg[of "row_id q"] q(2) by (simp add: part_ok_def)
    ultimately show ?thesis
      using bq(2,3) paid_nonneg[of "row_id q"] q(2) facts(3,4) by (simp add: part_ok_def)
  qed
  have pays: "payment_ok (row_id ` set (invoices ?d)) (payment_allocations ?d) p \<and> row_id p < next_id ?d"
    if mem: "p \<in> set (payments ?d)" for p
  proof -
    obtain q where q: "q \<in> set ?P" "p = q \<or> p = ?g q" using mem unfolding facts(2) set_update_where by auto
    then have "pay_amount p = pay_amount q" "pay_invoiceId p = pay_invoiceId q" "row_id p = row_id q" using g by auto
    then show ?thesis using base_payment[OF base q(1)] by (simp add: payment_ok_def facts(3-5))
  qed
  have allocs: "allocation_ok (payments ?d) (installments ?d) al" if mem: "al \<in> set (payment_allocations ?d)" for al
  proof -
    obtain p q where pq: "p \<in> set ?P" "q \<in> set ?I" "row_id p = al_paymentId al" "row_id q = al_installmentId al"
      "part_invoiceId q = pay_invoiceId p" "0 < al_amount al"
      using mem unfolding facts(5) by (rule base_allocation[OF base])
    let ?p = "if row_id p = row_id pay then ?g p else p"
    have "?p \<in> set (payments ?d)" using pq(1) unfolding facts(2) set_update_where by auto
    moreover have "row_id ?p = row_id p" "pay_invoiceId ?p = pay_invoiceId p" using g by auto
    ultimately show ?thesis using pq unfolding facts(1) by (intro allocation_ok_mapI[of ?p _ q]) auto
  qed
  have idI': "ids_distinct (installments ?d)" using idI by (simp add: facts(1) ids_distinct_def comp_def)
  have "ledger_base ?d"
    by (rule ledger_baseI) (use base_distinct[OF base] idP' idI' parts pays allocs facts(3,4) in auto)
  moreover have "invoice_ok (installments ?d) r" if mem: "r \<in> set (invoices ?d)" and ne: "row_id r \<noteq> pay_invoiceId pay" for r
  proof -
    have out: "?out (row_id p) = 0" if p: "p \<in> set ?I" "part_invoiceId p = row_id r" for p
    proof (rule sum_where_false, rule notI)
      fix al assume al: "al \<in> set ?A" "al_paymentId al = row_id pay \<and> al_installmentId al = row_id p"
      then obtain p' q where "p' \<in> set ?P" "q \<in> set ?I" "row_id p' = row_id pay" "row_id q = row_id p"
        "part_invoiceId q = pay_invoiceId p'" by (metis base_allocation[OF base al(1)])
      then have "part_invoiceId p = pay_invoiceId pay" using same_row[OF idP] same_row[OF idI] pay(1) p(1) by metis
      with p(2) ne show False by simp
    qed
    have eq: "parts_of (row_id r) (map ?f ?I) = parts_of (row_id r) ?I"
      by (rule parts_of_map) (use out in auto)
    have "invoice_ok ?I r" using ok mem unfolding ledger_ok_def facts(3) by blast
    then show ?thesis unfolding facts(1) invoice_ok_parts[OF eq] .
  qed
  moreover have "0 < inv_subtotal r \<and> sum_list (map part_amount (parts_of (pay_invoiceId pay) (installments ?d))) \<le> inv_subtotal r"
    if mem: "r \<in> set (invoices ?d)" and k: "row_id r = pay_invoiceId pay" for r
  proof -
    have "map part_amount (parts_of (pay_invoiceId pay) (map ?f ?I)) = map part_amount (parts_of (pay_invoiceId pay) ?I)"
      by (simp add: parts_of_def filter_map comp_def)
    moreover have "invoice_ok ?I r" using ok mem unfolding ledger_ok_def facts(3) by blast
    ultimately show ?thesis unfolding facts(1) invoice_ok_def k by simp
  qed
  ultimately show ?thesis unfolding ledger_unsettled_def by blast
qed

lemma voidPayment_Inr:
  assumes "voidPayment e paymentId approvalId a d = Inr d'"
  obtains pay d1 changes where "find_by row_id paymentId (payments d) = Some pay" "pay_status pay = Posted"
    "settle e (pay_invoiceId pay) a (reversePayment e a pay d) = Inr d1"
    "d' = audit e ''payment.voided'' ''payment'' (JUuid paymentId) changes d1"
proof -
  from assms obtain pay inv d1 changes where
    pay: "find_by row_id paymentId (payments d) = Some pay" "pay_status pay = Posted"
    and inv: "find_by row_id (pay_invoiceId pay) (invoices d) = Some inv"
    and st: "settle e (row_id inv) a (reversePayment e a pay d) = Inr d1"
    and d': "d' = audit e ''payment.voided'' ''payment'' (JUuid paymentId) changes d1"
    by (auto simp: voidPayment_def lock_def payment_row_def)
  show ?thesis by (rule that[OF pay _ d']) (use st find_by_key[OF inv] in simp)
qed

lemma voidPayment_ok:
  assumes "voidPayment e paymentId approvalId a d = Inr d'" "ledger_ok d"
  shows "ledger_ok d'"
proof -
  from assms(1) obtain pay d1 changes where pay: "find_by row_id paymentId (payments d) = Some pay" "pay_status pay = Posted"
    and st: "settle e (pay_invoiceId pay) a (reversePayment e a pay d) = Inr d1"
    and d': "d' = audit e ''payment.voided'' ''payment'' (JUuid paymentId) changes d1" by (rule voidPayment_Inr)
  have "ledger_ok d1"
    by (rule settle_ok[OF reversePayment_unsettled[OF assms(2) find_by_in[OF pay(1)] pay(2)] st])
  then show ?thesis by (rule ledger_ok_cong) (simp_all add: d')
qed

section \<open>Bounds\<close>

lemma ledger_bounds:
  assumes "ledger_ok d" "bill \<in> set (invoices d)"
  shows "0 \<le> inv_paidTotal bill \<and> inv_paidTotal bill \<le> inv_total bill \<and> inv_total bill \<le> inv_subtotal bill"
proof -
  let ?ps = "parts_of (row_id bill) (installments d)"
  have bill: "invoice_ok (installments d) bill" and base: "ledger_base d" using assms by (auto simp: ledger_ok_def)
  have "part_ok p" if "p \<in> set ?ps" for p using base_part(1)[OF base] that by (auto simp: parts_of_def)
  then have "0 \<le> sum_list (map part_paidAmount ?ps) \<and> sum_list (map part_paidAmount ?ps) \<le> sum_list (map part_amount ?ps)"
    by (auto simp: part_ok_def intro!: sum_list_nonneg sum_list_mono)
  then show ?thesis using bill by (simp add: invoice_ok_def)
qed

section \<open>Discounts\<close>

lemma open_invoice_owes:
  assumes "ledger_ok d" "invoice \<in> set (invoices d)" "inv_status invoice \<noteq> InvVoid"
  shows "inv_total invoice - inv_paidTotal invoice = sum_list (map owed (installmentsOf (row_id invoice) d))"
proof -
  have "sum_list (map owed ps) = sum_list (map part_amount ps) - sum_list (map part_paidAmount ps)" for ps
    by (induction ps) (auto simp: owed_def)
  then have "sum_list (map owed (installmentsOf (row_id invoice) d))
      = sum_list (map part_amount (parts_of (row_id invoice) (installments d)))
        - sum_list (map part_paidAmount (parts_of (row_id invoice) (installments d)))" by simp
  moreover have "invoice_ok (installments d) invoice" using assms unfolding ledger_ok_def by blast
  ultimately show ?thesis unfolding invoice_ok_def by linarith
qed

lemma applyInvoiceDiscount_Inr:
  assumes "applyInvoiceDiscount e k dc a d = Inr d'"
  obtains invoice amount changes d1 audited where "find_by row_id k (invoices d) = Some invoice"
    "inv_status invoice \<noteq> InvVoid" "amount = discountAmount (idc_kind dc) (idc_value dc) (inv_total invoice)" "1 \<le> amount"
    "amount \<le> inv_total invoice - inv_paidTotal invoice" "applyDiscount (installmentsOf k d) amount = Inr changes"
    "settle e k a (d\<lparr>installments := setAmounts changes (installments d), next_id := next_id d + 1,
       discounts := discounts d @ [\<lparr>row_id = next_id d, dc_invoiceId = k, dc_kind = idc_kind dc, dc_value = idc_value dc,
         dc_amount = amount, dc_reasonCode = idc_reasonCode dc, dc_approvalId = idc_approvalId dc, dc_createdAt = now e\<rparr>]\<rparr>) = Inr d1"
    "d' = audit e ''invoice.discount_applied'' ''invoice'' (JUuid k) audited d1"
  using assms by (auto simp: applyInvoiceDiscount_def lock_def Let_def not_less intro: that)

text \<open>The cuts as one pass over the instalments.\<close>

lemma discounted_parts:
  assumes base: "ledger_base d" and run: "applyDiscount (installmentsOf k d) amount = Inr changes" and nn: "0 \<le> amount"
  obtains cuts where "setAmounts changes (installments d)
      = map (\<lambda>p. p\<lparr>part_amount := part_amount p - allocated cuts (row_id p)\<rparr>) (installments d)"
    "\<forall>p \<in> set (installments d). 0 \<le> allocated cuts (row_id p) \<and> allocated cuts (row_id p) \<le> owed p"
    "\<forall>p \<in> set (installments d). part_invoiceId p \<noteq> k \<longrightarrow> allocated cuts (row_id p) = 0"
proof -
  let ?I = "installments d" and ?K = "installmentsOf k d"
  have idI: "ids_distinct ?I" by (rule base_distinct(2)[OF base])
  have K: "set ?K = {p \<in> set ?I. part_invoiceId p = k}" by (auto simp: parts_of_def)
  have owedI: "0 \<le> owed p" if "p \<in> set ?I" for p by (rule base_part(5)[OF base that])
  have distK: "distinct (map row_id ?K)" by (rule distinct_installmentsOf[OF idI])
  have same: "p = q" if "p \<in> set ?I" "q \<in> set ?I" "row_id p = row_id q" for p q by (rule same_row[OF idI that])
  obtain cuts where c: "changes = map (new_amount ?K) cuts" "distinct (map fst cuts)" "fst ` set cuts \<subseteq> row_id ` set ?K"
    "\<forall>p \<in> set ?K. 0 \<le> allocated cuts (row_id p) \<and> allocated cuts (row_id p) \<le> owed p"
    by (rule applyDiscount_Inr[OF run nn _ distK]) (use owedI K in auto)
  have find: "find_by row_id (row_id p) ?K = Some p" if p: "p \<in> set ?I" "row_id p \<in> fst ` set cuts" for p
  proof -
    obtain q where q: "q \<in> set ?K" "row_id p = row_id q" using c(3) p(2) by auto
    then have "p = q" using same[OF p(1)] K by blast
    with q(1) show ?thesis using find_by_distinct[OF distK] by blast
  qed
  have zero: "allocated cuts (row_id p) = 0" if p: "p \<in> set ?I" "part_invoiceId p \<noteq> k" for p
  proof (rule allocated_notin, rule notI)
    assume "row_id p \<in> fst ` set cuts"
    then show False using find_by_in[OF find[OF p(1)]] p(2) K by auto
  qed
  show ?thesis
  proof (rule that)
    show "setAmounts changes ?I = map (\<lambda>p. p\<lparr>part_amount := part_amount p - allocated cuts (row_id p)\<rparr>) ?I"
      unfolding c(1) by (rule setAmounts_map[OF c(2) find]) (use idI in \<open>simp_all add: ids_distinct_def\<close>)
    have "0 \<le> allocated cuts (row_id p) \<and> allocated cuts (row_id p) \<le> owed p" if "p \<in> set ?I" for p
      using c(4) K zero[OF that] owedI[OF that] that by (cases "part_invoiceId p = k") auto
    then show "\<forall>p \<in> set ?I. 0 \<le> allocated cuts (row_id p) \<and> allocated cuts (row_id p) \<le> owed p" by blast
  qed (use zero in blast)
qed

lemma recut_unsettled:
  assumes ok: "ledger_ok d" and parts: "installments d' = map (\<lambda>p. p\<lparr>part_amount := part_amount p - c (row_id p)\<rparr>) (installments d)"
    and c: "\<And>p. p \<in> set (installments d) \<Longrightarrow> 0 \<le> c (row_id p) \<and> c (row_id p) \<le> owed p"
      "\<And>p. p \<in> set (installments d) \<Longrightarrow> part_invoiceId p \<noteq> k \<Longrightarrow> c (row_id p) = (0 :: int)"
    and same: "invoices d' = invoices d" "payments d' = payments d" "payment_allocations d' = payment_allocations d"
      "next_id d \<le> next_id d'"
  shows "ledger_unsettled k d'"
proof -
  let ?I = "installments d" and ?f = "\<lambda>p. p\<lparr>part_amount := part_amount p - c (row_id p)\<rparr>"
  have base: "ledger_base d" using ok by (simp add: ledger_ok_def)
  have p: "part_ok p \<and> part_invoiceId p \<in> row_id ` set (invoices d')
      \<and> part_paidAmount p = paid_by (payments d') (payment_allocations d') (row_id p) \<and> row_id p < next_id d'"
    if mem: "p \<in> set (installments d')" for p
  proof -
    obtain q where q: "q \<in> set ?I" "p = ?f q" using mem parts by auto
    note bq = base_part[OF base q(1)]
    have "part_ok p" using bq(1) c(1)[OF q(1)] q(2) by (simp add: part_ok_def owed_def)
    moreover have "part_paidAmount p = paid_by (payments d') (payment_allocations d') (row_id p)"
      unfolding same using bq(4) q(2) by simp
    moreover have "part_invoiceId p = part_invoiceId q" "row_id p = row_id q" using q(2) by simp_all
    ultimately show ?thesis using bq(2,3) same(1,4) by simp
  qed
  have al: "allocation_ok (payments d') (installments d') al" if mem: "al \<in> set (payment_allocations d')" for al
  proof -
    obtain p q where pq: "p \<in> set (payments d)" "q \<in> set ?I" "row_id p = al_paymentId al" "row_id q = al_installmentId al"
      "part_invoiceId q = pay_invoiceId p" "0 < al_amount al"
      using mem unfolding same(3) by (rule base_allocation[OF base])
    then show ?thesis unfolding parts same(2) by (intro allocation_ok_mapI[of p _ q]) auto
  qed
  have idI: "ids_distinct (installments d')" using base_distinct(2)[OF base] by (simp add: parts ids_distinct_def comp_def)
  have "ledger_base d'"
  proof (rule ledger_baseI[OF _ idI _ _ _ p _ al])
    show "ids_distinct (invoices d')" "ids_distinct (payments d')" unfolding same(1,2) using base_distinct[OF base] by blast+
    show "row_id r < next_id d'" if "r \<in> set (invoices d')" for r
      using base_distinct(4)[OF base, of r] that same(1,4) by simp
    show "row_id r < next_id d'" if "r \<in> set (payments d')" for r
      using base_payment(2)[OF base, of r] that same(2,4) by simp
    show "payment_ok (row_id ` set (invoices d')) (payment_allocations d') q" if "q \<in> set (payments d')" for q
      using base_payment(1)[OF base, of q] that unfolding same by blast
  qed
  moreover have "invoice_ok (installments d') r" if mem: "r \<in> set (invoices d')" and ne: "row_id r \<noteq> k" for r
  proof -
    have eq: "parts_of (row_id r) (map ?f ?I) = parts_of (row_id r) ?I"
      by (rule parts_of_map) (use c(2) ne in auto)
    have "invoice_ok ?I r" using ok mem unfolding ledger_ok_def same(1) by blast
    then show ?thesis unfolding parts invoice_ok_parts[OF eq] .
  qed
  moreover have "0 < inv_subtotal r \<and> sum_list (map part_amount (parts_of k (installments d'))) \<le> inv_subtotal r"
    if mem: "r \<in> set (invoices d')" and k: "row_id r = k" for r
  proof -
    have c0: "\<forall>p \<in> set ?I. 0 \<le> c (row_id p)" using c(1) by blast
    have "sum_list (map part_amount (parts_of k (map ?f ps))) \<le> sum_list (map part_amount (parts_of k ps))"
      if "set ps \<subseteq> set ?I" for ps
      using that by (induction ps) (use c0 in \<open>auto simp: parts_of_def intro!: add_mono\<close>)
    then have "sum_list (map part_amount (parts_of k (map ?f ?I))) \<le> sum_list (map part_amount (parts_of k ?I))" by blast
    moreover have "invoice_ok ?I r" using ok mem unfolding ledger_ok_def same(1) by blast
    ultimately show ?thesis unfolding parts invoice_ok_def k by linarith
  qed
  ultimately show ?thesis unfolding ledger_unsettled_def by blast
qed

lemma applyInvoiceDiscount_ok:
  assumes "applyInvoiceDiscount e k dc a d = Inr d'" "ledger_ok d"
  shows "ledger_ok d'"
proof -
  from assms(1) obtain amount changes rows d1 audited where nn: "1 \<le> amount"
    and run: "applyDiscount (installmentsOf k d) amount = Inr changes"
    and st: "settle e k a (d\<lparr>installments := setAmounts changes (installments d), next_id := next_id d + 1, discounts := rows\<rparr>) = Inr d1"
    and d': "d' = audit e ''invoice.discount_applied'' ''invoice'' (JUuid k) audited d1"
    by (elim applyInvoiceDiscount_Inr) blast
  have base: "ledger_base d" using assms(2) by (simp add: ledger_ok_def)
  have nn0: "0 \<le> amount" using nn by simp
  obtain cuts where cuts: "setAmounts changes (installments d)
        = map (\<lambda>p. p\<lparr>part_amount := part_amount p - allocated cuts (row_id p)\<rparr>) (installments d)"
      "\<forall>p \<in> set (installments d). 0 \<le> allocated cuts (row_id p) \<and> allocated cuts (row_id p) \<le> owed p"
      "\<forall>p \<in> set (installments d). part_invoiceId p \<noteq> k \<longrightarrow> allocated cuts (row_id p) = 0"
    by (rule discounted_parts[OF base run nn0])
  have "ledger_unsettled k (d\<lparr>installments := setAmounts changes (installments d), next_id := next_id d + 1, discounts := rows\<rparr>)"
    by (rule recut_unsettled[OF assms(2) _ bspec[OF cuts(2)] bspec[OF cuts(3), THEN mp]]) (simp_all add: cuts(1))
  then have "ledger_ok d1" using st by (rule settle_ok)
  then show ?thesis by (rule ledger_ok_cong) (simp_all add: d')
qed

section \<open>Billing an enrollment\<close>

text \<open>What the prices and plans must be for an invoice made from them to be sound.\<close>

definition tariffs_ok :: "db \<Rightarrow> bool" where
  "tariffs_ok d \<longleftrightarrow> (\<forall>s \<in> set (fee_structures d). 0 < fs_total s)
     \<and> (\<forall>p \<in> set (payment_plans d). planIsValid (pl_installments p))"

definition new_parts :: "uuid \<Rightarrow> uuid \<Rightarrow> new_installment list \<Rightarrow> installment_row list" where
  "new_parts first k news = map (\<lambda>(j, n). \<lparr>row_id = first + j, part_invoiceId = k, part_sequence = ni_sequence n,
     part_dueDate = ni_dueDate n, part_amount = ni_amount n, part_paidAmount = 0\<rparr>) (enumerate 0 news)"

lemma new_parts_facts:
  "map row_id (new_parts first k news) = [first ..< first + length news]"
  "sum_list (map part_amount (new_parts first k news)) = sum_list (map ni_amount news)"
  "sum_list (map part_paidAmount (new_parts first k news)) = 0"
  "p \<in> set (new_parts first k news) \<Longrightarrow> part_invoiceId p = k \<and> part_paidAmount p = 0
     \<and> first \<le> row_id p \<and> row_id p < first + length news \<and> (\<exists>n \<in> set news. part_amount p = ni_amount n)"
proof -
  have gen: "map row_id (map (\<lambda>(j, n). \<lparr>row_id = first + j, part_invoiceId = k, part_sequence = ni_sequence n,
     part_dueDate = ni_dueDate n, part_amount = ni_amount n, part_paidAmount = 0\<rparr>) (enumerate s ns))
     = [first + s ..< first + s + length ns]" for s ns
    by (induction ns arbitrary: s) (simp_all add: upt_conv_Cons del: upt_Suc)
  show ids: "map row_id (new_parts first k news) = [first ..< first + length news]"
    unfolding new_parts_def using gen[of 0 news] by simp
  have amounts: "map part_amount (map (\<lambda>(j, n). \<lparr>row_id = first + j, part_invoiceId = k, part_sequence = ni_sequence n,
     part_dueDate = ni_dueDate n, part_amount = ni_amount n, part_paidAmount = 0\<rparr>) (enumerate s ns)) = map ni_amount ns" for s ns
    by (induction ns arbitrary: s) auto
  show "sum_list (map part_amount (new_parts first k news)) = sum_list (map ni_amount news)"
    unfolding new_parts_def amounts ..
  have unpaid: "sum_list (map part_paidAmount (map (\<lambda>(j, n). \<lparr>row_id = first + j, part_invoiceId = k, part_sequence = ni_sequence n,
     part_dueDate = ni_dueDate n, part_amount = ni_amount n, part_paidAmount = 0\<rparr>) (enumerate s ns))) = 0" for s ns
    by (induction ns arbitrary: s) auto
  show "sum_list (map part_paidAmount (new_parts first k news)) = 0" unfolding new_parts_def by (rule unpaid)
  assume p: "p \<in> set (new_parts first k news)"
  then have "row_id p \<in> set [first ..< first + length news]" using ids by (metis image_eqI image_set)
  moreover have "part_invoiceId p = k \<and> part_paidAmount p = 0 \<and> (\<exists>n \<in> set news. part_amount p = ni_amount n)"
    using p by (auto simp: new_parts_def in_set_enumerate_eq)
  ultimately show "part_invoiceId p = k \<and> part_paidAmount p = 0
     \<and> first \<le> row_id p \<and> row_id p < first + length news \<and> (\<exists>n \<in> set news. part_amount p = ni_amount n)" by auto
qed

lemma storeInvoice_Inr:
  assumes "storeInvoice e a number ctx sn fee plan t d = Inr (i, d')"
  obtains parts where "i = next_id d" "buildInstallments (fs_total fee) (pl_installments plan) t = Inr parts"
    "invoices d' = invoices d @ [new_invoice e a i number ctx fee]"
    "installments d' = installments d @ new_parts (next_id d + 1) i parts" "payments d' = payments d"
    "payment_allocations d' = payment_allocations d" "next_id d' = next_id d + 1 + length parts"
    "fee_structures d' = fee_structures d" "payment_plans d' = payment_plans d" "approval_requests d' = approval_requests d"
    "discounts d' = discounts d" "receipts d' = receipts d"
    "\<forall>r \<in> set (invoices d). \<not> invoice_clash (new_invoice e a i number ctx fee) r"
  using assms by (auto simp: storeInvoice_def Let_def insertInstallments_def new_parts_def intro: that)

lemma storeInvoice_ok:
  assumes run: "storeInvoice e a number ctx sn fee plan t d = Inr (i, d')" and ok: "ledger_ok d"
    and total: "0 < fs_total fee" and shares: "\<forall>p \<in> set (pl_installments plan). 0 \<le> pi_shareBp p"
  shows "ledger_ok d'"
proof -
  let ?new = "new_invoice e a i number ctx fee" and ?I = "installments d" and ?n = "next_id d"
  obtain parts where i: "i = ?n" and build: "buildInstallments (fs_total fee) (pl_installments plan) t = Inr parts"
    and d': "invoices d' = invoices d @ [?new]" "installments d' = ?I @ new_parts (?n + 1) i parts"
      "payments d' = payments d" "payment_allocations d' = payment_allocations d" "next_id d' = ?n + 1 + length parts"
    using run by (rule storeInvoice_Inr)
  let ?L = "new_parts (?n + 1) i parts"
  have base: "ledger_base d" using ok by (simp add: ledger_ok_def)
  have new: "row_id ?new = i" "inv_subtotal ?new = fs_total fee" "inv_total ?new = fs_total fee"
    "inv_paidTotal ?new = 0" "inv_discountTotal ?new = 0" "inv_status ?new = Issued" by (simp_all add: new_invoice_def)
  have amounts: "\<forall>p \<in> set parts. 0 \<le> ni_amount p"
    by (rule buildInstallments_nonneg[OF build _ shares]) (use total in simp)
  have oldV: "row_id r < ?n" if "r \<in> set (invoices d)" for r by (rule base_distinct(4)[OF base that])
  have oldI: "part_invoiceId p \<noteq> i \<and> row_id p < ?n" if mem: "p \<in> set ?I" for p
  proof -
    obtain r where "r \<in> set (invoices d)" "part_invoiceId p = row_id r" using base_part(2)[OF base mem] by auto
    then show ?thesis using oldV[of r] base_part(3)[OF base mem] i by simp
  qed
  have unpaid: "paid_by (payments d) (payment_allocations d) (row_id p) = 0" if "?n < row_id p" for p :: installment_row
    unfolding paid_by_def
  proof (rule sum_where_false, rule notI)
    fix al assume al: "al \<in> set (payment_allocations d)"
      and "posted (payments d) (al_paymentId al) \<and> al_installmentId al = row_id p"
    moreover obtain q where "q \<in> set ?I" "row_id q = al_installmentId al" using base_allocation[OF base al] by metis
    ultimately show False using oldI that by fastforce
  qed
  have parts: "part_ok p \<and> part_invoiceId p \<in> row_id ` set (invoices d')
      \<and> part_paidAmount p = paid_by (payments d') (payment_allocations d') (row_id p) \<and> row_id p < next_id d'"
    if mem: "p \<in> set (installments d')" for p
  proof (cases "p \<in> set ?I")
    case True
    note b = base_part[OF base True]
    have "part_invoiceId p \<in> row_id ` set (invoices d')" using b(2) d'(1) by auto
    moreover have "part_paidAmount p = paid_by (payments d') (payment_allocations d') (row_id p)"
      unfolding d'(3,4) by (rule b(4))
    moreover have "row_id p < next_id d'" using b(3) d'(5) by linarith
    ultimately show ?thesis using b(1) by blast
  next
    case False
    then have "p \<in> set ?L" using mem d'(2) by simp
    note f = new_parts_facts(4)[OF this]
    then show ?thesis using amounts unpaid[of p] new(1) d'(1,3-5) by (auto simp: part_ok_def)
  qed
  have allocs: "allocation_ok (payments d') (installments d') al" if mem: "al \<in> set (payment_allocations d')" for al
  proof -
    obtain p q where pq: "p \<in> set (payments d)" "q \<in> set ?I" "row_id p = al_paymentId al" "row_id q = al_installmentId al"
      "part_invoiceId q = pay_invoiceId p" "0 < al_amount al"
      using mem unfolding d'(4) by (rule base_allocation[OF base])
    then show ?thesis using allocation_ok_mapI[of p "payments d'" q "installments d'" al "\<lambda>x. x"] d'(2,3) by simp
  qed
  have idI: "ids_distinct (installments d')"
  proof -
    have "distinct (map row_id ?I @ [?n + 1 ..< ?n + 1 + length parts])"
      using base_distinct(2)[OF base] oldI by (fastforce simp: ids_distinct_def)
    then show ?thesis unfolding ids_distinct_def d'(2) map_append new_parts_facts(1) .
  qed
  have idV: "ids_distinct (invoices d')"
    using base_distinct(1)[OF base] oldV new(1) i by (fastforce simp: d'(1) ids_distinct_def)
  have "ledger_base d'"
  proof (rule ledger_baseI[OF idV idI _ _ _ parts _ allocs])
    show "ids_distinct (payments d')" unfolding d'(3) by (rule base_distinct(3)[OF base])
    show "row_id r < next_id d'" if "r \<in> set (invoices d')" for r
      using that oldV[of r] new(1) i by (auto simp: d'(1,5))
    show "row_id r < next_id d'" if "r \<in> set (payments d')" for r
      using that base_payment(2)[OF base, of r] by (simp add: d'(3,5))
    show "payment_ok (row_id ` set (invoices d')) (payment_allocations d') p" if "p \<in> set (payments d')" for p
      using that base_payment(1)[OF base, of p] by (simp add: payment_ok_def d'(1,3,4))
  qed
  moreover have "invoice_ok (installments d') r" if mem: "r \<in> set (invoices d')" for r
  proof (cases "r \<in> set (invoices d)")
    case True
    have "parts_of (row_id r) ?L = []"
      using new_parts_facts(4)[of _ "?n + 1" i parts] oldV[OF True] i by (auto simp: parts_of_def filter_empty_conv)
    then have eq: "parts_of (row_id r) (installments d') = parts_of (row_id r) ?I"
      by (simp add: d'(2) parts_of_def)
    have "invoice_ok ?I r" using ok True unfolding ledger_ok_def by blast
    then show ?thesis unfolding invoice_ok_parts[OF eq] .
  next
    case False
    then have r: "r = ?new" using mem d'(1) by simp
    have "parts_of i ?I = []" using oldI by (auto simp: parts_of_def filter_empty_conv)
    moreover have "parts_of i ?L = ?L"
      unfolding parts_of_def by (rule filter_True) (use new_parts_facts(4) in blast)
    ultimately have "parts_of i (installments d') = ?L" by (simp add: d'(2) parts_of_def)
    then show ?thesis
      using buildInstallments_ok(2)[OF build] total new_parts_facts(2,3)[of "?n + 1" i parts]
      by (simp add: invoice_ok_def r new invoiceStatusFor_def)
  qed
  ultimately show ?thesis unfolding ledger_ok_def by blast
qed

lemma createInvoice_Inr:
  assumes "createInvoice e inp grants a d = Inr (v, d')"
  obtains number ctx sn fee plan t d1 i where
    "fee \<in> set (fee_structures d)" "plan \<in> set (payment_plans d)"
    "invoices d1 = invoices d" "installments d1 = installments d" "payments d1 = payments d"
    "payment_allocations d1 = payment_allocations d" "next_id d1 = next_id d"
    "fee_structures d1 = fee_structures d" "payment_plans d1 = payment_plans d"
    "storeInvoice e a number ctx sn fee plan t d1 = Inr (i, d')"
proof -
  from assms obtain ctx student t fee plan number d1 i where
    price: "price_for (bc_courseId ctx) (st_categoryCode (student :: student_row)) (bc_startDate ctx) t d = Some fee"
    and plan: "plan_for (ci_planId inp) d = Inr plan"
    and num: "next_number e SeriesInvoice (Some (bc_branchId ctx)) d = Inr (number, d1)"
    and st: "storeInvoice e a (issued_number number) ctx (st_number student) fee plan t d1 = Inr (i, d')"
    by (auto simp: createInvoice_def)
  have "fee \<in> set (fee_structures d)"
    using price resolve_Some(1) by (auto simp: price_for_def split: option.splits)
  moreover have "plan \<in> set (payment_plans d)"
    using plan by (auto simp: plan_for_def findPlan_def defaultPlan_def find_Some_iff split: option.splits if_splits
        dest: find_by_in)
  moreover obtain rows where "d1 = d\<lparr>number_counters := rows\<rparr>" using num by (auto simp: next_number_eq_Inr)
  ultimately show ?thesis using st by (intro that) simp_all
qed

lemma planIsValid_shares: "planIsValid parts \<Longrightarrow> p \<in> set parts \<Longrightarrow> 0 \<le> pi_shareBp p"
  by (auto simp: planIsValid_def)

lemma createInvoice_ok:
  assumes "createInvoice e inp grants a d = Inr (v, d')" "ledger_ok d" "tariffs_ok d"
  shows "ledger_ok d'" "tariffs_ok d'"
proof -
  from assms(1) obtain number ctx sn fee plan t d1 i where
    mem: "fee \<in> set (fee_structures d)" "plan \<in> set (payment_plans d)"
    and d1: "invoices d1 = invoices d" "installments d1 = installments d" "payments d1 = payments d"
    "payment_allocations d1 = payment_allocations d" "next_id d1 = next_id d"
    "fee_structures d1 = fee_structures d" "payment_plans d1 = payment_plans d"
    and st: "storeInvoice e a number ctx sn fee plan t d1 = Inr (i, d')" by (rule createInvoice_Inr)
  have "ledger_ok d1" by (rule ledger_ok_cong[OF assms(2)]) (simp_all add: d1)
  then show "ledger_ok d'"
    by (rule storeInvoice_ok[OF st]) (use assms(3) mem planIsValid_shares in \<open>auto simp: tariffs_ok_def\<close>)
  show "tariffs_ok d'" using st assms(3) d1(6,7) by (elim storeInvoice_Inr) (simp add: tariffs_ok_def)
qed

end
