(* ===== verification/Billing.thy ===== *)
theory Billing
  imports Books
begin

text \<open>
  Billing as a whole: requests and decisions, the operations that leave the invoices alone, and the
  machine whose steps are the operations of the module. In every reachable state the books are
  sound, and so an invoice's paid total is the sum of the posted payments on it.
\<close>

section \<open>Prices and plans keep the tariffs\<close>

definition books_ok :: "db \<Rightarrow> bool" where
  "books_ok d \<longleftrightarrow> ledger_ok d \<and> tariffs_ok d"

lemma tariffs_ok_cong:
  "tariffs_ok d \<Longrightarrow> fee_structures d' = fee_structures d \<Longrightarrow> payment_plans d' = payment_plans d \<Longrightarrow> tariffs_ok d'"
  by (simp add: tariffs_ok_def)

lemma sum_list_pos:
  "xs \<noteq> [] \<Longrightarrow> \<forall>x \<in> set xs. 0 < f x \<Longrightarrow> 0 < sum_list (map f xs)" for f :: "'a \<Rightarrow> int"
proof (induction xs)
  case (Cons x xs)
  then show ?case by (cases xs) (auto intro: add_pos_pos)
qed simp

lemma createStructure_books:
  assumes "createStructure e inp a d = Inr (r, d')" "valid_fee_structure_request inp" "books_ok d"
  shows "books_ok d'"
proof -
  from assms(1) obtain row where d': "fee_structures d' = fee_structures d @ [row]"
      "fs_total row = sum_list (map fc_amount (cfs_components inp))" "payment_plans d' = payment_plans d"
    and same: "invoices d' = invoices d" "installments d' = installments d" "payments d' = payments d"
      "payment_allocations d' = payment_allocations d" "next_id d' = next_id d + 1"
    by (auto simp: createStructure_def Let_def)
  have "0 < sum_list (map fc_amount (cfs_components inp))"
    by (rule sum_list_pos) (use assms(2) in \<open>auto simp: valid_fee_structure_request_def is_positive_minor_units_def\<close>)
  then have "tariffs_ok d'" using assms(3) d' by (simp add: books_ok_def tariffs_ok_def)
  moreover have "ledger_ok d'" by (rule ledger_ok_cong[of d]) (use assms(3) same in \<open>simp_all add: books_ok_def\<close>)
  ultimately show ?thesis by (simp add: books_ok_def)
qed

lemma update_tariff:
  assumes "updateWithVersion e f i v rows = (result, rows')" "\<And>r. Q r \<Longrightarrow> Q ((touch e (f r))\<lparr>version := version r + 1\<rparr>)"
    and "\<forall>r \<in> set rows. Q r"
  shows "\<forall>r \<in> set rows'. Q r"
  using assms by (auto simp: updateWithVersion_def Let_def set_update_where split: list.splits option.splits if_splits)

lemma updateStructure_books:
  assumes "updateStructure e i inp v a d = Inr (r, d')" "books_ok d"
  shows "books_ok d'"
proof -
  from assms(1) obtain rows result where u: "updateWithVersion e (apply_fee_update inp a) i v (fee_structures d) = (result, rows)"
    and d': "fee_structures d' = rows" "payment_plans d' = payment_plans d"
    and same: "invoices d' = invoices d" "installments d' = installments d" "payments d' = payments d"
      "payment_allocations d' = payment_allocations d" "next_id d' = next_id d"
    by (auto simp: updateStructure_def)
  have "\<forall>s \<in> set rows. 0 < fs_total s"
    by (rule update_tariff[OF u]) (use assms(2) in \<open>auto simp: apply_fee_update_def touch_def books_ok_def tariffs_ok_def\<close>)
  then have "tariffs_ok d'" using assms(2) d' by (simp add: books_ok_def tariffs_ok_def)
  moreover have "ledger_ok d'" by (rule ledger_ok_cong[of d]) (use assms(2) same in \<open>simp_all add: books_ok_def\<close>)
  ultimately show ?thesis by (simp add: books_ok_def)
qed

lemma clearDefault_plans:
  "p \<in> set (payment_plans (clearDefault e d)) \<Longrightarrow> \<exists>q \<in> set (payment_plans d). pl_installments p = pl_installments q"
  by (auto simp: clearDefault_def set_update_where touch_def)

lemma clearDefault_valid:
  assumes "books_ok d"
  shows "\<forall>p \<in> set (payment_plans (if c then clearDefault e d else d)). planIsValid (pl_installments p)"
proof -
  have "\<forall>q \<in> set (payment_plans d). planIsValid (pl_installments q)" using assms by (simp add: books_ok_def tariffs_ok_def)
  then show ?thesis using clearDefault_plans by (metis (full_types))
qed

lemma clearDefault_frame [simp]:
  "fee_structures (clearDefault e d) = fee_structures d" "invoices (clearDefault e d) = invoices d"
  "installments (clearDefault e d) = installments d" "payments (clearDefault e d) = payments d"
  "payment_allocations (clearDefault e d) = payment_allocations d" "next_id (clearDefault e d) = next_id d"
  "approval_requests (clearDefault e d) = approval_requests d"
  by (simp_all add: clearDefault_def)

lemma createPlan_books:
  assumes "createPlan e inp a d = Inr (r, d')" "planIsValid (cpl_installments inp)" "books_ok d"
  shows "books_ok d'"
proof -
  let ?d = "if cpl_isDefault inp then clearDefault e d else d"
  from assms(1) obtain row where d': "payment_plans d' = payment_plans ?d @ [row]" "pl_installments row = cpl_installments inp"
      "fee_structures d' = fee_structures d"
    and same: "invoices d' = invoices d" "installments d' = installments d" "payments d' = payments d"
      "payment_allocations d' = payment_allocations d" "next_id d' = next_id d + 1"
    by (auto simp: createPlan_def Let_def split: if_splits)
  have "\<forall>p \<in> set (payment_plans ?d). planIsValid (pl_installments p)"
    by (rule clearDefault_valid[OF assms(3)])
  then have "tariffs_ok d'" using assms(2,3) d' by (auto simp: books_ok_def tariffs_ok_def)
  moreover have "ledger_ok d'" by (rule ledger_ok_cong[of d]) (use assms(3) same in \<open>simp_all add: books_ok_def\<close>)
  ultimately show ?thesis by (simp add: books_ok_def)
qed

lemma updatePlan_books:
  assumes "updatePlan e i inp v a d = Inr (r, d')" "books_ok d"
  shows "books_ok d'"
proof -
  let ?d = "if upl_isDefault inp = Some True then clearDefault e d else d"
  from assms(1) obtain rows result where u: "updateWithVersion e (apply_plan_update inp a) i v (payment_plans ?d) = (result, rows)"
    and d': "payment_plans d' = rows" "fee_structures d' = fee_structures d"
    and same: "invoices d' = invoices d" "installments d' = installments d" "payments d' = payments d"
      "payment_allocations d' = payment_allocations d" "next_id d' = next_id d"
    by (auto simp: updatePlan_def Let_def split: if_splits)
  have "\<forall>p \<in> set (payment_plans ?d). planIsValid (pl_installments p)"
    by (rule clearDefault_valid[OF assms(2)])
  then have "\<forall>p \<in> set rows. planIsValid (pl_installments p)"
    by (rule update_tariff[OF u, rotated]) (simp add: apply_plan_update_def touch_def)
  then have "tariffs_ok d'" using assms(2) d' by (simp add: books_ok_def tariffs_ok_def)
  moreover have "ledger_ok d'" by (rule ledger_ok_cong[of d]) (use assms(2) same in \<open>simp_all add: books_ok_def\<close>)
  ultimately show ?thesis by (simp add: books_ok_def)
qed

section \<open>Requests and decisions\<close>

lemma createApproval_Inr:
  assumes "createApproval e inp a d = Inr (v, d')"
  obtains row where "approval_requests d' = approval_requests d @ [row]" "row_id row = next_id d" "ap_status row = Pending"
    "ap_requestedBy row = actor_userId a" "ap_decidedBy row = None" "ap_type row = ai_type inp"
    "ap_subjectId row = ai_subjectId inp" "ap_payload row = ai_payload inp"
    "\<forall>r \<in> set (approval_requests d). \<not> approval_clash row r"
    "invoices d' = invoices d" "installments d' = installments d" "payments d' = payments d"
    "payment_allocations d' = payment_allocations d" "next_id d' = next_id d + 1"
    "fee_structures d' = fee_structures d" "payment_plans d' = payment_plans d"
  using assms by (auto simp: createApproval_def Let_def intro: that)

lemma createApproval_books:
  assumes "createApproval e inp a d = Inr (v, d')" "books_ok d"
  shows "books_ok d'"
  using assms(1)
proof (rule createApproval_Inr)
  assume same: "invoices d' = invoices d" "installments d' = installments d" "payments d' = payments d"
    "payment_allocations d' = payment_allocations d" "next_id d' = next_id d + 1"
    "fee_structures d' = fee_structures d" "payment_plans d' = payment_plans d"
  have "ledger_ok d'" by (rule ledger_ok_cong[of d]) (use assms(2) same in \<open>simp_all add: books_ok_def\<close>)
  then show ?thesis using assms(2) same by (simp add: books_ok_def tariffs_ok_def)
qed

lemma requests_create:
  "requestDiscount e k inp grants a d = Inr r \<Longrightarrow> \<exists>i. createApproval e i a d = Inr r"
  "requestVoid e p reason grants a d = Inr r \<Longrightarrow> \<exists>i. createApproval e i a d = Inr r"
  by (auto simp: requestDiscount_def requestVoid_def Let_def)

lemma tariff_frames:
  "settle e k a d = Inr d' \<Longrightarrow> fee_structures d' = fee_structures d \<and> payment_plans d' = payment_plans d"
  "storePayment e a pv inp invoice as d = (i, d') \<Longrightarrow> fee_structures d' = fee_structures d \<and> payment_plans d' = payment_plans d"
  "issueReceipt e p b d = Inr (number, d') \<Longrightarrow> fee_structures d' = fee_structures d \<and> payment_plans d' = payment_plans d"
  using settle_frame(4,5)[of e k a d d'] storePayment_frame(4,5)[of e a pv inp invoice as d i d']
    issueReceipt_frame(6,7)[of e p b d number d'] by blast+

lemma recordPayment_books:
  assumes "recordPayment e ps inp grants a key d = Inr (v, d')" "valid_payment_request inp" "books_ok d"
  shows "books_ok d'"
proof -
  have pos: "0 < rp_amount inp" using assms(2) by (simp add: valid_payment_request_def is_positive_minor_units_def)
  have "fee_structures d' = fee_structures d \<and> payment_plans d' = payment_plans d"
    using assms(1) by (elim recordPayment_Inr) (auto dest!: tariff_frames)
  then show ?thesis
    using assms(3) recordPayment_ok[OF assms(1) _ pos] by (simp add: books_ok_def tariffs_ok_def)
qed

lemma voidPayment_books:
  assumes "voidPayment e p i a d = Inr d'" "books_ok d"
  shows "books_ok d'"
proof -
  have "fee_structures d' = fee_structures d \<and> payment_plans d' = payment_plans d"
    using assms(1) by (elim voidPayment_Inr) (auto dest!: tariff_frames simp: reversePayment_facts)
  then show ?thesis using assms(2) voidPayment_ok[OF assms(1)] by (simp add: books_ok_def tariffs_ok_def)
qed

lemma applyInvoiceDiscount_books:
  assumes "applyInvoiceDiscount e k dc a d = Inr d'" "books_ok d"
  shows "books_ok d'"
proof -
  have "fee_structures d' = fee_structures d \<and> payment_plans d' = payment_plans d"
    using assms(1) by (elim applyInvoiceDiscount_Inr) (auto dest!: tariff_frames)
  then show ?thesis using assms(2) applyInvoiceDiscount_ok[OF assms(1)] by (simp add: books_ok_def tariffs_ok_def)
qed

lemma runApproval_books:
  assumes "runApproval e request a d = Inr d'" "books_ok d"
  shows "books_ok d'"
  using assms applyInvoiceDiscount_books voidPayment_books
  by (auto simp: runApproval_def split: if_splits approval_payload.splits)

lemma decide_Inr:
  assumes "decide e i choice note a d = Inr (v, d')"
  obtains request d1 rows row where "find_by row_id i (approval_requests d) = Some request" "ap_status request = Pending"
    "ap_requestedBy request \<noteq> actor_userId a"
    "(if choice = Approve then runApproval e request a d else Inr d) = Inr d1"
    "updateWithVersion e (apply_decision e choice note a) i (version request) (approval_requests d1) = (Updated row, rows)"
    "approval_requests d' = rows" "invoices d' = invoices d1" "installments d' = installments d1" "payments d' = payments d1"
    "payment_allocations d' = payment_allocations d1" "next_id d' = next_id d1" "fee_structures d' = fee_structures d1"
    "payment_plans d' = payment_plans d1"
  using assms by (auto simp: decide_def Let_def intro: that)

lemma decide_books:
  assumes "decide e i choice note a d = Inr (v, d')" "books_ok d"
  shows "books_ok d'"
proof -
  from assms(1) obtain request d1 where
    run: "(if choice = Approve then runApproval e request a d else Inr d) = Inr d1"
    and same: "invoices d' = invoices d1" "installments d' = installments d1" "payments d' = payments d1"
    "payment_allocations d' = payment_allocations d1" "next_id d' = next_id d1" "fee_structures d' = fee_structures d1"
    "payment_plans d' = payment_plans d1" by (elim decide_Inr)
  have "books_ok d1" using run assms(2) runApproval_books by (auto split: if_splits)
  moreover from this have "ledger_ok d'" using ledger_ok_cong[of d1 d'] same by (simp add: books_ok_def)
  ultimately show ?thesis using same by (simp add: books_ok_def tariffs_ok_def)
qed

section \<open>The machine\<close>

text \<open>
  A step is one call of an operation, by anyone, at any time, with a request its schema accepts; or
  the work of another module, which leaves the tables of billing as they are.
\<close>

inductive billing_step :: "db \<Rightarrow> db \<Rightarrow> bool" where
  structure_created: "createStructure e fee_inp a d = Inr (fee, d') \<Longrightarrow> valid_fee_structure_request fee_inp \<Longrightarrow> billing_step d d'"
| structure_updated: "updateStructure e i fee_upd v a d = Inr (fee, d') \<Longrightarrow> billing_step d d'"
| plan_created: "createPlan e plan_inp a d = Inr (plan, d') \<Longrightarrow> planIsValid (cpl_installments plan_inp) \<Longrightarrow> billing_step d d'"
| plan_updated: "updatePlan e i plan_upd v a d = Inr (plan, d') \<Longrightarrow> billing_step d d'"
| invoiced: "createInvoice e inv_inp grants a d = Inr (bill, d') \<Longrightarrow> billing_step d d'"
| paid: "recordPayment e ps pay_inp grants a key d = Inr (pay, d') \<Longrightarrow> valid_payment_request pay_inp \<Longrightarrow> billing_step d d'"
| discount_requested: "requestDiscount e i dis_inp grants a d = Inr (req, d') \<Longrightarrow> valid_discount_request dis_inp \<Longrightarrow> billing_step d d'"
| void_requested: "requestVoid e i reason grants a d = Inr (req, d') \<Longrightarrow> billing_step d d'"
| decided: "decide e i choice note a d = Inr (req, d') \<Longrightarrow> billing_step d d'"
| elsewhere: "next_id d \<le> next_id d' \<Longrightarrow> invoices d' = invoices d \<Longrightarrow> installments d' = installments d \<Longrightarrow>
    payments d' = payments d \<Longrightarrow> payment_allocations d' = payment_allocations d \<Longrightarrow> receipts d' = receipts d \<Longrightarrow>
    discounts d' = discounts d \<Longrightarrow> approval_requests d' = approval_requests d \<Longrightarrow>
    fee_structures d' = fee_structures d \<Longrightarrow> payment_plans d' = payment_plans d \<Longrightarrow> billing_step d d'"

inductive billing_reachable :: "db \<Rightarrow> bool" where
  installed: "invoices d = [] \<Longrightarrow> installments d = [] \<Longrightarrow> payments d = [] \<Longrightarrow> payment_allocations d = [] \<Longrightarrow>
    receipts d = [] \<Longrightarrow> discounts d = [] \<Longrightarrow> approval_requests d = [] \<Longrightarrow>
    fee_structures d = [] \<Longrightarrow> payment_plans d = [] \<Longrightarrow> billing_reachable d"
| stepped: "billing_reachable d \<Longrightarrow> billing_step d d' \<Longrightarrow> billing_reachable d'"

lemma billing_step_books: "billing_step d d' \<Longrightarrow> books_ok d \<Longrightarrow> books_ok d'"
proof (induction rule: billing_step.induct)
  case (structure_created e inp a d r d')
  then show ?case by (blast intro: createStructure_books)
next
  case (structure_updated e i inp v a d r d')
  then show ?case by (blast intro: updateStructure_books)
next
  case (plan_created e inp a d r d')
  then show ?case by (blast intro: createPlan_books)
next
  case (plan_updated e i inp v a d r d')
  then show ?case by (blast intro: updatePlan_books)
next
  case (invoiced e inp grants a d v d')
  then show ?case using createInvoice_ok by (auto simp: books_ok_def)
next
  case (paid e ps inp grants a key d v d')
  then show ?case by (blast intro: recordPayment_books)
next
  case (discount_requested e i inp grants a d v d')
  then show ?case using requests_create(1) createApproval_books by (metis surj_pair)
next
  case (void_requested e i inp grants a d v d')
  then show ?case using requests_create(2) createApproval_books by (metis surj_pair)
next
  case (decided e i choice remark a d v d')
  then show ?case by (blast intro: decide_books)
next
  case (elsewhere d d')
  then have "ledger_ok d'" using ledger_ok_cong[of d d'] by (simp add: books_ok_def)
  moreover have "tariffs_ok d'" using elsewhere by (simp add: books_ok_def tariffs_ok_def)
  ultimately show ?case by (simp add: books_ok_def)
qed

lemma books_ok_empty:
  "invoices d = [] \<Longrightarrow> installments d = [] \<Longrightarrow> payments d = [] \<Longrightarrow> payment_allocations d = [] \<Longrightarrow>
    fee_structures d = [] \<Longrightarrow> payment_plans d = [] \<Longrightarrow> books_ok d"
  by (simp add: books_ok_def ledger_ok_def ledger_base_def tariffs_ok_def ids_distinct_def)

lemma reachable_books: "billing_reachable d \<Longrightarrow> books_ok d"
  by (induction rule: billing_reachable.induct) (auto intro: books_ok_empty billing_step_books)

section \<open>What the books say\<close>

lemma paid_total_posted:
  assumes ok: "ledger_ok d" and bill: "bill \<in> set (invoices d)"
  shows "inv_paidTotal bill = sum_where (\<lambda>p. pay_invoiceId p = row_id bill \<and> pay_status p = Posted) pay_amount (payments d)"
proof -
  let ?A = "payment_allocations d" and ?P = "payments d" and ?k = "row_id bill"
  let ?ids = "map row_id (parts_of ?k (installments d))"
  let ?mine = "filter (\<lambda>p. pay_invoiceId p = ?k \<and> pay_status p = Posted) ?P"
  let ?to = "\<lambda>al. posted ?P (al_paymentId al) \<and> al_installmentId al \<in> set ?ids"
  have base: "ledger_base d" using ok by (simp add: ledger_ok_def)
  have idP: "ids_distinct ?P" and idI: "ids_distinct (installments d)" using base_distinct[OF base] by blast+
  have "inv_paidTotal bill = sum_list (map part_paidAmount (parts_of ?k (installments d)))"
    using ok bill by (simp add: ledger_ok_def invoice_ok_def)
  also have "\<dots> = sum_list (map (\<lambda>p. paid_by ?P ?A (row_id p)) (parts_of ?k (installments d)))"
    by (rule arg_cong[where f = sum_list], rule map_cong[OF refl], rule base_part(4)[OF base]) (simp add: parts_of_def)
  also have "\<dots> = sum_list (map (\<lambda>j. sum_where (\<lambda>al. ?to al \<and> al_installmentId al = j) al_amount ?A) ?ids)"
    unfolding map_map comp_def
    by (rule arg_cong[where f = sum_list], rule map_cong[OF refl]) (auto simp: paid_by_def intro!: sum_where_cong)
  also have "\<dots> = sum_where ?to al_amount ?A"
    by (rule sum_where_partition) (use idI in \<open>auto simp: parts_of_def ids_distinct_def distinct_map inj_on_def\<close>)
  also have "\<dots> = sum_list (map (\<lambda>j. sum_where (\<lambda>al. ?to al \<and> al_paymentId al = j) al_amount ?A) (map row_id ?mine))"
  proof (rule sum_where_partition[symmetric])
    show "distinct (map row_id ?mine)" using idP by (auto simp: ids_distinct_def distinct_map inj_on_def)
    fix al assume al: "al \<in> set ?A" "?to al"
    obtain p q where pq: "p \<in> set ?P" "q \<in> set (installments d)" "row_id p = al_paymentId al" "row_id q = al_installmentId al"
      "part_invoiceId q = pay_invoiceId p" using base_allocation[OF base al(1)] by metis
    from al(2) obtain p' q' where p': "p' \<in> set ?P" "row_id p' = al_paymentId al" "pay_status p' = Posted"
      and q': "q' \<in> set (installments d)" "part_invoiceId q' = ?k" "row_id q' = al_installmentId al"
      by (auto simp: posted_def parts_of_def)
    have "p' = p" by (rule same_row[OF idP p'(1) pq(1)]) (simp add: p' pq)
    moreover have "q' = q" by (rule same_row[OF idI q'(1) pq(2)]) (simp add: q' pq)
    ultimately have "p \<in> set ?mine" using p'(3) q'(2) pq by simp
    then show "al_paymentId al \<in> set (map row_id ?mine)" using pq(3) by force
  qed
  also have "\<dots> = sum_list (map pay_amount ?mine)"
    unfolding map_map comp_def
  proof (rule arg_cong[where f = sum_list], rule map_cong[OF refl])
    fix p assume p: "p \<in> set ?mine"
    have "?to al" if al: "al \<in> set ?A" "al_paymentId al = row_id p" for al
    proof -
      obtain p' q where pq: "p' \<in> set ?P" "q \<in> set (installments d)" "row_id p' = al_paymentId al" "row_id q = al_installmentId al"
        "part_invoiceId q = pay_invoiceId p'" using base_allocation[OF base al(1)] by metis
      have "p' = p" by (rule same_row[OF idP pq(1)]) (use p pq al in auto)
      then show ?thesis using p pq al(2) by (force simp: posted_def parts_of_def)
    qed
    then have "sum_where (\<lambda>al. ?to al \<and> al_paymentId al = row_id p) al_amount ?A
        = sum_where (\<lambda>al. al_paymentId al = row_id p) al_amount ?A"
      by (intro sum_where_cong) auto
    also have "\<dots> = pay_amount p" using base_payment(1)[OF base, of p] p by (simp add: payment_ok_def)
    finally show "sum_where (\<lambda>al. ?to al \<and> al_paymentId al = row_id p) al_amount ?A = pay_amount p" .
  qed
  finally show ?thesis by (simp add: sum_where_def)
qed

section \<open>Separation of duties\<close>

text \<open>
  Of a request: it is undecided exactly while pending, decided by someone else than the requester,
  and no two pending ones are for the same thing.
\<close>

definition separation_ok :: "db \<Rightarrow> bool" where
  "separation_ok d \<longleftrightarrow> ids_distinct (approval_requests d)
   \<and> (\<forall>r \<in> set (approval_requests d). row_id r < next_id d
        \<and> (ap_status r = Pending \<longleftrightarrow> ap_decidedBy r = None) \<and> ap_decidedBy r \<noteq> Some (ap_requestedBy r))
   \<and> (\<forall>r \<in> set (approval_requests d). \<forall>s \<in> set (approval_requests d).
        ap_status r = Pending \<and> ap_status s = Pending \<and> ap_type r = ap_type s \<and> ap_subjectId r = ap_subjectId s \<longrightarrow> r = s)"

lemma approval_frames:
  "settle e k a d = Inr d' \<Longrightarrow> approval_requests d' = approval_requests d \<and> next_id d' = next_id d"
  "storePayment e a pv inp invoice as d = (i, d') \<Longrightarrow> approval_requests d' = approval_requests d \<and> next_id d' = next_id d + 1"
  "issueReceipt e p b d = Inr (number, d') \<Longrightarrow> approval_requests d' = approval_requests d \<and> next_id d' = next_id d + 1"
  "voidPayment e p k a d = Inr d' \<Longrightarrow> approval_requests d' = approval_requests d \<and> next_id d \<le> next_id d'"
  "applyInvoiceDiscount e k dc a d = Inr d' \<Longrightarrow> approval_requests d' = approval_requests d \<and> next_id d \<le> next_id d'"
proof -
  show settled: "settle e k a d = Inr d' \<Longrightarrow> approval_requests d' = approval_requests d \<and> next_id d' = next_id d" for k d d'
    using settle_frame(6,7)[of e k a d d'] by blast
  show "storePayment e a pv inp invoice as d = (i, d') \<Longrightarrow> approval_requests d' = approval_requests d \<and> next_id d' = next_id d + 1"
    using storePayment_frame(7,9)[of e a pv inp invoice as d i d'] by blast
  show "issueReceipt e p b d = Inr (number, d') \<Longrightarrow> approval_requests d' = approval_requests d \<and> next_id d' = next_id d + 1"
    using issueReceipt_frame(5,8)[of e p b d number d'] by blast
  show "voidPayment e p k a d = Inr d' \<Longrightarrow> approval_requests d' = approval_requests d \<and> next_id d \<le> next_id d'"
    by (elim voidPayment_Inr) (auto dest!: settled simp: reversePayment_facts)
  show "applyInvoiceDiscount e k dc a d = Inr d' \<Longrightarrow> approval_requests d' = approval_requests d \<and> next_id d \<le> next_id d'"
    by (elim applyInvoiceDiscount_Inr) (auto dest!: settled)
qed

lemma runApproval_approvals:
  "runApproval e request a d = Inr d' \<Longrightarrow> approval_requests d' = approval_requests d \<and> next_id d \<le> next_id d'"
  by (auto simp: runApproval_def split: if_splits approval_payload.splits dest!: approval_frames)

lemma createInvoice_approvals:
  assumes "createInvoice e inp grants a d = Inr (v, d')"
  shows "approval_requests d' = approval_requests d \<and> next_id d \<le> next_id d'"
  using assms
  by (auto simp: createInvoice_def storeInvoice_def Let_def insertInstallments_def next_number_eq_Inr)

lemma recordPayment_approvals:
  assumes "recordPayment e ps inp grants a key d = Inr (v, d')"
  shows "approval_requests d' = approval_requests d \<and> next_id d \<le> next_id d'"
  using assms by (elim recordPayment_Inr) (auto dest!: approval_frames)

text \<open>What a step does to the requests: nothing, a new one, or a decision.\<close>

definition new_request :: "db \<Rightarrow> db \<Rightarrow> bool" where
  "new_request d d' \<longleftrightarrow> (\<exists>row. approval_requests d' = approval_requests d @ [row] \<and> row_id row = next_id d
     \<and> ap_status row = Pending \<and> ap_decidedBy row = None \<and> next_id d' = next_id d + 1
     \<and> (\<forall>r \<in> set (approval_requests d). \<not> approval_clash row r))"

definition new_decision :: "db \<Rightarrow> db \<Rightarrow> bool" where
  "new_decision d d' \<longleftrightarrow> next_id d \<le> next_id d' \<and> (\<exists>e i choice remark a request row rows.
     find_by row_id i (approval_requests d) = Some request
     \<and> ap_status request = Pending \<and> ap_requestedBy request \<noteq> actor_userId a
     \<and> updateWithVersion e (apply_decision e choice remark a) i (version request) (approval_requests d) = (Updated row, rows)
     \<and> approval_requests d' = rows)"

lemma createApproval_new: "createApproval e inp a d = Inr (v, d') \<Longrightarrow> new_request d d'"
  unfolding new_request_def by (elim createApproval_Inr) blast

lemma decide_new:
  assumes "decide e i choice remark a d = Inr (v, d')"
  shows "new_decision d d'"
proof -
  from assms obtain request d1 rows row where r: "find_by row_id i (approval_requests d) = Some request" "ap_status request = Pending"
    "ap_requestedBy request \<noteq> actor_userId a"
    and run: "(if choice = Approve then runApproval e request a d else Inr d) = Inr d1"
    and u: "updateWithVersion e (apply_decision e choice remark a) i (version request) (approval_requests d1) = (Updated row, rows)"
    "approval_requests d' = rows" "next_id d' = next_id d1" by (elim decide_Inr)
  have same: "approval_requests d1 = approval_requests d" "next_id d \<le> next_id d'"
    using run runApproval_approvals u(3) by (auto split: if_splits)
  show ?thesis unfolding new_decision_def using r u(1,2) same by metis
qed

lemma billing_step_approvals:
  "billing_step d d' \<Longrightarrow>
     (approval_requests d' = approval_requests d \<and> next_id d \<le> next_id d') \<or> new_request d d' \<or> new_decision d d'"
proof (induction rule: billing_step.induct)
  case (structure_created e inp a d r d')
  then show ?case by (auto simp: createStructure_def Let_def)
next
  case (structure_updated e i inp v a d r d')
  then show ?case by (auto simp: updateStructure_def)
next
  case (plan_created e inp a d r d')
  then show ?case by (auto simp: createPlan_def Let_def split: if_splits)
next
  case (plan_updated e i inp v a d r d')
  then show ?case by (auto simp: updatePlan_def Let_def split: if_splits)
next
  case (invoiced e inp grants a d v d')
  then show ?case using createInvoice_approvals by blast
next
  case (paid e ps inp grants a key d v d')
  then show ?case using recordPayment_approvals by blast
next
  case (discount_requested e i inp grants a d v d')
  then show ?case using requests_create(1) createApproval_new by blast
next
  case (void_requested e i inp grants a d v d')
  then show ?case using requests_create(2) createApproval_new by blast
next
  case (decided e i choice remark a d v d')
  then show ?case using decide_new by blast
qed simp

lemma separation_request:
  assumes "separation_ok d" "new_request d d'"
  shows "separation_ok d'"
proof -
  from assms(2) obtain row where row: "approval_requests d' = approval_requests d @ [row]" "row_id row = next_id d"
    "ap_status row = Pending" "ap_decidedBy row = None" "next_id d' = next_id d + 1"
    "\<forall>r \<in> set (approval_requests d). \<not> approval_clash row r" by (auto simp: new_request_def)
  have "ids_distinct (approval_requests d')"
    using assms(1) row(2) by (fastforce simp: separation_ok_def ids_distinct_def row(1))
  then show ?thesis using assms(1) row by (fastforce simp: separation_ok_def approval_clash_def)
qed

lemma separation_decision:
  assumes ok: "separation_ok d" and new: "new_decision d d'"
  shows "separation_ok d'" "\<forall>r \<in> set (approval_requests d). ap_status r \<noteq> Pending \<longrightarrow> r \<in> set (approval_requests d')"
proof -
  let ?R = "approval_requests d"
  from new obtain e i choice remark a request row rows where r: "find_by row_id i ?R = Some request" "ap_status request = Pending"
    "ap_requestedBy request \<noteq> actor_userId a"
    and u: "updateWithVersion e (apply_decision e choice remark a) i (version request) ?R = (Updated row, rows)"
    and d': "approval_requests d' = rows" "next_id d \<le> next_id d'" by (auto simp: new_decision_def)
  let ?f = "\<lambda>x. (touch e (apply_decision e choice remark a x))\<lparr>version := version request + 1\<rparr>"
  have ids: "ids_distinct ?R" using ok by (simp add: separation_ok_def)
  have rows: "rows = update_where (\<lambda>x. row_id x = i) ?f ?R" using ids u by (elim updateWithVersion_Updated)
  have f: "row_id (?f x) = row_id x" "ap_status (?f x) \<noteq> Pending" "ap_decidedBy (?f x) = Some (actor_userId a)"
    "ap_requestedBy (?f x) = ap_requestedBy x" for x
    by (simp_all add: touch_def apply_decision_def)
  have only: "x = request" if "x \<in> set ?R" "row_id x = i" for x
    by (rule same_row[OF ids that(1) find_by_in[OF r(1)]]) (use that(2) find_by_key[OF r(1)] in simp)
  have mem: "y \<in> set rows \<longleftrightarrow> (y \<in> set ?R \<and> row_id y \<noteq> i) \<or> y = ?f request" for y
  proof -
    note request = find_by_in[OF r(1)] find_by_key[OF r(1)]
    have "y \<in> set rows \<longleftrightarrow> (\<exists>x \<in> set ?R. y = (if row_id x = i then ?f x else x))"
      unfolding rows set_update_where by blast
    also have "\<dots> \<longleftrightarrow> (\<exists>x \<in> set ?R. row_id x \<noteq> i \<and> y = x) \<or> y = ?f request"
      using only request by metis
    finally show ?thesis by blast
  qed
  have "ids_distinct rows" using ids unfolding rows ids_distinct_def by (subst map_update_where) (simp_all add: f)
  moreover have "row_id y < next_id d' \<and> (ap_status y = Pending \<longleftrightarrow> ap_decidedBy y = None) \<and> ap_decidedBy y \<noteq> Some (ap_requestedBy y)"
    if y: "y \<in> set rows" for y
  proof -
    have old: "row_id x < next_id d \<and> (ap_status x = Pending \<longleftrightarrow> ap_decidedBy x = None) \<and> ap_decidedBy x \<noteq> Some (ap_requestedBy x)"
      if "x \<in> set ?R" for x
      using ok that unfolding separation_ok_def by blast
    consider "y \<in> set ?R" | "y = ?f request" using y mem by blast
    then show ?thesis
    proof cases
      case 1
      show ?thesis using old[OF 1] d'(2) by simp
    next
      case 2
      have "ap_decidedBy y \<noteq> Some (ap_requestedBy y)" using r(3) unfolding 2 f by simp
      moreover have "row_id y < next_id d'" using old[OF find_by_in[OF r(1)]] d'(2) unfolding 2 f by linarith
      ultimately show ?thesis using f(2,3)[of request] unfolding 2 by simp
    qed
  qed
  moreover have "y = z" if "y \<in> set rows" "z \<in> set rows" "ap_status y = Pending" "ap_status z = Pending"
      "ap_type y = ap_type z" "ap_subjectId y = ap_subjectId z" for y z
    using that ok f(2)[of request] unfolding mem separation_ok_def by blast
  ultimately show "separation_ok d'" unfolding separation_ok_def d'(1) by blast
  show "\<forall>x \<in> set ?R. ap_status x \<noteq> Pending \<longrightarrow> x \<in> set (approval_requests d')"
    using only r(2) unfolding d'(1) mem by blast
qed

lemma billing_step_separation:
  assumes "billing_step d d'" "separation_ok d"
  shows "separation_ok d'" "\<forall>r \<in> set (approval_requests d). ap_status r \<noteq> Pending \<longrightarrow> r \<in> set (approval_requests d')"
proof -
  have same: "separation_ok d'" if "approval_requests d' = approval_requests d" "next_id d \<le> next_id d'"
    using assms(2) that by (fastforce simp: separation_ok_def)
  have kept: "set (approval_requests d) \<subseteq> set (approval_requests d')" if "new_request d d'"
    using that by (auto simp: new_request_def)
  show "separation_ok d'"
    using billing_step_approvals[OF assms(1)] same separation_request[OF assms(2)] separation_decision(1)[OF assms(2)] by blast
  show "\<forall>r \<in> set (approval_requests d). ap_status r \<noteq> Pending \<longrightarrow> r \<in> set (approval_requests d')"
    using billing_step_approvals[OF assms(1)] kept separation_decision(2)[OF assms(2)] by auto
qed

lemma reachable_separation: "billing_reachable d \<Longrightarrow> separation_ok d"
  by (induction rule: billing_reachable.induct)
    (simp add: separation_ok_def ids_distinct_def, blast intro: billing_step_separation)

section \<open>Voiding undoes recording\<close>

text \<open>The money of an invoice row is a function of its subtotal, its being void, and the instalments.\<close>

definition invoice_money :: "invoice_row \<Rightarrow> uuid \<times> int \<times> int \<times> int \<times> int \<times> invoice_status" where
  "invoice_money r = (row_id r, inv_subtotal r, inv_discountTotal r, inv_total r, inv_paidTotal r, inv_status r)"

definition invoice_frame :: "invoice_row \<Rightarrow> uuid \<times> int \<times> bool" where
  "invoice_frame r = (row_id r, inv_subtotal r, inv_status r = InvVoid)"

definition money_of :: "installment_row list \<Rightarrow> uuid \<times> int \<times> bool \<Rightarrow> uuid \<times> int \<times> int \<times> int \<times> int \<times> invoice_status" where
  "money_of parts = (\<lambda>(k, subtotal, gone).
     let t = sum_list (map part_amount (parts_of k parts)); p = sum_list (map part_paidAmount (parts_of k parts)) in
     (k, subtotal, subtotal - t, t, p, if gone then InvVoid else invoiceStatusFor t p))"

lemma ledger_money:
  assumes "ledger_ok d"
  shows "map invoice_money (invoices d) = map (money_of (installments d)) (map invoice_frame (invoices d))"
  using assms by (auto simp: ledger_ok_def invoice_ok_def invoice_money_def invoice_frame_def money_of_def Let_def)

lemma invoiceStatusFor_not_void [simp]: "invoiceStatusFor t p \<noteq> InvVoid"
  by (simp add: invoiceStatusFor_def)

lemma settle_invoice_frame:
  assumes "ids_distinct (invoices d)" "settle e k a d = Inr d'"
  shows "map invoice_frame (invoices d') = map invoice_frame (invoices d)"
proof -
  obtain before where b: "find_by row_id k (invoices d) = Some before"
    and d': "invoices d' = update_where (\<lambda>r. row_id r = k) (\<lambda>_. settle_row e a (installmentsOf k d) before) (invoices d)"
    using assms(2) by (auto simp: settle_eq_Inr)
  have only: "r = before" if "r \<in> set (invoices d)" "row_id r = k" for r
    by (rule same_row[OF assms(1) that(1) find_by_in[OF b]]) (use that(2) find_by_key[OF b] in simp)
  show ?thesis
    unfolding d' update_where_def map_map comp_def
    by (rule map_cong[OF refl]) (use only in \<open>auto simp: invoice_frame_def\<close>)
qed

lemma recordPayment_parts:
  assumes "recordPayment e ps inp grants a key d = Inr (v, d1)" "ledger_ok d"
  obtains as i where "installments d1 = map (\<lambda>p. p\<lparr>part_paidAmount := part_paidAmount p + allocated as (row_id p)\<rparr>) (installments d)"
    "payment_allocations d1 = payment_allocations d @ allocation_rows i as" "i = next_id d" "pvw_id v = i"
    "map invoice_frame (invoices d1) = map invoice_frame (invoices d)"
proof -
  from assms(1) obtain pv invoice as i d2 d3 number d4 changes where
    st: "storePayment e a pv inp invoice as d = (i, d2)" and se: "settle e (row_id invoice) a d2 = Inr d3"
    and re: "issueReceipt e i (inv_branchId invoice) d3 = Inr (number, d4)"
    and d1: "d1 = audit e ''payment.recorded'' ''payment'' (JUuid i) changes d4" and view: "viewPayment i d1 = Inr v"
    by (elim recordPayment_Inr) blast
  have base: "ledger_base d" using assms(2) by (simp add: ledger_ok_def)
  have d2: "installments d2 = map (\<lambda>p. p\<lparr>part_paidAmount := part_paidAmount p + allocated as (row_id p)\<rparr>) (installments d)"
    "payment_allocations d2 = payment_allocations d @ allocation_rows i as" "i = next_id d" "invoices d2 = invoices d"
    using st by (auto simp: storePayment_def take_id_def addPaid_map allocation_rows_def)
  have "pvw_id v = i" using view by (auto simp: viewPayment_def presentPayment_def bind_eq_Some_conv dest: find_by_key)
  moreover have "map invoice_frame (invoices d3) = map invoice_frame (invoices d)"
    using settle_invoice_frame[OF _ se] base_distinct(1)[OF base] d2(4) by simp
  ultimately show ?thesis
    using d2 settle_frame(1,3)[OF se] issueReceipt_frame(1,2,4)[OF re] by (intro that) (simp_all add: d1)
qed

lemma void_undoes_record:
  assumes rec: "recordPayment e ps inp grants a key d = Inr (v, d1)" and ok: "ledger_ok d" "0 < rp_amount inp"
    and void: "voidPayment e' (pvw_id v) k a' d1 = Inr d2"
  shows "installments d2 = installments d" "map invoice_money (invoices d2) = map invoice_money (invoices d)"
proof -
  obtain as i where d1: "installments d1 = map (\<lambda>p. p\<lparr>part_paidAmount := part_paidAmount p + allocated as (row_id p)\<rparr>) (installments d)"
    "payment_allocations d1 = payment_allocations d @ allocation_rows i as" and i: "i = next_id d" "pvw_id v = i"
    and frame1: "map invoice_frame (invoices d1) = map invoice_frame (invoices d)"
    using rec ok(1) by (rule recordPayment_parts)
  from void obtain pay d3 changes where pay: "find_by row_id i (payments d1) = Some pay"
    and se: "settle e' (pay_invoiceId pay) a' (reversePayment e' a' pay d1) = Inr d3"
    and d2: "d2 = audit e' ''payment.voided'' ''payment'' (JUuid (pvw_id v)) changes d3"
    unfolding i(2) by (elim voidPayment_Inr) blast
  have key: "row_id pay = i" by (rule find_by_key[OF pay])
  have base: "ledger_base d" using ok(1) by (simp add: ledger_ok_def)
  have ok1: "ledger_ok d1" by (rule recordPayment_ok[OF rec ok])
  have ok2: "ledger_ok d2" by (rule voidPayment_ok[OF void ok1])
  have old: "al_paymentId al \<noteq> i" if "al \<in> set (payment_allocations d)" for al
    using base_allocation[OF base that] base_payment(2)[OF base] i(1) by (metis less_irrefl)
  have out: "sum_where (\<lambda>al. al_paymentId al = row_id pay \<and> al_installmentId al = j) al_amount (payment_allocations d1)
      = allocated as j" for j
    using sum_allocation_rows(1)[of "\<lambda>x. x = i" j i as] sum_where_false[of "payment_allocations d"] old
    by (simp add: d1(2) key)
  have "installments d2 = map (\<lambda>p. p\<lparr>part_paidAmount := part_paidAmount p - allocated as (row_id p)\<rparr>) (installments d1)"
    using settle_frame(1)[OF se] by (simp add: d2 reversePayment_facts(1) out)
  then show parts: "installments d2 = installments d" by (simp add: d1(1) comp_def)
  have "ids_distinct (invoices d1)" using ok1 base_distinct(1) by (auto simp: ledger_ok_def)
  then have "map invoice_frame (invoices d2) = map invoice_frame (invoices d)"
    using settle_invoice_frame[OF _ se] frame1 by (simp add: d2 reversePayment_facts(3))
  then show "map invoice_money (invoices d2) = map invoice_money (invoices d)"
    unfolding ledger_money[OF ok2] ledger_money[OF ok(1)] parts by simp
qed

section \<open>Overpayment\<close>

lemma issueReceipt_errors: "issueReceipt e p b d \<noteq> Inl (Billing (Overpayment n))"
  by (auto simp: issueReceipt_def next_number_def number_context_for_def institution_row_def crash_def bindE_eq_Inl Let_def
      split: if_splits option.splits list.splits sum.splits prod.splits)

lemma overpayment_iff:
  assumes ok: "ledger_ok d" and pv: "find_provider ps key = Some pv" "rp_method inp \<in> set (pv_methods pv)"
    and bill: "find_by row_id (rp_invoiceId inp) (invoices d) = Some bill" "inv_status bill \<noteq> InvVoid" "inv_status bill \<noteq> InvPaid"
    and may: "assertScope grants ''billing.receive'' (at_branch (inv_branchId bill)) = Inr ()" and pos: "0 < rp_amount inp"
  shows "(\<exists>n. recordPayment e ps inp grants a key d = Inl (Billing (Overpayment n)))
           \<longleftrightarrow> inv_total bill - inv_paidTotal bill < rp_amount inp"
    and "recordPayment e ps inp grants a key d = Inl (Billing (Overpayment n)) \<Longrightarrow> n = inv_total bill - inv_paidTotal bill"
proof -
  let ?parts = "installmentsOf (row_id bill) d"
  obtain as r where al: "allocatePayment ?parts (rp_amount inp) = (as, r)" by fastforce
  have base: "ledger_base d" using ok by (simp add: ledger_ok_def)
  have mem: "bill \<in> set (invoices d)" using bill(1) by (rule find_by_in)
  have nn: "\<forall>p \<in> set ?parts. 0 \<le> owed p" using base_part(5)[OF base] by (auto simp: parts_of_def)
  have dist: "distinct (map row_id ?parts)" by (rule distinct_installmentsOf[OF base_distinct(2)[OF base]])
  have "r = max 0 (rp_amount inp - sum_list (map owed ?parts))"
    using allocatePayment_spec(2)[OF al _ nn dist] pos by simp
  then have r: "0 < r \<longleftrightarrow> inv_total bill - inv_paidTotal bill < rp_amount inp"
    using open_invoice_owes[OF ok mem bill(2)] by auto
  have rest: "recordPayment e ps inp grants a key d \<noteq> Inl (Billing (Overpayment n))" if "\<not> 0 < r" for n
    using that by (auto simp: recordPayment_def pv bill may lock_def al bindE_eq_Inl Let_def settle_def invoice_row_def
        viewPayment_def issueReceipt_errors split: prod.splits)
  have over: "recordPayment e ps inp grants a key d = Inl (Billing (Overpayment (inv_total bill - inv_paidTotal bill)))" if "0 < r"
    using that by (simp add: recordPayment_def pv bill may lock_def al)
  show "(\<exists>n. recordPayment e ps inp grants a key d = Inl (Billing (Overpayment n)))
           \<longleftrightarrow> inv_total bill - inv_paidTotal bill < rp_amount inp"
    using rest over r by blast
  show "recordPayment e ps inp grants a key d = Inl (Billing (Overpayment n)) \<Longrightarrow> n = inv_total bill - inv_paidTotal bill"
    using rest over by (cases "0 < r") auto
qed

end
