(* ===== verification/Example.thy ===== *)
theory Example
  imports Billing
begin

text \<open>
  A small institution on which the properties are exercised: one branch, one course with a price and
  a two-part plan, one student with a completed enrollment, two members of staff. The digest and the
  printers are concrete functions; the wall clock shows the instant as a day of August 2026.
\<close>

definition demo_env :: env where
  "demo_env = \<lparr>show_rat = (\<lambda>r. []), show_uuid = show_nat, now = 5, sha256 = (\<lambda>s. replicate 64 CHR ''0''),
     wall = (\<lambda>t zone. Date 2026 8 (nat t)), to_iso = (\<lambda>t. []),
     zoned = (\<lambda>d clock zone. days_of d), similarity = (\<lambda>x y. if x = y then 1 else 0), cls_request = None, cls_actor = None\<rparr>"

definition demo_clerk :: actor where
  "demo_clerk = \<lparr>actor_userId = 1, actor_email = ''clerk'', actor_sessionId = 90\<rparr>"

definition demo_manager :: actor where
  "demo_manager = \<lparr>actor_userId = 2, actor_email = ''manager'', actor_sessionId = 91\<rparr>"

definition demo_base :: "uuid \<Rightarrow> base_row" where
  "demo_base i = \<lparr>row_id = i, createdAt = 1, updatedAt = 1, createdBy = None, updatedBy = None, version = 1\<rparr>"

definition demo_made :: "uuid \<Rightarrow> base_row" where
  "demo_made i = \<lparr>row_id = i, createdAt = 5, updatedAt = 5, createdBy = Some 2, updatedBy = Some 2, version = 1\<rparr>"

definition demo_user :: "uuid \<Rightarrow> string \<Rightarrow> user_row" where
  "demo_user i name = base_row.extend (demo_base i) (user_row.fields name name None AccActive False 0 None None None)"

definition demo_institution :: institution_row where
  "demo_institution = base_row.extend (demo_base 3)
     (institution_row.fields ''Emis'' ''EMIS'' None None None None None None ''ET'' ''#1d4ed8'' En ''ETB''
        ''Africa/Addis_Ababa'' Gregorian ''07-08'' True None)"

definition demo_branch :: branch_row where
  "demo_branch = base_row.extend (demo_base 4) (branch_row.fields ''BOLE'' ''Bole'' None None True)"

definition demo_reason :: descriptor_row where
  "demo_reason = base_row.extend (demo_base 5) (descriptor_row.fields ''discount_reason'' ''promotion'' ''Promotion'' 0 True)"

definition demo_program :: program_row where
  "demo_program = base_row.extend (demo_base 6) (program_row.fields 5 ''ENG'' ''English'' LongCourse [] True 0)"

definition demo_course :: course_row where
  "demo_course = base_row.extend (demo_base 7) (course_row.fields 6 ''A1'' ''Beginner'' 1 None None None None True True 0)"

definition demo_student :: student_row where
  "demo_student = base_row.extend (demo_base 8)
     (student_row.fields ''STU-1'' ''Abeba'' ''Bekele'' None Female None ''0911'' None None None StActive 4 None (JObj []))"

definition demo_cohort :: cohort_row where
  "demo_cohort = base_row.extend (demo_base 11)
     (cohort_row.fields ''A1 morning'' 7 None 9 10 None 4 (Date 2026 8 3) (Date 2026 10 3) 20 Running)"

definition demo_enrollment :: enrollment_row where
  "demo_enrollment = base_row.extend (demo_base 12)
     (enrollment_row.fields 8 11 EnrActive None (Some 1) None None None None None)"

definition demo_fee :: fee_structure_row where
  "demo_fee = base_row.extend (demo_made 13)
     (fee_structure_row.fields ''Standard'' 7 None (Date 2026 1 1) ''ETB''
        [\<lparr>fc_name = ''Tuition'', fc_amount = 200\<rparr>, \<lparr>fc_name = ''Books'', fc_amount = 101\<rparr>] 301 True)"

definition demo_plan :: plan_row where
  "demo_plan = base_row.extend (demo_made 14)
     (plan_row.fields ''Two parts'' [\<lparr>pi_shareBp = 5000, pi_dueOffsetDays = 0\<rparr>, \<lparr>pi_shareBp = 5000, pi_dueOffsetDays = 7\<rparr>]
        True True)"

definition demo_db :: db where
  "demo_db = \<lparr>next_id = 100, audit_log = [], outbox_events = [], idempotency_keys = [], processed_events = [],
     user_accounts = [demo_user 1 ''clerk'', demo_user 2 ''manager''], user_sessions = [], user_totp_factors = [],
     user_recovery_codes = [], password_reset_tokens = [], security_events = [], roles = [], role_permission_rows = [],
     user_role_assignments = [], user_invitations = [],
     institution = [demo_institution], branches = [demo_branch], departments = [], module_settings = [],
     descriptors = [demo_reason], custom_field_definitions = [], number_series = [], number_counters = [],
     programs = [demo_program], courses = [demo_course], course_prerequisites = [], academic_years = [], intakes = [], holidays = [],
     shifts = [], rooms = [], students = [demo_student], student_guardians = [], applications = [],
     cohorts = [demo_cohort], class_sessions = [], enrollments = [demo_enrollment],
     fee_structures = [demo_fee], payment_plans = [demo_plan], invoices = [], installments = [], payments = [],
     payment_allocations = [], receipts = [], discounts = [], approval_requests = [], reminder_log = [],
     certificates = [], student_cards = [], posts = []\<rparr>"

definition demo_grants :: "grant list" where
  "demo_grants = map (\<lambda>p. \<lparr>gr_permission = p, gr_scope = Global\<rparr>)
     [''billing.invoice'', ''billing.receive'', ''billing.request'', ''billing.read'']"

section \<open>A run of billing\<close>

text \<open>
  Each call is evaluated on a state written out in full. What a call leaves in the audit log is not
  looked at: the next call starts from a state with the same billing tables and an empty log.
\<close>

definition demo_empty :: db where
  "demo_empty = demo_db\<lparr>next_id := 13, fee_structures := [], payment_plans := []\<rparr>"

definition demo_priced :: db where
  "demo_priced = demo_db\<lparr>next_id := 14, payment_plans := []\<rparr>"

definition demo_invoice :: invoice_row where
  "demo_invoice = \<lparr>row_id = 100, createdAt = 5, updatedAt = 5, createdBy = Some 1, updatedBy = Some 1, version = 1,
     inv_number = ''INV-2026-000001'', inv_studentId = 8, inv_enrollmentId = Some 12, inv_cohortId = Some 11,
     inv_branchId = 4, inv_currency = ''ETB'', inv_status = Issued,
     inv_lines = [\<lparr>il_description = ''Tuition'', il_amount = 200\<rparr>, \<lparr>il_description = ''Books'', il_amount = 101\<rparr>],
     inv_subtotal = 301, inv_discountTotal = 0, inv_total = 301, inv_paidTotal = 0\<rparr>"

definition demo_installments :: "installment_row list" where
  "demo_installments = [\<lparr>row_id = 101, part_invoiceId = 100, part_sequence = 1, part_dueDate = Date 2026 8 5, part_amount = 150, part_paidAmount = 0\<rparr>,
     \<lparr>row_id = 102, part_invoiceId = 100, part_sequence = 2, part_dueDate = Date 2026 8 12, part_amount = 151, part_paidAmount = 0\<rparr>]"

definition demo_billed :: db where
  "demo_billed = demo_db\<lparr>next_id := 103, invoices := [demo_invoice], installments := demo_installments\<rparr>"

lemma demo_createStructure:
  "\<exists>r d'. createStructure demo_env \<lparr>cfs_name = ''Standard'', cfs_courseId = 7, cfs_categoryCode = None,
       cfs_effectiveFrom = Date 2026 1 1, cfs_components = fs_components demo_fee\<rparr> demo_manager demo_empty = Inr (r, d')
     \<and> fee_structures d' = [demo_fee] \<and> payment_plans d' = [] \<and> next_id d' = 14 \<and> invoices d' = [] \<and> installments d' = []
     \<and> payments d' = [] \<and> payment_allocations d' = [] \<and> receipts d' = [] \<and> discounts d' = [] \<and> approval_requests d' = []"
proof -
  have c: "findWithDepartment 7 demo_empty = Inr (Some (demo_course, 5))" by code_simp
  have i: "institution_row demo_empty = Inr demo_institution" by code_simp
  show ?thesis
    by (simp add: c i createStructure_def take_id_def assertActiveCode_def throwIf_def Let_def)
      (simp add: demo_empty_def demo_db_def demo_fee_def demo_institution_def demo_made_def demo_env_def demo_manager_def
        base_row.defs fee_structure_row.defs institution_row.defs)
qed

lemma demo_createPlan:
  "\<exists>r d'. createPlan demo_env \<lparr>cpl_name = ''Two parts'', cpl_installments = pl_installments demo_plan, cpl_isDefault = True\<rparr>
       demo_manager demo_priced = Inr (r, d')
     \<and> fee_structures d' = [demo_fee] \<and> payment_plans d' = [demo_plan] \<and> next_id d' = 15 \<and> invoices d' = [] \<and> installments d' = []
     \<and> payments d' = [] \<and> payment_allocations d' = [] \<and> receipts d' = [] \<and> discounts d' = [] \<and> approval_requests d' = []"
  by (simp add: createPlan_def take_id_def clearDefault_def Let_def)
    (simp add: demo_priced_def demo_db_def demo_plan_def demo_made_def demo_env_def demo_manager_def base_row.defs plan_row.defs)

lemma demo_createInvoice:
  "\<exists>v d'. createInvoice demo_env \<lparr>ci_enrollmentId = 12, ci_planId = None\<rparr> demo_grants demo_clerk demo_db = Inr (v, d')
     \<and> fee_structures d' = [demo_fee] \<and> payment_plans d' = [demo_plan] \<and> next_id d' = 103 \<and> invoices d' = [demo_invoice]
     \<and> installments d' = demo_installments \<and> payments d' = [] \<and> payment_allocations d' = [] \<and> receipts d' = []
     \<and> discounts d' = [] \<and> approval_requests d' = []"
proof -
  let ?ctx = "\<lparr>bc_enrollmentId = 12, bc_status = EnrActive, bc_studentId = 8, bc_cohortId = 11, bc_courseId = 7,
    bc_branchId = 4, bc_startDate = Date 2026 8 3, bc_completedAt = None\<rparr>"
  let ?rows = "[\<lparr>nc_seriesKey = ''invoice'', nc_scope = ''INV-2026-{SEQ}'', nc_lastValue = 1, nc_updatedAt = 5\<rparr>]"
  let ?parts = "[\<lparr>ni_sequence = 1, ni_dueDate = Date 2026 8 5, ni_amount = 150\<rparr>,
    \<lparr>ni_sequence = 2, ni_dueDate = Date 2026 8 12, ni_amount = 151\<rparr>]"
  have c: "billingContext 12 demo_db = Some ?ctx" by code_simp
  have g: "assertScope demo_grants ''billing.invoice'' (at_branch 4) = Inr ()" by code_simp
  have s: "requireExisting 8 demo_db = Inr demo_student" "st_categoryCode demo_student = None" by code_simp+
  have t: "today demo_env demo_db = Inr (Date 2026 8 5)" by code_simp
  have p: "price_for 7 None (Date 2026 8 3) (Date 2026 8 5) demo_db = Some demo_fee" by code_simp
  have q: "plan_for None demo_db = Inr demo_plan" by code_simp
  have n: "next_number demo_env SeriesInvoice (Some 4) demo_db
      = Inr (\<lparr>issued_number = ''INV-2026-000001'', issued_sequence = 1\<rparr>, demo_db\<lparr>number_counters := ?rows\<rparr>)" by code_simp
  have b: "buildInstallments (fs_total demo_fee) (pl_installments demo_plan) (Date 2026 8 5) = Inr ?parts" by code_simp
  have tables: "invoices demo_db = []" "installments demo_db = []" "next_id demo_db = 100" "payments demo_db = []"
    "payment_allocations demo_db = []" "receipts demo_db = []" "discounts demo_db = []" "approval_requests demo_db = []"
    "fee_structures demo_db = [demo_fee]" "payment_plans demo_db = [demo_plan]" by (simp_all add: demo_db_def)
  have new: "new_invoice demo_env demo_clerk 100 ''INV-2026-000001'' ?ctx demo_fee = demo_invoice"
    by (simp add: new_invoice_def demo_env_def demo_clerk_def demo_invoice_def demo_fee_def demo_made_def
        base_row.defs fee_structure_row.defs)
  have clock: "today demo_env (audit demo_env x y z w d') = today demo_env d'" for x y z w and d' :: db
    by (simp add: today_def localDate_def institution_row_def audit_def record_audit_def)
  have clock2: "today demo_env (demo_db\<lparr>number_counters := x1, next_id := x2, invoices := x3, installments := x4\<rparr>) = Inr (Date 2026 8 5)"
    for x1 x2 x3 x4 using t by (simp add: today_def localDate_def institution_row_def)
  show ?thesis
    by (simp add: createInvoice_def c g s t p q n b tables storeInvoice_def take_id_def new insertInstallments_def
        viewInvoice_def invoice_row_def clock throwIf_def Let_def)
      (simp add: demo_invoice_def demo_installments_def today_def localDate_def institution_row_def demo_db_def demo_env_def
        demo_institution_def)
qed

definition demo_payment :: payment_row where
  "demo_payment = \<lparr>row_id = 103, createdAt = 5, updatedAt = 5, createdBy = Some 1, updatedBy = Some 1, version = 1,
     pay_invoiceId = 100, pay_studentId = 8, pay_branchId = 4, pay_providerKey = ''manual'', pay_method = Cash,
     pay_reference = None, pay_amount = 200, pay_currency = ''ETB'', pay_status = Posted, pay_receivedBy = Some 1,
     pay_receivedAt = 5, pay_voidedAt = None\<rparr>"

definition demo_paid_invoice :: invoice_row where
  "demo_paid_invoice = demo_invoice\<lparr>inv_paidTotal := 200, inv_status := PartiallyPaid, version := 2\<rparr>"

definition demo_paid_installments :: "installment_row list" where
  "demo_paid_installments = [\<lparr>row_id = 101, part_invoiceId = 100, part_sequence = 1, part_dueDate = Date 2026 8 5, part_amount = 150, part_paidAmount = 150\<rparr>,
     \<lparr>row_id = 102, part_invoiceId = 100, part_sequence = 2, part_dueDate = Date 2026 8 12, part_amount = 151, part_paidAmount = 50\<rparr>]"

definition demo_cash :: record_payment where
  "demo_cash = \<lparr>rp_invoiceId = 100, rp_amount = 200, rp_method = Cash, rp_reference = None\<rparr>"

definition demo_receipt :: receipt_row where
  "demo_receipt = \<lparr>row_id = 104, rc_paymentId = 103, rc_number = ''RCP-BOLE-2026-000001'', rc_branchId = 4,
     rc_status = RcIssued, rc_issuedAt = 5, rc_voidedAt = None\<rparr>"

definition demo_allocations :: "allocation_row list" where
  "demo_allocations = [\<lparr>al_paymentId = 103, al_installmentId = 101, al_amount = 150\<rparr>,
     \<lparr>al_paymentId = 103, al_installmentId = 102, al_amount = 50\<rparr>]"

definition demo_paid :: db where
  "demo_paid = demo_billed\<lparr>next_id := 105, invoices := [demo_paid_invoice], installments := demo_paid_installments,
     payments := [demo_payment], payment_allocations := demo_allocations, receipts := [demo_receipt]\<rparr>"

lemma demo_recordPayment:
  "\<exists>v d'. recordPayment demo_env defaultProviders demo_cash demo_grants demo_clerk ''manual'' demo_billed = Inr (v, d')
     \<and> pvw_id v = 103
     \<and> fee_structures d' = [demo_fee] \<and> payment_plans d' = [demo_plan] \<and> next_id d' = 105 \<and> invoices d' = [demo_paid_invoice]
     \<and> installments d' = demo_paid_installments \<and> payments d' = [demo_payment] \<and> payment_allocations d' = demo_allocations
     \<and> receipts d' = [demo_receipt] \<and> discounts d' = [] \<and> approval_requests d' = []"
proof -
  let ?rows = "[\<lparr>nc_seriesKey = ''receipt'', nc_scope = ''RCP-BOLE-2026-{SEQ}'', nc_lastValue = 1, nc_updatedAt = 5\<rparr>]"
  let ?stored = "demo_billed\<lparr>next_id := 104, payments := [demo_payment], payment_allocations := demo_allocations,
    installments := demo_paid_installments\<rparr>"
  let ?settled = "?stored\<lparr>invoices := [demo_paid_invoice]\<rparr>"
  define dn where "dn = ?settled\<lparr>number_counters := ?rows, next_id := 105, receipts := [demo_receipt]\<rparr>"
  have p: "find_provider defaultProviders ''manual'' = Some manualProvider" "rp_method demo_cash \<in> set (pv_methods manualProvider)"
    by code_simp+
  have l: "lock (rp_invoiceId demo_cash) demo_billed = Inr demo_invoice" by code_simp
  have g: "assertScope demo_grants ''billing.receive'' (at_branch (inv_branchId demo_invoice)) = Inr ()" by code_simp
  have al: "allocatePayment (installmentsOf (row_id demo_invoice) demo_billed) (rp_amount demo_cash) = ([(101, 150), (102, 50)], 0)"
    by code_simp
  have st: "storePayment demo_env demo_clerk manualProvider demo_cash demo_invoice [(101, 150), (102, 50)] demo_billed = (103, ?stored)"
    by code_simp
  have se: "settle demo_env (row_id demo_invoice) demo_clerk ?stored = Inr ?settled" by code_simp
  have re: "issueReceipt demo_env 103 (inv_branchId demo_invoice) ?settled = Inr (''RCP-BOLE-2026-000001'', dn)" unfolding dn_def by code_simp
  have view: "\<exists>v. presentPayment 103 (audit demo_env x y z w dn) = Some v \<and> pvw_id v = 103" for x y z w
    by (simp add: presentPayment_def audit_def record_audit_def)
      (simp add: dn_def demo_billed_def demo_db_def demo_payment_def demo_paid_invoice_def demo_invoice_def demo_receipt_def
        demo_student_def demo_base_def base_row.defs student_row.defs)
  obtain v where v: "presentPayment 103 (audit demo_env ''payment.recorded'' ''payment'' (JUuid 103)
      [(''receiptNumber'', JStr ''RCP-BOLE-2026-000001''), (''invoiceNumber'', JStr (inv_number demo_invoice)),
       (''amount'', JInt (rp_amount demo_cash)), (''method'', JStr (method_name (rp_method demo_cash))),
       (''provider'', JStr (pv_key manualProvider))] dn) = Some v" "pvw_id v = 103" using view by blast
  have status: "inv_status demo_invoice = Issued" by (simp add: demo_invoice_def)
  have tables: "fee_structures dn = [demo_fee]" "payment_plans dn = [demo_plan]" "discounts dn = []"
    "approval_requests dn = []" "next_id dn = 105" "invoices dn = [demo_paid_invoice]" "installments dn = demo_paid_installments"
    "payments dn = [demo_payment]" "payment_allocations dn = demo_allocations" "receipts dn = [demo_receipt]"
    by (simp_all add: dn_def demo_billed_def demo_db_def)
  show ?thesis
    by (simp add: recordPayment_def p l g al st se re status viewPayment_def Let_def v tables)
qed

lemma demo_voidPayment:
  "\<exists>d'. voidPayment demo_env 103 200 demo_manager demo_paid = Inr d' \<and> installments d' = demo_installments"
proof -
  obtain d' where "settle demo_env 100 demo_manager (reversePayment demo_env demo_manager demo_payment demo_paid) = Inr d'"
    "installments d' = demo_installments" by (rule that) code_simp+
  moreover have "payment_row 103 demo_paid = Inr demo_payment" "lock 100 demo_paid = Inr demo_paid_invoice" by code_simp+
  moreover have "pay_invoiceId demo_payment = 100" "pay_status demo_payment = Posted" "row_id demo_paid_invoice = 100"
    by (simp_all add: demo_payment_def demo_paid_invoice_def demo_invoice_def)
  ultimately show ?thesis by (simp add: voidPayment_def)
qed

section \<open>The run is a run of the machine\<close>

lemma demo_reachable: "billing_reachable demo_db" "billing_reachable demo_billed" "billing_reachable demo_paid"
proof -
  have empty: "billing_reachable demo_empty"
    by (rule billing_reachable.installed) (simp_all add: demo_empty_def demo_db_def)
  obtain r1 d1 where s1: "createStructure demo_env \<lparr>cfs_name = ''Standard'', cfs_courseId = 7, cfs_categoryCode = None,
       cfs_effectiveFrom = Date 2026 1 1, cfs_components = fs_components demo_fee\<rparr> demo_manager demo_empty = Inr (r1, d1)"
    and t1: "fee_structures d1 = [demo_fee]" "payment_plans d1 = []" "next_id d1 = 14" "invoices d1 = []" "installments d1 = []"
     "payments d1 = []" "payment_allocations d1 = []" "receipts d1 = []" "discounts d1 = []" "approval_requests d1 = []"
    using demo_createStructure by blast
  have "billing_reachable d1" by (rule billing_reachable.stepped[OF empty billing_step.structure_created[OF s1]]) code_simp
  then have priced: "billing_reachable demo_priced"
    by (rule billing_reachable.stepped) (rule billing_step.elsewhere; simp add: t1 demo_priced_def demo_db_def)
  obtain r2 d2 where s2: "createPlan demo_env \<lparr>cpl_name = ''Two parts'', cpl_installments = pl_installments demo_plan, cpl_isDefault = True\<rparr>
       demo_manager demo_priced = Inr (r2, d2)"
    and t2: "fee_structures d2 = [demo_fee]" "payment_plans d2 = [demo_plan]" "next_id d2 = 15" "invoices d2 = []" "installments d2 = []"
     "payments d2 = []" "payment_allocations d2 = []" "receipts d2 = []" "discounts d2 = []" "approval_requests d2 = []"
    using demo_createPlan by blast
  have "billing_reachable d2" by (rule billing_reachable.stepped[OF priced billing_step.plan_created[OF s2]]) code_simp
  then show db: "billing_reachable demo_db"
    by (rule billing_reachable.stepped) (rule billing_step.elsewhere; simp add: t2 demo_db_def)
  obtain r3 d3 where s3: "createInvoice demo_env \<lparr>ci_enrollmentId = 12, ci_planId = None\<rparr> demo_grants demo_clerk demo_db = Inr (r3, d3)"
    and t3: "fee_structures d3 = [demo_fee]" "payment_plans d3 = [demo_plan]" "next_id d3 = 103" "invoices d3 = [demo_invoice]"
     "installments d3 = demo_installments" "payments d3 = []" "payment_allocations d3 = []" "receipts d3 = []"
     "discounts d3 = []" "approval_requests d3 = []"
    using demo_createInvoice by blast
  have "billing_reachable d3" by (rule billing_reachable.stepped[OF db billing_step.invoiced[OF s3]])
  then show billed: "billing_reachable demo_billed"
    by (rule billing_reachable.stepped) (rule billing_step.elsewhere; simp add: t3 demo_billed_def demo_db_def)
  obtain r4 d4 where s4: "recordPayment demo_env defaultProviders demo_cash demo_grants demo_clerk ''manual'' demo_billed = Inr (r4, d4)"
    and t4: "fee_structures d4 = [demo_fee]" "payment_plans d4 = [demo_plan]" "next_id d4 = 105" "invoices d4 = [demo_paid_invoice]"
     "installments d4 = demo_paid_installments" "payments d4 = [demo_payment]" "payment_allocations d4 = demo_allocations"
     "receipts d4 = [demo_receipt]" "discounts d4 = []" "approval_requests d4 = []"
    using demo_recordPayment by blast
  have "billing_reachable d4" by (rule billing_reachable.stepped[OF billed billing_step.paid[OF s4]]) code_simp
  then show "billing_reachable demo_paid"
    by (rule billing_reachable.stepped)
      (rule billing_step.elsewhere; simp add: t4 demo_paid_def demo_billed_def demo_db_def)
qed

section \<open>A discount, asked for and approved\<close>

definition demo_request :: approval_row where
  "demo_request = \<lparr>row_id = 103, createdAt = 5, updatedAt = 5, createdBy = Some 1, updatedBy = Some 1, version = 1,
     ap_type = ApDiscount, ap_status = Pending, ap_subjectId = 100,
     ap_payload = DiscountRequest Fixed 51 ''promotion'' [],
     ap_summary = ''ETB 0.51 off invoice INV-2026-000001 (ETB 0.51)'', ap_reason = ''promotion'',
     ap_requestedBy = 1, ap_decidedBy = None, ap_decisionNote = None, ap_decidedAt = None\<rparr>"

definition demo_requested :: db where
  "demo_requested = demo_billed\<lparr>next_id := 104, approval_requests := [demo_request]\<rparr>"

lemma demo_requestDiscount:
  "\<exists>v d'. requestDiscount demo_env 100 \<lparr>rd_kind = Fixed, rd_value = 51, rd_reasonCode = ''promotion'', rd_note = []\<rparr>
       demo_grants demo_clerk demo_billed = Inr (v, d')
     \<and> fee_structures d' = [demo_fee] \<and> payment_plans d' = [demo_plan] \<and> next_id d' = 104 \<and> invoices d' = [demo_invoice]
     \<and> installments d' = demo_installments \<and> payments d' = [] \<and> payment_allocations d' = [] \<and> receipts d' = []
     \<and> discounts d' = [] \<and> approval_requests d' = [demo_request]"
proof -
  let ?inp = "\<lparr>rd_kind = Fixed, rd_value = 51, rd_reasonCode = ''promotion'', rd_note = []\<rparr>"
  have r: "invoice_row 100 demo_billed = Inr demo_invoice" by code_simp
  have g: "assertScope demo_grants ''billing.request'' (at_branch (inv_branchId demo_invoice)) = Inr ()" by code_simp
  have c: "assertActiveCode ''discount_reason'' (Some ''promotion'') demo_billed = Inr ()" by code_simp
  have s: "discount_summary demo_env ?inp demo_invoice 51 = ''ETB 0.51 off invoice INV-2026-000001 (ETB 0.51)''" by code_simp
  have i: "inv_status demo_invoice = Issued" "inv_total demo_invoice = 301" "inv_paidTotal demo_invoice = 0"
    by (simp_all add: demo_invoice_def)
  have tables: "fee_structures demo_billed = [demo_fee]" "payment_plans demo_billed = [demo_plan]" "discounts demo_billed = []"
    "approval_requests demo_billed = []" "next_id demo_billed = 103" "invoices demo_billed = [demo_invoice]"
    "installments demo_billed = demo_installments" "payments demo_billed = []" "payment_allocations demo_billed = []"
    "receipts demo_billed = []" "user_accounts demo_billed = [demo_user 1 ''clerk'', demo_user 2 ''manager'']"
    by (simp_all add: demo_billed_def demo_db_def)
  have users: "user_accounts (audit e x y z w d) = user_accounts d" for e x y z w and d :: db
    by (simp add: audit_def record_audit_def)
  have u: "row_id (demo_user j n) = j" for j n by (simp add: demo_user_def demo_base_def base_row.defs user_row.defs)
  show ?thesis
    by (simp add: requestDiscount_def r g c s i createApproval_def take_id_def tables Let_def presentApproval_def users u
        throwIf_def demo_clerk_def)
      (simp add: demo_request_def demo_env_def)
qed

lemma demo_requested_reachable: "billing_reachable demo_requested"
proof -
  obtain r d1 where s: "requestDiscount demo_env 100 \<lparr>rd_kind = Fixed, rd_value = 51, rd_reasonCode = ''promotion'', rd_note = []\<rparr>
       demo_grants demo_clerk demo_billed = Inr (r, d1)"
    and t: "fee_structures d1 = [demo_fee]" "payment_plans d1 = [demo_plan]" "next_id d1 = 104" "invoices d1 = [demo_invoice]"
     "installments d1 = demo_installments" "payments d1 = []" "payment_allocations d1 = []" "receipts d1 = []"
     "discounts d1 = []" "approval_requests d1 = [demo_request]"
    using demo_requestDiscount by blast
  have "billing_reachable d1"
    by (rule billing_reachable.stepped[OF demo_reachable(2) billing_step.discount_requested[OF s]]) code_simp
  then show ?thesis
    by (rule billing_reachable.stepped)
      (rule billing_step.elsewhere; simp add: t demo_requested_def demo_billed_def demo_db_def)
qed

end
