(* ===== verification/Prerequisites.thy ===== *)
theory Prerequisites
  imports Lookups "HOL-Library.AList"
begin

text \<open>
  The prerequisites of courses as a graph (\<open>catalog/domain/prerequisites.ts\<close>): the search that
  refuses a loop, what it decides, and what a graph without loops gives: an order in which the
  courses can be taken.
\<close>

section \<open>The graph and the search\<close>

text \<open>A \<open>Map\<close> from a course to the courses it requires.\<close>

type_synonym prerequisite_graph = "(uuid \<times> uuid list) list"

definition edges_of :: "prerequisite_graph \<Rightarrow> uuid \<Rightarrow> uuid list" where
  "edges_of g i = (case map_of g i of None \<Rightarrow> [] | Some is \<Rightarrow> is)"

text \<open>
  The loop of \<open>wouldCreateCycle\<close>. \<open>stack.pop()\<close> takes the last element, \<open>stack.push(...)\<close> appends.
\<close>

lemma remaining_keys:
  assumes "i \<notin> set seen" "i \<in> fst ` set g"
  shows "card (fst ` set g - set (i # seen)) < card (fst ` set g - set seen)"
proof (rule psubset_card_mono)
  show "fst ` set g - set (i # seen) \<subset> fst ` set g - set seen" using assms by auto
qed simp

lemma edges_of_no_key: "i \<notin> fst ` set g \<Longrightarrow> edges_of g i = []"
  by (simp add: edges_of_def map_of_eq_None_iff[symmetric])

function cycle_search :: "prerequisite_graph \<Rightarrow> uuid \<Rightarrow> uuid list \<Rightarrow> uuid list \<Rightarrow> bool" where
  "cycle_search existing courseId seen stack =
     (if stack = [] then False
      else let current = last stack; rest = butlast stack in
        if current = courseId then True
        else if current \<in> set seen then cycle_search existing courseId seen rest
        else cycle_search existing courseId (current # seen) (rest @ edges_of existing current))"
  by auto
termination
proof (relation "measures [\<lambda>(g, c, seen, stack). card (fst ` set g - set seen), \<lambda>(g, c, seen, stack). length stack]", goal_cases)
  case (3 g c seen stack current rest)
  then show ?case
    using remaining_keys[of "last stack" seen g]
    by (cases "last stack \<in> fst ` set g") (auto simp: edges_of_no_key Diff_insert0)
qed auto

declare cycle_search.simps [simp del]

definition wouldCreateCycle :: "prerequisite_graph \<Rightarrow> uuid \<Rightarrow> uuid list \<Rightarrow> bool" where
  "wouldCreateCycle existing courseId newPrerequisites = cycle_search existing courseId [] newPrerequisites"

section \<open>What the search decides\<close>

definition graph_rel :: "prerequisite_graph \<Rightarrow> (uuid \<times> uuid) set" where
  "graph_rel g = {(a, b). b \<in> set (edges_of g a)}"

lemma cycle_search_found:
  "cycle_search g c seen stack \<Longrightarrow> \<exists>s \<in> set stack. (s, c) \<in> (graph_rel g)\<^sup>*"
proof (induction g c seen stack rule: cycle_search.induct)
  case (1 g c seen stack)
  then have stack: "stack \<noteq> []" by (auto simp: cycle_search.simps)
  then have parts: "last stack \<in> set stack" "set (butlast stack) \<subseteq> set stack" by (auto dest: in_set_butlastD)
  consider "last stack = c" | "last stack \<noteq> c" "last stack \<in> set seen" | "last stack \<noteq> c" "last stack \<notin> set seen" by blast
  then show ?case
  proof cases
    case 1
    then show ?thesis using parts by auto
  next
    case 2
    then have "cycle_search g c seen (butlast stack)"
      using "1.prems" stack by (subst (asm) cycle_search.simps) (simp add: Let_def)
    with 2 stack "1.IH"(1) parts show ?thesis by blast
  next
    case 3
    then have "cycle_search g c (last stack # seen) (butlast stack @ edges_of g (last stack))"
      using "1.prems" stack by (subst (asm) cycle_search.simps) (simp add: Let_def)
    with 3 stack "1.IH"(2) obtain s where s: "s \<in> set (butlast stack @ edges_of g (last stack))" "(s, c) \<in> (graph_rel g)\<^sup>*"
      by blast
    show ?thesis
    proof (cases "s \<in> set (butlast stack)")
      case True
      with s parts show ?thesis by blast
    next
      case False
      then have "(last stack, s) \<in> graph_rel g" using s(1) by (simp add: graph_rel_def)
      with s(2) parts(1) show ?thesis by (meson converse_rtrancl_into_rtrancl)
    qed
  qed
qed

text \<open>What has been seen is closed: its prerequisites have been seen or are on the stack.\<close>

lemma cycle_search_not_found:
  assumes "\<not> cycle_search g c seen stack" "c \<notin> set seen"
    and "\<And>s t. s \<in> set seen \<Longrightarrow> (s, t) \<in> graph_rel g \<Longrightarrow> t \<in> set seen \<union> set stack"
  shows "\<exists>closed. set seen \<union> set stack \<subseteq> closed \<and> c \<notin> closed \<and> (\<forall>s t. s \<in> closed \<longrightarrow> (s, t) \<in> graph_rel g \<longrightarrow> t \<in> closed)"
  using assms
proof (induction g c seen stack rule: cycle_search.induct)
  case (1 g c seen stack)
  show ?case
  proof (cases "stack = []")
    case True
    with "1.prems" show ?thesis by (intro exI[of _ "set seen"]) auto
  next
    case False
    let ?x = "last stack" and ?rest = "butlast stack"
    have stack: "set stack = insert ?x (set ?rest)" using False by (metis append_butlast_last_id list.simps(15) rotate1.simps(2) set_rotate1)
    have ne: "?x \<noteq> c" using "1.prems"(1) False by (subst (asm) cycle_search.simps) (auto simp: Let_def)
    show ?thesis
    proof (cases "?x \<in> set seen")
      case True
      then have "\<not> cycle_search g c seen ?rest"
        using "1.prems"(1) False ne by (subst (asm) cycle_search.simps) (simp add: Let_def)
      moreover have "t \<in> set seen \<union> set ?rest" if "s \<in> set seen" "(s, t) \<in> graph_rel g" for s t
        using "1.prems"(3)[OF that] stack True by auto
      ultimately obtain closed where "set seen \<union> set ?rest \<subseteq> closed" "c \<notin> closed"
        "\<forall>s t. s \<in> closed \<longrightarrow> (s, t) \<in> graph_rel g \<longrightarrow> t \<in> closed"
        using "1.IH"(1)[OF False refl refl ne True] "1.prems"(2) by blast
      then show ?thesis using stack True by (intro exI[of _ closed]) auto
    next
      case new: False
      then have "\<not> cycle_search g c (?x # seen) (?rest @ edges_of g ?x)"
        using "1.prems"(1) False ne by (subst (asm) cycle_search.simps) (simp add: Let_def)
      moreover have "t \<in> set (?x # seen) \<union> set (?rest @ edges_of g ?x)" if "s \<in> set (?x # seen)" "(s, t) \<in> graph_rel g" for s t
        using "1.prems"(3)[of s t] that stack by (auto simp: graph_rel_def)
      moreover have "c \<notin> set (?x # seen)" using ne "1.prems"(2) by auto
      ultimately obtain closed where "set (?x # seen) \<union> set (?rest @ edges_of g ?x) \<subseteq> closed" "c \<notin> closed"
        "\<forall>s t. s \<in> closed \<longrightarrow> (s, t) \<in> graph_rel g \<longrightarrow> t \<in> closed"
        using "1.IH"(2)[OF False refl refl ne new] by blast
      then show ?thesis using stack by (intro exI[of _ closed]) auto
    qed
  qed
qed

lemma wouldCreateCycle_iff:
  "wouldCreateCycle g c ps \<longleftrightarrow> (\<exists>p \<in> set ps. (p, c) \<in> (graph_rel g)\<^sup>*)"
proof
  assume "\<exists>p \<in> set ps. (p, c) \<in> (graph_rel g)\<^sup>*"
  then obtain p where p: "p \<in> set ps" "(p, c) \<in> (graph_rel g)\<^sup>*" by blast
  show "wouldCreateCycle g c ps"
  proof (rule ccontr)
    assume "\<not> wouldCreateCycle g c ps"
    then obtain closed where closed: "set ps \<subseteq> closed" "c \<notin> closed" "\<forall>s t. s \<in> closed \<longrightarrow> (s, t) \<in> graph_rel g \<longrightarrow> t \<in> closed"
      using cycle_search_not_found[of g c "[]" ps] by (auto simp: wouldCreateCycle_def)
    have "s \<in> closed" if "(p, s) \<in> (graph_rel g)\<^sup>*" for s
      using that by induction (use p(1) closed in auto)
    with p(2) closed(2) show False by blast
  qed
qed (auto simp: wouldCreateCycle_def dest: cycle_search_found)

text \<open>The course's own edges do not matter: the search stops when it reaches the course.\<close>

lemma rtrancl_first_reach:
  "(p, c) \<in> r\<^sup>* \<Longrightarrow> (p, c) \<in> {(a, b) \<in> r. a \<noteq> c}\<^sup>*"
proof (induction rule: converse_rtrancl_induct)
  case (step y z)
  then show ?case by (cases "y = c") (auto intro: converse_rtrancl_into_rtrancl)
qed simp

section \<open>Acyclic graphs\<close>

text \<open>Replacing what leaves \<open>c\<close> by edges to \<open>ps\<close> makes a loop exactly when some \<open>p\<close> leads back to \<open>c\<close>.\<close>

lemma acyclic_replace:
  assumes "acyclic r" "\<And>p. p \<in> ps \<Longrightarrow> (p, c) \<notin> r\<^sup>*"
  shows "acyclic ({(a, b) \<in> r. a \<noteq> c} \<union> {c} \<times> ps)" (is "acyclic (?r \<union> ?new)")
proof -
  have no_way: "(p, c) \<notin> ?r\<^sup>*" if "p \<in> ps" for p
    using assms(2)[OF that] rtrancl_mono[of ?r r] by auto
  have out: "(a, b) \<in> ?r\<^sup>+ \<or> (a, c) \<in> ?r\<^sup>* \<and> (\<exists>p \<in> ps. (p, b) \<in> ?r\<^sup>*)" if "(a, b) \<in> (?r \<union> ?new)\<^sup>+" for a b
    using that
  proof induction
    case (step b d)
    then show ?case
      by (elim disjE UnE) (auto intro: trancl_into_trancl rtrancl_into_rtrancl trancl_into_rtrancl dest: no_way)
  qed (auto)
  show ?thesis
  proof (rule acyclicI, intro allI notI)
    fix x assume "(x, x) \<in> (?r \<union> ?new)\<^sup>+"
    from out[OF this] show False
    proof
      assume "(x, x) \<in> ?r\<^sup>+"
      then have "(x, x) \<in> r\<^sup>+" by (rule trancl_mono) auto
      with assms(1) show False by (simp add: acyclic_def)
    next
      assume "(x, c) \<in> ?r\<^sup>* \<and> (\<exists>p \<in> ps. (p, x) \<in> ?r\<^sup>*)"
      then show False using no_way by (meson rtrancl_trans)
    qed
  qed
qed

text \<open>An order in which everything comes after what it requires.\<close>

lemma acyclic_order:
  assumes "acyclic r" "finite A"
  shows "\<exists>xs. set xs = A \<and> distinct xs \<and> (\<forall>i j. i < length xs \<longrightarrow> j < length xs \<longrightarrow> (xs ! i, xs ! j) \<in> r \<longrightarrow> j < i)"
  using assms(2)
proof (induction "card A" arbitrary: A)
  case 0
  then show ?case by (intro exI[of _ "[]"]) auto
next
  case (Suc n)
  have "acyclic (Restr r A)" using assms(1) by (rule acyclic_subset) auto
  moreover have "finite (Restr r A)" using Suc.prems by auto
  ultimately have "wf (Restr r A)" by (simp add: finite_acyclic_wf)
  moreover have "A \<noteq> {}" using Suc.hyps(2) by auto
  ultimately have "\<exists>z \<in> A. \<forall>y. (y, z) \<in> Restr r A \<longrightarrow> y \<notin> A" by (meson ex_in_conv wfE_min)
  then obtain z where z: "z \<in> A" "\<And>y. y \<in> A \<Longrightarrow> (y, z) \<notin> r" by auto
  have "n = card (A - {z})" using Suc.hyps(2) z(1) Suc.prems by simp
  from Suc.hyps(1)[OF this] Suc.prems obtain xs where xs: "set xs = A - {z}" "distinct xs"
    "\<forall>i j. i < length xs \<longrightarrow> j < length xs \<longrightarrow> (xs ! i, xs ! j) \<in> r \<longrightarrow> j < i" by auto
  have "(xs ! i, z) \<notin> r" if "i < length xs" for i
    using z(2) xs(1) nth_mem[OF that] by blast
  moreover have "(z, z) \<notin> r" using assms(1) by (auto simp: acyclic_def)
  ultimately have "\<forall>i j. i < length (xs @ [z]) \<longrightarrow> j < length (xs @ [z]) \<longrightarrow> ((xs @ [z]) ! i, (xs @ [z]) ! j) \<in> r \<longrightarrow> j < i"
    using xs(3) by (auto simp: nth_append less_Suc_eq)
  then show ?case using xs z(1) by (intro exI[of _ "xs @ [z]"]) auto
qed

end
