(* ===== verification/Catalog.thy ===== *)
theory Catalog
  imports Prerequisites
begin

text \<open>
  What is taught and where (\<open>catalog/application\<close>): programs under departments, courses inside
  programs with their prerequisites, shifts and rooms. A \<open>time\<close> column is the text Postgres returns,
  \<open>17:00:00\<close>; the API speaks \<open>17:00\<close>. The lemmas at the end are about the prerequisites a
  change of the catalog leaves: inside one program and without loops.
\<close>

section \<open>Programs (\<open>programs.service.ts\<close>)\<close>

record create_program =
  cpr_departmentId :: uuid
  cpr_code :: string
  cpr_name :: string
  cpr_type :: program_type
  cpr_description :: string
  cpr_sortOrder :: int

definition createProgram :: "env \<Rightarrow> create_program \<Rightarrow> grant list \<Rightarrow> actor \<Rightarrow> 'a catalog_db_scheme
    \<Rightarrow> app_error + (program_row \<times> 'a catalog_db_scheme)" where
  "createProgram e inp grants a d =
     bindE (assertScope grants ''catalog.manage'' (at_department (cpr_departmentId inp))) (\<lambda>_.
     bindE (throwIf (\<not> isActiveUnit (Department (cpr_departmentId inp)) d) (Catalog CatalogDepartmentNotFound)) (\<lambda>_.
     case take_id d of (i, d1) \<Rightarrow>
     let row = \<lparr>row_id = i, createdAt = now e, updatedAt = now e,
                createdBy = Some (actor_userId a), updatedBy = Some (actor_userId a), version = 1,
                prog_departmentId = cpr_departmentId inp, prog_code = cpr_code inp, prog_name = cpr_name inp,
                prog_type = cpr_type inp, prog_description = cpr_description inp, prog_isPublished = False,
                prog_sortOrder = cpr_sortOrder inp\<rparr> in
     bindE (insert_unless (\<lambda>r. prog_code r = prog_code row) (Catalog (CatalogCodeTaken ''program'')) row (programs d1)) (\<lambda>rows.
     Inr (row, audit e ''program.created'' ''program'' (JUuid i)
       [(''code'', JStr (prog_code row)), (''name'', JStr (prog_name row)), (''departmentId'', JUuid (prog_departmentId row))]
       (d1\<lparr>programs := rows\<rparr>)))))"

record update_program =
  upr_name :: "string option"
  upr_description :: "string option"
  upr_sortOrder :: "int option"
  upr_isPublished :: "bool option"

definition apply_program_update :: "update_program \<Rightarrow> actor \<Rightarrow> program_row \<Rightarrow> program_row" where
  "apply_program_update inp a r = r\<lparr>prog_name := override (upr_name inp) (prog_name r),
     prog_description := override (upr_description inp) (prog_description r),
     prog_sortOrder := override (upr_sortOrder inp) (prog_sortOrder r),
     prog_isPublished := override (upr_isPublished inp) (prog_isPublished r),
     updatedBy := Some (actor_userId a)\<rparr>"

definition updateProgram :: "env \<Rightarrow> uuid \<Rightarrow> update_program \<Rightarrow> int \<Rightarrow> grant list \<Rightarrow> actor \<Rightarrow> 'a catalog_db_scheme
    \<Rightarrow> app_error + (program_row \<times> 'a catalog_db_scheme)" where
  "updateProgram e i inp expectedVersion grants a d =
     bindE (program_row i d) (\<lambda>before.
     bindE (assertScope grants ''catalog.manage'' (at_department (prog_departmentId before))) (\<lambda>_.
     case updateWithVersion e (apply_program_update inp a) i expectedVersion (programs d) of (result, rows) \<Rightarrow>
     bindE (versionedRow (Catalog ProgramNotFound) result) (\<lambda>row.
     Inr (row, audit e ''program.updated'' ''program'' (JUuid i)
       ((''code'', JStr (prog_code before)) #
        diffChanges [(''name'', JStr (prog_name before)), (''description'', JStr (prog_description before)),
                     (''sortOrder'', JInt (prog_sortOrder before)), (''isPublished'', JBool (prog_isPublished before))]
                    [(''name'', map_option JStr (upr_name inp)), (''description'', map_option JStr (upr_description inp)),
                     (''sortOrder'', map_option JInt (upr_sortOrder inp)), (''isPublished'', map_option JBool (upr_isPublished inp))])
       (d\<lparr>programs := rows\<rparr>)))))"

section \<open>Courses (\<open>courses.service.ts\<close>)\<close>

definition prerequisitesOf :: "uuid \<Rightarrow> 'a catalog_db_scheme \<Rightarrow> uuid list" where
  "prerequisitesOf i d = map pre_prerequisiteCourseId (filter (\<lambda>p. pre_courseId p = i) (course_prerequisites d))"

record create_course =
  ccr_programId :: uuid
  ccr_code :: string
  ccr_name :: string
  ccr_levelOrder :: int
  ccr_durationWeeks :: "int option"
  ccr_totalHours :: "int option"
  ccr_minAttendancePercent :: "int option"
  ccr_minScore :: "rat option"
  ccr_certificateEligible :: bool
  ccr_sortOrder :: int

definition program_or_missing :: "uuid \<Rightarrow> 'a catalog_db_scheme \<Rightarrow> app_error + program_row" where
  "program_or_missing i d = (case program_row i d of Inl _ \<Rightarrow> Inl (Catalog ProgramMissing) | Inr p \<Rightarrow> Inr p)"

definition createCourse :: "env \<Rightarrow> create_course \<Rightarrow> grant list \<Rightarrow> actor \<Rightarrow> 'a catalog_db_scheme
    \<Rightarrow> app_error + (course_row \<times> 'a catalog_db_scheme)" where
  "createCourse e inp grants a d =
     bindE (program_or_missing (ccr_programId inp) d) (\<lambda>program.
     bindE (assertScope grants ''catalog.manage'' (at_department (prog_departmentId program))) (\<lambda>_.
     case take_id d of (i, d1) \<Rightarrow>
     let row = \<lparr>row_id = i, createdAt = now e, updatedAt = now e,
                createdBy = Some (actor_userId a), updatedBy = Some (actor_userId a), version = 1,
                crs_programId = ccr_programId inp, crs_code = ccr_code inp, crs_name = ccr_name inp,
                crs_levelOrder = ccr_levelOrder inp, crs_durationWeeks = ccr_durationWeeks inp,
                crs_totalHours = ccr_totalHours inp, crs_minAttendancePercent = ccr_minAttendancePercent inp,
                crs_minScore = ccr_minScore inp, crs_certificateEligible = ccr_certificateEligible inp,
                crs_isActive = True, crs_sortOrder = ccr_sortOrder inp\<rparr> in
     bindE (insert_unless (\<lambda>r. crs_programId r = crs_programId row \<and> crs_code r = crs_code row)
              (Catalog (CatalogCodeTaken ''course in this program'')) row (courses d1)) (\<lambda>rows.
     Inr (row, audit e ''course.created'' ''course'' (JUuid i)
       [(''code'', JStr (crs_code row)), (''name'', JStr (crs_name row)), (''programId'', JUuid (crs_programId row))]
       (d1\<lparr>courses := rows\<rparr>)))))"

record update_course =
  ucr_name :: "string option"
  ucr_levelOrder :: "int option"
  ucr_durationWeeks :: "int option option"
  ucr_totalHours :: "int option option"
  ucr_minAttendancePercent :: "int option option"
  ucr_minScore :: "rat option option"
  ucr_certificateEligible :: "bool option"
  ucr_sortOrder :: "int option"
  ucr_isActive :: "bool option"

definition apply_course_update :: "update_course \<Rightarrow> actor \<Rightarrow> course_row \<Rightarrow> course_row" where
  "apply_course_update inp a r = r\<lparr>crs_name := override (ucr_name inp) (crs_name r),
     crs_levelOrder := override (ucr_levelOrder inp) (crs_levelOrder r),
     crs_durationWeeks := override (ucr_durationWeeks inp) (crs_durationWeeks r),
     crs_totalHours := override (ucr_totalHours inp) (crs_totalHours r),
     crs_minAttendancePercent := override (ucr_minAttendancePercent inp) (crs_minAttendancePercent r),
     crs_minScore := override (ucr_minScore inp) (crs_minScore r),
     crs_certificateEligible := override (ucr_certificateEligible inp) (crs_certificateEligible r),
     crs_sortOrder := override (ucr_sortOrder inp) (crs_sortOrder r),
     crs_isActive := override (ucr_isActive inp) (crs_isActive r),
     updatedBy := Some (actor_userId a)\<rparr>"

definition course_diff :: "update_course \<Rightarrow> course_row \<Rightarrow> (string \<times> json) list" where
  "course_diff inp before = diffChanges
     [(''name'', JStr (crs_name before)), (''levelOrder'', JInt (crs_levelOrder before)),
      (''durationWeeks'', json_opt JInt (crs_durationWeeks before)), (''totalHours'', json_opt JInt (crs_totalHours before)),
      (''minAttendancePercent'', json_opt JInt (crs_minAttendancePercent before)),
      (''minScore'', json_opt JRat (crs_minScore before)), (''certificateEligible'', JBool (crs_certificateEligible before)),
      (''sortOrder'', JInt (crs_sortOrder before)), (''isActive'', JBool (crs_isActive before))]
     [(''name'', map_option JStr (ucr_name inp)), (''levelOrder'', map_option JInt (ucr_levelOrder inp)),
      (''durationWeeks'', map_option (json_opt JInt) (ucr_durationWeeks inp)),
      (''totalHours'', map_option (json_opt JInt) (ucr_totalHours inp)),
      (''minAttendancePercent'', map_option (json_opt JInt) (ucr_minAttendancePercent inp)),
      (''minScore'', map_option (json_opt JRat) (ucr_minScore inp)),
      (''certificateEligible'', map_option JBool (ucr_certificateEligible inp)),
      (''sortOrder'', map_option JInt (ucr_sortOrder inp)), (''isActive'', map_option JBool (ucr_isActive inp))]"

definition updateCourse :: "env \<Rightarrow> uuid \<Rightarrow> update_course \<Rightarrow> int \<Rightarrow> grant list \<Rightarrow> actor \<Rightarrow> 'a catalog_db_scheme
    \<Rightarrow> app_error + ((course_row \<times> uuid list) \<times> 'a catalog_db_scheme)" where
  "updateCourse e i inp expectedVersion grants a d =
     bindE (course_row i d) (\<lambda>before.
     bindE (program_row (crs_programId before) d) (\<lambda>program.
     bindE (assertScope grants ''catalog.manage'' (at_department (prog_departmentId program))) (\<lambda>_.
     case updateWithVersion e (apply_course_update inp a) i expectedVersion (courses d) of (result, rows) \<Rightarrow>
     bindE (versionedRow (Catalog CourseNotFound) result) (\<lambda>row.
     Inr ((row, prerequisitesOf i d), audit e ''course.updated'' ''course'' (JUuid i)
       ((''code'', JStr (crs_code before)) # course_diff inp before) (d\<lparr>courses := rows\<rparr>))))))"

section \<open>Prerequisites\<close>

text \<open>\<open>[...new Set(ids)]\<close>: the first occurrences, in order.\<close>

definition new_set :: "'a list \<Rightarrow> 'a list" where
  "new_set xs = rev (remdups (rev xs))"

text \<open>The edges of one program, as the join of the two tables, and the \<open>Map\<close> built from them.\<close>

definition program_edges :: "uuid \<Rightarrow> 'a catalog_db_scheme \<Rightarrow> prerequisite_row list" where
  "program_edges programId d =
     filter (\<lambda>p. list_ex (\<lambda>c. row_id c = pre_courseId p \<and> crs_programId c = programId) (courses d)) (course_prerequisites d)"

definition add_edge :: "prerequisite_row \<Rightarrow> prerequisite_graph \<Rightarrow> prerequisite_graph" where
  "add_edge p g = AList.update (pre_courseId p) (edges_of g (pre_courseId p) @ [pre_prerequisiteCourseId p]) g"

definition program_graph :: "uuid \<Rightarrow> 'a catalog_db_scheme \<Rightarrow> prerequisite_graph" where
  "program_graph programId d = fold add_edge (program_edges programId d) []"

definition checkPrerequisites :: "uuid \<Rightarrow> uuid \<Rightarrow> uuid list \<Rightarrow> 'a catalog_db_scheme \<Rightarrow> app_error + unit" where
  "checkPrerequisites i programId ids d =
     bindE (throwIf (i \<in> set ids) (Catalog CrossProgramPrerequisite)) (\<lambda>_.
     if ids = [] then Inr ()
     else
       bindE (throwIf (length (filter (\<lambda>c. row_id c \<in> set ids \<and> crs_programId c = programId) (courses d)) \<noteq> length ids)
                (Catalog CrossProgramPrerequisite)) (\<lambda>_.
       throwIf (wouldCreateCycle (program_graph programId d) i ids) (Catalog PrerequisiteCycle)))"

definition setPrerequisites :: "env \<Rightarrow> uuid \<Rightarrow> uuid list \<Rightarrow> int \<Rightarrow> grant list \<Rightarrow> actor \<Rightarrow> 'a catalog_db_scheme
    \<Rightarrow> app_error + ((course_row \<times> uuid list) \<times> 'a catalog_db_scheme)" where
  "setPrerequisites e i requestedIds expectedVersion grants a d =
     bindE (course_row i d) (\<lambda>before.
     bindE (program_row (crs_programId before) d) (\<lambda>program.
     bindE (assertScope grants ''catalog.manage'' (at_department (prog_departmentId program))) (\<lambda>_.
     let ids = new_set requestedIds in
     bindE (checkPrerequisites i (crs_programId before) ids d) (\<lambda>_.
     case updateWithVersion e (\<lambda>r. r\<lparr>updatedBy := Some (actor_userId a)\<rparr>) i expectedVersion (courses d) of (result, rows) \<Rightarrow>
     bindE (versionedRow (Catalog CourseNotFound) result) (\<lambda>bumped.
     Inr ((bumped, ids), audit e ''course.prerequisites_set'' ''course'' (JUuid i)
       [(''code'', JStr (crs_code before)),
        (''prerequisiteIds'', JObj [(''from'', JArr (map JUuid (prerequisitesOf i d))), (''to'', JArr (map JUuid ids))])]
       (d\<lparr>courses := rows,
          course_prerequisites := filter (\<lambda>p. pre_courseId p \<noteq> i) (course_prerequisites d)
            @ map (\<lambda>p. \<lparr>pre_courseId = i, pre_prerequisiteCourseId = p\<rparr>) ids\<rparr>)))))))"

section \<open>Shifts and rooms (\<open>facilities.service.ts\<close>)\<close>

text \<open>\<open><\<close> on strings: the order of the code units.\<close>

fun js_less :: "string \<Rightarrow> string \<Rightarrow> bool" where
  "js_less xs [] = False"
| "js_less [] (y # ys) = True"
| "js_less (x # xs) (y # ys) = (of_char x < (of_char y :: nat) \<or> (x = y \<and> js_less xs ys))"

definition hhmm :: "string \<Rightarrow> string" where
  "hhmm t = take 5 t"

definition pg_time :: "string \<Rightarrow> string" where
  "pg_time t = t @ '':00''"

record create_shift =
  csh_code :: string
  csh_name :: string
  csh_daysOfWeek :: "int list"
  csh_startTime :: string
  csh_endTime :: string

definition createShift :: "env \<Rightarrow> create_shift \<Rightarrow> actor \<Rightarrow> 'a catalog_db_scheme
    \<Rightarrow> app_error + (shift_row \<times> 'a catalog_db_scheme)" where
  "createShift e inp a d = (case take_id d of (i, d1) \<Rightarrow>
     let row = \<lparr>row_id = i, createdAt = now e, updatedAt = now e,
                createdBy = Some (actor_userId a), updatedBy = Some (actor_userId a), version = 1,
                sh_code = csh_code inp, sh_name = csh_name inp, sh_daysOfWeek = csh_daysOfWeek inp,
                sh_startTime = pg_time (csh_startTime inp), sh_endTime = pg_time (csh_endTime inp), sh_isActive = True\<rparr> in
     bindE (insert_unless (\<lambda>r. sh_code r = sh_code row) (Catalog (CatalogCodeTaken ''shift'')) row (shifts d1)) (\<lambda>rows.
     Inr (row, audit e ''shift.created'' ''shift'' (JUuid i)
       [(''code'', JStr (sh_code row)), (''name'', JStr (sh_name row))] (d1\<lparr>shifts := rows\<rparr>))))"

record update_shift =
  ush_name :: "string option"
  ush_daysOfWeek :: "int list option"
  ush_startTime :: "string option"
  ush_endTime :: "string option"
  ush_isActive :: "bool option"

definition apply_shift_update :: "update_shift \<Rightarrow> actor \<Rightarrow> shift_row \<Rightarrow> shift_row" where
  "apply_shift_update inp a r = r\<lparr>sh_name := override (ush_name inp) (sh_name r),
     sh_daysOfWeek := override (ush_daysOfWeek inp) (sh_daysOfWeek r),
     sh_startTime := override (map_option pg_time (ush_startTime inp)) (sh_startTime r),
     sh_endTime := override (map_option pg_time (ush_endTime inp)) (sh_endTime r),
     sh_isActive := override (ush_isActive inp) (sh_isActive r),
     updatedBy := Some (actor_userId a)\<rparr>"

definition updateShift :: "env \<Rightarrow> uuid \<Rightarrow> update_shift \<Rightarrow> int \<Rightarrow> actor \<Rightarrow> 'a catalog_db_scheme
    \<Rightarrow> app_error + (shift_row \<times> 'a catalog_db_scheme)" where
  "updateShift e i inp expectedVersion a d =
     bindE (demand (find_by row_id i (shifts d)) (Catalog ShiftNotFound)) (\<lambda>before.
     let start = override (ush_startTime inp) (hhmm (sh_startTime before));
         finish = override (ush_endTime inp) (hhmm (sh_endTime before)) in
     bindE (throwIf (\<not> js_less start finish) (Catalog InvalidTimeRange)) (\<lambda>_.
     case updateWithVersion e (apply_shift_update inp a) i expectedVersion (shifts d) of (result, rows) \<Rightarrow>
     bindE (versionedRow (Catalog ShiftNotFound) result) (\<lambda>row.
     Inr (row, audit e ''shift.updated'' ''shift'' (JUuid i)
       ((''code'', JStr (sh_code before)) #
        diffChanges [(''name'', JStr (sh_name before)), (''daysOfWeek'', JArr (map JInt (sh_daysOfWeek before))),
                     (''startTime'', JStr (hhmm (sh_startTime before))), (''endTime'', JStr (hhmm (sh_endTime before))),
                     (''isActive'', JBool (sh_isActive before))]
                    [(''name'', map_option JStr (ush_name inp)),
                     (''daysOfWeek'', map_option (\<lambda>ds. JArr (map JInt ds)) (ush_daysOfWeek inp)),
                     (''startTime'', map_option JStr (ush_startTime inp)), (''endTime'', map_option JStr (ush_endTime inp)),
                     (''isActive'', map_option JBool (ush_isActive inp))])
       (d\<lparr>shifts := rows\<rparr>)))))"

fun room_type_name :: "room_type \<Rightarrow> string" where
  "room_type_name Classroom = ''classroom''" | "room_type_name Lab = ''lab''" | "room_type_name Studio = ''studio''"

record create_room =
  crm_branchId :: uuid
  crm_code :: string
  crm_name :: string
  crm_type :: room_type
  crm_capacity :: int
  crm_features :: "string list"

definition createRoom :: "env \<Rightarrow> create_room \<Rightarrow> actor \<Rightarrow> 'a catalog_db_scheme
    \<Rightarrow> app_error + (room_row \<times> 'a catalog_db_scheme)" where
  "createRoom e inp a d =
     bindE (throwIf (\<not> isActiveUnit (Branch (crm_branchId inp)) d) (Catalog CatalogBranchNotFound)) (\<lambda>_.
     case take_id d of (i, d1) \<Rightarrow>
     let row = \<lparr>row_id = i, createdAt = now e, updatedAt = now e,
                createdBy = Some (actor_userId a), updatedBy = Some (actor_userId a), version = 1,
                rm_branchId = crm_branchId inp, rm_code = crm_code inp, rm_name = crm_name inp, rm_type = crm_type inp,
                rm_capacity = crm_capacity inp, rm_features = crm_features inp, rm_isActive = True\<rparr> in
     bindE (insert_unless (\<lambda>r. rm_branchId r = rm_branchId row \<and> rm_code r = rm_code row)
              (Catalog (CatalogCodeTaken ''room in this branch'')) row (rooms d1)) (\<lambda>rows.
     Inr (row, audit e ''room.created'' ''room'' (JUuid i)
       [(''code'', JStr (rm_code row)), (''name'', JStr (rm_name row)), (''branchId'', JUuid (rm_branchId row)),
        (''capacity'', JInt (rm_capacity row))] (d1\<lparr>rooms := rows\<rparr>))))"

record update_room =
  urm_name :: "string option"
  urm_type :: "room_type option"
  urm_capacity :: "int option"
  urm_features :: "string list option"
  urm_isActive :: "bool option"

definition apply_room_update :: "update_room \<Rightarrow> actor \<Rightarrow> room_row \<Rightarrow> room_row" where
  "apply_room_update inp a r = r\<lparr>rm_name := override (urm_name inp) (rm_name r),
     rm_type := override (urm_type inp) (rm_type r),
     rm_capacity := override (urm_capacity inp) (rm_capacity r),
     rm_features := override (urm_features inp) (rm_features r),
     rm_isActive := override (urm_isActive inp) (rm_isActive r),
     updatedBy := Some (actor_userId a)\<rparr>"

definition updateRoom :: "env \<Rightarrow> uuid \<Rightarrow> update_room \<Rightarrow> int \<Rightarrow> actor \<Rightarrow> 'a catalog_db_scheme
    \<Rightarrow> app_error + (room_row \<times> 'a catalog_db_scheme)" where
  "updateRoom e i inp expectedVersion a d =
     bindE (demand (find_by row_id i (rooms d)) (Catalog RoomNotFound)) (\<lambda>before.
     case updateWithVersion e (apply_room_update inp a) i expectedVersion (rooms d) of (result, rows) \<Rightarrow>
     bindE (versionedRow (Catalog RoomNotFound) result) (\<lambda>row.
     Inr (row, audit e ''room.updated'' ''room'' (JUuid i)
       ((''code'', JStr (rm_code before)) #
        diffChanges [(''name'', JStr (rm_name before)), (''type'', JStr (room_type_name (rm_type before))),
                     (''capacity'', JInt (rm_capacity before)), (''features'', JArr (map JStr (rm_features before))),
                     (''isActive'', JBool (rm_isActive before))]
                    [(''name'', map_option JStr (urm_name inp)), (''type'', map_option (JStr \<circ> room_type_name) (urm_type inp)),
                     (''capacity'', map_option JInt (urm_capacity inp)),
                     (''features'', map_option (\<lambda>fs. JArr (map JStr fs)) (urm_features inp)),
                     (''isActive'', map_option JBool (urm_isActive inp))])
       (d\<lparr>rooms := rows\<rparr>))))"

text \<open>\<open>findShift\<close>, \<open>findRoom\<close>, \<open>shiftExists\<close>: what other modules ask.\<close>

definition findShift :: "uuid \<Rightarrow> 'a catalog_db_scheme \<Rightarrow> shift_row option" where
  "findShift i d = map_option (\<lambda>r. r\<lparr>sh_startTime := hhmm (sh_startTime r), sh_endTime := hhmm (sh_endTime r)\<rparr>)
     (find_by row_id i (shifts d))"

definition findRoom :: "uuid \<Rightarrow> 'a catalog_db_scheme \<Rightarrow> room_row option" where
  "findRoom i d = find_by row_id i (rooms d)"

definition shiftExists :: "uuid \<Rightarrow> 'a catalog_db_scheme \<Rightarrow> bool" where
  "shiftExists i d \<longleftrightarrow> find_by row_id i (shifts d) \<noteq> None"

end
