(* ===== verification/Calendar.thy ===== *)
theory Calendar
  imports Catalog
begin

text \<open>
  The academic calendar (\<open>catalog/application/calendar.service.ts\<close>): school years that cannot
  overlap, intakes with a registration window, holidays.
\<close>

section \<open>Academic years\<close>

text \<open>The exclusion constraint: \<open>daterange(start, end, '[)')\<close> of two years must not overlap.\<close>

definition years_overlap :: "academic_year_row \<Rightarrow> academic_year_row \<Rightarrow> bool" where
  "years_overlap x y \<longleftrightarrow> ay_startDate x < ay_endDate y \<and> ay_startDate y < ay_endDate x"

text \<open>\<open>yearConflict\<close>: the unique name is checked before the exclusion constraint.\<close>

definition yearConflict :: "academic_year_row \<Rightarrow> academic_year_row list \<Rightarrow> app_error + unit" where
  "yearConflict row others =
     bindE (throwIf (\<exists>y \<in> set others. ay_name y = ay_name row) (Catalog (CatalogCodeTaken ''academic year''))) (\<lambda>_.
     throwIf (\<exists>y \<in> set others. years_overlap row y) (Catalog AcademicYearOverlap))"

record academic_year_request =
  ayr_name :: string
  ayr_startDate :: date
  ayr_endDate :: date

definition valid_academic_year_request :: "academic_year_request \<Rightarrow> bool" where
  "valid_academic_year_request inp \<longleftrightarrow> ayr_startDate inp < ayr_endDate inp"

definition createYear :: "env \<Rightarrow> academic_year_request \<Rightarrow> actor \<Rightarrow> 'a catalog_db_scheme
    \<Rightarrow> app_error + (academic_year_row \<times> 'a catalog_db_scheme)" where
  "createYear e inp a d = (case take_id d of (i, d1) \<Rightarrow>
     let row = \<lparr>row_id = i, createdAt = now e, updatedAt = now e,
                createdBy = Some (actor_userId a), updatedBy = Some (actor_userId a), version = 1,
                ay_name = ayr_name inp, ay_startDate = ayr_startDate inp, ay_endDate = ayr_endDate inp\<rparr> in
     bindE (yearConflict row (academic_years d)) (\<lambda>_.
     Inr (row, audit e ''academic_year.created'' ''academic_year'' (JUuid i)
       [(''name'', JStr (ay_name row)), (''startDate'', JStr (iso_date (ay_startDate row))),
        (''endDate'', JStr (iso_date (ay_endDate row)))] (d1\<lparr>academic_years := academic_years d @ [row]\<rparr>))))"

definition apply_year_update :: "academic_year_request \<Rightarrow> actor \<Rightarrow> academic_year_row \<Rightarrow> academic_year_row" where
  "apply_year_update inp a r = r\<lparr>ay_name := ayr_name inp, ay_startDate := ayr_startDate inp,
     ay_endDate := ayr_endDate inp, updatedBy := Some (actor_userId a)\<rparr>"

definition updateYear :: "env \<Rightarrow> uuid \<Rightarrow> academic_year_request \<Rightarrow> int \<Rightarrow> actor \<Rightarrow> 'a catalog_db_scheme
    \<Rightarrow> app_error + (academic_year_row \<times> 'a catalog_db_scheme)" where
  "updateYear e i inp expectedVersion a d =
     bindE (demand (find_by row_id i (academic_years d)) (Catalog AcademicYearNotFound)) (\<lambda>before.
     case updateWithVersion e (apply_year_update inp a) i expectedVersion (academic_years d) of (result, rows) \<Rightarrow>
     bindE (case result of Updated row \<Rightarrow> yearConflict row (filter (\<lambda>y. row_id y \<noteq> i) rows) | _ \<Rightarrow> Inr ()) (\<lambda>_.
     bindE (versionedRow (Catalog AcademicYearNotFound) result) (\<lambda>row.
     Inr (row, audit e ''academic_year.updated'' ''academic_year'' (JUuid i)
       ((''name'', JStr (ay_name before)) #
        diffChanges [(''name'', JStr (ay_name before)), (''startDate'', JStr (iso_date (ay_startDate before))),
                     (''endDate'', JStr (iso_date (ay_endDate before)))]
                    [(''name'', Some (JStr (ayr_name inp))), (''startDate'', Some (JStr (iso_date (ayr_startDate inp)))),
                     (''endDate'', Some (JStr (iso_date (ayr_endDate inp))))])
       (d\<lparr>academic_years := rows\<rparr>)))))"

section \<open>Intakes\<close>

record create_intake =
  cit_programId :: "uuid option"
  cit_name :: string
  cit_startDate :: date
  cit_registrationOpensAt :: "instant option"
  cit_registrationClosesAt :: "instant option"

definition window_ok :: "instant option \<Rightarrow> instant option \<Rightarrow> bool" where
  "window_ok opens closes \<longleftrightarrow> (case (opens, closes) of (Some s, Some t) \<Rightarrow> s < t | _ \<Rightarrow> True)"

definition valid_intake_request :: "create_intake \<Rightarrow> bool" where
  "valid_intake_request inp \<longleftrightarrow> window_ok (cit_registrationOpensAt inp) (cit_registrationClosesAt inp)"

definition createIntake :: "env \<Rightarrow> create_intake \<Rightarrow> actor \<Rightarrow> 'a catalog_db_scheme
    \<Rightarrow> app_error + (intake_row \<times> 'a catalog_db_scheme)" where
  "createIntake e inp a d =
     bindE (case cit_programId inp of None \<Rightarrow> Inr () | Some p \<Rightarrow> bindE (program_or_missing p d) (\<lambda>_. Inr ())) (\<lambda>_.
     case take_id d of (i, d1) \<Rightarrow>
     let row = \<lparr>row_id = i, createdAt = now e, updatedAt = now e,
                createdBy = Some (actor_userId a), updatedBy = Some (actor_userId a), version = 1,
                itk_programId = cit_programId inp, itk_name = cit_name inp, itk_startDate = cit_startDate inp,
                itk_registrationOpensAt = cit_registrationOpensAt inp,
                itk_registrationClosesAt = cit_registrationClosesAt inp, itk_isActive = True\<rparr> in
     Inr (row, audit e ''intake.created'' ''intake'' (JUuid i)
       [(''name'', JStr (itk_name row)), (''startDate'', JStr (iso_date (itk_startDate row))),
        (''programId'', json_opt JUuid (itk_programId row))] (d1\<lparr>intakes := intakes d @ [row]\<rparr>)))"

record update_intake =
  uit_name :: "string option"
  uit_startDate :: "date option"
  uit_registrationOpensAt :: "instant option option"
  uit_registrationClosesAt :: "instant option option"
  uit_isActive :: "bool option"

definition apply_intake_update :: "update_intake \<Rightarrow> actor \<Rightarrow> intake_row \<Rightarrow> intake_row" where
  "apply_intake_update inp a r = r\<lparr>itk_name := override (uit_name inp) (itk_name r),
     itk_startDate := override (uit_startDate inp) (itk_startDate r),
     itk_registrationOpensAt := override (uit_registrationOpensAt inp) (itk_registrationOpensAt r),
     itk_registrationClosesAt := override (uit_registrationClosesAt inp) (itk_registrationClosesAt r),
     itk_isActive := override (uit_isActive inp) (itk_isActive r),
     updatedBy := Some (actor_userId a)\<rparr>"

text \<open>
  The audit entry compares the printed instants (\<open>toIntake(before)\<close>) with the strings of the request,
  which are taken to be printed the same way.
\<close>

definition updateIntake :: "env \<Rightarrow> uuid \<Rightarrow> update_intake \<Rightarrow> int \<Rightarrow> actor \<Rightarrow> 'a catalog_db_scheme
    \<Rightarrow> app_error + (intake_row \<times> 'a catalog_db_scheme)" where
  "updateIntake e i inp expectedVersion a d =
     bindE (demand (find_by row_id i (intakes d)) (Catalog IntakeNotFound)) (\<lambda>before.
     let opens = override (uit_registrationOpensAt inp) (itk_registrationOpensAt before);
         closes = override (uit_registrationClosesAt inp) (itk_registrationClosesAt before);
         shown = json_opt (JStr \<circ> to_iso e) in
     bindE (throwIf (\<not> window_ok opens closes) (Catalog InvalidRegistrationWindow)) (\<lambda>_.
     case updateWithVersion e (apply_intake_update inp a) i expectedVersion (intakes d) of (result, rows) \<Rightarrow>
     bindE (versionedRow (Catalog IntakeNotFound) result) (\<lambda>row.
     Inr (row, audit e ''intake.updated'' ''intake'' (JUuid i)
       ((''name'', JStr (itk_name before)) #
        diffChanges [(''name'', JStr (itk_name before)), (''startDate'', JStr (iso_date (itk_startDate before))),
                     (''registrationOpensAt'', shown (itk_registrationOpensAt before)),
                     (''registrationClosesAt'', shown (itk_registrationClosesAt before)),
                     (''isActive'', JBool (itk_isActive before))]
                    [(''name'', map_option JStr (uit_name inp)),
                     (''startDate'', map_option (JStr \<circ> iso_date) (uit_startDate inp)),
                     (''registrationOpensAt'', map_option shown (uit_registrationOpensAt inp)),
                     (''registrationClosesAt'', map_option shown (uit_registrationClosesAt inp)),
                     (''isActive'', map_option JBool (uit_isActive inp))])
       (d\<lparr>intakes := rows\<rparr>)))))"

definition intakeExists :: "uuid \<Rightarrow> 'a catalog_db_scheme \<Rightarrow> bool" where
  "intakeExists i d \<longleftrightarrow> find_by row_id i (intakes d) \<noteq> None"

section \<open>Holidays\<close>

definition requireBranch :: "uuid option \<Rightarrow> 'a catalog_db_scheme \<Rightarrow> app_error + unit" where
  "requireBranch branchId d = (case branchId of
     None \<Rightarrow> Inr ()
   | Some b \<Rightarrow> throwIf (\<not> isActiveUnit (Branch b) d) (Catalog CatalogBranchNotFound))"

text \<open>\<open>holidays_date_branch_key\<close>, with nulls that are not distinct.\<close>

definition holiday_clash :: "holiday_row \<Rightarrow> holiday_row \<Rightarrow> bool" where
  "holiday_clash row h \<longleftrightarrow> hol_date h = hol_date row \<and> hol_branchId h = hol_branchId row"

record create_holiday =
  chd_date :: date
  chd_name :: string
  chd_isRecurringAnnually :: bool
  chd_branchId :: "uuid option"

definition createHoliday :: "env \<Rightarrow> create_holiday \<Rightarrow> actor \<Rightarrow> 'a catalog_db_scheme
    \<Rightarrow> app_error + (holiday_row \<times> 'a catalog_db_scheme)" where
  "createHoliday e inp a d =
     bindE (requireBranch (chd_branchId inp) d) (\<lambda>_.
     case take_id d of (i, d1) \<Rightarrow>
     let row = \<lparr>row_id = i, createdAt = now e, updatedAt = now e,
                createdBy = Some (actor_userId a), updatedBy = Some (actor_userId a), version = 1,
                hol_date = chd_date inp, hol_name = chd_name inp,
                hol_isRecurringAnnually = chd_isRecurringAnnually inp, hol_branchId = chd_branchId inp\<rparr> in
     bindE (insert_unless (holiday_clash row) (Catalog HolidayExists) row (holidays d1)) (\<lambda>rows.
     Inr (row, audit e ''holiday.created'' ''holiday'' (JUuid i)
       [(''date'', JStr (iso_date (hol_date row))), (''name'', JStr (hol_name row)),
        (''branchId'', json_opt JUuid (hol_branchId row))] (d1\<lparr>holidays := rows\<rparr>))))"

record update_holiday =
  uhd_date :: "date option"
  uhd_name :: "string option"
  uhd_isRecurringAnnually :: "bool option"
  uhd_branchId :: "uuid option option"

definition apply_holiday_update :: "update_holiday \<Rightarrow> actor \<Rightarrow> holiday_row \<Rightarrow> holiday_row" where
  "apply_holiday_update inp a r = r\<lparr>hol_date := override (uhd_date inp) (hol_date r),
     hol_name := override (uhd_name inp) (hol_name r),
     hol_isRecurringAnnually := override (uhd_isRecurringAnnually inp) (hol_isRecurringAnnually r),
     hol_branchId := override (uhd_branchId inp) (hol_branchId r),
     updatedBy := Some (actor_userId a)\<rparr>"

definition updateHoliday :: "env \<Rightarrow> uuid \<Rightarrow> update_holiday \<Rightarrow> int \<Rightarrow> actor \<Rightarrow> 'a catalog_db_scheme
    \<Rightarrow> app_error + (holiday_row \<times> 'a catalog_db_scheme)" where
  "updateHoliday e i inp expectedVersion a d =
     bindE (demand (find_by row_id i (holidays d)) (Catalog HolidayNotFound)) (\<lambda>before.
     bindE (requireBranch (Option.bind (uhd_branchId inp) id) d) (\<lambda>_.
     case updateWithVersion e (apply_holiday_update inp a) i expectedVersion (holidays d) of (result, rows) \<Rightarrow>
     bindE (case result of
              Updated row \<Rightarrow> throwIf (\<exists>h \<in> set rows. row_id h \<noteq> i \<and> holiday_clash row h) (Catalog HolidayExists)
            | _ \<Rightarrow> Inr ()) (\<lambda>_.
     bindE (versionedRow (Catalog HolidayNotFound) result) (\<lambda>row.
     Inr (row, audit e ''holiday.updated'' ''holiday'' (JUuid i)
       ((''name'', JStr (hol_name before)) #
        diffChanges [(''date'', JStr (iso_date (hol_date before))), (''name'', JStr (hol_name before)),
                     (''isRecurringAnnually'', JBool (hol_isRecurringAnnually before)),
                     (''branchId'', json_opt JUuid (hol_branchId before))]
                    [(''date'', map_option (JStr \<circ> iso_date) (uhd_date inp)), (''name'', map_option JStr (uhd_name inp)),
                     (''isRecurringAnnually'', map_option JBool (uhd_isRecurringAnnually inp)),
                     (''branchId'', map_option (json_opt JUuid) (uhd_branchId inp))])
       (d\<lparr>holidays := rows\<rparr>))))))"

definition deleteHoliday :: "env \<Rightarrow> uuid \<Rightarrow> 'a catalog_db_scheme \<Rightarrow> app_error + 'a catalog_db_scheme" where
  "deleteHoliday e i d =
     bindE (demand (find_by row_id i (holidays d)) (Catalog HolidayNotFound)) (\<lambda>row.
     Inr (audit e ''holiday.deleted'' ''holiday'' (JUuid i)
       [(''date'', JStr (iso_date (hol_date row))), (''name'', JStr (hol_name row))]
       (d\<lparr>holidays := filter (\<lambda>h. row_id h \<noteq> i) (holidays d)\<rparr>)))"

definition listHolidays :: "'a catalog_db_scheme \<Rightarrow> holiday_row list" where
  "listHolidays d = sort_key hol_date (holidays d)"

end
