(* ===== verification/Tables.thy ===== *)
theory Tables
  imports Versioning
begin

text \<open>
  What the services do to a table, whatever the table: an insert with a fresh id, a versioned update of
  one row, an update of the rows a condition selects. Two contracts are stated over them: a constraint
  between rows (\<open>exclusion_constraint\<close>), and the life of a row (\<open>row_lifecycle\<close>), a state machine in which
  rows are born and moved.
\<close>

section \<open>Fresh ids and versioned updates\<close>

lemma take_id_iff [simp]: "take_id d = (i, d1) \<longleftrightarrow> i = next_id d \<and> d1 = d\<lparr>next_id := Suc (next_id d)\<rparr>"
  by (auto simp: take_id_def)

text \<open>An update that keeps a column of every row, and the column of ids.\<close>

lemma updateWithVersion_keeps:
  assumes "updateWithVersion e f i v rows = (Updated r', rows')" "ids_distinct rows"
    and "\<And>r. g ((touch e (f r))\<lparr>version := v + 1\<rparr>) = g r"
  shows "map g rows' = map g rows"
  unfolding updateWithVersion_rows[OF assms(2,1)] by (rule map_update_where) (rule assms(3))

lemma updateWithVersion_hits:
  assumes "updateWithVersion e f i v rows = (Updated r', rows')" "ids_distinct rows" "keeps_key f"
  shows "r' \<in> set rows'" "row_id r' = i" "\<And>r. r \<in> set rows' \<Longrightarrow> row_id r \<noteq> i \<Longrightarrow> r \<in> set rows"
    "\<And>r. r \<in> set rows' \<Longrightarrow> row_id r = i \<Longrightarrow> r = r'" "ids_distinct rows'" "row_id ` set rows' = row_id ` set rows"
proof -
  obtain r where r: "find_by row_id i rows = Some r" "r' = (touch e (f r))\<lparr>version := v + 1\<rparr>"
    and rows': "rows' = update_where (\<lambda>x. row_id x = i) (\<lambda>x. (touch e (f x))\<lparr>version := v + 1\<rparr>) rows"
    using updateWithVersion_Updated[OF assms(2,1)] by metis
  have key: "row_id ((touch e (f x))\<lparr>version := v + 1\<rparr>) = row_id x" for x
    using assms(3) by (simp add: keeps_key_def)
  have mem: "r \<in> set rows" "row_id r = i" using r(1) by (auto dest: find_by_in find_by_key)
  show in_rows: "r' \<in> set rows'" using mem by (auto simp: rows' r(2) set_update_where image_iff)
  show id: "row_id r' = i" using mem key by (simp add: r(2))
  show "\<And>x. x \<in> set rows' \<Longrightarrow> row_id x \<noteq> i \<Longrightarrow> x \<in> set rows"
    using key by (auto simp: rows' set_update_where split: if_splits)
  have ids: "map row_id rows' = map row_id rows" unfolding rows' by (rule map_update_where) (rule key)
  then show d: "ids_distinct rows'" using assms(2) by (simp add: ids_distinct_def)
  show "\<And>x. x \<in> set rows' \<Longrightarrow> row_id x = i \<Longrightarrow> x = r'" using same_row[OF d] in_rows id by metis
  show "row_id ` set rows' = row_id ` set rows" using ids by (metis image_set)
qed

section \<open>Constraints between rows\<close>

text \<open>
  A unique index or an exclusion constraint promises that no two rows clash. What an insert, an update
  or a delete that passed the constraint leaves is proved once, for any symmetric clash.
\<close>

definition exclusive :: "('a has_id_scheme \<Rightarrow> 'a has_id_scheme \<Rightarrow> bool) \<Rightarrow> uuid \<Rightarrow> 'a has_id_scheme list \<Rightarrow> bool" where
  "exclusive clash n rows \<longleftrightarrow> ids_distinct rows \<and> (\<forall>r \<in> set rows. row_id r < n)
     \<and> (\<forall>x \<in> set rows. \<forall>y \<in> set rows. row_id x \<noteq> row_id y \<longrightarrow> \<not> clash x y)"

locale exclusion_constraint =
  fixes clash :: "'a has_id_scheme \<Rightarrow> 'a has_id_scheme \<Rightarrow> bool"
  assumes clash_sym: "clash x y \<Longrightarrow> clash y x"
begin

lemma insert:
  assumes "exclusive clash n rows" "row_id r = n" "\<forall>x \<in> set rows. \<not> clash r x"
  shows "exclusive clash (Suc n) (rows @ [r])"
proof -
  have "n \<notin> row_id ` set rows" using assms(1) by (auto simp: exclusive_def)
  then have "ids_distinct (rows @ [r])" using assms(1,2) by (auto simp: exclusive_def ids_distinct_def)
  moreover have "\<not> clash x r" if "x \<in> set rows" for x using that assms(3) clash_sym by blast
  ultimately show ?thesis using assms by (auto simp: exclusive_def less_Suc_eq)
qed

lemma remove: "exclusive clash n rows \<Longrightarrow> exclusive clash n (filter P rows)"
  by (auto simp: exclusive_def ids_distinct_def distinct_map_filter)

lemma later: "exclusive clash n rows \<Longrightarrow> n \<le> m \<Longrightarrow> exclusive clash m rows"
  by (force simp: exclusive_def)

lemma later_Suc: "exclusive clash n rows \<Longrightarrow> exclusive clash (Suc n) rows"
  by (erule later) simp

end

text \<open>Rows that carry a version can be updated one at a time.\<close>

locale versioned_exclusion = exclusion_constraint clash
  for clash :: "'a base_row_scheme \<Rightarrow> 'a base_row_scheme \<Rightarrow> bool"
begin

lemma update:
  assumes "exclusive clash n rows" "updateWithVersion e f i v rows = (Updated r, rows')" "keeps_key f"
    and "\<forall>x \<in> set rows'. row_id x \<noteq> i \<longrightarrow> \<not> clash r x"
  shows "exclusive clash n rows'"
proof -
  have ids: "ids_distinct rows" using assms(1) by (simp add: exclusive_def)
  note hits = updateWithVersion_hits[OF assms(2) ids assms(3)]
  have "\<not> clash x y" if xy: "x \<in> set rows'" "y \<in> set rows'" "row_id x \<noteq> row_id y" for x y
  proof (cases "row_id x = i \<or> row_id y = i")
    case True
    then show ?thesis using hits(4) xy assms(4) clash_sym by metis
  next
    case False
    then have "x \<in> set rows" "y \<in> set rows" using hits(3) xy by blast+
    then show ?thesis using assms(1) xy(3) by (simp add: exclusive_def)
  qed
  moreover have "\<forall>x \<in> set rows'. row_id x < n"
    using hits(6) assms(1) by (metis exclusive_def image_iff)
  ultimately show ?thesis using hits(5) by (simp add: exclusive_def)
qed

end

section \<open>The life of a row\<close>

text \<open>
  \<open>table_step born move n rows rows'\<close>: no row was lost, each is as it was or has made one move, and the
  new ones, whose ids start at \<open>n\<close>, are as they are born.
\<close>

definition table_step :: "('a base_row_scheme \<Rightarrow> bool) \<Rightarrow> ('a base_row_scheme \<Rightarrow> 'a base_row_scheme \<Rightarrow> bool) \<Rightarrow> uuid
    \<Rightarrow> 'a base_row_scheme list \<Rightarrow> 'a base_row_scheme list \<Rightarrow> bool" where
  "table_step born move n rows rows' \<longleftrightarrow>
     (\<forall>r' \<in> set rows'. (\<exists>r \<in> set rows. row_id r = row_id r' \<and> (r' = r \<or> move r r')) \<or> (n \<le> row_id r' \<and> born r'))
     \<and> (\<forall>r \<in> set rows. \<exists>r' \<in> set rows'. row_id r' = row_id r \<and> (r' = r \<or> move r r'))"

text \<open>A table whose ids are unique and were all given before \<open>n\<close>.\<close>

definition issued_before :: "uuid \<Rightarrow> 'a base_row_scheme list \<Rightarrow> bool" where
  "issued_before n rows \<longleftrightarrow> ids_distinct rows \<and> (\<forall>r \<in> set rows. row_id r < n)"

lemma issued_before_Nil [simp]: "issued_before n []"
  by (simp add: issued_before_def ids_distinct_def)

lemma issued_before_later: "issued_before n rows \<Longrightarrow> n \<le> m \<Longrightarrow> issued_before m rows"
  by (force simp: issued_before_def)

lemma issued_before_snoc:
  "issued_before n rows \<Longrightarrow> n \<le> row_id r \<Longrightarrow> row_id r < m \<Longrightarrow> issued_before m (rows @ [r])"
  by (fastforce simp: issued_before_def ids_distinct_def)

lemma issued_before_update:
  assumes "issued_before n rows" "updateWithVersion e f i v rows = (Updated r, rows')" "keeps_key f"
  shows "issued_before n rows'"
proof -
  have ids: "ids_distinct rows" using assms(1) by (simp add: issued_before_def)
  note hits = updateWithVersion_hits[OF assms(2) ids assms(3)]
  have "row_id x < n" if "x \<in> set rows'" for x
  proof -
    have "row_id x \<in> row_id ` set rows" using that hits(6) by blast
    with assms(1) show ?thesis by (auto simp: issued_before_def)
  qed
  with hits(5) show ?thesis by (simp add: issued_before_def)
qed

lemma issued_before_update_where:
  "issued_before n rows \<Longrightarrow> (\<And>r. row_id (f r) = row_id r) \<Longrightarrow> issued_before n (update_where P f rows)"
  by (auto simp: issued_before_def ids_distinct_def map_update_where set_update_where)

lemma table_step_refl [simp]: "table_step born move n rows rows"
  by (auto simp: table_step_def)

lemma table_step_snoc: "n \<le> row_id r \<Longrightarrow> born r \<Longrightarrow> table_step born move n rows (rows @ [r])"
  by (auto simp: table_step_def)

lemma table_step_update_where:
  "(\<And>r. r \<in> set rows \<Longrightarrow> P r \<Longrightarrow> row_id (f r) = row_id r \<and> move r (f r)) \<Longrightarrow> table_step born move n rows (update_where P f rows)"
  by (auto simp: table_step_def set_update_where)

lemma table_step_update:
  assumes upd: "updateWithVersion e f i v rows = (Updated r', rows')" and ids: "ids_distinct rows" and key: "keeps_key f"
    and before: "find_by row_id i rows = Some r" and move: "move r ((touch e (f r))\<lparr>version := v + 1\<rparr>)"
  shows "table_step born move n rows rows'"
  unfolding updateWithVersion_rows[OF ids upd]
proof (rule table_step_update_where)
  fix x assume x: "x \<in> set rows" "row_id x = i"
  then have "x = r" using before ids by (metis find_by_in find_by_key same_row)
  with move key show "row_id ((touch e (f x))\<lparr>version := v + 1\<rparr>) = row_id x \<and> move x ((touch e (f x))\<lparr>version := v + 1\<rparr>)"
    by (simp add: keeps_key_def)
qed

lemma table_step_mono:
  "table_step born move n rows rows' \<Longrightarrow> (\<And>r. born r \<Longrightarrow> born' r) \<Longrightarrow> (\<And>r r'. move r r' \<Longrightarrow> move' r r') \<Longrightarrow> table_step born' move' n rows rows'"
  unfolding table_step_def by blast

locale row_lifecycle =
  fixes born :: "'a base_row_scheme \<Rightarrow> bool"
    and move :: "'a base_row_scheme \<Rightarrow> 'a base_row_scheme \<Rightarrow> bool"
    and ok :: "'a base_row_scheme \<Rightarrow> bool"
    and finished :: "'a base_row_scheme \<Rightarrow> bool"
  assumes born_ok: "born r \<Longrightarrow> ok r"
    and move_ok: "ok r \<Longrightarrow> move r r' \<Longrightarrow> ok r'"
    and finished_stays: "finished r \<Longrightarrow> \<not> move r r'"
begin

lemma keeps_ok:
  assumes "table_step born move n rows rows'" "\<forall>r \<in> set rows. ok r"
  shows "\<forall>r \<in> set rows'. ok r"
  using assms born_ok move_ok unfolding table_step_def by metis

text \<open>A finished row is there afterwards, exactly as it was.\<close>

lemma finished_kept:
  assumes "table_step born move n rows rows'" "r \<in> set rows" "finished r"
  shows "r \<in> set rows'"
  using assms finished_stays unfolding table_step_def by metis

end

end
