(* ===== verification/CatalogOk.thy ===== *)
theory CatalogOk
  imports Calendar Tables
begin

text \<open>
  What holds of the catalog whatever is done to it: prerequisites stay inside a program and without
  loops, so the courses can be taken in some order; school years do not overlap; a holiday is entered
  once per branch. \<open>catalog_step\<close> is one call of the catalog's services.
\<close>

section \<open>Frames\<close>

lemma audit_catalog_frame [simp]:
  "programs (audit e x y z w d) = programs d" "courses (audit e x y z w d) = courses d"
  "course_prerequisites (audit e x y z w d) = course_prerequisites d"
  "academic_years (audit e x y z w d) = academic_years d" "intakes (audit e x y z w d) = intakes d"
  "holidays (audit e x y z w d) = holidays d" "shifts (audit e x y z w d) = shifts d" "rooms (audit e x y z w d) = rooms d"
  "next_id (audit e x y z w d) = next_id d"
  by (simp_all add: audit_def record_audit_def)

section \<open>Prerequisites\<close>

definition course_keys :: "'a catalog_db_scheme \<Rightarrow> (uuid \<times> uuid) list" where
  "course_keys d = map (\<lambda>c. (row_id c, crs_programId c)) (courses d)"

definition prereq_rel :: "'a catalog_db_scheme \<Rightarrow> (uuid \<times> uuid) set" where
  "prereq_rel d = (\<lambda>p. (pre_courseId p, pre_prerequisiteCourseId p)) ` set (course_prerequisites d)"

definition prerequisites_ok :: "'a catalog_db_scheme \<Rightarrow> bool" where
  "prerequisites_ok d \<longleftrightarrow> distinct (map fst (course_keys d)) \<and> (\<forall>k \<in> set (course_keys d). fst k < next_id d)
     \<and> (\<forall>(a, b) \<in> prereq_rel d. \<exists>p. (a, p) \<in> set (course_keys d) \<and> (b, p) \<in> set (course_keys d))
     \<and> acyclic (prereq_rel d)"

lemma edges_of_add_edge:
  "edges_of (add_edge p g) c = edges_of g c @ (if pre_courseId p = c then [pre_prerequisiteCourseId p] else [])"
  by (simp add: add_edge_def edges_of_def update_conv')

lemma edges_of_fold:
  "edges_of (fold add_edge ps g) c = edges_of g c @ map pre_prerequisiteCourseId (filter (\<lambda>p. pre_courseId p = c) ps)"
  by (induction ps arbitrary: g) (auto simp: edges_of_add_edge)

lemma graph_rel_program:
  "graph_rel (program_graph P d) = {(a, b) \<in> prereq_rel d. (a, P) \<in> set (course_keys d)}"
proof -
  have "(a, b) \<in> graph_rel (program_graph P d) \<longleftrightarrow>
      (\<exists>p \<in> set (program_edges P d). pre_courseId p = a \<and> pre_prerequisiteCourseId p = b)" for a b
    by (auto simp: graph_rel_def program_graph_def edges_of_fold edges_of_def[of "[]"])
  moreover have "p \<in> set (program_edges P d) \<longleftrightarrow> p \<in> set (course_prerequisites d) \<and> (pre_courseId p, P) \<in> set (course_keys d)" for p
    by (force simp: program_edges_def list_ex_iff course_keys_def)
  ultimately show ?thesis by (auto simp: prereq_rel_def)
qed

lemma set_new_set [simp]: "set (new_set xs) = set xs" and distinct_new_set [simp]: "distinct (new_set xs)"
  by (simp_all add: new_set_def)

text \<open>Every course found is counted once, so the count says that all of them are in the program.\<close>

lemma courses_counted:
  assumes "distinct (map fst (course_keys d))" "distinct ids"
    and "length (filter (\<lambda>c. row_id c \<in> set ids \<and> crs_programId c = P) (courses d)) = length ids"
  shows "\<forall>i \<in> set ids. (i, P) \<in> set (course_keys d)"
proof -
  let ?found = "filter (\<lambda>c. row_id c \<in> set ids \<and> crs_programId c = P) (courses d)"
  have "distinct (map row_id (courses d))" using assms(1) by (simp add: course_keys_def comp_def)
  then have "distinct (map row_id ?found)" by (rule distinct_map_filter)
  then have "card (row_id ` set ?found) = length ?found" using distinct_card[of "map row_id ?found"] by simp
  also have "\<dots> = card (set ids)" using assms(2,3) by (simp add: distinct_card)
  finally have "card (row_id ` set ?found) = card (set ids)" .
  then have "row_id ` set ?found = set ids" by (intro card_subset_eq) auto
  then show ?thesis by (auto simp: course_keys_def image_iff)
qed

lemma same_program_reach:
  assumes "(a, b) \<in> r\<^sup>*" "(a, P) \<in> K" "\<And>x y. (x, y) \<in> r \<Longrightarrow> \<exists>p. (x, p) \<in> K \<and> (y, p) \<in> K"
    and "\<And>x p q. (x, p) \<in> K \<Longrightarrow> (x, q) \<in> K \<Longrightarrow> p = q"
  shows "(a, b) \<in> {(x, y) \<in> r. (x, P) \<in> K}\<^sup>* \<and> (b, P) \<in> K"
  using assms(1)
proof induction
  case (step y z)
  then obtain p where "(y, p) \<in> K" "(z, p) \<in> K" using assms(3) by blast
  with step assms(4) have "p = P" "(y, z) \<in> {(x, y) \<in> r. (x, P) \<in> K}" by auto
  with step \<open>(z, p) \<in> K\<close> show ?case by (auto intro: rtrancl_into_rtrancl)
qed (use assms(2) in simp)

lemma setPrerequisites_ok:
  assumes run: "setPrerequisites e i ids v grants a d = Inr (x, d')" and ok: "prerequisites_ok d"
  shows "prerequisites_ok d'"
proof -
  let ?ids = "new_set ids" and ?K = "set (course_keys d)"
  obtain before program result rows bumped where before: "find_by row_id i (courses d) = Some before"
    and check: "checkPrerequisites i (crs_programId before) ?ids d = Inr ()"
    and upd: "updateWithVersion e (\<lambda>r. r\<lparr>updatedBy := Some (actor_userId a)\<rparr>) i v (courses d) = (Updated bumped, rows)"
    and d': "courses d' = rows" "next_id d' = next_id d"
      "course_prerequisites d' = filter (\<lambda>p. pre_courseId p \<noteq> i) (course_prerequisites d)
            @ map (\<lambda>p. \<lparr>pre_courseId = i, pre_prerequisiteCourseId = p\<rparr>) ?ids"
    using run by (auto simp: setPrerequisites_def course_row_def Let_def split: prod.splits)
  let ?P = "crs_programId before"
  have dist: "distinct (map fst (course_keys d))" and ids: "ids_distinct (courses d)"
    using ok by (simp_all add: prerequisites_ok_def course_keys_def ids_distinct_def comp_def)
  have key: "course_keys d' = course_keys d"
    unfolding course_keys_def d' by (rule updateWithVersion_keeps[OF upd ids]) (simp add: touch_def)
  have i: "(i, ?P) \<in> ?K" using find_by_in[OF before] find_by_key[OF before] by (force simp: course_keys_def)
  have fn: "p = q" if "(x, p) \<in> ?K" "(x, q) \<in> ?K" for x p q
    using that dist by (metis eq_key_imp_eq_value)
  have inside: "\<exists>p. (x, p) \<in> ?K \<and> (y, p) \<in> ?K" if "(x, y) \<in> prereq_rel d" for x y
    using that ok by (auto simp: prerequisites_ok_def)
  have rel: "prereq_rel d' = {(x, y) \<in> prereq_rel d. x \<noteq> i} \<union> {i} \<times> set ids"
    by (auto simp: prereq_rel_def d' image_Un image_image)
  have new: "(p, ?P) \<in> ?K \<and> (p, i) \<notin> (prereq_rel d)\<^sup>*" if "p \<in> set ids" for p
  proof -
    have ne: "?ids \<noteq> []" using that by (metis empty_iff empty_set set_new_set)
    have p: "(p, ?P) \<in> ?K"
      using check ne that by (intro courses_counted[OF dist distinct_new_set, rule_format]) (auto simp: checkPrerequisites_def)
    have "\<not> wouldCreateCycle (program_graph ?P d) i ?ids" using check ne by (simp add: checkPrerequisites_def)
    then have "(p, i) \<notin> {(a, b) \<in> prereq_rel d. (a, ?P) \<in> ?K}\<^sup>*"
      using that by (auto simp: wouldCreateCycle_iff graph_rel_program)
    moreover have "(p, i) \<in> {(a, b) \<in> prereq_rel d. (a, ?P) \<in> ?K}\<^sup>*" if reach: "(p, i) \<in> (prereq_rel d)\<^sup>*"
      by (rule same_program_reach[OF reach p inside fn, THEN conjunct1])
    ultimately show ?thesis using p by blast
  qed
  have "acyclic (prereq_rel d')"
    unfolding rel using ok new by (intro acyclic_replace) (auto simp: prerequisites_ok_def)
  moreover have "\<exists>p. (x, p) \<in> ?K \<and> (y, p) \<in> ?K" if "(x, y) \<in> prereq_rel d'" for x y
    using that inside new i unfolding rel by blast
  ultimately show ?thesis using ok by (auto simp: prerequisites_ok_def key d'(2))
qed

lemma prerequisites_ok_cong:
  "course_keys d' = course_keys d \<Longrightarrow> course_prerequisites d' = course_prerequisites d \<Longrightarrow> next_id d \<le> next_id d'
    \<Longrightarrow> prerequisites_ok d \<Longrightarrow> prerequisites_ok d'"
  by (force simp: prerequisites_ok_def prereq_rel_def)

lemma createCourse_ok:
  assumes "createCourse e inp grants a d = Inr (r, d')" "prerequisites_ok d"
  shows "prerequisites_ok d'"
proof -
  obtain P where "course_keys d' = course_keys d @ [(next_id d, P)]" "course_prerequisites d' = course_prerequisites d"
    "next_id d' = Suc (next_id d)"
    using assms(1) by (auto simp: createCourse_def course_keys_def Let_def)
  then show ?thesis using assms(2) by (fastforce simp: prerequisites_ok_def prereq_rel_def)
qed

lemma updateCourse_ok:
  assumes "updateCourse e i inp v grants a d = Inr (r, d')" "prerequisites_ok d"
  shows "prerequisites_ok d'"
proof (rule prerequisites_ok_cong[OF _ _ _ assms(2)])
  obtain before row rows where upd: "updateWithVersion e (apply_course_update inp a) i v (courses d) = (Updated row, rows)"
    and d': "courses d' = rows" "course_prerequisites d' = course_prerequisites d" "next_id d' = next_id d"
    using assms(1) by (auto simp: updateCourse_def split: prod.splits)
  have ids: "ids_distinct (courses d)"
    using assms(2) by (simp add: prerequisites_ok_def course_keys_def ids_distinct_def comp_def)
  show "course_keys d' = course_keys d"
    unfolding course_keys_def d' by (rule updateWithVersion_keeps[OF upd ids]) (simp add: apply_course_update_def touch_def)
  show "course_prerequisites d' = course_prerequisites d" "next_id d \<le> next_id d'" using d' by simp_all
qed

text \<open>Without loops there is an order of all the courses in which each comes after those it requires.\<close>

lemma prerequisites_order:
  assumes "prerequisites_ok d"
  shows "\<exists>order. set order = row_id ` set (courses d) \<and> distinct order
    \<and> (\<forall>i j. i < length order \<longrightarrow> j < length order \<longrightarrow> (order ! i, order ! j) \<in> prereq_rel d \<longrightarrow> j < i)"
  using assms by (intro acyclic_order) (auto simp: prerequisites_ok_def)

section \<open>Years and holidays\<close>

definition year_clash :: "academic_year_row \<Rightarrow> academic_year_row \<Rightarrow> bool" where
  "year_clash x y \<longleftrightarrow> ay_name y = ay_name x \<or> years_overlap x y"

interpretation years: versioned_exclusion year_clash
  by unfold_locales (auto simp: year_clash_def years_overlap_def)

interpretation holidays_key: versioned_exclusion holiday_clash
  by unfold_locales (auto simp: holiday_clash_def)

definition calendar_ok :: "'a catalog_db_scheme \<Rightarrow> bool" where
  "calendar_ok d \<longleftrightarrow> exclusive year_clash (next_id d) (academic_years d) \<and> exclusive holiday_clash (next_id d) (holidays d)"

lemma yearConflict_Inr [simp]:
  "yearConflict row others = Inr u \<longleftrightarrow> (\<forall>y \<in> set others. \<not> year_clash row y)"
  by (auto simp: yearConflict_def year_clash_def)

lemma calendar_ok_cong:
  "academic_years d' = academic_years d \<Longrightarrow> holidays d' = holidays d \<Longrightarrow> next_id d \<le> next_id d'
    \<Longrightarrow> calendar_ok d \<Longrightarrow> calendar_ok d'"
  by (auto simp: calendar_ok_def intro: years.later holidays_key.later)

lemma createYear_ok:
  assumes "createYear e inp a d = Inr (r, d')" "calendar_ok d"
  shows "calendar_ok d'"
proof -
  have "academic_years d' = academic_years d @ [r]" "row_id r = next_id d" "next_id d' = Suc (next_id d)" "holidays d' = holidays d"
    and "\<forall>y \<in> set (academic_years d). \<not> year_clash r y"
    using assms(1) by (auto simp: createYear_def Let_def)
  with assms(2) show ?thesis by (simp add: calendar_ok_def years.insert holidays_key.later_Suc)
qed

lemma updateYear_ok:
  assumes "updateYear e i inp v a d = Inr (r, d')" "calendar_ok d"
  shows "calendar_ok d'"
proof -
  obtain rows where upd: "updateWithVersion e (apply_year_update inp a) i v (academic_years d) = (Updated r, rows)"
    and free: "\<forall>y \<in> set rows. row_id y \<noteq> i \<longrightarrow> \<not> year_clash r y"
    and d': "academic_years d' = rows" "holidays d' = holidays d" "next_id d' = next_id d"
    using assms(1) by (auto simp: updateYear_def split: prod.splits)
  have "keeps_key (apply_year_update inp a)" by (simp add: keeps_key_def apply_year_update_def)
  moreover have "exclusive year_clash (next_id d) (academic_years d)" using assms(2) by (simp add: calendar_ok_def)
  ultimately have "exclusive year_clash (next_id d) rows" using years.update[OF _ upd] free by blast
  with assms(2) show ?thesis by (simp add: calendar_ok_def d')
qed

lemma createHoliday_ok:
  assumes "createHoliday e inp a d = Inr (r, d')" "calendar_ok d"
  shows "calendar_ok d'"
proof -
  have "holidays d' = holidays d @ [r]" "row_id r = next_id d" "next_id d' = Suc (next_id d)" "academic_years d' = academic_years d"
    and "\<forall>h \<in> set (holidays d). \<not> holiday_clash r h"
    using assms(1) by (auto simp: createHoliday_def Let_def)
  with assms(2) show ?thesis by (simp add: calendar_ok_def holidays_key.insert years.later_Suc)
qed

lemma updateHoliday_ok:
  assumes "updateHoliday e i inp v a d = Inr (r, d')" "calendar_ok d"
  shows "calendar_ok d'"
proof -
  obtain rows where upd: "updateWithVersion e (apply_holiday_update inp a) i v (holidays d) = (Updated r, rows)"
    and free: "\<forall>h \<in> set rows. row_id h = i \<or> \<not> holiday_clash r h"
    and d': "holidays d' = rows" "academic_years d' = academic_years d" "next_id d' = next_id d"
    using assms(1) by (auto simp: updateHoliday_def split: prod.splits)
  have "keeps_key (apply_holiday_update inp a)" by (simp add: keeps_key_def apply_holiday_update_def)
  moreover have "exclusive holiday_clash (next_id d) (holidays d)" using assms(2) by (simp add: calendar_ok_def)
  ultimately have "exclusive holiday_clash (next_id d) rows" using holidays_key.update[OF _ upd] free by blast
  with assms(2) show ?thesis by (simp add: calendar_ok_def d')
qed

lemma deleteHoliday_ok:
  assumes "deleteHoliday e i d = Inr d'" "calendar_ok d"
  shows "calendar_ok d'"
proof -
  have "holidays d' = filter (\<lambda>h. row_id h \<noteq> i) (holidays d)" "academic_years d' = academic_years d" "next_id d' = next_id d"
    using assms(1) by (auto simp: deleteHoliday_def)
  then show ?thesis using assms(2) by (simp add: calendar_ok_def holidays_key.remove)
qed

section \<open>One call of the catalog\<close>

inductive catalog_step :: "'a catalog_db_scheme \<Rightarrow> 'a catalog_db_scheme \<Rightarrow> bool" where
  create_program: "createProgram e pr grants a d = Inr (p, d') \<Longrightarrow> catalog_step d d'"
| update_program: "updateProgram e i up v grants a d = Inr (p, d') \<Longrightarrow> catalog_step d d'"
| create_course: "createCourse e cr grants a d = Inr (c, d') \<Longrightarrow> catalog_step d d'"
| update_course: "updateCourse e i uc v grants a d = Inr (cp, d') \<Longrightarrow> catalog_step d d'"
| set_prerequisites: "setPrerequisites e i ids v grants a d = Inr (cp, d') \<Longrightarrow> catalog_step d d'"
| create_shift: "createShift e sh a d = Inr (s, d') \<Longrightarrow> catalog_step d d'"
| update_shift: "updateShift e i us v a d = Inr (s, d') \<Longrightarrow> catalog_step d d'"
| create_room: "createRoom e rm a d = Inr (r, d') \<Longrightarrow> catalog_step d d'"
| update_room: "updateRoom e i ur v a d = Inr (r, d') \<Longrightarrow> catalog_step d d'"
| create_year: "createYear e yr a d = Inr (y, d') \<Longrightarrow> catalog_step d d'"
| update_year: "updateYear e i yr v a d = Inr (y, d') \<Longrightarrow> catalog_step d d'"
| create_intake: "createIntake e it a d = Inr (t, d') \<Longrightarrow> catalog_step d d'"
| update_intake: "updateIntake e i ut v a d = Inr (t, d') \<Longrightarrow> catalog_step d d'"
| create_holiday: "createHoliday e ch a d = Inr (h, d') \<Longrightarrow> catalog_step d d'"
| update_holiday: "updateHoliday e i uh v a d = Inr (h, d') \<Longrightarrow> catalog_step d d'"
| delete_holiday: "deleteHoliday e i d = Inr d' \<Longrightarrow> catalog_step d d'"
| elsewhere: "next_id d \<le> next_id d' \<Longrightarrow> courses d' = courses d \<Longrightarrow> course_prerequisites d' = course_prerequisites d
    \<Longrightarrow> academic_years d' = academic_years d \<Longrightarrow> holidays d' = holidays d \<Longrightarrow> catalog_step d d'"

inductive catalog_reachable :: "'a catalog_db_scheme \<Rightarrow> bool" where
  start: "courses d = [] \<Longrightarrow> course_prerequisites d = [] \<Longrightarrow> academic_years d = [] \<Longrightarrow> holidays d = [] \<Longrightarrow> catalog_reachable d"
| step: "catalog_reachable d \<Longrightarrow> catalog_step d d' \<Longrightarrow> catalog_reachable d'"

lemmas catalog_ops = createProgram_def updateProgram_def createCourse_def updateCourse_def setPrerequisites_def
  createShift_def updateShift_def createRoom_def updateRoom_def createYear_def updateYear_def createIntake_def
  updateIntake_def createHoliday_def updateHoliday_def deleteHoliday_def

lemma catalog_step_prerequisites:
  assumes "catalog_step d d'" "prerequisites_ok d"
  shows "prerequisites_ok d'"
  using assms
proof cases
  case create_course
  then show ?thesis using createCourse_ok assms(2) by blast
next
  case update_course
  then show ?thesis using updateCourse_ok assms(2) by blast
next
  case set_prerequisites
  then show ?thesis using setPrerequisites_ok assms(2) by blast
qed (rule prerequisites_ok_cong[OF _ _ _ assms(2)]; auto simp: catalog_ops course_keys_def Let_def split: prod.splits)+

lemma catalog_step_calendar:
  assumes "catalog_step d d'" "calendar_ok d"
  shows "calendar_ok d'"
  using assms
proof cases
  case create_year
  then show ?thesis using createYear_ok assms(2) by blast
next
  case update_year
  then show ?thesis using updateYear_ok assms(2) by blast
next
  case create_holiday
  then show ?thesis using createHoliday_ok assms(2) by blast
next
  case update_holiday
  then show ?thesis using updateHoliday_ok assms(2) by blast
next
  case delete_holiday
  then show ?thesis using deleteHoliday_ok assms(2) by blast
qed (rule calendar_ok_cong[OF _ _ _ assms(2)]; auto simp: catalog_ops Let_def split: prod.splits)+

lemma reachable_catalog:
  assumes "catalog_reachable d"
  shows "prerequisites_ok d \<and> calendar_ok d"
  using assms
proof induction
  case (start d)
  then show ?case
    by (simp add: prerequisites_ok_def calendar_ok_def course_keys_def prereq_rel_def exclusive_def ids_distinct_def acyclic_def)
next
  case (step d d')
  then show ?case using catalog_step_prerequisites catalog_step_calendar by blast
qed

end
