(* ===== verification/Schedule.thy ===== *)
theory Schedule
  imports CatalogOk
begin

text \<open>
  When a class meets (\<open>cohorts/domain/schedule.ts\<close>) and when it is completed
  (\<open>cohorts/domain/completion.ts\<close>). The loop over the days is compared with the plain list of the
  days of the range that qualify.
\<close>

section \<open>The dates of a class\<close>

definition MAX_SESSIONS :: nat where
  "MAX_SESSIONS = 400"

text \<open>\<open>date.slice(5)\<close>: month and day.\<close>

definition isHoliday :: "date \<Rightarrow> uuid \<Rightarrow> holiday_row list \<Rightarrow> bool" where
  "isHoliday d branchId rules = list_ex (\<lambda>h.
     (hol_branchId h = None \<or> hol_branchId h = Some branchId) \<and>
     (if hol_isRecurringAnnually h then month (hol_date h) = month d \<and> day (hol_date h) = day d
      else hol_date h = d)) rules"

record schedule_input =
  si_startDate :: date
  si_endDate :: date
  si_daysOfWeek :: "int list"
  si_branchId :: uuid
  si_holidays :: "holiday_row list"

definition meets :: "schedule_input \<Rightarrow> date \<Rightarrow> bool" where
  "meets inp d \<longleftrightarrow> weekdayOf d \<in> set (si_daysOfWeek inp) \<and> \<not> isHoliday d (si_branchId inp) (si_holidays inp)"

lemma addDays_1 [simp]: "addDays d 1 = next_day d"
  by (simp add: addDays_def)

text \<open>The loop ends: a day later is in a later year, or a later month, or nearer to the end of the month.\<close>

function session_loop :: "schedule_input \<Rightarrow> date list \<Rightarrow> date \<Rightarrow> date list" where
  "session_loop inp dates d =
     (if d \<le> si_endDate inp \<and> length dates \<le> MAX_SESSIONS then
        session_loop inp (if meets inp d then dates @ [d] else dates) (addDays d 1)
      else dates)"
  by auto
termination
proof (relation "measures [\<lambda>(inp, dates, d). nat (year (si_endDate inp) + 1 - year d), \<lambda>(inp, dates, d). 12 - month d,
    \<lambda>(inp, dates, d). 31 - day d]", goal_cases)
  case (2 inp dates d)
  then have "year d \<le> year (si_endDate inp)" by (auto simp: less_eq_date_def)
  moreover have "days_in_month (year d) (month d) \<le> 31" by (rule days_in_month_bounds)
  ultimately show ?case by (auto simp: next_day_def)
qed simp

declare session_loop.simps [simp del]

definition sessionDates :: "schedule_input \<Rightarrow> date list" where
  "sessionDates inp = session_loop inp [] (si_startDate inp)"

section \<open>The dates, described\<close>

text \<open>All the days from one date to another.\<close>

definition day_range :: "date \<Rightarrow> date \<Rightarrow> date list" where
  "day_range s t = map (\<lambda>k. addDays s (int k)) [0 ..< nat (days_of t - days_of s + 1)]"

lemma day_range_empty:
  assumes "valid_date s" "valid_date t" "t < s"
  shows "day_range s t = []"
proof -
  have "days_of t < days_of s" using assms by simp
  then show ?thesis by (simp add: day_range_def)
qed

lemma day_range_Cons:
  assumes "valid_date s" "valid_date t" "s \<le> t"
  shows "day_range s t = s # day_range (next_day s) t"
proof -
  have le: "days_of s \<le> days_of t" using assms by simp
  let ?n = "nat (days_of t - days_of s)"
  have "nat (days_of t - days_of s + 1) = Suc ?n" using le by simp
  moreover have "map (\<lambda>k. addDays s (int k)) [0 ..< Suc ?n] = s # map (\<lambda>k. addDays s (int (Suc k))) [0 ..< ?n]"
    by (simp only: upt_conv_Cons[of 0 "Suc ?n"] map_Suc_upt[symmetric] list.map) simp
  moreover have "addDays s (int (Suc k)) = addDays (next_day s) (int k)" for k
    using addDays_add[OF assms(1), of 1 "int k"] by (simp add: add.commute)
  ultimately show ?thesis using assms(1) by (simp add: day_range_def)
qed

lemma mem_day_range:
  assumes "valid_date s" "valid_date t"
  shows "d \<in> set (day_range s t) \<longleftrightarrow> valid_date d \<and> s \<le> d \<and> d \<le> t"
proof
  assume "d \<in> set (day_range s t)"
  then obtain k where k: "k < nat (days_of t - days_of s + 1)" and d: "d = addDays s (int k)"
    by (auto simp: day_range_def)
  have v: "valid_date d" using assms(1) d by simp
  have "days_of d = days_of s + int k" using assms(1) d by simp
  with k have "days_of s \<le> days_of d" "days_of d \<le> days_of t" by linarith+
  with v assms show "valid_date d \<and> s \<le> d \<and> d \<le> t" by simp
next
  assume d: "valid_date d \<and> s \<le> d \<and> d \<le> t"
  then have le: "days_of s \<le> days_of d" "days_of d \<le> days_of t" using assms by simp_all
  let ?k = "nat (days_of d - days_of s)"
  have "days_of (addDays s (int ?k)) = days_of d" using assms(1) le by simp
  then have "d = addDays s (int ?k)" using d assms(1) days_of_eq_iff[of "addDays s (int ?k)" d] by simp
  moreover have "?k < nat (days_of t - days_of s + 1)" using le by linarith
  ultimately show "d \<in> set (day_range s t)" unfolding day_range_def set_map set_upt by (intro image_eqI[of _ _ ?k]) auto
qed

lemma sorted_day_range:
  assumes "valid_date s"
  shows "sorted_wrt (<) (day_range s t)"
proof -
  have "addDays s (int i) < addDays s (int j)" if "i < j" for i j
    using assms that days_of_less_iff[of "addDays s (int i)" "addDays s (int j)"] by simp
  then show ?thesis by (auto simp: day_range_def sorted_wrt_map sorted_wrt_iff_nth_less)
qed

lemma session_loop_filter:
  assumes "valid_date d" "valid_date (si_endDate inp)" "length dates \<le> Suc MAX_SESSIONS"
  shows "session_loop inp dates d
       = dates @ take (Suc MAX_SESSIONS - length dates) (filter (meets inp) (day_range d (si_endDate inp)))"
  using assms
proof (induction inp dates d rule: session_loop.induct)
  case (1 inp dates d)
  show ?case
  proof (cases "d \<le> si_endDate inp \<and> length dates \<le> MAX_SESSIONS")
    case True
    have "valid_date (addDays d 1)" using "1.prems"(1) by (simp only: valid_addDays)
    then have "session_loop inp dates d = (let dates' = if meets inp d then dates @ [d] else dates in
        dates' @ take (Suc MAX_SESSIONS - length dates') (filter (meets inp) (day_range (next_day d) (si_endDate inp))))"
      using True "1.IH"[OF True] "1.prems" by (subst session_loop.simps) (simp add: Let_def)
    moreover have "Suc MAX_SESSIONS - length dates = Suc (MAX_SESSIONS - length dates)" using True by (simp add: Suc_diff_le)
    ultimately show ?thesis
      using True "1.prems"(1,2) by (simp add: day_range_Cons Let_def)
  next
    case False
    then consider "si_endDate inp < d" | "length dates = Suc MAX_SESSIONS" using "1.prems"(3) by fastforce
    moreover have "session_loop inp dates d = dates" using False by (subst session_loop.simps) (simp only: if_False)
    ultimately show ?thesis
      using "1.prems"(1,2) by cases (simp_all add: day_range_empty)
  qed
qed

lemma sessionDates_filter:
  assumes "valid_date (si_startDate inp)" "valid_date (si_endDate inp)"
  shows "sessionDates inp = take (Suc MAX_SESSIONS) (filter (meets inp) (day_range (si_startDate inp) (si_endDate inp)))"
  using session_loop_filter[OF assms, of "[]"] by (simp add: sessionDates_def)

lemma sessionDates_set:
  assumes "valid_date (si_startDate inp)" "valid_date (si_endDate inp)" "length (sessionDates inp) \<le> MAX_SESSIONS"
  shows "set (sessionDates inp) = {d. valid_date d \<and> si_startDate inp \<le> d \<and> d \<le> si_endDate inp \<and> meets inp d}"
    and "sorted_wrt (<) (sessionDates inp)"
proof -
  let ?all = "filter (meets inp) (day_range (si_startDate inp) (si_endDate inp))"
  have "length ?all \<le> MAX_SESSIONS"
    using assms(3) unfolding sessionDates_filter[OF assms(1,2)] by simp
  then have all: "sessionDates inp = ?all" by (simp add: sessionDates_filter[OF assms(1,2)])
  show "set (sessionDates inp) = {d. valid_date d \<and> si_startDate inp \<le> d \<and> d \<le> si_endDate inp \<and> meets inp d}"
    unfolding all using mem_day_range[OF assms(1,2)] by auto
  show "sorted_wrt (<) (sessionDates inp)"
    unfolding all by (rule sorted_wrt_filter) (rule sorted_day_range[OF assms(1)])
qed

section \<open>Completion\<close>

datatype completion_field = FieldScore | FieldAttendance

datatype completion_outcome =
    Incomplete "completion_field list" | Passed | Failed "completion_field list"

text \<open>\<open>result.score ?? 0\<close>.\<close>

definition or_zero :: "rat option \<Rightarrow> rat" where
  "or_zero x = (case x of None \<Rightarrow> 0 | Some v \<Rightarrow> v)"

definition evaluateCompletion :: "int option \<Rightarrow> rat option \<Rightarrow> rat option \<Rightarrow> rat option \<Rightarrow> completion_outcome" where
  "evaluateCompletion minAttendancePercent minScore score attendancePercent =
     (let missing = (if minScore \<noteq> None \<and> score = None then [FieldScore] else [])
            @ (if minAttendancePercent \<noteq> None \<and> attendancePercent = None then [FieldAttendance] else []) in
      if length missing > 0 then Incomplete missing
      else let reasons = (case minScore of Some m \<Rightarrow> if or_zero score < m then [FieldScore] else [] | None \<Rightarrow> [])
             @ (case minAttendancePercent of Some m \<Rightarrow> if or_zero attendancePercent < of_int m then [FieldAttendance] else [] | None \<Rightarrow> []) in
        if reasons = [] then Passed else Failed reasons)"

text \<open>A rule is met by its minimum or more; a rule that does not exist is met.\<close>

definition rule_met :: "rat option \<Rightarrow> rat option \<Rightarrow> bool" where
  "rule_met least got \<longleftrightarrow> (case least of None \<Rightarrow> True | Some m \<Rightarrow> (case got of None \<Rightarrow> False | Some v \<Rightarrow> m \<le> v))"

lemma evaluateCompletion_cases:
  "(evaluateCompletion ma ms s t = Passed \<longleftrightarrow> rule_met ms s \<and> rule_met (map_option of_int ma) t)"
  "(\<exists>fs. evaluateCompletion ma ms s t = Incomplete fs) \<longleftrightarrow> (ms \<noteq> None \<and> s = None) \<or> (ma \<noteq> None \<and> t = None)"
  by (cases ma; cases ms; cases s; cases t; force simp: evaluateCompletion_def rule_met_def or_zero_def Let_def)+

end
