(* ===== verification/Access.thy ===== *)
theory Access
  imports Authz AuditLog
begin

text \<open>
  What a person may do, read from the tables of roles (\<open>access/application/access.service.ts\<close>).
\<close>

definition toScope :: "scope_type \<Rightarrow> uuid option \<Rightarrow> scope" where
  "toScope t i = (case i of None \<Rightarrow> Global | Some k \<Rightarrow>
     (case t of ScopeGlobal \<Rightarrow> Global | ScopeBranch \<Rightarrow> Branch k | ScopeDepartment \<Rightarrow> Department k))"

definition grantsFor :: "uuid \<Rightarrow> 'a access_db_scheme \<Rightarrow> grant list" where
  "grantsFor userId d =
     concat (map (\<lambda>a. map (\<lambda>p. \<lparr>gr_permission = rp_permission p, gr_scope = toScope (ra_scopeType a) (ra_scopeId a)\<rparr>)
       (filter (\<lambda>p. rp_roleId p = ra_roleId a \<and> isPermission (rp_permission p)) (role_permission_rows d)))
     (filter (\<lambda>a. ra_userId a = userId) (user_role_assignments d)))"

text \<open>Active accounts with a password that hold a role at any scope (their order is left out).\<close>

definition holds_role :: "string \<Rightarrow> 'a access_db_scheme \<Rightarrow> uuid \<Rightarrow> bool" where
  "holds_role roleKey d userId = list_ex (\<lambda>a. ra_userId a = userId
     \<and> list_ex (\<lambda>r. row_id r = ra_roleId a \<and> rol_key r = roleKey) (roles d)) (user_role_assignments d)"

definition activeUsersWithRole :: "string \<Rightarrow> 'a access_db_scheme \<Rightarrow> (uuid \<times> string) list" where
  "activeUsersWithRole roleKey d = map (\<lambda>u. (row_id u, usr_displayName u))
     (filter (\<lambda>u. holds_role roleKey d (row_id u) \<and> usr_status u = AccActive \<and> usr_passwordHash u \<noteq> None) (user_accounts d))"

end
