(* ===== verification/Cohorts.thy ===== *)
theory Cohorts
  imports Schedule Access "HOL-Library.Product_Lexorder"
begin

text \<open>
  Scheduled classes (\<open>cohorts/application/cohorts.service.ts\<close>): a cohort of a course in a room and a
  shift, its sessions generated from the shift's days, its status, and the numbers it is shown with.
\<close>

section \<open>Statuses\<close>

fun COHORT_TRANSITIONS :: "cohort_status \<Rightarrow> cohort_status list" where
  "COHORT_TRANSITIONS Planned = [Open, Cancelled]"
| "COHORT_TRANSITIONS Open = [Planned, Running, Cancelled]"
| "COHORT_TRANSITIONS Running = [CohCompleted]"
| "COHORT_TRANSITIONS CohCompleted = []"
| "COHORT_TRANSITIONS Cancelled = []"

definition LIVE_COHORT_STATUSES :: "cohort_status list" where
  "LIVE_COHORT_STATUSES = [Planned, Open, Running]"

definition ENROLLING_COHORT_STATUSES :: "cohort_status list" where
  "ENROLLING_COHORT_STATUSES = [Open, Running]"

fun cohort_status_name :: "cohort_status \<Rightarrow> string" where
  "cohort_status_name Planned = ''planned''" | "cohort_status_name Open = ''open''"
| "cohort_status_name Running = ''running''" | "cohort_status_name CohCompleted = ''completed''"
| "cohort_status_name Cancelled = ''cancelled''"

section \<open>Reading\<close>

definition cohort_row :: "uuid \<Rightarrow> 'a classes_db_scheme \<Rightarrow> app_error + cohort_row" where
  "cohort_row i d = demand (find_by row_id i (cohorts d)) (Cohorts CohortNotFound)"

definition enrolled_in :: "uuid \<Rightarrow> enrollment_status \<Rightarrow> 'a classes_db_scheme \<Rightarrow> enrollment_row list" where
  "enrolled_in cohortId status d =
     filter (\<lambda>en. enr_cohortId en = cohortId \<and> enr_status en = status) (enrollments d)"

record cohort_view =
  cv_row :: cohort_row
  cv_capacity :: int
  cv_enrolledCount :: nat
  cv_waitlistCount :: nat
  cv_seatsLeft :: int
  cv_sessionCount :: nat

text \<open>The smaller of the cohort's own limit and its room's seats.\<close>

definition seatsOf :: "cohort_row \<Rightarrow> 'a classes_db_scheme \<Rightarrow> int" where
  "seatsOf c d = min (coh_maxSize c)
     (case find_by row_id (coh_roomId c) (rooms d) of None \<Rightarrow> coh_maxSize c | Some r \<Rightarrow> rm_capacity r)"

definition withNumbers :: "cohort_row \<Rightarrow> 'a classes_db_scheme \<Rightarrow> cohort_view" where
  "withNumbers c d = (let enrolled = length (enrolled_in (row_id c) EnrActive d) in
     \<lparr>cv_row = c, cv_capacity = seatsOf c d, cv_enrolledCount = enrolled,
      cv_waitlistCount = length (enrolled_in (row_id c) Waitlisted d),
      cv_seatsLeft = max (seatsOf c d - int enrolled) 0,
      cv_sessionCount = length (filter (\<lambda>s. ses_cohortId s = row_id c) (class_sessions d))\<rparr>)"

definition getCohort :: "uuid \<Rightarrow> grant list \<Rightarrow> 'a classes_db_scheme \<Rightarrow> app_error + cohort_view" where
  "getCohort i grants d =
     bindE (cohort_row i d) (\<lambda>row.
     bindE (assertBranchAccess grants ''cohorts.read'' (coh_branchId row)) (\<lambda>_. Inr (withNumbers row d)))"

definition cohortSessions :: "uuid \<Rightarrow> grant list \<Rightarrow> 'a classes_db_scheme \<Rightarrow> app_error + session_row list" where
  "cohortSessions i grants d =
     bindE (cohort_row i d) (\<lambda>row.
     bindE (assertBranchAccess grants ''cohorts.read'' (coh_branchId row)) (\<lambda>_.
     Inr (sort_key ses_startsAt (filter (\<lambda>s. ses_cohortId s = i) (class_sessions d)))))"

text \<open>\<open>listJoinable\<close>: what the public website may offer, soonest first, at most 200.\<close>

definition listJoinable :: "date \<Rightarrow> uuid option \<Rightarrow> 'a classes_db_scheme \<Rightarrow> cohort_view list" where
  "listJoinable on_day courseId d = map (\<lambda>c. withNumbers c d) (take 200 (sort_key (\<lambda>c. (coh_startDate c, row_id c))
     (filter (\<lambda>c. coh_status c \<in> {Open, Planned} \<and> on_day \<le> coh_endDate c \<and> (\<forall>k. courseId = Some k \<longrightarrow> coh_courseId c = k))
       (cohorts d))))"

section \<open>What a cohort points at\<close>

record cohort_refs =
  cr_courseId :: uuid
  cr_shiftId :: uuid
  cr_roomId :: uuid
  cr_intakeId :: "uuid option"
  cr_instructorId :: "uuid option"

definition resolve_refs :: "cohort_refs \<Rightarrow> 'a classes_db_scheme
    \<Rightarrow> app_error + ((course_row \<times> uuid) \<times> shift_row \<times> room_row)" where
  "resolve_refs inp d =
     bindE (findWithDepartment (cr_courseId inp) d) (\<lambda>found.
     bindE (demand (case found of Some (c, dept) \<Rightarrow> if crs_isActive c then Some (c, dept) else None | None \<Rightarrow> None)
              (Cohorts (CohortReferenceNotFound ''course''))) (\<lambda>course.
     bindE (demand (case findShift (cr_shiftId inp) d of Some s \<Rightarrow> if sh_isActive s then Some s else None | None \<Rightarrow> None)
              (Cohorts (CohortReferenceNotFound ''shift''))) (\<lambda>shift.
     bindE (demand (case findRoom (cr_roomId inp) d of Some r \<Rightarrow> if rm_isActive r then Some r else None | None \<Rightarrow> None)
              (Cohorts (CohortReferenceNotFound ''room''))) (\<lambda>room.
     bindE (case cr_intakeId inp of None \<Rightarrow> Inr ()
            | Some k \<Rightarrow> throwIf (\<not> intakeExists k d) (Cohorts (CohortReferenceNotFound ''intake''))) (\<lambda>_.
     bindE (case cr_instructorId inp of None \<Rightarrow> Inr ()
            | Some k \<Rightarrow> throwIf (\<not> list_ex (\<lambda>(u, _). u = k) (activeUsersWithRole ''instructor'' d)) (Cohorts NotAnInstructor)) (\<lambda>_.
     Inr (course, shift, room)))))))"

section \<open>Sessions\<close>

text \<open>The exclusion constraints: \<open>tstzrange(starts_at, ends_at)\<close> with the same room, or instructor.\<close>

definition times_overlap :: "session_row \<Rightarrow> session_row \<Rightarrow> bool" where
  "times_overlap x y \<longleftrightarrow> ses_startsAt x < ses_endsAt y \<and> ses_startsAt y < ses_endsAt x"

definition room_clash :: "session_row \<Rightarrow> session_row \<Rightarrow> bool" where
  "room_clash x y \<longleftrightarrow> ses_roomId x = ses_roomId y \<and> times_overlap x y"

definition instructor_clash :: "session_row \<Rightarrow> session_row \<Rightarrow> bool" where
  "instructor_clash x y \<longleftrightarrow> ses_instructorId x \<noteq> None \<and> ses_instructorId x = ses_instructorId y \<and> times_overlap x y"

definition insertSession :: "session_row \<Rightarrow> session_row list \<Rightarrow> app_error + session_row list" where
  "insertSession s rows =
     bindE (throwIf (\<not> ses_startsAt s < ses_endsAt s) (CheckViolation ''class_sessions_time_range_check'')) (\<lambda>_.
     bindE (throwIf (\<exists>x \<in> set rows. room_clash s x) (Cohorts RoomConflict)) (\<lambda>_.
     bindE (throwIf (\<exists>x \<in> set rows. instructor_clash s x) (Cohorts InstructorConflict)) (\<lambda>_.
     Inr (rows @ [s]))))"

definition new_session :: "env \<Rightarrow> string \<Rightarrow> shift_row \<Rightarrow> cohort_row \<Rightarrow> uuid \<Rightarrow> date \<Rightarrow> session_row" where
  "new_session e timezone shift c i meeting =
     \<lparr>row_id = i, ses_cohortId = row_id c, ses_roomId = coh_roomId c, ses_instructorId = coh_instructorId c,
      ses_sessionDate = meeting, ses_startsAt = zoned e meeting (sh_startTime shift) timezone,
      ses_endsAt = zoned e meeting (sh_endTime shift) timezone, ses_createdAt = now e\<rparr>"

fun insertSessions :: "env \<Rightarrow> string \<Rightarrow> shift_row \<Rightarrow> cohort_row \<Rightarrow> date list \<Rightarrow> uuid \<Rightarrow> session_row list
    \<Rightarrow> app_error + (uuid \<times> session_row list)" where
  "insertSessions e timezone shift c [] n rows = Inr (n, rows)"
| "insertSessions e timezone shift c (d # ds) n rows =
     bindE (insertSession (new_session e timezone shift c n d) rows) (\<lambda>rows'.
     insertSessions e timezone shift c ds (Suc n) rows')"

definition schedule_of :: "shift_row \<Rightarrow> cohort_row \<Rightarrow> 'a classes_db_scheme \<Rightarrow> schedule_input" where
  "schedule_of shift c d = \<lparr>si_startDate = coh_startDate c, si_endDate = coh_endDate c, si_daysOfWeek = sh_daysOfWeek shift,
     si_branchId = coh_branchId c, si_holidays = listHolidays d\<rparr>"

definition generateSessions :: "env \<Rightarrow> cohort_row \<Rightarrow> shift_row \<Rightarrow> 'a classes_db_scheme
    \<Rightarrow> app_error + (nat \<times> 'a classes_db_scheme)" where
  "generateSessions e c shift d =
     (let dates = sessionDates (schedule_of shift c d) in
     bindE (throwIf (length dates = 0) (Cohorts NoSessions)) (\<lambda>_.
     bindE (throwIf (length dates > MAX_SESSIONS) (Cohorts TooManySessions)) (\<lambda>_.
     bindE (institution_row d) (\<lambda>inst.
     bindE (insertSessions e (inst_timezone inst) shift c dates (next_id d)
              (filter (\<lambda>s. ses_cohortId s \<noteq> row_id c) (class_sessions d))) (\<lambda>(n, rows).
     Inr (length dates, d\<lparr>next_id := n, class_sessions := rows\<rparr>))))))"

section \<open>Creating and changing\<close>

definition cohort_target :: "uuid option \<Rightarrow> uuid \<Rightarrow> target option" where
  "cohort_target departmentId branchId = Some \<lparr>tg_branchId = Some branchId, tg_departmentId = departmentId\<rparr>"

record create_cohort =
  cco_name :: string
  cco_courseId :: uuid
  cco_intakeId :: "uuid option"
  cco_shiftId :: uuid
  cco_roomId :: uuid
  cco_instructorId :: "uuid option"
  cco_startDate :: date
  cco_endDate :: date
  cco_maxSize :: int

definition valid_cohort_request :: "create_cohort \<Rightarrow> bool" where
  "valid_cohort_request inp \<longleftrightarrow> valid_date (cco_startDate inp) \<and> valid_date (cco_endDate inp)
     \<and> cco_startDate inp \<le> cco_endDate inp \<and> 1 \<le> cco_maxSize inp \<and> cco_maxSize inp \<le> 500"

definition new_cohort :: "env \<Rightarrow> actor \<Rightarrow> uuid \<Rightarrow> create_cohort \<Rightarrow> uuid \<Rightarrow> cohort_row" where
  "new_cohort e a i inp branchId =
     \<lparr>row_id = i, createdAt = now e, updatedAt = now e,
      createdBy = Some (actor_userId a), updatedBy = Some (actor_userId a), version = 1,
      coh_name = cco_name inp, coh_courseId = cco_courseId inp, coh_intakeId = cco_intakeId inp,
      coh_shiftId = cco_shiftId inp, coh_roomId = cco_roomId inp, coh_instructorId = cco_instructorId inp,
      coh_branchId = branchId, coh_startDate = cco_startDate inp, coh_endDate = cco_endDate inp,
      coh_maxSize = cco_maxSize inp, coh_status = Planned\<rparr>"

definition createCohort :: "env \<Rightarrow> create_cohort \<Rightarrow> grant list \<Rightarrow> actor \<Rightarrow> 'a classes_db_scheme
    \<Rightarrow> app_error + (cohort_view \<times> 'a classes_db_scheme)" where
  "createCohort e inp grants a d =
     bindE (resolve_refs \<lparr>cr_courseId = cco_courseId inp, cr_shiftId = cco_shiftId inp, cr_roomId = cco_roomId inp,
              cr_intakeId = cco_intakeId inp, cr_instructorId = cco_instructorId inp\<rparr> d) (\<lambda>(course, shift, room).
     bindE (assertScope grants ''cohorts.manage'' (cohort_target (Some (snd course)) (rm_branchId room))) (\<lambda>_.
     case take_id d of (i, d1) \<Rightarrow>
     let row = new_cohort e a i inp (rm_branchId room) in
     bindE (generateSessions e row shift (d1\<lparr>cohorts := cohorts d1 @ [row]\<rparr>)) (\<lambda>(sessionCount, d2).
     let d3 = audit e ''cohort.created'' ''cohort'' (JUuid i)
       [(''name'', JStr (coh_name row)), (''courseId'', JUuid (coh_courseId row)), (''roomId'', JUuid (coh_roomId row)),
        (''sessions'', JInt (int sessionCount))] d2 in
     bindE (getCohort i grants d3) (\<lambda>view. Inr (view, d3)))))"

record update_cohort =
  uco_name :: "string option"
  uco_intakeId :: "uuid option option"
  uco_shiftId :: "uuid option"
  uco_roomId :: "uuid option"
  uco_instructorId :: "uuid option option"
  uco_startDate :: "date option"
  uco_endDate :: "date option"
  uco_maxSize :: "int option"

definition valid_cohort_update :: "update_cohort \<Rightarrow> bool" where
  "valid_cohort_update inp \<longleftrightarrow> pred_option valid_date (uco_startDate inp) \<and> pred_option valid_date (uco_endDate inp)
     \<and> pred_option (\<lambda>n. 1 \<le> n \<and> n \<le> 500) (uco_maxSize inp)"

definition changed :: "'a option \<Rightarrow> 'a \<Rightarrow> bool" where
  "changed new old \<longleftrightarrow> (case new of None \<Rightarrow> False | Some x \<Rightarrow> x \<noteq> old)"

definition changesSchedule :: "update_cohort \<Rightarrow> cohort_row \<Rightarrow> bool" where
  "changesSchedule inp before \<longleftrightarrow> changed (uco_shiftId inp) (coh_shiftId before) \<or> changed (uco_roomId inp) (coh_roomId before)
     \<or> changed (uco_instructorId inp) (coh_instructorId before) \<or> changed (uco_startDate inp) (coh_startDate before)
     \<or> changed (uco_endDate inp) (coh_endDate before)"

definition apply_cohort_update :: "update_cohort \<Rightarrow> uuid \<Rightarrow> actor \<Rightarrow> cohort_row \<Rightarrow> cohort_row" where
  "apply_cohort_update inp branchId a r = r\<lparr>coh_name := override (uco_name inp) (coh_name r),
     coh_intakeId := override (uco_intakeId inp) (coh_intakeId r), coh_shiftId := override (uco_shiftId inp) (coh_shiftId r),
     coh_roomId := override (uco_roomId inp) (coh_roomId r), coh_instructorId := override (uco_instructorId inp) (coh_instructorId r),
     coh_startDate := override (uco_startDate inp) (coh_startDate r), coh_endDate := override (uco_endDate inp) (coh_endDate r),
     coh_maxSize := override (uco_maxSize inp) (coh_maxSize r), coh_branchId := branchId, updatedBy := Some (actor_userId a)\<rparr>"

definition cohort_fields :: "update_cohort \<Rightarrow> json" where
  "cohort_fields inp = JArr (map (\<lambda>(k, _). JStr k) (filter snd
     [(''name'', uco_name inp \<noteq> None), (''intakeId'', uco_intakeId inp \<noteq> None), (''shiftId'', uco_shiftId inp \<noteq> None),
      (''roomId'', uco_roomId inp \<noteq> None), (''instructorId'', uco_instructorId inp \<noteq> None),
      (''startDate'', uco_startDate inp \<noteq> None), (''endDate'', uco_endDate inp \<noteq> None), (''maxSize'', uco_maxSize inp \<noteq> None)]))"

definition reschedule :: "env \<Rightarrow> bool \<Rightarrow> cohort_row \<Rightarrow> shift_row \<Rightarrow> 'a classes_db_scheme \<Rightarrow> app_error + 'a classes_db_scheme" where
  "reschedule e changes row shift d =
     (if changes then bindE (generateSessions e row shift d) (\<lambda>(_, d'). Inr d') else Inr d)"

lemma reschedule_Inr [simp]:
  "reschedule e changes row shift d = Inr d' \<longleftrightarrow>
     (if changes then \<exists>k. generateSessions e row shift d = Inr (k, d') else d' = d)"
  by (auto simp: reschedule_def)

text \<open>The table's check: the row an update stores must not end before it starts.\<close>

definition dates_checked :: "cohort_row update_result \<Rightarrow> app_error + unit" where
  "dates_checked result = (case result of
     Updated row \<Rightarrow> throwIf (coh_endDate row < coh_startDate row) (CheckViolation ''cohorts_date_range_check'')
   | _ \<Rightarrow> Inr ())"

lemma dates_checked_Inr [simp]:
  "dates_checked result = Inr u \<longleftrightarrow> (\<forall>row. result = Updated row \<longrightarrow> coh_startDate row \<le> coh_endDate row)"
  by (cases result) (auto simp: dates_checked_def not_less)

definition updateCohort :: "env \<Rightarrow> uuid \<Rightarrow> update_cohort \<Rightarrow> int \<Rightarrow> grant list \<Rightarrow> actor \<Rightarrow> 'a classes_db_scheme
    \<Rightarrow> app_error + (cohort_view \<times> 'a classes_db_scheme)" where
  "updateCohort e i inp expectedVersion grants a d =
     bindE (cohort_row i d) (\<lambda>before.
     bindE (findWithDepartment (coh_courseId before) d) (\<lambda>course.
     bindE (assertScope grants ''cohorts.manage'' (cohort_target (map_option snd course) (coh_branchId before))) (\<lambda>_.
     bindE (throwIf (coh_status before = CohCompleted \<or> coh_status before = Cancelled) (Cohorts ScheduleLocked)) (\<lambda>_.
     bindE (throwIf (changesSchedule inp before \<and> coh_status before = Running) (Cohorts ScheduleLocked)) (\<lambda>_.
     bindE (resolve_refs \<lparr>cr_courseId = coh_courseId before, cr_shiftId = override (uco_shiftId inp) (coh_shiftId before),
              cr_roomId = override (uco_roomId inp) (coh_roomId before),
              cr_intakeId = override (uco_intakeId inp) (coh_intakeId before),
              cr_instructorId = override (uco_instructorId inp) (coh_instructorId before)\<rparr> d) (\<lambda>(_, shift, room).
     bindE (if rm_branchId room \<noteq> coh_branchId before
            then assertScope grants ''cohorts.manage'' (cohort_target (map_option snd course) (rm_branchId room))
            else Inr ()) (\<lambda>_.
     bindE (throwIf (min (override (uco_maxSize inp) (coh_maxSize before)) (rm_capacity room)
                       < int (length (enrolled_in i EnrActive d))) (Cohorts CapacityBelowEnrolled)) (\<lambda>_.
     case updateWithVersion e (apply_cohort_update inp (rm_branchId room) a) i expectedVersion (cohorts d) of (result, rows) \<Rightarrow>
     bindE (dates_checked result) (\<lambda>_.
     bindE (versionedRow (Cohorts CohortNotFound) result) (\<lambda>row.
     let d1 = d\<lparr>cohorts := rows\<rparr> in
     bindE (reschedule e (changesSchedule inp before) row shift d1) (\<lambda>d2.
     let d3 = audit e ''cohort.updated'' ''cohort'' (JUuid i)
       [(''name'', JStr (coh_name before)),
        (''fields'', cohort_fields inp),
        (''rescheduled'', JBool (changesSchedule inp before))] d2 in
     bindE (getCohort i grants d3) (\<lambda>view. Inr (view, d3)))))))))))))"

definition setCohortStatus :: "env \<Rightarrow> uuid \<Rightarrow> cohort_status \<Rightarrow> int \<Rightarrow> grant list \<Rightarrow> actor \<Rightarrow> 'a classes_db_scheme
    \<Rightarrow> app_error + (cohort_view \<times> 'a classes_db_scheme)" where
  "setCohortStatus e i target expectedVersion grants a d =
     bindE (cohort_row i d) (\<lambda>before.
     bindE (findWithDepartment (coh_courseId before) d) (\<lambda>course.
     bindE (assertScope grants ''cohorts.manage'' (cohort_target (map_option snd course) (coh_branchId before))) (\<lambda>_.
     bindE (throwIf (target \<notin> set (COHORT_TRANSITIONS (coh_status before)))
              (Cohorts (InvalidCohortTransition (coh_status before) target))) (\<lambda>_.
     bindE (if target = Cancelled then
              throwIf (length (enrolled_in i EnrActive d) + length (enrolled_in i Waitlisted d) > 0)
                (Cohorts (HasEnrollments ''Withdraw or move them before cancelling.''))
            else if target = CohCompleted then
              throwIf (length (enrolled_in i EnrActive d) > 0)
                (Cohorts (HasEnrollments ''Record their results before finishing the cohort.''))
            else Inr ()) (\<lambda>_.
     case updateWithVersion e (\<lambda>r. r\<lparr>coh_status := target, updatedBy := Some (actor_userId a)\<rparr>) i expectedVersion (cohorts d) of
       (result, rows) \<Rightarrow>
     bindE (versionedRow (Cohorts CohortNotFound) result) (\<lambda>row.
     let d1 = d\<lparr>cohorts := rows\<rparr>;
         d2 = (if target = Cancelled then d1\<lparr>class_sessions := filter (\<lambda>s. ses_cohortId s \<noteq> i) (class_sessions d1)\<rparr> else d1);
         d3 = audit e ''cohort.status_changed'' ''cohort'' (JUuid i)
           [(''name'', JStr (coh_name row)),
            (''status'', JObj [(''from'', JStr (cohort_status_name (coh_status before))), (''to'', JStr (cohort_status_name target))])] d2 in
     bindE (getCohort i grants d3) (\<lambda>view. Inr (view, d3))))))))"

end
