(* ===== verification/Phone.thy ===== *)
theory Phone
  imports JsString
begin

text \<open>
  Phone numbers in one form (\<open>packages/contracts/src/phone.ts\<close>), and the words of a search box
  (\<open>apps/api/src/common/db/like.ts\<close>).
\<close>

section \<open>Normalizing a phone number\<close>

definition CALLING_CODE :: string where
  "CALLING_CODE = ''251''"

definition MIN_DIGITS :: nat where "MIN_DIGITS = 8"
definition MAX_DIGITS :: nat where "MAX_DIGITS = 15"

text \<open>\<open>/^[+\d(][\d\s().-]*$/\<close>.\<close>

definition phone_shape :: "string \<Rightarrow> bool" where
  "phone_shape s = (case s of
     [] \<Rightarrow> False
   | c # cs \<Rightarrow> (c = CHR ''+'' \<or> is_digit c \<or> c = CHR ''('') \<and>
       list_all (\<lambda>x. is_digit x \<or> is_space x \<or> x \<in> {CHR ''('', CHR '')'', CHR ''.'', CHR ''-''}) cs)"

definition starts_with :: "string \<Rightarrow> string \<Rightarrow> bool" where
  "starts_with p s \<longleftrightarrow> take (length p) s = p"

definition full_number :: "string \<Rightarrow> string \<Rightarrow> string" where
  "full_number trimmed digits =
     (if starts_with ''+'' trimmed then digits
      else if starts_with ''00'' digits then drop 2 digits
      else if starts_with ''0'' digits then CALLING_CODE @ drop 1 digits
      else if starts_with CALLING_CODE digits then digits
      else CALLING_CODE @ digits)"

definition normalizePhone :: "string \<Rightarrow> string option" where
  "normalizePhone input =
     (let trimmed = trim input in
      if \<not> phone_shape trimmed then None
      else let full = full_number trimmed (filter is_digit trimmed) in
        if MIN_DIGITS \<le> length full \<and> length full \<le> MAX_DIGITS then Some (CHR ''+'' # full) else None)"

definition normal_phone :: "string \<Rightarrow> bool" where
  "normal_phone s \<longleftrightarrow> (\<exists>ds. s = CHR ''+'' # ds \<and> (\<forall>c \<in> set ds. is_digit c) \<and> MIN_DIGITS \<le> length ds \<and> length ds \<le> MAX_DIGITS)"

lemma is_digit_calling_code: "c \<in> set CALLING_CODE \<Longrightarrow> is_digit c"
  by (auto simp: CALLING_CODE_def is_digit_def)

lemma full_number_digits: "\<forall>c \<in> set (full_number t (filter is_digit s)). is_digit c"
proof -
  have d: "\<forall>c \<in> set (drop n (filter is_digit s)). is_digit c" for n by (auto dest: in_set_dropD)
  have code: "\<forall>c \<in> set CALLING_CODE. is_digit c" by (simp add: CALLING_CODE_def is_digit_def)
  show ?thesis
    unfolding full_number_def using d[of 0] d[of 1] d[of 2] code by (simp only: drop0 set_append ball_Un split: if_splits) blast
qed

lemma normalizePhone_normal:
  assumes "normalizePhone s = Some t"
  shows "normal_phone t"
proof -
  let ?full = "full_number (trim s) (filter is_digit (trim s))"
  have "t = CHR ''+'' # ?full" "MIN_DIGITS \<le> length ?full" "length ?full \<le> MAX_DIGITS"
    using assms by (simp_all add: normalizePhone_def Let_def split: if_splits)
  moreover have "\<forall>c \<in> set ?full. is_digit c" by (rule full_number_digits)
  ultimately show ?thesis by (auto simp: normal_phone_def)
qed

lemma plus_not_digit [simp]: "\<not> is_digit (CHR ''+'')" and plus_not_space [simp]: "\<not> is_space (CHR ''+'')"
  by (simp_all add: is_digit_def is_space_def)

lemma normalizePhone_id:
  assumes "normal_phone t"
  shows "normalizePhone t = Some t"
proof -
  obtain ds where t: "t = CHR ''+'' # ds" and ds: "\<forall>c \<in> set ds. is_digit c" "MIN_DIGITS \<le> length ds" "length ds \<le> MAX_DIGITS"
    using assms by (auto simp: normal_phone_def)
  have "trim t = t" using ds(1) by (intro trim_no_space) (auto simp: t digit_not_space)
  moreover have "phone_shape t" using ds(1) by (auto simp: t phone_shape_def list_all_iff)
  moreover have "filter is_digit t = ds" using ds(1) by (simp add: t filter_id_conv)
  moreover have "full_number t ds = ds" by (simp add: full_number_def starts_with_def t)
  ultimately show ?thesis using ds t by (simp add: normalizePhone_def)
qed

text \<open>The ways of typing one number: local with a zero, bare, international with \<open>+\<close> or with \<open>00\<close>.\<close>

definition phone_spellings :: "string \<Rightarrow> string list" where
  "phone_spellings local = [CHR ''0'' # local, CALLING_CODE @ local, CHR ''+'' # CALLING_CODE @ local, ''00'' @ CALLING_CODE @ local]"

lemma normalizePhone_spelling:
  assumes "\<forall>c \<in> set local. is_digit c" "local \<noteq> []" "hd local \<noteq> CHR ''0''" "5 \<le> length local" "length local \<le> 12"
    and "s \<in> set (phone_spellings local)"
  shows "normalizePhone s = Some (CHR ''+'' # CALLING_CODE @ local)"
proof -
  have digits: "\<forall>c \<in> set s. is_digit c \<or> c = CHR ''+''"
    using assms(1,6) is_digit_calling_code by (auto simp: phone_spellings_def is_digit_def)
  have "trim s = s" by (rule trim_no_space) (use digits in \<open>auto simp: digit_not_space\<close>)
  moreover have "phone_shape s"
    using assms(1,6) by (auto simp: phone_spellings_def phone_shape_def CALLING_CODE_def list_all_iff is_digit_def)
  moreover have "full_number s (filter is_digit s) = CALLING_CODE @ local"
    using assms(1,2,3,6)
    by (cases local) (auto simp: phone_spellings_def full_number_def starts_with_def CALLING_CODE_def is_digit_def filter_id_conv)
  ultimately show ?thesis
    using assms(4,5) by (simp add: normalizePhone_def CALLING_CODE_def MIN_DIGITS_def MAX_DIGITS_def)
qed

section \<open>Search words\<close>

definition escapeLike :: "string \<Rightarrow> string" where
  "escapeLike v = concat (map (\<lambda>c. if (of_char c :: nat) = 92 \<or> c = CHR ''%'' \<or> c = CHR ''_'' then [char_of (92 :: nat), c] else [c]) v)"

text \<open>\<open>split(/\s+/)\<close> with the empty words filtered away.\<close>

function words :: "string \<Rightarrow> string list" where
  "words s = (let t = dropWhile is_space s in
     if t = [] then [] else takeWhile (\<lambda>c. \<not> is_space c) t # words (dropWhile (\<lambda>c. \<not> is_space c) t))"
  by auto
termination
proof (relation "measure length", goal_cases)
  case (2 s t)
  then obtain c cs where t: "t = c # cs" by (metis list.exhaust)
  then have "\<not> is_space c" using 2 by (metis hd_dropWhile list.sel(1))
  then have "dropWhile (\<lambda>c. \<not> is_space c) t = dropWhile (\<lambda>c. \<not> is_space c) cs" using t by simp
  then have "length (dropWhile (\<lambda>c. \<not> is_space c) t) \<le> length cs" by (simp add: length_dropWhile_le)
  also have "\<dots> < length t" using t by simp
  also have "\<dots> \<le> length s" using 2 by (simp add: length_dropWhile_le)
  finally show ?case by simp
qed simp

declare words.simps [simp del]

definition searchTokens :: "string \<Rightarrow> nat \<Rightarrow> string list" where
  "searchTokens query most = take most (words (toLowerCase query))"

definition phonePattern :: "string \<Rightarrow> string option" where
  "phonePattern token = (let local = dropWhile (\<lambda>c. c = CHR ''0'') (filter is_digit token) in
     if 3 \<le> length local then Some (CHR ''%'' # local @ ''%'') else None)"

lemma words_spec: "w \<in> set (words s) \<Longrightarrow> w \<noteq> [] \<and> (\<forall>c \<in> set w. \<not> is_space c \<and> c \<in> set s)"
proof (induction s rule: words.induct)
  case (1 s)
  let ?t = "dropWhile is_space s"
  have sub: "set ?t \<subseteq> set s" by (auto dest: set_dropWhileD)
  have ne: "?t \<noteq> []" using "1.prems" by (auto simp: words.simps[of s] Let_def split: if_splits)
  then have w: "w = takeWhile (\<lambda>c. \<not> is_space c) ?t \<or> w \<in> set (words (dropWhile (\<lambda>c. \<not> is_space c) ?t))"
    using "1.prems" by (auto simp: words.simps[of s] Let_def split: if_split_asm)
  show ?case
  proof (cases "w = takeWhile (\<lambda>c. \<not> is_space c) ?t")
    case True
    moreover have "takeWhile (\<lambda>c. \<not> is_space c) ?t \<noteq> []" using ne hd_dropWhile[of is_space s] by (cases ?t) auto
    ultimately show ?thesis using sub by (auto dest: set_takeWhileD)
  next
    case False
    then have "w \<in> set (words (dropWhile (\<lambda>c. \<not> is_space c) ?t))" using w by blast
    then have "w \<noteq> [] \<and> (\<forall>c \<in> set w. \<not> is_space c \<and> c \<in> set (dropWhile (\<lambda>c. \<not> is_space c) ?t))"
      by (rule "1.IH"[OF refl ne])
    moreover have "set (dropWhile (\<lambda>c. \<not> is_space c) ?t) \<subseteq> set s"
      using sub set_dropWhileD[of _ "\<lambda>c. \<not> is_space c" ?t] by blast
    ultimately show ?thesis by blast
  qed
qed

end
