(* ===== verification/Students.thy ===== *)
theory Students
  imports CatalogOk Phone "HOL-Library.Product_Lexorder"
begin

text \<open>
  Student records (\<open>students/application/students.service.ts\<close>) and the search for people who may
  already be registered (\<open>duplicates.service.ts\<close>). The trigram similarity of \<open>pg_trgm\<close> is the
  parameter \<open>similarity\<close> of the surroundings.
\<close>

section \<open>Possible duplicates\<close>

definition NAME_SIMILARITY_THRESHOLD :: rat where
  "NAME_SIMILARITY_THRESHOLD = 45 / 100"

definition MAX_CANDIDATES :: nat where
  "MAX_CANDIDATES = 10"

record duplicate_probe =
  dp_givenName :: "string option"
  dp_fatherName :: "string option"
  dp_grandfatherName :: "string option"
  dp_phone :: "string option"
  dp_email :: "string option"

datatype duplicate_reason = SamePhone | SameEmail | SimilarName

record duplicate_candidate =
  dup_student :: student_row
  dup_reasons :: "duplicate_reason list"
  dup_similarity :: rat

text \<open>A string that is there and not empty (a truthy one).\<close>

definition given :: "string option \<Rightarrow> string option" where
  "given s = (if s = Some [] then None else s)"

text \<open>The generated column \<open>search_name\<close>.\<close>

definition search_name :: "student_row \<Rightarrow> string" where
  "search_name r = toLowerCase (st_givenName r @ '' '' @ st_fatherName r @ '' ''
     @ (case st_grandfatherName r of None \<Rightarrow> [] | Some n \<Rightarrow> n))"

definition probe_name :: "duplicate_probe \<Rightarrow> string option" where
  "probe_name q = (case (given (dp_givenName q), given (dp_fatherName q)) of
     (Some g, Some f) \<Rightarrow> Some (toLowerCase (join '' '' ([g, f] @ (case given (dp_grandfatherName q) of None \<Rightarrow> [] | Some n \<Rightarrow> [n]))))
   | _ \<Rightarrow> None)"

definition probe_phone :: "duplicate_probe \<Rightarrow> string option" where
  "probe_phone q = Option.bind (given (dp_phone q)) normalizePhone"

definition probe_email :: "duplicate_probe \<Rightarrow> string option" where
  "probe_email q = (case given (dp_email q) of None \<Rightarrow> None | Some m \<Rightarrow> given (Some (toLowerCase (trim m))))"

definition same_phone :: "duplicate_probe \<Rightarrow> student_row \<Rightarrow> bool" where
  "same_phone q r \<longleftrightarrow> probe_phone q = Some (st_phone r)"

definition same_email :: "duplicate_probe \<Rightarrow> student_row \<Rightarrow> bool" where
  "same_email q r \<longleftrightarrow> probe_email q \<noteq> None \<and> probe_email q = map_option toLowerCase (st_email r)"

definition name_score :: "env \<Rightarrow> duplicate_probe \<Rightarrow> student_row \<Rightarrow> rat" where
  "name_score e q r = (case probe_name q of None \<Rightarrow> 0 | Some n \<Rightarrow> similarity e (search_name r) n)"

definition similar_name :: "env \<Rightarrow> duplicate_probe \<Rightarrow> student_row \<Rightarrow> bool" where
  "similar_name e q r \<longleftrightarrow> probe_name q \<noteq> None \<and> NAME_SIMILARITY_THRESHOLD \<le> name_score e q r"

text \<open>
  The condition \<open>search_name % name\<close> that goes with the similarity is \<open>pg_trgm\<close>'s own threshold, lower
  than the program's (0.3), there so that the index is used.
\<close>

definition findDuplicates :: "env \<Rightarrow> duplicate_probe \<Rightarrow> uuid option \<Rightarrow> 'a people_db_scheme \<Rightarrow> duplicate_candidate list" where
  "findDuplicates e q excludeStudentId d =
     map (\<lambda>r. \<lparr>dup_student = r,
         dup_reasons = (if same_phone q r then [SamePhone] else []) @ (if same_email q r then [SameEmail] else [])
           @ (if similar_name e q r then [SimilarName] else []),
         dup_similarity = name_score e q r\<rparr>)
       (take MAX_CANDIDATES (sort_key (\<lambda>r. (- name_score e q r, - createdAt r))
         (filter (\<lambda>r. (similar_name e q r \<or> same_phone q r \<or> same_email q r) \<and> excludeStudentId \<noteq> Some (row_id r))
           (students d))))"

section \<open>Guardians\<close>

record guardian_input =
  gi_name :: string
  gi_relationship :: string
  gi_phone :: string
  gi_email :: "string option"
  gi_isPrimary :: bool
  gi_isPayer :: bool

definition valid_guardians :: "guardian_input list \<Rightarrow> bool" where
  "valid_guardians gs \<longleftrightarrow> length gs \<le> 5 \<and> length (filter gi_isPrimary gs) \<le> 1 \<and> length (filter gi_isPayer gs) \<le> 1"

definition new_guardian :: "env \<Rightarrow> uuid \<Rightarrow> uuid \<Rightarrow> guardian_input \<Rightarrow> guardian_row" where
  "new_guardian e i studentId g = \<lparr>row_id = i, gd_studentId = studentId, gd_name = gi_name g,
     gd_relationship = gi_relationship g, gd_phone = gi_phone g, gd_email = gi_email g,
     gd_isPrimary = gi_isPrimary g, gd_isPayer = gi_isPayer g, gd_createdAt = now e\<rparr>"

text \<open>The unique indexes: one primary contact and one payer per student.\<close>

definition guardian_clash :: "guardian_row \<Rightarrow> guardian_row \<Rightarrow> bool" where
  "guardian_clash g h \<longleftrightarrow> gd_studentId g = gd_studentId h \<and>
     ((gd_isPrimary g \<and> gd_isPrimary h) \<or> (gd_isPayer g \<and> gd_isPayer h))"

fun insertGuardians :: "env \<Rightarrow> uuid \<Rightarrow> guardian_input list \<Rightarrow> 'a people_db_scheme
    \<Rightarrow> app_error + (guardian_row list \<times> 'a people_db_scheme)" where
  "insertGuardians e studentId [] d = Inr ([], d)"
| "insertGuardians e studentId (g # gs) d = (case take_id d of (i, d1) \<Rightarrow>
     let row = new_guardian e i studentId g in
     bindE (insert_unless (guardian_clash row) (UniqueViolation ''student_guardians'') row (student_guardians d1)) (\<lambda>rows.
     bindE (insertGuardians e studentId gs (d1\<lparr>student_guardians := rows\<rparr>)) (\<lambda>(more, d2). Inr (row # more, d2))))"

text \<open>Ordered by \<open>desc(isPrimary), createdAt\<close>.\<close>

definition guardiansOf :: "uuid \<Rightarrow> 'a people_db_scheme \<Rightarrow> guardian_row list" where
  "guardiansOf i d = sort_key (\<lambda>g. (\<not> gd_isPrimary g, gd_createdAt g))
     (filter (\<lambda>g. gd_studentId g = i) (student_guardians d))"

section \<open>Students\<close>

record student_view =
  stv_row :: student_row
  stv_guardians :: "guardian_row list"

definition getStudent :: "uuid \<Rightarrow> grant list \<Rightarrow> 'a people_db_scheme \<Rightarrow> app_error + student_view" where
  "getStudent i grants d =
     bindE (requireExisting i d) (\<lambda>row.
     bindE (assertBranchAccess grants ''students.read'' (st_branchId row)) (\<lambda>_.
     Inr \<lparr>stv_row = row, stv_guardians = guardiansOf i d\<rparr>))"

record create_student =
  cst_givenName :: string
  cst_fatherName :: string
  cst_grandfatherName :: "string option"
  cst_gender :: gender
  cst_dateOfBirth :: "date option"
  cst_phone :: string
  cst_email :: "string option"
  cst_address :: "string option"
  cst_city :: "string option"
  cst_branchId :: uuid
  cst_categoryCode :: "string option"
  cst_customFields :: "(string \<times> json) list"
  cst_guardians :: "guardian_input list"
  cst_confirmNotDuplicate :: bool

definition probe_of :: "create_student \<Rightarrow> duplicate_probe" where
  "probe_of inp = \<lparr>dp_givenName = Some (cst_givenName inp), dp_fatherName = Some (cst_fatherName inp),
     dp_grandfatherName = cst_grandfatherName inp, dp_phone = Some (cst_phone inp), dp_email = cst_email inp\<rparr>"

definition new_student :: "env \<Rightarrow> actor \<Rightarrow> uuid \<Rightarrow> create_student \<Rightarrow> json \<Rightarrow> string \<Rightarrow> student_row" where
  "new_student e a i inp customFields number =
     \<lparr>row_id = i, createdAt = now e, updatedAt = now e,
      createdBy = Some (actor_userId a), updatedBy = Some (actor_userId a), version = 1,
      st_number = number, st_givenName = cst_givenName inp, st_fatherName = cst_fatherName inp,
      st_grandfatherName = cst_grandfatherName inp, st_gender = cst_gender inp, st_dateOfBirth = cst_dateOfBirth inp,
      st_phone = cst_phone inp, st_email = cst_email inp, st_address = cst_address inp, st_city = cst_city inp,
      st_status = StActive, st_branchId = cst_branchId inp, st_categoryCode = cst_categoryCode inp,
      st_customFields = customFields\<rparr>"

definition createStudent :: "env \<Rightarrow> create_student \<Rightarrow> grant list \<Rightarrow> actor \<Rightarrow> 'a people_db_scheme
    \<Rightarrow> app_error + (student_view \<times> 'a people_db_scheme)" where
  "createStudent e inp grants a d =
     bindE (assertScope grants ''students.manage'' (at_branch (cst_branchId inp))) (\<lambda>_.
     bindE (throwIf (\<not> isActiveUnit (Branch (cst_branchId inp)) d) (Students StudentBranchNotFound)) (\<lambda>_.
     bindE (assertActiveCode ''student_category'' (cst_categoryCode inp) d) (\<lambda>_.
     bindE (validateValues EStudent (cst_customFields inp) d) (\<lambda>customFields.
     bindE (if \<not> cst_confirmNotDuplicate inp
            then throwIf (length (findDuplicates e (probe_of inp) None d) > 0) (Students DuplicateSuspected) else Inr ()) (\<lambda>_.
     bindE (next_number e SeriesStudent None d) (\<lambda>(issued, d1).
     case take_id d1 of (i, d2) \<Rightarrow>
     let row = new_student e a i inp customFields (issued_number issued) in
     bindE (insert_unless (\<lambda>r. st_number r = st_number row) (UniqueViolation ''students_student_number_key'') row (students d2)) (\<lambda>rows.
     bindE (insertGuardians e i (cst_guardians inp) (d2\<lparr>students := rows\<rparr>)) (\<lambda>(gs, d3).
     Inr (\<lparr>stv_row = row, stv_guardians = gs\<rparr>, audit e ''student.registered'' ''student'' (JUuid i)
       [(''studentNumber'', JStr (st_number row)), (''branchId'', JUuid (st_branchId row))] d3)))))))))"

record update_student =
  ust_givenName :: "string option"
  ust_fatherName :: "string option"
  ust_grandfatherName :: "string option option"
  ust_gender :: "gender option"
  ust_dateOfBirth :: "date option option"
  ust_phone :: "string option"
  ust_email :: "string option option"
  ust_address :: "string option option"
  ust_city :: "string option option"
  ust_categoryCode :: "string option option"
  ust_customFields :: "(string \<times> json) list option"
  ust_status :: "student_status option"

definition apply_student_update :: "update_student \<Rightarrow> json option \<Rightarrow> actor \<Rightarrow> student_row \<Rightarrow> student_row" where
  "apply_student_update inp customFields a r = r\<lparr>st_givenName := override (ust_givenName inp) (st_givenName r),
     st_fatherName := override (ust_fatherName inp) (st_fatherName r),
     st_grandfatherName := override (ust_grandfatherName inp) (st_grandfatherName r),
     st_gender := override (ust_gender inp) (st_gender r), st_dateOfBirth := override (ust_dateOfBirth inp) (st_dateOfBirth r),
     st_phone := override (ust_phone inp) (st_phone r), st_email := override (ust_email inp) (st_email r),
     st_address := override (ust_address inp) (st_address r), st_city := override (ust_city inp) (st_city r),
     st_categoryCode := override (ust_categoryCode inp) (st_categoryCode r),
     st_customFields := override customFields (st_customFields r),
     st_status := override (ust_status inp) (st_status r), updatedBy := Some (actor_userId a)\<rparr>"

fun student_status_name :: "student_status \<Rightarrow> string" where
  "student_status_name StActive = ''active''" | "student_status_name StOnHold = ''on_hold''"
| "student_status_name StGraduated = ''graduated''" | "student_status_name StWithdrawn = ''withdrawn''"
| "student_status_name StAlumni = ''alumni''"

definition student_fields :: "update_student \<Rightarrow> json" where
  "student_fields inp = JArr (map (\<lambda>(k, _). JStr k) (filter snd
     [(''givenName'', ust_givenName inp \<noteq> None), (''fatherName'', ust_fatherName inp \<noteq> None),
      (''grandfatherName'', ust_grandfatherName inp \<noteq> None), (''gender'', ust_gender inp \<noteq> None),
      (''dateOfBirth'', ust_dateOfBirth inp \<noteq> None), (''phone'', ust_phone inp \<noteq> None), (''email'', ust_email inp \<noteq> None),
      (''address'', ust_address inp \<noteq> None), (''city'', ust_city inp \<noteq> None), (''categoryCode'', ust_categoryCode inp \<noteq> None),
      (''customFields'', ust_customFields inp \<noteq> None), (''status'', ust_status inp \<noteq> None)]))"

definition updateStudent :: "env \<Rightarrow> uuid \<Rightarrow> update_student \<Rightarrow> int \<Rightarrow> grant list \<Rightarrow> actor \<Rightarrow> 'a people_db_scheme
    \<Rightarrow> app_error + (student_view \<times> 'a people_db_scheme)" where
  "updateStudent e i inp expectedVersion grants a d =
     bindE (requireExisting i d) (\<lambda>before.
     bindE (assertScope grants ''students.manage'' (at_branch (st_branchId before))) (\<lambda>_.
     bindE (case ust_categoryCode inp of None \<Rightarrow> Inr ()
            | Some c \<Rightarrow> if c \<noteq> st_categoryCode before then assertActiveCode ''student_category'' c d else Inr ()) (\<lambda>_.
     bindE (case ust_customFields inp of None \<Rightarrow> Inr None
            | Some fs \<Rightarrow> bindE (validateValues EStudent fs d) (\<lambda>v. Inr (Some v))) (\<lambda>customFields.
     case updateWithVersion e (apply_student_update inp customFields a) i expectedVersion (students d) of (result, rows) \<Rightarrow>
     bindE (versionedRow (Students StudentNotFound) result) (\<lambda>row.
     let d1 = audit e ''student.updated'' ''student'' (JUuid i)
       ([(''studentNumber'', JStr (st_number before)), (''fields'', student_fields inp)]
        @ (case ust_status inp of None \<Rightarrow> []
           | Some s \<Rightarrow> if s \<noteq> st_status before
                       then [(''status'', JObj [(''from'', JStr (student_status_name (st_status before))), (''to'', JStr (student_status_name s))])]
                       else []))
       (d\<lparr>students := rows\<rparr>) in
     Inr (\<lparr>stv_row = row, stv_guardians = guardiansOf i d1\<rparr>, d1))))))"

definition setGuardians :: "env \<Rightarrow> uuid \<Rightarrow> guardian_input list \<Rightarrow> int \<Rightarrow> grant list \<Rightarrow> actor \<Rightarrow> 'a people_db_scheme
    \<Rightarrow> app_error + (student_view \<times> 'a people_db_scheme)" where
  "setGuardians e i guardians expectedVersion grants a d =
     bindE (requireExisting i d) (\<lambda>before.
     bindE (assertScope grants ''students.manage'' (at_branch (st_branchId before))) (\<lambda>_.
     case updateWithVersion e (\<lambda>r. r\<lparr>updatedBy := Some (actor_userId a)\<rparr>) i expectedVersion (students d) of (result, rows) \<Rightarrow>
     bindE (versionedRow (Students StudentNotFound) result) (\<lambda>row.
     bindE (insertGuardians e i guardians (d\<lparr>students := rows,
              student_guardians := filter (\<lambda>g. gd_studentId g \<noteq> i) (student_guardians d)\<rparr>)) (\<lambda>(gs, d1).
     Inr (\<lparr>stv_row = row, stv_guardians = gs\<rparr>, audit e ''student.guardians_set'' ''student'' (JUuid i)
       [(''studentNumber'', JStr (st_number before)), (''guardians'', JInt (int (length gs)))] d1)))))"

section \<open>Lemmas\<close>

lemma findDuplicates_Nil:
  "findDuplicates e q x d = [] \<longleftrightarrow>
     (\<forall>r \<in> set (students d). x \<noteq> Some (row_id r) \<longrightarrow> \<not> similar_name e q r \<and> \<not> same_phone q r \<and> \<not> same_email q r)"
proof -
  have "findDuplicates e q x d = [] \<longleftrightarrow> filter (\<lambda>r. (similar_name e q r \<or> same_phone q r \<or> same_email q r) \<and> x \<noteq> Some (row_id r)) (students d) = []"
    unfolding findDuplicates_def map_is_Nil_conv take_eq_Nil by (simp add: MAX_CANDIDATES_def length_0_conv[symmetric] del: length_0_conv length_greater_0_conv)
  then show ?thesis by (auto simp: filter_empty_conv)
qed

text \<open>Nobody is registered twice by phone, unless the person registering says so.\<close>

lemma createStudent_new_phone:
  assumes "createStudent e inp grants a d = Inr (v, d')" "\<not> cst_confirmNotDuplicate inp" "normal_phone (cst_phone inp)"
  shows "\<forall>r \<in> set (students d). st_phone r \<noteq> cst_phone inp"
proof -
  have "findDuplicates e (probe_of inp) None d = []"
    using assms(1,2) by (auto simp: createStudent_def)
  moreover have "probe_phone (probe_of inp) = Some (cst_phone inp)"
    using normalizePhone_id[OF assms(3)] assms(3) by (auto simp: probe_phone_def probe_of_def given_def normal_phone_def)
  ultimately show ?thesis by (auto simp: findDuplicates_Nil same_phone_def)
qed

text \<open>The service asks for a number without a branch, so a pattern that uses the branch code fails.\<close>

lemma createStudent_branch_pattern:
  assumes "patternUsesBranch (patternOf SeriesStudent d)"
  shows "\<exists>err. createStudent e inp grants a d = Inl err"
proof -
  have "\<exists>err. next_number e SeriesStudent None d = Inl err"
  proof (cases "institution_row d")
    case (Inr inst)
    then show ?thesis using assms by (simp add: next_number_def number_context_for_def)
  qed (simp add: next_number_def number_context_for_def)
  then obtain err where "next_number e SeriesStudent None d = Inl err" by blast
  then show ?thesis by (cases "createStudent e inp grants a d") (auto simp: createStudent_def)
qed

end
