(* ===== verification/Applications.thy ===== *)
theory Applications
  imports Students
begin

text \<open>
  Applications from first contact to enrollment (\<open>admissions/application/applications.service.ts\<close>,
  \<open>admissions/domain/pipeline.ts\<close>, the transitions of \<open>packages/contracts/src/admissions.ts\<close>).
\<close>

section \<open>The pipeline\<close>

fun APPLICATION_TRANSITIONS :: "application_status \<Rightarrow> application_status list" where
  "APPLICATION_TRANSITIONS Submitted = [Contacted, PlacementScheduled, Placed, Offered, Rejected, AppWithdrawn]"
| "APPLICATION_TRANSITIONS Contacted = [PlacementScheduled, Placed, Offered, Rejected, AppWithdrawn]"
| "APPLICATION_TRANSITIONS PlacementScheduled = [Placed, Contacted, Offered, Rejected, AppWithdrawn]"
| "APPLICATION_TRANSITIONS Placed = [Offered, Rejected, AppWithdrawn]"
| "APPLICATION_TRANSITIONS Offered = [Confirmed, Rejected, AppWithdrawn, Expired]"
| "APPLICATION_TRANSITIONS Confirmed = [Enrolled, AppWithdrawn]"
| "APPLICATION_TRANSITIONS Enrolled = []"
| "APPLICATION_TRANSITIONS Rejected = []"
| "APPLICATION_TRANSITIONS AppWithdrawn = []"
| "APPLICATION_TRANSITIONS Expired = []"

definition MANUAL_TARGETS :: "application_status list" where
  "MANUAL_TARGETS = [Contacted, PlacementScheduled, Offered, Rejected, AppWithdrawn, Expired]"

definition canTransition :: "application_status \<Rightarrow> application_status \<Rightarrow> bool" where
  "canTransition source target \<longleftrightarrow> target \<in> set (APPLICATION_TRANSITIONS source)"

definition OPEN_STATUSES :: "application_status list" where
  "OPEN_STATUSES = [Submitted, Contacted, PlacementScheduled, Placed, Offered, Confirmed]"

definition CLOSED_STATUSES :: "application_status list" where
  "CLOSED_STATUSES = [Rejected, AppWithdrawn, Expired, Enrolled]"

definition isClosed :: "application_status \<Rightarrow> bool" where
  "isClosed s \<longleftrightarrow> s \<in> set CLOSED_STATUSES"

definition PLACEMENT_FROM :: "application_status list" where
  "PLACEMENT_FROM = [Submitted, Contacted, PlacementScheduled, Placed]"

definition canPlace :: "application_status \<Rightarrow> bool" where
  "canPlace source \<longleftrightarrow> source \<in> set PLACEMENT_FROM"

fun application_status_name :: "application_status \<Rightarrow> string" where
  "application_status_name Submitted = ''submitted''" | "application_status_name Contacted = ''contacted''"
| "application_status_name PlacementScheduled = ''placement_scheduled''" | "application_status_name Placed = ''placed''"
| "application_status_name Offered = ''offered''" | "application_status_name Confirmed = ''confirmed''"
| "application_status_name Enrolled = ''enrolled''" | "application_status_name Rejected = ''rejected''"
| "application_status_name AppWithdrawn = ''withdrawn''" | "application_status_name Expired = ''expired''"

section \<open>Reading\<close>

definition application_row :: "uuid \<Rightarrow> 'a people_db_scheme \<Rightarrow> app_error + application_row" where
  "application_row i d = demand (find_by row_id i (applications d)) (Admissions ApplicationNotFound)"

definition getApplication :: "uuid \<Rightarrow> grant list \<Rightarrow> 'a people_db_scheme \<Rightarrow> app_error + application_row" where
  "getApplication i grants d =
     bindE (application_row i d) (\<lambda>row.
     bindE (assertBranchAccess grants ''admissions.read'' (app_branchId row)) (\<lambda>_. Inr row))"

definition findApplicantDuplicates :: "env \<Rightarrow> uuid \<Rightarrow> grant list \<Rightarrow> 'a people_db_scheme \<Rightarrow> app_error + duplicate_candidate list" where
  "findApplicantDuplicates e i grants d =
     bindE (getApplication i grants d) (\<lambda>row.
     Inr (findDuplicates e \<lparr>dp_givenName = Some (app_givenName row), dp_fatherName = Some (app_fatherName row),
       dp_grandfatherName = app_grandfatherName row, dp_phone = Some (app_phone row), dp_email = app_email row\<rparr> None d))"

definition checkReferences :: "uuid option \<Rightarrow> uuid option \<Rightarrow> uuid option \<Rightarrow> 'a people_db_scheme \<Rightarrow> app_error + unit" where
  "checkReferences desiredCourseId preferredShiftId preferredIntakeId d =
     bindE (case desiredCourseId of None \<Rightarrow> Inr ()
            | Some k \<Rightarrow> bindE (findWithDepartment k d) (\<lambda>found. throwIf (found = None) (Admissions (AdmissionsReferenceNotFound ''course'')))) (\<lambda>_.
     bindE (case preferredShiftId of None \<Rightarrow> Inr ()
            | Some k \<Rightarrow> throwIf (\<not> shiftExists k d) (Admissions (AdmissionsReferenceNotFound ''shift''))) (\<lambda>_.
     case preferredIntakeId of None \<Rightarrow> Inr ()
     | Some k \<Rightarrow> throwIf (\<not> intakeExists k d) (Admissions (AdmissionsReferenceNotFound ''intake''))))"

section \<open>Applying\<close>

record create_application =
  cap_givenName :: string
  cap_fatherName :: string
  cap_grandfatherName :: "string option"
  cap_gender :: gender
  cap_dateOfBirth :: "date option"
  cap_phone :: string
  cap_email :: "string option"
  cap_address :: "string option"
  cap_city :: "string option"
  cap_branchId :: uuid
  cap_source :: "string option"
  cap_desiredCourseId :: "uuid option"
  cap_preferredShiftId :: "uuid option"
  cap_preferredIntakeId :: "uuid option"
  cap_notes :: "string option"
  cap_customFields :: "(string \<times> json) list"

definition new_application :: "env \<Rightarrow> uuid option \<Rightarrow> uuid \<Rightarrow> create_application \<Rightarrow> json \<Rightarrow> string \<Rightarrow> application_row" where
  "new_application e by i inp customFields number =
     \<lparr>row_id = i, createdAt = now e, updatedAt = now e, createdBy = by, updatedBy = by, version = 1,
      app_reference = number, app_status = Submitted, app_givenName = cap_givenName inp, app_fatherName = cap_fatherName inp,
      app_grandfatherName = cap_grandfatherName inp, app_gender = cap_gender inp, app_dateOfBirth = cap_dateOfBirth inp,
      app_phone = cap_phone inp, app_email = cap_email inp, app_address = cap_address inp, app_city = cap_city inp,
      app_branchId = cap_branchId inp, app_source = cap_source inp, app_desiredCourseId = cap_desiredCourseId inp,
      app_preferredShiftId = cap_preferredShiftId inp, app_preferredIntakeId = cap_preferredIntakeId inp,
      app_notes = cap_notes inp, app_customFields = customFields, app_placementScore = None, app_placementCourseId = None,
      app_placementNotes = None, app_placedAt = None, app_studentId = None\<rparr>"

definition insertApplication :: "application_row \<Rightarrow> 'a people_db_scheme \<Rightarrow> app_error + 'a people_db_scheme" where
  "insertApplication row d =
     bindE (insert_unless (\<lambda>r. app_reference r = app_reference row) (UniqueViolation ''applications_reference_key'') row (applications d))
       (\<lambda>rows. Inr (d\<lparr>applications := rows\<rparr>))"

definition createApplication :: "env \<Rightarrow> create_application \<Rightarrow> grant list \<Rightarrow> actor \<Rightarrow> 'a people_db_scheme
    \<Rightarrow> app_error + (application_row \<times> 'a people_db_scheme)" where
  "createApplication e inp grants a d =
     bindE (assertScope grants ''admissions.manage'' (at_branch (cap_branchId inp))) (\<lambda>_.
     bindE (throwIf (\<not> isActiveUnit (Branch (cap_branchId inp)) d) (Admissions AdmissionsBranchNotFound)) (\<lambda>_.
     bindE (assertActiveCode ''lead_source'' (cap_source inp) d) (\<lambda>_.
     bindE (checkReferences (cap_desiredCourseId inp) (cap_preferredShiftId inp) (cap_preferredIntakeId inp) d) (\<lambda>_.
     bindE (validateValues EApplication (cap_customFields inp) d) (\<lambda>customFields.
     bindE (next_number e SeriesApplication None d) (\<lambda>(issued, d1).
     case take_id d1 of (i, d2) \<Rightarrow>
     let row = new_application e (Some (actor_userId a)) i inp customFields (issued_number issued) in
     bindE (insertApplication row d2) (\<lambda>d3.
     Inr (row, audit e ''application.created'' ''application'' (JUuid i)
       [(''reference'', JStr (app_reference row)), (''branchId'', JUuid (app_branchId row)), (''source'', json_opt JStr (app_source row))] d3))))))))"

record pre_registration =
  pre_givenName :: string
  pre_fatherName :: string
  pre_grandfatherName :: "string option"
  pre_gender :: gender
  pre_dateOfBirth :: "date option"
  pre_phone :: string
  pre_email :: "string option"
  pre_city :: "string option"
  pre_branchId :: uuid
  pre_desiredCourseId :: uuid
  pre_preferredShiftId :: "uuid option"
  pre_preferredIntakeId :: "uuid option"
  pre_guardianName :: "string option"
  pre_guardianPhone :: "string option"
  pre_message :: "string option"

definition truthy :: "string option \<Rightarrow> string list" where
  "truthy s = (case s of None \<Rightarrow> [] | Some t \<Rightarrow> if t = [] then [] else [t])"

definition website_notes :: "pre_registration \<Rightarrow> string option" where
  "website_notes inp =
     (let guardian = truthy (pre_guardianName inp) @ truthy (pre_guardianPhone inp);
          lines = (if guardian \<noteq> [] then [''Parent or guardian: '' @ join '', '' guardian] else [])
            @ (if truthy (pre_message inp) \<noteq> [] then map (\<lambda>m. ''Message: '' @ m) (truthy (pre_message inp)) else [])
      in if join [char_of (10 :: nat)] lines = [] then None else Some (join [char_of (10 :: nat)] lines))"

definition website_values :: "pre_registration \<Rightarrow> string option \<Rightarrow> create_application" where
  "website_values inp src = \<lparr>cap_givenName = pre_givenName inp, cap_fatherName = pre_fatherName inp,
     cap_grandfatherName = pre_grandfatherName inp, cap_gender = pre_gender inp, cap_dateOfBirth = pre_dateOfBirth inp,
     cap_phone = pre_phone inp, cap_email = pre_email inp, cap_address = None, cap_city = pre_city inp,
     cap_branchId = pre_branchId inp, cap_source = src, cap_desiredCourseId = Some (pre_desiredCourseId inp),
     cap_preferredShiftId = pre_preferredShiftId inp, cap_preferredIntakeId = pre_preferredIntakeId inp,
     cap_notes = website_notes inp, cap_customFields = []\<rparr>"

text \<open>An application of the same person for the same course that is still open.\<close>

definition same_request :: "pre_registration \<Rightarrow> application_row \<Rightarrow> bool" where
  "same_request inp r \<longleftrightarrow> app_phone r = pre_phone inp \<and> app_desiredCourseId r = Some (pre_desiredCourseId inp) \<and> \<not> isClosed (app_status r)"

definition submitFromWebsite :: "env \<Rightarrow> pre_registration \<Rightarrow> 'a people_db_scheme
    \<Rightarrow> app_error + (string option \<times> 'a people_db_scheme)" where
  "submitFromWebsite e inp d =
     bindE (throwIf (\<not> isActiveUnit (Branch (pre_branchId inp)) d) (Admissions (AdmissionsReferenceNotFound ''branch''))) (\<lambda>_.
     bindE (checkReferences (Some (pre_desiredCourseId inp)) (pre_preferredShiftId inp) (pre_preferredIntakeId inp) d) (\<lambda>_.
     if list_ex (same_request inp) (applications d) then Inr (None, d)
     else
       let src = (if isActiveCode ''lead_source'' ''website'' d then Some ''website'' else None) in
       bindE (next_number e SeriesApplication (Some (pre_branchId inp)) d) (\<lambda>(issued, d1).
       case take_id d1 of (i, d2) \<Rightarrow>
       let row = new_application e None i (website_values inp src) (JObj []) (issued_number issued) in
       bindE (insertApplication row d2) (\<lambda>d3.
       Inr (Some (app_reference row), audit e ''application.submitted_online'' ''application'' (JUuid i)
         [(''reference'', JStr (app_reference row)), (''branchId'', JUuid (app_branchId row)), (''source'', json_opt JStr src)] d3)))))"

section \<open>Changing\<close>

record update_application =
  uap_givenName :: "string option"
  uap_fatherName :: "string option"
  uap_grandfatherName :: "string option option"
  uap_gender :: "gender option"
  uap_dateOfBirth :: "date option option"
  uap_phone :: "string option"
  uap_email :: "string option option"
  uap_address :: "string option option"
  uap_city :: "string option option"
  uap_source :: "string option option"
  uap_desiredCourseId :: "uuid option option"
  uap_preferredShiftId :: "uuid option option"
  uap_preferredIntakeId :: "uuid option option"
  uap_notes :: "string option option"
  uap_customFields :: "(string \<times> json) list option"

definition apply_application_update :: "update_application \<Rightarrow> json option \<Rightarrow> actor \<Rightarrow> application_row \<Rightarrow> application_row" where
  "apply_application_update inp customFields a r = r\<lparr>app_givenName := override (uap_givenName inp) (app_givenName r),
     app_fatherName := override (uap_fatherName inp) (app_fatherName r),
     app_grandfatherName := override (uap_grandfatherName inp) (app_grandfatherName r),
     app_gender := override (uap_gender inp) (app_gender r), app_dateOfBirth := override (uap_dateOfBirth inp) (app_dateOfBirth r),
     app_phone := override (uap_phone inp) (app_phone r), app_email := override (uap_email inp) (app_email r),
     app_address := override (uap_address inp) (app_address r), app_city := override (uap_city inp) (app_city r),
     app_source := override (uap_source inp) (app_source r),
     app_desiredCourseId := override (uap_desiredCourseId inp) (app_desiredCourseId r),
     app_preferredShiftId := override (uap_preferredShiftId inp) (app_preferredShiftId r),
     app_preferredIntakeId := override (uap_preferredIntakeId inp) (app_preferredIntakeId r),
     app_notes := override (uap_notes inp) (app_notes r), app_customFields := override customFields (app_customFields r),
     updatedBy := Some (actor_userId a)\<rparr>"

definition application_fields :: "update_application \<Rightarrow> json" where
  "application_fields inp = JArr (map (\<lambda>(k, _). JStr k) (filter snd
     [(''givenName'', uap_givenName inp \<noteq> None), (''fatherName'', uap_fatherName inp \<noteq> None),
      (''grandfatherName'', uap_grandfatherName inp \<noteq> None), (''gender'', uap_gender inp \<noteq> None),
      (''dateOfBirth'', uap_dateOfBirth inp \<noteq> None), (''phone'', uap_phone inp \<noteq> None), (''email'', uap_email inp \<noteq> None),
      (''address'', uap_address inp \<noteq> None), (''city'', uap_city inp \<noteq> None), (''source'', uap_source inp \<noteq> None),
      (''desiredCourseId'', uap_desiredCourseId inp \<noteq> None), (''preferredShiftId'', uap_preferredShiftId inp \<noteq> None),
      (''preferredIntakeId'', uap_preferredIntakeId inp \<noteq> None), (''notes'', uap_notes inp \<noteq> None),
      (''customFields'', uap_customFields inp \<noteq> None)]))"

definition updateApplication :: "env \<Rightarrow> uuid \<Rightarrow> update_application \<Rightarrow> int \<Rightarrow> grant list \<Rightarrow> actor \<Rightarrow> 'a people_db_scheme
    \<Rightarrow> app_error + (application_row \<times> 'a people_db_scheme)" where
  "updateApplication e i inp expectedVersion grants a d =
     bindE (application_row i d) (\<lambda>before.
     bindE (assertScope grants ''admissions.manage'' (at_branch (app_branchId before))) (\<lambda>_.
     bindE (throwIf (isClosed (app_status before)) (Admissions ApplicationClosed)) (\<lambda>_.
     bindE (case uap_source inp of None \<Rightarrow> Inr ()
            | Some s \<Rightarrow> if s \<noteq> app_source before then assertActiveCode ''lead_source'' s d else Inr ()) (\<lambda>_.
     bindE (checkReferences (Option.bind (uap_desiredCourseId inp) id) (Option.bind (uap_preferredShiftId inp) id)
              (Option.bind (uap_preferredIntakeId inp) id) d) (\<lambda>_.
     bindE (case uap_customFields inp of None \<Rightarrow> Inr None
            | Some fs \<Rightarrow> bindE (validateValues EApplication fs d) (\<lambda>v. Inr (Some v))) (\<lambda>customFields.
     case updateWithVersion e (apply_application_update inp customFields a) i expectedVersion (applications d) of (result, rows) \<Rightarrow>
     bindE (versionedRow (Admissions ApplicationNotFound) result) (\<lambda>row.
     Inr (row, audit e ''application.updated'' ''application'' (JUuid i)
       [(''reference'', JStr (app_reference before)), (''fields'', application_fields inp)] (d\<lparr>applications := rows\<rparr>)))))))))"

definition status_change :: "application_status \<Rightarrow> application_status \<Rightarrow> json" where
  "status_change source target = JObj [(''from'', JStr (application_status_name source)), (''to'', JStr (application_status_name target))]"

definition transition :: "env \<Rightarrow> uuid \<Rightarrow> application_status \<Rightarrow> int \<Rightarrow> grant list \<Rightarrow> actor \<Rightarrow> 'a people_db_scheme
    \<Rightarrow> app_error + (application_row \<times> 'a people_db_scheme)" where
  "transition e i target expectedVersion grants a d =
     bindE (application_row i d) (\<lambda>before.
     bindE (assertScope grants ''admissions.manage'' (at_branch (app_branchId before))) (\<lambda>_.
     bindE (throwIf (\<not> canTransition (app_status before) target)
              (Admissions (InvalidApplicationTransition (app_status before) (application_status_name target)))) (\<lambda>_.
     bindE (throwIf (target = PlacementScheduled \<and> \<not> isEnabled Placement d) (Admissions PlacementDisabled)) (\<lambda>_.
     case updateWithVersion e (\<lambda>r. r\<lparr>app_status := target, updatedBy := Some (actor_userId a)\<rparr>) i expectedVersion (applications d) of
       (result, rows) \<Rightarrow>
     bindE (versionedRow (Admissions ApplicationNotFound) result) (\<lambda>row.
     Inr (row, audit e ''application.status_changed'' ''application'' (JUuid i)
       [(''reference'', JStr (app_reference before)), (''status'', status_change (app_status before) target)] (d\<lparr>applications := rows\<rparr>)))))))"

record placement =
  plc_score :: rat
  plc_recommendedCourseId :: uuid
  plc_notes :: "string option"

definition apply_placement :: "env \<Rightarrow> placement \<Rightarrow> actor \<Rightarrow> application_row \<Rightarrow> application_row" where
  "apply_placement e inp a r = r\<lparr>app_status := Placed, app_placementScore := Some (plc_score inp),
     app_placementCourseId := Some (plc_recommendedCourseId inp), app_placementNotes := plc_notes inp,
     app_placedAt := Some (now e), updatedBy := Some (actor_userId a)\<rparr>"

definition recordPlacement :: "env \<Rightarrow> uuid \<Rightarrow> placement \<Rightarrow> int \<Rightarrow> grant list \<Rightarrow> actor \<Rightarrow> 'a people_db_scheme
    \<Rightarrow> app_error + (application_row \<times> 'a people_db_scheme)" where
  "recordPlacement e i inp expectedVersion grants a d =
     bindE (application_row i d) (\<lambda>before.
     bindE (throwIf (\<not> isEnabled Placement d) (Admissions PlacementDisabled)) (\<lambda>_.
     bindE (throwIf (\<not> canPlace (app_status before)) (Admissions PlacementNotAllowed)) (\<lambda>_.
     bindE (findWithDepartment (plc_recommendedCourseId inp) d) (\<lambda>found.
     bindE (demand (case found of Some (c, dept) \<Rightarrow> if crs_isActive c then Some dept else None | None \<Rightarrow> None)
              (Admissions (AdmissionsReferenceNotFound ''course''))) (\<lambda>departmentId.
     bindE (assertScope grants ''placement.record''
              (Some \<lparr>tg_branchId = Some (app_branchId before), tg_departmentId = Some departmentId\<rparr>)) (\<lambda>_.
     case updateWithVersion e (apply_placement e inp a) i expectedVersion (applications d) of (result, rows) \<Rightarrow>
     bindE (versionedRow (Admissions ApplicationNotFound) result) (\<lambda>row.
     Inr (row, audit e ''application.placed'' ''application'' (JUuid i)
       [(''reference'', JStr (app_reference before)), (''score'', JRat (plc_score inp)),
        (''recommendedCourseId'', JUuid (plc_recommendedCourseId inp)), (''status'', status_change (app_status before) Placed)]
       (d\<lparr>applications := rows\<rparr>)))))))))"

text \<open>\<open>markEnrolled\<close>: every confirmed application of the student, each with its entry in the log.\<close>

definition enroll_application :: "env \<Rightarrow> application_row \<Rightarrow> application_row" where
  "enroll_application e r = (touch e r)\<lparr>app_status := Enrolled, version := version r + 1\<rparr>"

definition markEnrolled :: "env \<Rightarrow> uuid \<Rightarrow> 'a people_db_scheme \<Rightarrow> 'a people_db_scheme" where
  "markEnrolled e studentId d =
     (let hit = (\<lambda>r. app_studentId r = Some studentId \<and> app_status r = Confirmed);
          rows = filter hit (applications d)
      in fold (\<lambda>r. audit e ''application.status_changed'' ''application'' (JUuid (row_id r))
            [(''reference'', JStr (app_reference r)), (''status'', status_change Confirmed Enrolled)]) rows
          (d\<lparr>applications := update_where hit (enroll_application e) (applications d)\<rparr>))"

section \<open>Becoming a student\<close>

record convert_request =
  cv_existingStudentId :: "uuid option"
  cv_confirmNotDuplicate :: bool
  cv_categoryCode :: "string option"
  cv_customFields :: "(string \<times> json) list"

definition student_of_application :: "application_row \<Rightarrow> convert_request \<Rightarrow> create_student" where
  "student_of_application before inp = \<lparr>cst_givenName = app_givenName before, cst_fatherName = app_fatherName before,
     cst_grandfatherName = app_grandfatherName before, cst_gender = app_gender before, cst_dateOfBirth = app_dateOfBirth before,
     cst_phone = app_phone before, cst_email = app_email before, cst_address = app_address before, cst_city = app_city before,
     cst_branchId = app_branchId before, cst_categoryCode = cv_categoryCode inp, cst_customFields = cv_customFields inp,
     cst_guardians = [], cst_confirmNotDuplicate = cv_confirmNotDuplicate inp\<rparr>"

definition convert_student :: "env \<Rightarrow> application_row \<Rightarrow> convert_request \<Rightarrow> grant list \<Rightarrow> actor \<Rightarrow> 'a people_db_scheme
    \<Rightarrow> app_error + (uuid \<times> 'a people_db_scheme)" where
  "convert_student e before inp grants a d = (case cv_existingStudentId inp of
     Some k \<Rightarrow> bindE (requireExisting k d) (\<lambda>s. Inr (row_id s, d))
   | None \<Rightarrow> bindE (createStudent e (student_of_application before inp) grants a d) (\<lambda>(view, d1). Inr (row_id (stv_row view), d1)))"

definition convert :: "env \<Rightarrow> uuid \<Rightarrow> convert_request \<Rightarrow> int \<Rightarrow> grant list \<Rightarrow> actor \<Rightarrow> 'a people_db_scheme
    \<Rightarrow> app_error + ((application_row \<times> student_view) \<times> 'a people_db_scheme)" where
  "convert e i inp expectedVersion grants a d =
     bindE (application_row i d) (\<lambda>before.
     bindE (assertScope grants ''admissions.manage'' (at_branch (app_branchId before))) (\<lambda>_.
     bindE (throwIf (app_studentId before \<noteq> None) (Admissions AlreadyConverted)) (\<lambda>_.
     bindE (throwIf (app_status before \<noteq> Offered) (Admissions NotReadyToConvert)) (\<lambda>_.
     bindE (convert_student e before inp grants a d) (\<lambda>(studentId, d1).
     case updateWithVersion e (\<lambda>r. r\<lparr>app_status := Confirmed, app_studentId := Some studentId, updatedBy := Some (actor_userId a)\<rparr>)
            i expectedVersion (applications d1) of (result, rows) \<Rightarrow>
     bindE (versionedRow (Admissions ApplicationNotFound) result) (\<lambda>row.
     let d2 = d1\<lparr>applications := rows\<rparr> in
     bindE (getStudent studentId grants d2) (\<lambda>student.
     Inr ((row, student), audit e ''application.converted'' ''application'' (JUuid i)
       [(''reference'', JStr (app_reference before)), (''studentNumber'', JStr (st_number (stv_row student))),
        (''linkedExisting'', JBool (cv_existingStudentId inp \<noteq> None))] d2))))))))"

end
