(* ===== verification/Enrollments.thy ===== *)
theory Enrollments
  imports Cohorts Applications
begin

text \<open>
  Seats, the waitlist, withdrawals and results (\<open>cohorts/application/enrollments.service.ts\<close>). Every
  change takes a lock on the cohort's row first, so the changes of one cohort are made one after another:
  each operation here reads the state the one before it left.
\<close>

section \<open>Reading\<close>

definition enrollment_row :: "uuid \<Rightarrow> 'a classes_db_scheme \<Rightarrow> app_error + enrollment_row" where
  "enrollment_row i d = demand (find_by row_id i (enrollments d)) (Cohorts EnrollmentNotFound)"

text \<open>\<open>asc(waitlistedAt), asc(id)\<close>, nulls last.\<close>

definition wait_key :: "enrollment_row \<Rightarrow> (bool \<times> instant) \<times> uuid" where
  "wait_key en = ((case enr_waitlistedAt en of None \<Rightarrow> (True, 0) | Some t \<Rightarrow> (False, t)), row_id en)"

definition waiting :: "uuid \<Rightarrow> 'a classes_db_scheme \<Rightarrow> enrollment_row list" where
  "waiting cohortId d = sort_key wait_key (enrolled_in cohortId Waitlisted d)"

text \<open>The 1-based place of an enrollment in its cohort's queue.\<close>

fun place_in :: "uuid \<Rightarrow> enrollment_row list \<Rightarrow> nat \<Rightarrow> nat option" where
  "place_in i [] n = None"
| "place_in i (en # queue) n = (if row_id en = i then Some n else place_in i queue (Suc n))"

definition position :: "enrollment_row \<Rightarrow> 'a classes_db_scheme \<Rightarrow> nat option" where
  "position en d = place_in (row_id en) (waiting (enr_cohortId en) d) 1"

record enrollment_view =
  ev_row :: enrollment_row
  ev_studentName :: string
  ev_studentNumber :: string
  ev_cohortName :: string
  ev_waitlistPosition :: "nat option"

definition presentEnrollment :: "uuid \<Rightarrow> 'a classes_db_scheme \<Rightarrow> enrollment_view option" where
  "presentEnrollment i d =
     Option.bind (find_by row_id i (enrollments d)) (\<lambda>en.
     Option.bind (find_by row_id (enr_studentId en) (students d)) (\<lambda>s.
     Option.bind (find_by row_id (enr_cohortId en) (cohorts d)) (\<lambda>c. Some
       \<lparr>ev_row = en, ev_studentName = st_givenName s @ '' '' @ st_fatherName s, ev_studentNumber = st_number s,
        ev_cohortName = coh_name c,
        ev_waitlistPosition = (if enr_status en = Waitlisted then position en d else None)\<rparr>)))"

section \<open>Enrolling\<close>

definition done_courses :: "uuid \<Rightarrow> 'a classes_db_scheme \<Rightarrow> uuid list" where
  "done_courses studentId d = concat (map (\<lambda>en. case find_by row_id (enr_cohortId en) (cohorts d) of
       None \<Rightarrow> [] | Some c \<Rightarrow> [coh_courseId c])
     (filter (\<lambda>en. enr_studentId en = studentId \<and> enr_status en = EnrCompleted) (enrollments d)))"

definition assertPrerequisites :: "uuid \<Rightarrow> uuid \<Rightarrow> 'a classes_db_scheme \<Rightarrow> app_error + unit" where
  "assertPrerequisites studentId courseId d =
     bindE (course_row courseId d) (\<lambda>_.
     let prerequisiteIds = prerequisitesOf courseId d in
     if length prerequisiteIds = 0 then Inr ()
     else throwIf (length (remdups (filter (\<lambda>c. c \<in> set prerequisiteIds) (done_courses studentId d))) < length prerequisiteIds)
            (Cohorts PrerequisitesNotMet))"

definition activeCount :: "uuid \<Rightarrow> 'a classes_db_scheme \<Rightarrow> nat" where
  "activeCount cohortId d = length (enrolled_in cohortId EnrActive d)"

text \<open>\<open>enrollments_one_live_per_student_key\<close>.\<close>

definition live :: "enrollment_row \<Rightarrow> bool" where
  "live en \<longleftrightarrow> enr_status en \<in> {Waitlisted, EnrActive}"

definition enrollment_clash :: "enrollment_row \<Rightarrow> enrollment_row \<Rightarrow> bool" where
  "enrollment_clash x y \<longleftrightarrow> live x \<and> live y \<and> enr_studentId x = enr_studentId y \<and> enr_cohortId x = enr_cohortId y"

definition new_enrollment :: "env \<Rightarrow> actor \<Rightarrow> uuid \<Rightarrow> uuid \<Rightarrow> uuid \<Rightarrow> bool \<Rightarrow> enrollment_row" where
  "new_enrollment e a i studentId cohortId hasSeat =
     \<lparr>row_id = i, createdAt = now e, updatedAt = now e,
      createdBy = Some (actor_userId a), updatedBy = Some (actor_userId a), version = 1,
      enr_studentId = studentId, enr_cohortId = cohortId, enr_status = (if hasSeat then EnrActive else Waitlisted),
      enr_waitlistedAt = (if hasSeat then None else Some (now e)), enr_enrolledAt = (if hasSeat then Some (now e) else None),
      enr_withdrawnAt = None, enr_withdrawalReason = None, enr_score = None, enr_attendancePercent = None,
      enr_completedAt = None\<rparr>"

definition enroll :: "env \<Rightarrow> uuid \<Rightarrow> uuid \<Rightarrow> grant list \<Rightarrow> actor \<Rightarrow> 'a classes_db_scheme
    \<Rightarrow> app_error + ((bool \<times> enrollment_view) \<times> 'a classes_db_scheme)" where
  "enroll e studentId cohortId grants a d =
     bindE (cohort_row cohortId d) (\<lambda>cohort.
     bindE (assertScope grants ''enrollments.manage'' (at_branch (coh_branchId cohort))) (\<lambda>_.
     bindE (throwIf (coh_status cohort \<notin> set ENROLLING_COHORT_STATUSES) (Cohorts NotEnrolling)) (\<lambda>_.
     bindE (requireExisting studentId d) (\<lambda>student.
     bindE (throwIf (st_status student \<noteq> StActive) (Cohorts StudentNotActive)) (\<lambda>_.
     bindE (throwIf (list_ex (\<lambda>en. enr_studentId en = studentId \<and> enr_cohortId en = cohortId
                       \<and> enr_status en \<in> {Waitlisted, EnrActive, EnrCompleted}) (enrollments d)) (Cohorts AlreadyEnrolled)) (\<lambda>_.
     bindE (assertPrerequisites studentId (coh_courseId cohort) d) (\<lambda>_.
     let hasSeat = int (activeCount (row_id cohort) d) < seatsOf cohort d in
     case take_id d of (i, d1) \<Rightarrow>
     let row = new_enrollment e a i studentId (row_id cohort) hasSeat in
     bindE (insert_unless (enrollment_clash row) (Cohorts AlreadyEnrolled) row (enrollments d1)) (\<lambda>rows.
     let d2 = d1\<lparr>enrollments := rows\<rparr>;
         d3 = (if hasSeat then markEnrolled e studentId d2 else d2);
         d4 = audit e (if hasSeat then ''enrollment.created'' else ''enrollment.waitlisted'') ''enrollment'' (JUuid i)
           [(''cohortId'', JUuid (row_id cohort)), (''studentNumber'', JStr (st_number student))] d3 in
     bindE (demand (presentEnrollment i d4) (Cohorts EnrollmentNotFound)) (\<lambda>view.
     Inr ((hasSeat, view), d4))))))))))"

section \<open>Leaving\<close>

fun enrollment_status_name :: "enrollment_status \<Rightarrow> string" where
  "enrollment_status_name Waitlisted = ''waitlisted''" | "enrollment_status_name EnrActive = ''active''"
| "enrollment_status_name EnrCompleted = ''completed''" | "enrollment_status_name EnrFailed = ''failed''"
| "enrollment_status_name EnrWithdrawn = ''withdrawn''"

definition enrollment_change :: "enrollment_status \<Rightarrow> enrollment_status \<Rightarrow> string \<times> json" where
  "enrollment_change source target =
     (''status'', JObj [(''from'', JStr (enrollment_status_name source)), (''to'', JStr (enrollment_status_name target))])"

definition promote_row :: "env \<Rightarrow> actor \<Rightarrow> enrollment_row \<Rightarrow> enrollment_row \<Rightarrow> enrollment_row" where
  "promote_row e a next r = (touch e r)\<lparr>enr_status := EnrActive, enr_enrolledAt := Some (now e),
     updatedBy := Some (actor_userId a), version := version next + 1\<rparr>"

definition promoteWaiting :: "env \<Rightarrow> cohort_row \<Rightarrow> actor \<Rightarrow> 'a classes_db_scheme \<Rightarrow> uuid option \<times> 'a classes_db_scheme" where
  "promoteWaiting e cohort a d =
     (if seatsOf cohort d \<le> int (activeCount (row_id cohort) d) then (None, d)
      else case waiting (row_id cohort) d of
        [] \<Rightarrow> (None, d)
      | next # _ \<Rightarrow>
          (Some (row_id next), audit e ''enrollment.promoted'' ''enrollment'' (JUuid (row_id next))
             [(''cohortId'', JUuid (row_id cohort)), enrollment_change Waitlisted EnrActive]
             (markEnrolled e (enr_studentId next)
               (d\<lparr>enrollments := update_where (\<lambda>r. row_id r = row_id next) (promote_row e a next) (enrollments d)\<rparr>))))"

definition apply_withdrawal :: "env \<Rightarrow> string \<Rightarrow> actor \<Rightarrow> enrollment_row \<Rightarrow> enrollment_row" where
  "apply_withdrawal e reasonCode a r = r\<lparr>enr_status := EnrWithdrawn, enr_withdrawnAt := Some (now e),
     enr_withdrawalReason := Some reasonCode, updatedBy := Some (actor_userId a)\<rparr>"

definition withdraw :: "env \<Rightarrow> uuid \<Rightarrow> string \<Rightarrow> int \<Rightarrow> grant list \<Rightarrow> actor \<Rightarrow> 'a classes_db_scheme
    \<Rightarrow> app_error + ((enrollment_view \<times> enrollment_view option) \<times> 'a classes_db_scheme)" where
  "withdraw e i reasonCode expectedVersion grants a d =
     bindE (enrollment_row i d) (\<lambda>found.
     bindE (cohort_row (enr_cohortId found) d) (\<lambda>cohort.
     bindE (assertScope grants ''enrollments.manage'' (at_branch (coh_branchId cohort))) (\<lambda>_.
     bindE (throwIf (enr_status found \<noteq> EnrActive \<and> enr_status found \<noteq> Waitlisted)
              (Cohorts (InvalidEnrollmentState ''Only students who are enrolled or waiting can withdraw.''))) (\<lambda>_.
     bindE (assertActiveCode ''withdrawal_reason'' (Some reasonCode) d) (\<lambda>_.
     case updateWithVersion e (apply_withdrawal e reasonCode a) i expectedVersion (enrollments d) of (result, rows) \<Rightarrow>
     bindE (versionedRow (Cohorts EnrollmentNotFound) result) (\<lambda>row.
     let d1 = audit e ''enrollment.withdrawn'' ''enrollment'' (JUuid i)
       [(''cohortId'', JUuid (row_id cohort)), enrollment_change (enr_status found) EnrWithdrawn, (''reason'', JStr reasonCode)]
       (d\<lparr>enrollments := rows\<rparr>) in
     case (if enr_status found = EnrActive \<and> coh_status cohort \<noteq> Cancelled then promoteWaiting e cohort a d1 else (None, d1)) of
       (promotedId, d2) \<Rightarrow>
     bindE (demand (presentEnrollment i d2) (Cohorts EnrollmentNotFound)) (\<lambda>view.
     Inr ((view, Option.bind promotedId (\<lambda>k. presentEnrollment k d2)), d2))))))))"

section \<open>Results\<close>

record record_result =
  rr_score :: "rat option"
  rr_attendancePercent :: "rat option"

definition valid_result_request :: "record_result \<Rightarrow> bool" where
  "valid_result_request inp \<longleftrightarrow> pred_option (\<lambda>s. 0 \<le> s \<and> s \<le> 100) (rr_score inp)
     \<and> pred_option (\<lambda>s. 0 \<le> s \<and> s \<le> 100) (rr_attendancePercent inp)"

fun completion_field_name :: "completion_field \<Rightarrow> string" where
  "completion_field_name FieldScore = ''score''" | "completion_field_name FieldAttendance = ''attendancePercent''"

definition outcome_status :: "course_row \<Rightarrow> record_result \<Rightarrow> app_error + enrollment_status" where
  "outcome_status course inp =
     (case evaluateCompletion (crs_minAttendancePercent course) (crs_minScore course) (rr_score inp) (rr_attendancePercent inp) of
        Incomplete missing \<Rightarrow> Inl (Cohorts (ResultIncomplete (map completion_field_name missing)))
      | Passed \<Rightarrow> Inr EnrCompleted
      | Failed _ \<Rightarrow> Inr EnrFailed)"

definition apply_result :: "env \<Rightarrow> enrollment_status \<Rightarrow> record_result \<Rightarrow> actor \<Rightarrow> enrollment_row \<Rightarrow> enrollment_row" where
  "apply_result e status inp a r = r\<lparr>enr_status := status, enr_score := rr_score inp,
     enr_attendancePercent := rr_attendancePercent inp, enr_completedAt := Some (now e), updatedBy := Some (actor_userId a)\<rparr>"

definition recordResult :: "env \<Rightarrow> uuid \<Rightarrow> record_result \<Rightarrow> int \<Rightarrow> grant list \<Rightarrow> actor \<Rightarrow> 'a classes_db_scheme
    \<Rightarrow> app_error + (enrollment_view \<times> 'a classes_db_scheme)" where
  "recordResult e i inp expectedVersion grants a d =
     bindE (enrollment_row i d) (\<lambda>found.
     bindE (cohort_row (enr_cohortId found) d) (\<lambda>cohort.
     bindE (findWithDepartment (coh_courseId cohort) d) (\<lambda>maybe.
     bindE (demand maybe (Cohorts CohortNotFound)) (\<lambda>(course, departmentId).
     bindE (assertScope grants ''results.record'' (cohort_target (Some departmentId) (coh_branchId cohort))) (\<lambda>_.
     bindE (throwIf (enr_status found \<noteq> EnrActive)
              (Cohorts (InvalidEnrollmentState ''Results can only be recorded for students who are enrolled.''))) (\<lambda>_.
     bindE (outcome_status course inp) (\<lambda>status.
     case updateWithVersion e (apply_result e status inp a) i expectedVersion (enrollments d) of (result, rows) \<Rightarrow>
     bindE (versionedRow (Cohorts EnrollmentNotFound) result) (\<lambda>row.
     let d1 = audit e ''enrollment.result_recorded'' ''enrollment'' (JUuid i)
       [(''cohortId'', JUuid (row_id cohort)), enrollment_change EnrActive status, (''score'', json_opt JRat (rr_score inp)),
        (''attendancePercent'', json_opt JRat (rr_attendancePercent inp))] (d\<lparr>enrollments := rows\<rparr>) in
     bindE (demand (presentEnrollment i d1) (Cohorts EnrollmentNotFound)) (\<lambda>view. Inr (view, d1))))))))))"

end
