(* ===== verification/AdmissionsOk.thy ===== *)
theory AdmissionsOk
  imports Applications Tables
begin

text \<open>
  The pipeline as a state machine, and that the services only ever make its moves. \<open>app_move\<close> is the
  specification: an application that is not closed is edited, moved by hand, placed, converted into a
  student or enrolled; \<open>people_step\<close> is one call of the services.
\<close>

section \<open>The specification\<close>

definition placed_result :: "application_row \<Rightarrow> bool" where
  "placed_result r \<longleftrightarrow> app_placementScore r \<noteq> None \<and> app_placementCourseId r \<noteq> None \<and> app_placedAt r \<noteq> None"

definition same_placement :: "application_row \<Rightarrow> application_row \<Rightarrow> bool" where
  "same_placement r r' \<longleftrightarrow> app_placementScore r' = app_placementScore r \<and> app_placementCourseId r' = app_placementCourseId r
     \<and> app_placedAt r' = app_placedAt r"

definition same_student :: "application_row \<Rightarrow> application_row \<Rightarrow> bool" where
  "same_student r r' \<longleftrightarrow> app_studentId r' = app_studentId r"

definition app_move :: "application_row \<Rightarrow> application_row \<Rightarrow> bool" where
  "app_move r r' \<longleftrightarrow> \<not> isClosed (app_status r) \<and> app_reference r' = app_reference r \<and> app_branchId r' = app_branchId r \<and>
     ((app_status r' = app_status r \<and> same_student r r' \<and> same_placement r r')
      \<or> (canTransition (app_status r) (app_status r') \<and> app_status r' \<in> set MANUAL_TARGETS \<and> same_student r r' \<and> same_placement r r')
      \<or> (canPlace (app_status r) \<and> app_status r' = Placed \<and> same_student r r' \<and> placed_result r')
      \<or> (app_status r = Offered \<and> app_status r' = Confirmed \<and> app_studentId r = None \<and> app_studentId r' \<noteq> None \<and> same_placement r r')
      \<or> (app_status r = Confirmed \<and> app_status r' = Enrolled \<and> same_student r r' \<and> same_placement r r'))"

definition app_born :: "application_row \<Rightarrow> bool" where
  "app_born r \<longleftrightarrow> app_status r = Submitted \<and> app_studentId r = None"

text \<open>A student is linked from confirmation on; a placed application has its result.\<close>

definition app_ok :: "application_row \<Rightarrow> bool" where
  "app_ok r \<longleftrightarrow> (app_status r \<in> {Confirmed, Enrolled} \<longrightarrow> app_studentId r \<noteq> None)
     \<and> (app_studentId r \<noteq> None \<longrightarrow> app_status r \<in> {Confirmed, Enrolled, AppWithdrawn})
     \<and> (app_status r = Placed \<longrightarrow> placed_result r)"

lemma canTransition_simps: "canTransition s t \<longleftrightarrow> t \<in> set (APPLICATION_TRANSITIONS s)"
  by (simp add: canTransition_def)

lemma app_move_status: "app_move r r' \<Longrightarrow> app_status r' = app_status r \<or> canTransition (app_status r) (app_status r')"
  by (auto simp: app_move_def canTransition_def canPlace_def PLACEMENT_FROM_def)

lemma app_move_student: "app_move r r' \<Longrightarrow> app_studentId r = Some s \<Longrightarrow> app_studentId r' = Some s"
  by (auto simp: app_move_def same_student_def)

lemma app_move_ok:
  assumes "app_ok r" "app_move r r'"
  shows "app_ok r'"
proof -
  consider (edited) "app_status r' = app_status r" "same_student r r'" "same_placement r r'"
    | (moved) "canTransition (app_status r) (app_status r')" "app_status r' \<in> set MANUAL_TARGETS" "same_student r r'" "same_placement r r'"
    | (placed) "canPlace (app_status r)" "app_status r' = Placed" "same_student r r'" "placed_result r'"
    | (converted) "app_status r' = Confirmed" "app_studentId r' \<noteq> None"
    | (enrolled) "app_status r = Confirmed" "app_status r' = Enrolled" "same_student r r'"
    using assms(2) unfolding app_move_def by blast
  then show ?thesis
  proof cases
    case moved
    then show ?thesis
      using assms(1) by (cases "app_status r") (auto simp: app_ok_def same_student_def same_placement_def canTransition_def MANUAL_TARGETS_def)
  next
    case placed
    then show ?thesis
      using assms(1) by (auto simp: app_ok_def same_student_def canPlace_def PLACEMENT_FROM_def)
  qed (use assms(1) in \<open>auto simp: app_ok_def same_student_def same_placement_def placed_result_def\<close>)
qed

interpretation pipeline: row_lifecycle app_born app_move app_ok "\<lambda>r. isClosed (app_status r)"
proof
  show "app_born r \<Longrightarrow> app_ok r" for r by (simp add: app_born_def app_ok_def)
  show "app_ok r \<Longrightarrow> app_move r r' \<Longrightarrow> app_ok r'" for r r' by (rule app_move_ok)
  show "isClosed (app_status r) \<Longrightarrow> \<not> app_move r r'" for r r' by (simp add: app_move_def)
qed

section \<open>The services make these moves\<close>

lemma audit_people_frame [simp]:
  "students (audit e x y z w d) = students d" "student_guardians (audit e x y z w d) = student_guardians d"
  "applications (audit e x y z w d) = applications d"
  by (simp_all add: audit_def record_audit_def)

abbreviation apps_step :: "'a people_db_scheme \<Rightarrow> 'a people_db_scheme \<Rightarrow> bool" where
  "apps_step d d' \<equiv> table_step app_born app_move (next_id d) (applications d) (applications d')
     \<and> issued_before (next_id d') (applications d') \<and> next_id d \<le> next_id d'"

lemma next_number_people:
  assumes "next_number e key b d = Inr (x, d')"
  shows "applications d' = applications d \<and> students d' = students d \<and> student_guardians d' = student_guardians d
    \<and> next_id d' = next_id d"
  using assms by (auto simp: next_number_def split: prod.splits)

lemma insertApplication_frame:
  assumes "insertApplication row d = Inr d'"
  shows "applications d' = applications d @ [row] \<and> students d' = students d \<and> next_id d' = next_id d"
  using assms by (auto simp: insertApplication_def)

lemma apps_step_snoc:
  assumes "issued_before (next_id d) (applications d)" "applications d' = applications d @ [row]" "row_id row = next_id d"
    "next_id d' = Suc (next_id d)" "app_born row"
  shows "apps_step d d'"
  using assms by (auto intro: table_step_snoc issued_before_snoc)

lemma createApplication_step:
  assumes "createApplication e inp grants a d = Inr (row, d')" "issued_before (next_id d) (applications d)"
  shows "apps_step d d'"
proof -
  have "applications d' = applications d @ [row] \<and> row_id row = next_id d \<and> next_id d' = Suc (next_id d) \<and> app_born row"
    using assms(1)
    by (auto simp: createApplication_def Let_def new_application_def app_born_def dest!: next_number_people insertApplication_frame)
  with assms(2) show ?thesis using apps_step_snoc by blast
qed

lemma submitFromWebsite_step:
  assumes "submitFromWebsite e inp d = Inr (res, d')" "issued_before (next_id d) (applications d)"
  shows "apps_step d d'"
proof (cases "list_ex (same_request inp) (applications d)")
  case True
  then have "d' = d" using assms(1) by (auto simp: submitFromWebsite_def)
  with assms(2) show ?thesis by simp
next
  case False
  then obtain row where "applications d' = applications d @ [row] \<and> row_id row = next_id d \<and> next_id d' = Suc (next_id d) \<and> app_born row"
    using assms(1)
    by (auto simp: submitFromWebsite_def Let_def new_application_def app_born_def dest!: next_number_people insertApplication_frame)
  with assms(2) show ?thesis using apps_step_snoc by blast
qed

text \<open>A versioned update of an application that is there, with a change that is a move.\<close>

lemma apps_step_update:
  assumes "updateWithVersion e f i v (applications d) = (Updated row, rows)" "find_by row_id i (applications d) = Some before"
    and "issued_before (next_id d) (applications d)" "keeps_key f" "app_move before ((touch e (f before))\<lparr>version := v + 1\<rparr>)"
    and "applications d' = rows" "next_id d' = next_id d"
  shows "apps_step d d'"
proof -
  have ids: "ids_distinct (applications d)" using assms(3) by (simp add: issued_before_def)
  show ?thesis
    unfolding assms(6,7) using table_step_update[where move = app_move, OF assms(1) ids assms(4,2,5)] issued_before_update[OF assms(3,1,4)] by simp
qed

lemma updateApplication_step:
  assumes "updateApplication e i inp v grants a d = Inr (row, d')" "issued_before (next_id d) (applications d)"
  shows "apps_step d d'"
proof -
  obtain before fields rows where before: "find_by row_id i (applications d) = Some before" "\<not> isClosed (app_status before)"
    and upd: "updateWithVersion e (apply_application_update inp fields a) i v (applications d) = (Updated row, rows)"
    and d': "applications d' = rows" "next_id d' = next_id d"
    using assms(1) by (auto simp: updateApplication_def application_row_def split: prod.splits)
  show ?thesis
    by (rule apps_step_update[OF upd before(1) assms(2) _ _ d'])
      (use before(2) in \<open>simp_all add: keeps_key_def apply_application_update_def app_move_def same_student_def same_placement_def touch_def\<close>)
qed

lemma transition_step:
  assumes "transition e i target v grants a d = Inr (row, d')" "issued_before (next_id d) (applications d)" "target \<in> set MANUAL_TARGETS"
  shows "apps_step d d'"
proof -
  obtain before rows where before: "find_by row_id i (applications d) = Some before" "canTransition (app_status before) target"
    and upd: "updateWithVersion e (\<lambda>r. r\<lparr>app_status := target, updatedBy := Some (actor_userId a)\<rparr>) i v (applications d) = (Updated row, rows)"
    and d': "applications d' = rows" "next_id d' = next_id d"
    using assms(1) by (auto simp: transition_def application_row_def split: prod.splits)
  have "\<not> isClosed (app_status before)" using before(2) by (cases "app_status before") (auto simp: canTransition_def isClosed_def CLOSED_STATUSES_def)
  then show ?thesis
    by (intro apps_step_update[OF upd before(1) assms(2) _ _ d'])
      (use before(2) assms(3) in \<open>simp_all add: keeps_key_def app_move_def same_student_def same_placement_def touch_def\<close>)
qed

lemma recordPlacement_step:
  assumes "recordPlacement e i inp v grants a d = Inr (row, d')" "issued_before (next_id d) (applications d)"
  shows "apps_step d d'"
proof -
  obtain before rows where before: "find_by row_id i (applications d) = Some before" "canPlace (app_status before)"
    and upd: "updateWithVersion e (apply_placement e inp a) i v (applications d) = (Updated row, rows)"
    and d': "applications d' = rows" "next_id d' = next_id d"
    using assms(1) by (auto simp: recordPlacement_def application_row_def split: prod.splits)
  have "\<not> isClosed (app_status before)" using before(2) by (auto simp: canPlace_def PLACEMENT_FROM_def isClosed_def CLOSED_STATUSES_def)
  then show ?thesis
    by (intro apps_step_update[OF upd before(1) assms(2) _ _ d'])
      (use before(2) in \<open>simp_all add: keeps_key_def app_move_def apply_placement_def same_student_def placed_result_def touch_def\<close>)
qed

lemma markEnrolled_frame:
  "applications (markEnrolled e s d) = update_where (\<lambda>r. app_studentId r = Some s \<and> app_status r = Confirmed) (enroll_application e) (applications d)"
  "next_id (markEnrolled e s d) = next_id d" "students (markEnrolled e s d) = students d"
proof -
  have fold: "applications (fold (\<lambda>r. audit e (x r) (y r) (z r) (w r)) rows d) = applications d"
    "next_id (fold (\<lambda>r. audit e (x r) (y r) (z r) (w r)) rows d) = next_id d"
    "students (fold (\<lambda>r. audit e (x r) (y r) (z r) (w r)) rows d) = students d" for x y z w and rows :: "application_row list" and d :: "'a people_db_scheme"
    by (induction rows arbitrary: d) (simp_all add: audit_def record_audit_def)
  show "applications (markEnrolled e s d) = update_where (\<lambda>r. app_studentId r = Some s \<and> app_status r = Confirmed) (enroll_application e) (applications d)"
    "next_id (markEnrolled e s d) = next_id d" "students (markEnrolled e s d) = students d"
    by (simp_all add: markEnrolled_def Let_def fold)
qed

lemma markEnrolled_step:
  assumes "issued_before (next_id d) (applications d)"
  shows "apps_step d (markEnrolled e s d)"
proof -
  have "app_move r (enroll_application e r)" if "app_status r = Confirmed" for r
    using that by (simp add: app_move_def enroll_application_def touch_def same_student_def same_placement_def isClosed_def CLOSED_STATUSES_def)
  then have "table_step app_born app_move (next_id d) (applications d)
      (update_where (\<lambda>r. app_studentId r = Some s \<and> app_status r = Confirmed) (enroll_application e) (applications d))"
    by (intro table_step_update_where) (auto simp: enroll_application_def)
  with assms show ?thesis
    by (auto simp: markEnrolled_frame enroll_application_def intro!: issued_before_update_where)
qed

section \<open>Students\<close>

lemma insertGuardians_frame:
  "insertGuardians e s gs d = Inr (rows, d') \<Longrightarrow>
     applications d' = applications d \<and> students d' = students d \<and> next_id d \<le> next_id d'"
proof (induction e s gs d arbitrary: rows d' rule: insertGuardians.induct)
  case (2 e s g gs d)
  let ?d1 = "d\<lparr>next_id := Suc (next_id d)\<rparr>"
  obtain tab more where "insertGuardians e s gs (?d1\<lparr>student_guardians := tab\<rparr>) = Inr (more, d')"
    using "2.prems" by (auto simp: Let_def)
  moreover have "(next_id d, ?d1) = take_id d" by (simp add: take_id_def)
  ultimately show ?case using "2.IH"[OF _ refl] by fastforce
qed simp

lemma createStudent_frame:
  assumes "createStudent e inp grants a d = Inr (view, d')"
  shows "applications d' = applications d \<and> students d' = students d @ [stv_row view] \<and> row_id (stv_row view) = next_id d \<and> next_id d < next_id d'"
  using assms by (auto simp: createStudent_def Let_def new_student_def dest!: next_number_people insertGuardians_frame)

lemma convert_step:
  assumes "convert e i inp v grants a d = Inr (x, d')" "issued_before (next_id d) (applications d)"
  shows "apps_step d d'"
proof -
  obtain before s d1 rows row where before: "find_by row_id i (applications d) = Some before" "app_studentId before = None" "app_status before = Offered"
    and conv: "convert_student e before inp grants a d = Inr (s, d1)"
    and upd: "updateWithVersion e (\<lambda>r. r\<lparr>app_status := Confirmed, app_studentId := Some s, updatedBy := Some (actor_userId a)\<rparr>) i v (applications d1) = (Updated row, rows)"
    and d': "applications d' = rows" "next_id d' = next_id d1"
    using assms(1) by (auto simp: convert_def application_row_def Let_def split: prod.splits)
  have d1: "applications d1 = applications d" "next_id d \<le> next_id d1"
    using conv by (auto simp: convert_student_def split: option.splits dest: createStudent_frame)
  have "issued_before (next_id d1) (applications d1)" using assms(2) d1 by (auto intro: issued_before_later)
  then have "apps_step d1 d'"
    by (rule apps_step_update[OF upd before(1)[folded d1(1)] _ _ _ d'])
      (use before(2,3) in \<open>simp_all add: keeps_key_def app_move_def same_placement_def touch_def isClosed_def CLOSED_STATUSES_def\<close>)
  with d1 show ?thesis by (auto simp: table_step_def)
qed

section \<open>One call\<close>

inductive people_step :: "'a people_db_scheme \<Rightarrow> 'a people_db_scheme \<Rightarrow> bool" where
  create: "createApplication e ca grants a d = Inr (r, d') \<Longrightarrow> people_step d d'"
| submit: "submitFromWebsite e pr d = Inr (res, d') \<Longrightarrow> people_step d d'"
| update: "updateApplication e i ua v grants a d = Inr (r, d') \<Longrightarrow> people_step d d'"
| move: "transition e i target v grants a d = Inr (r, d') \<Longrightarrow> target \<in> set MANUAL_TARGETS \<Longrightarrow> people_step d d'"
| place: "recordPlacement e i pl v grants a d = Inr (r, d') \<Longrightarrow> people_step d d'"
| convert: "convert e i cv v grants a d = Inr (x, d') \<Longrightarrow> people_step d d'"
| enrolled: "people_step d (markEnrolled e s d)"
| register: "createStudent e cs grants a d = Inr (st, d') \<Longrightarrow> people_step d d'"
| update_student: "updateStudent e i us v grants a d = Inr (st, d') \<Longrightarrow> people_step d d'"
| guardians: "setGuardians e i gs v grants a d = Inr (st, d') \<Longrightarrow> people_step d d'"
| elsewhere: "applications d' = applications d \<Longrightarrow> next_id d \<le> next_id d' \<Longrightarrow> people_step d d'"

inductive people_reachable :: "'a people_db_scheme \<Rightarrow> bool" where
  start: "applications d = [] \<Longrightarrow> people_reachable d"
| step: "people_reachable d \<Longrightarrow> people_step d d' \<Longrightarrow> people_reachable d'"

lemma people_step_apps:
  assumes "people_step d d'" "issued_before (next_id d) (applications d)"
  shows "apps_step d d'"
proof -
  have same: "apps_step d d'" if "applications d' = applications d" "next_id d \<le> next_id d'"
    using that assms(2) by (auto intro: issued_before_later)
  from assms(1) show ?thesis
  proof cases
    case (register e cs grants a st)
    then show ?thesis by (intro same) (auto dest: createStudent_frame)
  next
    case (update_student e i us v grants a st)
    then show ?thesis by (intro same) (auto simp: updateStudent_def Let_def split: prod.splits)
  next
    case (guardians e i gs v grants a st)
    then show ?thesis by (intro same) (auto simp: setGuardians_def split: prod.splits dest!: insertGuardians_frame)
  next
    case create
    then show ?thesis using createApplication_step assms(2) by blast
  next
    case submit
    then show ?thesis using submitFromWebsite_step assms(2) by blast
  next
    case update
    then show ?thesis using updateApplication_step assms(2) by blast
  next
    case move
    then show ?thesis using transition_step assms(2) by blast
  next
    case place
    then show ?thesis using recordPlacement_step assms(2) by blast
  next
    case convert
    then show ?thesis using convert_step assms(2) by blast
  next
    case (enrolled e s)
    then show ?thesis using markEnrolled_step[OF assms(2)] by blast
  next
    case elsewhere
    then show ?thesis by (rule same)
  qed
qed

lemma reachable_applications:
  assumes "people_reachable d"
  shows "issued_before (next_id d) (applications d) \<and> (\<forall>r \<in> set (applications d). app_ok r)"
  using assms
proof induction
  case (step d d')
  then have "apps_step d d'" using people_step_apps by blast
  with step.IH show ?case using pipeline.keeps_ok by blast
qed simp

section \<open>Asking twice\<close>

text \<open>After a request from the website the same person's next one for that course makes no record.\<close>

lemma submitFromWebsite_twice:
  assumes "submitFromWebsite e inp d = Inr (res, d1)" "pre_phone inp' = pre_phone inp" "pre_desiredCourseId inp' = pre_desiredCourseId inp"
    and "submitFromWebsite e' inp' d1 = Inr (res', d2)"
  shows "res' = None \<and> d2 = d1"
proof -
  have "list_ex (same_request inp) (applications d1)"
  proof (cases "list_ex (same_request inp) (applications d)")
    case True
    then show ?thesis using assms(1) by (auto simp: submitFromWebsite_def)
  next
    case False
    then obtain row where "applications d1 = applications d @ [row]" "same_request inp row"
      using assms(1)
      by (auto simp: submitFromWebsite_def Let_def new_application_def website_values_def same_request_def isClosed_def CLOSED_STATUSES_def
          dest!: next_number_people insertApplication_frame)
    then show ?thesis by simp
  qed
  moreover have "same_request inp' = same_request inp" using assms(2,3) by (simp add: same_request_def fun_eq_iff)
  ultimately show ?thesis using assms(4) by (auto simp: submitFromWebsite_def)
qed

text \<open>Every open application can be closed: some allowed move leads to a closed status.\<close>

lemma open_can_close: "s \<in> set OPEN_STATUSES \<Longrightarrow> \<exists>t \<in> set MANUAL_TARGETS. canTransition s t \<and> isClosed t"
  by (auto simp: OPEN_STATUSES_def canTransition_def MANUAL_TARGETS_def isClosed_def CLOSED_STATUSES_def)

end
