(* ===== verification/CohortsOk.thy ===== *)
theory CohortsOk
  imports Enrollments AdmissionsOk
begin

text \<open>
  Cohorts and their sessions: what \<open>generateSessions\<close> leaves, and what each operation of
  \<open>cohorts.service.ts\<close> does to the tables of cohorts and sessions.
\<close>

lemma audit_classes_frame [simp]:
  "cohorts (audit e x y z w d) = cohorts d" "class_sessions (audit e x y z w d) = class_sessions d"
  "enrollments (audit e x y z w d) = enrollments d"
  by (simp_all add: audit_def record_audit_def)

section \<open>Sessions\<close>

interpretation rooms_in_use: exclusion_constraint room_clash
  by unfold_locales (auto simp: room_clash_def times_overlap_def)

interpretation instructors_in_use: exclusion_constraint instructor_clash
  by unfold_locales (auto simp: instructor_clash_def times_overlap_def)

definition sessions_free :: "uuid \<Rightarrow> session_row list \<Rightarrow> bool" where
  "sessions_free n rows \<longleftrightarrow> exclusive room_clash n rows \<and> exclusive instructor_clash n rows"

lemma sessions_free_Nil [simp]: "sessions_free n []"
  by (simp add: sessions_free_def exclusive_def ids_distinct_def)

lemma sessions_free_later: "sessions_free n rows \<Longrightarrow> n \<le> m \<Longrightarrow> sessions_free m rows"
  by (auto simp: sessions_free_def intro: rooms_in_use.later instructors_in_use.later)

lemma sessions_free_filter: "sessions_free n rows \<Longrightarrow> sessions_free n (filter P rows)"
  by (auto simp: sessions_free_def intro: rooms_in_use.remove instructors_in_use.remove)

text \<open>A session is at its cohort's place, with its instructor, on a day of its term.\<close>

definition session_of :: "cohort_row \<Rightarrow> session_row \<Rightarrow> bool" where
  "session_of c s \<longleftrightarrow> ses_cohortId s = row_id c \<and> ses_roomId s = coh_roomId c \<and> ses_instructorId s = coh_instructorId c
     \<and> coh_startDate c \<le> ses_sessionDate s \<and> ses_sessionDate s \<le> coh_endDate c"

lemma insertSession_Inr:
  assumes "insertSession s rows = Inr rows'"
  shows "rows' = rows @ [s]" "\<forall>x \<in> set rows. \<not> room_clash s x" "\<forall>x \<in> set rows. \<not> instructor_clash s x"
  using assms by (auto simp: insertSession_def)

lemma insertSessions_Inr:
  assumes "insertSessions e zone shift c ds n rows = Inr (m, rows')" "sessions_free n rows"
  shows "m = n + length ds \<and> sessions_free m rows' \<and> (\<exists>new. rows' = rows @ new \<and> map ses_sessionDate new = ds
     \<and> (\<forall>s \<in> set new. ses_cohortId s = row_id c \<and> ses_roomId s = coh_roomId c \<and> ses_instructorId s = coh_instructorId c))"
  using assms
proof (induction ds arbitrary: n rows)
  case (Cons day ds)
  let ?s = "new_session e zone shift c n day"
  obtain rows1 where first: "insertSession ?s rows = Inr rows1"
    and rest: "insertSessions e zone shift c ds (Suc n) rows1 = Inr (m, rows')"
    using Cons.prems(1) by auto
  note made = insertSession_Inr[OF first]
  have "row_id ?s = n" by (simp add: new_session_def)
  then have "sessions_free (Suc n) rows1"
    using Cons.prems(2) made unfolding sessions_free_def
    by (auto intro: rooms_in_use.insert instructors_in_use.insert)
  from Cons.IH[OF rest this] obtain new where
    "m = Suc n + length ds" "sessions_free m rows'" "rows' = rows1 @ new" "map ses_sessionDate new = ds"
    "\<forall>s \<in> set new. ses_cohortId s = row_id c \<and> ses_roomId s = coh_roomId c \<and> ses_instructorId s = coh_instructorId c"
    by blast
  then show ?case using made(1) by (intro conjI exI[of _ "?s # new"]) (auto simp: new_session_def)
qed simp

lemma generateSessions_Inr:
  assumes "generateSessions e c shift d = Inr (k, d')" "sessions_free (next_id d) (class_sessions d)"
    and "valid_date (coh_startDate c)" "valid_date (coh_endDate c)"
  shows "\<exists>new. d' = d\<lparr>next_id := next_id d + length new,
        class_sessions := filter (\<lambda>s. ses_cohortId s \<noteq> row_id c) (class_sessions d) @ new\<rparr>
    \<and> sessions_free (next_id d') (class_sessions d') \<and> 1 \<le> length new \<and> length new \<le> MAX_SESSIONS \<and> length new = k
    \<and> (\<forall>s \<in> set new. session_of c s) \<and> map ses_sessionDate new = sessionDates (schedule_of shift c d)"
proof -
  let ?inp = "schedule_of shift c d"
  let ?kept = "filter (\<lambda>s. ses_cohortId s \<noteq> row_id c) (class_sessions d)"
  obtain zone n rows where some: "length (sessionDates ?inp) \<noteq> 0" "length (sessionDates ?inp) \<le> MAX_SESSIONS"
    and ins: "insertSessions e zone shift c (sessionDates ?inp) (next_id d) ?kept = Inr (n, rows)"
    and d': "k = length (sessionDates ?inp)" "d' = d\<lparr>next_id := n, class_sessions := rows\<rparr>"
    using assms(1) by (auto simp: generateSessions_def Let_def not_less)
  from insertSessions_Inr[OF ins sessions_free_filter[OF assms(2)]] obtain new where
    new: "n = next_id d + length (sessionDates ?inp)" "sessions_free n rows" "rows = ?kept @ new"
      "map ses_sessionDate new = sessionDates ?inp"
      "\<forall>s \<in> set new. ses_cohortId s = row_id c \<and> ses_roomId s = coh_roomId c \<and> ses_instructorId s = coh_instructorId c"
    by blast
  have len: "length new = length (sessionDates ?inp)" using new(4) by (metis length_map)
  have "session_of c s" if "s \<in> set new" for s
  proof -
    have "ses_sessionDate s \<in> set (sessionDates ?inp)" using that new(4) by (metis image_eqI image_set)
    then have "ses_sessionDate s \<in> set (day_range (coh_startDate c) (coh_endDate c))"
      using sessionDates_filter[of ?inp] assms(3,4) by (auto simp: schedule_of_def dest: in_set_takeD)
    then show ?thesis using new(5) that by (simp add: session_of_def mem_day_range[OF assms(3,4)])
  qed
  then show ?thesis using new len some d' by (intro exI[of _ new]) (auto simp: Suc_le_eq)
qed

section \<open>The life of a cohort\<close>

definition coh_ok :: "cohort_row \<Rightarrow> bool" where
  "coh_ok c \<longleftrightarrow> valid_date (coh_startDate c) \<and> valid_date (coh_endDate c) \<and> coh_startDate c \<le> coh_endDate c
     \<and> 1 \<le> coh_maxSize c \<and> coh_maxSize c \<le> 500"

definition coh_born :: "cohort_row \<Rightarrow> bool" where
  "coh_born c \<longleftrightarrow> coh_ok c \<and> coh_status c = Planned"

definition coh_finished :: "cohort_row \<Rightarrow> bool" where
  "coh_finished c \<longleftrightarrow> coh_status c \<in> {CohCompleted, Cancelled}"

definition same_schedule :: "cohort_row \<Rightarrow> cohort_row \<Rightarrow> bool" where
  "same_schedule c c' \<longleftrightarrow> coh_shiftId c' = coh_shiftId c \<and> coh_roomId c' = coh_roomId c \<and> coh_instructorId c' = coh_instructorId c
     \<and> coh_startDate c' = coh_startDate c \<and> coh_endDate c' = coh_endDate c"

text \<open>A cohort keeps its course; its schedule is fixed once it runs; its status follows \<open>COHORT_TRANSITIONS\<close>.\<close>

definition coh_move :: "cohort_row \<Rightarrow> cohort_row \<Rightarrow> bool" where
  "coh_move c c' \<longleftrightarrow> \<not> coh_finished c \<and> coh_courseId c' = coh_courseId c \<and> coh_ok c'
     \<and> (coh_status c' = coh_status c \<or> (coh_status c' \<in> set (COHORT_TRANSITIONS (coh_status c)) \<and> same_schedule c c' \<and> coh_maxSize c' = coh_maxSize c))
     \<and> (coh_status c = Running \<longrightarrow> same_schedule c c')"

interpretation cohort_life: row_lifecycle coh_born coh_move coh_ok coh_finished
  by unfold_locales (auto simp: coh_born_def coh_move_def)

abbreviation cohorts_step :: "'a classes_db_scheme \<Rightarrow> 'a classes_db_scheme \<Rightarrow> bool" where
  "cohorts_step d d' \<equiv> table_step coh_born coh_move (next_id d) (cohorts d) (cohorts d') \<and> issued_before (next_id d') (cohorts d')"

section \<open>Every cohort that is on has its sessions\<close>

definition sessions_for :: "uuid \<Rightarrow> session_row list \<Rightarrow> session_row list" where
  "sessions_for i rows = filter (\<lambda>s. ses_cohortId s = i) rows"

definition sessions_ok :: "'a classes_db_scheme \<Rightarrow> bool" where
  "sessions_ok d \<longleftrightarrow> sessions_free (next_id d) (class_sessions d)
     \<and> (\<forall>s \<in> set (class_sessions d). \<exists>c \<in> set (cohorts d). session_of c s \<and> coh_status c \<noteq> Cancelled)
     \<and> (\<forall>c \<in> set (cohorts d). coh_status c \<noteq> Cancelled \<longrightarrow>
          1 \<le> length (sessions_for (row_id c) (class_sessions d)) \<and> length (sessions_for (row_id c) (class_sessions d)) \<le> MAX_SESSIONS)"

lemma sessions_ok_cong:
  "class_sessions d' = class_sessions d \<Longrightarrow> cohorts d' = cohorts d \<Longrightarrow> next_id d' = next_id d \<Longrightarrow> sessions_ok d' \<longleftrightarrow> sessions_ok d"
  by (simp only: sessions_ok_def)

lemma sessions_ok_later:
  assumes "sessions_ok d" "class_sessions d' = class_sessions d" "cohorts d' = cohorts d" "next_id d \<le> next_id d'"
  shows "sessions_ok d'"
  using assms(1) sessions_free_later[OF _ assms(4)] unfolding sessions_ok_def assms(2,3) by blast

text \<open>An operation on one cohort: the others and their sessions stay as they are.\<close>

lemma sessions_ok_one:
  assumes ok: "sessions_ok d" and free: "sessions_free (next_id d') (class_sessions d')"
    and others: "\<And>x. x \<in> set (cohorts d') \<Longrightarrow> row_id x \<noteq> i \<Longrightarrow> x \<in> set (cohorts d)"
      "\<And>x. x \<in> set (cohorts d) \<Longrightarrow> row_id x \<noteq> i \<Longrightarrow> x \<in> set (cohorts d')"
    and sessions: "filter (\<lambda>s. ses_cohortId s \<noteq> i) (class_sessions d') = filter (\<lambda>s. ses_cohortId s \<noteq> i) (class_sessions d)"
    and one: "c \<in> set (cohorts d')" "row_id c = i" "\<And>x. x \<in> set (cohorts d') \<Longrightarrow> row_id x = i \<Longrightarrow> x = c"
    and mine: "\<And>s. s \<in> set (class_sessions d') \<Longrightarrow> ses_cohortId s = i \<Longrightarrow> session_of c s \<and> coh_status c \<noteq> Cancelled"
    and counted: "coh_status c \<noteq> Cancelled \<Longrightarrow>
      1 \<le> length (sessions_for i (class_sessions d')) \<and> length (sessions_for i (class_sessions d')) \<le> MAX_SESSIONS"
  shows "sessions_ok d'"
proof -
  have same: "sessions_for k (class_sessions d') = sessions_for k (class_sessions d)" if "k \<noteq> i" for k
  proof -
    have "sessions_for k rows = sessions_for k (filter (\<lambda>s. ses_cohortId s \<noteq> i) rows)" for rows
      using that by (auto simp: sessions_for_def intro!: filter_cong)
    then show ?thesis using sessions by metis
  qed
  have "\<exists>c \<in> set (cohorts d'). session_of c s \<and> coh_status c \<noteq> Cancelled" if s: "s \<in> set (class_sessions d')" for s
  proof (cases "ses_cohortId s = i")
    case True
    then show ?thesis using mine[OF s] one(1) by blast
  next
    case False
    then have "s \<in> set (class_sessions d)" using s sessions by (metis (mono_tags, lifting) mem_Collect_eq set_filter)
    then obtain x where "x \<in> set (cohorts d)" "session_of x s" "coh_status x \<noteq> Cancelled" using ok by (auto simp: sessions_ok_def)
    then show ?thesis using others(2) False by (metis session_of_def)
  qed
  moreover have "1 \<le> length (sessions_for (row_id x) (class_sessions d')) \<and> length (sessions_for (row_id x) (class_sessions d')) \<le> MAX_SESSIONS"
    if x: "x \<in> set (cohorts d')" "coh_status x \<noteq> Cancelled" for x
  proof (cases "row_id x = i")
    case True
    then show ?thesis using one(2,3) counted x by metis
  next
    case False
    then show ?thesis using same others(1) ok x by (simp add: sessions_ok_def)
  qed
  ultimately show ?thesis using free by (simp add: sessions_ok_def)
qed

lemma rescheduled_ok:
  assumes ok: "sessions_ok d" and d1: "class_sessions d1 = class_sessions d" "next_id d \<le> next_id d1"
    and gen: "generateSessions e c shift d1 = Inr (k, d2)" and c: "coh_ok c" "coh_status c \<noteq> Cancelled"
    and others: "\<And>x. x \<in> set (cohorts d1) \<Longrightarrow> row_id x \<noteq> row_id c \<Longrightarrow> x \<in> set (cohorts d)"
      "\<And>x. x \<in> set (cohorts d) \<Longrightarrow> row_id x \<noteq> row_id c \<Longrightarrow> x \<in> set (cohorts d1)"
    and one: "c \<in> set (cohorts d1)" "\<And>x. x \<in> set (cohorts d1) \<Longrightarrow> row_id x = row_id c \<Longrightarrow> x = c"
  shows "sessions_ok d2"
    and "cohorts d2 = cohorts d1 \<and> enrollments d2 = enrollments d1 \<and> rooms d2 = rooms d1 \<and> next_id d1 \<le> next_id d2"
proof -
  have "sessions_free (next_id d1) (class_sessions d1)"
    using ok d1 by (auto simp: sessions_ok_def intro: sessions_free_later)
  with generateSessions_Inr[OF gen] c obtain new where
    d2: "d2 = d1\<lparr>next_id := next_id d1 + length new, class_sessions := filter (\<lambda>s. ses_cohortId s \<noteq> row_id c) (class_sessions d1) @ new\<rparr>"
    and free: "sessions_free (next_id d2) (class_sessions d2)"
    and len: "1 \<le> length new" "length new \<le> MAX_SESSIONS" and new: "\<forall>s \<in> set new. session_of c s"
    by (auto simp: coh_ok_def)
  show frame: "cohorts d2 = cohorts d1 \<and> enrollments d2 = enrollments d1 \<and> rooms d2 = rooms d1 \<and> next_id d1 \<le> next_id d2"
    by (simp add: d2)
  have ids: "\<forall>s \<in> set new. ses_cohortId s = row_id c" using new by (simp add: session_of_def)
  have kept: "filter (\<lambda>s. ses_cohortId s \<noteq> row_id c) (class_sessions d2) = filter (\<lambda>s. ses_cohortId s \<noteq> row_id c) (class_sessions d)"
    using ids d1(1) by (simp add: d2 filter_empty_conv)
  have mine: "sessions_for (row_id c) (class_sessions d2) = new"
    using ids by (simp add: d2 sessions_for_def filter_empty_conv)
  show "sessions_ok d2"
  proof (rule sessions_ok_one[OF ok free _ _ kept _ refl])
    show "s \<in> set (class_sessions d2) \<Longrightarrow> ses_cohortId s = row_id c \<Longrightarrow> session_of c s \<and> coh_status c \<noteq> Cancelled" for s
      using new c(2) by (auto simp: d2)
  qed (use others one frame len in \<open>simp_all add: mine\<close>)
qed

section \<open>What the operations do\<close>

definition cohort_tables_ok :: "'a classes_db_scheme \<Rightarrow> bool" where
  "cohort_tables_ok d \<longleftrightarrow> issued_before (next_id d) (cohorts d) \<and> (\<forall>c \<in> set (cohorts d). coh_ok c) \<and> sessions_ok d"

lemma resolve_refs_rooms:
  assumes "resolve_refs refs d = Inr (course, shift, room)"
  shows "find_by row_id (cr_roomId refs) (rooms d) = Some room"
  using assms by (auto simp: resolve_refs_def findRoom_def split: option.splits if_splits)

lemma createCohort_effect:
  assumes made: "createCohort e inp grants a d = Inr (view, d')" and "valid_cohort_request inp" and ok: "cohort_tables_ok d"
  shows "cohorts_step d d' \<and> sessions_ok d' \<and> enrollments d' = enrollments d \<and> next_id d \<le> next_id d'
    \<and> rooms d' = rooms d \<and> (\<exists>row. cohorts d' = cohorts d @ [row] \<and> row_id row = next_id d \<and> coh_born row)"
proof -
  obtain shift and room :: room_row and k d2 where gen: "generateSessions e (new_cohort e a (next_id d) inp (rm_branchId room)) shift
      (d\<lparr>next_id := Suc (next_id d), cohorts := cohorts d @ [new_cohort e a (next_id d) inp (rm_branchId room)]\<rparr>) = Inr (k, d2)"
    and d': "cohorts d' = cohorts d2" "class_sessions d' = class_sessions d2" "enrollments d' = enrollments d2" "next_id d' = next_id d2"
      "rooms d' = rooms d2"
    using made by (auto simp: createCohort_def Let_def split: prod.splits)
  let ?c = "new_cohort e a (next_id d) inp (rm_branchId room)"
  have c: "row_id ?c = next_id d" "coh_status ?c = Planned" "coh_ok ?c" "coh_born ?c"
    using assms(2) by (auto simp: new_cohort_def coh_ok_def coh_born_def valid_cohort_request_def)
  have before: "issued_before (next_id d) (cohorts d)" "sessions_ok d" using ok by (auto simp: cohort_tables_ok_def)
  then have fresh: "x \<in> set (cohorts d) \<Longrightarrow> row_id x \<noteq> next_id d" for x by (auto simp: issued_before_def)
  have res: "sessions_ok d2" "cohorts d2 = cohorts d @ [?c] \<and> enrollments d2 = enrollments d \<and> rooms d2 = rooms d \<and> Suc (next_id d) \<le> next_id d2"
    using rescheduled_ok[OF before(2) _ _ gen c(3)] c(1,2) fresh by auto
  have "sessions_ok d'" using sessions_ok_cong[OF d'(2,1,4)] res(1) by blast
  moreover have "table_step coh_born coh_move (next_id d) (cohorts d) (cohorts d @ [?c])" using c by (intro table_step_snoc) auto
  moreover have "issued_before (next_id d2) (cohorts d @ [?c])"
    using before(1) c(1) res(2) by (intro issued_before_snoc[of "next_id d"]) auto
  ultimately show ?thesis using res(2) d' c by auto
qed

lemma updateCohort_shape:
  assumes "updateCohort e i inp v grants a d = Inr (view, d')"
  obtains before :: cohort_row and room :: room_row and shift :: shift_row and row rows d2 where "find_by row_id i (cohorts d) = Some before"
    "\<not> coh_finished before" "\<not> (changesSchedule inp before \<and> coh_status before = Running)"
    "find_by row_id (override (uco_roomId inp) (coh_roomId before)) (rooms d) = Some room"
    "int (length (enrolled_in i EnrActive d)) \<le> min (override (uco_maxSize inp) (coh_maxSize before)) (rm_capacity room)"
    "updateWithVersion e (apply_cohort_update inp (rm_branchId room) a) i v (cohorts d) = (Updated row, rows)"
    "coh_startDate row \<le> coh_endDate row"
    "if changesSchedule inp before then \<exists>k. generateSessions e row shift (d\<lparr>cohorts := rows\<rparr>) = Inr (k, d2) else d2 = d\<lparr>cohorts := rows\<rparr>"
    "cohorts d' = cohorts d2" "class_sessions d' = class_sessions d2" "enrollments d' = enrollments d2" "next_id d' = next_id d2" "rooms d' = rooms d2"
  using assms
  apply (clarsimp simp: updateCohort_def cohort_row_def Let_def not_less split: prod.split_asm)
  apply (drule resolve_refs_rooms)
  apply (rule that, assumption)
  apply (simp_all add: coh_finished_def)
  done

lemma keeps_key_cohort: "keeps_key (apply_cohort_update inp b a)"
  by (simp add: keeps_key_def apply_cohort_update_def)

lemma override_valid: "pred_option P x \<Longrightarrow> P y \<Longrightarrow> P (override x y)"
  by (cases x) (simp_all add: override_def)

lemma unchanged_schedule:
  "\<not> changesSchedule inp c \<Longrightarrow> same_schedule c (apply_cohort_update inp b a c)"
  by (auto simp: changesSchedule_def same_schedule_def apply_cohort_update_def changed_def override_def split: option.splits)

text \<open>How full the cohort an operation touched may be afterwards; the others are as they were.\<close>

definition fits :: "uuid \<Rightarrow> 'a classes_db_scheme \<Rightarrow> bool" where
  "fits i d \<longleftrightarrow> (\<forall>c \<in> set (cohorts d). row_id c = i \<longrightarrow> int (activeCount i d) \<le> seatsOf c d)"

lemma updateCohort_effect:
  assumes made: "updateCohort e i inp v grants a d = Inr (view, d')" and "valid_cohort_update inp" and ok: "cohort_tables_ok d"
  shows "cohorts_step d d' \<and> sessions_ok d' \<and> enrollments d' = enrollments d \<and> next_id d \<le> next_id d' \<and> rooms d' = rooms d
    \<and> fits i d' \<and> (\<forall>x \<in> set (cohorts d'). row_id x \<noteq> i \<longrightarrow> x \<in> set (cohorts d))
    \<and> (\<forall>x \<in> set (cohorts d'). row_id x = i \<longrightarrow> (\<exists>y \<in> set (cohorts d). row_id y = i \<and> coh_status x = coh_status y))"
proof -
  obtain before and room :: room_row and shift row rows d2 where before: "find_by row_id i (cohorts d) = Some before" "\<not> coh_finished before"
      "\<not> (changesSchedule inp before \<and> coh_status before = Running)"
    and room: "find_by row_id (override (uco_roomId inp) (coh_roomId before)) (rooms d) = Some room"
    and size: "int (length (enrolled_in i EnrActive d)) \<le> min (override (uco_maxSize inp) (coh_maxSize before)) (rm_capacity room)"
    and upd: "updateWithVersion e (apply_cohort_update inp (rm_branchId room) a) i v (cohorts d) = (Updated row, rows)"
    and range: "coh_startDate row \<le> coh_endDate row"
    and gen: "if changesSchedule inp before then \<exists>k. generateSessions e row shift (d\<lparr>cohorts := rows\<rparr>) = Inr (k, d2) else d2 = d\<lparr>cohorts := rows\<rparr>"
    and d': "cohorts d' = cohorts d2" "class_sessions d' = class_sessions d2" "enrollments d' = enrollments d2" "next_id d' = next_id d2" "rooms d' = rooms d2"
    by (rule updateCohort_shape[OF made])
  have tables: "issued_before (next_id d) (cohorts d)" "ids_distinct (cohorts d)" "sessions_ok d" "coh_ok before"
    using ok before(1) by (auto simp: cohort_tables_ok_def issued_before_def dest: find_by_in)
  note hits = updateWithVersion_hits[OF upd tables(2) keeps_key_cohort]
  have row: "row = (touch e (apply_cohort_update inp (rm_branchId room) a before))\<lparr>version := v + 1\<rparr>"
    using updateWithVersion_Updated[OF tables(2) upd] before(1) by (metis option.inject)
  have fields: "coh_startDate row = override (uco_startDate inp) (coh_startDate before)" "coh_endDate row = override (uco_endDate inp) (coh_endDate before)"
      "coh_roomId row = override (uco_roomId inp) (coh_roomId before)" "coh_maxSize row = override (uco_maxSize inp) (coh_maxSize before)"
    by (simp_all add: row touch_def apply_cohort_update_def)
  have given: "pred_option valid_date (uco_startDate inp)" "pred_option valid_date (uco_endDate inp)"
      "pred_option (\<lambda>n. 1 \<le> n \<and> n \<le> 500) (uco_maxSize inp)"
    using assms(2) by (simp_all add: valid_cohort_update_def)
  have was: "valid_date (coh_startDate before)" "valid_date (coh_endDate before)" "1 \<le> coh_maxSize before \<and> coh_maxSize before \<le> 500"
    using tables(4) by (simp_all add: coh_ok_def)
  have row_ok: "coh_ok row"
    using override_valid[OF given(1) was(1)] override_valid[OF given(2) was(2)] override_valid[OF given(3) was(3)] range
    unfolding coh_ok_def fields by blast
  have same: "same_schedule before row" if "\<not> changesSchedule inp before"
    using unchanged_schedule[OF that] by (simp add: row same_schedule_def touch_def)
  have status: "coh_status row = coh_status before" "coh_courseId row = coh_courseId before" "row_id row = i"
    using before(1) by (auto simp: row touch_def apply_cohort_update_def dest: find_by_key)
  have move: "coh_move before row"
    using before(2,3) row_ok status same by (auto simp: coh_move_def)
  have step: "table_step coh_born coh_move (next_id d) (cohorts d) rows"
    using move unfolding row by (intro table_step_update[where move = coh_move, OF upd tables(2) keeps_key_cohort before(1)])
  have issued: "issued_before (next_id d) rows" by (rule issued_before_update[OF tables(1) upd keeps_key_cohort])
  have there: "x \<in> set rows" if "x \<in> set (cohorts d)" "row_id x \<noteq> i" for x
    using updateWithVersion_rows[OF tables(2) upd] that by (force simp: set_update_where image_iff)
  have on: "coh_status row \<noteq> Cancelled" using before(2) status by (simp add: coh_finished_def)
  have d2: "cohorts d2 = rows \<and> enrollments d2 = enrollments d \<and> rooms d2 = rooms d \<and> next_id d \<le> next_id d2 \<and> sessions_ok d2"
  proof (cases "changesSchedule inp before")
    case True
    then obtain k where g: "generateSessions e row shift (d\<lparr>cohorts := rows\<rparr>) = Inr (k, d2)" using gen by auto
    have flat: "class_sessions (d\<lparr>cohorts := rows\<rparr>) = class_sessions d" "next_id d \<le> next_id (d\<lparr>cohorts := rows\<rparr>)"
      and sel: "cohorts (d\<lparr>cohorts := rows\<rparr>) = rows" by simp_all
    note gone = rescheduled_ok[OF tables(3) flat g row_ok on, unfolded sel status(3)]
    have "sessions_ok d2" by (rule gone(1)) (assumption | rule hits(1) hits(3) hits(4) there)+
    moreover have "cohorts d2 = rows \<and> enrollments d2 = enrollments (d\<lparr>cohorts := rows\<rparr>) \<and> rooms d2 = rooms (d\<lparr>cohorts := rows\<rparr>)
        \<and> next_id (d\<lparr>cohorts := rows\<rparr>) \<le> next_id d2"
      by (rule gone(2)) (assumption | rule hits(1) hits(3) hits(4) there)+
    ultimately show ?thesis by simp
  next
    case False
    then have flat: "d2 = d\<lparr>cohorts := rows\<rparr>" using gen by simp
    have sel: "cohorts (d\<lparr>cohorts := rows\<rparr>) = rows" "class_sessions (d\<lparr>cohorts := rows\<rparr>) = class_sessions d"
        "next_id (d\<lparr>cohorts := rows\<rparr>) = next_id d" by simp_all
    have mine: "session_of row s \<and> coh_status row \<noteq> Cancelled" if s: "s \<in> set (class_sessions d)" "ses_cohortId s = i" for s
    proof -
      obtain x where x: "x \<in> set (cohorts d)" "session_of x s" using tables(3) s(1) by (auto simp: sessions_ok_def)
      have "row_id x = row_id before" using x(2) s(2) find_by_key[OF before(1)] by (simp add: session_of_def)
      with same_row[OF tables(2) x(1) find_by_in[OF before(1)]] x(2) have "session_of before s" by simp
      then show ?thesis using same[OF False] on status(3) s(2) by (simp add: session_of_def same_schedule_def)
    qed
    have free: "sessions_free (next_id d) (class_sessions d)" using tables(3) by (simp add: sessions_ok_def)
    have counted: "1 \<le> length (sessions_for i (class_sessions d)) \<and> length (sessions_for i (class_sessions d)) \<le> MAX_SESSIONS"
      using tables(3) find_by_in[OF before(1)] on unfolding sessions_ok_def status(1) find_by_key[OF before(1), symmetric] by blast
    have "sessions_ok (d\<lparr>cohorts := rows\<rparr>)"
      by (rule sessions_ok_one[OF tables(3), where d' = "d\<lparr>cohorts := rows\<rparr>" and i = i and c = row, unfolded sel])
        (assumption | rule free refl status(3) mine counted hits(1) hits(3) hits(4) there)+
    then show ?thesis by (simp add: flat)
  qed
  have "fits i d'"
  proof -
    have "x = row" if "x \<in> set rows" "row_id x = i" for x using hits(4) that by blast
    then show ?thesis
      using size room d2 d' fields by (auto simp: fits_def seatsOf_def activeCount_def enrolled_in_def)
  qed
  moreover have "sessions_ok d'" using sessions_ok_cong[OF d'(2,1,4)] d2 by blast
  moreover have "issued_before (next_id d') (cohorts d')" using issued d2 d' by (auto intro: issued_before_later)
  moreover have "\<exists>y \<in> set (cohorts d). row_id y = i \<and> coh_status x = coh_status y" if "x \<in> set rows" "row_id x = i" for x
    using hits(4)[OF that] status(1) find_by_in[OF before(1)] find_by_key[OF before(1)] by blast
  ultimately show ?thesis using step d2 d' hits(3) by simp
qed

lemma setCohortStatus_shape:
  assumes "setCohortStatus e i target v grants a d = Inr (view, d')"
  obtains before :: cohort_row and row rows where "find_by row_id i (cohorts d) = Some before"
    "target \<in> set (COHORT_TRANSITIONS (coh_status before))"
    "target = Cancelled \<Longrightarrow> enrolled_in i EnrActive d = [] \<and> enrolled_in i Waitlisted d = []"
    "target = CohCompleted \<Longrightarrow> enrolled_in i EnrActive d = []"
    "updateWithVersion e (\<lambda>r. r\<lparr>coh_status := target, updatedBy := Some (actor_userId a)\<rparr>) i v (cohorts d) = (Updated row, rows)"
    "cohorts d' = rows" "enrollments d' = enrollments d" "next_id d' = next_id d" "rooms d' = rooms d"
    "class_sessions d' = (if target = Cancelled then filter (\<lambda>s. ses_cohortId s \<noteq> i) (class_sessions d) else class_sessions d)"
  using assms
  apply (clarsimp simp: setCohortStatus_def cohort_row_def Let_def split: prod.split_asm)
  apply (rule that, assumption)
  apply (simp_all split: if_split_asm)
  done

lemma setCohortStatus_effect:
  assumes made: "setCohortStatus e i target v grants a d = Inr (view, d')" and ok: "cohort_tables_ok d"
  shows "cohorts_step d d' \<and> sessions_ok d' \<and> enrollments d' = enrollments d \<and> next_id d \<le> next_id d' \<and> rooms d' = rooms d
    \<and> (\<forall>x \<in> set (cohorts d'). row_id x \<noteq> i \<longrightarrow> x \<in> set (cohorts d))
    \<and> (\<forall>x \<in> set (cohorts d'). row_id x = i \<longrightarrow> coh_status x = target
        \<and> (\<exists>y \<in> set (cohorts d). row_id y = i \<and> coh_roomId x = coh_roomId y \<and> coh_maxSize x = coh_maxSize y))
    \<and> (target = Cancelled \<longrightarrow> enrolled_in i EnrActive d = [] \<and> enrolled_in i Waitlisted d = [])
    \<and> (target = CohCompleted \<longrightarrow> enrolled_in i EnrActive d = [])"
proof -
  let ?f = "\<lambda>r. r\<lparr>coh_status := target, updatedBy := Some (actor_userId a)\<rparr>"
  obtain before row rows where before: "find_by row_id i (cohorts d) = Some before"
    and allowed: "target \<in> set (COHORT_TRANSITIONS (coh_status before))"
    and free: "target = Cancelled \<Longrightarrow> enrolled_in i EnrActive d = [] \<and> enrolled_in i Waitlisted d = []"
      "target = CohCompleted \<Longrightarrow> enrolled_in i EnrActive d = []"
    and upd: "updateWithVersion e ?f i v (cohorts d) = (Updated row, rows)"
    and d': "cohorts d' = rows" "enrollments d' = enrollments d" "next_id d' = next_id d" "rooms d' = rooms d"
    and ses: "class_sessions d' = (if target = Cancelled then filter (\<lambda>s. ses_cohortId s \<noteq> i) (class_sessions d) else class_sessions d)"
    by (rule setCohortStatus_shape[OF made]) blast
  have tables: "issued_before (next_id d) (cohorts d)" "ids_distinct (cohorts d)" "sessions_ok d" "coh_ok before"
    using ok before by (auto simp: cohort_tables_ok_def issued_before_def dest: find_by_in)
  have key: "keeps_key ?f" by (simp add: keeps_key_def)
  note hits = updateWithVersion_hits[OF upd tables(2) key]
  have row: "row = (touch e (?f before))\<lparr>version := v + 1\<rparr>"
    using updateWithVersion_Updated[OF tables(2) upd] before(1) by (metis option.inject)
  have fields: "coh_status row = target" "row_id row = i" "coh_roomId row = coh_roomId before" "coh_maxSize row = coh_maxSize before"
      "session_of row s = session_of before s" for s
    using find_by_key[OF before] by (simp_all add: row touch_def session_of_def)
  have unfinished: "\<not> coh_finished before" using allowed by (auto simp: coh_finished_def)
  have move: "coh_move before row"
    using unfinished tables(4) allowed by (auto simp: row coh_move_def touch_def same_schedule_def coh_ok_def)
  have step: "table_step coh_born coh_move (next_id d) (cohorts d) rows"
    using move unfolding row by (intro table_step_update[where move = coh_move, OF upd tables(2) key before])
  have issued: "issued_before (next_id d) rows" by (rule issued_before_update[OF tables(1) upd key])
  have there: "x \<in> set rows" if "x \<in> set (cohorts d)" "row_id x \<noteq> i" for x
    using updateWithVersion_rows[OF tables(2) upd] that by (force simp: set_update_where image_iff)
  have mine: "session_of row s \<and> coh_status row \<noteq> Cancelled" if s: "s \<in> set (class_sessions d')" "ses_cohortId s = i" for s
  proof -
    have here: "target \<noteq> Cancelled" "s \<in> set (class_sessions d)" using s ses by (auto split: if_splits)
    obtain x where x: "x \<in> set (cohorts d)" "session_of x s" using tables(3) here(2) by (auto simp: sessions_ok_def)
    have "row_id x = row_id before" using x(2) s(2) find_by_key[OF before] by (simp add: session_of_def)
    with same_row[OF tables(2) x(1) find_by_in[OF before]] x(2) here fields show ?thesis by simp
  qed
  have counted: "1 \<le> length (sessions_for i (class_sessions d')) \<and> length (sessions_for i (class_sessions d')) \<le> MAX_SESSIONS"
    if "coh_status row \<noteq> Cancelled"
    using that tables(3) find_by_in[OF before] unfinished fields(1)
    unfolding sessions_ok_def ses coh_finished_def find_by_key[OF before, symmetric] by simp
  have others: "filter (\<lambda>s. ses_cohortId s \<noteq> i) (class_sessions d') = filter (\<lambda>s. ses_cohortId s \<noteq> i) (class_sessions d)"
    by (simp add: ses)
  have free': "sessions_free (next_id d') (class_sessions d')"
    using tables(3) by (simp add: ses d' sessions_ok_def sessions_free_filter)
  have "sessions_ok d'"
    by (rule sessions_ok_one[OF tables(3) free' _ _ others, where c = row, unfolded d'(1)])
      (assumption | rule fields(2) mine counted hits(1) hits(3) hits(4) there)+
  moreover have "coh_status x = target \<and> (\<exists>y \<in> set (cohorts d). row_id y = i \<and> coh_roomId x = coh_roomId y \<and> coh_maxSize x = coh_maxSize y)"
    if "x \<in> set rows" "row_id x = i" for x
    using hits(4)[OF that] fields find_by_in[OF before] find_by_key[OF before] by blast
  ultimately show ?thesis using step issued hits(3) free d' by simp
qed

end
