(* ===== verification/Seats.thy ===== *)
theory Seats
  imports CohortsOk
begin

text \<open>
  Enrollments: the life of one, and what each operation of \<open>enrollments.service.ts\<close> does to the table and
  to the number of seats taken. A seat is given only while the class has one free, and a freed seat goes to
  the head of the queue.
\<close>

lemma fold_audit_classes:
  "enrollments (fold (\<lambda>r. audit e x y (f r) (g r)) rows d) = enrollments d \<and> cohorts (fold (\<lambda>r. audit e x y (f r) (g r)) rows d) = cohorts d
    \<and> class_sessions (fold (\<lambda>r. audit e x y (f r) (g r)) rows d) = class_sessions d
    \<and> rooms (fold (\<lambda>r. audit e x y (f r) (g r)) rows d) = rooms d \<and> next_id (fold (\<lambda>r. audit e x y (f r) (g r)) rows d) = next_id d"
  by (induction rows arbitrary: d) simp_all

lemma markEnrolled_classes_frame [simp]:
  "enrollments (markEnrolled e s d) = enrollments d" "cohorts (markEnrolled e s d) = cohorts d"
  "class_sessions (markEnrolled e s d) = class_sessions d" "rooms (markEnrolled e s d) = rooms d"
  "next_id (markEnrolled e s d) = next_id d"
  by (simp_all add: markEnrolled_def Let_def fold_audit_classes)

section \<open>The life of an enrollment\<close>

definition enr_finished :: "enrollment_row \<Rightarrow> bool" where
  "enr_finished en \<longleftrightarrow> enr_status en \<in> {EnrCompleted, EnrFailed, EnrWithdrawn}"

definition enr_born :: "enrollment_row \<Rightarrow> bool" where
  "enr_born en \<longleftrightarrow> (enr_status en = EnrActive \<and> enr_enrolledAt en \<noteq> None) \<or> (enr_status en = Waitlisted \<and> enr_waitlistedAt en \<noteq> None)"

definition enr_move :: "enrollment_row \<Rightarrow> enrollment_row \<Rightarrow> bool" where
  "enr_move en en' \<longleftrightarrow> enr_studentId en' = enr_studentId en \<and> enr_cohortId en' = enr_cohortId en \<and>
     ((enr_status en = Waitlisted \<and> enr_status en' = EnrActive \<and> enr_enrolledAt en' \<noteq> None)
      \<or> (live en \<and> enr_status en' = EnrWithdrawn \<and> enr_withdrawnAt en' \<noteq> None)
      \<or> (enr_status en = EnrActive \<and> enr_status en' \<in> {EnrCompleted, EnrFailed} \<and> enr_completedAt en' \<noteq> None
         \<and> enr_enrolledAt en' = enr_enrolledAt en))"

text \<open>An enrollment records when it came to be in its state.\<close>

definition enr_ok :: "enrollment_row \<Rightarrow> bool" where
  "enr_ok en \<longleftrightarrow> (case enr_status en of
     Waitlisted \<Rightarrow> enr_waitlistedAt en \<noteq> None
   | EnrActive \<Rightarrow> enr_enrolledAt en \<noteq> None
   | EnrWithdrawn \<Rightarrow> enr_withdrawnAt en \<noteq> None
   | _ \<Rightarrow> enr_enrolledAt en \<noteq> None \<and> enr_completedAt en \<noteq> None)"

interpretation enrollment_life: row_lifecycle enr_born enr_move enr_ok enr_finished
proof
  show "enr_born en \<Longrightarrow> enr_ok en" for en by (auto simp: enr_born_def enr_ok_def)
  show "enr_ok en \<Longrightarrow> enr_move en en' \<Longrightarrow> enr_ok en'" for en en' by (auto simp: enr_ok_def enr_move_def)
  show "enr_finished en \<Longrightarrow> \<not> enr_move en en'" for en en' by (auto simp: enr_finished_def enr_move_def live_def)
qed

interpretation one_live: versioned_exclusion enrollment_clash
  by unfold_locales (auto simp: enrollment_clash_def live_def touch_def)

abbreviation enrollments_step :: "'a classes_db_scheme \<Rightarrow> 'a classes_db_scheme \<Rightarrow> bool" where
  "enrollments_step d d' \<equiv> table_step enr_born enr_move (next_id d) (enrollments d) (enrollments d')
     \<and> exclusive enrollment_clash (next_id d') (enrollments d')"

text \<open>No move makes a clash: what is live afterwards was live before.\<close>

lemma moves_no_clash:
  assumes "exclusive enrollment_clash n rows" "ids_distinct rows'"
    and "\<forall>r' \<in> set rows'. \<exists>r \<in> set rows. row_id r = row_id r' \<and> (r' = r \<or> enr_move r r')"
  shows "exclusive enrollment_clash n rows'"
  unfolding exclusive_def
proof (intro conjI ballI impI)
  show "ids_distinct rows'" by fact
  fix x' assume x': "x' \<in> set rows'"
  then obtain x where x: "x \<in> set rows" "row_id x = row_id x'" "x' = x \<or> enr_move x x'" using assms(3) by blast
  show "row_id x' < n" using x assms(1) by (metis exclusive_def)
  fix y' assume y': "y' \<in> set rows'" "row_id x' \<noteq> row_id y'"
  then obtain y where y: "y \<in> set rows" "row_id y = row_id y'" "y' = y \<or> enr_move y y'" using assms(3) by blast
  have apart: "\<not> enrollment_clash x y" using assms(1) x(1,2) y(1,2) y'(2) by (simp add: exclusive_def)
  have was: "live r \<and> enr_studentId r' = enr_studentId r \<and> enr_cohortId r' = enr_cohortId r" if "live r'" "r' = r \<or> enr_move r r'" for r r'
    using that by (auto simp: enr_move_def live_def)
  show "\<not> enrollment_clash x' y'"
  proof
    assume "enrollment_clash x' y'"
    then have both: "live x'" "live y'" "enr_studentId x' = enr_studentId y'" "enr_cohortId x' = enr_cohortId y'"
      by (simp_all add: enrollment_clash_def)
    with was[OF both(1) x(3)] was[OF both(2) y(3)] apart show False by (simp add: enrollment_clash_def)
  qed
qed

section \<open>Counting seats\<close>

lemma count_update:
  assumes "distinct (map key rows)" "find_by key k rows = Some r"
  shows "length (filter P (update_where (\<lambda>x. key x = k) f rows)) + (if P r then 1 else 0)
       = length (filter P rows) + (if P (f r) then 1 else (0::nat))"
  using assms
proof (induction rows)
  case (Cons x rows)
  show ?case
  proof (cases "key x = k")
    case True
    then have none: "\<forall>y \<in> set rows. key y \<noteq> k" using Cons.prems(1) by (metis distinct.simps(2) image_eqI list.map(2) list.set_map)
    then have "update_where (\<lambda>x. key x = k) f rows = rows" by (induction rows) auto
    then show ?thesis using Cons.prems True by simp
  next
    case False
    then show ?thesis using Cons by auto
  qed
qed simp

definition seated :: "uuid \<Rightarrow> enrollment_row \<Rightarrow> bool" where
  "seated k en \<longleftrightarrow> enr_cohortId en = k \<and> enr_status en = EnrActive"

lemma activeCount_seated: "activeCount k d = length (filter (seated k) (enrollments d))"
  by (simp add: activeCount_def enrolled_in_def seated_def cong: filter_cong)

section \<open>What the operations do\<close>

lemma enroll_shape:
  assumes "enroll e s k grants a d = Inr ((seat, view), d')"
  obtains c where "find_by row_id k (cohorts d) = Some c" "coh_status c \<in> {Open, Running}"
    "assertPrerequisites s (coh_courseId c) d = Inr ()" "seat \<longleftrightarrow> int (activeCount k d) < seatsOf c d"
    "\<forall>x \<in> set (enrollments d). \<not> enrollment_clash (new_enrollment e a (next_id d) s k seat) x"
    "enrollments d' = enrollments d @ [new_enrollment e a (next_id d) s k seat]" "next_id d' = Suc (next_id d)"
    "cohorts d' = cohorts d" "class_sessions d' = class_sessions d" "rooms d' = rooms d"
proof -
  obtain c where c: "find_by row_id k (cohorts d) = Some c" using assms by (auto simp: enroll_def cohort_row_def)
  have k: "row_id c = k" using find_by_key[OF c] .
  show thesis
    using assms c
    apply (clarsimp simp: enroll_def cohort_row_def Let_def k)
    apply (rule that[OF c])
    apply (simp_all add: ENROLLING_COHORT_STATUSES_def)
    done
qed

lemma new_enrollment_simps [simp]:
  "row_id (new_enrollment e a i s k seat) = i" "enr_cohortId (new_enrollment e a i s k seat) = k"
  "enr_studentId (new_enrollment e a i s k seat) = s"
  "enr_status (new_enrollment e a i s k seat) = (if seat then EnrActive else Waitlisted)"
  "enr_born (new_enrollment e a i s k seat)"
  by (simp_all add: new_enrollment_def enr_born_def)

lemma enroll_effect:
  assumes made: "enroll e s k grants a d = Inr ((seat, view), d')" and ok: "exclusive enrollment_clash (next_id d) (enrollments d)"
  shows "enrollments_step d d' \<and> next_id d \<le> next_id d' \<and> cohorts d' = cohorts d \<and> class_sessions d' = class_sessions d \<and> rooms d' = rooms d"
    and "seat \<longleftrightarrow> (\<exists>c. find_by row_id k (cohorts d) = Some c \<and> int (activeCount k d) < seatsOf c d)"
    and "activeCount x d' = activeCount x d + (if x = k \<and> seat then 1 else 0)"
    and "\<exists>c row. find_by row_id k (cohorts d) = Some c \<and> coh_status c \<in> {Open, Running} \<and> enrollments d' = enrollments d @ [row] \<and> enr_cohortId row = k"
proof -
  obtain c where c: "find_by row_id k (cohorts d) = Some c" "coh_status c \<in> {Open, Running}"
    and seat: "seat \<longleftrightarrow> int (activeCount k d) < seatsOf c d"
    and free: "\<forall>x \<in> set (enrollments d). \<not> enrollment_clash (new_enrollment e a (next_id d) s k seat) x"
    and d': "enrollments d' = enrollments d @ [new_enrollment e a (next_id d) s k seat]" "next_id d' = Suc (next_id d)"
      "cohorts d' = cohorts d" "class_sessions d' = class_sessions d" "rooms d' = rooms d"
    by (rule enroll_shape[OF made])
  have "table_step enr_born enr_move (next_id d) (enrollments d) (enrollments d')"
    unfolding d'(1) by (rule table_step_snoc) simp_all
  moreover have "exclusive enrollment_clash (next_id d') (enrollments d')"
    unfolding d'(1,2) using free by (intro one_live.insert[OF ok]) simp_all
  ultimately show "enrollments_step d d' \<and> next_id d \<le> next_id d' \<and> cohorts d' = cohorts d \<and> class_sessions d' = class_sessions d \<and> rooms d' = rooms d"
    using d' by simp
  show "seat \<longleftrightarrow> (\<exists>c. find_by row_id k (cohorts d) = Some c \<and> int (activeCount k d) < seatsOf c d)" using seat c by simp
  show "activeCount x d' = activeCount x d + (if x = k \<and> seat then 1 else 0)" by (auto simp: activeCount_seated d'(1) seated_def)
  show "\<exists>c row. find_by row_id k (cohorts d) = Some c \<and> coh_status c \<in> {Open, Running} \<and> enrollments d' = enrollments d @ [row] \<and> enr_cohortId row = k"
    using c d'(1) by simp
qed

lemma activeCount_cong: "enrollments d' = enrollments d \<Longrightarrow> activeCount k d' = activeCount k d"
  by (simp add: activeCount_seated)

lemma waiting_cong: "enrollments d' = enrollments d \<Longrightarrow> waiting k d' = waiting k d"
  by (simp add: waiting_def enrolled_in_def)

lemma seatsOf_cong: "rooms d' = rooms d \<Longrightarrow> seatsOf c d' = seatsOf c d"
  by (simp add: seatsOf_def)

text \<open>Promotion takes the head of the queue, and happens exactly when there is a seat and somebody waits.\<close>

lemma promoteWaiting_cases:
  assumes "promoteWaiting e c a d = (p, d')"
  obtains "p = None" "d' = d" "seatsOf c d \<le> int (activeCount (row_id c) d) \<or> waiting (row_id c) d = []"
  | first rest where "waiting (row_id c) d = first # rest" "p = Some (row_id first)" "int (activeCount (row_id c) d) < seatsOf c d"
    "enrollments d' = update_where (\<lambda>r. row_id r = row_id first) (promote_row e a first) (enrollments d)"
    "cohorts d' = cohorts d" "class_sessions d' = class_sessions d" "rooms d' = rooms d" "next_id d' = next_id d"
proof (cases "seatsOf c d \<le> int (activeCount (row_id c) d)")
  case True
  then show ?thesis using assms that(1) by (simp add: promoteWaiting_def)
next
  case False
  show ?thesis
  proof (cases "waiting (row_id c) d")
    case Nil
    then show ?thesis using assms that(1) False by (simp add: promoteWaiting_def)
  next
    case (Cons first rest)
    then show ?thesis using assms False by (intro that(2)[OF Cons]) (auto simp: promoteWaiting_def)
  qed
qed

lemma withdraw_shape:
  assumes "withdraw e i reason v grants a d = Inr ((view, promoted), d')"
  obtains found :: enrollment_row and c row rows d1 p where "find_by row_id i (enrollments d) = Some found"
    "find_by row_id (enr_cohortId found) (cohorts d) = Some c"
    "updateWithVersion e (apply_withdrawal e reason a) i v (enrollments d) = (Updated row, rows)"
    "(if enr_status found = EnrActive \<and> coh_status c \<noteq> Cancelled then promoteWaiting e c a d1 else (None, d1)) = (p, d')"
    "promoted = Option.bind p (\<lambda>k. presentEnrollment k d')" "enr_status found = EnrActive \<or> enr_status found = Waitlisted"
    "enrollments d1 = rows" "cohorts d1 = cohorts d" "class_sessions d1 = class_sessions d" "rooms d1 = rooms d" "next_id d1 = next_id d"
proof -
  obtain found c where found: "find_by row_id i (enrollments d) = Some found" "find_by row_id (enr_cohortId found) (cohorts d) = Some c"
    using assms by (auto simp: withdraw_def enrollment_row_def cohort_row_def)
  show thesis
    using assms found
    apply (clarsimp simp: withdraw_def enrollment_row_def cohort_row_def Let_def split: prod.split_asm)
    apply (rule that[OF found], assumption, assumption)
    apply simp_all
    done
qed

lemma outcome_status_Inr:
  "outcome_status course inp = Inr EnrCompleted \<longleftrightarrow> rule_met (crs_minScore course) (rr_score inp)
     \<and> rule_met (map_option of_int (crs_minAttendancePercent course)) (rr_attendancePercent inp)"
  "outcome_status course inp = Inr s \<Longrightarrow> s \<in> {EnrCompleted, EnrFailed}"
  by (auto simp: outcome_status_def evaluateCompletion_cases(1)[symmetric] split: completion_outcome.splits)

lemma recordResult_shape:
  assumes "recordResult e i inp v grants a d = Inr (view, d')"
  obtains found :: enrollment_row and c row rows status course dept where "find_by row_id i (enrollments d) = Some found"
    "find_by row_id (enr_cohortId found) (cohorts d) = Some c"
    "updateWithVersion e (apply_result e status inp a) i v (enrollments d) = (Updated row, rows)"
    "findWithDepartment (coh_courseId c) d = Inr (Some (course, dept))"
    "outcome_status course inp = Inr status"
    "enr_status found = EnrActive"
    "enrollments d' = rows" "cohorts d' = cohorts d" "class_sessions d' = class_sessions d" "rooms d' = rooms d" "next_id d' = next_id d"
proof -
  obtain found c where found: "find_by row_id i (enrollments d) = Some found" "find_by row_id (enr_cohortId found) (cohorts d) = Some c"
    using assms by (auto simp: recordResult_def enrollment_row_def cohort_row_def)
  show thesis
    using assms found
    apply (clarsimp simp: recordResult_def enrollment_row_def cohort_row_def Let_def split: prod.split_asm)
    apply (rule that[OF found], assumption, assumption, assumption)
    apply simp_all
    done
qed

text \<open>Two moves in one operation, on rows that have not moved yet.\<close>

lemma table_step_then:
  assumes first: "table_step born move n rows rows1" and ids: "ids_distinct rows"
    and second: "\<And>r. r \<in> set rows1 \<Longrightarrow> P r \<Longrightarrow> r \<in> set rows \<and> row_id (f r) = row_id r \<and> move r (f r)"
  shows "table_step born move n rows (update_where P f rows1)"
  unfolding table_step_def
proof (intro conjI ballI)
  fix r' assume "r' \<in> set (update_where P f rows1)"
  then obtain r1 where r1: "r1 \<in> set rows1" "r' = (if P r1 then f r1 else r1)" by (auto simp: set_update_where)
  show "(\<exists>r \<in> set rows. row_id r = row_id r' \<and> (r' = r \<or> move r r')) \<or> (n \<le> row_id r' \<and> born r')"
  proof (cases "P r1")
    case True
    then show ?thesis using second[OF r1(1)] r1(2) by auto
  next
    case False
    then show ?thesis using first r1 by (simp add: table_step_def)
  qed
next
  fix r assume r: "r \<in> set rows"
  then obtain r1 where r1: "r1 \<in> set rows1" "row_id r1 = row_id r" "r1 = r \<or> move r r1" using first by (auto simp: table_step_def)
  have "(if P r1 then f r1 else r1) \<in> set (update_where P f rows1)" using r1(1) by (auto simp: set_update_where)
  moreover have "P r1 \<Longrightarrow> r1 = r" using second[OF r1(1)] same_row[OF ids _ r] r1(2) by blast
  ultimately show "\<exists>r' \<in> set (update_where P f rows1). row_id r' = row_id r \<and> (r' = r \<or> move r r')"
    using second[OF r1(1)] r1(2,3) by (cases "P r1") auto
qed

lemma promote_row_simps [simp]:
  "row_id (promote_row e a x r) = row_id r" "enr_status (promote_row e a x r) = EnrActive"
  "enr_cohortId (promote_row e a x r) = enr_cohortId r" "enr_studentId (promote_row e a x r) = enr_studentId r"
  "enr_enrolledAt (promote_row e a x r) = Some (now e)"
  by (simp_all add: promote_row_def touch_def)

lemma waiting_mem: "x \<in> set (waiting k d) \<longleftrightarrow> x \<in> set (enrollments d) \<and> enr_cohortId x = k \<and> enr_status x = Waitlisted"
  by (auto simp: waiting_def enrolled_in_def)

lemma enr_update_step:
  assumes upd: "updateWithVersion e f i v (enrollments d) = (Updated row, rows)" and key: "keeps_key f"
    and ok: "exclusive enrollment_clash (next_id d) (enrollments d)"
    and found: "find_by row_id i (enrollments d) = Some r" and move: "enr_move r ((touch e (f r))\<lparr>version := v + 1\<rparr>)"
  shows "table_step enr_born enr_move n (enrollments d) rows" "exclusive enrollment_clash (next_id d) rows" "row = (touch e (f r))\<lparr>version := v + 1\<rparr>"
    and "length (filter P rows) + (if P r then 1 else 0) = length (filter P (enrollments d)) + (if P row then 1 else (0::nat))"
proof -
  have ids: "ids_distinct (enrollments d)" using ok by (simp add: exclusive_def)
  show step: "table_step enr_born enr_move n (enrollments d) rows" for n
    by (rule table_step_update[where move = enr_move, OF upd ids key found move])
  have "\<forall>r' \<in> set rows. \<exists>x \<in> set (enrollments d). row_id x = row_id r' \<and> (r' = x \<or> enr_move x r')"
  proof
    fix r' assume r': "r' \<in> set rows"
    have "row_id r' \<in> row_id ` set (enrollments d)" using r' updateWithVersion_hits(6)[OF upd ids key] by blast
    then have "row_id r' < next_id d" using ok unfolding exclusive_def by fastforce
    then have "\<not> next_id d \<le> row_id r'" by simp
    moreover have "(\<exists>x \<in> set (enrollments d). row_id x = row_id r' \<and> (r' = x \<or> enr_move x r')) \<or> (next_id d \<le> row_id r' \<and> enr_born r')"
      using step[of "next_id d"] r' unfolding table_step_def by blast
    ultimately show "\<exists>x \<in> set (enrollments d). row_id x = row_id r' \<and> (r' = x \<or> enr_move x r')" by blast
  qed
  then show "exclusive enrollment_clash (next_id d) rows"
    by (rule moves_no_clash[OF ok updateWithVersion_hits(5)[OF upd ids key]])
  show row: "row = (touch e (f r))\<lparr>version := v + 1\<rparr>"
    using updateWithVersion_Updated[OF ids upd] found by (metis option.inject)
  show "length (filter P rows) + (if P r then 1 else 0) = length (filter P (enrollments d)) + (if P row then 1 else (0::nat))"
    unfolding updateWithVersion_rows[OF ids upd] row using ids found by (intro count_update) (simp_all add: ids_distinct_def)
qed

lemma recordResult_effect:
  assumes made: "recordResult e i inp v grants a d = Inr (view, d')" and ok: "exclusive enrollment_clash (next_id d) (enrollments d)"
  shows "enrollments_step d d' \<and> next_id d' = next_id d \<and> cohorts d' = cohorts d \<and> class_sessions d' = class_sessions d \<and> rooms d' = rooms d"
    and "activeCount k d' \<le> activeCount k d"
    and "\<forall>x \<in> set (enrollments d'). live x \<longrightarrow> x \<in> set (enrollments d)"
proof -
  obtain found c row rows status course dept where found: "find_by row_id i (enrollments d) = Some found"
    and upd: "updateWithVersion e (apply_result e status inp a) i v (enrollments d) = (Updated row, rows)"
    and status: "outcome_status course inp = Inr status" and active: "enr_status found = EnrActive"
    and d': "enrollments d' = rows" "cohorts d' = cohorts d" "class_sessions d' = class_sessions d" "rooms d' = rooms d" "next_id d' = next_id d"
    by (rule recordResult_shape[OF made]) blast
  have key: "keeps_key (apply_result e status inp a)" by (simp add: keeps_key_def apply_result_def)
  have move: "enr_move found ((touch e (apply_result e status inp a found))\<lparr>version := v + 1\<rparr>)"
    using active outcome_status_Inr(2)[OF status] by (simp add: enr_move_def touch_def apply_result_def live_def)
  note upds = enr_update_step[OF upd key ok found move]
  show "enrollments_step d d' \<and> next_id d' = next_id d \<and> cohorts d' = cohorts d \<and> class_sessions d' = class_sessions d \<and> rooms d' = rooms d"
    using upds(1,2) d' by simp
  have stopped: "\<not> live row" using outcome_status_Inr(2)[OF status] by (auto simp: upds(3) touch_def apply_result_def live_def)
  then show "activeCount k d' \<le> activeCount k d"
    using upds(4)[of "seated k"] by (auto simp: activeCount_seated d'(1) seated_def live_def split: if_splits)
  have ids: "ids_distinct (enrollments d)" using ok by (simp add: exclusive_def)
  note hits = updateWithVersion_hits[OF upd ids key]
  show "\<forall>x \<in> set (enrollments d'). live x \<longrightarrow> x \<in> set (enrollments d)"
    using hits(3,4) stopped unfolding d'(1) by blast
qed

lemma withdrawal_simps [simp]:
  "enr_status ((touch e (apply_withdrawal e reason a r))\<lparr>version := v\<rparr>) = EnrWithdrawn"
  "enr_cohortId ((touch e (apply_withdrawal e reason a r))\<lparr>version := v\<rparr>) = enr_cohortId r"
  "keeps_key (apply_withdrawal e reason a)"
  by (simp_all add: touch_def apply_withdrawal_def keeps_key_def)

text \<open>The two outcomes of a withdrawal: the row alone, or the row and the head of the queue.\<close>

lemma withdraw_outcome:
  assumes made: "withdraw e i reason v grants a d = Inr ((view, promoted), d')" and ok: "exclusive enrollment_clash (next_id d) (enrollments d)"
  obtains found c row rows where "find_by row_id i (enrollments d) = Some found" "find_by row_id (enr_cohortId found) (cohorts d) = Some c"
    "live found" "row = (touch e (apply_withdrawal e reason a found))\<lparr>version := v + 1\<rparr>"
    "updateWithVersion e (apply_withdrawal e reason a) i v (enrollments d) = (Updated row, rows)"
    "cohorts d' = cohorts d" "class_sessions d' = class_sessions d" "rooms d' = rooms d" "next_id d' = next_id d"
    "enrollments d' = rows \<and> promoted = None \<and> (enr_status found = EnrActive \<longrightarrow> coh_status c = Cancelled
        \<or> seatsOf c d \<le> int (activeCount (row_id c) d') \<or> waiting (row_id c) d' = [])
     \<or> (\<exists>first rest. waiting (row_id c) (d\<lparr>enrollments := rows\<rparr>) = first # rest \<and> enr_status found = EnrActive \<and> coh_status c \<noteq> Cancelled
        \<and> int (activeCount (row_id c) (d\<lparr>enrollments := rows\<rparr>)) < seatsOf c d \<and> promoted = presentEnrollment (row_id first) d'
        \<and> enrollments d' = update_where (\<lambda>r. row_id r = row_id first) (promote_row e a first) rows)"
proof -
  obtain found c row rows d1 p where found: "find_by row_id i (enrollments d) = Some found" "find_by row_id (enr_cohortId found) (cohorts d) = Some c"
    and upd: "updateWithVersion e (apply_withdrawal e reason a) i v (enrollments d) = (Updated row, rows)"
    and after: "(if enr_status found = EnrActive \<and> coh_status c \<noteq> Cancelled then promoteWaiting e c a d1 else (None, d1)) = (p, d')"
    and promoted: "promoted = Option.bind p (\<lambda>k. presentEnrollment k d')" and alive: "enr_status found = EnrActive \<or> enr_status found = Waitlisted"
    and d1: "enrollments d1 = rows" "cohorts d1 = cohorts d" "class_sessions d1 = class_sessions d" "rooms d1 = rooms d" "next_id d1 = next_id d"
    by (rule withdraw_shape[OF made])
  have ids: "ids_distinct (enrollments d)" using ok by (simp add: exclusive_def)
  have row: "row = (touch e (apply_withdrawal e reason a found))\<lparr>version := v + 1\<rparr>"
    using updateWithVersion_Updated[OF ids upd] found(1) by (metis option.inject)
  have lv: "live found" using alive by (auto simp: live_def)
  show thesis
  proof (cases "enr_status found = EnrActive \<and> coh_status c \<noteq> Cancelled")
    case False
    then have "p = None" "d' = d1" using after by (simp_all only: if_False prod.inject)
    then show ?thesis using False promoted d1 by (intro that[OF found lv row upd]) simp_all
  next
    case True
    then have "promoteWaiting e c a d1 = (p, d')" using after by simp
    then show ?thesis
    proof (cases rule: promoteWaiting_cases)
      case 1
      then show ?thesis using promoted d1 seatsOf_cong[OF d1(4)] by (intro that[OF found lv row upd]) simp_all
    next
      case (2 first rest)
      show ?thesis
      proof (rule that[OF found lv row upd])
        show "enrollments d' = rows \<and> promoted = None \<and> (enr_status found = EnrActive \<longrightarrow> coh_status c = Cancelled
            \<or> seatsOf c d \<le> int (activeCount (row_id c) d') \<or> waiting (row_id c) d' = [])
          \<or> (\<exists>first rest. waiting (row_id c) (d\<lparr>enrollments := rows\<rparr>) = first # rest \<and> enr_status found = EnrActive \<and> coh_status c \<noteq> Cancelled
            \<and> int (activeCount (row_id c) (d\<lparr>enrollments := rows\<rparr>)) < seatsOf c d \<and> promoted = presentEnrollment (row_id first) d'
            \<and> enrollments d' = update_where (\<lambda>r. row_id r = row_id first) (promote_row e a first) rows)"
          using 2 True promoted seatsOf_cong[OF d1(4)] activeCount_cong[of d1 "d\<lparr>enrollments := rows\<rparr>"] waiting_cong[of d1 "d\<lparr>enrollments := rows\<rparr>"] d1(1)
          by (intro disjI2 exI[of _ first] exI[of _ rest]) simp
      qed (use 2 d1 in simp_all)
    qed
  qed
qed

lemma withdraw_effect:
  assumes made: "withdraw e i reason v grants a d = Inr ((view, promoted), d')" and ok: "exclusive enrollment_clash (next_id d) (enrollments d)"
  shows "enrollments_step d d' \<and> next_id d' = next_id d \<and> cohorts d' = cohorts d \<and> class_sessions d' = class_sessions d \<and> rooms d' = rooms d"
    and "activeCount k d' \<le> activeCount k d \<or> (\<exists>c. find_by row_id k (cohorts d) = Some c \<and> int (activeCount k d') \<le> seatsOf c d)"
    and "x \<in> set (enrollments d') \<Longrightarrow> live x \<Longrightarrow> x \<in> set (enrollments d) \<or> (\<exists>c y. find_by row_id (enr_cohortId x) (cohorts d) = Some c
      \<and> coh_status c \<noteq> Cancelled \<and> y \<in> set (enrollments d) \<and> seated (enr_cohortId x) y)"
proof -
  obtain found c row rows where found: "find_by row_id i (enrollments d) = Some found" "find_by row_id (enr_cohortId found) (cohorts d) = Some c"
    and lv: "live found" and row: "row = (touch e (apply_withdrawal e reason a found))\<lparr>version := v + 1\<rparr>"
    and upd: "updateWithVersion e (apply_withdrawal e reason a) i v (enrollments d) = (Updated row, rows)"
    and frame: "cohorts d' = cohorts d" "class_sessions d' = class_sessions d" "rooms d' = rooms d" "next_id d' = next_id d"
    and outcome: "enrollments d' = rows \<and> promoted = None \<and> (enr_status found = EnrActive \<longrightarrow> coh_status c = Cancelled
        \<or> seatsOf c d \<le> int (activeCount (row_id c) d') \<or> waiting (row_id c) d' = [])
     \<or> (\<exists>first rest. waiting (row_id c) (d\<lparr>enrollments := rows\<rparr>) = first # rest \<and> enr_status found = EnrActive \<and> coh_status c \<noteq> Cancelled
        \<and> int (activeCount (row_id c) (d\<lparr>enrollments := rows\<rparr>)) < seatsOf c d \<and> promoted = presentEnrollment (row_id first) d'
        \<and> enrollments d' = update_where (\<lambda>r. row_id r = row_id first) (promote_row e a first) rows)"
    by (rule withdraw_outcome[OF made ok])
  have key: "keeps_key (apply_withdrawal e reason a)" by simp
  have ids: "ids_distinct (enrollments d)" using ok by (simp add: exclusive_def)
  have move: "enr_move found ((touch e (apply_withdrawal e reason a found))\<lparr>version := v + 1\<rparr>)"
    using lv by (simp add: enr_move_def) (simp add: touch_def apply_withdrawal_def)
  note upds = enr_update_step[OF upd key ok found(1) move]
  note hits = updateWithVersion_hits[OF upd ids key]
  have gone: "\<not> live row" by (simp add: row live_def)
  have fewer: "length (filter (seated k) rows) \<le> length (filter (seated k) (enrollments d))" for k
    using upds(4)[of "seated k"] gone by (auto simp: seated_def live_def split: if_splits)
  have old: "x \<in> set (enrollments d)" if "x \<in> set rows" "live x" for x using that hits(3,4) gone by blast
  from outcome have "(enrollments_step d d' \<and> next_id d' = next_id d \<and> cohorts d' = cohorts d \<and> class_sessions d' = class_sessions d \<and> rooms d' = rooms d)
    \<and> (activeCount k d' \<le> activeCount k d \<or> (\<exists>c. find_by row_id k (cohorts d) = Some c \<and> int (activeCount k d') \<le> seatsOf c d))
    \<and> (x \<in> set (enrollments d') \<longrightarrow> live x \<longrightarrow> x \<in> set (enrollments d) \<or> (\<exists>c y. find_by row_id (enr_cohortId x) (cohorts d) = Some c
      \<and> coh_status c \<noteq> Cancelled \<and> y \<in> set (enrollments d) \<and> seated (enr_cohortId x) y))"
  proof (elim disjE exE conjE)
    assume same: "enrollments d' = rows"
    then show ?thesis using upds(1,2) frame fewer[of k] old by (simp add: activeCount_seated)
  next
    fix first rest
    assume queue: "waiting (row_id c) (d\<lparr>enrollments := rows\<rparr>) = first # rest" and active: "enr_status found = EnrActive" "coh_status c \<noteq> Cancelled"
      and room: "int (activeCount (row_id c) (d\<lparr>enrollments := rows\<rparr>)) < seatsOf c d" and d': "enrollments d' = update_where (\<lambda>r. row_id r = row_id first) (promote_row e a first) rows"
    have first: "first \<in> set rows" "enr_cohortId first = row_id c" "enr_status first = Waitlisted"
      using waiting_mem[of first "row_id c" "d\<lparr>enrollments := rows\<rparr>"] queue by auto
    have first_old: "first \<in> set (enrollments d)" using old first(1,3) by (simp add: live_def)
    have only: "r = first" if "r \<in> set rows" "row_id r = row_id first" for r by (rule same_row[OF hits(5) that(1) first(1) that(2)])
    have c: "row_id c = enr_cohortId found" using find_by_key[OF found(2)] .
    have step: "table_step enr_born enr_move (next_id d) (enrollments d) (enrollments d')"
      unfolding d'
    proof (rule table_step_then[OF upds(1) ids])
      fix r assume "r \<in> set rows" "row_id r = row_id first"
      then have "r = first" by (rule only)
      then show "r \<in> set (enrollments d) \<and> row_id (promote_row e a first r) = row_id r \<and> enr_move r (promote_row e a first r)"
        using first_old first(3) by (simp add: enr_move_def)
    qed
    have "\<forall>r' \<in> set (enrollments d'). \<exists>r \<in> set rows. row_id r = row_id r' \<and> (r' = r \<or> enr_move r r')"
    proof
      fix r' assume "r' \<in> set (enrollments d')"
      then obtain r where r: "r \<in> set rows" "r' = (if row_id r = row_id first then promote_row e a first r else r)"
        by (auto simp: d' set_update_where)
      have "row_id r' = row_id r \<and> (r' = r \<or> enr_move r r')"
        using r(2) only[OF r(1)] first(3) by (cases "row_id r = row_id first") (simp_all add: enr_move_def)
      then show "\<exists>r \<in> set rows. row_id r = row_id r' \<and> (r' = r \<or> enr_move r r')" using r(1) by auto
    qed
    moreover have "ids_distinct (enrollments d')" using hits(5) unfolding d' ids_distinct_def by (simp add: map_update_where)
    ultimately have excl: "exclusive enrollment_clash (next_id d) (enrollments d')" using moves_no_clash[OF upds(2)] by blast
    have count: "length (filter (seated k) (enrollments d')) + (if seated k first then 1 else 0) = length (filter (seated k) rows) + (if k = row_id c then 1 else 0)"
      using count_update[of row_id rows "row_id first" first "seated k" "promote_row e a first"] hits(5) find_by_distinct[of row_id rows first] first
      by (auto simp: d' ids_distinct_def seated_def)
    have "activeCount k d' \<le> activeCount k d \<or> (\<exists>c. find_by row_id k (cohorts d) = Some c \<and> int (activeCount k d') \<le> seatsOf c d)"
    proof (cases "k = row_id c")
      case True
      then have "int (activeCount k d') \<le> seatsOf c d" using count room first(3) by (simp add: activeCount_seated seated_def)
      then show ?thesis using True c found(2) by auto
    next
      case False
      then show ?thesis using count fewer[of k] by (simp add: activeCount_seated)
    qed
    moreover have "x \<in> set (enrollments d) \<or> (\<exists>c y. find_by row_id (enr_cohortId x) (cohorts d) = Some c
      \<and> coh_status c \<noteq> Cancelled \<and> y \<in> set (enrollments d) \<and> seated (enr_cohortId x) y)" if x: "x \<in> set (enrollments d')" "live x"
    proof -
      obtain r where r: "r \<in> set rows" "x = (if row_id r = row_id first then promote_row e a first r else r)"
        using x(1) by (auto simp: d' set_update_where)
      show ?thesis
      proof (cases "row_id r = row_id first")
        case True
        then have "enr_cohortId x = enr_cohortId found" using only[OF r(1)] r(2) first(2) c by simp
        then show ?thesis using found active by (auto simp: seated_def dest: find_by_in)
      next
        case False
        then show ?thesis using old r x(2) by simp
      qed
    qed
    ultimately show ?thesis using step excl frame by simp
  qed
  then show "enrollments_step d d' \<and> next_id d' = next_id d \<and> cohorts d' = cohorts d \<and> class_sessions d' = class_sessions d \<and> rooms d' = rooms d"
    "activeCount k d' \<le> activeCount k d \<or> (\<exists>c. find_by row_id k (cohorts d) = Some c \<and> int (activeCount k d') \<le> seatsOf c d)"
    "x \<in> set (enrollments d') \<Longrightarrow> live x \<Longrightarrow> x \<in> set (enrollments d) \<or> (\<exists>c y. find_by row_id (enr_cohortId x) (cohorts d) = Some c
      \<and> coh_status c \<noteq> Cancelled \<and> y \<in> set (enrollments d) \<and> seated (enr_cohortId x) y)" by blast+
qed

end
