(* ===== verification/ClassesOk.thy ===== *)
theory ClassesOk
  imports Seats
begin

text \<open>
  Cohorts and enrollments together: the steps of the classes, what holds in every state they reach, and
  who gets a seat.
\<close>

section \<open>The invariant\<close>

text \<open>An enrollment is in a cohort that exists; nobody is live in a cancelled one or active in a completed one.\<close>

definition placed_ok :: "cohort_row list \<Rightarrow> enrollment_row \<Rightarrow> bool" where
  "placed_ok cs en \<longleftrightarrow> (\<exists>c \<in> set cs. row_id c = enr_cohortId en \<and> (coh_status c = Cancelled \<longrightarrow> \<not> live en)
     \<and> (coh_status c = CohCompleted \<longrightarrow> enr_status en \<noteq> EnrActive))"

definition classes_ok :: "'a classes_db_scheme \<Rightarrow> bool" where
  "classes_ok d \<longleftrightarrow> cohort_tables_ok d \<and> exclusive enrollment_clash (next_id d) (enrollments d)
     \<and> (\<forall>en \<in> set (enrollments d). enr_ok en \<and> placed_ok (cohorts d) en)
     \<and> (\<forall>c \<in> set (cohorts d). int (activeCount (row_id c) d) \<le> coh_maxSize c)"

inductive classes_step :: "'a classes_db_scheme \<Rightarrow> 'a classes_db_scheme \<Rightarrow> bool" where
  create: "createCohort e cc grants a d = Inr (view, d') \<Longrightarrow> valid_cohort_request cc \<Longrightarrow> classes_step d d'"
| update: "updateCohort e i uc v grants a d = Inr (view, d') \<Longrightarrow> valid_cohort_update uc \<Longrightarrow> classes_step d d'"
| move: "setCohortStatus e i target v grants a d = Inr (view, d') \<Longrightarrow> classes_step d d'"
| enroll: "enroll e s k grants a d = Inr (res, d') \<Longrightarrow> classes_step d d'"
| withdraw: "withdraw e i reason v grants a d = Inr (res2, d') \<Longrightarrow> classes_step d d'"
| result: "recordResult e i rr v grants a d = Inr (view2, d') \<Longrightarrow> classes_step d d'"

text \<open>Other modules may change anything but these tables; ids only grow.\<close>

inductive classes_reachable :: "'a classes_db_scheme \<Rightarrow> bool" where
  start: "cohorts d = [] \<Longrightarrow> class_sessions d = [] \<Longrightarrow> enrollments d = [] \<Longrightarrow> classes_reachable d"
| step: "classes_reachable d \<Longrightarrow> classes_step d d' \<Longrightarrow> classes_reachable d'"
| elsewhere: "classes_reachable d \<Longrightarrow> cohorts d' = cohorts d \<Longrightarrow> class_sessions d' = class_sessions d \<Longrightarrow> enrollments d' = enrollments d
    \<Longrightarrow> next_id d \<le> next_id d' \<Longrightarrow> classes_reachable d'"

section \<open>Every step keeps it\<close>

lemma placed_ok_cohorts:
  assumes "placed_ok cs en" "\<And>c. c \<in> set cs \<Longrightarrow> row_id c = enr_cohortId en \<Longrightarrow> \<exists>c' \<in> set cs'. row_id c' = row_id c
      \<and> (coh_status c' = Cancelled \<longrightarrow> coh_status c = Cancelled \<or> \<not> live en)
      \<and> (coh_status c' = CohCompleted \<longrightarrow> coh_status c = CohCompleted \<or> enr_status en \<noteq> EnrActive)"
  shows "placed_ok cs' en"
proof -
  obtain c where c: "c \<in> set cs" "row_id c = enr_cohortId en" "coh_status c = Cancelled \<longrightarrow> \<not> live en"
      "coh_status c = CohCompleted \<longrightarrow> enr_status en \<noteq> EnrActive"
    using assms(1) unfolding placed_ok_def by blast
  from assms(2)[OF c(1,2)] c show ?thesis unfolding placed_ok_def by auto
qed

lemma maxSize_bound: "int n \<le> seatsOf c d \<Longrightarrow> int n \<le> coh_maxSize c"
  by (simp add: seatsOf_def split: option.splits)

lemma cohort_tables_step:
  assumes ok: "cohort_tables_ok d" and step: "cohorts_step d d'" and ses: "sessions_ok d'"
  shows "cohort_tables_ok d'"
proof -
  have "\<forall>c \<in> set (cohorts d). coh_ok c" using ok by (simp add: cohort_tables_ok_def)
  then have "\<forall>c \<in> set (cohorts d'). coh_ok c" by (rule cohort_life.keeps_ok[OF conjunct1[OF step]])
  then show ?thesis using step ses by (simp add: cohort_tables_ok_def)
qed

text \<open>A step on enrollments alone.\<close>

lemma enrollments_part:
  assumes ok: "classes_ok d" and step: "enrollments_step d d'" and frame: "cohorts d' = cohorts d" "class_sessions d' = class_sessions d" "next_id d \<le> next_id d'"
    and placed: "\<And>en. en \<in> set (enrollments d') \<Longrightarrow> placed_ok (cohorts d) en"
    and count: "\<And>c. c \<in> set (cohorts d) \<Longrightarrow> int (activeCount (row_id c) d') \<le> coh_maxSize c"
  shows "classes_ok d'"
proof -
  have "\<forall>en \<in> set (enrollments d). enr_ok en" using ok by (simp add: classes_ok_def)
  then have "\<forall>en \<in> set (enrollments d'). enr_ok en" by (rule enrollment_life.keeps_ok[OF conjunct1[OF step]])
  moreover have "cohort_tables_ok d'"
  proof -
    have "issued_before (next_id d') (cohorts d)" using ok frame(3) by (auto simp: classes_ok_def cohort_tables_ok_def intro: issued_before_later)
    moreover have "sessions_ok d'"
      using ok by (intro sessions_ok_later[OF _ frame(2,1,3)]) (simp add: classes_ok_def cohort_tables_ok_def)
    ultimately show ?thesis using ok frame(1) by (simp add: classes_ok_def cohort_tables_ok_def)
  qed
  ultimately show ?thesis using step placed count frame(1) by (simp add: classes_ok_def)
qed

text \<open>A step on one cohort.\<close>

lemma cohorts_part:
  assumes ok: "classes_ok d" and step: "cohorts_step d d'" "sessions_ok d'" and frame: "enrollments d' = enrollments d" "next_id d \<le> next_id d'"
    and placed: "\<And>en. en \<in> set (enrollments d) \<Longrightarrow> placed_ok (cohorts d) en \<Longrightarrow> placed_ok (cohorts d') en"
    and count: "\<And>c. c \<in> set (cohorts d') \<Longrightarrow> int (activeCount (row_id c) d) \<le> coh_maxSize c"
  shows "classes_ok d'"
proof -
  have "cohort_tables_ok d" using ok by (simp add: classes_ok_def)
  then have "cohort_tables_ok d'" by (rule cohort_tables_step[OF _ step])
  moreover have "exclusive enrollment_clash (next_id d') (enrollments d')"
    using ok frame by (auto simp: classes_ok_def intro: one_live.later)
  ultimately show ?thesis
    using ok frame placed count activeCount_cong[OF frame(1)] by (simp add: classes_ok_def)
qed

lemma create_ok:
  assumes "createCohort e cc grants a d = Inr (view, d')" "valid_cohort_request cc" and ok: "classes_ok d"
  shows "classes_ok d'"
proof -
  have "cohort_tables_ok d" using ok by (simp add: classes_ok_def)
  from createCohort_effect[OF assms(1,2) this] obtain row where
    eff: "cohorts_step d d'" "sessions_ok d'" "enrollments d' = enrollments d" "next_id d \<le> next_id d'"
    and row: "cohorts d' = cohorts d @ [row]" "row_id row = next_id d" "coh_born row" by blast
  have none: "\<not> seated (next_id d) en" if en: "en \<in> set (enrollments d)" for en
  proof -
    have "placed_ok (cohorts d) en" using ok en by (simp add: classes_ok_def)
    then obtain c where c: "c \<in> set (cohorts d)" "row_id c = enr_cohortId en" by (auto simp: placed_ok_def)
    have "issued_before (next_id d) (cohorts d)" using ok by (simp add: classes_ok_def cohort_tables_ok_def)
    then have "row_id c < next_id d" using c(1) by (simp add: issued_before_def)
    then show ?thesis using c(2) by (simp add: seated_def)
  qed
  show ?thesis
  proof (rule cohorts_part[OF ok eff])
    show "placed_ok (cohorts d') en" if "placed_ok (cohorts d) en" for en using that row(1) by (auto simp: placed_ok_def)
    fix c assume c: "c \<in> set (cohorts d')"
    have "filter (seated (next_id d)) (enrollments d) = []" using none by (simp add: filter_empty_conv)
    then have "activeCount (next_id d) d = 0" by (simp add: activeCount_seated)
    then have "int (activeCount (row_id row) d) \<le> coh_maxSize row"
      using row(2,3) by (simp add: coh_born_def coh_ok_def)
    moreover have "\<forall>c \<in> set (cohorts d). int (activeCount (row_id c) d) \<le> coh_maxSize c" using ok by (simp add: classes_ok_def)
    ultimately show "int (activeCount (row_id c) d) \<le> coh_maxSize c" using c row(1) by auto
  qed
qed

lemma moved_cohort:
  assumes "table_step coh_born coh_move n (cohorts d) (cohorts d')" "c \<in> set (cohorts d)"
  obtains c' where "c' \<in> set (cohorts d')" "row_id c' = row_id c" "c' = c \<or> coh_move c c'"
  using assms unfolding table_step_def by blast

lemma update_ok:
  assumes "updateCohort e i uc v grants a d = Inr (view, d')" "valid_cohort_update uc" and ok: "classes_ok d"
  shows "classes_ok d' \<and> fits i d'"
proof -
  have tables: "cohort_tables_ok d" using ok by (simp add: classes_ok_def)
  have eff: "cohorts_step d d'" "sessions_ok d'" "enrollments d' = enrollments d" "next_id d \<le> next_id d'"
    and fit: "fits i d'" and others: "\<forall>x \<in> set (cohorts d'). row_id x \<noteq> i \<longrightarrow> x \<in> set (cohorts d)"
    and status: "\<forall>x \<in> set (cohorts d'). row_id x = i \<longrightarrow> (\<exists>y \<in> set (cohorts d). row_id y = i \<and> coh_status x = coh_status y)"
    using updateCohort_effect[OF assms(1,2) tables] by blast+
  have ids: "ids_distinct (cohorts d)" using tables by (simp add: cohort_tables_ok_def issued_before_def)
  have "classes_ok d'"
  proof (rule cohorts_part[OF ok eff])
    fix en assume "placed_ok (cohorts d) en"
    then show "placed_ok (cohorts d') en"
    proof (rule placed_ok_cohorts)
      fix c assume c: "c \<in> set (cohorts d)" "row_id c = enr_cohortId en"
      obtain c' where c': "c' \<in> set (cohorts d')" "row_id c' = row_id c" using moved_cohort[OF conjunct1[OF eff(1)] c(1)] by blast
      obtain y where "y \<in> set (cohorts d)" "row_id y = row_id c'" "coh_status c' = coh_status y"
        using others status c'(1) by (cases "row_id c' = i") auto
      then have "coh_status c' = coh_status c" using same_row[OF ids _ c(1)] c'(2) by metis
      then show "\<exists>c' \<in> set (cohorts d'). row_id c' = row_id c \<and> (coh_status c' = Cancelled \<longrightarrow> coh_status c = Cancelled \<or> \<not> live en)
          \<and> (coh_status c' = CohCompleted \<longrightarrow> coh_status c = CohCompleted \<or> enr_status en \<noteq> EnrActive)"
        using c' by auto
    qed
  next
    fix c assume c: "c \<in> set (cohorts d')"
    show "int (activeCount (row_id c) d) \<le> coh_maxSize c"
    proof (cases "row_id c = i")
      case True
      then have "int (activeCount i d') \<le> seatsOf c d'" using fit c by (simp add: fits_def)
      then show ?thesis using maxSize_bound True activeCount_cong[OF eff(3)] by simp
    next
      case False
      then show ?thesis using others c ok by (simp add: classes_ok_def)
    qed
  qed
  then show ?thesis using fit by blast
qed

lemma status_ok:
  assumes "setCohortStatus e i target v grants a d = Inr (view, d')" and ok: "classes_ok d"
  shows "classes_ok d'"
proof -
  have tables: "cohort_tables_ok d" using ok by (simp add: classes_ok_def)
  have eff: "cohorts_step d d'" "sessions_ok d'" "enrollments d' = enrollments d" "next_id d \<le> next_id d'"
    and others: "\<forall>x \<in> set (cohorts d'). row_id x \<noteq> i \<longrightarrow> x \<in> set (cohorts d)"
    and mine: "\<forall>x \<in> set (cohorts d'). row_id x = i \<longrightarrow> coh_status x = target
        \<and> (\<exists>y \<in> set (cohorts d). row_id y = i \<and> coh_roomId x = coh_roomId y \<and> coh_maxSize x = coh_maxSize y)"
    and empty: "target = Cancelled \<longrightarrow> enrolled_in i EnrActive d = [] \<and> enrolled_in i Waitlisted d = []"
      "target = CohCompleted \<longrightarrow> enrolled_in i EnrActive d = []"
    using setCohortStatus_effect[OF assms(1) tables] by blast+
  have ids: "ids_distinct (cohorts d)" using tables by (simp add: cohort_tables_ok_def issued_before_def)
  show ?thesis
  proof (rule cohorts_part[OF ok eff])
    fix en assume en: "en \<in> set (enrollments d)" "placed_ok (cohorts d) en"
    from en(2) show "placed_ok (cohorts d') en"
    proof (rule placed_ok_cohorts)
      fix c assume c: "c \<in> set (cohorts d)" "row_id c = enr_cohortId en"
      obtain c' where c': "c' \<in> set (cohorts d')" "row_id c' = row_id c" using moved_cohort[OF conjunct1[OF eff(1)] c(1)] by blast
      have "(coh_status c' = Cancelled \<longrightarrow> coh_status c = Cancelled \<or> \<not> live en) \<and> (coh_status c' = CohCompleted \<longrightarrow> coh_status c = CohCompleted \<or> enr_status en \<noteq> EnrActive)"
      proof (cases "row_id c' = i")
        case True
        then have "coh_status c' = target" "enr_cohortId en = i" using mine c' c(2) by auto
        then show ?thesis using empty en(1) by (auto simp: enrolled_in_def live_def filter_empty_conv)
      next
        case False
        then have "c' = c" using others c' c(1) same_row[OF ids _ c(1)] by blast
        then show ?thesis by simp
      qed
      then show "\<exists>c' \<in> set (cohorts d'). row_id c' = row_id c \<and> (coh_status c' = Cancelled \<longrightarrow> coh_status c = Cancelled \<or> \<not> live en)
          \<and> (coh_status c' = CohCompleted \<longrightarrow> coh_status c = CohCompleted \<or> enr_status en \<noteq> EnrActive)"
        using c' by auto
    qed
  next
    fix c assume c: "c \<in> set (cohorts d')"
    obtain y where "y \<in> set (cohorts d)" "row_id y = row_id c" "coh_maxSize c = coh_maxSize y"
      using others mine c by (cases "row_id c = i") auto
    then show "int (activeCount (row_id c) d) \<le> coh_maxSize c" using ok by (metis classes_ok_def)
  qed
qed

lemma enroll_ok:
  assumes "enroll e s k grants a d = Inr (res, d')" and ok: "classes_ok d"
  shows "classes_ok d'"
proof -
  obtain seat view where res: "res = (seat, view)" by (cases res)
  have excl: "exclusive enrollment_clash (next_id d) (enrollments d)" using ok by (simp add: classes_ok_def)
  note eff = enroll_effect[OF assms(1)[unfolded res] excl]
  obtain c row where c: "find_by row_id k (cohorts d) = Some c" "coh_status c \<in> {Open, Running}"
    and row: "enrollments d' = enrollments d @ [row]" "enr_cohortId row = k" using eff(4) by blast
  have ids: "ids_distinct (cohorts d)" using ok by (simp add: classes_ok_def cohort_tables_ok_def issued_before_def)
  have parts: "enrollments_step d d'" "cohorts d' = cohorts d" "class_sessions d' = class_sessions d" "next_id d \<le> next_id d'"
    using eff(1) by (blast, blast, blast, simp)
  show ?thesis
  proof (rule enrollments_part[OF ok parts])
    fix en assume "en \<in> set (enrollments d')"
    then consider "en \<in> set (enrollments d)" | "en = row" using row(1) by auto
    then show "placed_ok (cohorts d) en"
    proof cases
      case 1
      then show ?thesis using ok by (simp add: classes_ok_def)
    next
      case 2
      then show ?thesis using c(2) row(2) find_by_in[OF c(1)] find_by_key[OF c(1)] unfolding placed_ok_def by auto
    qed
  next
    fix x assume x: "x \<in> set (cohorts d)"
    have old: "int (activeCount (row_id x) d) \<le> coh_maxSize x" using ok x by (simp add: classes_ok_def)
    show "int (activeCount (row_id x) d') \<le> coh_maxSize x"
    proof (cases "row_id x = k \<and> seat")
      case True
      then have "x = c" using x c(1) same_row[OF ids x find_by_in[OF c(1)]] find_by_key[OF c(1)] by simp
      then have "int (activeCount k d) < seatsOf x d" using eff(2) True c(1) by auto
      then show ?thesis using maxSize_bound[of "Suc (activeCount k d)" x d] eff(3)[of k] True by simp
    next
      case False
      then show ?thesis using old eff(3)[of "row_id x"] by auto
    qed
  qed
qed

lemma withdraw_ok:
  assumes "withdraw e i reason v grants a d = Inr (res, d')" and ok: "classes_ok d"
  shows "classes_ok d'"
proof -
  obtain view promoted where res: "res = (view, promoted)" by (cases res)
  have excl: "exclusive enrollment_clash (next_id d) (enrollments d)" using ok by (simp add: classes_ok_def)
  note eff = withdraw_effect[OF assms(1)[unfolded res] excl]
  have ids: "ids_distinct (cohorts d)" using ok by (simp add: classes_ok_def cohort_tables_ok_def issued_before_def)
  have home: "placed_ok (cohorts d) en" if "en \<in> set (enrollments d)" for en using ok that by (simp add: classes_ok_def)
  have parts: "enrollments_step d d'" "cohorts d' = cohorts d" "class_sessions d' = class_sessions d" "next_id d \<le> next_id d'"
    using eff(1) by (blast, blast, blast, simp)
  show ?thesis
  proof (rule enrollments_part[OF ok parts])
    fix en assume en: "en \<in> set (enrollments d')"
    obtain y where y: "y \<in> set (enrollments d)" "enr_cohortId y = enr_cohortId en"
    proof -
      have "row_id en < next_id d'" using eff(1) en unfolding exclusive_def by blast
      then have "\<not> next_id d \<le> row_id en" using eff(1) by simp
      then obtain y where "y \<in> set (enrollments d)" "en = y \<or> enr_move y en"
        using eff(1) en unfolding table_step_def by blast
      moreover then have "enr_cohortId y = enr_cohortId en" by (auto simp: enr_move_def)
      ultimately show thesis using that by blast
    qed
    show "placed_ok (cohorts d) en"
    proof (cases "live en \<and> en \<notin> set (enrollments d)")
      case True
      then obtain c y where c: "find_by row_id (enr_cohortId en) (cohorts d) = Some c" "coh_status c \<noteq> Cancelled"
        and y: "y \<in> set (enrollments d)" "seated (enr_cohortId en) y" using eff(3)[OF en] by blast
      obtain c' where "c' \<in> set (cohorts d)" "row_id c' = enr_cohortId y" "coh_status c' = CohCompleted \<longrightarrow> enr_status y \<noteq> EnrActive"
        using home[OF y(1)] unfolding placed_ok_def by blast
      moreover then have "c' = c" using y(2) same_row[OF ids _ find_by_in[OF c(1)]] find_by_key[OF c(1)] by (simp add: seated_def)
      ultimately show ?thesis
        using c y(2) find_by_in[OF c(1)] find_by_key[OF c(1)] unfolding placed_ok_def seated_def by auto
    next
      case False
      show ?thesis
      proof (cases "en \<in> set (enrollments d)")
        case True
        then show ?thesis by (rule home)
      next
        case out: False
        with False have "\<not> live en" by blast
        with home[OF y(1)] y(2) show ?thesis unfolding placed_ok_def live_def by auto
      qed
    qed
  next
    fix x assume x: "x \<in> set (cohorts d)"
    have old: "int (activeCount (row_id x) d) \<le> coh_maxSize x" using ok x by (simp add: classes_ok_def)
    from eff(2)[of "row_id x"] show "int (activeCount (row_id x) d') \<le> coh_maxSize x"
    proof (elim disjE exE conjE)
      fix c assume "find_by row_id (row_id x) (cohorts d) = Some c" "int (activeCount (row_id x) d') \<le> seatsOf c d"
      then show ?thesis using maxSize_bound same_row[OF ids x] by (metis find_by_in find_by_key)
    qed (use old in simp)
  qed
qed

lemma result_ok:
  assumes "recordResult e i rr v grants a d = Inr (view, d')" and ok: "classes_ok d"
  shows "classes_ok d'"
proof -
  have excl: "exclusive enrollment_clash (next_id d) (enrollments d)" using ok by (simp add: classes_ok_def)
  note eff = recordResult_effect[OF assms(1) excl]
  have home: "placed_ok (cohorts d) en" if "en \<in> set (enrollments d)" for en using ok that by (simp add: classes_ok_def)
  have parts: "enrollments_step d d'" "cohorts d' = cohorts d" "class_sessions d' = class_sessions d" "next_id d \<le> next_id d'"
    using eff(1) by (blast, blast, blast, simp)
  show ?thesis
  proof (rule enrollments_part[OF ok parts])
    fix en assume en: "en \<in> set (enrollments d')"
    have "row_id en < next_id d'" using eff(1) en unfolding exclusive_def by blast
    then have "\<not> next_id d \<le> row_id en" using eff(1) by simp
    then obtain y where "y \<in> set (enrollments d)" "en = y \<or> enr_move y en" using eff(1) en unfolding table_step_def by blast
    then have y: "y \<in> set (enrollments d)" "enr_cohortId y = enr_cohortId en" by (auto simp: enr_move_def)
    show "placed_ok (cohorts d) en"
    proof (cases "live en")
      case True
      then show ?thesis using eff(3) en home by blast
    next
      case False
      with home[OF y(1)] y(2) show ?thesis unfolding placed_ok_def live_def by auto
    qed
  next
    fix x assume "x \<in> set (cohorts d)"
    then have "int (activeCount (row_id x) d) \<le> coh_maxSize x" using ok by (simp add: classes_ok_def)
    then show "int (activeCount (row_id x) d') \<le> coh_maxSize x" using eff(2)[of "row_id x"] by linarith
  qed
qed

lemma classes_step_ok: "classes_step d d' \<Longrightarrow> classes_ok d \<Longrightarrow> classes_ok d'"
  by (erule classes_step.cases) (blast dest: create_ok update_ok status_ok enroll_ok withdraw_ok result_ok)+

lemma reachable_classes: "classes_reachable d \<Longrightarrow> classes_ok d"
proof (induction rule: classes_reachable.induct)
  case (start d)
  then show ?case
    by (simp add: classes_ok_def cohort_tables_ok_def sessions_ok_def exclusive_def ids_distinct_def)
next
  case (step d d')
  then show ?case using classes_step_ok by blast
next
  case (elsewhere d d')
  show ?case
  proof (rule enrollments_part[OF elsewhere.IH _ elsewhere.hyps(2,3,5)])
    have "exclusive enrollment_clash (next_id d) (enrollments d)" using elsewhere.IH by (simp add: classes_ok_def)
    from one_live.later[OF this elsewhere.hyps(5)] show "enrollments_step d d'" by (simp add: elsewhere.hyps(4))
  qed (use elsewhere in \<open>simp_all add: classes_ok_def activeCount_cong[OF elsewhere.hyps(4)]\<close>)
qed

end
