(* ===== verification/Waitlist.thy ===== *)
theory Waitlist
  imports ClassesOk
begin

text \<open>
  The waitlist of a class is a queue: \<open>waiting\<close> is its contents in order. Enrolling in a full class joins
  the end, a freed seat takes the head, and leaving the waitlist takes one out of the middle. Together
  with the count of seats this is the contract the class comment of \<open>enrollments.service.ts\<close> states.
\<close>

section \<open>The queue\<close>

lemma sort_key_snoc:
  assumes "\<forall>y \<in> set xs. f y \<le> f x"
  shows "sort_key f (xs @ [x]) = sort_key f xs @ [x]"
proof (rule properties_for_sort_key)
  show "sorted (map f (sort_key f xs @ [x]))" using assms by (simp add: sorted_append)
  show "filter (\<lambda>z. f y = f z) (sort_key f xs @ [x]) = filter (\<lambda>z. f y = f z) (xs @ [x])" for y
    using sort_key_stable[of f "f y" xs] by (simp add: eq_commute)
qed simp

lemma filter_leave:
  assumes "\<And>r. row_id (f r) = row_id r" "\<And>r. r \<in> set rows \<Longrightarrow> row_id r = i \<Longrightarrow> \<not> P (f r)"
  shows "filter P (update_where (\<lambda>r. row_id r = i) f rows) = filter (\<lambda>x. row_id x \<noteq> i) (filter P rows)"
  using assms(2) by (induction rows) (auto simp: conj_commute)

lemma waiting_leave:
  assumes "enrollments d' = update_where (\<lambda>r. row_id r = i) f (enrollments d)"
    and "\<And>r. row_id (f r) = row_id r" "\<And>r. r \<in> set (enrollments d) \<Longrightarrow> row_id r = i \<Longrightarrow> enr_status (f r) \<noteq> Waitlisted"
  shows "waiting k d' = filter (\<lambda>x. row_id x \<noteq> i) (waiting k d)"
proof -
  have "enrolled_in k Waitlisted d' = filter (\<lambda>x. row_id x \<noteq> i) (enrolled_in k Waitlisted d)"
    unfolding enrolled_in_def assms(1) by (rule filter_leave) (use assms(2,3) in auto)
  then show ?thesis by (simp add: waiting_def filter_sort)
qed

lemma waiting_distinct: "ids_distinct (enrollments d) \<Longrightarrow> distinct (map row_id (waiting k d))"
proof -
  assume "ids_distinct (enrollments d)"
  then have "distinct (map row_id (enrolled_in k Waitlisted d))" by (simp add: ids_distinct_def enrolled_in_def distinct_map_filter)
  moreover have "mset (map row_id (waiting k d)) = mset (map row_id (enrolled_in k Waitlisted d))" by (simp add: waiting_def)
  ultimately show ?thesis by (metis mset_eq_imp_distinct_iff)
qed

text \<open>Joining: behind everyone who was there before the clock's time.\<close>

lemma enroll_waiting:
  assumes made: "enroll e s k grants a d = Inr ((seat, view), d')" and ok: "exclusive enrollment_clash (next_id d) (enrollments d)"
    and clock: "\<forall>x \<in> set (waiting k d). \<exists>t. enr_waitlistedAt x = Some t \<and> t \<le> now e"
  shows "waiting k d' = waiting k d @ (if seat then [] else [new_enrollment e a (next_id d) s k False])"
proof -
  let ?row = "new_enrollment e a (next_id d) s k seat"
  have d': "enrollments d' = enrollments d @ [?row]" by (rule enroll_shape[OF made])
  show ?thesis
  proof (cases seat)
    case True
    then show ?thesis by (simp add: waiting_def enrolled_in_def d')
  next
    case False
    have "\<forall>x \<in> set (enrolled_in k Waitlisted d). wait_key x \<le> wait_key ?row"
    proof
      fix x assume x: "x \<in> set (enrolled_in k Waitlisted d)"
      then obtain t where "enr_waitlistedAt x = Some t" "t \<le> now e" using clock by (auto simp: waiting_def)
      moreover have "row_id x < next_id d" using x ok by (auto simp: enrolled_in_def exclusive_def)
      ultimately show "wait_key x \<le> wait_key ?row" using False by (auto simp: wait_key_def new_enrollment_def)
    qed
    then show ?thesis using False sort_key_snoc by (fastforce simp: waiting_def enrolled_in_def d')
  qed
qed

text \<open>Leaving a seat serves the head; leaving the queue takes only that one out.\<close>

lemma withdraw_waiting:
  assumes made: "withdraw e i reason v grants a d = Inr ((view, promoted), d')" and ok: "exclusive enrollment_clash (next_id d) (enrollments d)"
    and found: "find_by row_id i (enrollments d) = Some found" and c: "find_by row_id (enr_cohortId found) (cohorts d) = Some c"
  shows "enr_status found = Waitlisted \<Longrightarrow> waiting (row_id c) d' = filter (\<lambda>x. row_id x \<noteq> i) (waiting (row_id c) d)"
    and "enr_status found = EnrActive \<Longrightarrow> coh_status c \<noteq> Cancelled \<Longrightarrow>
      (waiting (row_id c) d' = waiting (row_id c) d \<and> promoted = None \<and> activeCount (row_id c) d' + 1 = activeCount (row_id c) d
         \<and> (seatsOf c d \<le> int (activeCount (row_id c) d') \<or> waiting (row_id c) d = []))
      \<or> (\<exists>first. waiting (row_id c) d = first # waiting (row_id c) d' \<and> activeCount (row_id c) d' = activeCount (row_id c) d
           \<and> promoted = presentEnrollment (row_id first) d' \<and> int (activeCount (row_id c) d') \<le> seatsOf c d)"
proof -
  have ids: "ids_distinct (enrollments d)" using ok by (simp add: exclusive_def)
  obtain found' c' row rows where f': "find_by row_id i (enrollments d) = Some found'" and c': "find_by row_id (enr_cohortId found') (cohorts d) = Some c'"
    and lv': "live found'" and row': "row = (touch e (apply_withdrawal e reason a found'))\<lparr>version := v + 1\<rparr>"
    and upd: "updateWithVersion e (apply_withdrawal e reason a) i v (enrollments d) = (Updated row, rows)"
    and outcome': "enrollments d' = rows \<and> promoted = None \<and> (enr_status found' = EnrActive \<longrightarrow> coh_status c' = Cancelled
        \<or> seatsOf c' d \<le> int (activeCount (row_id c') d') \<or> waiting (row_id c') d' = [])
     \<or> (\<exists>first rest. waiting (row_id c') (d\<lparr>enrollments := rows\<rparr>) = first # rest \<and> enr_status found' = EnrActive \<and> coh_status c' \<noteq> Cancelled
        \<and> int (activeCount (row_id c') (d\<lparr>enrollments := rows\<rparr>)) < seatsOf c' d \<and> promoted = presentEnrollment (row_id first) d'
        \<and> enrollments d' = update_where (\<lambda>r. row_id r = row_id first) (promote_row e a first) rows)"
    by (rule withdraw_outcome[OF made ok])
  have eq: "found' = found" using f' found by simp
  have eq': "c' = c" using c' c by (simp add: eq)
  note lv = lv'[unfolded eq] and row = row'[unfolded eq] and outcome = outcome'[unfolded eq eq']
  let ?D = "d\<lparr>enrollments := rows\<rparr>"
  have rows: "rows = update_where (\<lambda>r. row_id r = i) (\<lambda>r. (touch e (apply_withdrawal e reason a r))\<lparr>version := v + 1\<rparr>) (enrollments d)"
    by (rule updateWithVersion_rows[OF ids upd])
  have left: "waiting k x = filter (\<lambda>x. row_id x \<noteq> i) (waiting k d)" if "enrollments x = rows" for k and x :: "'a classes_db_scheme"
    by (rule waiting_leave[OF that[unfolded rows]]) (simp_all add: touch_def apply_withdrawal_def)
  show "enr_status found = Waitlisted \<Longrightarrow> waiting (row_id c) d' = filter (\<lambda>x. row_id x \<noteq> i) (waiting (row_id c) d)"
    using outcome left[of d'] by auto
  assume active: "enr_status found = EnrActive" "coh_status c \<noteq> Cancelled"
  have k: "row_id c = enr_cohortId found" by (rule find_by_key[OF c])
  have "row_id x \<noteq> i" if "x \<in> set (waiting (row_id c) d)" for x
  proof
    assume "row_id x = i"
    then have "x = found" using that same_row[OF ids _ find_by_in[OF found]] find_by_key[OF found] by (simp add: waiting_mem)
    then show False using that active(1) by (simp add: waiting_mem)
  qed
  then have same: "waiting (row_id c) x = waiting (row_id c) d" if "enrollments x = rows" for x :: "'a classes_db_scheme"
    unfolding left[OF that] by (auto intro: filter_True)
  have move: "enr_move found ((touch e (apply_withdrawal e reason a found))\<lparr>version := v + 1\<rparr>)"
    using lv by (simp add: enr_move_def) (simp add: touch_def apply_withdrawal_def)
  have key: "keeps_key (apply_withdrawal e reason a)" by simp
  have one: "length (filter (seated (row_id c)) rows) + 1 = activeCount (row_id c) d"
    using enr_update_step(4)[OF upd key ok found move, of "seated (row_id c)"] active(1) k by (simp add: seated_def activeCount_seated row)
  from outcome show "(waiting (row_id c) d' = waiting (row_id c) d \<and> promoted = None \<and> activeCount (row_id c) d' + 1 = activeCount (row_id c) d
         \<and> (seatsOf c d \<le> int (activeCount (row_id c) d') \<or> waiting (row_id c) d = []))
      \<or> (\<exists>first. waiting (row_id c) d = first # waiting (row_id c) d' \<and> activeCount (row_id c) d' = activeCount (row_id c) d
           \<and> promoted = presentEnrollment (row_id first) d' \<and> int (activeCount (row_id c) d') \<le> seatsOf c d)"
  proof (elim disjE exE conjE)
    assume d': "enrollments d' = rows" and full: "promoted = None" "enr_status found = EnrActive \<longrightarrow> coh_status c = Cancelled
        \<or> seatsOf c d \<le> int (activeCount (row_id c) d') \<or> waiting (row_id c) d' = []"
    then show ?thesis using same[OF d'] one active by (simp add: activeCount_seated)
  next
    fix first rest
    assume queue: "waiting (row_id c) ?D = first # rest" and room: "int (activeCount (row_id c) ?D) < seatsOf c d"
      and p: "promoted = presentEnrollment (row_id first) d'" and d': "enrollments d' = update_where (\<lambda>r. row_id r = row_id first) (promote_row e a first) rows"
    have ids': "ids_distinct rows" by (rule updateWithVersion_hits(5)[OF upd ids key])
    have first: "first \<in> set rows" "enr_cohortId first = row_id c" "enr_status first = Waitlisted"
      using waiting_mem[of first "row_id c" ?D] queue by auto
    have "waiting (row_id c) d' = filter (\<lambda>x. row_id x \<noteq> row_id first) (waiting (row_id c) ?D)"
      by (rule waiting_leave[where f = "promote_row e a first"]) (use d' in simp_all)
    also have "\<dots> = rest"
    proof -
      have "distinct (map row_id (first # rest))" using waiting_distinct[of ?D "row_id c"] ids' unfolding queue by simp
      then have "row_id first \<notin> row_id ` set rest" by simp
      then have "\<forall>x \<in> set rest. row_id x \<noteq> row_id first" by (metis image_eqI)
      then show ?thesis unfolding queue by (simp add: filter_id_conv)
    qed
    finally have served: "waiting (row_id c) d' = rest" .
    have "length (filter (seated (row_id c)) (enrollments d')) = length (filter (seated (row_id c)) rows) + 1"
      using count_update[of row_id rows "row_id first" first "seated (row_id c)" "promote_row e a first"] ids' find_by_distinct[of row_id rows first] first
      by (simp add: d' ids_distinct_def seated_def)
    then show ?thesis using queue served same[of ?D] one room p by (simp add: activeCount_seated)
  qed
qed

section \<open>Seats are not overbooked\<close>

text \<open>
  Whatever step is taken, a class is at most as full as it was, or as its seats allow. (A room made
  smaller by the facilities module can leave a class too full; no step of the classes makes it fuller.)
\<close>

lemma seats_kept:
  assumes step: "classes_step d d'" and ok: "classes_ok d" and c: "c \<in> set (cohorts d')"
  shows "int (activeCount (row_id c) d') \<le> max (int (activeCount (row_id c) d)) (seatsOf c d')"
proof -
  have tables: "cohort_tables_ok d" and excl: "exclusive enrollment_clash (next_id d) (enrollments d)" using ok by (simp_all add: classes_ok_def)
  have ids: "ids_distinct (cohorts d)" using tables by (simp add: cohort_tables_ok_def issued_before_def)
  from step show ?thesis
  proof cases
    case (create e cc grants a view)
    then show ?thesis using createCohort_effect[OF create tables] by (auto simp: activeCount_seated)
  next
    case (update e i uc v grants a view)
    then show ?thesis using updateCohort_effect[OF update tables] by (auto simp: activeCount_seated)
  next
    case (move e i target v grants a view)
    then show ?thesis using setCohortStatus_effect[OF move tables] by (auto simp: activeCount_seated)
  next
    case (enroll e s k grants a res)
    obtain seat view where res: "res = (seat, view)" by (cases res)
    note eff = enroll_effect[OF enroll[unfolded res] excl]
    show ?thesis
    proof (cases "row_id c = k \<and> seat")
      case True
      then obtain c0 where c0: "find_by row_id k (cohorts d) = Some c0" "int (activeCount k d) < seatsOf c0 d" using eff(2) by blast
      have "c \<in> set (cohorts d)" using c eff(1) by simp
      then have "c = c0" using True same_row[OF ids _ find_by_in[OF c0(1)]] find_by_key[OF c0(1)] by simp
      then show ?thesis using True c0(2) eff(3)[of k] seatsOf_cong[of d' d c0] eff(1) by simp
    next
      case False
      then show ?thesis using eff(3)[of "row_id c"] by auto
    qed
  next
    case (withdraw e i reason v grants a res)
    obtain view promoted where res: "res = (view, promoted)" by (cases res)
    note eff = withdraw_effect[OF withdraw[unfolded res] excl]
    have here: "c \<in> set (cohorts d)" using c eff(1) by simp
    from eff(2)[of "row_id c"] show ?thesis
    proof (elim disjE exE conjE)
      fix c0 assume c0: "find_by row_id (row_id c) (cohorts d) = Some c0" "int (activeCount (row_id c) d') \<le> seatsOf c0 d"
      have "c0 = c" by (rule same_row[OF ids find_by_in[OF c0(1)] here find_by_key[OF c0(1)]])
      then show ?thesis using c0(2) seatsOf_cong[of d' d c] eff(1) by simp
    qed simp
  next
    case (result e i rr v grants a view)
    then show ?thesis using recordResult_effect(2)[OF result excl, of "row_id c"] by simp
  qed
qed

section \<open>Prerequisites\<close>

text \<open>The count in \<open>assertPrerequisites\<close> says what it should: every prerequisite is a course the student has completed.\<close>

lemma assertPrerequisites_iff:
  assumes "distinct (prerequisitesOf c d)"
  shows "assertPrerequisites s c d = Inr () \<longleftrightarrow> (\<exists>row. course_row c d = Inr row) \<and> set (prerequisitesOf c d) \<subseteq> set (done_courses s d)"
proof -
  let ?need = "prerequisitesOf c d" and ?got = "filter (\<lambda>x. x \<in> set (prerequisitesOf c d)) (done_courses s d)"
  have "length ?need = card (set ?need)" using assms by (simp add: distinct_card)
  moreover have "length (remdups ?got) = card (set ?got)" by (metis distinct_card distinct_remdups set_remdups)
  moreover have sub: "set ?got \<subseteq> set ?need" "set ?got = set ?need \<inter> set (done_courses s d)" by auto
  have "card (set ?need) \<le> card (set ?got) \<longleftrightarrow> set ?need \<subseteq> set (done_courses s d)"
  proof
    assume "card (set ?need) \<le> card (set ?got)"
    then have "set ?got = set ?need" using sub(1) by (intro card_seteq) auto
    then show "set ?need \<subseteq> set (done_courses s d)" using sub(2) by blast
  next
    assume "set ?need \<subseteq> set (done_courses s d)"
    then show "card (set ?need) \<le> card (set ?got)" using sub(2) by (intro card_mono) auto
  qed
  ultimately show ?thesis by (auto simp: assertPrerequisites_def Let_def not_less)
qed

end
