(* ===== verification/SecretBox.thy ===== *)
theory SecretBox
  imports AuditLog "HOL-Library.AList"
begin

text \<open>
  Secrets at rest (\<open>apps/api/src/common/crypto/secret-box.ts\<close>): authenticated encryption under a current
  key, with the older keys kept for reading, and the tokens that are stored only as a hash
  (\<open>identity/domain/tokens.ts\<close>). AES-256-GCM, the base64url codec and SHA-256 belong to the runtime and
  are parameters; what is drawn at random (an IV, a token) is an argument of the operation that draws it.
\<close>

section \<open>The parameters\<close>

record gcm =
  gcm_seal :: "string \<Rightarrow> string \<Rightarrow> string \<Rightarrow> string \<Rightarrow> string \<times> string"
  gcm_open :: "string \<Rightarrow> string \<Rightarrow> string \<Rightarrow> string \<Rightarrow> string \<Rightarrow> string option"
  b64url :: "string \<Rightarrow> string"
  unb64url :: "string \<Rightarrow> string"
  digest_hex :: "string \<Rightarrow> string"

text \<open>
  What the code relies on: opening what was sealed under the same key, IV and context gives the text
  back; base64url is decodable and uses no dot; a hex digest has no dot.
\<close>

definition gcm_ok :: "gcm \<Rightarrow> bool" where
  "gcm_ok g \<longleftrightarrow> (\<forall>k iv a p. gcm_open g k iv a (fst (gcm_seal g k iv a p)) (snd (gcm_seal g k iv a p)) = Some p)
     \<and> (\<forall>x. unb64url g (b64url g x) = x) \<and> (\<forall>x. CHR ''.'' \<notin> set (b64url g x)) \<and> (\<forall>x. CHR ''.'' \<notin> set (digest_hex g x))"

text \<open>A ciphertext bound to one context does not open in another: the tag covers the associated data.\<close>

definition gcm_authentic :: "gcm \<Rightarrow> bool" where
  "gcm_authentic g \<longleftrightarrow> (\<forall>k iv a b p. a \<noteq> b \<longrightarrow> gcm_open g k iv b (fst (gcm_seal g k iv a p)) (snd (gcm_seal g k iv a p)) = None)"

section \<open>The box\<close>

text \<open>\<open>split('.')\<close> and \<open>join('.')\<close>.\<close>

fun split_on :: "char \<Rightarrow> string \<Rightarrow> string list" where
  "split_on c [] = [[]]"
| "split_on c (x # xs) = (if x = c then [] # split_on c xs
     else case split_on c xs of [] \<Rightarrow> [[x]] | w # ws \<Rightarrow> (x # w) # ws)"

record secret_box =
  sb_keys :: "(string \<times> string) list"
  sb_currentKeyId :: string

definition keyId :: "gcm \<Rightarrow> string \<Rightarrow> string" where
  "keyId g key = take 12 (digest_hex g key)"

definition newBox :: "gcm \<Rightarrow> string \<Rightarrow> string list \<Rightarrow> string + secret_box" where
  "newBox g currentKey previousKeys =
     (if list_ex (\<lambda>k. length k \<noteq> 32) (currentKey # previousKeys) then Inl ''Encryption keys must be 32 bytes''
      else Inr \<lparr>sb_keys = fold (\<lambda>k. AList.update (keyId g k) k) (currentKey # previousKeys) [],
                sb_currentKeyId = keyId g currentKey\<rparr>)"

definition encrypt :: "gcm \<Rightarrow> secret_box \<Rightarrow> string \<Rightarrow> string \<Rightarrow> string \<Rightarrow> string + string" where
  "encrypt g box iv plaintext context =
     (case map_of (sb_keys box) (sb_currentKeyId box) of
        None \<Rightarrow> Inl ''Current key missing''
      | Some key \<Rightarrow> (case gcm_seal g key iv context plaintext of (ciphertext, tag) \<Rightarrow>
          Inr (join ''.'' [''v1'', sb_currentKeyId box, b64url g iv, b64url g ciphertext, b64url g tag])))"

definition decrypt :: "gcm \<Rightarrow> secret_box \<Rightarrow> string \<Rightarrow> string \<Rightarrow> string + string" where
  "decrypt g box payload context =
     (case split_on (CHR ''.'') payload of
        [v, kid, iv, ciphertext, tag] \<Rightarrow>
          if v \<noteq> ''v1'' then Inl ''Unsupported payload''
          else (case map_of (sb_keys box) kid of
             None \<Rightarrow> Inl ''Unknown encryption key''
           | Some key \<Rightarrow> (case gcm_open g key (unb64url g iv) context (unb64url g ciphertext) (unb64url g tag) of
                None \<Rightarrow> Inl ''Decryption failed'' | Some p \<Rightarrow> Inr p))
      | _ \<Rightarrow> Inl ''Unsupported payload'')"

definition isCurrent :: "secret_box \<Rightarrow> string \<Rightarrow> bool" where
  "isCurrent box payload \<longleftrightarrow> (case split_on (CHR ''.'') payload of _ # k # _ \<Rightarrow> k = sb_currentKeyId box | _ \<Rightarrow> False)"

definition hashToken :: "env \<Rightarrow> string \<Rightarrow> string" where
  "hashToken e token = sha256 e token"

section \<open>What is sealed opens again\<close>

lemma split_on_no: "c \<notin> set x \<Longrightarrow> split_on c x = [x]"
  by (induction x) auto

lemma split_on_sep: "c \<notin> set x \<Longrightarrow> split_on c (x @ c # y) = x # split_on c y"
  by (induction x) auto

lemma split_join_five:
  assumes "CHR ''.'' \<notin> set a" "CHR ''.'' \<notin> set b" "CHR ''.'' \<notin> set c" "CHR ''.'' \<notin> set d" "CHR ''.'' \<notin> set x"
  shows "split_on (CHR ''.'') (join ''.'' [a, b, c, d, x]) = [a, b, c, d, x]"
  using assms by (simp add: split_on_sep split_on_no)

lemma keyId_no_dot: "gcm_ok g \<Longrightarrow> CHR ''.'' \<notin> set (keyId g k)"
  by (auto simp: gcm_ok_def keyId_def dest: in_set_takeD)

lemma map_of_fold_update:
  assumes "k \<in> set ks" "inj_on (keyId g) (set ks)"
  shows "map_of (fold (\<lambda>k. AList.update (keyId g k) k) ks al) (keyId g k) = Some k"
  using assms
proof (induction ks arbitrary: al rule: rev_induct)
  case (snoc x ks)
  show ?case
  proof (cases "x = k")
    case False
    then have "k \<in> set ks" using snoc.prems(1) by simp
    moreover have "keyId g x \<noteq> keyId g k" using False snoc.prems inj_onD by fastforce
    moreover have "inj_on (keyId g) (set ks)" using snoc.prems(2) by (rule inj_on_subset) auto
    ultimately show ?thesis using snoc.IH by (simp add: update_conv')
  qed (simp add: update_conv')
qed simp

text \<open>
  A payload sealed by a box opens in every later box that still knows its key, whichever key is now
  current.
\<close>

lemma newBox_key:
  assumes "newBox g current previous = Inr box" "inj_on (keyId g) (set (current # previous))" "k \<in> set (current # previous)"
  shows "map_of (sb_keys box) (keyId g k) = Some k" and "sb_currentKeyId box = keyId g current"
proof -
  have box: "box = \<lparr>sb_keys = fold (\<lambda>k. AList.update (keyId g k) k) (current # previous) [], sb_currentKeyId = keyId g current\<rparr>"
    using assms(1) by (simp add: newBox_def split: if_splits)
  have "map_of (fold (\<lambda>k. AList.update (keyId g k) k) (current # previous) []) (keyId g k) = Some k"
    by (rule map_of_fold_update[OF assms(3,2)])
  then show "map_of (sb_keys box) (keyId g k) = Some k" by (simp add: box)
  show "sb_currentKeyId box = keyId g current" by (simp add: box)
qed

lemma encrypt_shape:
  assumes "gcm_ok g" "newBox g current previous = Inr box" "inj_on (keyId g) (set (current # previous))"
    and "encrypt g box iv plaintext context = Inr payload"
  shows "split_on (CHR ''.'') payload = [''v1'', keyId g current, b64url g iv,
      b64url g (fst (gcm_seal g current iv context plaintext)), b64url g (snd (gcm_seal g current iv context plaintext))]"
proof -
  note key = newBox_key[OF assms(2,3), of current]
  obtain ciphertext tag where sealed: "gcm_seal g current iv context plaintext = (ciphertext, tag)" by (cases "gcm_seal g current iv context plaintext")
  have "payload = join ''.'' [''v1'', keyId g current, b64url g iv, b64url g ciphertext, b64url g tag]"
    using assms(4) key sealed by (simp add: encrypt_def)
  moreover have "CHR ''.'' \<notin> set (b64url g x)" for x using assms(1) by (simp add: gcm_ok_def)
  ultimately have "split_on (CHR ''.'') payload = [''v1'', keyId g current, b64url g iv, b64url g ciphertext, b64url g tag]"
    using split_join_five[of "''v1''"] keyId_no_dot[OF assms(1)] by simp
  then show ?thesis by (simp add: sealed)
qed

lemma decrypt_encrypt:
  assumes "gcm_ok g" "newBox g current previous = Inr box" "inj_on (keyId g) (set (current # previous))"
    and "encrypt g box iv plaintext context = Inr payload"
    and "newBox g current' previous' = Inr box'" "inj_on (keyId g) (set (current' # previous'))" "current \<in> set (current' # previous')"
  shows "decrypt g box' payload context = Inr plaintext" and "isCurrent box' payload \<longleftrightarrow> current = current'"
proof -
  note shape = encrypt_shape[OF assms(1-4)]
  have "map_of (sb_keys box') (keyId g current) = Some current" by (rule newBox_key(1)[OF assms(5,6,7)])
  then show "decrypt g box' payload context = Inr plaintext" using assms(1) by (simp add: decrypt_def shape gcm_ok_def)
  have "keyId g current = keyId g current' \<longleftrightarrow> current = current'" using assms(6,7) by (auto simp: inj_on_def)
  then show "isCurrent box' payload \<longleftrightarrow> current = current'"
    using newBox_key(2)[OF assms(5,6), of current'] by (simp add: isCurrent_def shape)
qed

lemma encrypt_succeeds:
  assumes "newBox g current previous = Inr box" "inj_on (keyId g) (set (current # previous))"
  shows "\<exists>payload. encrypt g box iv plaintext context = Inr payload"
  using newBox_key[OF assms, of current] by (simp add: encrypt_def split: prod.split)

text \<open>Moved to another row, a payload does not open.\<close>

lemma decrypt_elsewhere:
  assumes "gcm_ok g" "gcm_authentic g" "newBox g current previous = Inr box" "inj_on (keyId g) (set (current # previous))"
    and "encrypt g box iv plaintext context = Inr payload" "context' \<noteq> context"
  shows "decrypt g box payload context' = Inl ''Decryption failed''"
proof -
  note shape = encrypt_shape[OF assms(1,3,4,5)]
  have "gcm_open g current iv context' (fst (gcm_seal g current iv context plaintext)) (snd (gcm_seal g current iv context plaintext)) = None"
    using assms(2,6) by (simp add: gcm_authentic_def)
  then show ?thesis
    using newBox_key(1)[OF assms(3,4), of current] assms(1) by (simp add: decrypt_def shape gcm_ok_def)
qed

end
