(* ===== verification/Outbox.thy ===== *)
theory Outbox
  imports SecretBox Prelude
begin

text \<open>
  Events from a committed change to the handlers that react to it (\<open>apps/api/src/messaging\<close>): the outbox
  row written with the change, the relay that moves due rows into the job queue, the dispatcher that
  runs every handler once, and the housekeeping. The queue is a third-party service: what the relay
  gives it is a value, and that it may refuse is an argument. \<open>JSON.parse\<close> is a parameter.
\<close>

section \<open>Publishing\<close>

fun stringify :: "printers \<Rightarrow> json \<Rightarrow> string"
and stringify_items :: "printers \<Rightarrow> json list \<Rightarrow> string list"
and stringify_fields :: "printers \<Rightarrow> (string \<times> json) list \<Rightarrow> string list" where
  "stringify p JNull = ''null''"
| "stringify p (JBool b) = (if b then ''true'' else ''false'')"
| "stringify p (JInt n) = show_int n"
| "stringify p (JRat r) = show_rat p r"
| "stringify p (JStr s) = json_quote s"
| "stringify p (JUuid u) = json_quote (show_uuid p u)"
| "stringify p (JArr xs) = ''['' @ join '','' (stringify_items p xs) @ '']''"
| "stringify p (JObj fs) = CHR ''{'' # join '','' (stringify_fields p fs) @ ''}''"
| "stringify_items p [] = []"
| "stringify_items p (x # xs) = stringify p x # stringify_items p xs"
| "stringify_fields p [] = []"
| "stringify_fields p ((k, v) # fs) = (json_quote k @ '':'' @ stringify p v) # stringify_fields p fs"

record runtime =
  rt_gcm :: gcm
  rt_box :: secret_box
  rt_parse :: "string \<Rightarrow> json option"

definition sealedContext :: "string \<Rightarrow> string" where
  "sealedContext eventType = ''outbox:'' @ eventType"

record publish_options =
  po_sensitive :: bool
  po_availableAt :: "instant option"

definition crashed :: "string + 'a \<Rightarrow> app_error + 'a" where
  "crashed r = (case r of Inl m \<Rightarrow> Inl (CrashError m) | Inr x \<Rightarrow> Inr x)"

definition outbox_payload :: "env \<Rightarrow> runtime \<Rightarrow> string \<Rightarrow> string \<Rightarrow> json \<Rightarrow> bool \<Rightarrow> app_error + json" where
  "outbox_payload e rt iv eventType payload sensitive =
     (if sensitive then
        bindE (crashed (encrypt (rt_gcm rt) (rt_box rt) iv (stringify (printers.truncate e) payload) (sealedContext eventType)))
          (\<lambda>text. Inr (JObj [(''sealed'', JStr text)]))
      else Inr payload)"

definition publish :: "env \<Rightarrow> runtime \<Rightarrow> string \<Rightarrow> string \<Rightarrow> json \<Rightarrow> publish_options \<Rightarrow> 'a system_db_scheme \<Rightarrow> app_error + 'a system_db_scheme" where
  "publish e rt iv eventType payload options d =
     bindE (outbox_payload e rt iv eventType payload (po_sensitive options)) (\<lambda>stored.
     case take_id d of (i, d1) \<Rightarrow> Inr (d1\<lparr>outbox_events := outbox_events d1 @ [
       \<lparr>row_id = i, ob_type = eventType, ob_payload = stored, ob_occurredAt = now e,
        ob_availableAt = (case po_availableAt options of None \<Rightarrow> now e | Some t \<Rightarrow> t),
        ob_correlationId = Option.bind (cls_request e) meta_requestId, ob_actorUserId = map_option actor_userId (cls_actor e),
        ob_publishedAt = None, ob_attempts = 0, ob_lastError = None\<rparr>]\<rparr>))"

text \<open>\<open>EmailOutbox.send\<close>: the text of an email is sealed, it may hold a link that signs someone in.\<close>

definition EMAIL_REQUESTED :: string where "EMAIL_REQUESTED = ''email.requested''"

definition send_email :: "env \<Rightarrow> runtime \<Rightarrow> string \<Rightarrow> json \<Rightarrow> 'a system_db_scheme \<Rightarrow> app_error + 'a system_db_scheme" where
  "send_email e rt iv email d = publish e rt iv EMAIL_REQUESTED email \<lparr>po_sensitive = True, po_availableAt = None\<rparr> d"

section \<open>The relay\<close>

definition BATCH_SIZE :: nat where "BATCH_SIZE = 100"

definition due :: "env \<Rightarrow> outbox_row \<Rightarrow> bool" where
  "due e r \<longleftrightarrow> ob_publishedAt r = None \<and> ob_availableAt r \<le> now e"

definition due_batch :: "env \<Rightarrow> 'a system_db_scheme \<Rightarrow> outbox_row list" where
  "due_batch e d = take BATCH_SIZE (sort_key row_id (filter (due e) (outbox_events d)))"

text \<open>
  One transaction: the jobs given to the queue, and the rows marked as published. When the queue does
  not take them the transaction rolls back.
\<close>

definition relayBatch :: "env \<Rightarrow> bool \<Rightarrow> 'a system_db_scheme \<Rightarrow> app_error + (outbox_row list \<times> 'a system_db_scheme)" where
  "relayBatch e accepted d = (let rows = due_batch e d in
     if rows = [] then Inr ([], d)
     else if \<not> accepted then Inl (CrashError ''addBulk'')
     else Inr (rows, d\<lparr>outbox_events := update_where (\<lambda>r. row_id r \<in> row_id ` set rows)
       (\<lambda>r. r\<lparr>ob_publishedAt := Some (now e)\<rparr>) (outbox_events d)\<rparr>))"

definition mark_published :: "env \<Rightarrow> outbox_row list \<Rightarrow> outbox_row list \<Rightarrow> outbox_row list" where
  "mark_published e rows events = update_where (\<lambda>r. row_id r \<in> row_id ` set rows) (\<lambda>r. r\<lparr>ob_publishedAt := Some (now e)\<rparr>) events"

lemma relayBatch_accepted:
  "relayBatch e True d = Inr (due_batch e d, d\<lparr>outbox_events := mark_published e (due_batch e d) (outbox_events d)\<rparr>)"
  by (auto simp: relayBatch_def Let_def mark_published_def update_where_def)

lemma mark_published_due:
  "filter (due e) (mark_published e rows events) = filter (\<lambda>r. due e r \<and> row_id r \<notin> row_id ` set rows) events"
  by (induction events) (auto simp: mark_published_def due_def)

lemma due_batch_sub: "set (due_batch e d) \<subseteq> set (filter (due e) (outbox_events d))"
  by (auto simp: due_batch_def dest: in_set_takeD)

lemma fewer_due:
  assumes "due_batch e d \<noteq> []"
  shows "length (filter (due e) (mark_published e (due_batch e d) (outbox_events d))) < length (filter (due e) (outbox_events d))"
proof -
  obtain r where r: "r \<in> set (due_batch e d)" using assms by (cases "due_batch e d") auto
  then have "r \<in> set (outbox_events d)" "due e r" using due_batch_sub[of e d] by auto
  have "length (filter (\<lambda>x. row_id x \<notin> row_id ` set (due_batch e d)) (filter (due e) (outbox_events d)))
      < length (filter (due e) (outbox_events d))"
    using \<open>r \<in> set (outbox_events d)\<close> \<open>due e r\<close> r by (intro length_filter_less[of r]) auto
  then show ?thesis by (simp add: mark_published_due conj_commute)
qed

text \<open>\<open>relayAll\<close>: as long as full batches come back. A queue that refuses ends the loop; the error is logged.\<close>

function relayAll :: "env \<Rightarrow> bool \<Rightarrow> 'a system_db_scheme \<Rightarrow> outbox_row list \<times> 'a system_db_scheme" where
  "relayAll e accepted d = (case relayBatch e accepted d of
     Inl _ \<Rightarrow> ([], d)
   | Inr (rows, d1) \<Rightarrow> if length rows = BATCH_SIZE then (case relayAll e accepted d1 of (later, d2) \<Rightarrow> (rows @ later, d2)) else (rows, d1))"
  by auto
termination
proof (relation "measure (\<lambda>(e, accepted, d). length (filter (due e) (outbox_events d)))", goal_cases)
  case (2 e accepted d p rows d1)
  then have ne: "due_batch e d \<noteq> []" and d1: "d1 = d\<lparr>outbox_events := mark_published e (due_batch e d) (outbox_events d)\<rparr>"
    by (auto simp: relayBatch_def Let_def mark_published_def BATCH_SIZE_def split: if_splits)
  from fewer_due[OF ne] d1 show ?case by simp
qed simp

declare relayAll.simps [simp del]

text \<open>Every due event is given to the queue exactly once, oldest first, and none is left due.\<close>

lemma sort_key_filter_drop:
  assumes "distinct (map f xs)"
  shows "filter (\<lambda>x. f x \<notin> f ` set (take n (sort_key f xs))) (sort_key f xs) = drop n (sort_key f xs)"
proof -
  let ?s = "sort_key f xs"
  have d: "distinct (map f ?s)" using assms by (metis mset_eq_imp_distinct_iff mset_map mset_sort)
  have "filter (\<lambda>x. f x \<notin> f ` set (take n ?s)) (take n ?s @ drop n ?s) = drop n ?s"
  proof -
    have "f x \<notin> f ` set (take n ?s)" if "x \<in> set (drop n ?s)" for x
    proof
      assume "f x \<in> f ` set (take n ?s)"
      then obtain y where y: "y \<in> set (take n ?s)" "f y = f x" by auto
      have "distinct (map f (take n ?s) @ map f (drop n ?s))" using d by (simp flip: map_append)
      then show False using y that by (auto simp: image_iff)
    qed
    then have "filter (\<lambda>x. f x \<notin> f ` set (take n ?s)) (drop n ?s) = drop n ?s" by (intro filter_True ballI)
    moreover have "filter (\<lambda>x. f x \<notin> f ` set (take n ?s)) (take n ?s) = []" by (intro filter_False ballI) simp
    ultimately show ?thesis by (simp only: filter_append append_Nil)
  qed
  then show ?thesis by simp
qed

lemma due_after:
  assumes "distinct (map row_id (outbox_events d))"
  shows "sort_key row_id (filter (due e) (mark_published e (due_batch e d) (outbox_events d)))
    = drop BATCH_SIZE (sort_key row_id (filter (due e) (outbox_events d)))"
proof -
  have "distinct (map row_id (filter (due e) (outbox_events d)))" using assms by (simp add: distinct_map_filter)
  from sort_key_filter_drop[OF this, of BATCH_SIZE] show ?thesis
    by (simp add: mark_published_due due_batch_def filter_sort flip: filter_filter)
qed

lemma mark_published_ids: "map row_id (mark_published e rows events) = map row_id events"
  by (simp add: mark_published_def update_where_def comp_def if_distrib cong: if_cong)

lemma relayAll_all:
  assumes "distinct (map row_id (outbox_events d))" "relayAll e True d = (sent, d')"
  shows "sent = sort_key row_id (filter (due e) (outbox_events d)) \<and> filter (due e) (outbox_events d') = []"
  using assms
proof (induction e "True" d arbitrary: sent d' rule: relayAll.induct)
  case (1 e d)
  let ?rows = "due_batch e d" and ?d1 = "d\<lparr>outbox_events := mark_published e (due_batch e d) (outbox_events d)\<rparr>"
  let ?all = "sort_key row_id (filter (due e) (outbox_events d))"
  have after: "sort_key row_id (filter (due e) (outbox_events ?d1)) = drop BATCH_SIZE ?all" using due_after[OF "1.prems"(1)] by simp
  have rows: "?rows = take BATCH_SIZE ?all" by (simp add: due_batch_def)
  show ?case
  proof (cases "length ?rows = BATCH_SIZE")
    case True
    obtain later where later: "relayAll e True ?d1 = (later, d')" "sent = ?rows @ later"
      using "1.prems"(2) True by (auto simp: relayAll.simps[of e True d] relayBatch_accepted split: prod.splits)
    have "distinct (map row_id (outbox_events ?d1))" using "1.prems"(1) by (simp add: mark_published_ids)
    from "1.hyps"[OF relayBatch_accepted refl True this later(1)] after later(2) rows show ?thesis by simp
  next
    case False
    then have sent: "sent = ?rows" "d' = ?d1" using "1.prems"(2) by (auto simp: relayAll.simps[of e True d] relayBatch_accepted)
    have "length ?all \<le> BATCH_SIZE" using False by (simp add: rows min_def split: if_splits)
    then have "take BATCH_SIZE ?all = ?all" "drop BATCH_SIZE ?all = []" by simp_all
    moreover from this(2) after have "filter (due e) (outbox_events ?d1) = []" by (metis length_0_conv length_sort)
    ultimately show ?thesis using sent rows by simp
  qed
qed

section \<open>The dispatcher\<close>

record domain_event =
  ev_id :: uuid
  ev_type :: string
  ev_payload :: json
  ev_occurredAt :: instant
  ev_correlationId :: "string option"
  ev_actorUserId :: "uuid option"

text \<open>A handler's work, or its exception; what it does outside the database (sending an email) is not part of the state.\<close>

record 'd handler =
  hd_name :: string
  hd_eventType :: string
  hd_handle :: "domain_event \<Rightarrow> 'd \<Rightarrow> app_error + 'd"

definition unseal :: "runtime \<Rightarrow> outbox_row \<Rightarrow> app_error + json" where
  "unseal rt stored = (case ob_payload stored of
     JObj entries \<Rightarrow> (case map_of entries ''sealed'' of
        Some (JStr sealed) \<Rightarrow>
          bindE (crashed (decrypt (rt_gcm rt) (rt_box rt) sealed (sealedContext (ob_type stored)))) (\<lambda>text.
          demand (rt_parse rt text) (CrashError ''JSON.parse''))
      | _ \<Rightarrow> Inr (ob_payload stored))
   | _ \<Rightarrow> Inr (ob_payload stored))"

definition event_of :: "outbox_row \<Rightarrow> json \<Rightarrow> domain_event" where
  "event_of stored payload = \<lparr>ev_id = row_id stored, ev_type = ob_type stored, ev_payload = payload, ev_occurredAt = ob_occurredAt stored,
     ev_correlationId = ob_correlationId stored, ev_actorUserId = ob_actorUserId stored\<rparr>"

definition handled_before :: "string \<Rightarrow> uuid \<Rightarrow> 'a system_db_scheme \<Rightarrow> bool" where
  "handled_before name i d = list_ex (\<lambda>p. pe_consumer p = name \<and> pe_eventId p = i) (processed_events d)"

text \<open>One handler in its own transaction: claim the event in the inbox, then work. An exception undoes both.\<close>

definition claim_event :: "env \<Rightarrow> string \<Rightarrow> uuid \<Rightarrow> 'a system_db_scheme \<Rightarrow> 'a system_db_scheme" where
  "claim_event e name i d = d\<lparr>processed_events := processed_events d @ [\<lparr>pe_consumer = name, pe_eventId = i, pe_processedAt = now e\<rparr>]\<rparr>"

definition run_handler :: "env \<Rightarrow> ('a system_db_scheme) handler \<Rightarrow> domain_event \<Rightarrow> 'a system_db_scheme \<Rightarrow> app_error + (bool \<times> 'a system_db_scheme)" where
  "run_handler e h event d =
     (if handled_before (hd_name h) (ev_id event) d then Inr (False, d)
      else bindE (hd_handle h event (claim_event e (hd_name h) (ev_id event) d)) (\<lambda>d1. Inr (True, d1)))"

text \<open>The handlers one after the other; what was committed before an exception stays.\<close>

fun run_handlers :: "env \<Rightarrow> ('a system_db_scheme) handler list \<Rightarrow> domain_event \<Rightarrow> nat \<times> nat \<Rightarrow> 'a system_db_scheme
    \<Rightarrow> (app_error + (nat \<times> nat)) \<times> 'a system_db_scheme" where
  "run_handlers e [] event counts d = (Inr counts, d)"
| "run_handlers e (h # hs) event counts d =
     (case run_handler e h event d of
        Inl err \<Rightarrow> (Inl err, d)
      | Inr (worked, d1) \<Rightarrow> run_handlers e hs event (if worked then (fst counts + 1, snd counts) else (fst counts, snd counts + 1)) d1)"

definition dispatch :: "env \<Rightarrow> runtime \<Rightarrow> ('a system_db_scheme) handler list \<Rightarrow> outbox_row \<Rightarrow> 'a system_db_scheme
    \<Rightarrow> (app_error + (nat \<times> nat)) \<times> 'a system_db_scheme" where
  "dispatch e rt handlers stored d = (case unseal rt stored of
     Inl err \<Rightarrow> (Inl err, d)
   | Inr payload \<Rightarrow> run_handlers e (filter (\<lambda>h. hd_eventType h = ob_type stored) handlers) (event_of stored payload) (0, 0) d)"

text \<open>\<open>OutboxDrain\<close>: without the queue, one event after the other; an exception stops the drain.\<close>

fun drain_rows :: "env \<Rightarrow> runtime \<Rightarrow> ('a system_db_scheme) handler list \<Rightarrow> outbox_row list \<Rightarrow> 'a system_db_scheme
    \<Rightarrow> (app_error + unit) \<times> 'a system_db_scheme" where
  "drain_rows e rt handlers [] d = (Inr (), d)"
| "drain_rows e rt handlers (r # rows) d = (case dispatch e rt handlers r d of
     (Inl err, d1) \<Rightarrow> (Inl err, d1)
   | (Inr _, d1) \<Rightarrow> drain_rows e rt handlers rows
       (d1\<lparr>outbox_events := update_where (\<lambda>x. row_id x = row_id r) (\<lambda>x. x\<lparr>ob_publishedAt := Some (now e)\<rparr>) (outbox_events d1)\<rparr>))"

definition drain :: "env \<Rightarrow> runtime \<Rightarrow> ('a system_db_scheme) handler list \<Rightarrow> 'a system_db_scheme \<Rightarrow> (app_error + nat) \<times> 'a system_db_scheme" where
  "drain e rt handlers d = (let pending = sort_key row_id (filter (due e) (outbox_events d)) in
     case drain_rows e rt handlers pending d of
       (Inl err, d1) \<Rightarrow> (Inl err, d1) | (Inr _, d1) \<Rightarrow> (Inr (length pending), d1))"

section \<open>Once\<close>

text \<open>A handler leaves the claims of others alone: it never removes an inbox row.\<close>

definition keeps_inbox :: "('a system_db_scheme) handler \<Rightarrow> bool" where
  "keeps_inbox h \<longleftrightarrow> (\<forall>event d d'. hd_handle h event d = Inr d' \<longrightarrow> set (processed_events d) \<subseteq> set (processed_events d'))"

lemma handled_before_mono:
  "set (processed_events d) \<subseteq> set (processed_events d') \<Longrightarrow> handled_before n i d \<Longrightarrow> handled_before n i d'"
  by (auto simp: handled_before_def list_ex_iff)

lemma run_handler_claims:
  assumes "run_handler e h event d = Inr (worked, d')" "keeps_inbox h"
  shows "handled_before (hd_name h) (ev_id event) d' \<and> set (processed_events d) \<subseteq> set (processed_events d')"
proof (cases "handled_before (hd_name h) (ev_id event) d")
  case True
  then show ?thesis using assms(1) by (simp add: run_handler_def)
next
  case False
  let ?d = "claim_event e (hd_name h) (ev_id event) d"
  have "hd_handle h event ?d = Inr d'" using False assms(1) by (simp add: run_handler_def)
  then have sub: "set (processed_events ?d) \<subseteq> set (processed_events d')" using assms(2) unfolding keeps_inbox_def by blast
  have "handled_before (hd_name h) (ev_id event) ?d" by (simp add: handled_before_def claim_event_def)
  then show ?thesis using sub handled_before_mono[OF sub] by (auto simp: claim_event_def)
qed

lemma run_handlers_claims:
  assumes "run_handlers e hs event c d = (Inr c', d')" "\<forall>h \<in> set hs. keeps_inbox h"
  shows "(\<forall>h \<in> set hs. handled_before (hd_name h) (ev_id event) d') \<and> set (processed_events d) \<subseteq> set (processed_events d')
    \<and> fst c' + snd c' = fst c + snd c + length hs"
  using assms
proof (induction hs arbitrary: c d)
  case (Cons h hs)
  obtain worked d1 where worked: "run_handler e h event d = Inr (worked, d1)"
    using Cons.prems(1) by (auto split: sum.splits)
  let ?c = "if worked then (fst c + 1, snd c) else (fst c, snd c + 1)"
  have rest: "run_handlers e hs event ?c d1 = (Inr c', d')" using Cons.prems(1) worked by simp
  have keep: "\<forall>h \<in> set hs. keeps_inbox h" "keeps_inbox h" using Cons.prems(2) by simp_all
  note step = run_handler_claims[OF worked keep(2)]
  note later = Cons.IH[OF rest keep(1)]
  have "handled_before (hd_name h) (ev_id event) d'" using step later handled_before_mono by blast
  moreover have "fst ?c + snd ?c = Suc (fst c + snd c)" by simp
  ultimately show ?case using step later by auto
qed simp

lemma run_handlers_again:
  assumes "\<forall>h \<in> set hs. handled_before (hd_name h) (ev_id event) d"
  shows "run_handlers e hs event c d = (Inr (fst c, snd c + length hs), d)"
  using assms by (induction hs arbitrary: c) (auto simp: run_handler_def)

text \<open>Delivered again, now or after anything that kept the inbox, an event changes nothing.\<close>

lemma redelivery:
  assumes "dispatch e rt handlers stored d = (Inr (handled, skipped), d1)" "\<forall>h \<in> set handlers. keeps_inbox h"
    and "set (processed_events d1) \<subseteq> set (processed_events d2)"
  shows "dispatch e' rt handlers stored d2 = (Inr (0, handled + skipped), d2)"
proof -
  let ?hs = "filter (\<lambda>h. hd_eventType h = ob_type stored) handlers"
  obtain payload where payload: "unseal rt stored = Inr payload"
    and run: "run_handlers e ?hs (event_of stored payload) (0, 0) d = (Inr (handled, skipped), d1)"
    using assms(1) by (auto simp: dispatch_def split: sum.splits)
  have "\<forall>h \<in> set ?hs. keeps_inbox h" using assms(2) by simp
  from run_handlers_claims[OF run this]
  have once: "\<forall>h \<in> set ?hs. handled_before (hd_name h) (ev_id (event_of stored payload)) d1" and n: "handled + skipped = length ?hs" by simp_all
  have "\<forall>h \<in> set ?hs. handled_before (hd_name h) (ev_id (event_of stored payload)) d2"
    using once handled_before_mono[OF assms(3)] by blast
  from run_handlers_again[OF this] show ?thesis using payload n by (simp add: dispatch_def)
qed

section \<open>What is published is what is handled\<close>

lemma unseal_publish:
  assumes "publish e rt iv t payload options d = Inr d'" "rt_parse rt (stringify (printers.truncate e) payload) = Some payload" "gcm_ok (rt_gcm rt)"
    and "newBox (rt_gcm rt) current previous = Inr (rt_box rt)" "inj_on (keyId (rt_gcm rt)) (set (current # previous))"
    and "po_sensitive options"
  shows "\<exists>row. outbox_events d' = outbox_events d @ [row] \<and> unseal rt row = Inr payload \<and> row_id row = next_id d
    \<and> ob_publishedAt row = None"
proof -
  obtain sealed where sealed: "encrypt (rt_gcm rt) (rt_box rt) iv (stringify (printers.truncate e) payload) (sealedContext t) = Inr sealed"
    and d': "\<exists>row. outbox_events d' = outbox_events d @ [row] \<and> ob_payload row = JObj [(''sealed'', JStr sealed)] \<and> ob_type row = t
        \<and> row_id row = next_id d \<and> ob_publishedAt row = None"
    using assms(1,6) by (auto simp: publish_def outbox_payload_def crashed_def take_id_def split: sum.splits)
  have "decrypt (rt_gcm rt) (rt_box rt) sealed (sealedContext t) = Inr (stringify (printers.truncate e) payload)"
    by (rule decrypt_encrypt(1)[OF assms(3,4,5) sealed assms(4,5)]) simp
  then show ?thesis using d' assms(2) by (auto simp: unseal_def crashed_def)
qed

section \<open>Housekeeping\<close>

definition DAY :: int where "DAY = 86400000000"

definition daysAgo :: "env \<Rightarrow> int \<Rightarrow> instant" where
  "daysAgo e days = now e - days * DAY"

text \<open>Each job deletes rows that are no longer needed and says how many.\<close>

definition purge_idempotency_keys :: "env \<Rightarrow> 'a system_db_scheme \<Rightarrow> nat \<times> 'a system_db_scheme" where
  "purge_idempotency_keys e d = (let gone = (\<lambda>k. ik_expiresAt k < now e) in
     (length (filter gone (idempotency_keys d)), d\<lparr>idempotency_keys := filter (\<lambda>k. \<not> gone k) (idempotency_keys d)\<rparr>))"

definition purge_delivered_events :: "env \<Rightarrow> 'a system_db_scheme \<Rightarrow> nat \<times> 'a system_db_scheme" where
  "purge_delivered_events e d = (let gone = (\<lambda>r. case ob_publishedAt r of None \<Rightarrow> False | Some t \<Rightarrow> t < daysAgo e 7) in
     (length (filter gone (outbox_events d)),
      d\<lparr>outbox_events := filter (\<lambda>r. \<not> gone r) (outbox_events d),
        processed_events := filter (\<lambda>p. \<not> pe_processedAt p < daysAgo e 30) (processed_events d)\<rparr>))"

definition dead_session :: "instant \<Rightarrow> session_token_row \<Rightarrow> bool" where
  "dead_session cutoff s \<longleftrightarrow> us_absoluteExpiresAt s < cutoff \<or> (case us_revokedAt s of None \<Rightarrow> False | Some t \<Rightarrow> t < cutoff)"

definition purge_dead_sessions :: "env \<Rightarrow> 'a access_db_scheme \<Rightarrow> nat \<times> 'a access_db_scheme" where
  "purge_dead_sessions e d = (let cutoff = daysAgo e 30 in
     (length (filter (dead_session cutoff) (user_sessions d)),
      d\<lparr>user_sessions := filter (\<lambda>s. \<not> dead_session cutoff s) (user_sessions d),
        password_reset_tokens := filter (\<lambda>t. \<not> prt_expiresAt t < daysAgo e 7) (password_reset_tokens d),
        user_invitations := filter (\<lambda>i. \<not> (ui_createdAt i < cutoff \<and> (ui_acceptedAt i \<noteq> None \<or> ui_revokedAt i \<noteq> None \<or> ui_expiresAt i < now e)))
          (user_invitations d)\<rparr>))"

end
