(* ===== verification/Identity.thy ===== *)
theory Identity
  imports Outbox Access Versioning
begin

text \<open>
  Who is calling (\<open>apps/api/src/modules/identity\<close>): accounts and passwords, sessions, signing in with its
  lockout, and the two guards in front of every route. What belongs to other packages is a parameter of
  \<open>tools\<close>: Argon2, zxcvbn, the TOTP library, the sealed box and its runtime, and what a call draws at
  random. The text of the emails is left out: an email is its kind and what goes into it, printed by
  \<open>render_mail\<close>.
\<close>

section \<open>Parameters and configuration\<close>

datatype mail =
    AccountLockedMail string instant
  | PasswordResetMail string string int
  | PasswordChangedMail string
  | InvitationMail string string string string string int

record tools = runtime +
  argon_hash :: "string \<Rightarrow> string"
  argon_verify :: "string \<Rightarrow> string \<Rightarrow> bool"
  zxcvbn_score :: "string \<Rightarrow> string list \<Rightarrow> nat"
  zxcvbn_hint :: "string \<Rightarrow> string list \<Rightarrow> string option"
  totp_step :: "string \<Rightarrow> string \<Rightarrow> int option \<Rightarrow> int option"
  render_mail :: "mail \<Rightarrow> json"
  drawn_iv :: string
  drawn_token :: string
  drawn_secret :: string
  drawn_codes :: "string list"

record auth_config =
  SESSION_IDLE_MINUTES :: int
  SESSION_ABSOLUTE_HOURS :: int
  PORTAL_URL :: string

text \<open>The bounds of \<open>config/env.ts\<close>.\<close>

definition valid_auth_config :: "auth_config \<Rightarrow> bool" where
  "valid_auth_config c \<longleftrightarrow> 5 \<le> SESSION_IDLE_MINUTES c \<and> SESSION_IDLE_MINUTES c \<le> 1440
     \<and> 1 \<le> SESSION_ABSOLUTE_HOURS c \<and> SESSION_ABSOLUTE_HOURS c \<le> 720"

definition SECOND :: int where "SECOND = 1000000"
definition MINUTE :: int where "MINUTE = 60 * SECOND"
definition HOUR :: int where "HOUR = 60 * MINUTE"

record request_context =
  rc_ip :: "string option"
  rc_userAgent :: "string option"

definition mail_out :: "env \<Rightarrow> 'z tools_scheme \<Rightarrow> mail \<Rightarrow> 'a system_db_scheme \<Rightarrow> app_error + 'a system_db_scheme" where
  "mail_out e k m d = send_email e (runtime.truncate k) (drawn_iv k) (render_mail k m) d"

section \<open>Security events\<close>

definition record_event :: "env \<Rightarrow> string \<Rightarrow> request_context \<Rightarrow> uuid option \<Rightarrow> (string \<times> json) list \<Rightarrow> 'a access_db_scheme \<Rightarrow> 'a access_db_scheme" where
  "record_event e kind context userId metadata d = (case take_id d of (i, d1) \<Rightarrow>
     d1\<lparr>security_events := security_events d1 @ [\<lparr>row_id = i, se_occurredAt = now e, se_userId = userId, se_type = kind,
       se_ipAddress = rc_ip context, se_userAgent = rc_userAgent context, se_metadata = JObj metadata\<rparr>]\<rparr>)"

section \<open>Passwords\<close>

definition PASSWORD_MIN_LENGTH :: nat where "PASSWORD_MIN_LENGTH = 12"
definition PASSWORD_MAX_LENGTH :: nat where "PASSWORD_MAX_LENGTH = 128"
definition MIN_SCORE :: nat where "MIN_SCORE = 3"

text \<open>\<open>input.split(/[@.\s_-]+/)\<close>; an empty piece is too short to matter.\<close>

definition part_break :: "char \<Rightarrow> bool" where
  "part_break c \<longleftrightarrow> is_space c \<or> c \<in> {CHR ''@'', CHR ''.'', CHR ''_'', CHR ''-''}"

fun personal_parts :: "string \<Rightarrow> string list" where
  "personal_parts [] = [[]]"
| "personal_parts (x # xs) = (if part_break x then [] # personal_parts xs
     else case personal_parts xs of [] \<Rightarrow> [[x]] | w # ws \<Rightarrow> (x # w) # ws)"

definition personal_inputs :: "string list \<Rightarrow> string list" where
  "personal_inputs inputs = filter (\<lambda>p. 4 \<le> length p)
     (map (\<lambda>p. toLowerCase (trim p)) (concat (map (\<lambda>input. input # personal_parts input) inputs)))"

definition includes_part :: "string \<Rightarrow> string \<Rightarrow> bool" where
  "includes_part s part = list_ex (\<lambda>i. take (length part) (drop i s) = part) [0..<Suc (length s)]"

definition check_password :: "'z tools_scheme \<Rightarrow> string \<Rightarrow> string list \<Rightarrow> string + unit" where
  "check_password k password personalInputs =
     (if length password < PASSWORD_MIN_LENGTH then Inl ''Use at least 12 characters.''
      else if length password > PASSWORD_MAX_LENGTH then Inl ''Use at most 128 characters.''
      else let inputs = personal_inputs personalInputs in
        if list_ex (includes_part (toLowerCase password)) inputs then Inl (''Don'' @ CHR 0x27 # ''t use your name or email address in your password.'')
        else if zxcvbn_score k password inputs < MIN_SCORE then
          Inl (case zxcvbn_hint k password inputs of None \<Rightarrow> ''Too easy to guess.'' | Some h \<Rightarrow> ''Too easy to guess. '' @ h)
        else Inr ())"

definition password_ok :: "'z tools_scheme \<Rightarrow> string \<Rightarrow> string list \<Rightarrow> app_error + unit" where
  "password_ok k password inputs = (case check_password k password inputs of Inl m \<Rightarrow> Inl (Auth (WeakPassword m)) | Inr _ \<Rightarrow> Inr ())"

text \<open>\<open>PasswordHasher.verify\<close>: without a stored hash the work is done on a dummy and the answer is no.\<close>

definition verify_password :: "'z tools_scheme \<Rightarrow> string option \<Rightarrow> string \<Rightarrow> bool" where
  "verify_password k storedHash password = (case storedHash of None \<Rightarrow> False | Some h \<Rightarrow> argon_verify k h password)"

definition CURRENT_PARAMS :: string where "CURRENT_PARAMS = ''$argon2id$v=19$m=19456,t=2,p=1$''"

definition needsRehash :: "string \<Rightarrow> bool" where
  "needsRehash storedHash \<longleftrightarrow> take (length CURRENT_PARAMS) storedHash \<noteq> CURRENT_PARAMS"

section \<open>Accounts\<close>

text \<open>The column is \<open>citext\<close>: emails are compared without case.\<close>

definition findByEmail :: "string \<Rightarrow> 'a access_db_scheme \<Rightarrow> user_row option" where
  "findByEmail email d = find (\<lambda>u. toLowerCase (usr_email u) = toLowerCase email) (user_accounts d)"

definition findById :: "uuid \<Rightarrow> 'a access_db_scheme \<Rightarrow> user_row option" where
  "findById i d = find_by row_id i (user_accounts d)"

record new_account =
  na_email :: string
  na_displayName :: string
  na_password :: "string option"
  na_mfaEnforced :: bool

definition createAccount :: "env \<Rightarrow> 'z tools_scheme \<Rightarrow> new_account \<Rightarrow> 'a access_db_scheme \<Rightarrow> app_error + (uuid \<times> 'a access_db_scheme)" where
  "createAccount e k inp d =
     (let email = toLowerCase (trim (na_email inp)); displayName = trim (na_displayName inp) in
      bindE (case na_password inp of None \<Rightarrow> Inr None
             | Some p \<Rightarrow> bindE (password_ok k p [email, displayName]) (\<lambda>_. Inr (Some (argon_hash k p)))) (\<lambda>passwordHash.
      case take_id d of (i, d1) \<Rightarrow>
        let row = \<lparr>row_id = i, createdAt = now e, updatedAt = now e, createdBy = None, updatedBy = None, version = 1,
             usr_email = email, usr_displayName = displayName, usr_passwordHash = passwordHash, usr_status = AccActive,
             usr_mfaEnforced = na_mfaEnforced inp, usr_failedLoginCount = 0, usr_lockedUntil = None, usr_lastLoginAt = None,
             usr_passwordChangedAt = (if passwordHash = None \<or> passwordHash = Some [] then None else Some (now e))\<rparr> in
        bindE (insert_unless (\<lambda>u. toLowerCase (usr_email u) = toLowerCase email) (Auth EmailTaken) row (user_accounts d1)) (\<lambda>rows.
        Inr (i, d1\<lparr>user_accounts := rows\<rparr>))))"

definition update_account :: "env \<Rightarrow> uuid \<Rightarrow> (user_row \<Rightarrow> user_row) \<Rightarrow> 'a access_db_scheme \<Rightarrow> 'a access_db_scheme" where
  "update_account e i f d = d\<lparr>user_accounts := update_where (\<lambda>u. row_id u = i) (\<lambda>u. touch e (f u)) (user_accounts d)\<rparr>"

definition setPassword :: "env \<Rightarrow> 'z tools_scheme \<Rightarrow> uuid \<Rightarrow> string \<Rightarrow> 'a access_db_scheme \<Rightarrow> app_error + 'a access_db_scheme" where
  "setPassword e k i password d =
     bindE (demand (findById i d) (CrashError ''Account not found'')) (\<lambda>account.
     bindE (password_ok k password [usr_email account, usr_displayName account]) (\<lambda>_.
     Inr (update_account e i (\<lambda>u. u\<lparr>usr_passwordHash := Some (argon_hash k password), usr_passwordChangedAt := Some (now e),
       usr_failedLoginCount := 0, usr_lockedUntil := None\<rparr>) d)))"

definition setAccountStatus :: "env \<Rightarrow> uuid \<Rightarrow> account_status \<Rightarrow> 'a access_db_scheme \<Rightarrow> 'a access_db_scheme" where
  "setAccountStatus e i s d = update_account e i (\<lambda>u. u\<lparr>usr_status := s\<rparr>) d"

definition enforceMfa :: "env \<Rightarrow> uuid \<Rightarrow> 'a access_db_scheme \<Rightarrow> 'a access_db_scheme" where
  "enforceMfa e i d = update_account e i (\<lambda>u. u\<lparr>usr_mfaEnforced := True\<rparr>) d"

section \<open>Sessions\<close>

datatype next_step = StepNone | StepMfa | StepMfaEnrollment

definition nextStepFor :: "bool \<Rightarrow> bool \<Rightarrow> bool \<Rightarrow> next_step" where
  "nextStepFor mfaEnabled mfaEnforced mfaVerified =
     (if mfaVerified then StepNone else if mfaEnabled then StepMfa else if mfaEnforced then StepMfaEnrollment else StepNone)"

record auth_context =
  ac_sessionId :: uuid
  ac_userId :: uuid
  ac_email :: string
  ac_displayName :: string
  ac_mfaEnforced :: bool
  ac_mfaEnabled :: bool
  ac_mfaVerified :: bool
  ac_sessionCreatedAt :: instant
  ac_absoluteExpiresAt :: instant
  ac_nextStep :: next_step

definition TOUCH_INTERVAL :: int where "TOUCH_INTERVAL = 60 * SECOND"
definition MAX_MFA_ATTEMPTS :: int where "MAX_MFA_ATTEMPTS = 5"

definition idle_expiry :: "env \<Rightarrow> auth_config \<Rightarrow> instant \<Rightarrow> instant" where
  "idle_expiry e c absolute = min (now e + SESSION_IDLE_MINUTES c * MINUTE) absolute"

definition absolute_expiry :: "env \<Rightarrow> auth_config \<Rightarrow> instant" where
  "absolute_expiry e c = now e + SESSION_ABSOLUTE_HOURS c * HOUR"

definition createSession :: "env \<Rightarrow> 'z tools_scheme \<Rightarrow> auth_config \<Rightarrow> uuid \<Rightarrow> request_context \<Rightarrow> bool \<Rightarrow> 'a access_db_scheme
    \<Rightarrow> app_error + (uuid \<times> 'a access_db_scheme)" where
  "createSession e k c userId context mfaVerified d = (case take_id d of (i, d1) \<Rightarrow>
     let absolute = absolute_expiry e c;
         row = \<lparr>row_id = i, us_userId = userId, us_tokenHash = hashToken e (drawn_token k), us_createdAt = now e, us_lastSeenAt = now e,
           us_idleExpiresAt = idle_expiry e c absolute, us_absoluteExpiresAt = absolute,
           us_mfaVerifiedAt = (if mfaVerified then Some (now e) else None), us_mfaFailedAttempts = 0,
           us_ipAddress = rc_ip context, us_userAgent = rc_userAgent context, us_revokedAt = None, us_revokedReason = None\<rparr> in
     bindE (insert_unless (\<lambda>s. us_tokenHash s = hashToken e (drawn_token k)) (UniqueViolation ''user_sessions_token_hash_key'') row (user_sessions d1)) (\<lambda>rows.
     Inr (i, d1\<lparr>user_sessions := rows\<rparr>)))"

definition factorOf :: "uuid \<Rightarrow> 'a access_db_scheme \<Rightarrow> totp_factor_row option" where
  "factorOf userId d = find_by tf_userId userId (user_totp_factors d)"

definition live_session :: "env \<Rightarrow> string \<Rightarrow> 'a access_db_scheme \<Rightarrow> session_token_row \<Rightarrow> bool" where
  "live_session e token d s \<longleftrightarrow> us_tokenHash s = hashToken e token \<and> us_revokedAt s = None \<and> now e < us_idleExpiresAt s
     \<and> now e < us_absoluteExpiresAt s \<and> (case findById (us_userId s) d of None \<Rightarrow> False | Some u \<Rightarrow> usr_status u = AccActive)"

definition auth_of :: "session_token_row \<Rightarrow> user_row \<Rightarrow> 'a access_db_scheme \<Rightarrow> auth_context" where
  "auth_of s u d = (let enabled = Option.bind (factorOf (us_userId s) d) tf_confirmedAt \<noteq> None in
     \<lparr>ac_sessionId = row_id s, ac_userId = row_id u, ac_email = usr_email u, ac_displayName = usr_displayName u,
      ac_mfaEnforced = usr_mfaEnforced u, ac_mfaEnabled = enabled, ac_mfaVerified = us_mfaVerifiedAt s \<noteq> None,
      ac_sessionCreatedAt = us_createdAt s, ac_absoluteExpiresAt = us_absoluteExpiresAt s,
      ac_nextStep = nextStepFor enabled (usr_mfaEnforced u) (us_mfaVerifiedAt s \<noteq> None)\<rparr>)"

definition touch_session :: "env \<Rightarrow> auth_config \<Rightarrow> session_token_row \<Rightarrow> 'a access_db_scheme \<Rightarrow> 'a access_db_scheme" where
  "touch_session e c s d = (if now e - us_lastSeenAt s > TOUCH_INTERVAL
     then d\<lparr>user_sessions := update_where (\<lambda>x. row_id x = row_id s)
       (\<lambda>x. x\<lparr>us_lastSeenAt := now e, us_idleExpiresAt := idle_expiry e c (us_absoluteExpiresAt s)\<rparr>) (user_sessions d)\<rparr>
     else d)"

definition authenticate :: "env \<Rightarrow> auth_config \<Rightarrow> string \<Rightarrow> 'a access_db_scheme \<Rightarrow> auth_context option \<times> 'a access_db_scheme" where
  "authenticate e c token d = (case find (live_session e token d) (user_sessions d) of
     None \<Rightarrow> (None, d)
   | Some s \<Rightarrow> (case findById (us_userId s) d of
        None \<Rightarrow> (None, d)
      | Some u \<Rightarrow> (Some (auth_of s u d), touch_session e c s d)))"

text \<open>A new token for the same session; the failed codes are forgotten.\<close>

definition rotate :: "env \<Rightarrow> 'z tools_scheme \<Rightarrow> uuid \<Rightarrow> bool \<Rightarrow> 'a access_db_scheme \<Rightarrow> app_error + 'a access_db_scheme" where
  "rotate e k i markMfaVerified d =
     bindE (throwIf (list_ex (\<lambda>s. us_tokenHash s = hashToken e (drawn_token k) \<and> row_id s \<noteq> i) (user_sessions d))
       (UniqueViolation ''user_sessions_token_hash_key'')) (\<lambda>_.
     Inr (d\<lparr>user_sessions := update_where (\<lambda>s. row_id s = i)
       (\<lambda>s. s\<lparr>us_tokenHash := hashToken e (drawn_token k), us_lastSeenAt := now e, us_mfaFailedAttempts := 0,
          us_mfaVerifiedAt := (if markMfaVerified then Some (now e) else us_mfaVerifiedAt s)\<rparr>) (user_sessions d)\<rparr>))"

definition revoke_where :: "env \<Rightarrow> string \<Rightarrow> (session_token_row \<Rightarrow> bool) \<Rightarrow> 'a access_db_scheme \<Rightarrow> nat \<times> 'a access_db_scheme" where
  "revoke_where e reason P d = (let hit = (\<lambda>s. P s \<and> us_revokedAt s = None) in
     (length (filter hit (user_sessions d)), d\<lparr>user_sessions := update_where hit
       (\<lambda>s. s\<lparr>us_revokedAt := Some (now e), us_revokedReason := Some reason\<rparr>) (user_sessions d)\<rparr>))"

definition revoke :: "env \<Rightarrow> uuid \<Rightarrow> string \<Rightarrow> 'a access_db_scheme \<Rightarrow> 'a access_db_scheme" where
  "revoke e i reason d = snd (revoke_where e reason (\<lambda>s. row_id s = i) d)"

definition revokeOwn :: "env \<Rightarrow> uuid \<Rightarrow> uuid \<Rightarrow> string \<Rightarrow> 'a access_db_scheme \<Rightarrow> bool \<times> 'a access_db_scheme" where
  "revokeOwn e userId i reason d = (case revoke_where e reason (\<lambda>s. row_id s = i \<and> us_userId s = userId) d of (n, d1) \<Rightarrow> (n > 0, d1))"

definition revokeAllForUser :: "env \<Rightarrow> uuid \<Rightarrow> string \<Rightarrow> uuid option \<Rightarrow> 'a access_db_scheme \<Rightarrow> nat \<times> 'a access_db_scheme" where
  "revokeAllForUser e userId reason exceptSessionId d =
     revoke_where e reason (\<lambda>s. us_userId s = userId \<and> exceptSessionId \<noteq> Some (row_id s)) d"

definition recordMfaFailure :: "uuid \<Rightarrow> 'a access_db_scheme \<Rightarrow> int \<times> 'a access_db_scheme" where
  "recordMfaFailure i d = (let rows = update_where (\<lambda>s. row_id s = i) (\<lambda>s. s\<lparr>us_mfaFailedAttempts := us_mfaFailedAttempts s + 1\<rparr>) (user_sessions d) in
     (case find_by row_id i rows of None \<Rightarrow> MAX_MFA_ATTEMPTS | Some s \<Rightarrow> us_mfaFailedAttempts s, d\<lparr>user_sessions := rows\<rparr>))"

definition listActive :: "env \<Rightarrow> uuid \<Rightarrow> 'a access_db_scheme \<Rightarrow> session_token_row list" where
  "listActive e userId d = rev (sort_key us_lastSeenAt (filter (\<lambda>s. us_userId s = userId \<and> us_revokedAt s = None
     \<and> now e < us_idleExpiresAt s \<and> now e < us_absoluteExpiresAt s) (user_sessions d)))"

text \<open>\<open>DELETE auth/sessions/:id\<close>.\<close>

definition revokeSession :: "env \<Rightarrow> auth_context \<Rightarrow> uuid \<Rightarrow> request_context \<Rightarrow> 'a access_db_scheme \<Rightarrow> app_error + 'a access_db_scheme" where
  "revokeSession e auth i context d = (case revokeOwn e (ac_userId auth) i ''revoked_by_user'' d of (found, d1) \<Rightarrow>
     bindE (throwIf (\<not> found) SessionNotFound) (\<lambda>_.
     Inr (record_event e ''session.revoked'' context (Some (ac_userId auth)) [(''sessionId'', JUuid i)] d1)))"

end
