(* ===== verification/SignIn.thy ===== *)
theory SignIn
  imports Identity
begin

text \<open>
  Signing in and out (\<open>identity/application/auth.service.ts\<close>) with the lockout after wrong passwords, and
  what stands in front of every route: the check for cross-site requests, the guard that wants a
  session and the guard that wants a permission. \<open>login\<close> runs outside a transaction: what it wrote
  before it throws stays written, so it returns the state beside the error.
\<close>

section \<open>Lockout\<close>

definition LOCKOUT_THRESHOLD :: int where "LOCKOUT_THRESHOLD = 5"
definition MAX_LOCKOUT_MINUTES :: int where "MAX_LOCKOUT_MINUTES = 60"

text \<open>
  \<open>LEAST(60, power(2, next - 5)::int)\<close>: the cast of a double to a 32-bit integer fails from \<open>2 ^ 31\<close>
  on, and \<open>LEAST\<close> looks at all its arguments.
\<close>

definition lockout_minutes :: "int \<Rightarrow> int option" where
  "lockout_minutes n = (let p = 2 ^ nat (n - LOCKOUT_THRESHOLD) in
     if p < 2 ^ 31 then Some (min MAX_LOCKOUT_MINUTES p) else None)"

definition registerFailure :: "env \<Rightarrow> uuid \<Rightarrow> 'a access_db_scheme \<Rightarrow> app_error + ((int \<times> instant option) \<times> 'a access_db_scheme)" where
  "registerFailure e i d = (case findById i d of
     None \<Rightarrow> Inr ((0, None), d)
   | Some u \<Rightarrow> let n = usr_failedLoginCount u + 1 in
       bindE (if n \<ge> LOCKOUT_THRESHOLD
              then demand (map_option (\<lambda>m. Some (now e + m * MINUTE)) (lockout_minutes n)) (CrashError ''integer out of range'')
              else Inr (usr_lockedUntil u)) (\<lambda>lockedUntil.
       Inr ((n, lockedUntil), update_account e i (\<lambda>r. r\<lparr>usr_failedLoginCount := n, usr_lockedUntil := lockedUntil\<rparr>) d)))"

section \<open>Signing in\<close>

record login_request =
  lr_email :: string
  lr_password :: string

record login_response =
  lrs_token :: string
  lrs_userId :: uuid
  lrs_nextStep :: next_step

definition usable :: "user_row option \<Rightarrow> bool" where
  "usable account \<longleftrightarrow> (case account of None \<Rightarrow> False | Some u \<Rightarrow> usr_status u = AccActive \<and> usr_passwordHash u \<noteq> None)"

definition locked :: "env \<Rightarrow> user_row option \<Rightarrow> bool" where
  "locked e account \<longleftrightarrow> (case Option.bind account usr_lockedUntil of None \<Rightarrow> False | Some t \<Rightarrow> now e < t)"

definition refuse_login :: "env \<Rightarrow> user_row option \<Rightarrow> request_context \<Rightarrow> 'a access_db_scheme \<Rightarrow> 'a access_db_scheme" where
  "refuse_login e account context d = record_event e (if locked e account then ''login.blocked'' else ''login.failed'') context
     (map_option row_id account) [(''reason'', JStr (if locked e account then ''locked'' else if account \<noteq> None then ''unusable_account'' else ''unknown_email''))] d"

text \<open>After a wrong password: the count and the lock, the event, and at every fifth failure a warning.\<close>

definition wrong_password :: "env \<Rightarrow> 'z tools_scheme \<Rightarrow> user_row \<Rightarrow> request_context \<Rightarrow> 'a access_db_scheme \<Rightarrow> app_error \<times> 'a access_db_scheme" where
  "wrong_password e k account context d = (case registerFailure e (row_id account) d of
     Inl err \<Rightarrow> (err, d)
   | Inr ((failures, lockedUntil), d1) \<Rightarrow>
       let d2 = record_event e ''login.failed'' context (Some (row_id account)) [(''reason'', JStr ''wrong_password''), (''failedAttempts'', JInt failures)] d1 in
       (case lockedUntil of
          None \<Rightarrow> (Auth InvalidCredentials, d2)
        | Some t \<Rightarrow>
            if failures mod LOCKOUT_THRESHOLD = 0 then
              (let d3 = record_event e ''account.locked'' context (Some (row_id account)) [(''until'', JStr (to_iso e t))] d2 in
               case mail_out e k (AccountLockedMail (usr_email account) t) d3 of
                 Inl err \<Rightarrow> (err, d3) | Inr d4 \<Rightarrow> (Auth InvalidCredentials, d4))
            else (Auth InvalidCredentials, d2)))"

definition login :: "env \<Rightarrow> 'z tools_scheme \<Rightarrow> auth_config \<Rightarrow> login_request \<Rightarrow> request_context \<Rightarrow> 'a access_db_scheme
    \<Rightarrow> (app_error + login_response) \<times> 'a access_db_scheme" where
  "login e k c inp context d = (let account = findByEmail (lr_email inp) d in
     if \<not> usable account \<or> locked e account then (Inl (Auth InvalidCredentials), refuse_login e account context d)
     else case account of
       None \<Rightarrow> (Inl (Auth InvalidCredentials), refuse_login e account context d)
     | Some u \<Rightarrow>
         if \<not> verify_password k (usr_passwordHash u) (lr_password inp)
         then (case wrong_password e k u context d of (err, d1) \<Rightarrow> (Inl err, d1))
         else
           let d1 = update_account e (row_id u) (\<lambda>r. r\<lparr>usr_failedLoginCount := 0, usr_lockedUntil := None, usr_lastLoginAt := Some (now e),
                 usr_passwordHash := (if needsRehash (the (usr_passwordHash u)) then Some (argon_hash k (lr_password inp)) else usr_passwordHash r)\<rparr>) d;
               enabled = Option.bind (factorOf (row_id u) d1) tf_confirmedAt \<noteq> None in
           (case createSession e k c (row_id u) context False d1 of
              Inl err \<Rightarrow> (Inl err, d1)
            | Inr (i, d2) \<Rightarrow>
                (Inr \<lparr>lrs_token = drawn_token k, lrs_userId = row_id u, lrs_nextStep = nextStepFor enabled (usr_mfaEnforced u) False\<rparr>,
                 record_event e ''login.succeeded'' context (Some (row_id u)) [] d2)))"

definition logout :: "env \<Rightarrow> auth_context \<Rightarrow> request_context \<Rightarrow> 'a access_db_scheme \<Rightarrow> 'a access_db_scheme" where
  "logout e auth context d = record_event e ''logout'' context (Some (ac_userId auth)) [] (revoke e (ac_sessionId auth) ''logout'' d)"

section \<open>In front of a route\<close>

datatype route_access = Public | SelfService | Requires permission | Undeclared

record route =
  route_access :: route_access
  route_allowsPending :: bool

definition authGuard :: "env \<Rightarrow> auth_config \<Rightarrow> route \<Rightarrow> string option \<Rightarrow> 'a access_db_scheme \<Rightarrow> (app_error + auth_context option) \<times> 'a access_db_scheme" where
  "authGuard e c r cookie d =
     (if route_access r = Public then (Inr None, d)
      else case cookie of
        None \<Rightarrow> (Inl (Auth Unauthenticated), d)
      | Some token \<Rightarrow>
          if token = [] then (Inl (Auth Unauthenticated), d)
          else (case authenticate e c token d of
            (None, d1) \<Rightarrow> (Inl (Auth Unauthenticated), d1)
          | (Some auth, d1) \<Rightarrow>
              if ac_nextStep auth \<noteq> StepNone \<and> \<not> route_allowsPending r
              then (Inl (Auth (if ac_nextStep auth = StepMfa then MfaRequired else MfaEnrollmentRequired)), d1)
              else (Inr (Some auth), d1)))"

definition permissionGuard :: "route \<Rightarrow> auth_context option \<Rightarrow> 'a access_db_scheme \<Rightarrow> app_error + unit" where
  "permissionGuard r auth d = (case route_access r of
     Public \<Rightarrow> Inr ()
   | SelfService \<Rightarrow> Inr ()
   | Undeclared \<Rightarrow> Inl PermissionDenied
   | Requires p \<Rightarrow> (case auth of None \<Rightarrow> Inl PermissionDenied
       | Some a \<Rightarrow> throwIf (\<not> hasPermission (grantsFor (ac_userId a) d) p None) PermissionDenied))"

text \<open>The guards in the order the module registers them.\<close>

definition enter :: "env \<Rightarrow> auth_config \<Rightarrow> route \<Rightarrow> string option \<Rightarrow> 'a access_db_scheme \<Rightarrow> (app_error + auth_context option) \<times> 'a access_db_scheme" where
  "enter e c r cookie d = (case authGuard e c r cookie d of
     (Inl err, d1) \<Rightarrow> (Inl err, d1)
   | (Inr auth, d1) \<Rightarrow> (bindE (permissionGuard r auth d1) (\<lambda>_. Inr auth), d1))"

record browser_request =
  br_method :: string
  br_origin :: "string option"
  br_fetchSite :: "string option"
  br_ownOrigin :: string

definition isCrossSiteRequest :: "browser_request \<Rightarrow> string list \<Rightarrow> bool" where
  "isCrossSiteRequest r trustedOrigins =
     (if br_method r \<in> {''GET'', ''HEAD'', ''OPTIONS''} then False
      else let trusted = (case br_origin r of None \<Rightarrow> False | Some x \<Rightarrow> x \<in> set trustedOrigins) in
        (case br_fetchSite r of None \<Rightarrow> False | Some s \<Rightarrow> s \<noteq> ''same-origin'' \<and> s \<noteq> ''none'' \<and> \<not> trusted)
        \<or> (case br_origin r of None \<Rightarrow> False | Some x \<Rightarrow> \<not> trusted \<and> x \<noteq> br_ownOrigin r))"

section \<open>Who gets in\<close>

lemma record_event_frame [simp]:
  "user_accounts (record_event e x c u m d) = user_accounts d" "user_sessions (record_event e x c u m d) = user_sessions d"
  "user_totp_factors (record_event e x c u m d) = user_totp_factors d" "user_recovery_codes (record_event e x c u m d) = user_recovery_codes d"
  "password_reset_tokens (record_event e x c u m d) = password_reset_tokens d" "user_role_assignments (record_event e x c u m d) = user_role_assignments d"
  "roles (record_event e x c u m d) = roles d" "role_permission_rows (record_event e x c u m d) = role_permission_rows d"
  "user_invitations (record_event e x c u m d) = user_invitations d"
  by (simp_all add: record_event_def take_id_def)

lemma mail_out_frame:
  assumes "mail_out e k m d = Inr d'"
  shows "user_accounts d' = user_accounts d" "user_sessions d' = user_sessions d" "user_totp_factors d' = user_totp_factors d"
    "user_recovery_codes d' = user_recovery_codes d" "password_reset_tokens d' = password_reset_tokens d"
    "user_role_assignments d' = user_role_assignments d" "roles d' = roles d" "user_invitations d' = user_invitations d"
    "role_permission_rows d' = role_permission_rows d"
  using assms by (auto simp: mail_out_def send_email_def publish_def take_id_def)

lemma authenticate_Some:
  assumes "authenticate e c token d = (Some auth, d')"
  obtains s u where "s \<in> set (user_sessions d)" "us_tokenHash s = hashToken e token" "us_revokedAt s = None"
    "now e < us_idleExpiresAt s" "now e < us_absoluteExpiresAt s" "findById (us_userId s) d = Some u" "usr_status u = AccActive"
    "auth = auth_of s u d" "d' = touch_session e c s d"
proof -
  obtain s u where "find (live_session e token d) (user_sessions d) = Some s" "findById (us_userId s) d = Some u"
    "auth = auth_of s u d" "d' = touch_session e c s d"
    using assms by (auto simp: authenticate_def split: option.splits)
  moreover then have "s \<in> set (user_sessions d)" "live_session e token d s" by (auto simp: find_Some_iff)
  ultimately show thesis using that by (auto simp: live_session_def)
qed

lemma touch_session_frame [simp]:
  "user_accounts (touch_session e c s d) = user_accounts d" "user_role_assignments (touch_session e c s d) = user_role_assignments d"
  "role_permission_rows (touch_session e c s d) = role_permission_rows d" "grantsFor i (touch_session e c s d) = grantsFor i d"
  by (simp_all add: touch_session_def grantsFor_def)

text \<open>
  Past the guards of a route that is not public there is a live session of an active account whose
  second factor is not pending (unless the route is for that), with the permission the route names.
\<close>

lemma enter_means:
  assumes "enter e c r cookie d = (Inr auth, d')" "route_access r \<noteq> Public"
  shows "\<exists>token s u a. cookie = Some token \<and> auth = Some a \<and> s \<in> set (user_sessions d) \<and> us_tokenHash s = hashToken e token
    \<and> us_revokedAt s = None \<and> now e < us_idleExpiresAt s \<and> now e < us_absoluteExpiresAt s
    \<and> findById (us_userId s) d = Some u \<and> usr_status u = AccActive \<and> ac_userId a = row_id u
    \<and> (route_allowsPending r \<or> us_mfaVerifiedAt s \<noteq> None \<or> \<not> usr_mfaEnforced u \<and> Option.bind (factorOf (us_userId s) d) tf_confirmedAt = None)
    \<and> (route_access r = SelfService \<or> (\<exists>p. route_access r = Requires p \<and> hasPermission (grantsFor (row_id u) d) p None))"
proof -
  obtain token a where cookie: "cookie = Some token" "auth = Some a" "authenticate e c token d = (Some a, d')"
    and step: "ac_nextStep a = StepNone \<or> route_allowsPending r" and perm: "permissionGuard r (Some a) d' = Inr ()"
    using assms by (auto simp: enter_def authGuard_def split: option.splits if_splits prod.splits sum.splits)
  from cookie(3) obtain s u where s: "s \<in> set (user_sessions d)" "us_tokenHash s = hashToken e token" "us_revokedAt s = None"
    "now e < us_idleExpiresAt s" "now e < us_absoluteExpiresAt s" "findById (us_userId s) d = Some u" "usr_status u = AccActive"
    and a: "a = auth_of s u d" "d' = touch_session e c s d"
    by (rule authenticate_Some)
  have "route_allowsPending r \<or> us_mfaVerifiedAt s \<noteq> None \<or> \<not> usr_mfaEnforced u \<and> Option.bind (factorOf (us_userId s) d) tf_confirmedAt = None"
    using step by (auto simp: a auth_of_def nextStepFor_def Let_def split: if_splits)
  moreover have "route_access r = SelfService \<or> (\<exists>p. route_access r = Requires p \<and> hasPermission (grantsFor (row_id u) d) p None)"
    using perm assms(2) by (auto simp: permissionGuard_def a auth_of_def Let_def split: route_access.splits)
  moreover have "ac_userId a = row_id u" by (simp add: a auth_of_def Let_def)
  ultimately show ?thesis using s cookie by blast
qed

text \<open>A state-changing request that carries a foreign origin is refused.\<close>

lemma cross_site_refused:
  assumes "br_method r \<notin> {''GET'', ''HEAD'', ''OPTIONS''}" "br_origin r = Some x" "x \<notin> set trusted" "x \<noteq> br_ownOrigin r"
  shows "isCrossSiteRequest r trusted"
  using assms by (simp add: isCrossSiteRequest_def Let_def)

section \<open>What a wrong password does\<close>

lemma find_update_account:
  assumes "findById i d = Some u" "\<And>r. row_id (f r) = row_id r"
  shows "findById i (update_account e i f d) = Some (touch e (f u))"
  using assms find_by_key[of row_id i "user_accounts d" u] by (simp add: findById_def update_account_def find_by_update_where)

lemma lockout_minutes_None: "36 \<le> n \<Longrightarrow> lockout_minutes n = None"
proof -
  assume "36 \<le> n"
  then have "31 \<le> nat (n - 5)" by simp
  then have "(2::int) ^ 31 \<le> 2 ^ nat (n - 5)" by (rule power_increasing) simp
  then show ?thesis by (simp add: lockout_minutes_def LOCKOUT_THRESHOLD_def Let_def)
qed

lemma lockout_minutes_Some:
  assumes "5 \<le> n" "n < 36"
  shows "lockout_minutes n = Some (min 60 (2 ^ nat (n - 5)))"
proof -
  have "nat (n - 5) < 31" using assms by simp
  then have "(2::int) ^ nat (n - 5) < 2 ^ 31" by (rule power_strict_increasing) simp
  then show ?thesis by (simp add: lockout_minutes_def LOCKOUT_THRESHOLD_def MAX_LOCKOUT_MINUTES_def Let_def)
qed

lemma wrong_password_frame:
  assumes "wrong_password e k u context d = (err, d')" "registerFailure e (row_id u) d = Inr ((n, until), d1)"
  shows "user_accounts d' = user_accounts d1 \<and> user_sessions d' = user_sessions d1"
proof (cases until)
  case None
  then show ?thesis using assms by (auto simp: wrong_password_def Let_def)
next
  case (Some t)
  show ?thesis
  proof (cases "n mod LOCKOUT_THRESHOLD = 0")
    case True
    let ?d3 = "record_event e ''account.locked'' context (Some (row_id u)) [(''until'', JStr (to_iso e t))]
      (record_event e ''login.failed'' context (Some (row_id u)) [(''reason'', JStr ''wrong_password''), (''failedAttempts'', JInt n)] d1)"
    show ?thesis
    proof (cases "mail_out e k (AccountLockedMail (usr_email u) t) ?d3")
      case (Inl x)
      then have "d' = ?d3" using assms Some True by (simp add: wrong_password_def Let_def)
      then show ?thesis by simp
    next
      case (Inr d4)
      then have "d' = d4" using assms Some True by (simp add: wrong_password_def Let_def)
      then show ?thesis using mail_out_frame(1,2)[OF Inr] by simp
    qed
  next
    case False
    then show ?thesis using assms Some by (auto simp: wrong_password_def Let_def)
  qed
qed

lemma wrong_password_effect:
  assumes "findById (row_id u) d = Some u" "usr_failedLoginCount u + 1 < 36" "wrong_password e k u context d = (err, d')"
  shows "\<exists>u'. findById (row_id u) d' = Some u' \<and> usr_failedLoginCount u' = usr_failedLoginCount u + 1
    \<and> usr_lockedUntil u' = (if 5 \<le> usr_failedLoginCount u + 1 then Some (now e + min 60 (2 ^ nat (usr_failedLoginCount u - 4)) * MINUTE)
         else usr_lockedUntil u)
    \<and> usr_passwordHash u' = usr_passwordHash u \<and> usr_status u' = usr_status u \<and> user_sessions d' = user_sessions d"
proof -
  let ?n = "usr_failedLoginCount u + 1"
  let ?until = "if 5 \<le> ?n then Some (now e + min 60 (2 ^ nat (usr_failedLoginCount u - 4)) * MINUTE) else usr_lockedUntil u"
  let ?d1 = "update_account e (row_id u) (\<lambda>r. r\<lparr>usr_failedLoginCount := ?n, usr_lockedUntil := ?until\<rparr>) d"
  have fail: "registerFailure e (row_id u) d = Inr ((?n, ?until), ?d1)"
  proof (cases "5 \<le> ?n")
    case True
    have "nat (?n - 5) = nat (usr_failedLoginCount u - 4)" by simp
    with lockout_minutes_Some[OF True assms(2)] True assms(1) show ?thesis
      by (simp add: registerFailure_def Let_def LOCKOUT_THRESHOLD_def)
  next
    case False
    with assms(1) show ?thesis by (simp add: registerFailure_def Let_def LOCKOUT_THRESHOLD_def)
  qed
  note same = wrong_password_frame[OF assms(3) fail]
  have "findById (row_id u) ?d1 = Some (touch e (u\<lparr>usr_failedLoginCount := ?n, usr_lockedUntil := ?until\<rparr>))"
    by (rule find_update_account[OF assms(1)]) simp
  moreover have "user_sessions ?d1 = user_sessions d" by (simp add: update_account_def)
  ultimately show ?thesis using same by (simp add: findById_def touch_def)
qed

text \<open>From the 36th failure on the count can no longer be written: nothing changes and nothing locks.\<close>

lemma wrong_password_overflow:
  assumes "findById (row_id u) d = Some u" "35 \<le> usr_failedLoginCount u"
  shows "wrong_password e k u context d = (CrashError ''integer out of range'', d)"
  using assms lockout_minutes_None[of "usr_failedLoginCount u + 1"]
  by (simp add: wrong_password_def registerFailure_def Let_def LOCKOUT_THRESHOLD_def)

end
