(* ===== verification/Mfa.thy ===== *)
theory Mfa
  imports SignIn
begin

text \<open>
  The second factor (\<open>identity/application/mfa.service.ts\<close>, \<open>identity/domain/recovery-codes.ts\<close>) and the
  change of a password (\<open>identity/application/password.service.ts\<close>): codes that work once, wrong codes
  that end the session, reset links that work once and sign everybody out.
\<close>

section \<open>Recovery codes\<close>

definition to_upper :: "char \<Rightarrow> char" where
  "to_upper c = (if is_lower c then char_of ((of_char c :: nat) - 32) else c)"

definition RECOVERY_CODE_COUNT :: nat where "RECOVERY_CODE_COUNT = 10"

definition normalizeRecoveryCode :: "string \<Rightarrow> string" where
  "normalizeRecoveryCode code = filter (\<lambda>c. is_upper c \<or> is_digit c) (map to_upper code)"

definition hashRecoveryCode :: "env \<Rightarrow> string \<Rightarrow> string" where
  "hashRecoveryCode e code = hashToken e (normalizeRecoveryCode code)"

section \<open>The authenticator\<close>

definition secretContext :: "env \<Rightarrow> uuid \<Rightarrow> string" where
  "secretContext e userId = ''totp-secret:'' @ show_uuid e userId"

definition mfa_setup :: "env \<Rightarrow> 'z tools_scheme \<Rightarrow> auth_context \<Rightarrow> 'a access_db_scheme \<Rightarrow> app_error + (string \<times> 'a access_db_scheme)" where
  "mfa_setup e k auth d =
     bindE (throwIf (ac_mfaEnabled auth) (Auth MfaAlreadyEnabled)) (\<lambda>_.
     bindE (crashed (encrypt (rt_gcm k) (rt_box k) (drawn_iv k) (drawn_secret k) (secretContext e (ac_userId auth)))) (\<lambda>ciphertext.
     Inr (drawn_secret k,
       case factorOf (ac_userId auth) d of
         None \<Rightarrow> (case take_id d of (i, d1) \<Rightarrow> d1\<lparr>user_totp_factors := user_totp_factors d1 @
           [\<lparr>row_id = i, tf_userId = ac_userId auth, tf_secretCiphertext = ciphertext, tf_confirmedAt = None,
             tf_lastUsedTimeStep = None, tf_createdAt = now e, tf_updatedAt = now e\<rparr>]\<rparr>)
       | Some _ \<Rightarrow> d\<lparr>user_totp_factors := update_where (\<lambda>f. tf_userId f = ac_userId auth \<and> tf_confirmedAt f = None)
           (\<lambda>f. f\<lparr>tf_secretCiphertext := ciphertext, tf_confirmedAt := None, tf_lastUsedTimeStep := None, tf_updatedAt := now e\<rparr>)
           (user_totp_factors d)\<rparr>)))"

text \<open>The seed, sealed again under the current key when it was sealed with an older one (a failure to do so is ignored).\<close>

definition secretOf :: "env \<Rightarrow> 'z tools_scheme \<Rightarrow> totp_factor_row \<Rightarrow> uuid \<Rightarrow> 'a access_db_scheme \<Rightarrow> app_error + (string \<times> 'a access_db_scheme)" where
  "secretOf e k factor userId d =
     bindE (crashed (decrypt (rt_gcm k) (rt_box k) (tf_secretCiphertext factor) (secretContext e userId))) (\<lambda>secret.
     Inr (secret,
       if isCurrent (rt_box k) (tf_secretCiphertext factor) then d
       else (case encrypt (rt_gcm k) (rt_box k) (drawn_iv k) secret (secretContext e userId) of
          Inl _ \<Rightarrow> d
        | Inr ciphertext \<Rightarrow> d\<lparr>user_totp_factors := update_where (\<lambda>f. row_id f = row_id factor)
            (\<lambda>f. f\<lparr>tf_secretCiphertext := ciphertext, tf_updatedAt := now e\<rparr>) (user_totp_factors d)\<rparr>)))"

text \<open>A wrong code is counted, and too many of them end the session. Always an error.\<close>

definition mfa_fail :: "env \<Rightarrow> auth_context \<Rightarrow> request_context \<Rightarrow> 'a access_db_scheme \<Rightarrow> app_error \<times> 'a access_db_scheme" where
  "mfa_fail e auth context d = (case recordMfaFailure (ac_sessionId auth) d of (attempts, d1) \<Rightarrow>
     let d2 = record_event e ''mfa.failed'' context (Some (ac_userId auth)) [(''attempts'', JInt attempts)] d1 in
     if attempts \<ge> MAX_MFA_ATTEMPTS then (Auth Unauthenticated, revoke e (ac_sessionId auth) ''too_many_mfa_attempts'' d2)
     else (Auth InvalidMfaCode, d2))"

fun insertCodes :: "env \<Rightarrow> uuid \<Rightarrow> string list \<Rightarrow> 'a access_db_scheme \<Rightarrow> app_error + 'a access_db_scheme" where
  "insertCodes e userId [] d = Inr d"
| "insertCodes e userId (code # codes) d = (case take_id d of (i, d1) \<Rightarrow>
     bindE (insert_unless (\<lambda>r. rcv_userId r = userId \<and> rcv_codeHash r = hashRecoveryCode e code) (UniqueViolation ''user_recovery_codes_user_code_key'')
       \<lparr>row_id = i, rcv_userId = userId, rcv_codeHash = hashRecoveryCode e code, rcv_usedAt = None, rcv_createdAt = now e\<rparr>
       (user_recovery_codes d1)) (\<lambda>rows.
     insertCodes e userId codes (d1\<lparr>user_recovery_codes := rows\<rparr>)))"

text \<open>\<open>enable\<close>, one transaction: the factor is confirmed, the old recovery codes are replaced, the session goes on.\<close>

definition enable_factor :: "env \<Rightarrow> 'z tools_scheme \<Rightarrow> auth_context \<Rightarrow> uuid \<Rightarrow> int \<Rightarrow> request_context \<Rightarrow> 'a access_db_scheme
    \<Rightarrow> app_error + (string list \<times> 'a access_db_scheme)" where
  "enable_factor e k auth factorId step context d =
     (let d1 = d\<lparr>user_totp_factors := update_where (\<lambda>f. row_id f = factorId)
            (\<lambda>f. f\<lparr>tf_confirmedAt := Some (now e), tf_lastUsedTimeStep := Some step, tf_updatedAt := now e\<rparr>) (user_totp_factors d),
          user_recovery_codes := filter (\<lambda>r. rcv_userId r \<noteq> ac_userId auth) (user_recovery_codes d)\<rparr> in
      bindE (insertCodes e (ac_userId auth) (drawn_codes k) d1) (\<lambda>d2.
      bindE (rotate e k (ac_sessionId auth) True d2) (\<lambda>d3.
      Inr (drawn_codes k, record_event e ''mfa.enabled'' context (Some (ac_userId auth)) [] d3))))"

definition mfa_confirm :: "env \<Rightarrow> 'z tools_scheme \<Rightarrow> auth_context \<Rightarrow> string \<Rightarrow> request_context \<Rightarrow> 'a access_db_scheme
    \<Rightarrow> (app_error + string list) \<times> 'a access_db_scheme" where
  "mfa_confirm e k auth code context d = (case factorOf (ac_userId auth) d of
     None \<Rightarrow> (Inl (Auth MfaNotEnabled), d)
   | Some factor \<Rightarrow>
       if tf_confirmedAt factor \<noteq> None then (Inl (Auth MfaAlreadyEnabled), d)
       else (case secretOf e k factor (ac_userId auth) d of
          Inl err \<Rightarrow> (Inl err, d)
        | Inr (secret, d1) \<Rightarrow> (case totp_step k secret code None of
            None \<Rightarrow> (case mfa_fail e auth context d1 of (err, d2) \<Rightarrow> (Inl err, d2))
          | Some step \<Rightarrow> (case enable_factor e k auth (row_id factor) step context d1 of
              Inl err \<Rightarrow> (Inl err, d1) | Inr (codes, d2) \<Rightarrow> (Inr codes, d2)))))"

definition claimTimeStep :: "env \<Rightarrow> uuid \<Rightarrow> int \<Rightarrow> 'a access_db_scheme \<Rightarrow> bool \<times> 'a access_db_scheme" where
  "claimTimeStep e userId step d =
     (let hit = (\<lambda>f. tf_userId f = userId \<and> (case tf_lastUsedTimeStep f of None \<Rightarrow> True | Some s \<Rightarrow> s < step)) in
      (list_ex hit (user_totp_factors d), d\<lparr>user_totp_factors := update_where hit
        (\<lambda>f. f\<lparr>tf_lastUsedTimeStep := Some step, tf_updatedAt := now e\<rparr>) (user_totp_factors d)\<rparr>))"

definition consumeRecoveryCode :: "env \<Rightarrow> uuid \<Rightarrow> string \<Rightarrow> 'a access_db_scheme \<Rightarrow> bool \<times> 'a access_db_scheme" where
  "consumeRecoveryCode e userId code d =
     (let hit = (\<lambda>r. rcv_userId r = userId \<and> rcv_codeHash r = hashRecoveryCode e code \<and> rcv_usedAt r = None) in
      (list_ex hit (user_recovery_codes d), d\<lparr>user_recovery_codes := update_where hit (\<lambda>r. r\<lparr>rcv_usedAt := Some (now e)\<rparr>) (user_recovery_codes d)\<rparr>))"

datatype mfa_input = MfaCode string | MfaRecovery string

text \<open>Whether the code is right, with what finding out changed.\<close>

definition check_code :: "env \<Rightarrow> 'z tools_scheme \<Rightarrow> auth_context \<Rightarrow> totp_factor_row \<Rightarrow> mfa_input \<Rightarrow> 'a access_db_scheme
    \<Rightarrow> app_error + (bool \<times> 'a access_db_scheme)" where
  "check_code e k auth factor inp d = (case inp of
     MfaCode code \<Rightarrow>
       bindE (secretOf e k factor (ac_userId auth) d) (\<lambda>(secret, d1).
       case totp_step k secret code (tf_lastUsedTimeStep factor) of
         None \<Rightarrow> Inr (False, d1)
       | Some step \<Rightarrow> Inr (claimTimeStep e (ac_userId auth) step d1))
   | MfaRecovery code \<Rightarrow> Inr (consumeRecoveryCode e (ac_userId auth) code d))"

definition mfa_verify :: "env \<Rightarrow> 'z tools_scheme \<Rightarrow> auth_context \<Rightarrow> mfa_input \<Rightarrow> request_context \<Rightarrow> 'a access_db_scheme
    \<Rightarrow> (app_error + string) \<times> 'a access_db_scheme" where
  "mfa_verify e k auth inp context d = (case factorOf (ac_userId auth) d of
     None \<Rightarrow> (Inl (Auth MfaNotEnabled), d)
   | Some factor \<Rightarrow>
       if tf_confirmedAt factor = None then (Inl (Auth MfaNotEnabled), d)
       else (case check_code e k auth factor inp d of
          Inl err \<Rightarrow> (Inl err, d)
        | Inr (right, d1) \<Rightarrow>
            if \<not> right then (case mfa_fail e auth context d1 of (err, d2) \<Rightarrow> (Inl err, d2))
            else (case rotate e k (ac_sessionId auth) True d1 of
               Inl err \<Rightarrow> (Inl err, d1)
             | Inr d2 \<Rightarrow> (Inr (drawn_token k),
                 record_event e (case inp of MfaCode _ \<Rightarrow> ''mfa.succeeded'' | MfaRecovery _ \<Rightarrow> ''mfa.recovery_code_used'')
                   context (Some (ac_userId auth)) [] d2))))"

definition removeFactor :: "env \<Rightarrow> uuid \<Rightarrow> request_context \<Rightarrow> 'a access_db_scheme \<Rightarrow> 'a access_db_scheme" where
  "removeFactor e userId context d = record_event e ''mfa.disabled'' context (Some userId) []
     (d\<lparr>user_recovery_codes := filter (\<lambda>r. rcv_userId r \<noteq> userId) (user_recovery_codes d),
        user_totp_factors := filter (\<lambda>f. tf_userId f \<noteq> userId) (user_totp_factors d)\<rparr>)"

definition mfa_disable :: "env \<Rightarrow> 'z tools_scheme \<Rightarrow> auth_context \<Rightarrow> string \<Rightarrow> string \<Rightarrow> request_context \<Rightarrow> 'a access_db_scheme
    \<Rightarrow> (app_error + unit) \<times> 'a access_db_scheme" where
  "mfa_disable e k auth password code context d =
     (if ac_mfaEnforced auth then (Inl (Auth MfaEnforced), d)
      else case factorOf (ac_userId auth) d of
        None \<Rightarrow> (Inl (Auth MfaNotEnabled), d)
      | Some factor \<Rightarrow>
          if tf_confirmedAt factor = None then (Inl (Auth MfaNotEnabled), d)
          else let passwordOk = verify_password k (Option.bind (findById (ac_userId auth) d) usr_passwordHash) password in
            (case secretOf e k factor (ac_userId auth) d of
               Inl err \<Rightarrow> (Inl err, d)
             | Inr (secret, d1) \<Rightarrow>
                 if \<not> passwordOk \<or> totp_step k secret code (tf_lastUsedTimeStep factor) = None then (Inl (Auth InvalidMfaCode), d1)
                 else (Inr (), removeFactor e (ac_userId auth) context d1)))"

section \<open>Changing a password\<close>

definition RESET_TOKEN_TTL_MINUTES :: int where "RESET_TOKEN_TTL_MINUTES = 30"

definition issueToken :: "env \<Rightarrow> 'z tools_scheme \<Rightarrow> uuid \<Rightarrow> request_context \<Rightarrow> 'a access_db_scheme \<Rightarrow> app_error + 'a access_db_scheme" where
  "issueToken e k userId context d = (case take_id d of (i, d1) \<Rightarrow>
     let rows = update_where (\<lambda>t. prt_userId t = userId \<and> prt_usedAt t = None) (\<lambda>t. t\<lparr>prt_usedAt := Some (now e)\<rparr>) (password_reset_tokens d1) in
     bindE (insert_unless (\<lambda>t. prt_tokenHash t = hashToken e (drawn_token k)) (UniqueViolation ''password_reset_tokens_token_hash_key'')
       \<lparr>row_id = i, prt_userId = userId, prt_tokenHash = hashToken e (drawn_token k), prt_expiresAt = now e + RESET_TOKEN_TTL_MINUTES * MINUTE,
        prt_usedAt = None, prt_requestedIp = rc_ip context, prt_createdAt = now e\<rparr> rows) (\<lambda>rows1.
     Inr (d1\<lparr>password_reset_tokens := rows1\<rparr>)))"

definition requestReset :: "env \<Rightarrow> 'z tools_scheme \<Rightarrow> auth_config \<Rightarrow> string \<Rightarrow> request_context \<Rightarrow> 'a access_db_scheme \<Rightarrow> app_error + 'a access_db_scheme" where
  "requestReset e k c email context d = (case findByEmail email d of
     None \<Rightarrow> Inr (record_event e ''password.reset_requested'' context None [(''matched'', JBool False)] d)
   | Some u \<Rightarrow>
       if usr_status u \<noteq> AccActive then Inr (record_event e ''password.reset_requested'' context None [(''matched'', JBool False)] d)
       else bindE (issueToken e k (row_id u) context d) (\<lambda>d1.
         mail_out e k (PasswordResetMail (usr_email u) (PORTAL_URL c @ ''/reset-password#token='' @ drawn_token k) RESET_TOKEN_TTL_MINUTES)
           (record_event e ''password.reset_requested'' context (Some (row_id u)) [(''matched'', JBool True)] d1)))"

definition usable_token :: "env \<Rightarrow> string \<Rightarrow> 'a access_db_scheme \<Rightarrow> reset_token_row \<Rightarrow> bool" where
  "usable_token e token d t \<longleftrightarrow> prt_tokenHash t = hashToken e token \<and> prt_usedAt t = None \<and> now e < prt_expiresAt t
     \<and> (case findById (prt_userId t) d of None \<Rightarrow> False | Some u \<Rightarrow> usr_status u = AccActive)"

definition applyReset :: "env \<Rightarrow> uuid \<Rightarrow> uuid \<Rightarrow> string \<Rightarrow> request_context \<Rightarrow> 'a access_db_scheme \<Rightarrow> app_error + 'a access_db_scheme" where
  "applyReset e tokenId userId passwordHash context d =
     (let hit = (\<lambda>t. row_id t = tokenId \<and> prt_usedAt t = None) in
      bindE (throwIf (\<not> list_ex hit (password_reset_tokens d)) (Auth InvalidResetToken)) (\<lambda>_.
      let d1 = d\<lparr>password_reset_tokens := update_where hit (\<lambda>t. t\<lparr>prt_usedAt := Some (now e)\<rparr>) (password_reset_tokens d)\<rparr>;
          d2 = update_account e userId (\<lambda>u. u\<lparr>usr_passwordHash := Some passwordHash, usr_passwordChangedAt := Some (now e),
            usr_failedLoginCount := 0, usr_lockedUntil := None\<rparr>) d1 in
      case revokeAllForUser e userId ''password_reset'' None d2 of (revoked, d3) \<Rightarrow>
      Inr (record_event e ''password.reset'' context (Some userId) [(''sessionsRevoked'', JInt (int revoked))] d3)))"

definition resetPassword :: "env \<Rightarrow> 'z tools_scheme \<Rightarrow> string \<Rightarrow> string \<Rightarrow> request_context \<Rightarrow> 'a access_db_scheme \<Rightarrow> app_error + 'a access_db_scheme" where
  "resetPassword e k token password context d =
     bindE (demand (find (usable_token e token d) (password_reset_tokens d)) (Auth InvalidResetToken)) (\<lambda>row.
     bindE (demand (findById (prt_userId row) d) (Auth InvalidResetToken)) (\<lambda>u.
     bindE (password_ok k password [usr_email u, usr_displayName u]) (\<lambda>_.
     bindE (applyReset e (row_id row) (row_id u) (argon_hash k password) context d) (\<lambda>d1.
     mail_out e k (PasswordChangedMail (usr_email u)) d1))))"

definition applyChange :: "env \<Rightarrow> 'z tools_scheme \<Rightarrow> auth_context \<Rightarrow> string \<Rightarrow> request_context \<Rightarrow> 'a access_db_scheme
    \<Rightarrow> app_error + (string \<times> 'a access_db_scheme)" where
  "applyChange e k auth passwordHash context d =
     (let d1 = update_account e (ac_userId auth) (\<lambda>u. u\<lparr>usr_passwordHash := Some passwordHash, usr_passwordChangedAt := Some (now e)\<rparr>) d in
     case revokeAllForUser e (ac_userId auth) ''password_changed'' (Some (ac_sessionId auth)) d1 of (revoked, d2) \<Rightarrow>
     bindE (rotate e k (ac_sessionId auth) False d2) (\<lambda>d3.
     Inr (drawn_token k, record_event e ''password.changed'' context (Some (ac_userId auth)) [(''sessionsRevoked'', JInt (int revoked))] d3)))"

definition changePassword :: "env \<Rightarrow> 'z tools_scheme \<Rightarrow> auth_context \<Rightarrow> string \<Rightarrow> string \<Rightarrow> request_context \<Rightarrow> 'a access_db_scheme
    \<Rightarrow> app_error + (string \<times> 'a access_db_scheme)" where
  "changePassword e k auth currentPassword newPassword context d =
     bindE (demand (findById (ac_userId auth) d) (Auth InvalidCurrentPassword)) (\<lambda>account.
     bindE (throwIf (\<not> verify_password k (usr_passwordHash account) currentPassword) (Auth InvalidCurrentPassword)) (\<lambda>_.
     bindE (password_ok k newPassword [usr_email account, usr_displayName account]) (\<lambda>_.
     bindE (applyChange e k auth (argon_hash k newPassword) context d) (\<lambda>(token, d1).
     bindE (mail_out e k (PasswordChangedMail (usr_email account)) d1) (\<lambda>d2.
     Inr (token, d2))))))"

end
