(* ===== verification/Pages.thy ===== *)
theory Pages
  imports Phone Errors "HOL-Library.Product_Lexorder"
begin

text \<open>
  Lists that are read page by page (\<open>packages/db/src/pagination.ts\<close>) and searched by text
  (\<open>ILIKE\<close> with \<open>apps/api/src/common/db/like.ts\<close>): one page, a client that follows the cursors to the
  end, when it sees every row, and what a pattern made from the user's text matches.
\<close>

section \<open>One page\<close>

text \<open>
  \<open>toPage\<close> on the \<open>limit + 1\<close> rows fetched. A cursor is opaque to the client, so it is modelled as
  the sort key it encodes; a text that does not decode to as many values as there are sort columns is
  \<open>None\<close> of \<open>decodeCursor\<close>.
\<close>

definition toPage :: "'r list \<Rightarrow> nat \<Rightarrow> ('r \<Rightarrow> 'k) \<Rightarrow> 'r list \<times> 'k option" where
  "toPage rows limit cursorOf =
     (let hasMore = length rows > limit;
          items = (if hasMore then take limit rows else rows)
      in (items, if hasMore \<and> items \<noteq> [] then Some (cursorOf (last items)) else None))"

definition decodeCursor :: "'k option \<Rightarrow> app_error + 'k" where
  "decodeCursor c = demand c InvalidCursor"

datatype direction = Asc | Desc

definition afterCursor :: "('r \<Rightarrow> 'k::linorder) \<Rightarrow> 'k \<Rightarrow> direction \<Rightarrow> 'r \<Rightarrow> bool" where
  "afterCursor key c dir r = (case dir of Asc \<Rightarrow> key r > c | Desc \<Rightarrow> key r < c)"

definition ordered_by :: "('r \<Rightarrow> 'k::linorder) \<Rightarrow> direction \<Rightarrow> 'r list \<Rightarrow> 'r list" where
  "ordered_by key dir rows = (case dir of Asc \<Rightarrow> sort_key key rows | Desc \<Rightarrow> rev (sort_key key rows))"

text \<open>
  What the \<open>list\<close> methods do: the conditions of the query, after the cursor, in the order of the sort
  key, one row more than the page holds.
\<close>

definition list_page :: "('r \<Rightarrow> 'k::linorder) \<Rightarrow> direction \<Rightarrow> ('r \<Rightarrow> 'k) \<Rightarrow> ('r \<Rightarrow> bool) \<Rightarrow> 'r list \<Rightarrow> nat \<Rightarrow> 'k option \<Rightarrow> 'r list \<times> 'k option" where
  "list_page key dir cursorOf cond rows limit cursor =
     toPage (take (limit + 1) (ordered_by key dir
       (filter (\<lambda>r. cond r \<and> (case cursor of None \<Rightarrow> True | Some c \<Rightarrow> afterCursor key c dir r)) rows))) limit cursorOf"

text \<open>\<open>toISOString()\<close> in a cursor keeps whole milliseconds of a column that holds microseconds.\<close>

definition in_millis :: "instant \<Rightarrow> instant" where
  "in_millis t = t - t mod 1000"

definition created_key :: "'a base_row_scheme \<Rightarrow> instant \<times> uuid" where
  "created_key r = (createdAt r, row_id r)"

definition created_cursor :: "'a base_row_scheme \<Rightarrow> instant \<times> uuid" where
  "created_cursor r = (in_millis (createdAt r), row_id r)"

section \<open>Following the cursors\<close>

text \<open>A client that asks for the next page until there is none; \<open>fuel\<close> is how often it may ask.\<close>

fun walk :: "nat \<Rightarrow> ('k option \<Rightarrow> 'r list \<times> 'k option) \<Rightarrow> 'k option \<Rightarrow> 'r list option" where
  "walk 0 page cursor = None"
| "walk (Suc fuel) page cursor = (case page cursor of
     (items, None) \<Rightarrow> Some items
   | (items, Some c) \<Rightarrow> map_option (append items) (walk fuel page (Some c)))"

definition remaining :: "('r \<Rightarrow> 'k::linorder) \<Rightarrow> direction \<Rightarrow> ('r \<Rightarrow> bool) \<Rightarrow> 'r list \<Rightarrow> 'k option \<Rightarrow> 'r list" where
  "remaining key dir cond rows cursor =
     ordered_by key dir (filter (\<lambda>r. cond r \<and> (case cursor of None \<Rightarrow> True | Some c \<Rightarrow> afterCursor key c dir r)) rows)"

lemma list_page_remaining:
  "list_page key dir cursorOf cond rows limit cursor =
     (let xs = remaining key dir cond rows cursor in
      (take limit xs, if limit < length xs \<and> 0 < limit then Some (cursorOf (last (take limit xs))) else None))"
  by (auto simp: list_page_def toPage_def remaining_def Let_def min_def)

lemma set_ordered_by [simp]: "set (ordered_by key dir xs) = set xs"
  and length_ordered_by [simp]: "length (ordered_by key dir xs) = length xs"
  by (simp_all add: ordered_by_def split: direction.split)

lemma filter_ordered_by: "filter P (ordered_by key dir xs) = ordered_by key dir (filter P xs)"
  by (cases dir) (simp_all add: ordered_by_def filter_sort rev_filter[symmetric])

text \<open>In key order, with no two keys alike, what comes after the row at a place is the rest of the list.\<close>

definition before :: "direction \<Rightarrow> 'k::linorder \<Rightarrow> 'k \<Rightarrow> bool" where
  "before dir x y \<longleftrightarrow> (case dir of Asc \<Rightarrow> x < y | Desc \<Rightarrow> y < x)"

lemma before_total: "x \<noteq> y \<Longrightarrow> before dir x y \<or> before dir y x" and before_asym: "before dir x y \<Longrightarrow> \<not> before dir y x"
  by (auto simp: before_def split: direction.splits)

lemma ordered_by_strict:
  assumes "distinct (map key xs)"
  shows "sorted_wrt (\<lambda>x y. before dir (key x) (key y)) (ordered_by key dir xs)"
proof -
  have "sorted_wrt (<) (map key (sort_key key xs))"
    using assms by (simp add: strict_sorted_iff distinct_map distinct_sort)
  then show ?thesis
    by (cases dir) (simp_all add: ordered_by_def before_def sorted_wrt_map sorted_wrt_rev)
qed

lemma filter_after_nth:
  assumes "sorted_wrt (\<lambda>x y. before dir (key x) (key y)) xs" "i < length xs"
  shows "filter (\<lambda>r. before dir (key (xs ! i)) (key r)) xs = drop (Suc i) xs"
proof -
  have split: "xs = take (Suc i) xs @ drop (Suc i) xs" by simp
  have "\<not> before dir (key (xs ! i)) (key x)" if mem: "x \<in> set (take (Suc i) xs)" for x
  proof -
    obtain j where "j < length (take (Suc i) xs)" "x = take (Suc i) xs ! j" using mem unfolding in_set_conv_nth by blast
    then have j: "j \<le> i" "x = xs ! j" by simp_all
    show ?thesis
    proof (cases "j = i")
      case True
      then show ?thesis using j by (auto dest: before_asym)
    next
      case False
      then have "j < i" using j(1) by simp
      then have "before dir (key (xs ! j)) (key (xs ! i))" using assms by (simp add: sorted_wrt_iff_nth_less)
      then show ?thesis using j before_asym by blast
    qed
  qed
  then have none: "filter (\<lambda>r. before dir (key (xs ! i)) (key r)) (take (Suc i) xs) = []" by (simp add: filter_empty_conv)
  have "before dir (key (xs ! i)) (key x)" if mem: "x \<in> set (drop (Suc i) xs)" for x
  proof -
    obtain j where "j < length (drop (Suc i) xs)" "x = drop (Suc i) xs ! j" using mem unfolding in_set_conv_nth by blast
    then have "Suc i + j < length xs" "x = xs ! (Suc i + j)" by simp_all
    then show ?thesis using assms(1) by (simp add: sorted_wrt_iff_nth_less)
  qed
  then have all: "filter (\<lambda>r. before dir (key (xs ! i)) (key r)) (drop (Suc i) xs) = drop (Suc i) xs" by (simp add: filter_id_conv)
  show ?thesis by (subst split) (simp only: filter_append none all append_Nil)
qed

lemma remaining_after:
  assumes "distinct (map key rows)" and xs: "xs = remaining key dir cond rows None" and "i < length xs"
  shows "remaining key dir cond rows (Some (key (xs ! i))) = drop (Suc i) xs"
proof -
  have strict: "sorted_wrt (\<lambda>x y. before dir (key x) (key y)) xs"
    unfolding xs remaining_def using assms(1) by (intro ordered_by_strict) (simp add: distinct_map_filter)
  have "remaining key dir cond rows (Some (key (xs ! i))) = filter (\<lambda>r. before dir (key (xs ! i)) (key r)) xs"
    by (simp add: xs remaining_def filter_ordered_by afterCursor_def before_def conj_commute split: direction.split)
  then show ?thesis using filter_after_nth[OF strict assms(3)] by simp
qed

text \<open>With exact cursors the client sees every row once, in order, and is done after as many pages as there are rows.\<close>

lemma walk_rest:
  assumes "distinct (map key rows)" "0 < limit" and xs: "xs = remaining key dir cond rows None"
    and "remaining key dir cond rows cursor = drop n xs" "length xs - n < fuel"
  shows "walk fuel (list_page key dir key cond rows limit) cursor = Some (drop n xs)"
  using assms(4,5)
proof (induction fuel arbitrary: n cursor)
  case (Suc fuel)
  let ?rest = "drop n xs"
  show ?case
  proof (cases "limit < length ?rest")
    case False
    then show ?thesis by (simp add: list_page_remaining Suc.prems(1))
  next
    case True
    let ?i = "n + limit - 1"
    have i: "?i < length xs" using True assms(2) by simp
    have "last (take limit ?rest) = xs ! ?i"
      using True assms(2) by (subst last_conv_nth) auto
    then have page: "list_page key dir key cond rows limit cursor = (take limit ?rest, Some (key (xs ! ?i)))"
      using True assms(2) by (simp add: list_page_remaining Suc.prems(1))
    have after: "remaining key dir cond rows (Some (key (xs ! ?i))) = drop (n + limit) xs"
      using remaining_after[OF assms(1) xs i] assms(2) by simp
    have "length xs - (n + limit) < fuel" using Suc.prems(2) True assms(2) by simp
    from Suc.IH[OF after this] have "walk fuel (list_page key dir key cond rows limit) (Some (key (xs ! ?i))) = Some (drop (n + limit) xs)" .
    moreover have "take limit ?rest @ drop (n + limit) xs = ?rest"
      by (metis add.commute append_take_drop_id drop_drop)
    ultimately show ?thesis by (simp add: page)
  qed
qed simp

lemma walk_complete:
  assumes "distinct (map key rows)" "0 < limit" "length rows < fuel"
  shows "walk fuel (list_page key dir key cond rows limit) None = Some (ordered_by key dir (filter cond rows))"
proof -
  have all: "remaining key dir cond rows None = ordered_by key dir (filter cond rows)" by (simp add: remaining_def)
  have "length (filter cond rows) < fuel" using assms(3) by (rule le_less_trans[OF length_filter_le])
  from walk_rest[OF assms(1,2) refl, of dir cond None 0 fuel] this show ?thesis by (simp add: all)
qed

text \<open>
  A cursor that is not the key of the last row: rows between the two are on no later page. With a
  truncated timestamp those are the rows of the same millisecond.
\<close>

lemma walk_after:
  assumes "walk fuel (list_page key Desc cursorOf cond rows limit) (Some c) = Some seen"
    and "\<And>r. cursorOf r \<le> key r" "r \<in> set seen"
  shows "key r < c"
  using assms(1,3)
proof (induction fuel arbitrary: c seen)
  case (Suc fuel)
  let ?xs = "remaining key Desc cond rows (Some c)"
  have below: "key x < c" if "x \<in> set ?xs" for x using that by (auto simp: remaining_def afterCursor_def)
  show ?case
  proof (cases "limit < length ?xs \<and> 0 < limit")
    case False
    then have "seen = take limit ?xs" using Suc.prems(1) by (auto simp: list_page_remaining Let_def)
    then show ?thesis using Suc.prems(2) below by (auto dest: in_set_takeD)
  next
    case True
    let ?l = "last (take limit ?xs)"
    have page: "list_page key Desc cursorOf cond rows limit (Some c) = (take limit ?xs, Some (cursorOf ?l))"
      using True by (simp add: list_page_remaining Let_def)
    obtain more where more: "walk fuel (list_page key Desc cursorOf cond rows limit) (Some (cursorOf ?l)) = Some more"
      and seen: "seen = take limit ?xs @ more"
      using Suc.prems(1) by (auto simp: page)
    have "?l \<in> set (take limit ?xs)" using True by (intro last_in_set) auto
    then have "key ?l < c" using below by (auto dest: in_set_takeD)
    then have "cursorOf ?l < c" using assms(2)[of ?l] by simp
    then show ?thesis
      using Suc.prems(2) Suc.IH[OF more] below seen by (auto dest: in_set_takeD)
  qed
qed simp

lemma in_millis_le: "in_millis t \<le> t"
  by (simp add: in_millis_def)

lemma created_cursor_le: "created_cursor r \<le> created_key r"
  using in_millis_le[of "createdAt r"] by (auto simp: created_cursor_def created_key_def less_eq_prod_def le_less)

section \<open>Text patterns\<close>

text \<open>
  \<open>LIKE\<close>: a percent sign matches any text, an underscore any one character, a backslash makes the
  next character literal. A backslash at the end is an error in Postgres; no pattern here has one.
\<close>

function like_match :: "string \<Rightarrow> string \<Rightarrow> bool" where
  "like_match p s = (case p of
     [] \<Rightarrow> s = []
   | c # p' \<Rightarrow>
       if c = CHR ''%'' then list_ex (\<lambda>i. like_match p' (drop i s)) [0..<Suc (length s)]
       else if c = CHR ''_'' then s \<noteq> [] \<and> like_match p' (tl s)
       else if (of_char c :: nat) = 92 then (case p' of [] \<Rightarrow> False | e # p'' \<Rightarrow> s \<noteq> [] \<and> hd s = e \<and> like_match p'' (tl s))
       else s \<noteq> [] \<and> hd s = c \<and> like_match p' (tl s))"
  by auto
termination by (relation "measure (\<lambda>(p, s). length p)") auto

declare like_match.simps [simp del]

definition ilike :: "string \<Rightarrow> string \<Rightarrow> bool" where
  "ilike s pattern = like_match (toLowerCase pattern) (toLowerCase s)"

definition containing :: "string \<Rightarrow> string" where
  "containing v = ''%'' @ escapeLike v @ ''%''"

lemma like_match_any: "like_match ''%'' s"
  by (simp add: like_match.simps[of "''%''"] list_ex_iff like_match.simps[of "[]"] del: upt_Suc) (auto intro: bexI[of _ "length s"])

lemma backslash: "char_of (92 :: nat) = CHR 0x5C"
  by code_simp

lemma of_char_backslash: "(of_char c :: nat) = 92 \<longleftrightarrow> c = CHR 0x5C"
proof
  assume "(of_char c :: nat) = 92"
  then have "char_of (of_char c :: nat) = (char_of (92 :: nat) :: char)" by simp
  then show "c = CHR 0x5C" by (simp only: char_of_char backslash)
qed simp

lemma like_match_special:
  "like_match (CHR 0x5C # c # p) s \<longleftrightarrow> s \<noteq> [] \<and> hd s = c \<and> like_match p (tl s)"
  by (simp add: like_match.simps[of "CHR 0x5C # _"])

lemma like_match_plain:
  "c \<notin> {CHR 0x5C, CHR ''%'', CHR ''_''} \<Longrightarrow> like_match (c # p) s \<longleftrightarrow> s \<noteq> [] \<and> hd s = c \<and> like_match p (tl s)"
  by (simp add: like_match.simps[of "c # _"] of_char_backslash)

lemma escapeLike_Cons:
  "escapeLike (c # v) = (if c \<in> {CHR 0x5C, CHR ''%'', CHR ''_''} then [CHR 0x5C, c] else [c]) @ escapeLike v"
  by (simp add: escapeLike_def of_char_backslash backslash)

lemma like_match_escape: "like_match (escapeLike v @ p) s \<longleftrightarrow> (\<exists>rest. s = v @ rest \<and> like_match p rest)"
proof (induction v arbitrary: s)
  case (Cons c v)
  have step: "like_match (escapeLike (c # v) @ p) s \<longleftrightarrow> s \<noteq> [] \<and> hd s = c \<and> like_match (escapeLike v @ p) (tl s)"
    by (simp add: escapeLike_Cons like_match_special like_match_plain)
  show ?case unfolding step Cons.IH by (cases s) auto
qed (simp add: escapeLike_def)

lemma like_containing: "like_match (containing v) s \<longleftrightarrow> (\<exists>a b. s = a @ v @ b)"
proof -
  have "like_match (containing v) s \<longleftrightarrow> list_ex (\<lambda>i. like_match (escapeLike v @ ''%'') (drop i s)) [0..<Suc (length s)]"
    by (simp add: containing_def like_match.simps[of "CHR ''%'' # _"] del: upt_Suc)
  also have "\<dots> \<longleftrightarrow> (\<exists>i \<le> length s. like_match (escapeLike v @ ''%'') (drop i s))"
    by (auto simp: list_ex_iff less_Suc_eq_le simp del: upt_Suc)
  also have "\<dots> \<longleftrightarrow> (\<exists>i \<le> length s. \<exists>b. drop i s = v @ b)" by (simp add: like_match_escape like_match_any)
  also have "\<dots> \<longleftrightarrow> (\<exists>a b. s = a @ v @ b)"
  proof
    assume "\<exists>i \<le> length s. \<exists>b. drop i s = v @ b"
    then obtain i b where "drop i s = v @ b" by blast
    then have "s = take i s @ v @ b" using append_take_drop_id[of i s] by simp
    then show "\<exists>a b. s = a @ v @ b" by blast
  next
    assume "\<exists>a b. s = a @ v @ b"
    then obtain a b where s: "s = a @ v @ b" by blast
    then have "length a \<le> length s \<and> drop (length a) s = v @ b" by simp
    then show "\<exists>i \<le> length s. \<exists>b. drop i s = v @ b" by blast
  qed
  finally show ?thesis .
qed

end
