(* ===== verification/Users.thy ===== *)
theory Users
  imports Mfa Settings Pages
begin

text \<open>
  Staff and their roles (\<open>apps/api/src/modules/access\<close>): the list of staff, inviting with a link that works
  once, disabling and enabling, giving and taking roles, the first admin, and the sync of the system
  roles with the code. Every operation is one transaction: an error leaves nothing behind.
\<close>

section \<open>Staff as the list shows them\<close>

datatype staff_status = StaffInvited | StaffActive | StaffDisabled

record role_assignment =
  rs_id :: uuid
  rs_roleKey :: string
  rs_roleName :: string
  rs_scope :: scope

record staff_user =
  su_id :: uuid
  su_email :: string
  su_displayName :: string
  su_status :: staff_status
  su_mfaEnabled :: bool
  su_mfaEnforced :: bool
  su_lastLoginAt :: "instant option"
  su_createdAt :: instant
  su_roles :: "role_assignment list"

definition staff_status_of :: "user_row \<Rightarrow> staff_status" where
  "staff_status_of u = (if usr_status u = AccDisabled then StaffDisabled
     else if usr_passwordHash u = None then StaffInvited else StaffActive)"

definition assignments_of :: "uuid \<Rightarrow> 'a access_db_scheme \<Rightarrow> role_assignment list" where
  "assignments_of userId d = concat (map (\<lambda>a. case find_by row_id (ra_roleId a) (roles d) of None \<Rightarrow> []
       | Some r \<Rightarrow> [\<lparr>rs_id = row_id a, rs_roleKey = rol_key r, rs_roleName = rol_name r, rs_scope = toScope (ra_scopeType a) (ra_scopeId a)\<rparr>])
     (filter (\<lambda>a. ra_userId a = userId) (user_role_assignments d)))"

definition staff_of :: "'a access_db_scheme \<Rightarrow> user_row \<Rightarrow> staff_user" where
  "staff_of d u = \<lparr>su_id = row_id u, su_email = usr_email u, su_displayName = usr_displayName u, su_status = staff_status_of u,
     su_mfaEnabled = (Option.bind (factorOf (row_id u) d) tf_confirmedAt \<noteq> None), su_mfaEnforced = usr_mfaEnforced u,
     su_lastLoginAt = usr_lastLoginAt u, su_createdAt = createdAt u, su_roles = assignments_of (row_id u) d\<rparr>"

definition get_staff :: "uuid \<Rightarrow> 'a access_db_scheme \<Rightarrow> app_error + staff_user" where
  "get_staff userId d = bindE (demand (findById userId d) (Access UserNotFound)) (\<lambda>u. Inr (staff_of d u))"

record staff_list_query =
  slq_cursor :: "(instant \<times> uuid) option option"
  slq_limit :: nat
  slq_q :: "string option"

definition listStaff :: "staff_list_query \<Rightarrow> 'a access_db_scheme \<Rightarrow> app_error + (staff_user list \<times> (instant \<times> uuid) option)" where
  "listStaff q d =
     (let cond = (\<lambda>u. case slq_q q of None \<Rightarrow> True | Some text1 \<Rightarrow> text1 = []
            \<or> ilike (usr_email u) (containing text1) \<or> ilike (usr_displayName u) (containing text1));
          page = (\<lambda>c. case list_page created_key Desc created_cursor cond (user_accounts d) (slq_limit q) c of
            (users, nextCursor) \<Rightarrow> Inr (map (staff_of d) users, nextCursor)) in
      case slq_cursor q of None \<Rightarrow> page None | Some c \<Rightarrow> bindE (decodeCursor c) (\<lambda>k. page (Some k)))"

definition myAccess :: "uuid \<Rightarrow> 'a access_db_scheme \<Rightarrow> role_assignment list \<times> permission list" where
  "myAccess userId d = (assignments_of userId d,
     filter (\<lambda>p. p \<in> set (map gr_permission (grantsFor userId d))) (sort_key (\<lambda>p. p) ALL_PERMISSIONS))"

section \<open>Roles\<close>

definition findByKey :: "string \<Rightarrow> 'a access_db_scheme \<Rightarrow> role_row option" where
  "findByKey key d = find_by rol_key key (roles d)"

definition scope_type_of :: "scope \<Rightarrow> scope_type" where
  "scope_type_of s = (case s of Global \<Rightarrow> ScopeGlobal | Branch _ \<Rightarrow> ScopeBranch | Department _ \<Rightarrow> ScopeDepartment)"

definition scope_id_of :: "scope \<Rightarrow> uuid option" where
  "scope_id_of s = (case s of Global \<Rightarrow> None | Branch i \<Rightarrow> Some i | Department i \<Rightarrow> Some i)"

definition scope_json :: "scope \<Rightarrow> json" where
  "scope_json s = (case s of Global \<Rightarrow> JObj [(''type'', JStr ''global'')]
     | Branch i \<Rightarrow> JObj [(''type'', JStr ''branch''), (''id'', JUuid i)]
     | Department i \<Rightarrow> JObj [(''type'', JStr ''department''), (''id'', JUuid i)])"

text \<open>\<open>OrgScopeResolver.exists\<close>.\<close>

definition scope_exists :: "scope \<Rightarrow> 'a settings_db_scheme \<Rightarrow> bool" where
  "scope_exists s d \<longleftrightarrow> s = Global \<or> isActiveUnit s d"

definition requireGrantableRole :: "string \<Rightarrow> scope \<Rightarrow> 'a settings_db_scheme \<Rightarrow> app_error + role_row" where
  "requireGrantableRole roleKey s d =
     bindE (demand (findByKey roleKey d) (Access RoleNotFound)) (\<lambda>role.
     bindE (throwIf (scope_type_of s \<notin> set (rol_allowedScopes role)) (Access (ScopeNotAllowed (rol_name role)))) (\<lambda>_.
     bindE (throwIf (\<not> scope_exists s d) (Access ScopeNotAvailable)) (\<lambda>_.
     Inr role)))"

text \<open>\<open>user_role_assignments_unique\<close>, nulls not distinct.\<close>

definition same_assignment :: "role_assignment_row \<Rightarrow> role_assignment_row \<Rightarrow> bool" where
  "same_assignment a b \<longleftrightarrow> ra_userId a = ra_userId b \<and> ra_roleId a = ra_roleId b \<and> ra_scopeType a = ra_scopeType b \<and> ra_scopeId a = ra_scopeId b"

definition new_assignment :: "env \<Rightarrow> uuid \<Rightarrow> uuid \<Rightarrow> uuid \<Rightarrow> scope \<Rightarrow> uuid option \<Rightarrow> role_assignment_row" where
  "new_assignment e i userId roleId s grantedBy = \<lparr>row_id = i, ra_userId = userId, ra_roleId = roleId, ra_scopeType = scope_type_of s,
     ra_scopeId = scope_id_of s, ra_grantedBy = grantedBy, ra_createdAt = now e\<rparr>"

definition insert_assignment :: "env \<Rightarrow> uuid \<Rightarrow> uuid \<Rightarrow> scope \<Rightarrow> uuid option \<Rightarrow> 'a access_db_scheme \<Rightarrow> app_error + 'a access_db_scheme" where
  "insert_assignment e userId roleId s grantedBy d = (case take_id d of (i, d1) \<Rightarrow>
     let row = new_assignment e i userId roleId s grantedBy in
     bindE (insert_unless (same_assignment row) (Access RoleAlreadyAssigned) row (user_role_assignments d1)) (\<lambda>rows.
     Inr (d1\<lparr>user_role_assignments := rows\<rparr>)))"

section \<open>Inviting\<close>

definition INVITATION_TTL_HOURS :: int where "INVITATION_TTL_HOURS = 72"
definition ADMIN_ROLE :: string where "ADMIN_ROLE = ''admin''"

record invite_input =
  iv_email :: string
  iv_displayName :: string
  iv_roleKey :: string
  iv_scope :: scope

text \<open>The caller with the name the email shows.\<close>

record inviter = actor +
  inv_displayName :: string

definition issueInvitationToken :: "env \<Rightarrow> 'z tools_scheme \<Rightarrow> uuid \<Rightarrow> uuid \<Rightarrow> 'a access_db_scheme \<Rightarrow> app_error + 'a access_db_scheme" where
  "issueInvitationToken e k userId invitedBy d = (case take_id d of (i, d1) \<Rightarrow>
     bindE (insert_unless (\<lambda>x. ui_tokenHash x = hashToken e (drawn_token k)) (UniqueViolation ''user_invitations_token_hash_key'')
       \<lparr>row_id = i, ui_userId = userId, ui_tokenHash = hashToken e (drawn_token k), ui_expiresAt = now e + INVITATION_TTL_HOURS * HOUR,
        ui_acceptedAt = None, ui_revokedAt = None, ui_invitedBy = Some invitedBy, ui_createdAt = now e\<rparr> (user_invitations d1)) (\<lambda>rows.
     Inr (d1\<lparr>user_invitations := rows\<rparr>)))"

definition queueInvitation :: "env \<Rightarrow> 'z tools_scheme \<Rightarrow> auth_config \<Rightarrow> string \<Rightarrow> string \<Rightarrow> string \<Rightarrow> string \<Rightarrow> 'a access_db_scheme
    \<Rightarrow> app_error + 'a access_db_scheme" where
  "queueInvitation e k c email displayName roleName inviterName d =
     mail_out e k (InvitationMail email displayName inviterName roleName (PORTAL_URL c @ ''/accept-invite#token='' @ drawn_token k) INVITATION_TTL_HOURS) d"

definition createInvited :: "env \<Rightarrow> 'z tools_scheme \<Rightarrow> invite_input \<Rightarrow> role_row \<Rightarrow> inviter \<Rightarrow> 'a access_db_scheme
    \<Rightarrow> app_error + (uuid \<times> 'a access_db_scheme)" where
  "createInvited e k inp role by d =
     bindE (createAccount e k \<lparr>na_email = iv_email inp, na_displayName = iv_displayName inp, na_password = None,
       na_mfaEnforced = rol_mfaRequired role\<rparr> d) (\<lambda>(userId, d1).
     bindE (insert_assignment e userId (row_id role) (iv_scope inp) (Some (actor_userId by)) d1) (\<lambda>d2.
     bindE (issueInvitationToken e k userId (actor_userId by) d2) (\<lambda>d3.
     Inr (userId, audit e ''user.invited'' ''user'' (JUuid userId)
       [(''email'', JStr (iv_email inp)), (''role'', JStr (rol_key role)), (''scope'', scope_json (iv_scope inp))] d3))))"

definition invite :: "env \<Rightarrow> 'z tools_scheme \<Rightarrow> auth_config \<Rightarrow> invite_input \<Rightarrow> inviter \<Rightarrow> 'a settings_db_scheme
    \<Rightarrow> app_error + (staff_user \<times> 'a settings_db_scheme)" where
  "invite e k c inp by d =
     bindE (requireGrantableRole (iv_roleKey inp) (iv_scope inp) d) (\<lambda>role.
     bindE (createInvited e k inp role by d) (\<lambda>(userId, d1).
     bindE (queueInvitation e k c (iv_email inp) (iv_displayName inp) (rol_name role) (inv_displayName by) d1) (\<lambda>d2.
     bindE (get_staff userId d2) (\<lambda>s. Inr (s, d2)))))"

definition reissueInvitation :: "env \<Rightarrow> 'z tools_scheme \<Rightarrow> uuid \<Rightarrow> inviter \<Rightarrow> 'a access_db_scheme \<Rightarrow> app_error + 'a access_db_scheme" where
  "reissueInvitation e k userId by d =
     bindE (issueInvitationToken e k userId (actor_userId by)
       (d\<lparr>user_invitations := update_where (\<lambda>x. ui_userId x = userId \<and> ui_acceptedAt x = None \<and> ui_revokedAt x = None)
         (\<lambda>x. x\<lparr>ui_revokedAt := Some (now e)\<rparr>) (user_invitations d)\<rparr>)) (\<lambda>d1.
     Inr (audit e ''user.invitation_resent'' ''user'' (JUuid userId) [] d1))"

definition resendInvitation :: "env \<Rightarrow> 'z tools_scheme \<Rightarrow> auth_config \<Rightarrow> uuid \<Rightarrow> inviter \<Rightarrow> 'a access_db_scheme \<Rightarrow> app_error + 'a access_db_scheme" where
  "resendInvitation e k c userId by d =
     bindE (get_staff userId d) (\<lambda>user.
     bindE (throwIf (su_status user \<noteq> StaffInvited) (Access AlreadyActivated)) (\<lambda>_.
     bindE (reissueInvitation e k userId by d) (\<lambda>d1.
     queueInvitation e k c (su_email user) (su_displayName user)
       (case su_roles user of [] \<Rightarrow> ''staff'' | r # _ \<Rightarrow> rs_roleName r) (inv_displayName by) d1)))"

definition open_invitation :: "env \<Rightarrow> string \<Rightarrow> 'a access_db_scheme \<Rightarrow> invitation_row \<Rightarrow> bool" where
  "open_invitation e token d x \<longleftrightarrow> ui_tokenHash x = hashToken e token \<and> ui_acceptedAt x = None \<and> ui_revokedAt x = None
     \<and> now e < ui_expiresAt x \<and> (case findById (ui_userId x) d of None \<Rightarrow> False
         | Some u \<Rightarrow> usr_status u = AccActive \<and> usr_passwordHash u = None)"

definition findOpen :: "env \<Rightarrow> string \<Rightarrow> 'a access_db_scheme \<Rightarrow> (invitation_row \<times> user_row) option" where
  "findOpen e token d = Option.bind (find (open_invitation e token d) (user_invitations d)) (\<lambda>x.
     map_option (\<lambda>u. (x, u)) (findById (ui_userId x) d))"

definition inspect :: "env \<Rightarrow> string \<Rightarrow> 'a access_db_scheme \<Rightarrow> app_error + (string \<times> string \<times> instant)" where
  "inspect e token d = bindE (demand (findOpen e token d) (Access InvalidInvitation)) (\<lambda>(x, u).
     Inr (usr_email u, usr_displayName u, ui_expiresAt x))"

definition accept :: "env \<Rightarrow> 'z tools_scheme \<Rightarrow> string \<Rightarrow> string \<Rightarrow> 'a access_db_scheme \<Rightarrow> app_error + 'a access_db_scheme" where
  "accept e k token password d =
     bindE (demand (findOpen e token d) (Access InvalidInvitation)) (\<lambda>(x, u).
     let hit = (\<lambda>r. row_id r = row_id x \<and> ui_acceptedAt r = None) in
     bindE (throwIf (\<not> list_ex hit (user_invitations d)) (Access InvalidInvitation)) (\<lambda>_.
     bindE (setPassword e k (row_id u) password
       (d\<lparr>user_invitations := update_where hit (\<lambda>r. r\<lparr>ui_acceptedAt := Some (now e)\<rparr>) (user_invitations d)\<rparr>)) (\<lambda>d1.
     Inr (d1\<lparr>audit_log := audit_append e (Some \<lparr>actor_userId = row_id u, actor_email = usr_email u, actor_sessionId = 0\<rparr>)
       \<lparr>ar_action = ''user.invitation_accepted'', ar_entityType = ''user'', ar_entityId = JUuid (row_id u), ar_changes = JObj []\<rparr>
       (audit_log d1)\<rparr>))))"

section \<open>Status and roles of a colleague\<close>

definition staff_status_name :: "staff_status \<Rightarrow> string" where
  "staff_status_name s = (case s of StaffInvited \<Rightarrow> ''invited'' | StaffActive \<Rightarrow> ''active'' | StaffDisabled \<Rightarrow> ''disabled'')"

text \<open>Holders of the admin role who can sign in, and the check that another one remains.\<close>

definition active_admin :: "'a access_db_scheme \<Rightarrow> uuid \<Rightarrow> bool" where
  "active_admin d i \<longleftrightarrow> holds_role ADMIN_ROLE d i
     \<and> (case findById i d of None \<Rightarrow> False | Some u \<Rightarrow> usr_status u = AccActive \<and> usr_passwordHash u \<noteq> None)"

definition assertAnotherAdmin :: "uuid \<Rightarrow> 'a access_db_scheme \<Rightarrow> app_error + unit" where
  "assertAnotherAdmin excludingUserId d =
     throwIf (length (remdups (filter (\<lambda>i. active_admin d i \<and> i \<noteq> excludingUserId) (map ra_userId (user_role_assignments d)))) = 0)
       (Access LastAdmin)"

definition setStatus :: "env \<Rightarrow> uuid \<Rightarrow> account_status \<Rightarrow> actor \<Rightarrow> 'a access_db_scheme \<Rightarrow> app_error + (staff_user \<times> 'a access_db_scheme)" where
  "setStatus e userId s a d =
     bindE (throwIf (userId = actor_userId a) (Access CannotChangeSelf)) (\<lambda>_.
     bindE (get_staff userId d) (\<lambda>before.
     bindE (if s = AccDisabled \<and> list_ex (\<lambda>r. rs_roleKey r = ADMIN_ROLE) (su_roles before) then assertAnotherAdmin userId d else Inr ()) (\<lambda>_.
     let d1 = setAccountStatus e userId s d in
     case (if s = AccDisabled then revokeAllForUser e userId ''account_disabled'' None d1 else (0, d1)) of (sessionsRevoked, d2) \<Rightarrow>
     let d3 = audit e (if s = AccDisabled then ''user.disabled'' else ''user.enabled'') ''user'' (JUuid userId)
       [(''status'', JObj [(''from'', JStr (staff_status_name (su_status before))),
                           (''to'', JStr (if s = AccDisabled then ''disabled'' else ''active''))]),
        (''sessionsRevoked'', JInt (int sessionsRevoked))] d2 in
     bindE (get_staff userId d3) (\<lambda>v. Inr (v, d3)))))"

definition assignRole :: "env \<Rightarrow> uuid \<Rightarrow> string \<Rightarrow> scope \<Rightarrow> actor \<Rightarrow> 'a settings_db_scheme \<Rightarrow> app_error + (staff_user \<times> 'a settings_db_scheme)" where
  "assignRole e userId roleKey s a d =
     bindE (get_staff userId d) (\<lambda>_.
     bindE (requireGrantableRole roleKey s d) (\<lambda>role.
     bindE (insert_assignment e userId (row_id role) s (Some (actor_userId a)) d) (\<lambda>d1.
     let d2 = (if rol_mfaRequired role then enforceMfa e userId d1 else d1);
         d3 = audit e ''role.assigned'' ''user'' (JUuid userId)
           ([(''role'', JStr (rol_key role)), (''scope'', scope_json s)] @ (if rol_mfaRequired role then [(''mfaEnforced'', JBool True)] else [])) d2 in
     bindE (get_staff userId d3) (\<lambda>v. Inr (v, d3)))))"

definition removeAssignment :: "env \<Rightarrow> uuid \<Rightarrow> uuid \<Rightarrow> 'a access_db_scheme \<Rightarrow> app_error + (staff_user \<times> 'a access_db_scheme)" where
  "removeAssignment e userId assignmentId d =
     bindE (demand (find (\<lambda>r. rs_id r = assignmentId) (assignments_of userId d)) (Access AssignmentNotFound)) (\<lambda>assignment.
     bindE (if rs_roleKey assignment = ADMIN_ROLE then assertAnotherAdmin userId d else Inr ()) (\<lambda>_.
     let d1 = audit e ''role.removed'' ''user'' (JUuid userId)
       [(''role'', JStr (rs_roleKey assignment)), (''scope'', scope_json (rs_scope assignment))]
       (d\<lparr>user_role_assignments := filter (\<lambda>x. row_id x \<noteq> assignmentId) (user_role_assignments d)\<rparr>) in
     bindE (get_staff userId d1) (\<lambda>v. Inr (v, d1))))"

section \<open>The first admin\<close>

record bootstrap_input =
  bi_email :: string
  bi_displayName :: string
  bi_password :: "string option"

text \<open>\<open>ON CONFLICT DO NOTHING\<close>: an assignment that is there already stays as it is.\<close>

definition ensureAdmin :: "env \<Rightarrow> 'z tools_scheme \<Rightarrow> bootstrap_input \<Rightarrow> 'a access_db_scheme \<Rightarrow> app_error + ((uuid \<times> bool) \<times> 'a access_db_scheme)" where
  "ensureAdmin e k inp d =
     (let email = toLowerCase (trim (bi_email inp)); existing = findByEmail email d in
      bindE (case existing of Some u \<Rightarrow> Inr (row_id u, d)
             | None \<Rightarrow> createAccount e k \<lparr>na_email = bi_email inp, na_displayName = bi_displayName inp, na_password = bi_password inp,
                 na_mfaEnforced = True\<rparr> d) (\<lambda>(userId, d1).
      bindE (demand (findByKey ADMIN_ROLE d1) (CrashError ''Admin role missing: run `pnpm db:migrate` first.'')) (\<lambda>adminRole.
      let d2 = (case insert_assignment e userId (row_id adminRole) Global None d1 of Inl _ \<Rightarrow> d1 | Inr x \<Rightarrow> x);
          d3 = enforceMfa e userId d2 in
      Inr ((userId, existing = None), audit e (if existing = None then ''admin.created_by_cli'' else ''admin.granted_by_cli'') ''user'' (JUuid userId)
        [(''email'', JStr email)] d3))))"

section \<open>The system roles\<close>

text \<open>
  \<open>syncSystemRoles\<close> (\<open>packages/db/src/reference/system-roles.ts\<close>), run after every migration: one role
  after the other is inserted or brought up to date, its missing permissions are added and the others
  removed; a role that is no longer in the code becomes a custom one.
\<close>

fun role_key :: "system_role \<Rightarrow> string" where
  "role_key RoleAdmin = ''admin''" | "role_key RoleCoordinator = ''coordinator''"
| "role_key RoleSecretary = ''secretary''" | "role_key RoleInstructor = ''instructor''"

fun role_name :: "system_role \<Rightarrow> string" where
  "role_name RoleAdmin = ''Admin''" | "role_name RoleCoordinator = ''Coordinator''"
| "role_name RoleSecretary = ''Secretary''" | "role_name RoleInstructor = ''Instructor''"

fun role_description :: "system_role \<Rightarrow> string" where
  "role_description RoleAdmin = ''Owner or manager. Full access, including settings, finance and staff accounts.''"
| "role_description RoleCoordinator = ''Runs the academic side of one or more departments.''"
| "role_description RoleSecretary = ''Front desk: registrations, student records and payments at a branch.''"
| "role_description RoleInstructor = ''Teaches cohorts: class lists, attendance and results for their own classes.''"

definition SYSTEM_ROLES :: "system_role list" where
  "SYSTEM_ROLES = [RoleAdmin, RoleCoordinator, RoleSecretary, RoleInstructor]"

definition role_values :: "system_role \<Rightarrow> role_row \<Rightarrow> role_row" where
  "role_values r row = row\<lparr>rol_key := role_key r, rol_name := role_name r, rol_description := role_description r, rol_isSystem := True,
     rol_mfaRequired := role_mfaRequired r, rol_allowedScopes := role_allowedScopes r\<rparr>"

definition upsert_role :: "env \<Rightarrow> system_role \<Rightarrow> 'a access_db_scheme \<Rightarrow> uuid \<times> 'a access_db_scheme" where
  "upsert_role e r d = (case findByKey (role_key r) d of
     Some row \<Rightarrow> (row_id row, d\<lparr>roles := update_where (\<lambda>x. rol_key x = role_key r) (\<lambda>x. touch e (role_values r x)) (roles d)\<rparr>)
   | None \<Rightarrow> (case take_id d of (i, d1) \<Rightarrow> (i, d1\<lparr>roles := roles d1 @ [role_values r
       \<lparr>row_id = i, createdAt = now e, updatedAt = now e, createdBy = None, updatedBy = None, version = 1, rol_key = role_key r,
        rol_name = role_name r, rol_description = [], rol_isSystem = False, rol_mfaRequired = False, rol_allowedScopes = [ScopeGlobal]\<rparr>]\<rparr>)))"

definition sync_permissions :: "uuid \<Rightarrow> permission list \<Rightarrow> 'a access_db_scheme \<Rightarrow> 'a access_db_scheme" where
  "sync_permissions i permissions d =
     (let have_them = map rp_permission (filter (\<lambda>x. rp_roleId x = i) (role_permission_rows d));
          added = role_permission_rows d @ map (\<lambda>p. \<lparr>rp_roleId = i, rp_permission = p\<rparr>) (filter (\<lambda>p. p \<notin> set have_them) permissions)
      in d\<lparr>role_permission_rows := filter (\<lambda>x. \<not> (rp_roleId x = i \<and> rp_permission x \<notin> set permissions)) added\<rparr>)"

definition sync_role :: "env \<Rightarrow> system_role \<Rightarrow> 'a access_db_scheme \<Rightarrow> 'a access_db_scheme" where
  "sync_role e r d = (case upsert_role e r d of (i, d1) \<Rightarrow> sync_permissions i (role_permissions r) d1)"

definition syncSystemRoles :: "env \<Rightarrow> 'a access_db_scheme \<Rightarrow> 'a access_db_scheme" where
  "syncSystemRoles e d = (let d1 = fold (sync_role e) SYSTEM_ROLES d in
     d1\<lparr>roles := update_where (\<lambda>x. rol_isSystem x \<and> rol_key x \<notin> role_key ` set SYSTEM_ROLES)
       (\<lambda>x. touch e (x\<lparr>rol_isSystem := False\<rparr>)) (roles d1)\<rparr>)"

end
