(* ===== verification/AuthOk.thy ===== *)
theory AuthOk
  imports Mfa
begin

text \<open>
  What holds of sessions and codes whatever people do: a session that is not over has seen fewer than
  five wrong codes, a code or a link works once, and a reset password signs everybody out.
\<close>

section \<open>Frames\<close>

lemma next_id_taken [simp]: "take_id d = (i, d1) \<longleftrightarrow> i = next_id d \<and> d1 = d\<lparr>next_id := Suc (next_id d)\<rparr>"
  by (auto simp: take_id_def)

lemma event_next_id [simp]: "next_id (record_event e x c u m d) = Suc (next_id d)"
  by (simp add: record_event_def take_id_def)

lemma update_account_frame [simp]:
  "user_sessions (update_account e i f d) = user_sessions d" "next_id (update_account e i f d) = next_id d"
  "user_recovery_codes (update_account e i f d) = user_recovery_codes d" "user_totp_factors (update_account e i f d) = user_totp_factors d"
  "password_reset_tokens (update_account e i f d) = password_reset_tokens d"
  by (simp_all add: update_account_def)

lemma mail_next_id: "mail_out e k m d = Inr d' \<Longrightarrow> next_id d' = Suc (next_id d)"
  by (auto simp: mail_out_def send_email_def publish_def)

section \<open>Sessions\<close>

definition session_ok :: "session_token_row \<Rightarrow> bool" where
  "session_ok s \<longleftrightarrow> (us_revokedAt s = None \<longrightarrow> us_mfaFailedAttempts s < MAX_MFA_ATTEMPTS) \<and> us_idleExpiresAt s \<le> us_absoluteExpiresAt s"

definition session_rows_ok :: "uuid \<Rightarrow> session_token_row list \<Rightarrow> bool" where
  "session_rows_ok n rows \<longleftrightarrow> distinct (map row_id rows) \<and> (\<forall>s \<in> set rows. row_id s < n \<and> session_ok s)"

abbreviation sessions_sound :: "'a access_db_scheme \<Rightarrow> bool" where
  "sessions_sound d \<equiv> session_rows_ok (next_id d) (user_sessions d)"

lemma session_rows_ok_update:
  assumes "session_rows_ok n rows" "n \<le> m" "\<And>s. row_id (f s) = row_id s" "\<And>s. s \<in> set rows \<Longrightarrow> P s \<Longrightarrow> session_ok (f s)"
  shows "session_rows_ok m (update_where P f rows)"
  using assms by (auto simp: session_rows_ok_def map_update_where set_update_where dest: order.strict_trans2)

lemma session_rows_ok_later: "session_rows_ok n rows \<Longrightarrow> n \<le> m \<Longrightarrow> session_rows_ok m rows"
  by (force simp: session_rows_ok_def)

lemma session_rows_ok_snoc: "session_rows_ok n rows \<Longrightarrow> row_id s = n \<Longrightarrow> n < m \<Longrightarrow> session_ok s \<Longrightarrow> session_rows_ok m (rows @ [s])"
  by (fastforce simp: session_rows_ok_def)

lemma revoke_where_ok:
  assumes "revoke_where e reason P d = (n, d')" "sessions_sound d"
  shows "sessions_sound d'" and "next_id d' = next_id d"
proof -
  have "d' = d\<lparr>user_sessions := update_where (\<lambda>s. P s \<and> us_revokedAt s = None)
      (\<lambda>s. s\<lparr>us_revokedAt := Some (now e), us_revokedReason := Some reason\<rparr>) (user_sessions d)\<rparr>"
    using assms(1) by (simp add: revoke_where_def Let_def)
  moreover have "session_rows_ok (next_id d) (update_where (\<lambda>s. P s \<and> us_revokedAt s = None)
      (\<lambda>s. s\<lparr>us_revokedAt := Some (now e), us_revokedReason := Some reason\<rparr>) (user_sessions d))"
    using assms(2) by (rule session_rows_ok_update) (use assms(2) in \<open>auto simp: session_ok_def session_rows_ok_def\<close>)
  ultimately show "sessions_sound d'" "next_id d' = next_id d" by simp_all
qed

lemma rotate_ok:
  assumes "rotate e k i mark d = Inr d'" "sessions_sound d"
  shows "sessions_sound d'" and "next_id d' = next_id d"
proof -
  have d': "d' = d\<lparr>user_sessions := update_where (\<lambda>s. row_id s = i)
       (\<lambda>s. s\<lparr>us_tokenHash := hashToken e (drawn_token k), us_lastSeenAt := now e, us_mfaFailedAttempts := 0,
          us_mfaVerifiedAt := (if mark then Some (now e) else us_mfaVerifiedAt s)\<rparr>) (user_sessions d)\<rparr>"
    using assms(1) by (simp add: rotate_def)
  have "sessions_sound d'" unfolding d'
    by (simp, rule session_rows_ok_update[OF assms(2)]) (use assms(2) in \<open>auto simp: session_ok_def session_rows_ok_def MAX_MFA_ATTEMPTS_def\<close>)
  then show "sessions_sound d'" "next_id d' = next_id d" by (simp_all add: d')
qed

lemma createSession_ok:
  assumes "createSession e k c u context mv d = Inr (i, d')" "sessions_sound d"
  shows "sessions_sound d'" and "next_id d' = Suc (next_id d)"
proof -
  let ?s = "\<lparr>row_id = next_id d, us_userId = u, us_tokenHash = hashToken e (drawn_token k), us_createdAt = now e, us_lastSeenAt = now e,
           us_idleExpiresAt = idle_expiry e c (absolute_expiry e c), us_absoluteExpiresAt = absolute_expiry e c,
           us_mfaVerifiedAt = (if mv then Some (now e) else None), us_mfaFailedAttempts = 0,
           us_ipAddress = rc_ip context, us_userAgent = rc_userAgent context, us_revokedAt = None, us_revokedReason = None\<rparr>"
  have d': "d' = d\<lparr>next_id := Suc (next_id d), user_sessions := user_sessions d @ [?s]\<rparr>"
    using assms(1) by (auto simp: createSession_def Let_def)
  have "session_rows_ok (Suc (next_id d)) (user_sessions d @ [?s])"
    by (rule session_rows_ok_snoc[OF assms(2)]) (simp_all add: session_ok_def MAX_MFA_ATTEMPTS_def idle_expiry_def)
  then show "sessions_sound d'" "next_id d' = Suc (next_id d)" by (simp_all add: d')
qed

lemma touch_ok:
  assumes "sessions_sound d" "s \<in> set (user_sessions d)"
  shows "sessions_sound (touch_session e c s d)"
proof (cases "now e - us_lastSeenAt s > TOUCH_INTERVAL")
  case True
  have "session_rows_ok (next_id d) (update_where (\<lambda>x. row_id x = row_id s)
      (\<lambda>x. x\<lparr>us_lastSeenAt := now e, us_idleExpiresAt := idle_expiry e c (us_absoluteExpiresAt s)\<rparr>) (user_sessions d))"
  proof (rule session_rows_ok_update[OF assms(1)])
    fix x assume x: "x \<in> set (user_sessions d)" "row_id x = row_id s"
    then have "x = s" using assms unfolding session_rows_ok_def by (simp add: distinct_map inj_on_def)
    then show "session_ok (x\<lparr>us_lastSeenAt := now e, us_idleExpiresAt := idle_expiry e c (us_absoluteExpiresAt s)\<rparr>)"
      using assms by (auto simp: session_rows_ok_def session_ok_def idle_expiry_def)
  qed simp_all
  then show ?thesis using True by (simp add: touch_session_def)
qed (use assms in \<open>simp add: touch_session_def\<close>)

text \<open>Every wrong code counts, and the fifth ends the session.\<close>

lemma mfa_fail_ok:
  assumes "mfa_fail e auth context d = (err, d')" "sessions_sound d"
  shows "sessions_sound d' \<and> next_id d \<le> next_id d'
    \<and> (\<forall>s \<in> set (user_sessions d). row_id s = ac_sessionId auth \<longrightarrow> (\<exists>s' \<in> set (user_sessions d'). row_id s' = row_id s
         \<and> us_mfaFailedAttempts s' = us_mfaFailedAttempts s + 1 \<and> (us_mfaFailedAttempts s' \<ge> MAX_MFA_ATTEMPTS \<longrightarrow> us_revokedAt s' \<noteq> None)))"
proof -
  let ?i = "ac_sessionId auth"
  let ?inc = "\<lambda>s. s\<lparr>us_mfaFailedAttempts := us_mfaFailedAttempts s + 1\<rparr>"
  let ?rows = "update_where (\<lambda>s. row_id s = ?i) ?inc (user_sessions d)"
  let ?ended = "update_where (\<lambda>s. row_id s = ?i \<and> us_revokedAt s = None) (\<lambda>s. s\<lparr>us_revokedAt := Some (now e), us_revokedReason := Some ''too_many_mfa_attempts''\<rparr>) ?rows"
  define n where "n = (case find_by row_id ?i ?rows of None \<Rightarrow> MAX_MFA_ATTEMPTS | Some s \<Rightarrow> us_mfaFailedAttempts s)"
  have result: "user_sessions d' = (if n \<ge> MAX_MFA_ATTEMPTS then ?ended else ?rows)" "next_id d' = Suc (next_id d)"
    using assms(1) by (auto simp: mfa_fail_def recordMfaFailure_def n_def revoke_def revoke_where_def Let_def split: if_splits)
  have d: "distinct (map row_id (user_sessions d))" using assms(2) by (simp add: session_rows_ok_def)
  have count: "n = us_mfaFailedAttempts s + 1" if "s \<in> set (user_sessions d)" "row_id s = ?i" for s
  proof -
    have "find_by row_id ?i (user_sessions d) = Some s" using find_by_distinct[OF d that(1)] that(2) by simp
    then have "find_by row_id ?i ?rows = Some (?inc s)" using that(2) by (simp add: find_by_update_where)
    then show ?thesis by (simp add: n_def)
  qed
  have inc: "session_rows_ok (Suc (next_id d)) ?rows" if "\<not> n \<ge> MAX_MFA_ATTEMPTS"
    by (rule session_rows_ok_update[OF assms(2)]) (use count that assms(2) in \<open>auto simp: session_ok_def session_rows_ok_def\<close>)
  have stop: "session_rows_ok (Suc (next_id d)) ?ended"
  proof -
    have all: "session_ok s'" if s': "s' \<in> set ?ended" for s'
    proof -
      obtain s1 where s1: "s1 \<in> set ?rows" "s' = (if row_id s1 = ?i \<and> us_revokedAt s1 = None
          then s1\<lparr>us_revokedAt := Some (now e), us_revokedReason := Some ''too_many_mfa_attempts''\<rparr> else s1)"
        using s' by (auto simp: set_update_where[of _ _ ?rows])
      obtain s where s: "s \<in> set (user_sessions d)" "s1 = (if row_id s = ?i then ?inc s else s)" using s1(1) by (auto simp: set_update_where)
      have "session_ok s" using assms(2) s(1) by (simp add: session_rows_ok_def)
      then show ?thesis by (auto simp: s1(2) s(2) session_ok_def)
    qed
    have ids: "map row_id ?ended = map row_id (user_sessions d)" by (simp add: map_update_where)
    then have "row_id ` set ?ended = row_id ` set (user_sessions d)" by (metis image_set)
    have small: "row_id s' < Suc (next_id d)" if s': "s' \<in> set ?ended" for s'
    proof -
      have "row_id s' \<in> row_id ` set (user_sessions d)" using s' \<open>row_id ` set ?ended = row_id ` set (user_sessions d)\<close> by blast
      then show ?thesis using assms(2) by (auto simp: session_rows_ok_def less_Suc_eq)
    qed
    have "distinct (map row_id ?ended)" unfolding ids by (rule d)
    then show ?thesis using all small unfolding session_rows_ok_def by blast
  qed
  have "sessions_sound d'" using inc stop result by (cases "n \<ge> MAX_MFA_ATTEMPTS") auto
  moreover have "\<exists>s' \<in> set (user_sessions d'). row_id s' = row_id s \<and> us_mfaFailedAttempts s' = us_mfaFailedAttempts s + 1
      \<and> (us_mfaFailedAttempts s' \<ge> MAX_MFA_ATTEMPTS \<longrightarrow> us_revokedAt s' \<noteq> None)"
    if s: "s \<in> set (user_sessions d)" "row_id s = ?i" for s
  proof -
    have inc: "?inc s \<in> set ?rows" using s by (force simp: set_update_where)
    show ?thesis
    proof (cases "n \<ge> MAX_MFA_ATTEMPTS")
      case True
      let ?s' = "if us_revokedAt s = None then (?inc s)\<lparr>us_revokedAt := Some (now e), us_revokedReason := Some ''too_many_mfa_attempts''\<rparr> else ?inc s"
      have "?s' \<in> set ?ended" using inc s(2) unfolding set_update_where[of _ _ ?rows] by (force simp: image_iff)
      then show ?thesis using True result(1) by (intro bexI[of _ ?s']) auto
    next
      case False
      then show ?thesis using inc result(1) count[OF s] by (intro bexI[of _ "?inc s"]) auto
    qed
  qed
  ultimately show ?thesis using result(2) by auto
qed

section \<open>One call\<close>

inductive auth_step :: "'a access_db_scheme \<Rightarrow> 'a access_db_scheme \<Rightarrow> bool" where
  sign_in: "login e (k :: tools) c inp ctx d = (res, d') \<Longrightarrow> auth_step d d'"
| sign_out: "auth_step d (logout e auth ctx d)"
| visit: "enter e c r cookie d = (res2, d') \<Longrightarrow> auth_step d d'"
| end_session: "revokeSession e auth i ctx d = Inr d' \<Longrightarrow> auth_step d d'"
| setup_mfa: "mfa_setup e (k :: tools) auth d = Inr (sec, d') \<Longrightarrow> auth_step d d'"
| confirm: "mfa_confirm e (k :: tools) auth code ctx d = (res3, d') \<Longrightarrow> auth_step d d'"
| verify: "mfa_verify e (k :: tools) auth minp ctx d = (res4, d') \<Longrightarrow> auth_step d d'"
| disable: "mfa_disable e (k :: tools) auth pw code ctx d = (res5, d') \<Longrightarrow> auth_step d d'"
| ask: "requestReset e (k :: tools) c email ctx d = Inr d' \<Longrightarrow> auth_step d d'"
| reset: "resetPassword e (k :: tools) token pw ctx d = Inr d' \<Longrightarrow> auth_step d d'"
| change: "changePassword e (k :: tools) auth pw pw2 ctx d = Inr (tok, d') \<Longrightarrow> auth_step d d'"
| elsewhere: "user_sessions d' = user_sessions d \<Longrightarrow> next_id d \<le> next_id d' \<Longrightarrow> auth_step d d'"

inductive auth_reachable :: "'a access_db_scheme \<Rightarrow> bool" where
  start: "user_sessions d = [] \<Longrightarrow> auth_reachable d"
| step: "auth_reachable d \<Longrightarrow> auth_step d d' \<Longrightarrow> auth_reachable d'"

lemma secretOf_frame:
  assumes "secretOf e k f u d = Inr (sec, d')"
  shows "user_sessions d' = user_sessions d \<and> next_id d' = next_id d \<and> user_recovery_codes d' = user_recovery_codes d
    \<and> map tf_userId (user_totp_factors d') = map tf_userId (user_totp_factors d)
    \<and> map tf_lastUsedTimeStep (user_totp_factors d') = map tf_lastUsedTimeStep (user_totp_factors d)"
  using assms by (auto simp: secretOf_def map_update_where split: if_splits sum.splits)

lemma registerFailure_frame:
  "registerFailure e i d = Inr (x, d') \<Longrightarrow> user_sessions d' = user_sessions d \<and> next_id d' = next_id d"
  by (auto simp: registerFailure_def Let_def split: option.splits if_splits)

lemma wrong_password_sessions:
  assumes "wrong_password e k u ctx d = (err, d')"
  shows "user_sessions d' = user_sessions d \<and> next_id d \<le> next_id d'"
proof (cases "registerFailure e (row_id u) d")
  case (Inl x)
  then show ?thesis using assms by (simp add: wrong_password_def)
next
  case (Inr y)
  obtain n until d1 where y: "y = ((n, until), d1)" by (metis prod.exhaust)
  have d1: "user_sessions d1 = user_sessions d" "next_id d1 = next_id d" using registerFailure_frame[of e "row_id u" d "(n, until)" d1] Inr y by simp_all
  have "user_sessions d' = user_sessions d1" using wrong_password_frame[OF assms] Inr y by blast
  moreover have "next_id d1 \<le> next_id d'"
    using assms Inr y by (auto simp: wrong_password_def Let_def dest!: mail_next_id split: option.splits sum.splits if_splits)
  ultimately show ?thesis using d1 by simp
qed

lemma login_ok:
  assumes "login e k c inp ctx d = (res, d')" "sessions_sound d"
  shows "sessions_sound d'"
proof -
  let ?acc = "findByEmail (lr_email inp) d"
  have kept: "sessions_sound d''" if "user_sessions d'' = user_sessions d" "next_id d \<le> next_id d''" for d'' :: "'a access_db_scheme"
    using that assms(2) by (auto intro: session_rows_ok_later)
  have refused: "sessions_sound (refuse_login e ?acc ctx d)" by (rule kept) (simp_all add: refuse_login_def)
  show ?thesis
  proof (cases "\<not> usable ?acc \<or> locked e ?acc \<or> ?acc = None")
    case True
    then have "d' = refuse_login e ?acc ctx d" using assms(1) by (auto simp: login_def Let_def usable_def)
    then show ?thesis using refused by simp
  next
    case False
    then obtain u where u: "?acc = Some u" by blast
    show ?thesis
    proof (cases "verify_password k (usr_passwordHash u) (lr_password inp)")
      case False
      then obtain err where "wrong_password e k u ctx d = (err, d')"
        using assms(1) \<open>\<not> (\<not> usable ?acc \<or> locked e ?acc \<or> ?acc = None)\<close> u by (auto simp: login_def Let_def split: prod.splits)
      then show ?thesis using wrong_password_sessions kept by blast
    next
      case True
      let ?d1 = "update_account e (row_id u) (\<lambda>r. r\<lparr>usr_failedLoginCount := 0, usr_lockedUntil := None, usr_lastLoginAt := Some (now e),
            usr_passwordHash := (if needsRehash (the (usr_passwordHash u)) then Some (argon_hash k (lr_password inp)) else usr_passwordHash r)\<rparr>) d"
      have d1: "sessions_sound ?d1" by (rule kept) simp_all
      show ?thesis
      proof (cases "createSession e k c (row_id u) ctx False ?d1")
        case (Inl err)
        then have "d' = ?d1" using assms(1) False u True by (simp add: login_def Let_def)
        then show ?thesis using d1 by simp
      next
        case (Inr x)
        obtain i d2 where x: "x = (i, d2)" by (cases x)
        then have "user_sessions d' = user_sessions d2" "next_id d' = Suc (next_id d2)"
          using assms(1) False u True Inr by (auto simp: login_def Let_def)
        then show ?thesis using createSession_ok(1)[OF Inr[unfolded x] d1] by (simp add: session_rows_ok_later)
      qed
    qed
  qed
qed

lemma enter_ok:
  assumes "enter e c r cookie d = (res, d')" "sessions_sound d"
  shows "sessions_sound d'"
proof -
  have "d' = d \<or> (\<exists>s \<in> set (user_sessions d). d' = touch_session e c s d)"
    using assms(1)
    by (auto simp: enter_def authGuard_def authenticate_def find_Some_iff split: if_splits option.splits prod.splits sum.splits)
  then show ?thesis using assms(2) touch_ok by blast
qed


lemma revokeAll_ok:
  assumes "revokeAllForUser e i reason x d = (n, d')" "sessions_sound d"
  shows "sessions_sound d'"
  using assms(1) unfolding revokeAllForUser_def by (rule revoke_where_ok(1)[OF _ assms(2)])

lemma revoke_ok:
  assumes "sessions_sound d"
  shows "sessions_sound (revoke e i reason d)" "next_id (revoke e i reason d) = next_id d"
proof -
  obtain n d1 where d1: "revoke_where e reason (\<lambda>s. row_id s = i) d = (n, d1)" by fastforce
  note ok = revoke_where_ok[OF d1 assms]
  have "revoke e i reason d = d1" by (simp add: revoke_def d1)
  with ok show "sessions_sound (revoke e i reason d)" "next_id (revoke e i reason d) = next_id d" by simp_all
qed

lemma sound_record_event [intro]: "sessions_sound d \<Longrightarrow> sessions_sound (record_event e x c u m d)"
  by (simp add: session_rows_ok_later)

lemma sound_mail:
  assumes "mail_out e k m d = Inr d'" "sessions_sound d"
  shows "sessions_sound d'"
  using mail_out_frame(2)[OF assms(1)] mail_next_id[OF assms(1)] assms(2) by (simp add: session_rows_ok_later)

lemma sound_same: "sessions_sound d \<Longrightarrow> user_sessions d' = user_sessions d \<Longrightarrow> next_id d \<le> next_id d' \<Longrightarrow> sessions_sound d'"
  by (simp add: session_rows_ok_later)

lemma revokeSession_ok:
  assumes "revokeSession e auth i ctx d = Inr d'" "sessions_sound d"
  shows "sessions_sound d'"
proof -
  obtain n d1 where d1: "revoke_where e ''revoked_by_user'' (\<lambda>s. row_id s = i \<and> us_userId s = ac_userId auth) d = (n, d1)" by fastforce
  have "\<exists>x m. d' = record_event e x ctx (Some (ac_userId auth)) m d1"
    using assms(1) d1 by (auto simp: revokeSession_def revokeOwn_def)
  then show ?thesis using revoke_where_ok(1)[OF d1 assms(2)] by auto
qed

lemma mfa_setup_ok:
  assumes "mfa_setup e k auth d = Inr (sec, d')" "sessions_sound d"
  shows "sessions_sound d'"
  using assms by (auto simp: mfa_setup_def take_id_def split: option.splits intro: session_rows_ok_later)

lemma insertCodes_frame:
  "insertCodes e u codes d = Inr d' \<Longrightarrow> user_sessions d' = user_sessions d \<and> next_id d \<le> next_id d'
     \<and> user_totp_factors d' = user_totp_factors d"
proof (induction codes arbitrary: d)
  case (Cons code codes)
  then obtain rows where "insertCodes e u codes (d\<lparr>next_id := Suc (next_id d), user_recovery_codes := rows\<rparr>) = Inr d'"
    by (auto simp: Let_def)
  from Cons.IH[OF this] show ?case by simp
qed simp

lemma enable_factor_ok:
  assumes "enable_factor e k auth i step ctx d = Inr (codes, d')" "sessions_sound d"
  shows "sessions_sound d'"
proof -
  let ?d1 = "d\<lparr>user_totp_factors := update_where (\<lambda>f. row_id f = i)
            (\<lambda>f. f\<lparr>tf_confirmedAt := Some (now e), tf_lastUsedTimeStep := Some step, tf_updatedAt := now e\<rparr>) (user_totp_factors d),
          user_recovery_codes := filter (\<lambda>r. rcv_userId r \<noteq> ac_userId auth) (user_recovery_codes d)\<rparr>"
  obtain d2 d3 where d2: "insertCodes e (ac_userId auth) (drawn_codes k) ?d1 = Inr d2"
    and d3: "rotate e k (ac_sessionId auth) True d2 = Inr d3"
    and d': "d' = record_event e ''mfa.enabled'' ctx (Some (ac_userId auth)) [] d3"
    using assms(1) unfolding enable_factor_def by (auto simp: Let_def)
  have "sessions_sound d2" using insertCodes_frame[OF d2] assms(2) by (simp add: session_rows_ok_later)
  then show ?thesis unfolding d' by (intro sound_record_event rotate_ok(1)[OF d3])
qed

lemma secretOf_ok: "secretOf e k f u d = Inr (sec, d') \<Longrightarrow> sessions_sound d \<Longrightarrow> sessions_sound d'"
  using secretOf_frame[of e k f u d sec d'] by simp

lemma mfa_confirm_ok:
  assumes "mfa_confirm e k auth code ctx d = (res, d')" "sessions_sound d"
  shows "sessions_sound d'"
proof (cases "factorOf (ac_userId auth) d")
  case None
  then show ?thesis using assms by (simp add: mfa_confirm_def)
next
  case (Some f)
  show ?thesis
  proof (cases "tf_confirmedAt f \<noteq> None")
    case True
    then show ?thesis using assms Some by (simp add: mfa_confirm_def)
  next
    case False
    show ?thesis
    proof (cases "secretOf e k f (ac_userId auth) d")
      case (Inl err)
      then show ?thesis using assms Some False by (simp add: mfa_confirm_def)
    next
      case (Inr x)
      obtain sec d1 where x: "x = (sec, d1)" by (cases x)
      have d1: "sessions_sound d1" using secretOf_ok[OF Inr[unfolded x] assms(2)] .
      show ?thesis
      proof (cases "totp_step k sec code None")
        case None
        then have "snd (mfa_fail e auth ctx d1) = d'" using assms(1) Some False Inr x by (auto simp: mfa_confirm_def split: prod.splits)
        then show ?thesis using mfa_fail_ok[OF _ d1, of e auth ctx "fst (mfa_fail e auth ctx d1)" d'] by auto
      next
        case (Some step)
        then show ?thesis using assms(1) \<open>factorOf (ac_userId auth) d = Some f\<close> False Inr x d1
            enable_factor_ok[of e k auth "row_id f" step ctx d1]
          by (auto simp: mfa_confirm_def split: sum.splits prod.splits)
      qed
    qed
  qed
qed

lemma claim_sessions: "claimTimeStep e u step d = (b, d') \<Longrightarrow> user_sessions d' = user_sessions d \<and> next_id d' = next_id d"
  by (auto simp: claimTimeStep_def Let_def)

lemma consume_sessions: "consumeRecoveryCode e u code d = (b, d') \<Longrightarrow> user_sessions d' = user_sessions d \<and> next_id d' = next_id d"
  by (auto simp: consumeRecoveryCode_def Let_def)

lemma check_code_sessions:
  assumes "check_code e k auth f inp d = Inr (b, d')"
  shows "user_sessions d' = user_sessions d \<and> next_id d' = next_id d"
proof (cases inp)
  case (MfaCode code)
  then obtain sec d1 where d1: "secretOf e k f (ac_userId auth) d = Inr (sec, d1)"
    and rest: "(case totp_step k sec code (tf_lastUsedTimeStep f) of None \<Rightarrow> Inr (False, d1) | Some step \<Rightarrow> Inr (claimTimeStep e (ac_userId auth) step d1)) = (Inr (b, d') :: app_error + _)"
    using assms by (auto simp: check_code_def)
  have "user_sessions d' = user_sessions d1 \<and> next_id d' = next_id d1"
    using rest by (cases "totp_step k sec code (tf_lastUsedTimeStep f)") (auto dest: claim_sessions)
  then show ?thesis using secretOf_frame[OF d1] by simp
next
  case (MfaRecovery code)
  then show ?thesis using assms consume_sessions[of e "ac_userId auth" code d b d'] by (simp add: check_code_def)
qed

lemma mfa_verify_cases:
  assumes "mfa_verify e k auth inp ctx d = (res, d')"
  obtains (idle) err where "d' = d" "res = Inl err"
  | (wrong) f d1 err where "factorOf (ac_userId auth) d = Some f" "check_code e k auth f inp d = Inr (False, d1)"
      "mfa_fail e auth ctx d1 = (err, d')" "res = Inl err"
  | (clash) f d1 err where "factorOf (ac_userId auth) d = Some f" "check_code e k auth f inp d = Inr (True, d1)" "d' = d1" "res = Inl err"
  | (accepted) f d1 d2 kind where "factorOf (ac_userId auth) d = Some f" "tf_confirmedAt f \<noteq> None" "check_code e k auth f inp d = Inr (True, d1)"
      "rotate e k (ac_sessionId auth) True d1 = Inr d2" "d' = record_event e kind ctx (Some (ac_userId auth)) [] d2" "res = Inr (drawn_token k)"
proof (cases "factorOf (ac_userId auth) d")
  case None
  then have "d' = d \<and> res = Inl (Auth MfaNotEnabled)" using assms by (simp add: mfa_verify_def)
  with idle show thesis by blast
next
  case (Some f)
  show thesis
  proof (cases "tf_confirmedAt f = None")
    case True
    then have "d' = d \<and> res = Inl (Auth MfaNotEnabled)" using assms Some by (simp add: mfa_verify_def)
    with idle show thesis by blast
  next
    case confirmed: False
    show thesis
    proof (cases "check_code e k auth f inp d")
      case (Inl err)
      then have "d' = d \<and> res = Inl err" using assms Some confirmed by (simp add: mfa_verify_def)
      with idle show thesis by blast
    next
      case (Inr x)
      obtain b d1 where x: "x = (b, d1)" by (cases x)
      show thesis
      proof (cases b)
        case False
        then have found: "check_code e k auth f inp d = Inr (False, d1)" using Inr x by simp
        obtain err d2 where fail: "mfa_fail e auth ctx d1 = (err, d2)" by fastforce
        then have "d' = d2" "res = Inl err" using assms Some confirmed found by (simp_all add: mfa_verify_def)
        then show thesis using wrong[OF Some found] fail by simp
      next
        case True
        have found: "check_code e k auth f inp d = Inr (True, d1)" using Inr x True by simp
        show thesis
        proof (cases "rotate e k (ac_sessionId auth) True d1")
          case (Inl err)
          then have "d' = d1 \<and> res = Inl err" using assms Some confirmed found by (simp add: mfa_verify_def)
          then show thesis using clash[OF Some found] by blast
        next
          case r: (Inr d2)
          have "d' = record_event e (case inp of MfaCode _ \<Rightarrow> ''mfa.succeeded'' | MfaRecovery _ \<Rightarrow> ''mfa.recovery_code_used'')
              ctx (Some (ac_userId auth)) [] d2" "res = Inr (drawn_token k)"
            using assms Some confirmed found r by (simp_all add: mfa_verify_def)
          then show thesis by (rule accepted[OF Some confirmed found r])
        qed
      qed
    qed
  qed
qed

lemma mfa_verify_ok:
  assumes "mfa_verify e k auth inp ctx d = (res, d')" "sessions_sound d"
  shows "sessions_sound d'"
  using assms(1)
proof (cases rule: mfa_verify_cases)
  case (wrong f d1 err)
  then have "sessions_sound d1" using check_code_sessions[OF wrong(2)] assms(2) by simp
  then show ?thesis using mfa_fail_ok[OF wrong(3)] by blast
next
  case (clash f d1 err)
  then show ?thesis using check_code_sessions[OF clash(2)] assms(2) by simp
next
  case (accepted f d1 d2 kind)
  have "sessions_sound d1" using check_code_sessions[OF accepted(3)] assms(2) by simp
  then show ?thesis unfolding accepted(5) by (intro sound_record_event rotate_ok(1)[OF accepted(4)])
qed (use assms(2) in simp)

lemma mfa_disable_ok:
  assumes "mfa_disable e k auth pw code ctx d = (res, d')" "sessions_sound d"
  shows "sessions_sound d'"
proof -
  have "d' = d \<or> (\<exists>f sec d1. secretOf e k f (ac_userId auth) d = Inr (sec, d1) \<and> (d' = d1 \<or> d' = removeFactor e (ac_userId auth) ctx d1))"
    using assms(1) by (auto simp: mfa_disable_def Let_def split: if_splits option.splits sum.splits prod.splits)
  then consider "d' = d" | f sec d1 where "secretOf e k f (ac_userId auth) d = Inr (sec, d1)" "d' = d1 \<or> d' = removeFactor e (ac_userId auth) ctx d1" by blast
  then show ?thesis
  proof cases
    case 2
    then have "sessions_sound d1" using secretOf_ok[OF 2(1) assms(2)] by simp
    then show ?thesis using 2(2) by (auto simp: removeFactor_def intro: session_rows_ok_later)
  qed (use assms(2) in simp)
qed

lemma issueToken_frame: "issueToken e k u ctx d = Inr d' \<Longrightarrow> user_sessions d' = user_sessions d \<and> next_id d' = Suc (next_id d)"
  by (auto simp: issueToken_def Let_def)

lemma requestReset_ok:
  assumes "requestReset e k c email ctx d = Inr d'" "sessions_sound d"
  shows "sessions_sound d'"
proof (cases "findByEmail email d")
  case None
  then show ?thesis using assms by (auto simp: requestReset_def)
next
  case (Some u)
  show ?thesis
  proof (cases "usr_status u = AccActive")
    case True
    then obtain d1 where d1: "issueToken e k (row_id u) ctx d = Inr d1"
      and mail: "mail_out e k (PasswordResetMail (usr_email u) (PORTAL_URL c @ ''/reset-password#token='' @ drawn_token k) RESET_TOKEN_TTL_MINUTES)
        (record_event e ''password.reset_requested'' ctx (Some (row_id u)) [(''matched'', JBool True)] d1) = Inr d'"
      using assms(1) Some by (auto simp: requestReset_def)
    have "sessions_sound d1" using issueToken_frame[OF d1] assms(2) by (simp add: session_rows_ok_later)
    then show ?thesis by (intro sound_mail[OF mail] sound_record_event)
  next
    case False
    then show ?thesis using assms Some by (auto simp: requestReset_def)
  qed
qed

lemma resetPassword_cases:
  assumes "resetPassword e k token pw ctx d = Inr d'"
  obtains row u d1 where "find (usable_token e token d) (password_reset_tokens d) = Some row" "findById (prt_userId row) d = Some u"
    "password_ok k pw [usr_email u, usr_displayName u] = Inr ()" "applyReset e (row_id row) (row_id u) (argon_hash k pw) ctx d = Inr d1"
    "mail_out e k (PasswordChangedMail (usr_email u)) d1 = Inr d'"
  using assms unfolding resetPassword_def by (auto intro: that)

lemma applyReset_cases:
  assumes "applyReset e i u h ctx d = Inr d'"
  obtains n d3 m where "list_ex (\<lambda>t. row_id t = i \<and> prt_usedAt t = None) (password_reset_tokens d)"
    "revokeAllForUser e u ''password_reset'' None (update_account e u
       (\<lambda>x. x\<lparr>usr_passwordHash := Some h, usr_passwordChangedAt := Some (now e), usr_failedLoginCount := 0, usr_lockedUntil := None\<rparr>)
       (d\<lparr>password_reset_tokens := update_where (\<lambda>t. row_id t = i \<and> prt_usedAt t = None) (\<lambda>t. t\<lparr>prt_usedAt := Some (now e)\<rparr>) (password_reset_tokens d)\<rparr>))
       = (n, d3)"
    "d' = record_event e ''password.reset'' ctx (Some u) m d3"
  using assms unfolding applyReset_def by (auto simp: Let_def split: prod.splits intro: that)

lemma resetPassword_ok:
  assumes "resetPassword e k token pw ctx d = Inr d'" "sessions_sound d"
  shows "sessions_sound d'"
  using assms(1)
proof (cases rule: resetPassword_cases)
  case (1 row u d1)
  from 1(4) have "sessions_sound d1"
  proof (cases rule: applyReset_cases)
    case (1 n d3 m)
    have "sessions_sound d3" by (rule revokeAll_ok[OF 1(2)]) (use assms(2) in simp)
    then show ?thesis unfolding 1(3) by (rule sound_record_event)
  qed
  then show ?thesis by (rule sound_mail[OF 1(5)])
qed

lemma changePassword_ok:
  assumes "changePassword e k auth pw pw2 ctx d = Inr (tok, d')" "sessions_sound d"
  shows "sessions_sound d'"
proof -
  obtain account :: user_row and n d2 d3 where
    revoked: "revokeAllForUser e (ac_userId auth) ''password_changed'' (Some (ac_sessionId auth)) (update_account e (ac_userId auth)
      (\<lambda>u. u\<lparr>usr_passwordHash := Some (argon_hash k pw2), usr_passwordChangedAt := Some (now e)\<rparr>) d) = (n, d2)"
    and rot: "rotate e k (ac_sessionId auth) False d2 = Inr d3"
    and mail: "mail_out e k (PasswordChangedMail (usr_email account)) (record_event e ''password.changed'' ctx (Some (ac_userId auth)) [(''sessionsRevoked'', JInt (int n))] d3) = Inr d'"
    using assms(1) unfolding changePassword_def applyChange_def by (clarsimp simp: Let_def split: prod.splits)
  have "sessions_sound d2" by (rule revokeAll_ok[OF revoked]) (use assms(2) in simp)
  then show ?thesis by (intro sound_mail[OF mail] sound_record_event rotate_ok(1)[OF rot])
qed

lemma auth_step_sound:
  assumes "auth_step d d'" "sessions_sound d"
  shows "sessions_sound d'"
  using assms(1)
proof cases
  case (sign_out e auth ctx)
  show ?thesis unfolding sign_out logout_def by (intro sound_record_event revoke_ok(1) assms(2))
qed (use assms(2) in \<open>blast intro: login_ok enter_ok revokeSession_ok mfa_setup_ok mfa_confirm_ok mfa_verify_ok mfa_disable_ok
     requestReset_ok resetPassword_ok changePassword_ok sound_same\<close>)+

text \<open>At any time a session that is not over has seen fewer than five wrong codes.\<close>

lemma auth_reachable_sound: "auth_reachable d \<Longrightarrow> sessions_sound d"
  by (induction rule: auth_reachable.induct) (auto simp: session_rows_ok_def dest: auth_step_sound[unfolded session_rows_ok_def])

section \<open>Codes and links that work once\<close>

lemma update_where_elem:
  assumes "x \<in> set (update_where P f rows)"
  obtains r where "r \<in> set rows" "P r" "x = f r" | "x \<in> set rows" "\<not> P x"
  using assms unfolding update_where_def by auto

lemma update_where_misses: "x \<in> set (update_where P f rows) \<Longrightarrow> (\<And>r. P r \<Longrightarrow> \<not> P (f r)) \<Longrightarrow> \<not> P x"
  by (auto simp: update_where_def)

text \<open>What a user spent stays spent: neither the recovery code nor the time step works again.\<close>

lemma recovery_code_once:
  assumes "consumeRecoveryCode e u code d = (b, d')" "hashRecoveryCode e' code = hashRecoveryCode e code"
  shows "fst (consumeRecoveryCode e' u code d') = False"
proof -
  let ?hit = "\<lambda>r. rcv_userId r = u \<and> rcv_codeHash r = hashRecoveryCode e code \<and> rcv_usedAt r = None"
  have "user_recovery_codes d' = update_where ?hit (\<lambda>r. r\<lparr>rcv_usedAt := Some (now e)\<rparr>) (user_recovery_codes d)"
    using assms(1) by (auto simp: consumeRecoveryCode_def Let_def)
  then have "\<not> ?hit r" if "r \<in> set (user_recovery_codes d')" for r
    using that by (intro update_where_misses[of r ?hit]) (simp, simp)
  then show ?thesis using assms(2) by (simp add: consumeRecoveryCode_def Let_def list_ex_iff)
qed

lemma time_step_once:
  assumes "claimTimeStep e u step d = (b, d')" "step' \<le> step"
  shows "fst (claimTimeStep e' u step' d') = False"
proof -
  let ?hit = "\<lambda>step f. tf_userId f = u \<and> (case tf_lastUsedTimeStep f of None \<Rightarrow> True | Some s \<Rightarrow> s < step)"
  have "user_totp_factors d' = update_where (?hit step) (\<lambda>f. f\<lparr>tf_lastUsedTimeStep := Some step, tf_updatedAt := now e\<rparr>) (user_totp_factors d)"
    using assms(1) by (auto simp: claimTimeStep_def Let_def)
  then have "\<not> ?hit step f" if "f \<in> set (user_totp_factors d')" for f
    using that by (intro update_where_misses[of f "?hit step"]) (simp, simp)
  then have "\<not> ?hit step' f" if "f \<in> set (user_totp_factors d')" for f
    using that assms(2) by (fastforce split: option.splits)
  then show ?thesis by (simp add: claimTimeStep_def Let_def list_ex_iff)
qed

text \<open>A reset takes the link it was given, and no session of its user stays open.\<close>

lemma revokeAll_none_open:
  assumes "revokeAllForUser e u reason None d = (n, d')" "s \<in> set (user_sessions d')" "us_userId s = u"
  shows "us_revokedAt s \<noteq> None"
proof -
  have "user_sessions d' = update_where (\<lambda>s. us_userId s = u \<and> us_revokedAt s = None)
     (\<lambda>s. s\<lparr>us_revokedAt := Some (now e), us_revokedReason := Some reason\<rparr>) (user_sessions d)"
    using assms(1) by (auto simp: revokeAllForUser_def revoke_where_def Let_def)
  with assms(2) have "s \<in> set (update_where (\<lambda>s. us_userId s = u \<and> us_revokedAt s = None)
     (\<lambda>s. s\<lparr>us_revokedAt := Some (now e), us_revokedReason := Some reason\<rparr>) (user_sessions d))" by simp
  then show ?thesis by (rule update_where_elem) (use assms(3) in auto)
qed

lemma findById_id: "findById i d = Some u \<Longrightarrow> row_id u = i"
  by (auto simp: findById_def dest: find_by_key)

lemma reset_effect:
  assumes "resetPassword e k token pw ctx d = Inr d'" "distinct (map prt_tokenHash (password_reset_tokens d))"
  shows "\<exists>t u. t \<in> set (password_reset_tokens d) \<and> usable_token e token d t \<and> findById (prt_userId t) d = Some u
    \<and> (\<forall>s \<in> set (user_sessions d'). us_userId s = row_id u \<longrightarrow> us_revokedAt s \<noteq> None)
    \<and> (\<forall>e' x. hashToken e' token = hashToken e token \<longrightarrow> resetPassword e' k token x ctx d' = Inl (Auth InvalidResetToken))"
  using assms(1)
proof (cases rule: resetPassword_cases)
  case (1 t u d1)
  have t: "t \<in> set (password_reset_tokens d)" "usable_token e token d t" using 1(1) by (auto simp: find_Some_iff)
  from 1(4) show ?thesis
  proof (cases rule: applyReset_cases)
    case (1 n d3 m)
    have frame: "user_sessions d' = user_sessions d3" "password_reset_tokens d' = password_reset_tokens d3"
      using mail_out_frame(2,5)[OF \<open>mail_out _ _ _ _ = Inr d'\<close>] 1(3) by simp_all
    have tokens: "password_reset_tokens d3 = update_where (\<lambda>x. row_id x = row_id t \<and> prt_usedAt x = None) (\<lambda>x. x\<lparr>prt_usedAt := Some (now e)\<rparr>) (password_reset_tokens d)"
      using 1(2) by (auto simp: revokeAllForUser_def revoke_where_def Let_def)
    have none: "\<not> usable_token e' token d' x" if same_hash: "hashToken e' token = hashToken e token" and x_in: "x \<in> set (password_reset_tokens d')" for e' x
    proof
      assume usable: "usable_token e' token d' x"
      then have x: "prt_tokenHash x = hashToken e token" "prt_usedAt x = None" using same_hash by (auto simp: usable_token_def)
      obtain y where y: "y \<in> set (password_reset_tokens d)" "x = (if row_id y = row_id t \<and> prt_usedAt y = None then y\<lparr>prt_usedAt := Some (now e)\<rparr> else y)"
        using x_in unfolding frame(2) tokens update_where_def by auto
      then have same: "prt_tokenHash y = prt_tokenHash t" using x t(2) by (auto simp: usable_token_def split: if_splits)
      have "y = t" using assms(2) y(1) t(1) same by (simp add: distinct_map inj_on_def)
      then show False using y(2) x(2) t(2) by (auto simp: usable_token_def split: if_splits)
    qed
    have refused: "resetPassword e' k token x ctx d' = Inl (Auth InvalidResetToken)" if "hashToken e' token = hashToken e token" for e' x
    proof -
      have "find (usable_token e' token d') (password_reset_tokens d') = None" using none[OF that] by (auto simp: find_None_iff)
      then show ?thesis by (simp add: resetPassword_def)
    qed
    have "us_revokedAt s \<noteq> None" if "s \<in> set (user_sessions d')" "us_userId s = row_id u" for s
      using revokeAll_none_open[OF 1(2)] that frame(1) by simp
    then show ?thesis using t \<open>findById (prt_userId t) d = Some u\<close> refused by blast
  qed
qed

text \<open>Asking for a reset link makes the older links of the account useless.\<close>

lemma older_links_dead:
  assumes "requestReset e k c email ctx d = Inr d'" "findByEmail email d = Some u" "usr_status u = AccActive"
    "t \<in> set (password_reset_tokens d')" "prt_userId t = row_id u" "prt_usedAt t = None"
  shows "prt_tokenHash t = hashToken e (drawn_token k) \<and> prt_expiresAt t = now e + 30 * MINUTE"
proof -
  obtain d1 where d1: "issueToken e k (row_id u) ctx d = Inr d1"
    and mail: "mail_out e k (PasswordResetMail (usr_email u) (PORTAL_URL c @ ''/reset-password#token='' @ drawn_token k) RESET_TOKEN_TTL_MINUTES)
        (record_event e ''password.reset_requested'' ctx (Some (row_id u)) [(''matched'', JBool True)] d1) = Inr d'"
    using assms(1-3) by (auto simp: requestReset_def)
  have "password_reset_tokens d' = password_reset_tokens d1" using mail_out_frame(5)[OF mail] by simp
  then show ?thesis using d1 assms(4-6) by (auto simp: issueToken_def Let_def RESET_TOKEN_TTL_MINUTES_def split: if_splits elim!: update_where_elem)
qed

end
