(* ===== verification/StaffOk.thy ===== *)
theory StaffOk
  imports Users AuthOk
begin

text \<open>
  What holds of staff: there is always an administrator who can sign in, an invitation works once and a
  newer one replaces it, a disabled account has no open session, and the roles of the code are in the
  database as the code has them.
\<close>

section \<open>An administrator remains\<close>

definition ids_below :: "uuid \<Rightarrow> 'a has_id_scheme list \<Rightarrow> bool" where
  "ids_below n rows \<longleftrightarrow> distinct (map row_id rows) \<and> (\<forall>r \<in> set rows. row_id r < n)"

lemma ids_below_snoc: "ids_below n rows \<Longrightarrow> row_id r = n \<Longrightarrow> n < m \<Longrightarrow> ids_below m (rows @ [r])"
  by (fastforce simp: ids_below_def)

lemma ids_below_later: "ids_below n rows \<Longrightarrow> n \<le> m \<Longrightarrow> ids_below m rows"
  by (force simp: ids_below_def)

lemma ids_below_filter: "ids_below n rows \<Longrightarrow> ids_below n (filter P rows)"
  by (auto simp: ids_below_def distinct_map_filter)

definition staff_ok :: "'a access_db_scheme \<Rightarrow> bool" where
  "staff_ok d \<longleftrightarrow> ids_below (next_id d) (roles d) \<and> ids_below (next_id d) (user_role_assignments d)
     \<and> ids_below (next_id d) (user_accounts d) \<and> (\<exists>i. active_admin d i)"

definition can_sign_in :: "'a access_db_scheme \<Rightarrow> uuid \<Rightarrow> bool" where
  "can_sign_in d i \<longleftrightarrow> (case findById i d of None \<Rightarrow> False | Some u \<Rightarrow> usr_status u = AccActive \<and> usr_passwordHash u \<noteq> None)"

lemma active_admin_iff: "active_admin d i \<longleftrightarrow> holds_role ADMIN_ROLE d i \<and> can_sign_in d i"
  by (simp add: active_admin_def can_sign_in_def)

lemma active_admin_kept:
  assumes "active_admin d i" "can_sign_in d i \<Longrightarrow> can_sign_in d' i"
    "roles d' = roles d" "set (filter (\<lambda>a. ra_userId a = i) (user_role_assignments d)) \<subseteq> set (user_role_assignments d')"
  shows "active_admin d' i"
  using assms by (fastforce simp: active_admin_iff holds_role_def list_ex_iff)

lemma audit_staff [simp]:
  "roles (audit e x y z c d) = roles d" "user_role_assignments (audit e x y z c d) = user_role_assignments d"
  "user_accounts (audit e x y z c d) = user_accounts d" "next_id (audit e x y z c d) = next_id d"
  "user_sessions (audit e x y z c d) = user_sessions d" "user_invitations (audit e x y z c d) = user_invitations d"
  "role_permission_rows (audit e x y z c d) = role_permission_rows d"
  by (simp_all add: audit_def record_audit_def)

lemma can_sign_in_cong: "user_accounts d' = user_accounts d \<Longrightarrow> can_sign_in d' i = can_sign_in d i"
  by (simp add: can_sign_in_def findById_def)

lemma can_sign_in_update:
  assumes "\<And>u. row_id (f u) = row_id u" "\<And>u. i = j \<Longrightarrow> usr_status u = AccActive \<Longrightarrow> usr_status (f u) = AccActive"
    "\<And>u. i = j \<Longrightarrow> usr_passwordHash u \<noteq> None \<Longrightarrow> usr_passwordHash (f u) \<noteq> None" "can_sign_in d i"
  shows "can_sign_in (update_account e j f d) i"
  using assms
  by (auto simp: can_sign_in_def findById_def update_account_def find_by_update_where touch_def dest: find_by_key split: option.splits)

lemma staff_ok_kept:
  assumes "staff_ok d" "roles d' = roles d" "next_id d \<le> next_id d'" "ids_below (next_id d') (user_role_assignments d')"
    "ids_below (next_id d') (user_accounts d')"
    "\<And>i. active_admin d i \<Longrightarrow> \<exists>j. active_admin d j \<and> (can_sign_in d j \<longrightarrow> can_sign_in d' j)
       \<and> set (filter (\<lambda>a. ra_userId a = j) (user_role_assignments d)) \<subseteq> set (user_role_assignments d')"
  shows "staff_ok d'"
  using assms active_admin_kept[of d _ d'] unfolding staff_ok_def by (metis ids_below_later)

lemma update_account_ids: "(\<And>u. row_id (f u) = row_id u) \<Longrightarrow> ids_below n (user_accounts d) \<Longrightarrow> ids_below n (user_accounts (update_account e i f d))"
  by (auto simp: ids_below_def update_account_def map_update_where set_update_where touch_def)

lemma holds_admin_assignments:
  assumes "staff_ok d" "holds_role ADMIN_ROLE d i"
  shows "list_ex (\<lambda>r. rs_roleKey r = ADMIN_ROLE) (assignments_of i d)"
proof -
  obtain a r where a: "a \<in> set (user_role_assignments d)" "ra_userId a = i" and r: "r \<in> set (roles d)" "row_id r = ra_roleId a" "rol_key r = ADMIN_ROLE"
    using assms(2) by (auto simp: holds_role_def list_ex_iff)
  have "find_by row_id (ra_roleId a) (roles d) = Some r"
    using find_by_distinct[of row_id "roles d" r] r assms(1) by (simp add: staff_ok_def ids_below_def)
  then show ?thesis using a r by (force simp: assignments_of_def list_ex_iff)
qed

lemma another_admin:
  assumes "assertAnotherAdmin i d = Inr ()"
  obtains j where "active_admin d j" "j \<noteq> i"
  using assms by (auto simp: assertAnotherAdmin_def filter_empty_conv)

lemma staff_ok_accounts:
  assumes "staff_ok d" "roles d' = roles d" "next_id d \<le> next_id d'" "user_role_assignments d' = user_role_assignments d"
    "ids_below (next_id d') (user_accounts d')" "\<And>i. can_sign_in d i \<Longrightarrow> can_sign_in d' i"
  shows "staff_ok d'"
proof (rule staff_ok_kept[OF assms(1-3)])
  show "ids_below (next_id d') (user_role_assignments d')" using assms(1,3,4) ids_below_later by (auto simp: staff_ok_def)
  show "\<exists>j. active_admin d j \<and> (can_sign_in d j \<longrightarrow> can_sign_in d' j)
       \<and> set (filter (\<lambda>a. ra_userId a = j) (user_role_assignments d)) \<subseteq> set (user_role_assignments d')" if "active_admin d i" for i
    using that assms(4,6) by auto
qed (rule assms(5))

lemma staff_ok_same:
  assumes "staff_ok d" "roles d' = roles d" "next_id d \<le> next_id d'" "user_role_assignments d' = user_role_assignments d"
    "user_accounts d' = user_accounts d"
  shows "staff_ok d'"
proof (rule staff_ok_accounts[OF assms(1-4)])
  show "ids_below (next_id d') (user_accounts d')" using assms ids_below_later by (auto simp: staff_ok_def)
qed (simp add: can_sign_in_cong[OF assms(5)])

lemma staff_ok_update:
  assumes "staff_ok d" "\<And>u. row_id (f u) = row_id u" "\<And>u. usr_status u = AccActive \<Longrightarrow> usr_status (f u) = AccActive"
    "\<And>u. usr_passwordHash u \<noteq> None \<Longrightarrow> usr_passwordHash (f u) \<noteq> None"
  shows "staff_ok (update_account e j f d)"
proof (rule staff_ok_accounts[OF assms(1)])
  show "ids_below (next_id (update_account e j f d)) (user_accounts (update_account e j f d))"
    using update_account_ids[of f "next_id d" d e j] assms(1,2) by (simp add: staff_ok_def)
  show "can_sign_in (update_account e j f d) i" if "can_sign_in d i" for i
    by (rule can_sign_in_update) (use assms that in auto)
qed (simp_all add: update_account_def)

lemma createAccount_cases:
  assumes "createAccount e k inp d = Inr (i, d')"
  obtains u where "d' = d\<lparr>next_id := Suc (next_id d), user_accounts := user_accounts d @ [u]\<rparr>" "row_id u = next_id d" "i = next_id d"
    "usr_status u = AccActive"
  using assms unfolding createAccount_def by (auto simp: Let_def intro: that)

lemma staff_ok_create:
  assumes "createAccount e k inp d = Inr (i, d')" "staff_ok d"
  shows "staff_ok d'"
  using assms(1)
proof (cases rule: createAccount_cases)
  case (1 u)
  show ?thesis
  proof (rule staff_ok_accounts[OF assms(2)])
    show "ids_below (next_id d') (user_accounts d')" unfolding 1(1) by (simp, rule ids_below_snoc) (use 1 assms(2) in \<open>auto simp: staff_ok_def\<close>)
    show "can_sign_in d' i" if "can_sign_in d i" for i
      using that by (auto simp: 1(1) can_sign_in_def findById_def find_by_append split: option.splits)
  qed (simp_all add: 1(1))
qed

lemma insert_assignment_cases:
  assumes "insert_assignment e u r s by d = Inr d'"
  obtains row where "d' = d\<lparr>next_id := Suc (next_id d), user_role_assignments := user_role_assignments d @ [row]\<rparr>"
    "row = new_assignment e (next_id d) u r s by"
  using assms unfolding insert_assignment_def by (auto simp: Let_def intro: that)

lemma staff_ok_assign:
  assumes "insert_assignment e u r s by d = Inr d'" "staff_ok d"
  shows "staff_ok d'"
  using assms(1)
proof (cases rule: insert_assignment_cases)
  case (1 row)
  show ?thesis
  proof (rule staff_ok_kept[OF assms(2)])
    show "ids_below (next_id d') (user_role_assignments d')"
      unfolding 1(1) by (simp, rule ids_below_snoc) (use 1(2) assms(2) in \<open>auto simp: staff_ok_def new_assignment_def\<close>)
    show "ids_below (next_id d') (user_accounts d')" unfolding 1(1) using assms(2) by (auto simp: staff_ok_def intro: ids_below_later)
    show "\<exists>j. active_admin d j \<and> (can_sign_in d j \<longrightarrow> can_sign_in d' j)
       \<and> set (filter (\<lambda>a. ra_userId a = j) (user_role_assignments d)) \<subseteq> set (user_role_assignments d')" if "active_admin d i" for i
      using that by (auto simp: 1(1) can_sign_in_def findById_def)
  qed (simp_all add: 1(1))
qed

lemma staff_ok_mail:
  assumes "mail_out e k m d = Inr d'" "staff_ok d"
  shows "staff_ok d'"
  by (rule staff_ok_same[OF assms(2)]) (simp_all add: mail_out_frame[OF assms(1)] mail_next_id[OF assms(1)])

lemma staff_ok_audit: "staff_ok d \<Longrightarrow> staff_ok (audit e x y z c d)"
  by (erule staff_ok_same) simp_all

lemma staff_ok_issue:
  assumes "issueInvitationToken e k u by d = Inr d'" "staff_ok d"
  shows "staff_ok d'"
  by (rule staff_ok_same[OF assms(2)]) (use assms(1) in \<open>auto simp: issueInvitationToken_def Let_def\<close>)

lemma staff_ok_revoke:
  assumes "revokeAllForUser e u reason x d = (n, d')" "staff_ok d"
  shows "staff_ok d'"
  by (rule staff_ok_same[OF assms(2)]) (use assms(1) in \<open>auto simp: revokeAllForUser_def revoke_where_def Let_def\<close>)

lemma staff_ok_setPassword:
  assumes "setPassword e k i pw d = Inr d'" "staff_ok d"
  shows "staff_ok d'"
proof -
  obtain f where "d' = update_account e i f d" "\<And>u. row_id (f u) = row_id u" "\<And>u. usr_status (f u) = usr_status u" "\<And>u. usr_passwordHash (f u) \<noteq> None"
    using assms(1) unfolding setPassword_def by auto
  then show ?thesis using staff_ok_update[OF assms(2), of f e i] by simp
qed

section \<open>The operations keep it\<close>

lemma createInvited_cases:
  assumes "createInvited e k inp role by d = Inr (i, d')"
  obtains d2 d3 d4 where "createAccount e k \<lparr>na_email = iv_email inp, na_displayName = iv_displayName inp, na_password = None,
       na_mfaEnforced = rol_mfaRequired role\<rparr> d = Inr (i, d2)"
    "insert_assignment e i (row_id role) (iv_scope inp) (Some (actor_userId by)) d2 = Inr d3"
    "issueInvitationToken e k i (actor_userId by) d3 = Inr d4"
    "d' = audit e ''user.invited'' ''user'' (JUuid i)
       [(''email'', JStr (iv_email inp)), (''role'', JStr (rol_key role)), (''scope'', scope_json (iv_scope inp))] d4"
  using assms unfolding createInvited_def by (auto split: prod.splits intro: that)

lemma invite_ok:
  assumes "invite e k c inp by d = Inr (v, d')" "staff_ok d"
  shows "staff_ok d'"
proof -
  obtain role i d1 where created: "createInvited e k inp role by d = Inr (i, d1)"
    and mail: "queueInvitation e k c (iv_email inp) (iv_displayName inp) (rol_name role) (inv_displayName by) d1 = Inr d'"
    using assms(1) unfolding invite_def by (auto split: prod.splits)
  from created have "staff_ok d1"
    by (cases rule: createInvited_cases) (metis staff_ok_audit staff_ok_issue staff_ok_assign staff_ok_create assms(2))
  then show ?thesis using mail unfolding queueInvitation_def by (rule staff_ok_mail[rotated])
qed

lemma resend_ok:
  assumes "resendInvitation e k c u by d = Inr d'" "staff_ok d"
  shows "staff_ok d'"
proof -
  obtain d1 m where again: "reissueInvitation e k u by d = Inr d1" and mail: "mail_out e k m d1 = Inr d'"
    using assms(1) unfolding resendInvitation_def queueInvitation_def by auto
  let ?d0 = "d\<lparr>user_invitations := update_where (\<lambda>x. ui_userId x = u \<and> ui_acceptedAt x = None \<and> ui_revokedAt x = None)
         (\<lambda>x. x\<lparr>ui_revokedAt := Some (now e)\<rparr>) (user_invitations d)\<rparr>"
  obtain d2 where d2: "issueInvitationToken e k u (actor_userId by) ?d0 = Inr d2" "d1 = audit e ''user.invitation_resent'' ''user'' (JUuid u) [] d2"
    using again unfolding reissueInvitation_def by auto
  have "staff_ok ?d0" by (rule staff_ok_same[OF assms(2)]) simp_all
  then show ?thesis using staff_ok_mail[OF mail] staff_ok_audit staff_ok_issue[OF d2(1)] d2(2) by blast
qed

lemma accept_cases:
  assumes "accept e k token pw d = Inr d'"
  obtains x u d1 rows where "findOpen e token d = Some (x, u)"
    "setPassword e k (row_id u) pw (d\<lparr>user_invitations := update_where (\<lambda>r. row_id r = row_id x \<and> ui_acceptedAt r = None)
       (\<lambda>r. r\<lparr>ui_acceptedAt := Some (now e)\<rparr>) (user_invitations d)\<rparr>) = Inr d1" "d' = d1\<lparr>audit_log := rows\<rparr>"
  using assms unfolding accept_def by (auto simp: Let_def intro: that)

lemma accept_ok:
  assumes "accept e k token pw d = Inr d'" "staff_ok d"
  shows "staff_ok d'"
  using assms(1)
proof (cases rule: accept_cases)
  case (1 x u d1 rows)
  have "staff_ok d1" by (rule staff_ok_setPassword[OF 1(2)], rule staff_ok_same[OF assms(2)]) simp_all
  then show ?thesis unfolding 1(3) by (rule staff_ok_same) simp_all
qed

lemma setStatus_cases:
  assumes "setStatus e i s a d = Inr (v, d')"
  obtains u m d2 n where "i \<noteq> actor_userId a" "findById i d = Some u"
    "s = AccDisabled \<Longrightarrow> list_ex (\<lambda>r. rs_roleKey r = ADMIN_ROLE) (assignments_of (row_id u) d) \<Longrightarrow> assertAnotherAdmin i d = Inr ()"
    "(if s = AccDisabled then revokeAllForUser e i ''account_disabled'' None (setAccountStatus e i s d) else (0, setAccountStatus e i s d)) = (n, d2)"
    "d' = audit e (if s = AccDisabled then ''user.disabled'' else ''user.enabled'') ''user'' (JUuid i) m d2"
  using assms unfolding setStatus_def get_staff_def staff_of_def
  by (cases "s = AccDisabled \<and> list_ex (\<lambda>r. rs_roleKey r = ADMIN_ROLE) (assignments_of i d)")
    (auto simp: Let_def dest: findById_id split: prod.splits intro: that)

lemma setStatus_ok:
  assumes "setStatus e i s a d = Inr (v, d')" "staff_ok d"
  shows "staff_ok d'"
  using assms(1)
proof (cases rule: setStatus_cases)
  case (1 u m d2 n)
  let ?d1 = "setAccountStatus e i s d"
  have d1: "staff_ok ?d1"
  proof (cases "s = AccActive")
    case True
    then show ?thesis unfolding setAccountStatus_def by (intro staff_ok_update assms(2)) simp_all
  next
    case False
    then have s: "s = AccDisabled" by (cases s) auto
    show ?thesis
    proof (rule staff_ok_kept[OF assms(2)])
      show "ids_below (next_id ?d1) (user_accounts ?d1)"
        using update_account_ids[of "\<lambda>u. u\<lparr>usr_status := s\<rparr>" "next_id d" d e i] assms(2) by (simp add: staff_ok_def setAccountStatus_def)
      show "ids_below (next_id ?d1) (user_role_assignments ?d1)" using assms(2) by (simp add: staff_ok_def setAccountStatus_def update_account_def)
      fix j assume j: "active_admin d j"
      obtain j' where j': "active_admin d j'" "j' \<noteq> i"
      proof (cases "j = i")
        case True
        have "list_ex (\<lambda>r. rs_roleKey r = ADMIN_ROLE) (assignments_of (row_id u) d)"
          using holds_admin_assignments[OF assms(2)] j True findById_id[OF 1(2)] by (simp add: active_admin_iff)
        then show thesis using another_admin[OF 1(3)[OF s]] that by blast
      qed (use j that in blast)
      have "can_sign_in ?d1 j'" if "can_sign_in d j'"
        unfolding setAccountStatus_def by (rule can_sign_in_update) (use j'(2) that in auto)
      then show "\<exists>j. active_admin d j \<and> (can_sign_in d j \<longrightarrow> can_sign_in ?d1 j)
         \<and> set (filter (\<lambda>a. ra_userId a = j) (user_role_assignments d)) \<subseteq> set (user_role_assignments ?d1)"
        using j' by (auto simp: setAccountStatus_def update_account_def)
    qed (simp_all add: setAccountStatus_def update_account_def)
  qed
  have "staff_ok d2" using 1(4) d1 staff_ok_revoke[OF _ d1] by (auto split: if_splits)
  then show ?thesis unfolding 1(5) by (rule staff_ok_audit)
qed

lemma assignRole_ok:
  assumes "assignRole e i key s a d = Inr (v, d')" "staff_ok d"
  shows "staff_ok d'"
proof -
  obtain role :: role_row and d1 m where step: "insert_assignment e i (row_id role) s (Some (actor_userId a)) d = Inr d1"
    and d': "d' = audit e ''role.assigned'' ''user'' (JUuid i) m (if rol_mfaRequired role then enforceMfa e i d1 else d1)"
    using assms(1) unfolding assignRole_def by (auto simp: Let_def)
  have "staff_ok d1" by (rule staff_ok_assign[OF step assms(2)])
  moreover from this have "staff_ok (enforceMfa e i d1)" unfolding enforceMfa_def by (rule staff_ok_update) simp_all
  ultimately show ?thesis unfolding d' by (simp add: staff_ok_audit)
qed

lemma removeAssignment_cases:
  assumes "removeAssignment e i k d = Inr (v, d')"
  obtains r m where "r \<in> set (assignments_of i d)" "rs_id r = k" "rs_roleKey r = ADMIN_ROLE \<Longrightarrow> assertAnotherAdmin i d = Inr ()"
    "d' = audit e ''role.removed'' ''user'' (JUuid i) m (d\<lparr>user_role_assignments := filter (\<lambda>x. row_id x \<noteq> k) (user_role_assignments d)\<rparr>)"
proof -
  obtain r where r: "find (\<lambda>r. rs_id r = k) (assignments_of i d) = Some r"
    and other: "(if rs_roleKey r = ADMIN_ROLE then assertAnotherAdmin i d else Inr ()) = Inr ()"
    and d': "d' = audit e ''role.removed'' ''user'' (JUuid i) [(''role'', JStr (rs_roleKey r)), (''scope'', scope_json (rs_scope r))]
      (d\<lparr>user_role_assignments := filter (\<lambda>x. row_id x \<noteq> k) (user_role_assignments d)\<rparr>)"
    using assms unfolding removeAssignment_def by (auto simp: Let_def)
  have "r \<in> set (assignments_of i d)" "rs_id r = k" using r by (auto simp: find_Some_iff)
  moreover have "assertAnotherAdmin i d = Inr ()" if "rs_roleKey r = ADMIN_ROLE" using other that by simp
  ultimately show thesis using that[OF _ _ _ d'] by blast
qed

text \<open>Taking a role from somebody leaves the rows of the others and the other roles alone.\<close>

lemma removeAssignment_ok:
  assumes "removeAssignment e i k d = Inr (v, d')" "staff_ok d"
  shows "staff_ok d'"
  using assms(1)
proof (cases rule: removeAssignment_cases)
  case (1 r m)
  obtain a and role :: role_row where a: "a \<in> set (user_role_assignments d)" "ra_userId a = i" "row_id a = k"
    and role: "find_by row_id (ra_roleId a) (roles d) = Some role" "rol_key role = rs_roleKey r"
    using 1(1,2) by (auto simp: assignments_of_def dest: sym[of "Some _"] split: option.splits)
  have only: "x = a" if "x \<in> set (user_role_assignments d)" "row_id x = k" for x
    using assms(2) that a unfolding staff_ok_def ids_below_def by (simp add: distinct_map inj_on_def)
  let ?d1 = "d\<lparr>user_role_assignments := filter (\<lambda>x. row_id x \<noteq> k) (user_role_assignments d)\<rparr>"
  have admin: "\<exists>j. active_admin ?d1 j"
  proof -
    obtain j where j: "active_admin d j" using assms(2) by (auto simp: staff_ok_def)
    have sign: "can_sign_in ?d1 x = can_sign_in d x" for x by (rule can_sign_in_cong) simp
    show ?thesis
    proof (cases "rs_roleKey r = ADMIN_ROLE")
      case True
      obtain j' where j': "active_admin d j'" "j' \<noteq> i" using another_admin[OF 1(3)[OF True]] by blast
      have "active_admin ?d1 j'"
      proof (rule active_admin_kept[OF j'(1)])
        show "set (filter (\<lambda>x. ra_userId x = j') (user_role_assignments d)) \<subseteq> set (user_role_assignments ?d1)"
        proof
          fix x assume "x \<in> set (filter (\<lambda>x. ra_userId x = j') (user_role_assignments d))"
          then have x: "x \<in> set (user_role_assignments d)" "ra_userId x = j'" by simp_all
          then have "row_id x \<noteq> k" using only[of x] a(2) j'(2) by blast
          with x(1) show "x \<in> set (user_role_assignments ?d1)" by simp
        qed
      qed (use sign in simp_all)
      then show ?thesis by blast
    next
      case False
      have same_role: "x = role" if "x \<in> set (roles d)" "row_id x = ra_roleId a" for x
        using assms(2) that find_by_in[OF role(1)] find_by_key[OF role(1)] unfolding staff_ok_def ids_below_def by (simp add: distinct_map inj_on_def)
      obtain x y where x: "x \<in> set (user_role_assignments d)" "ra_userId x = j" "y \<in> set (roles d)" "row_id y = ra_roleId x" "rol_key y = ADMIN_ROLE"
        using j by (auto simp: active_admin_iff holds_role_def list_ex_iff)
      have "row_id x \<noteq> k" using only[OF x(1)] same_role[OF x(3)] x(4,5) role(2) False by auto
      then have "holds_role ADMIN_ROLE ?d1 j" using x by (auto simp: holds_role_def list_ex_iff)
      then show ?thesis using j sign by (auto simp: active_admin_iff)
    qed
  qed
  have "staff_ok ?d1" using assms(2) admin by (auto simp: staff_ok_def intro: ids_below_filter)
  then show ?thesis unfolding 1(4) by (rule staff_ok_audit)
qed

lemma ensureAdmin_ok:
  assumes "ensureAdmin e k inp d = Inr (r, d')" "staff_ok d"
  shows "staff_ok d'"
proof -
  let ?email = "toLowerCase (trim (bi_email inp))"
  obtain i d1 and role :: role_row where first: "(case findByEmail ?email d of Some u \<Rightarrow> Inr (row_id u, d)
             | None \<Rightarrow> createAccount e k \<lparr>na_email = bi_email inp, na_displayName = bi_displayName inp, na_password = bi_password inp,
                 na_mfaEnforced = True\<rparr> d) = Inr (i, d1)"
    and d': "d' = audit e (if findByEmail ?email d = None then ''admin.created_by_cli'' else ''admin.granted_by_cli'') ''user'' (JUuid i)
      [(''email'', JStr ?email)] (enforceMfa e i (case insert_assignment e i (row_id role) Global None d1 of Inl _ \<Rightarrow> d1 | Inr y \<Rightarrow> y))"
    using assms(1) unfolding ensureAdmin_def by (auto simp: Let_def split: prod.splits)
  have create: "d1 = d \<or> (\<exists>na. createAccount e k na d = Inr (i, d1))"
    using first by (cases "findByEmail ?email d") auto
  have "staff_ok d1" using create staff_ok_create assms(2) by blast
  then have "staff_ok (case insert_assignment e i (row_id role) Global None d1 of Inl _ \<Rightarrow> d1 | Inr y \<Rightarrow> y)"
    by (auto split: sum.splits intro: staff_ok_assign)
  then have "staff_ok (enforceMfa e i (case insert_assignment e i (row_id role) Global None d1 of Inl _ \<Rightarrow> d1 | Inr y \<Rightarrow> y))"
    unfolding enforceMfa_def by (rule staff_ok_update) simp_all
  then show ?thesis unfolding d' by (rule staff_ok_audit)
qed

inductive staff_step :: "'a settings_db_scheme \<Rightarrow> 'a settings_db_scheme \<Rightarrow> bool" where
  invite: "invite e (k :: tools) c inp by d = Inr (v, d') \<Longrightarrow> staff_step d d'"
| resend: "resendInvitation e (k :: tools) c i by d = Inr d' \<Longrightarrow> staff_step d d'"
| accept: "accept e (k :: tools) token pw d = Inr d' \<Longrightarrow> staff_step d d'"
| set_status: "setStatus e i s a d = Inr (v, d') \<Longrightarrow> staff_step d d'"
| assign: "assignRole e i key sc a d = Inr (v, d') \<Longrightarrow> staff_step d d'"
| remove: "removeAssignment e i j d = Inr (v, d') \<Longrightarrow> staff_step d d'"
| bootstrap: "ensureAdmin e (k :: tools) binp d = Inr (r, d') \<Longrightarrow> staff_step d d'"

text \<open>From any state with an administrator on, there is one after every call.\<close>

lemma staff_step_ok:
  assumes "staff_step d d'" "staff_ok d"
  shows "staff_ok d'"
  using assms(1)
  by cases (use assms(2) in \<open>blast intro: invite_ok resend_ok accept_ok setStatus_ok assignRole_ok removeAssignment_ok ensureAdmin_ok\<close>)+

lemma staff_steps_ok: "staff_step\<^sup>*\<^sup>* d d' \<Longrightarrow> staff_ok d \<Longrightarrow> staff_ok d'"
  by (induction rule: rtranclp_induct) (auto intro: staff_step_ok)

section \<open>Invitations and disabled accounts\<close>

lemma disabled_signed_out:
  assumes "setStatus e i AccDisabled a d = Inr (v, d')" "s \<in> set (user_sessions d')" "us_userId s = i"
  shows "us_revokedAt s \<noteq> None"
  using assms(1)
proof (cases rule: setStatus_cases)
  case (1 u m d2 n)
  then have "revokeAllForUser e i ''account_disabled'' None (setAccountStatus e i AccDisabled d) = (n, d2)" by simp
  from revokeAll_none_open[OF this] show ?thesis using assms(2,3) 1(5) by simp
qed

text \<open>Once a password is set through a link, no link of that account opens anything any more.\<close>

lemma accepted_user:
  assumes "accept e k token pw d = Inr d'"
  obtains x u where "findOpen e token d = Some (x, u)" "ui_userId x = row_id u"
    "user_invitations d' = update_where (\<lambda>r. row_id r = row_id x \<and> ui_acceptedAt r = None) (\<lambda>r. r\<lparr>ui_acceptedAt := Some (now e)\<rparr>) (user_invitations d)"
    "\<And>e' token' y. ui_userId y = row_id u \<Longrightarrow> \<not> open_invitation e' token' d' y"
proof -
  from assms obtain x u d1 rows where open1: "findOpen e token d = Some (x, u)"
    and pw: "setPassword e k (row_id u) pw (d\<lparr>user_invitations := update_where (\<lambda>r. row_id r = row_id x \<and> ui_acceptedAt r = None)
       (\<lambda>r. r\<lparr>ui_acceptedAt := Some (now e)\<rparr>) (user_invitations d)\<rparr>) = Inr d1" and d': "d' = d1\<lparr>audit_log := rows\<rparr>"
    by (rule accept_cases)
  have user: "findById (ui_userId x) d = Some u" using open1 by (auto simp: findOpen_def split: Option.bind_splits)
  then have i: "ui_userId x = row_id u" by (rule findById_id[symmetric])
  have "\<exists>u'. findById (row_id u) d' = Some u' \<and> usr_passwordHash u' \<noteq> None"
    using pw user i unfolding setPassword_def d'
    by (auto simp: findById_def update_account_def find_by_update_where touch_def dest: find_by_key)
  then have closed: "\<not> open_invitation e' token' d' y" if "ui_userId y = row_id u" for e' token' y
    using that by (auto simp: open_invitation_def)
  have "user_invitations d' = user_invitations d1" by (simp add: d')
  also have "\<dots> = update_where (\<lambda>r. row_id r = row_id x \<and> ui_acceptedAt r = None) (\<lambda>r. r\<lparr>ui_acceptedAt := Some (now e)\<rparr>) (user_invitations d)"
    using pw unfolding setPassword_def by (auto simp: update_account_def)
  finally show thesis using that[OF open1 i] closed by blast
qed

lemma invitation_once:
  assumes "accept e k token pw d = Inr d'" "distinct (map ui_tokenHash (user_invitations d))" "hashToken e' token = hashToken e token"
  shows "accept e' k' token pw' d' = Inl (Access InvalidInvitation)"
  using assms(1)
proof (rule accepted_user)
  fix x u
  assume open1: "findOpen e token d = Some (x, u)" and i: "ui_userId x = row_id u"
    and rows: "user_invitations d' = update_where (\<lambda>r. row_id r = row_id x \<and> ui_acceptedAt r = None) (\<lambda>r. r\<lparr>ui_acceptedAt := Some (now e)\<rparr>) (user_invitations d)"
    and closed: "\<And>e' token' y. ui_userId y = row_id u \<Longrightarrow> \<not> open_invitation e' token' d' y"
  have x: "x \<in> set (user_invitations d)" "ui_tokenHash x = hashToken e token"
    using open1 by (auto simp: findOpen_def open_invitation_def find_Some_iff split: Option.bind_splits)
  have "\<not> open_invitation e' token d' y" if y: "y \<in> set (user_invitations d')" for y
  proof
    assume open_y: "open_invitation e' token d' y"
    obtain z where z: "z \<in> set (user_invitations d)" "ui_tokenHash y = ui_tokenHash z" "ui_userId y = ui_userId z"
      using y unfolding rows update_where_def by auto
    have "ui_tokenHash z = ui_tokenHash x" using open_y z(2) x(2) assms(3) by (simp add: open_invitation_def)
    then have "z = x" using assms(2) z(1) x(1) by (simp add: distinct_map inj_on_def)
    then show False using closed[of y e' token] z(3) i open_y by simp
  qed
  then have "find (open_invitation e' token d') (user_invitations d') = None" by (simp add: find_None_iff)
  then show ?thesis by (simp add: accept_def findOpen_def)
qed

section \<open>The roles of the code\<close>

text \<open>What a role may do, and the sync of one role after the other.\<close>

definition may_by_role :: "'a access_db_scheme \<Rightarrow> uuid \<Rightarrow> permission \<Rightarrow> bool" where
  "may_by_role d i p \<longleftrightarrow> \<lparr>rp_roleId = i, rp_permission = p\<rparr> \<in> set (role_permission_rows d)"

definition roles_known :: "'a access_db_scheme \<Rightarrow> bool" where
  "roles_known d \<longleftrightarrow> ids_below (next_id d) (roles d) \<and> distinct (map rol_key (roles d)) \<and> (\<forall>x \<in> set (role_permission_rows d). rp_roleId x < next_id d)"

lemma permission_row: "p \<in> set (map rp_permission (filter (\<lambda>x. rp_roleId x = i) rows)) \<longleftrightarrow> \<lparr>rp_roleId = i, rp_permission = p\<rparr> \<in> set rows"
proof
  assume "p \<in> set (map rp_permission (filter (\<lambda>x. rp_roleId x = i) rows))"
  then obtain x where x: "x \<in> set rows" "rp_roleId x = i" "rp_permission x = p" by auto
  have "x = \<lparr>rp_roleId = i, rp_permission = p\<rparr>" by (rule role_permission_row.equality) (use x in simp_all)
  then show "\<lparr>rp_roleId = i, rp_permission = p\<rparr> \<in> set rows" using x(1) by simp
qed force

lemma sync_permissions_exact: "may_by_role (sync_permissions i ps d) i p \<longleftrightarrow> p \<in> set ps"
  unfolding may_by_role_def sync_permissions_def Let_def permission_row by auto

lemma sync_permissions_other: "j \<noteq> i \<Longrightarrow> may_by_role (sync_permissions i ps d) j p \<longleftrightarrow> may_by_role d j p"
  by (auto simp: may_by_role_def sync_permissions_def Let_def)

lemma sync_permissions_roles [simp]: "roles (sync_permissions i ps d) = roles d" "next_id (sync_permissions i ps d) = next_id d"
  by (simp_all add: sync_permissions_def Let_def)

definition in_sync :: "system_role \<Rightarrow> 'a access_db_scheme \<Rightarrow> bool" where
  "in_sync r d \<longleftrightarrow> (\<exists>row \<in> set (roles d). rol_key row = role_key r \<and> rol_name row = role_name r \<and> rol_isSystem row
     \<and> rol_mfaRequired row = role_mfaRequired r \<and> rol_allowedScopes row = role_allowedScopes r
     \<and> (\<forall>p. may_by_role d (row_id row) p \<longleftrightarrow> p \<in> set (role_permissions r)))"

lemma upsert_role_effect:
  assumes "upsert_role e r d = (i, d')" "roles_known d"
  shows "roles_known d'" "\<exists>row \<in> set (roles d'). row_id row = i \<and> rol_key row = role_key r \<and> rol_name row = role_name r \<and> rol_isSystem row
     \<and> rol_mfaRequired row = role_mfaRequired r \<and> rol_allowedScopes row = role_allowedScopes r"
    "\<And>x. x \<in> set (roles d) \<Longrightarrow> rol_key x \<noteq> role_key r \<Longrightarrow> x \<in> set (roles d') \<and> row_id x \<noteq> i"
    "role_permission_rows d' = role_permission_rows d" "i < next_id d'"
proof -
  have ids: "distinct (map row_id (roles d))" "\<forall>x \<in> set (roles d). row_id x < next_id d" and keys: "distinct (map rol_key (roles d))"
    and perms: "\<forall>x \<in> set (role_permission_rows d). rp_roleId x < next_id d"
    using assms(2) by (auto simp: roles_known_def ids_below_def)
  have "roles_known d' \<and> (\<exists>row \<in> set (roles d'). row_id row = i \<and> rol_key row = role_key r \<and> rol_name row = role_name r \<and> rol_isSystem row
     \<and> rol_mfaRequired row = role_mfaRequired r \<and> rol_allowedScopes row = role_allowedScopes r)
     \<and> (\<forall>x \<in> set (roles d). rol_key x \<noteq> role_key r \<longrightarrow> x \<in> set (roles d') \<and> row_id x \<noteq> i)
     \<and> role_permission_rows d' = role_permission_rows d \<and> i < next_id d'"
  proof (cases "findByKey (role_key r) d")
    case None
    then have fresh: "role_key r \<notin> rol_key ` set (roles d)" by (simp add: findByKey_def find_by_None_iff)
    have "i = next_id d" and d': "d' = d\<lparr>next_id := Suc (next_id d), roles := roles d @ [role_values r
       \<lparr>row_id = next_id d, createdAt = now e, updatedAt = now e, createdBy = None, updatedBy = None, version = 1, rol_key = role_key r,
        rol_name = role_name r, rol_description = [], rol_isSystem = False, rol_mfaRequired = False, rol_allowedScopes = [ScopeGlobal]\<rparr>]\<rparr>"
      using assms(1) None by (auto simp: upsert_role_def take_id_def)
    then show ?thesis using fresh ids keys perms by (fastforce simp: roles_known_def ids_below_def role_values_def)
  next
    case (Some row)
    have row: "row \<in> set (roles d)" "rol_key row = role_key r" using Some by (auto simp: findByKey_def dest: find_by_in find_by_key)
    have only: "x = row" if "x \<in> set (roles d)" "rol_key x = role_key r" for x
      using keys that row by (simp add: distinct_map inj_on_def)
    have i: "i = row_id row" and d': "d' = d\<lparr>roles := update_where (\<lambda>x. rol_key x = role_key r) (\<lambda>x. touch e (role_values r x)) (roles d)\<rparr>"
      using assms(1) Some by (auto simp: upsert_role_def)
    let ?row = "touch e (role_values r row)"
    have new: "?row \<in> set (roles d')" using row by (force simp: d' set_update_where)
    have "map row_id (roles d') = map row_id (roles d)" "map rol_key (roles d') = map rol_key (roles d)"
      by (simp_all add: d' update_where_def role_values_def touch_def)
    then have "roles_known d'" using ids keys perms unfolding roles_known_def ids_below_def
      by (auto simp: d' set_update_where role_values_def touch_def)
    moreover have "x \<in> set (roles d') \<and> row_id x \<noteq> i" if "x \<in> set (roles d)" "rol_key x \<noteq> role_key r" for x
      using that row ids i by (auto simp: d' set_update_where distinct_map inj_on_def)
    ultimately show ?thesis using new i row(1) ids(2) by (auto simp: d' role_values_def touch_def intro!: bexI[of _ ?row])
  qed
  then show "roles_known d'" "\<exists>row \<in> set (roles d'). row_id row = i \<and> rol_key row = role_key r \<and> rol_name row = role_name r \<and> rol_isSystem row
     \<and> rol_mfaRequired row = role_mfaRequired r \<and> rol_allowedScopes row = role_allowedScopes r"
    "\<And>x. x \<in> set (roles d) \<Longrightarrow> rol_key x \<noteq> role_key r \<Longrightarrow> x \<in> set (roles d') \<and> row_id x \<noteq> i"
    "role_permission_rows d' = role_permission_rows d" "i < next_id d'" by blast+
qed

lemma in_sync_kept:
  assumes "in_sync q d" "upsert_role e r d = (i, d')" "roles_known d" "q \<noteq> r"
  shows "in_sync q (sync_permissions i ps d')"
proof -
  obtain row where row: "row \<in> set (roles d)" "rol_key row = role_key q" "rol_name row = role_name q" "rol_isSystem row"
    "rol_mfaRequired row = role_mfaRequired q" "rol_allowedScopes row = role_allowedScopes q"
    and perms: "\<And>p. may_by_role d (row_id row) p \<longleftrightarrow> p \<in> set (role_permissions q)"
    using assms(1) unfolding in_sync_def by blast
  have "rol_key row \<noteq> role_key r" using row(2) assms(4) by (cases q; cases r) auto
  then have "row \<in> set (roles d')" "row_id row \<noteq> i" using upsert_role_effect(3)[OF assms(2,3) row(1)] by blast+
  moreover from this have "may_by_role (sync_permissions i ps d') (row_id row) p \<longleftrightarrow> may_by_role d (row_id row) p" for p
    using sync_permissions_other[of "row_id row" i ps d' p] upsert_role_effect(4)[OF assms(2,3)] by (simp add: may_by_role_def)
  ultimately show ?thesis using row perms unfolding in_sync_def by (intro bexI[of _ row]) auto
qed

lemma sync_role_known: "roles_known d \<Longrightarrow> roles_known (sync_role e r d)"
proof -
  assume known: "roles_known d"
  obtain i d1 where d1: "upsert_role e r d = (i, d1)" by fastforce
  note eff = upsert_role_effect[OF d1 known]
  have "roles_known (sync_permissions i (role_permissions r) d1)"
    using eff(1,5) by (auto simp: roles_known_def sync_permissions_def Let_def)
  then show ?thesis by (simp add: sync_role_def d1)
qed

lemma sync_role_in_sync:
  assumes "roles_known d"
  shows "in_sync r (sync_role e r d)" "in_sync q d \<Longrightarrow> in_sync q (sync_role e r d)"
proof -
  obtain i d1 where d1: "upsert_role e r d = (i, d1)" by fastforce
  note eff = upsert_role_effect[OF d1 assms]
  show this_one: "in_sync r (sync_role e r d)"
    using eff(2) unfolding in_sync_def sync_role_def d1 by (auto simp: sync_permissions_exact)
  show "in_sync q (sync_role e r d)" if "in_sync q d"
  proof (cases "q = r")
    case False
    then show ?thesis using in_sync_kept[OF that d1 assms] by (simp add: sync_role_def d1)
  qed (simp add: this_one)
qed

lemma fold_sync:
  assumes "roles_known d" "q \<in> set rs \<or> in_sync q d"
  shows "in_sync q (fold (sync_role e) rs d)" "roles_known (fold (sync_role e) rs d)"
  using assms
proof (induction rs arbitrary: d)
  case (Cons r rs)
  {
    case 1
    have "q \<in> set rs \<or> in_sync q (sync_role e r d)" using 1 sync_role_in_sync[OF 1(1)] by auto
    then show ?case using Cons.IH(1)[OF sync_role_known[OF 1(1)]] by simp
  next
    case 2
    have "q \<in> set rs \<or> in_sync q (sync_role e r d)" using 2 sync_role_in_sync[OF 2(1)] by auto
    then show ?case using Cons.IH(2)[OF sync_role_known[OF 2(1)]] by simp
  }
qed auto

text \<open>After the sync every system role is there, with the permissions of the code and no others.\<close>

lemma all_in_sync:
  assumes "roles_known d"
  shows "in_sync r (syncSystemRoles e d)"
proof -
  have "r \<in> set SYSTEM_ROLES" by (cases r) (auto simp: SYSTEM_ROLES_def)
  then have "in_sync r (fold (sync_role e) SYSTEM_ROLES d)" using fold_sync(1)[OF assms] by blast
  then obtain row where row: "row \<in> set (roles (fold (sync_role e) SYSTEM_ROLES d))" "rol_key row = role_key r" "rol_name row = role_name r" "rol_isSystem row"
    "rol_mfaRequired row = role_mfaRequired r" "rol_allowedScopes row = role_allowedScopes r"
    and perms: "\<And>p. may_by_role (fold (sync_role e) SYSTEM_ROLES d) (row_id row) p \<longleftrightarrow> p \<in> set (role_permissions r)"
    unfolding in_sync_def by blast
  have "rol_key row \<in> role_key ` set SYSTEM_ROLES" using row(2) \<open>r \<in> set SYSTEM_ROLES\<close> by simp
  then have "row \<in> set (roles (syncSystemRoles e d))" using row(1) by (force simp: syncSystemRoles_def Let_def set_update_where)
  moreover have "may_by_role (syncSystemRoles e d) i p = may_by_role (fold (sync_role e) SYSTEM_ROLES d) i p" for i p
    by (simp add: may_by_role_def syncSystemRoles_def Let_def)
  ultimately show ?thesis using row perms unfolding in_sync_def by (intro bexI[of _ row]) auto
qed

end
