(* ===== verification/Scenario.thy ===== *)
theory Scenario
  imports Example Waitlist StaffOk
begin

text \<open>
  More of the small institution of \<open>Example\<close>: a catalog of two courses, one required for the other, an
  application on its way, a class with one seat and two people who want it, and two administrators.
  The properties of these parts are exercised on these states.
\<close>

section \<open>Closing an application\<close>

text \<open>The call that closes an open application succeeds for whoever may manage it.\<close>

lemma open_closes:
  assumes found: "application_row i d = Inr r" and ids: "ids_distinct (applications d)" and open_now: "\<not> isClosed (app_status r)"
    and may: "assertScope grants ''admissions.manage'' (at_branch (app_branchId r)) = Inr ()"
  shows "\<exists>r' d'. transition e i AppWithdrawn (version r) grants a d = Inr (r', d') \<and> app_status r' = AppWithdrawn
    \<and> (\<forall>target v. \<exists>err. transition e i target v grants a d' = Inl err)"
proof -
  let ?f = "\<lambda>r. r\<lparr>app_status := AppWithdrawn, updatedBy := Some (actor_userId a)\<rparr>"
  let ?r = "(touch e (?f r))\<lparr>version := version r + 1\<rparr>"
  let ?rows = "update_where (\<lambda>x. row_id x = i) (\<lambda>x. (touch e (?f x))\<lparr>version := version r + 1\<rparr>) (applications d)"
  have row: "find_by row_id i (applications d) = Some r" using found by (simp add: application_row_def)
  have can: "canTransition (app_status r) AppWithdrawn"
    using open_now by (cases "app_status r") (auto simp: canTransition_def isClosed_def CLOSED_STATUSES_def)
  have upd: "updateWithVersion e ?f i (version r) (applications d) = (Updated ?r, ?rows)" by (rule updateWithVersion_hit[OF ids row refl])
  obtain d' where d': "transition e i AppWithdrawn (version r) grants a d = Inr (?r, d')" "applications d' = ?rows"
    by (simp add: transition_def found may can upd versionedRow_def throwIf_def)
  have "find_by row_id i ?rows = Some ?r"
    using row find_by_key[OF row] by (simp add: find_by_update_where touch_def)
  then have again: "application_row i d' = Inr ?r" by (simp add: application_row_def d'(2))
  then have "\<exists>err. transition e i target v grants a d' = Inl err" for target v
    using may by (simp add: transition_def again canTransition_def touch_def throwIf_def assertScope_def)
  then show ?thesis using d'(1) by (intro exI[of _ ?r] exI[of _ d']) (simp add: touch_def)
qed


section \<open>A catalog\<close>

definition demo_rights :: "grant list" where
  "demo_rights = map (\<lambda>p. \<lparr>gr_permission = p, gr_scope = Global\<rparr>)
     [''catalog.manage'', ''admissions.manage'', ''placement.record'', ''cohorts.manage'', ''enrollments.manage'', ''results.record'']"

definition demo_catalog :: db where
  "demo_catalog = demo_db\<lparr>courses := []\<rparr>"

definition demo_new_course :: "string \<Rightarrow> create_course" where
  "demo_new_course code = \<lparr>ccr_programId = 6, ccr_code = code, ccr_name = ''English'', ccr_levelOrder = 1, ccr_durationWeeks = None,
     ccr_totalHours = None, ccr_minAttendancePercent = None, ccr_minScore = None, ccr_certificateEligible = True, ccr_sortOrder = 0\<rparr>"

definition demo_made_course :: "uuid \<Rightarrow> string \<Rightarrow> course_row" where
  "demo_made_course i code = base_row.extend (demo_made i) (course_row.fields 6 code ''English'' 1 None None None None True True 0)"

definition demo_catalog1 :: db where
  "demo_catalog1 = demo_catalog\<lparr>next_id := 101, courses := [demo_made_course 100 ''A1'']\<rparr>"

definition demo_catalog2 :: db where
  "demo_catalog2 = demo_catalog\<lparr>next_id := 102, courses := [demo_made_course 100 ''A1'', demo_made_course 101 ''A2'']\<rparr>"

definition demo_catalog3 :: db where
  "demo_catalog3 = demo_catalog\<lparr>next_id := 102,
     courses := [demo_made_course 100 ''A1'', (demo_made_course 101 ''A2'')\<lparr>version := 2\<rparr>],
     course_prerequisites := [\<lparr>pre_courseId = 101, pre_prerequisiteCourseId = 100\<rparr>]\<rparr>"

lemma demo_create_course:
  "\<exists>c d'. createCourse demo_env (demo_new_course ''A1'') demo_rights demo_manager demo_catalog = Inr (c, d')
     \<and> next_id d' = 101 \<and> courses d' = [demo_made_course 100 ''A1''] \<and> course_prerequisites d' = [] \<and> academic_years d' = [] \<and> holidays d' = []"
  "\<exists>c d'. createCourse demo_env (demo_new_course ''A2'') demo_rights demo_manager demo_catalog1 = Inr (c, d')
     \<and> next_id d' = 102 \<and> courses d' = [demo_made_course 100 ''A1'', demo_made_course 101 ''A2''] \<and> course_prerequisites d' = []
     \<and> academic_years d' = [] \<and> holidays d' = []"
proof -
  have p: "program_or_missing 6 demo_catalog = Inr demo_program" "program_or_missing 6 demo_catalog1 = Inr demo_program" by code_simp+
  have g: "assertScope demo_rights ''catalog.manage'' (at_department (prog_departmentId demo_program)) = Inr ()" by code_simp
  show "\<exists>c d'. createCourse demo_env (demo_new_course ''A1'') demo_rights demo_manager demo_catalog = Inr (c, d')
     \<and> next_id d' = 101 \<and> courses d' = [demo_made_course 100 ''A1''] \<and> course_prerequisites d' = [] \<and> academic_years d' = [] \<and> holidays d' = []"
    by (simp add: createCourse_def p g take_id_def Let_def demo_new_course_def)
      (simp add: demo_catalog_def demo_db_def demo_made_course_def demo_made_def demo_env_def demo_manager_def base_row.defs course_row.defs)
  show "\<exists>c d'. createCourse demo_env (demo_new_course ''A2'') demo_rights demo_manager demo_catalog1 = Inr (c, d')
     \<and> next_id d' = 102 \<and> courses d' = [demo_made_course 100 ''A1'', demo_made_course 101 ''A2''] \<and> course_prerequisites d' = []
     \<and> academic_years d' = [] \<and> holidays d' = []"
    by (simp add: createCourse_def p g take_id_def Let_def demo_new_course_def)
      (simp add: demo_catalog1_def demo_catalog_def demo_db_def demo_made_course_def demo_made_def demo_env_def demo_manager_def base_row.defs course_row.defs)
qed

lemma demo_set_prerequisites:
  "\<exists>c d'. setPrerequisites demo_env 101 [100] 1 demo_rights demo_manager demo_catalog2 = Inr (c, d')
     \<and> next_id d' = 102 \<and> courses d' = courses demo_catalog3 \<and> course_prerequisites d' = course_prerequisites demo_catalog3
     \<and> academic_years d' = [] \<and> holidays d' = []"
proof -
  have c: "course_row 101 demo_catalog2 = Inr (demo_made_course 101 ''A2'')" by code_simp
  have p: "program_row (crs_programId (demo_made_course 101 ''A2'')) demo_catalog2 = Inr demo_program" by code_simp
  have g: "assertScope demo_rights ''catalog.manage'' (at_department (prog_departmentId demo_program)) = Inr ()" by code_simp
  have k: "checkPrerequisites 101 (crs_programId (demo_made_course 101 ''A2'')) (new_set [100]) demo_catalog2 = Inr ()" by code_simp
  have u: "updateWithVersion demo_env (\<lambda>r. r\<lparr>updatedBy := Some (actor_userId demo_manager)\<rparr>) 101 1 (courses demo_catalog2)
      = (Updated ((demo_made_course 101 ''A2'')\<lparr>version := 2\<rparr>), courses demo_catalog3)" by code_simp
  show ?thesis
    by (simp add: setPrerequisites_def c p g k u versionedRow_def Let_def)
      (simp add: demo_catalog3_def demo_catalog2_def demo_catalog_def demo_db_def new_set_def)
qed

lemma demo_catalog_reachable: "catalog_reachable demo_catalog3"
proof -
  have start: "catalog_reachable demo_catalog" by (rule catalog_reachable.start) (simp_all add: demo_catalog_def demo_db_def)
  obtain c1 d1 where s1: "createCourse demo_env (demo_new_course ''A1'') demo_rights demo_manager demo_catalog = Inr (c1, d1)"
    and t1: "next_id d1 = 101" "courses d1 = [demo_made_course 100 ''A1'']" "course_prerequisites d1 = []" "academic_years d1 = []" "holidays d1 = []"
    using demo_create_course(1) by blast
  have "catalog_reachable d1" by (rule catalog_reachable.step[OF start catalog_step.create_course[OF s1]])
  then have one: "catalog_reachable demo_catalog1"
    by (rule catalog_reachable.step) (rule catalog_step.elsewhere; simp add: t1 demo_catalog1_def demo_catalog_def demo_db_def)
  obtain c2 d2 where s2: "createCourse demo_env (demo_new_course ''A2'') demo_rights demo_manager demo_catalog1 = Inr (c2, d2)"
    and t2: "next_id d2 = 102" "courses d2 = [demo_made_course 100 ''A1'', demo_made_course 101 ''A2'']" "course_prerequisites d2 = []"
      "academic_years d2 = []" "holidays d2 = []"
    using demo_create_course(2) by blast
  have "catalog_reachable d2" by (rule catalog_reachable.step[OF one catalog_step.create_course[OF s2]])
  then have two: "catalog_reachable demo_catalog2"
    by (rule catalog_reachable.step) (rule catalog_step.elsewhere; simp add: t2 demo_catalog2_def demo_catalog_def demo_db_def)
  obtain c3 d3 where s3: "setPrerequisites demo_env 101 [100] 1 demo_rights demo_manager demo_catalog2 = Inr (c3, d3)"
    and t3: "next_id d3 = 102" "courses d3 = courses demo_catalog3" "course_prerequisites d3 = course_prerequisites demo_catalog3"
      "academic_years d3 = []" "holidays d3 = []"
    using demo_set_prerequisites by blast
  have "catalog_reachable d3" by (rule catalog_reachable.step[OF two catalog_step.set_prerequisites[OF s3]])
  then show ?thesis
    by (rule catalog_reachable.step) (rule catalog_step.elsewhere; simp add: t3 demo_catalog3_def demo_catalog_def demo_db_def)
qed

section \<open>An application from the website\<close>

definition demo_form :: pre_registration where
  "demo_form = \<lparr>pre_givenName = ''Hana'', pre_fatherName = ''Tesfaye'', pre_grandfatherName = None, pre_gender = Female, pre_dateOfBirth = None,
     pre_phone = ''+251911000000'', pre_email = None, pre_city = None, pre_branchId = 4, pre_desiredCourseId = 7, pre_preferredShiftId = None,
     pre_preferredIntakeId = None, pre_guardianName = None, pre_guardianPhone = None, pre_message = None\<rparr>"

definition demo_application :: application_row where
  "demo_application = new_application demo_env None 100 (website_values demo_form None) (JObj []) ''APP-2608-0001''"

definition demo_applied :: db where
  "demo_applied = demo_db\<lparr>next_id := 101, applications := [demo_application]\<rparr>"

lemma demo_submit:
  "\<exists>d'. submitFromWebsite demo_env demo_form demo_db = Inr (Some ''APP-2608-0001'', d')
     \<and> next_id d' = 101 \<and> applications d' = [demo_application] \<and> branches d' = branches demo_db \<and> programs d' = programs demo_db
     \<and> courses d' = courses demo_db"
proof -
  let ?rows = "[\<lparr>nc_seriesKey = ''application'', nc_scope = ''APP-2608-{SEQ}'', nc_lastValue = 1, nc_updatedAt = 5\<rparr>]"
  have b: "isActiveUnit (Branch (pre_branchId demo_form)) demo_db" by code_simp
  have c: "checkReferences (Some (pre_desiredCourseId demo_form)) (pre_preferredShiftId demo_form) (pre_preferredIntakeId demo_form) demo_db = Inr ()"
    by code_simp
  have n: "next_number demo_env SeriesApplication (Some (pre_branchId demo_form)) demo_db
      = Inr (\<lparr>issued_number = ''APP-2608-0001'', issued_sequence = 1\<rparr>, demo_db\<lparr>number_counters := ?rows\<rparr>)" by code_simp
  have s: "isActiveCode ''lead_source'' ''website'' demo_db = False" by code_simp
  have t: "applications demo_db = []" "next_id demo_db = 100" by (simp_all add: demo_db_def)
  have r: "app_reference demo_application = ''APP-2608-0001''" by (simp add: demo_application_def new_application_def)
  show ?thesis
    by (simp add: submitFromWebsite_def b c n s t take_id_def insertApplication_def demo_application_def[symmetric] r Let_def)
qed

lemma demo_applied_reachable: "people_reachable demo_applied"
proof -
  have start: "people_reachable demo_db" by (rule people_reachable.start) (simp add: demo_db_def)
  obtain d' where s: "submitFromWebsite demo_env demo_form demo_db = Inr (Some ''APP-2608-0001'', d')"
    and t: "next_id d' = 101" "applications d' = [demo_application]" using demo_submit by blast
  have "people_reachable d'" by (rule people_reachable.step[OF start people_step.submit[OF s]])
  then show ?thesis by (rule people_reachable.step) (rule people_step.elsewhere; simp add: t demo_applied_def)
qed

section \<open>A class with one seat\<close>

definition demo_clock :: env where
  "demo_clock = demo_env\<lparr>zoned := (\<lambda>d clock zone. days_of d * 10 + (if clock = ''09:00'' then 0 else 1))\<rparr>"

definition demo_shift :: shift_row where
  "demo_shift = base_row.extend (demo_base 9) (shift_row.fields ''AM'' ''Morning'' [1, 2, 3, 4, 5] ''09:00'' ''11:00'' True)"

definition demo_room :: room_row where
  "demo_room = base_row.extend (demo_base 10) (room_row.fields 4 ''R1'' ''Room 1'' Classroom 1 [] True)"

definition demo_second :: student_row where
  "demo_second = base_row.extend (demo_base 15)
     (student_row.fields ''STU-2'' ''Hana'' ''Tesfaye'' None Female None ''0912'' None None None StActive 4 None (JObj []))"

definition demo_moved :: descriptor_row where
  "demo_moved = base_row.extend (demo_base 16) (descriptor_row.fields ''withdrawal_reason'' ''moved'' ''Moved away'' 0 True)"

definition demo_school :: db where
  "demo_school = demo_db\<lparr>cohorts := [], enrollments := [], shifts := [demo_shift], rooms := [demo_room],
     students := [demo_student, demo_second], descriptors := [demo_moved]\<rparr>"

definition demo_may :: "grant list" where
  "demo_may = demo_rights @ [\<lparr>gr_permission = ''cohorts.read'', gr_scope = Global\<rparr>]"

definition demo_plan_class :: create_cohort where
  "demo_plan_class = \<lparr>cco_name = ''A1'', cco_courseId = 7, cco_intakeId = None, cco_shiftId = 9, cco_roomId = 10, cco_instructorId = None,
     cco_startDate = Date 2026 8 3, cco_endDate = Date 2026 8 4, cco_maxSize = 20\<rparr>"

definition demo_class :: "cohort_status \<Rightarrow> cohort_row" where
  "demo_class s = (new_cohort demo_clock demo_manager 100 demo_plan_class 4)\<lparr>coh_status := s, version := (if s = Planned then 1 else 2)\<rparr>"

definition demo_sessions :: "session_row list" where
  "demo_sessions = [new_session demo_clock ''Africa/Addis_Ababa'' demo_shift (demo_class Planned) 101 (Date 2026 8 3),
     new_session demo_clock ''Africa/Addis_Ababa'' demo_shift (demo_class Planned) 102 (Date 2026 8 4)]"

definition demo_planned :: db where
  "demo_planned = demo_school\<lparr>next_id := 103, cohorts := [demo_class Planned], class_sessions := demo_sessions\<rparr>"

definition demo_open :: db where
  "demo_open = demo_planned\<lparr>cohorts := [demo_class Open]\<rparr>"

definition demo_first_seat :: enrollment_row where
  "demo_first_seat = new_enrollment demo_clock demo_manager 103 8 100 True"

definition demo_in_queue :: enrollment_row where
  "demo_in_queue = new_enrollment demo_clock demo_manager 104 15 100 False"

definition demo_seated :: db where
  "demo_seated = demo_open\<lparr>next_id := 104, enrollments := [demo_first_seat]\<rparr>"

definition demo_full :: db where
  "demo_full = demo_open\<lparr>next_id := 105, enrollments := [demo_first_seat, demo_in_queue]\<rparr>"

lemma demo_class_id [simp]: "row_id (demo_class s) = 100"
  by (simp add: demo_class_def new_cohort_def)

lemma demo_rows: "row_id demo_student = 8" "row_id demo_second = 15" "row_id demo_first_seat = 103" "row_id demo_in_queue = 104"
  "enr_studentId demo_first_seat = 8" "enr_studentId demo_in_queue = 15" "enr_cohortId demo_first_seat = 100" "enr_cohortId demo_in_queue = 100"
  by code_simp+

lemma demo_may_read: "assertBranchAccess demo_may ''cohorts.read'' (coh_branchId (demo_class s)) = Inr ()"
proof -
  have "coh_branchId (demo_class s) = 4" by (simp add: demo_class_def new_cohort_def)
  moreover have "assertBranchAccess demo_may ''cohorts.read'' 4 = Inr ()" by code_simp
  ultimately show ?thesis by simp
qed

lemma demo_class_made:
  "\<exists>v d'. createCohort demo_clock demo_plan_class demo_may demo_manager demo_school = Inr (v, d')
     \<and> next_id d' = 103 \<and> cohorts d' = [demo_class Planned] \<and> class_sessions d' = demo_sessions \<and> enrollments d' = []"
proof -
  let ?refs = "\<lparr>cr_courseId = cco_courseId demo_plan_class, cr_shiftId = cco_shiftId demo_plan_class, cr_roomId = cco_roomId demo_plan_class,
              cr_intakeId = cco_intakeId demo_plan_class, cr_instructorId = cco_instructorId demo_plan_class\<rparr>"
  have r: "resolve_refs ?refs demo_school = Inr ((demo_course, 5), demo_shift, demo_room)" by code_simp
  have g: "assertScope demo_may ''cohorts.manage'' (cohort_target (Some 5) (rm_branchId demo_room)) = Inr ()" by code_simp
  let ?d1 = "demo_school\<lparr>next_id := 101, cohorts := [demo_class Planned]\<rparr>"
  have c: "new_cohort demo_clock demo_manager (next_id demo_school) demo_plan_class (rm_branchId demo_room) = demo_class Planned" by code_simp
  have e: "cohorts demo_school = []" by (simp add: demo_school_def demo_db_def)
  have s: "generateSessions demo_clock (demo_class Planned) demo_shift ?d1
      = Inr (2, ?d1\<lparr>next_id := 103, class_sessions := demo_sessions\<rparr>)" by code_simp
  have i: "next_id demo_school = 100" by (simp add: demo_school_def demo_db_def)
  have v: "\<exists>v. getCohort 100 demo_may d = Inr v" if "cohorts d = [demo_class Planned]" for d :: db
    using demo_may_read[of Planned] that by (simp add: getCohort_def cohort_row_def demo_class_id)
  show ?thesis
    by (simp add: createCohort_def r g c[unfolded i] e i s take_id_def Let_def)
      (simp add: v demo_school_def demo_db_def)
qed

lemma demo_class_opened:
  "\<exists>v d'. setCohortStatus demo_clock 100 Open 1 demo_may demo_manager demo_planned = Inr (v, d')
     \<and> next_id d' = 103 \<and> cohorts d' = [demo_class Open] \<and> class_sessions d' = demo_sessions \<and> enrollments d' = []"
proof -
  have r: "cohort_row 100 demo_planned = Inr (demo_class Planned)" by code_simp
  have c: "findWithDepartment (coh_courseId (demo_class Planned)) demo_planned = Inr (Some (demo_course, 5))" by code_simp
  have g: "assertScope demo_may ''cohorts.manage'' (cohort_target (Some 5) (coh_branchId (demo_class Planned))) = Inr ()"
    by code_simp
  have t: "Open \<in> set (COHORT_TRANSITIONS (coh_status (demo_class Planned)))" by code_simp
  have u: "updateWithVersion demo_clock (\<lambda>r. r\<lparr>coh_status := Open, updatedBy := Some (actor_userId demo_manager)\<rparr>) 100 1 (cohorts demo_planned)
      = (Updated (demo_class Open), [demo_class Open])" by code_simp
  have v: "\<exists>v. getCohort 100 demo_may d = Inr v" if "cohorts d = [demo_class Open]" for d :: db
    using demo_may_read[of Open] that by (simp add: getCohort_def cohort_row_def demo_class_id)
  show ?thesis
    by (simp add: setCohortStatus_def r c g t u versionedRow_def Let_def)
      (simp add: v demo_planned_def demo_school_def demo_db_def)
qed

lemma demo_first_enrolled:
  "\<exists>v d'. enroll demo_clock 8 100 demo_may demo_manager demo_open = Inr ((True, v), d')
     \<and> next_id d' = 104 \<and> cohorts d' = [demo_class Open] \<and> class_sessions d' = demo_sessions \<and> enrollments d' = [demo_first_seat]"
proof -
  have r: "cohort_row 100 demo_open = Inr (demo_class Open)" by code_simp
  have g: "assertScope demo_may ''enrollments.manage'' (at_branch (coh_branchId (demo_class Open))) = Inr ()" by code_simp
  have t: "coh_status (demo_class Open) \<in> set ENROLLING_COHORT_STATUSES" by code_simp
  have s: "requireExisting 8 demo_open = Inr demo_student" "st_status demo_student = StActive" by code_simp+
  have q: "assertPrerequisites 8 (coh_courseId (demo_class Open)) demo_open = Inr ()" by code_simp
  have n: "(int (activeCount (row_id (demo_class Open)) demo_open) < seatsOf (demo_class Open) demo_open) = True" by code_simp
  have e: "enrollments demo_open = []" "next_id demo_open = 103" "applications demo_open = []"
    by (simp_all add: demo_open_def demo_planned_def demo_school_def demo_db_def)
  have m: "markEnrolled e k d = d" if "applications d = []" for e k and d :: db using that by (simp add: markEnrolled_def Let_def)
  have v: "\<exists>v. presentEnrollment 103 d = Some v" if "enrollments d = [demo_first_seat]" "students d = [demo_student, demo_second]" "cohorts d = [demo_class Open]" for d :: db
    using that by (simp add: presentEnrollment_def demo_rows)
  show ?thesis
    by (simp add: enroll_def r g t s q n[unfolded demo_class_id] e take_id_def m demo_first_seat_def[symmetric] Let_def audit_def record_audit_def)
      (simp add: v demo_open_def demo_planned_def demo_school_def demo_db_def)
qed

lemma demo_second_waits:
  "\<exists>v d'. enroll demo_clock 15 100 demo_may demo_manager demo_seated = Inr ((False, v), d')
     \<and> next_id d' = 105 \<and> cohorts d' = [demo_class Open] \<and> class_sessions d' = demo_sessions
     \<and> enrollments d' = [demo_first_seat, demo_in_queue]"
proof -
  have r: "cohort_row 100 demo_seated = Inr (demo_class Open)" by code_simp
  have g: "assertScope demo_may ''enrollments.manage'' (at_branch (coh_branchId (demo_class Open))) = Inr ()" by code_simp
  have t: "coh_status (demo_class Open) \<in> set ENROLLING_COHORT_STATUSES" by code_simp
  have s: "requireExisting 15 demo_seated = Inr demo_second" "st_status demo_second = StActive" by code_simp+
  have q: "assertPrerequisites 15 (coh_courseId (demo_class Open)) demo_seated = Inr ()" by code_simp
  have n: "(int (activeCount (row_id (demo_class Open)) demo_seated) < seatsOf (demo_class Open) demo_seated) = False" by code_simp
  have e: "enrollments demo_seated = [demo_first_seat]" "next_id demo_seated = 104"
    by (simp_all add: demo_seated_def demo_open_def demo_planned_def demo_school_def demo_db_def)
  have v: "\<exists>v. presentEnrollment 104 d = Some v" if "enrollments d = [demo_first_seat, demo_in_queue]" "students d = [demo_student, demo_second]"
      "cohorts d = [demo_class Open]" for d :: db
    using that by (simp add: presentEnrollment_def demo_rows)
  have k: "enr_studentId demo_first_seat = 8" "enrollment_clash demo_in_queue demo_first_seat = False" by code_simp+
  show ?thesis
    by (simp add: enroll_def r g t s q n[unfolded demo_class_id] e take_id_def k demo_in_queue_def[symmetric] Let_def)
      (simp add: v demo_seated_def demo_open_def demo_planned_def demo_school_def demo_db_def)
qed

lemma demo_classes_reachable: "classes_reachable demo_open" "classes_reachable demo_seated" "classes_reachable demo_full"
proof -
  have school: "classes_reachable demo_school" by (rule classes_reachable.start) (simp_all add: demo_school_def demo_db_def)
  obtain v1 d1 where s1: "createCohort demo_clock demo_plan_class demo_may demo_manager demo_school = Inr (v1, d1)"
    and t1: "next_id d1 = 103" "cohorts d1 = [demo_class Planned]" "class_sessions d1 = demo_sessions" "enrollments d1 = []"
    using demo_class_made by blast
  have "classes_reachable d1" by (rule classes_reachable.step[OF school classes_step.create[OF s1]]) code_simp
  then have planned: "classes_reachable demo_planned"
    by (rule classes_reachable.elsewhere) (simp_all add: t1 demo_planned_def demo_school_def demo_db_def)
  obtain v2 d2 where s2: "setCohortStatus demo_clock 100 Open 1 demo_may demo_manager demo_planned = Inr (v2, d2)"
    and t2: "next_id d2 = 103" "cohorts d2 = [demo_class Open]" "class_sessions d2 = demo_sessions" "enrollments d2 = []"
    using demo_class_opened by blast
  have "classes_reachable d2" by (rule classes_reachable.step[OF planned classes_step.move[OF s2]])
  then show opened: "classes_reachable demo_open"
    by (rule classes_reachable.elsewhere) (simp_all add: t2 demo_open_def demo_planned_def demo_school_def demo_db_def)
  obtain v3 d3 where s3: "enroll demo_clock 8 100 demo_may demo_manager demo_open = Inr ((True, v3), d3)"
    and t3: "next_id d3 = 104" "cohorts d3 = [demo_class Open]" "class_sessions d3 = demo_sessions" "enrollments d3 = [demo_first_seat]"
    using demo_first_enrolled by blast
  have "classes_reachable d3" by (rule classes_reachable.step[OF opened classes_step.enroll[OF s3]])
  then show seated: "classes_reachable demo_seated"
    by (rule classes_reachable.elsewhere) (simp_all add: t3 demo_seated_def demo_open_def demo_planned_def)
  obtain v4 d4 where s4: "enroll demo_clock 15 100 demo_may demo_manager demo_seated = Inr ((False, v4), d4)"
    and t4: "next_id d4 = 105" "cohorts d4 = [demo_class Open]" "class_sessions d4 = demo_sessions" "enrollments d4 = [demo_first_seat, demo_in_queue]"
    using demo_second_waits by blast
  have "classes_reachable d4" by (rule classes_reachable.step[OF seated classes_step.enroll[OF s4]])
  then show "classes_reachable demo_full"
    by (rule classes_reachable.elsewhere) (simp_all add: t4 demo_full_def demo_open_def demo_planned_def)
qed

lemma demo_seat_given_back:
  "\<exists>v w d'. withdraw demo_clock 103 ''moved'' 1 demo_may demo_manager demo_full = Inr ((v, w), d')"
proof -
  have f: "enrollment_row 103 demo_full = Inr demo_first_seat" by code_simp
  have r: "cohort_row (enr_cohortId demo_first_seat) demo_full = Inr (demo_class Open)" by code_simp
  have g: "assertScope demo_may ''enrollments.manage'' (at_branch (coh_branchId (demo_class Open))) = Inr ()" by code_simp
  have a: "enr_status demo_first_seat = EnrActive" by code_simp
  have c: "assertActiveCode ''withdrawal_reason'' (Some ''moved'') demo_full = Inr ()" by code_simp
  obtain r1 rows where u: "updateWithVersion demo_clock (apply_withdrawal demo_clock ''moved'' demo_manager) 103 1 (enrollments demo_full) = (Updated r1, rows)"
    and rows: "map row_id rows = [103, 104]" "map enr_studentId rows = [8, 15]" "map enr_cohortId rows = [100, 100]" by (rule that) code_simp+
  have v: "\<exists>v. presentEnrollment 103 d = Some v" if "map row_id (enrollments d) = [103, 104]" "map enr_studentId (enrollments d) = [8, 15]"
      "map enr_cohortId (enrollments d) = [100, 100]" "students d = [demo_student, demo_second]" "cohorts d = [demo_class Open]" for d :: db
    using that by (auto simp: presentEnrollment_def demo_rows)
  define d1 where "d1 = audit demo_clock ''enrollment.withdrawn'' ''enrollment'' (JUuid 103)
       [(''cohortId'', JUuid (row_id (demo_class Open))), enrollment_change EnrActive EnrWithdrawn, (''reason'', JStr ''moved'')]
       (demo_full\<lparr>enrollments := rows\<rparr>)"
  have t1: "enrollments d1 = rows" "students d1 = [demo_student, demo_second]" "cohorts d1 = [demo_class Open]" "applications d1 = []"
    by (simp_all add: d1_def audit_def record_audit_def demo_full_def demo_open_def demo_planned_def demo_school_def demo_db_def)
  obtain k d2 where p: "promoteWaiting demo_clock (demo_class Open) demo_manager d1 = (k, d2)" by fastforce
  have "map row_id (enrollments d2) = [103, 104] \<and> map enr_studentId (enrollments d2) = [8, 15] \<and> map enr_cohortId (enrollments d2) = [100, 100]
      \<and> students d2 = [demo_student, demo_second] \<and> cohorts d2 = [demo_class Open]"
    using p rows t1 by (auto simp: promoteWaiting_def markEnrolled_def Let_def map_update_where audit_def record_audit_def split: if_splits list.splits)
  then have "\<exists>v1. presentEnrollment 103 d2 = Some v1" by (intro v) simp_all
  then obtain v1 where v1: "presentEnrollment 103 d2 = Some v1" by blast
  have st: "coh_status (demo_class Open) \<noteq> Cancelled" by code_simp
  show ?thesis
    by (simp add: withdraw_def f r g a c u versionedRow_def Let_def st p v1 d1_def[symmetric, unfolded demo_class_id] demo_class_id)
qed

end
