(* ===== verification/SchoolProperties.thy ===== *)
theory SchoolProperties
  imports Scenario
begin

text \<open>
  The properties of the school's side: the catalog, the admissions pipeline, classes and their seats.
  Each stands on the component theories and is exercised on the states of \<open>Scenario\<close>.
\<close>

section \<open>Catalog\<close>

text \<open>
  C23. Whatever is done to the catalog, its courses can be ordered so that each comes after all those
  it requires, and no two school years overlap.
\<close>

theorem courses_can_be_ordered:
  assumes "catalog_reachable d"
  shows "(\<exists>order. set order = row_id ` set (courses d) \<and> distinct order
      \<and> (\<forall>p \<in> set (course_prerequisites d). \<exists>i j. j < i \<and> i < length order \<and> order ! i = pre_courseId p \<and> order ! j = pre_prerequisiteCourseId p))
    \<and> (\<forall>x \<in> set (academic_years d). \<forall>y \<in> set (academic_years d). row_id x \<noteq> row_id y \<longrightarrow> \<not> years_overlap x y)"
proof
  have ok: "prerequisites_ok d" and years: "calendar_ok d" using reachable_catalog[OF assms] by simp_all
  obtain order where order: "set order = row_id ` set (courses d)" "distinct order"
    and up: "\<And>i j. i < length order \<Longrightarrow> j < length order \<Longrightarrow> (order ! i, order ! j) \<in> prereq_rel d \<Longrightarrow> j < i"
    using prerequisites_order[OF ok] by blast
  have "\<exists>i j. j < i \<and> i < length order \<and> order ! i = pre_courseId p \<and> order ! j = pre_prerequisiteCourseId p"
    if p: "p \<in> set (course_prerequisites d)" for p
  proof -
    have rel: "(pre_courseId p, pre_prerequisiteCourseId p) \<in> prereq_rel d" using p by (auto simp: prereq_rel_def)
    then have "pre_courseId p \<in> set order" "pre_prerequisiteCourseId p \<in> set order"
      using ok by (force simp: order(1) prerequisites_ok_def course_keys_def)+
    then obtain i j where ij: "i < length order" "order ! i = pre_courseId p" "j < length order" "order ! j = pre_prerequisiteCourseId p"
      by (metis in_set_conv_nth)
    then have "j < i" using up[of i j] rel by simp
    then show ?thesis using ij by blast
  qed
  then show "\<exists>order. set order = row_id ` set (courses d) \<and> distinct order
      \<and> (\<forall>p \<in> set (course_prerequisites d). \<exists>i j. j < i \<and> i < length order \<and> order ! i = pre_courseId p \<and> order ! j = pre_prerequisiteCourseId p)"
    using order by blast
  show "\<forall>x \<in> set (academic_years d). \<forall>y \<in> set (academic_years d). row_id x \<noteq> row_id y \<longrightarrow> \<not> years_overlap x y"
    using years by (auto simp: calendar_ok_def exclusive_def year_clash_def)
qed

theorem courses_can_be_ordered_witness:
  "(\<exists>order. set order = row_id ` set (courses demo_catalog3) \<and> distinct order
      \<and> (\<forall>p \<in> set (course_prerequisites demo_catalog3). \<exists>i j. j < i \<and> i < length order \<and> order ! i = pre_courseId p \<and> order ! j = pre_prerequisiteCourseId p))
    \<and> length (course_prerequisites demo_catalog3) = 1"
  using courses_can_be_ordered[OF demo_catalog_reachable] by (simp add: demo_catalog3_def)

text \<open>
  C24. The search that guards prerequisites is exact: it reports a cycle when, and only when, one of the
  proposed prerequisites leads back to the course along the edges there are.
\<close>

theorem cycle_check_exact:
  "wouldCreateCycle graph course proposed \<longleftrightarrow> (\<exists>p \<in> set proposed. (p, course) \<in> (graph_rel graph)\<^sup>*)"
  by (rule wouldCreateCycle_iff)

section \<open>Admissions\<close>

text \<open>
  C25. Every application is well formed: it has its student from confirmation on and not before, and a
  placed one has its score, its course and the time it was placed.
\<close>

theorem applications_are_typed:
  assumes "people_reachable d" "r \<in> set (applications d)"
  shows "(app_status r \<in> {Confirmed, Enrolled} \<longrightarrow> app_studentId r \<noteq> None)
    \<and> (app_studentId r \<noteq> None \<longrightarrow> app_status r \<in> {Confirmed, Enrolled, AppWithdrawn})
    \<and> (app_status r = Placed \<longrightarrow> app_placementScore r \<noteq> None \<and> app_placementCourseId r \<noteq> None \<and> app_placedAt r \<noteq> None)"
  using reachable_applications[OF assms(1)] assms(2) by (simp add: app_ok_def placed_result_def)

theorem applications_are_typed_witness: "app_status demo_application = Submitted \<and> app_studentId demo_application = None"
  using applications_are_typed[OF demo_applied_reachable, of demo_application]
  by (simp add: demo_applied_def demo_application_def new_application_def)

text \<open>
  C26. The services implement the pipeline: in one call every application stays as it is or makes one
  move of \<open>app_move\<close>, so its status follows the diagram, its number and branch never change, a student
  once linked stays linked, a closed one is left alone, and new ones are submitted without a student.
\<close>

theorem admissions_refine:
  assumes "people_reachable d" "people_step d d'"
  shows "(\<forall>r' \<in> set (applications d'). app_born r' \<or> (\<exists>r \<in> set (applications d). row_id r = row_id r' \<and> (r' = r \<or> app_move r r')))
    \<and> (\<forall>r \<in> set (applications d). \<exists>r' \<in> set (applications d'). row_id r' = row_id r \<and> app_reference r' = app_reference r
      \<and> (app_status r' = app_status r \<or> canTransition (app_status r) (app_status r'))
      \<and> (isClosed (app_status r) \<longrightarrow> r' = r) \<and> (app_studentId r \<noteq> None \<longrightarrow> app_studentId r' = app_studentId r))"
proof (intro conjI ballI)
  have step: "table_step app_born app_move (next_id d) (applications d) (applications d')"
    using people_step_apps[OF assms(2)] reachable_applications[OF assms(1)] by blast
  show "app_born r' \<or> (\<exists>r \<in> set (applications d). row_id r = row_id r' \<and> (r' = r \<or> app_move r r'))"
    if "r' \<in> set (applications d')" for r'
    using step that unfolding table_step_def by blast
  show "\<exists>r' \<in> set (applications d'). row_id r' = row_id r \<and> app_reference r' = app_reference r
      \<and> (app_status r' = app_status r \<or> canTransition (app_status r) (app_status r'))
      \<and> (isClosed (app_status r) \<longrightarrow> r' = r) \<and> (app_studentId r \<noteq> None \<longrightarrow> app_studentId r' = app_studentId r)"
    if old: "r \<in> set (applications d)" for r
  proof -
    obtain r' where r': "r' \<in> set (applications d')" "row_id r' = row_id r" "r' = r \<or> app_move r r'"
      using step old unfolding table_step_def by blast
    from r'(3) have "app_reference r' = app_reference r \<and> (app_status r' = app_status r \<or> canTransition (app_status r) (app_status r'))
      \<and> (isClosed (app_status r) \<longrightarrow> r' = r) \<and> (app_studentId r \<noteq> None \<longrightarrow> app_studentId r' = app_studentId r)"
    proof
      assume move: "app_move r r'"
      then have "app_reference r' = app_reference r" "\<not> isClosed (app_status r)" unfolding app_move_def by blast+
      then show ?thesis using app_move_status[OF move] app_move_student[OF move] by fastforce
    qed simp
    then show ?thesis using r'(1,2) by blast
  qed
qed

theorem admissions_refine_witness:
  "\<exists>d'. submitFromWebsite demo_env demo_form demo_db = Inr (Some ''APP-2608-0001'', d') \<and> (\<forall>r \<in> set (applications d'). app_born r)"
proof -
  obtain d' where s: "submitFromWebsite demo_env demo_form demo_db = Inr (Some ''APP-2608-0001'', d')" using demo_submit by blast
  have start: "people_reachable demo_db" by (rule people_reachable.start) (simp add: demo_db_def)
  have none: "applications demo_db = []" by (simp add: demo_db_def)
  from admissions_refine[OF start people_step.submit[OF s]] s show ?thesis by (auto simp: none)
qed

text \<open>
  C27. An open application can always be closed: whoever may manage it withdraws it with one call that
  cannot fail, and after that every further move is refused.
\<close>

theorem open_application_closes:
  assumes "people_reachable d" "application_row i d = Inr r" "\<not> isClosed (app_status r)"
    and "assertScope grants ''admissions.manage'' (at_branch (app_branchId r)) = Inr ()"
  shows "\<exists>r' d'. transition e i AppWithdrawn (version r) grants a d = Inr (r', d') \<and> app_status r' = AppWithdrawn
    \<and> (\<forall>target v. \<exists>err. transition e i target v grants a d' = Inl err)"
proof -
  have "ids_distinct (applications d)" using reachable_applications[OF assms(1)] by (simp add: issued_before_def)
  then show ?thesis using open_closes assms(2-4) by blast
qed

theorem open_application_closes_witness:
  "\<exists>r' d'. transition demo_env 100 AppWithdrawn 1 demo_rights demo_manager demo_applied = Inr (r', d') \<and> app_status r' = AppWithdrawn"
proof -
  have row: "application_row 100 demo_applied = Inr demo_application"
    by (simp add: application_row_def demo_applied_def demo_application_def new_application_def)
  have v: "version demo_application = 1" "\<not> isClosed (app_status demo_application)" by code_simp+
  have may: "assertScope demo_rights ''admissions.manage'' (at_branch (app_branchId demo_application)) = Inr ()" by code_simp
  from open_application_closes[OF demo_applied_reachable row v(2) may, unfolded v(1)] show ?thesis by blast
qed

section \<open>Classes\<close>

text \<open>
  C28. In every reachable state a student holds at most one place in a class; nobody is left seated or
  waiting in a cancelled class or seated in a finished one; no class has more seated students than its
  size; no two classes use a room, or a teacher, at the same time.
\<close>

theorem classes_are_sound:
  assumes "classes_reachable d"
  shows "(\<forall>x \<in> set (enrollments d). \<forall>y \<in> set (enrollments d). row_id x \<noteq> row_id y \<longrightarrow> \<not> enrollment_clash x y)
    \<and> (\<forall>x \<in> set (enrollments d). \<exists>c \<in> set (cohorts d). row_id c = enr_cohortId x \<and> (coh_status c = Cancelled \<longrightarrow> \<not> live x)
         \<and> (coh_status c = CohCompleted \<longrightarrow> enr_status x \<noteq> EnrActive))
    \<and> (\<forall>c \<in> set (cohorts d). int (activeCount (row_id c) d) \<le> coh_maxSize c)
    \<and> (\<forall>x \<in> set (class_sessions d). \<forall>y \<in> set (class_sessions d). row_id x \<noteq> row_id y \<longrightarrow> times_overlap x y \<longrightarrow>
         ses_roomId x \<noteq> ses_roomId y \<and> (ses_instructorId x = None \<or> ses_instructorId x \<noteq> ses_instructorId y))"
proof -
  have ok: "classes_ok d" by (rule reachable_classes[OF assms])
  then have free: "sessions_free (next_id d) (class_sessions d)" by (simp add: classes_ok_def cohort_tables_ok_def sessions_ok_def)
  have "\<forall>x \<in> set (class_sessions d). \<forall>y \<in> set (class_sessions d). row_id x \<noteq> row_id y \<longrightarrow> times_overlap x y \<longrightarrow>
         ses_roomId x \<noteq> ses_roomId y \<and> (ses_instructorId x = None \<or> ses_instructorId x \<noteq> ses_instructorId y)"
    using free unfolding sessions_free_def exclusive_def room_clash_def instructor_clash_def by blast
  then show ?thesis using ok unfolding classes_ok_def exclusive_def placed_ok_def by blast
qed

theorem classes_are_sound_witness:
  "\<exists>c \<in> set (cohorts demo_full). row_id c = 100 \<and> activeCount 100 demo_full = 1 \<and> int (activeCount (row_id c) demo_full) \<le> coh_maxSize c"
proof -
  have "activeCount 100 demo_full = 1" by code_simp
  moreover have "\<exists>c \<in> set (cohorts demo_full). row_id c = 100" by code_simp
  ultimately show ?thesis using classes_are_sound[OF demo_classes_reachable(3)] by blast
qed

text \<open>
  C29. No call overbooks a class: whatever is done, afterwards a class has at most as many seated
  students as it has seats (its size or its room, the smaller), or as it had before.
\<close>

theorem seats_bounded:
  assumes "classes_reachable d" "classes_step d d'" "c \<in> set (cohorts d')"
  shows "int (activeCount (row_id c) d') \<le> max (int (activeCount (row_id c) d)) (seatsOf c d')"
  using seats_kept[OF assms(2) reachable_classes[OF assms(1)] assms(3)] .

theorem seats_bounded_witness:
  "\<exists>d'. classes_step demo_open d' \<and> enrollments d' = [demo_first_seat] \<and> int (activeCount 100 d') \<le> max 0 (seatsOf (demo_class Open) d')"
proof -
  obtain v d' where s: "enroll demo_clock 8 100 demo_may demo_manager demo_open = Inr ((True, v), d')"
    and t: "cohorts d' = [demo_class Open]" "enrollments d' = [demo_first_seat]" using demo_first_enrolled by blast
  have step: "classes_step demo_open d'" by (rule classes_step.enroll[OF s])
  have "activeCount 100 demo_open = 0" by code_simp
  then show ?thesis
    using seats_bounded[OF demo_classes_reachable(1) step, of "demo_class Open"] step t by auto
qed

text \<open>
  C30. The waitlist is a queue: when a seated student leaves a class that goes on, the first of the
  waitlist gets the seat and the others keep their order; nobody is seated only when there is no free
  seat or nobody waits.
\<close>

theorem seat_goes_to_the_first:
  assumes "classes_reachable d" "withdraw e i reason v grants a d = Inr ((view, promoted), d')"
    and "find_by row_id i (enrollments d) = Some found" "find_by row_id (enr_cohortId found) (cohorts d) = Some c"
    and "enr_status found = EnrActive" "coh_status c \<noteq> Cancelled"
  shows "(waiting (row_id c) d' = waiting (row_id c) d \<and> promoted = None \<and> activeCount (row_id c) d' + 1 = activeCount (row_id c) d
         \<and> (seatsOf c d \<le> int (activeCount (row_id c) d') \<or> waiting (row_id c) d = []))
      \<or> (\<exists>first. waiting (row_id c) d = first # waiting (row_id c) d' \<and> activeCount (row_id c) d' = activeCount (row_id c) d
           \<and> promoted = presentEnrollment (row_id first) d' \<and> int (activeCount (row_id c) d') \<le> seatsOf c d)"
  using withdraw_waiting(2)[OF assms(2) _ assms(3-6)] reachable_classes[OF assms(1)] by (simp add: classes_ok_def)

theorem seat_goes_to_the_first_witness:
  "\<exists>v w d'. withdraw demo_clock 103 ''moved'' 1 demo_may demo_manager demo_full = Inr ((v, w), d')
     \<and> waiting 100 demo_full = [demo_in_queue] \<and> waiting 100 d' = [] \<and> w = presentEnrollment 104 d' \<and> activeCount 100 d' = 1"
proof -
  obtain v w d' where s: "withdraw demo_clock 103 ''moved'' 1 demo_may demo_manager demo_full = Inr ((v, w), d')"
    using demo_seat_given_back by blast
  have f: "find_by row_id 103 (enrollments demo_full) = Some demo_first_seat" by code_simp
  have c: "find_by row_id (enr_cohortId demo_first_seat) (cohorts demo_full) = Some (demo_class Open)" by code_simp
  have st: "enr_status demo_first_seat = EnrActive" "coh_status (demo_class Open) \<noteq> Cancelled" by code_simp+
  have q: "waiting 100 demo_full = [demo_in_queue]" by code_simp
  have n: "activeCount 100 demo_full = 1" "seatsOf (demo_class Open) demo_full = 1" by code_simp+
  have "waiting 100 d' = [] \<and> w = presentEnrollment 104 d' \<and> activeCount 100 d' = 1"
    using seat_goes_to_the_first[OF demo_classes_reachable(3) s f c st, unfolded demo_class_id q n] by (auto simp: demo_rows(4))
  then show ?thesis using s q by blast
qed

end
