(* ===== verification/Lists.thy ===== *)
theory Lists
  imports Pages Enrollments Approvals
begin

text \<open>
  The lists staff look through: which rows of a table a query selects for a caller, a page at a time.
  A query is the parsed query string; its cursor is the text's sort key, or \<open>None\<close> inside the
  \<open>Some\<close> when the text is not a cursor.
\<close>

section \<open>Queries\<close>

text \<open>\<open>pageQuerySchema\<close>.\<close>

definition MAX_PAGE_SIZE :: nat where "MAX_PAGE_SIZE = 100"

record 'k page_query =
  pq_cursor :: "'k option option"
  pq_limit :: nat

definition valid_page_query :: "('k, 'a) page_query_scheme \<Rightarrow> bool" where
  "valid_page_query q \<longleftrightarrow> 1 \<le> pq_limit q \<and> pq_limit q \<le> MAX_PAGE_SIZE"

text \<open>A filter the query may leave out.\<close>

definition if_given :: "'v option \<Rightarrow> ('v \<Rightarrow> bool) \<Rightarrow> bool" where
  "if_given x P \<longleftrightarrow> (case x of None \<Rightarrow> True | Some v \<Rightarrow> P v)"

text \<open>The last steps of every \<open>list\<close> method: decode the cursor, fetch, cut the page.\<close>

definition paged :: "('r \<Rightarrow> 'k::linorder) \<Rightarrow> direction \<Rightarrow> ('r \<Rightarrow> 'k) \<Rightarrow> ('r \<Rightarrow> bool) \<Rightarrow> 'r list \<Rightarrow> ('k, 'a) page_query_scheme
    \<Rightarrow> app_error + ('r list \<times> 'k option)" where
  "paged key dir cursorOf cond rows q =
     (case pq_cursor q of
        None \<Rightarrow> Inr (list_page key dir cursorOf cond rows (pq_limit q) None)
      | Some c \<Rightarrow> bindE (decodeCursor c) (\<lambda>k. Inr (list_page key dir cursorOf cond rows (pq_limit q) (Some k))))"

text \<open>Every word of the search box matches one of the columns, or the digits of the phone.\<close>

definition matches_words :: "string option \<Rightarrow> string list \<Rightarrow> string option \<Rightarrow> bool" where
  "matches_words query columns phone = list_all (\<lambda>token.
     list_ex (\<lambda>column. ilike column (containing token)) columns
     \<or> (case (phonePattern token, phone) of (Some p, Some number) \<Rightarrow> ilike number p | _ \<Rightarrow> False))
   (searchTokens (case query of None \<Rightarrow> [] | Some q \<Rightarrow> q) 5)"

definition opt_column :: "string option \<Rightarrow> string list" where
  "opt_column c = (case c of None \<Rightarrow> [] | Some v \<Rightarrow> [v])"

type_synonym created_query = "instant \<times> uuid"

section \<open>Students and applications\<close>

record student_list_query = "created_query page_query" +
  slq_status :: "student_status option"
  slq_branchId :: "uuid option"
  slq_q :: "string option"

definition student_listed :: "student_list_query \<Rightarrow> grant list \<Rightarrow> student_row \<Rightarrow> bool" where
  "student_listed q grants r \<longleftrightarrow>
     if_given (slq_status q) (\<lambda>s. st_status r = s) \<and> if_given (slq_branchId q) (\<lambda>b. st_branchId r = b)
     \<and> in_reach (branchReach grants ''students.read'') (st_branchId r)
     \<and> matches_words (slq_q q) [search_name r, st_number r] (Some (st_phone r))"

definition listStudents :: "student_list_query \<Rightarrow> grant list \<Rightarrow> 'a people_db_scheme
    \<Rightarrow> app_error + (student_view list \<times> created_query option)" where
  "listStudents q grants d =
     bindE (paged created_key Desc created_cursor (student_listed q grants) (students d) q) (\<lambda>(items, nextCursor).
     Inr (map (\<lambda>r. \<lparr>stv_row = r, stv_guardians = guardiansOf (row_id r) d\<rparr>) items, nextCursor))"

datatype application_stage = StageOpen | StageClosed

record application_list_query = "created_query page_query" +
  alq_status :: "application_status option"
  alq_stage :: "application_stage option"
  alq_branchId :: "uuid option"
  alq_q :: "string option"

definition application_listed :: "application_list_query \<Rightarrow> grant list \<Rightarrow> application_row \<Rightarrow> bool" where
  "application_listed q grants r \<longleftrightarrow>
     if_given (alq_status q) (\<lambda>s. app_status r = s) \<and> if_given (alq_branchId q) (\<lambda>b. app_branchId r = b)
     \<and> in_reach (branchReach grants ''admissions.read'') (app_branchId r)
     \<and> if_given (alq_stage q) (\<lambda>st. isClosed (app_status r) \<longleftrightarrow> st = StageClosed)
     \<and> matches_words (alq_q q)
          ([app_givenName r, app_fatherName r] @ opt_column (app_grandfatherName r) @ [app_reference r]) (Some (app_phone r))"

definition listApplications :: "application_list_query \<Rightarrow> grant list \<Rightarrow> 'a people_db_scheme
    \<Rightarrow> app_error + (application_row list \<times> created_query option)" where
  "listApplications q grants d =
     paged created_key Desc created_cursor (application_listed q grants) (applications d) q"

section \<open>Cohorts and enrollments\<close>

datatype cohort_stage = StageLive | StagePast

record cohort_list_query = "(date \<times> uuid) page_query" +
  clq_courseId :: "uuid option"
  clq_status :: "cohort_status option"
  clq_branchId :: "uuid option"
  clq_stage :: "cohort_stage option"

definition cohort_listed :: "cohort_list_query \<Rightarrow> grant list \<Rightarrow> cohort_row \<Rightarrow> bool" where
  "cohort_listed q grants r \<longleftrightarrow>
     if_given (clq_courseId q) (\<lambda>c. coh_courseId r = c) \<and> if_given (clq_status q) (\<lambda>s. coh_status r = s)
     \<and> if_given (clq_branchId q) (\<lambda>b. coh_branchId r = b)
     \<and> in_reach (branchReach grants ''cohorts.read'') (coh_branchId r)
     \<and> if_given (clq_stage q) (\<lambda>st. case st of StageLive \<Rightarrow> coh_status r \<in> {Planned, Open, Running}
          | StagePast \<Rightarrow> coh_status r \<in> {CohCompleted, Cancelled})"

definition start_key :: "cohort_row \<Rightarrow> date \<times> uuid" where
  "start_key r = (coh_startDate r, row_id r)"

definition listCohorts :: "cohort_list_query \<Rightarrow> grant list \<Rightarrow> 'a classes_db_scheme
    \<Rightarrow> app_error + (cohort_view list \<times> (date \<times> uuid) option)" where
  "listCohorts q grants d =
     bindE (paged start_key Desc start_key (cohort_listed q grants) (cohorts d) q) (\<lambda>(items, nextCursor).
     Inr (map (\<lambda>r. withNumbers r d) items, nextCursor))"

record enrollment_list_query = "created_query page_query" +
  elq_cohortId :: "uuid option"
  elq_studentId :: "uuid option"
  elq_status :: "enrollment_status option"

text \<open>\<open>innerJoin(cohorts)\<close>: the branch is the cohort's.\<close>

definition enrollment_listed :: "enrollment_list_query \<Rightarrow> grant list \<Rightarrow> cohort_row list \<Rightarrow> enrollment_row \<Rightarrow> bool" where
  "enrollment_listed q grants cs r \<longleftrightarrow>
     if_given (elq_cohortId q) (\<lambda>c. enr_cohortId r = c) \<and> if_given (elq_studentId q) (\<lambda>s. enr_studentId r = s)
     \<and> if_given (elq_status q) (\<lambda>s. enr_status r = s)
     \<and> (case find_by row_id (enr_cohortId r) cs of None \<Rightarrow> False
        | Some c \<Rightarrow> in_reach (branchReach grants ''enrollments.read'') (coh_branchId c))"

text \<open>\<open>ids.flatMap((id) => byId.get(id) ?? [])\<close>.\<close>

definition present_all :: "(uuid \<Rightarrow> 'v option) \<Rightarrow> uuid list \<Rightarrow> 'v list" where
  "present_all view ids = concat (map (\<lambda>i. case view i of None \<Rightarrow> [] | Some v \<Rightarrow> [v]) ids)"

definition listEnrollments :: "enrollment_list_query \<Rightarrow> grant list \<Rightarrow> 'a classes_db_scheme
    \<Rightarrow> app_error + (enrollment_view list \<times> created_query option)" where
  "listEnrollments q grants d =
     bindE (paged created_key Desc created_cursor (enrollment_listed q grants (cohorts d)) (enrollments d) q) (\<lambda>(items, nextCursor).
     Inr (present_all (\<lambda>i. presentEnrollment i d) (map row_id items), nextCursor))"

section \<open>Billing\<close>

datatype invoice_stage = StageUnpaid | StageSettled

record invoice_list_query = "created_query page_query" +
  ilq_studentId :: "uuid option"
  ilq_status :: "invoice_status option"
  ilq_stage :: "invoice_stage option"
  ilq_q :: "string option"

definition invoice_matches :: "string \<Rightarrow> student_row list \<Rightarrow> invoice_row \<Rightarrow> bool" where
  "invoice_matches token sts r = (ilike (inv_number r) (containing token)
     \<or> list_ex (\<lambda>s. row_id s = inv_studentId r \<and> (ilike (search_name s) (containing token) \<or> ilike (st_number s) (containing token))) sts)"

definition invoice_listed :: "invoice_list_query \<Rightarrow> grant list \<Rightarrow> student_row list \<Rightarrow> invoice_row \<Rightarrow> bool" where
  "invoice_listed q grants sts r \<longleftrightarrow>
     if_given (ilq_studentId q) (\<lambda>s. inv_studentId r = s) \<and> if_given (ilq_status q) (\<lambda>s. inv_status r = s)
     \<and> in_reach (branchReach grants ''billing.read'') (inv_branchId r)
     \<and> if_given (ilq_stage q) (\<lambda>st. case st of StageUnpaid \<Rightarrow> inv_status r \<in> {Issued, PartiallyPaid}
          | StageSettled \<Rightarrow> inv_status r \<in> {InvPaid, InvVoid})
     \<and> list_all (\<lambda>token. invoice_matches token sts r) (searchTokens (case ilq_q q of None \<Rightarrow> [] | Some t \<Rightarrow> t) 5)"

definition listInvoices :: "env \<Rightarrow> invoice_list_query \<Rightarrow> grant list \<Rightarrow> db \<Rightarrow> app_error + (invoice_view list \<times> created_query option)" where
  "listInvoices e q grants d =
     bindE (paged created_key Desc created_cursor (invoice_listed q grants (students d)) (invoices d) q) (\<lambda>(items, nextCursor).
     bindE (today e d) (\<lambda>day_now.
     Inr (map (presentInvoice day_now d) items, nextCursor)))"

record payment_list_query = "created_query page_query" +
  plq_invoiceId :: "uuid option"
  plq_studentId :: "uuid option"

definition payment_listed :: "payment_list_query \<Rightarrow> grant list \<Rightarrow> payment_row \<Rightarrow> bool" where
  "payment_listed q grants r \<longleftrightarrow>
     if_given (plq_invoiceId q) (\<lambda>i. pay_invoiceId r = i) \<and> if_given (plq_studentId q) (\<lambda>s. pay_studentId r = s)
     \<and> in_reach (branchReach grants ''billing.read'') (pay_branchId r)"

definition listPayments :: "payment_list_query \<Rightarrow> grant list \<Rightarrow> db \<Rightarrow> app_error + (payment_view list \<times> created_query option)" where
  "listPayments q grants d =
     bindE (paged created_key Desc created_cursor (payment_listed q grants) (payments d) q) (\<lambda>(items, nextCursor).
     Inr (present_all (\<lambda>i. presentPayment i d) (map row_id items), nextCursor))"

record approval_list_query = "created_query page_query" +
  aplq_status :: "approval_status option"
  aplq_type :: "approval_type option"

definition approval_listed :: "approval_list_query \<Rightarrow> grant list \<Rightarrow> actor \<Rightarrow> approval_row \<Rightarrow> bool" where
  "approval_listed q grants a r \<longleftrightarrow>
     if_given (aplq_status q) (\<lambda>s. ap_status r = s) \<and> if_given (aplq_type q) (\<lambda>t. ap_type r = t)
     \<and> (hasPermission grants ''approvals.decide'' None \<or> ap_requestedBy r = actor_userId a)"

definition listApprovals :: "approval_list_query \<Rightarrow> grant list \<Rightarrow> actor \<Rightarrow> db \<Rightarrow> app_error + (approval_view list \<times> created_query option)" where
  "listApprovals q grants a d =
     bindE (paged created_key Desc created_cursor (approval_listed q grants a) (approval_requests d) q) (\<lambda>(items, nextCursor).
     Inr (present_all (\<lambda>i. presentApproval i d) (map row_id items), nextCursor))"

section \<open>The audit log\<close>

text \<open>\<open>AuditService.list\<close> cuts its page by hand, with \<open>seq\<close> as cursor.\<close>

record audit_list_query = "nat page_query" +
  adq_action :: "string option"
  adq_entityType :: "string option"
  adq_entityId :: "json option"
  adq_actorUserId :: "uuid option"

definition audit_listed :: "audit_list_query \<Rightarrow> audit_row \<Rightarrow> bool" where
  "audit_listed q r \<longleftrightarrow> if_given (adq_action q) (\<lambda>x. au_action r = x) \<and> if_given (adq_entityType q) (\<lambda>x. au_entityType r = x)
     \<and> if_given (adq_entityId q) (\<lambda>x. au_entityId r = x) \<and> if_given (adq_actorUserId q) (\<lambda>x. au_actorUserId r = Some x)"

definition listAudit :: "audit_list_query \<Rightarrow> 'a system_db_scheme \<Rightarrow> app_error + (audit_row list \<times> nat option)" where
  "listAudit q d = paged au_seq Desc au_seq (audit_listed q) (audit_log d) q"

section \<open>What a caller sees\<close>

text \<open>No page shows a record outside the branches the caller may read.\<close>

lemma list_page_sub:
  assumes "list_page key dir cursorOf cond rows limit cursor = (items, c)" "r \<in> set items"
  shows "r \<in> set rows \<and> cond r"
  using assms by (auto simp: list_page_remaining Let_def remaining_def dest: in_set_takeD)

lemma paged_sub:
  assumes "paged key dir cursorOf cond rows q = Inr (items, c)" "r \<in> set items"
  shows "r \<in> set rows \<and> cond r"
  using assms list_page_sub by (fastforce simp: paged_def split: option.splits)

lemma paged_limit:
  assumes "paged key dir cursorOf cond rows q = Inr (items, c)"
  shows "length items \<le> pq_limit q"
  using assms by (auto simp: paged_def list_page_remaining Let_def split: option.splits)

lemma students_in_reach:
  assumes "listStudents q grants d = Inr (views, c)" "v \<in> set views"
  shows "in_reach (branchReach grants ''students.read'') (st_branchId (stv_row v))"
  using assms paged_sub by (fastforce simp: listStudents_def student_listed_def)

end
