(* ===== verification/Csv.thy ===== *)
theory Csv
  imports JsString
begin

text \<open>
  Spreadsheet files: the writer of the reports (\<open>reports/domain/csv.ts\<close>), the reader of the imports
  (\<open>imports/domain/csv-parse.ts\<close>), and that they fit: what is written reads back, and no cell that
  is written can run as a formula.
\<close>

section \<open>Writing\<close>

abbreviation QUOTE :: char where "QUOTE \<equiv> CHR 0x22"
abbreviation CR :: char where "CR \<equiv> CHR 0x0D"
abbreviation LF :: char where "LF \<equiv> CHR 0x0A"
abbreviation APOSTROPHE :: char where "APOSTROPHE \<equiv> CHR 0x27"
abbreviation COMMA :: char where "COMMA \<equiv> CHR 0x2C"

text \<open>Whole santim with two decimals; \<open>Math.trunc\<close> and the remainder of the absolute value.\<close>

definition decimalMoney :: "int \<Rightarrow> string" where
  "decimalMoney minorUnits = (let sign = (if minorUnits < 0 then ''-'' else []); a = nat \<bar>minorUnits\<bar> in
     sign @ show_nat (a div 100) @ ''.'' @ padStart 2 (CHR ''0'') (show_nat (a mod 100)))"

text \<open>\<open>/^[=+\-@\t\r]/\<close>.\<close>

definition formula_start :: "string \<Rightarrow> bool" where
  "formula_start s = (case s of [] \<Rightarrow> False
     | c # _ \<Rightarrow> c \<in> {CHR ''='', CHR ''+'', CHR ''-'', CHR ''@'', CHR 0x09, CR})"

text \<open>\<open>/[",\r\n]/\<close>.\<close>

definition needs_quotes :: "string \<Rightarrow> bool" where
  "needs_quotes s = list_ex (\<lambda>c. c \<in> {QUOTE, COMMA, CR, LF}) s"

definition double_quotes :: "string \<Rightarrow> string" where
  "double_quotes s = concat (map (\<lambda>c. if c = QUOTE then [QUOTE, QUOTE] else [c]) s)"

text \<open>What the reader will read back: the text, behind an apostrophe when a spreadsheet could run it.\<close>

definition guarded :: "bool \<Rightarrow> string \<Rightarrow> string" where
  "guarded numeric text = (if \<not> numeric \<and> formula_start text then APOSTROPHE # text else text)"

definition csvCell :: "string \<Rightarrow> bool \<Rightarrow> string" where
  "csvCell v numeric = (let text = guarded numeric v in
     if needs_quotes text then [QUOTE] @ double_quotes text @ [QUOTE] else text)"

text \<open>A cell of \<open>toCsv\<close>: \<open>Text s\<close> for a string or a number as printed, \<open>Numeric s\<close> for \<open>{ numeric }\<close>.\<close>

datatype cell = Text string | Numeric string

fun cell_text :: "cell \<Rightarrow> string" where
  "cell_text (Text s) = guarded False s"
| "cell_text (Numeric s) = guarded True s"

fun csv_cell :: "cell \<Rightarrow> string" where
  "csv_cell (Text s) = csvCell s False"
| "csv_cell (Numeric s) = csvCell s True"

fun join_cells :: "string list \<Rightarrow> string" where
  "join_cells [] = []"
| "join_cells [c] = c"
| "join_cells (c # cs) = c @ [COMMA] @ join_cells cs"

definition csv_line :: "cell list \<Rightarrow> string" where
  "csv_line cells = join_cells (map csv_cell cells)"

fun join_lines :: "string list \<Rightarrow> string" where
  "join_lines [] = []"
| "join_lines [l] = l"
| "join_lines (l # ls) = l @ [CR, LF] @ join_lines ls"

text \<open>The byte-order mark is one UTF-16 unit; in a list of bytes it is \<open>EF BB BF\<close>.\<close>

definition BYTE_ORDER_MARK :: string where
  "BYTE_ORDER_MARK = [CHR 0xEF, CHR 0xBB, CHR 0xBF]"

definition toCsv :: "string list \<Rightarrow> cell list list \<Rightarrow> string" where
  "toCsv header rows = BYTE_ORDER_MARK @ join_lines (map csv_line (map Text header # rows)) @ [CR, LF]"

section \<open>Reading\<close>

record csv_row =
  csv_line_no :: nat
  csv_cells :: "string list"

record reader =
  rd_rows :: "csv_row list"
  rd_cells :: "string list"
  rd_cell :: string
  rd_inQuotes :: bool
  rd_rowLine :: nat
  rd_line :: nat
  rd_cellStarted :: bool

definition reader_start :: reader where
  "reader_start = \<lparr>rd_rows = [], rd_cells = [], rd_cell = [], rd_inQuotes = False, rd_rowLine = 1, rd_line = 1, rd_cellStarted = False\<rparr>"

definition endCell :: "reader \<Rightarrow> reader" where
  "endCell r = r\<lparr>rd_cells := rd_cells r @ [rd_cell r], rd_cell := [], rd_cellStarted := False\<rparr>"

definition endRow :: "reader \<Rightarrow> reader" where
  "endRow r = (let r1 = endCell r in
     r1\<lparr>rd_rows := (if rd_cells r1 = [[]] then rd_rows r1 else rd_rows r1 @ [\<lparr>csv_line_no = rd_rowLine r1, csv_cells = rd_cells r1\<rparr>]),
        rd_cells := []\<rparr>)"

definition newLine :: "reader \<Rightarrow> reader" where
  "newLine r = r\<lparr>rd_line := rd_line r + 1, rd_rowLine := rd_line r + 1\<rparr>"

definition push :: "char \<Rightarrow> reader \<Rightarrow> reader" where
  "push c r = r\<lparr>rd_cell := rd_cell r @ [c]\<rparr>"

text \<open>
  The loop over the text; \<open>i++\<close> skips a character. Only a line feed inside quotes counts as a line.
  The error is the line of the row whose quote is never closed.
\<close>

fun read_csv :: "string \<Rightarrow> reader \<Rightarrow> nat + csv_row list" where
  "read_csv [] r = (if rd_inQuotes r then Inl (rd_rowLine r)
     else Inr (rd_rows (if rd_cellStarted r \<or> rd_cells r \<noteq> [] \<or> rd_cell r \<noteq> [] then endRow r else r)))"
| "read_csv (ch # rest) r =
     (if rd_inQuotes r then
        (if ch = QUOTE then
           (case rest of
              c2 # rest2 \<Rightarrow> if c2 = QUOTE then read_csv rest2 (push QUOTE r) else read_csv rest (r\<lparr>rd_inQuotes := False\<rparr>)
            | [] \<Rightarrow> read_csv rest (r\<lparr>rd_inQuotes := False\<rparr>))
         else read_csv rest (push ch (if ch = LF then r\<lparr>rd_line := rd_line r + 1\<rparr> else r)))
      else if ch = QUOTE \<and> \<not> rd_cellStarted r then read_csv rest (r\<lparr>rd_inQuotes := True, rd_cellStarted := True\<rparr>)
      else if ch = COMMA then read_csv rest (endCell r)
      else if ch = CR then
        (case rest of
           c2 # rest2 \<Rightarrow> if c2 = LF then read_csv rest2 (newLine (endRow r)) else read_csv rest (newLine (endRow r))
         | [] \<Rightarrow> read_csv rest (newLine (endRow r)))
      else if ch = LF then read_csv rest (newLine (endRow r))
      else read_csv rest ((push ch r)\<lparr>rd_cellStarted := True\<rparr>))"

definition without_mark :: "string \<Rightarrow> string" where
  "without_mark s = (if take 3 s = BYTE_ORDER_MARK then drop 3 s else s)"

definition parseCsv :: "string \<Rightarrow> nat + csv_row list" where
  "parseCsv input = read_csv (without_mark input) reader_start"

section \<open>What is written reads back\<close>

declare read_csv.simps(2) [simp del]

lemmas read_step = read_csv.simps(2)

lemma read_plain:
  assumes "list_all (\<lambda>c. c \<notin> {QUOTE, COMMA, CR, LF}) s" "\<not> rd_inQuotes r"
  shows "read_csv (s @ rest) r = read_csv rest (r\<lparr>rd_cell := rd_cell r @ s, rd_cellStarted := rd_cellStarted r \<or> s \<noteq> []\<rparr>)"
  using assms
proof (induction s arbitrary: r)
  case (Cons c s)
  have "read_csv ((c # s) @ rest) r = read_csv (s @ rest) ((push c r)\<lparr>rd_cellStarted := True\<rparr>)"
    using Cons.prems by (simp add: read_step)
  also have "\<dots> = read_csv rest (r\<lparr>rd_cell := rd_cell r @ c # s, rd_cellStarted := True\<rparr>)"
    using Cons.prems by (subst Cons.IH) (simp_all add: push_def)
  finally show ?case by simp
qed simp

lemma read_quoted:
  assumes "rd_inQuotes r" "rest = [] \<or> hd rest \<noteq> QUOTE"
  shows "\<exists>n. read_csv (double_quotes s @ QUOTE # rest) r = read_csv rest (r\<lparr>rd_cell := rd_cell r @ s, rd_inQuotes := False, rd_line := n\<rparr>)"
  using assms(1)
proof (induction s arbitrary: r)
  case Nil
  have "read_csv (QUOTE # rest) r = read_csv rest (r\<lparr>rd_inQuotes := False\<rparr>)"
    using Nil assms(2) by (cases rest) (auto simp: read_step)
  then show ?case by (intro exI[of _ "rd_line r"]) (simp add: double_quotes_def)
next
  case (Cons c s)
  let ?r = "push c (if c = LF then r\<lparr>rd_line := rd_line r + 1\<rparr> else r)"
  have "read_csv (double_quotes (c # s) @ QUOTE # rest) r = read_csv (double_quotes s @ QUOTE # rest) ?r"
    using Cons.prems by (auto simp: double_quotes_def read_step)
  moreover have "rd_inQuotes ?r" using Cons.prems by (simp add: push_def)
  moreover have "?r\<lparr>rd_cell := rd_cell ?r @ s, rd_inQuotes := False, rd_line := n\<rparr> = r\<lparr>rd_cell := rd_cell r @ c # s, rd_inQuotes := False, rd_line := n\<rparr>" for n
    by (simp add: push_def)
  ultimately show ?case using Cons.IH by metis
qed

text \<open>A reader at the start of a cell.\<close>

definition at_cell :: "csv_row list \<Rightarrow> string list \<Rightarrow> nat \<Rightarrow> nat \<Rightarrow> reader" where
  "at_cell rows cells rowLine line = \<lparr>rd_rows = rows, rd_cells = cells, rd_cell = [], rd_inQuotes = False,
     rd_rowLine = rowLine, rd_line = line, rd_cellStarted = False\<rparr>"

lemma read_cell:
  assumes "rest \<noteq> []" "hd rest \<in> {COMMA, CR}"
  shows "\<exists>n started. read_csv (csv_cell c @ rest) (at_cell rows cells rl l) =
    read_csv rest ((at_cell rows cells rl n)\<lparr>rd_cell := cell_text c, rd_cellStarted := started\<rparr>)"
proof -
  obtain v numeric where c: "csv_cell c = csvCell v numeric" "cell_text c = guarded numeric v" by (cases c) auto
  let ?t = "guarded numeric v" and ?r = "at_cell rows cells rl l"
  show ?thesis
  proof (cases "needs_quotes ?t")
    case True
    have "read_csv (csv_cell c @ rest) ?r = read_csv (double_quotes ?t @ QUOTE # rest) (?r\<lparr>rd_inQuotes := True, rd_cellStarted := True\<rparr>)"
      using True by (simp add: c csvCell_def Let_def read_step at_cell_def)
    moreover obtain n where "read_csv (double_quotes ?t @ QUOTE # rest) (?r\<lparr>rd_inQuotes := True, rd_cellStarted := True\<rparr>)
        = read_csv rest (?r\<lparr>rd_inQuotes := True, rd_cellStarted := True, rd_cell := ?t, rd_inQuotes := False, rd_line := n\<rparr>)"
      using read_quoted[of "?r\<lparr>rd_inQuotes := True, rd_cellStarted := True\<rparr>" rest ?t] assms by (auto simp: at_cell_def)
    ultimately show ?thesis by (intro exI[of _ n] exI[of _ True]) (simp add: c at_cell_def)
  next
    case False
    then have "list_all (\<lambda>c. c \<notin> {QUOTE, COMMA, CR, LF}) ?t" by (auto simp: needs_quotes_def list_all_iff list_ex_iff)
    from read_plain[OF this, of ?r rest] False show ?thesis
      by (intro exI[of _ l] exI[of _ "?t \<noteq> []"]) (simp add: c csvCell_def Let_def at_cell_def)
  qed
qed

text \<open>A row without a single character is skipped.\<close>

definition kept_row :: "nat \<Rightarrow> string list \<Rightarrow> csv_row list" where
  "kept_row n cells = (if cells = [[]] then [] else [\<lparr>csv_line_no = n, csv_cells = cells\<rparr>])"

lemma read_row:
  assumes "cs \<noteq> []"
  shows "\<exists>n. read_csv (join_cells (map csv_cell cs) @ CR # LF # rest) (at_cell rows cells rl l) =
    read_csv rest (at_cell (rows @ kept_row rl (cells @ map cell_text cs)) [] n n)"
  using assms
proof (induction cs arbitrary: cells l)
  case (Cons c cs)
  show ?case
  proof (cases "cs = []")
    case True
    obtain n started where "read_csv (csv_cell c @ CR # LF # rest) (at_cell rows cells rl l) =
        read_csv (CR # LF # rest) ((at_cell rows cells rl n)\<lparr>rd_cell := cell_text c, rd_cellStarted := started\<rparr>)"
      using read_cell[of "CR # LF # rest" c rows cells rl l] by auto
    then show ?thesis using True
      by (intro exI[of _ "Suc n"]) (simp add: read_step newLine_def endRow_def endCell_def at_cell_def kept_row_def Let_def)
  next
    case False
    then obtain c2 cs2 where cs: "cs = c2 # cs2" by (cases cs) auto
    let ?rest = "join_cells (map csv_cell cs) @ CR # LF # rest"
    obtain n started where "read_csv (csv_cell c @ COMMA # ?rest) (at_cell rows cells rl l) =
        read_csv (COMMA # ?rest) ((at_cell rows cells rl n)\<lparr>rd_cell := cell_text c, rd_cellStarted := started\<rparr>)"
      using read_cell[of "COMMA # ?rest" c rows cells rl l] by auto
    moreover have "\<dots> = read_csv ?rest (at_cell rows (cells @ [cell_text c]) rl n)"
      by (simp add: read_step endCell_def at_cell_def)
    moreover have "join_cells (map csv_cell (c # cs)) @ CR # LF # rest = csv_cell c @ COMMA # ?rest" by (simp add: cs)
    ultimately show ?thesis using Cons.IH[OF False, of "cells @ [cell_text c]" n] by simp
  qed
qed simp

lemma read_line:
  "\<exists>n. read_csv (csv_line cells @ CR # LF # rest) (at_cell rows [] l l) =
    read_csv rest (at_cell (rows @ (if cells = [] then [] else kept_row l (map cell_text cells))) [] n n)"
proof (cases "cells = []")
  case True
  then show ?thesis
    by (intro exI[of _ "Suc l"]) (simp add: csv_line_def read_step newLine_def endRow_def endCell_def at_cell_def Let_def)
next
  case False
  then show ?thesis using read_row[OF False, of rest rows "[]" l l] by (simp add: csv_line_def)
qed

lemma join_lines_end: "ls \<noteq> [] \<Longrightarrow> join_lines ls @ [CR, LF] = concat (map (\<lambda>l. l @ [CR, LF]) ls)"
  by (induction ls rule: join_lines.induct) auto

definition content_rows :: "cell list list \<Rightarrow> string list list" where
  "content_rows rows = filter (\<lambda>cs. cs \<noteq> [] \<and> cs \<noteq> [[]]) (map (map cell_text) rows)"

lemma read_lines:
  "\<exists>result. read_csv (concat (map (\<lambda>l. csv_line l @ [CR, LF]) rows)) (at_cell done_rows [] l l) = Inr (done_rows @ result)
     \<and> map csv_cells result = content_rows rows"
proof (induction rows arbitrary: done_rows l)
  case Nil
  then show ?case by (intro exI[of _ "[]"]) (simp add: at_cell_def content_rows_def)
next
  case (Cons row rows)
  let ?new = "if row = [] then [] else kept_row l (map cell_text row)"
  obtain n where "read_csv (concat (map (\<lambda>l. csv_line l @ [CR, LF]) (row # rows))) (at_cell done_rows [] l l) =
      read_csv (concat (map (\<lambda>l. csv_line l @ [CR, LF]) rows)) (at_cell (done_rows @ ?new) [] n n)"
    using read_line[of row _ done_rows l] by auto
  moreover obtain result where "read_csv (concat (map (\<lambda>l. csv_line l @ [CR, LF]) rows)) (at_cell (done_rows @ ?new) [] n n)
      = Inr ((done_rows @ ?new) @ result)" "map csv_cells result = content_rows rows"
    using Cons.IH by blast
  ultimately show ?case
    by (intro exI[of _ "?new @ result"]) (auto simp: content_rows_def kept_row_def)
qed

lemma parse_toCsv:
  "\<exists>result. parseCsv (toCsv header rows) = Inr result \<and> map csv_cells result = content_rows (map Text header # rows)"
proof -
  have "without_mark (toCsv header rows) = join_lines (map csv_line (map Text header # rows)) @ [CR, LF]"
    by (simp add: without_mark_def toCsv_def BYTE_ORDER_MARK_def)
  also have "\<dots> = concat (map (\<lambda>l. csv_line l @ [CR, LF]) (map Text header # rows))"
    by (subst join_lines_end) (simp_all add: comp_def)
  finally show ?thesis
    using read_lines[of "map Text header # rows" "[]" 1] by (simp add: parseCsv_def reader_start_def at_cell_def)
qed

text \<open>What a spreadsheet sees in a text cell never starts a formula; the rest of the text is untouched.\<close>

lemma text_cell_safe:
  "\<not> formula_start (cell_text (Text s)) \<and> (cell_text (Text s) = s \<or> formula_start s \<and> cell_text (Text s) = APOSTROPHE # s)"
  by (auto simp: guarded_def formula_start_def)

end
