(* ===== verification/Replay.thy ===== *)
theory Replay
  imports AuditLog
begin

text \<open>
  Requests that may be sent twice (\<open>apps/api/src/common/idempotency/idempotency.interceptor.ts\<close>): the
  response of a request with an \<open>Idempotency-Key\<close> is stored in the transaction of its work and given
  again to the same request. The handler is an argument; the advisory lock orders requests with one
  key, so one runs after the other.
\<close>

section \<open>The interceptor\<close>

record http_request =
  hr_user :: "uuid option"
  hr_key :: "string option"
  hr_method :: string
  hr_url :: string
  hr_body :: json
  hr_query :: json

record http_reply =
  rp_status :: nat
  rp_body :: json
  rp_replayed :: bool

text \<open>\<open>@Idempotent({ required })\<close> on the route, if any, and the status its success answers with.\<close>

record route_options =
  ro_idempotent :: "bool option"
  ro_status :: nat

text \<open>\<open>/^[A-Za-z0-9_.:-]{8,255}$/\<close>.\<close>

definition key_char :: "char \<Rightarrow> bool" where
  "key_char c \<longleftrightarrow> is_upper c \<or> is_lower c \<or> is_digit c \<or> c \<in> {CHR ''_'', CHR ''.'', CHR '':'', CHR ''-''}"

definition key_pattern :: "string \<Rightarrow> bool" where
  "key_pattern s \<longleftrightarrow> 8 \<le> length s \<and> length s \<le> 255 \<and> list_all key_char s"

text \<open>Five groups of hex digits, of 8, 4, 4, 4 and 12, in either case.\<close>

definition hex_char :: "char \<Rightarrow> bool" where
  "hex_char c \<longleftrightarrow> is_digit c \<or> to_lower c \<in> set ''abcdef''"

definition uuid_pattern :: "string \<Rightarrow> bool" where
  "uuid_pattern s \<longleftrightarrow> length s = 36 \<and> list_all (\<lambda>(i, c). if i \<in> {8, 13, 18, 23} then c = CHR ''-'' else hex_char c) (zip [0..<36] s)"

definition TTL :: int where "TTL = 86400000000"

definition principal_of :: "env \<Rightarrow> http_request \<Rightarrow> string" where
  "principal_of e req = (case hr_user req of None \<Rightarrow> ''anonymous'' | Some i \<Rightarrow> show_uuid e i)"

definition path_of :: "http_request \<Rightarrow> string" where
  "path_of req = takeWhile (\<lambda>c. c \<noteq> CHR ''?'') (hr_url req)"

definition requestHash :: "env \<Rightarrow> http_request \<Rightarrow> string" where
  "requestHash e req = sha256 e (canonicalJson (printers.truncate e) (JObj [(''body'', hr_body req), (''query'', hr_query req)]))"

definition stored_response :: "string \<Rightarrow> string \<Rightarrow> 'a system_db_scheme \<Rightarrow> idempotency_row option" where
  "stored_response caller key d = find (\<lambda>k. ik_principal k = caller \<and> ik_key k = key) (idempotency_keys d)"

definition same_call :: "env \<Rightarrow> http_request \<Rightarrow> idempotency_row \<Rightarrow> bool" where
  "same_call e req k \<longleftrightarrow> ik_method k = hr_method req \<and> ik_path k = path_of req \<and> ik_requestHash k = requestHash e req"

text \<open>\<open>INSERT ... ON CONFLICT (principal, key) DO UPDATE\<close>.\<close>

definition store_response :: "env \<Rightarrow> string \<Rightarrow> string \<Rightarrow> http_request \<Rightarrow> nat \<Rightarrow> json \<Rightarrow> 'a system_db_scheme \<Rightarrow> 'a system_db_scheme" where
  "store_response e caller key req status body d =
     (case stored_response caller key d of
        None \<Rightarrow> (case take_id d of (i, d1) \<Rightarrow> d1\<lparr>idempotency_keys := idempotency_keys d1 @
          [\<lparr>row_id = i, ik_principal = caller, ik_key = key, ik_method = hr_method req, ik_path = path_of req,
            ik_requestHash = requestHash e req, ik_responseStatus = status, ik_responseBody = body, ik_createdAt = now e,
            ik_expiresAt = now e + TTL\<rparr>]\<rparr>)
      | Some _ \<Rightarrow> d\<lparr>idempotency_keys := update_where (\<lambda>k. ik_principal k = caller \<and> ik_key k = key)
          (\<lambda>k. k\<lparr>ik_method := hr_method req, ik_path := path_of req, ik_requestHash := requestHash e req,
             ik_responseStatus := status, ik_responseBody := body, ik_createdAt := now e, ik_expiresAt := now e + TTL\<rparr>)
          (idempotency_keys d)\<rparr>)"

definition intercept :: "env \<Rightarrow> route_options \<Rightarrow> http_request \<Rightarrow> ('a system_db_scheme \<Rightarrow> app_error + (json \<times> 'a system_db_scheme))
    \<Rightarrow> 'a system_db_scheme \<Rightarrow> app_error + (http_reply \<times> 'a system_db_scheme)" where
  "intercept e route req handle d =
     (let plain = bindE (handle d) (\<lambda>(body, d1). Inr (\<lparr>rp_status = ro_status route, rp_body = body, rp_replayed = False\<rparr>, d1)) in
      case ro_idempotent route of
        None \<Rightarrow> plain
      | Some required \<Rightarrow>
          (case hr_key req of
             None \<Rightarrow> if required then Inl (Idempotency IdempotencyKeyRequired) else plain
           | Some key \<Rightarrow>
               if key = [] then (if required then Inl (Idempotency IdempotencyKeyRequired) else plain)
               else let caller = principal_of e req in
                 bindE (throwIf (\<not> key_pattern key \<or> caller = ''anonymous'' \<and> \<not> uuid_pattern key) (Idempotency InvalidIdempotencyKey)) (\<lambda>_.
                 case stored_response caller key d of
                   Some stored \<Rightarrow>
                     if ik_expiresAt stored > now e then
                       (if same_call e req stored
                        then Inr (\<lparr>rp_status = ik_responseStatus stored, rp_body = ik_responseBody stored, rp_replayed = True\<rparr>, d)
                        else Inl (Idempotency IdempotencyKeyReused))
                     else bindE (handle d) (\<lambda>(body, d1).
                       Inr (\<lparr>rp_status = ro_status route, rp_body = body, rp_replayed = False\<rparr>,
                            store_response e caller key req (ro_status route) body d1))
                 | None \<Rightarrow> bindE (handle d) (\<lambda>(body, d1).
                       Inr (\<lparr>rp_status = ro_status route, rp_body = body, rp_replayed = False\<rparr>,
                            store_response e caller key req (ro_status route) body d1)))))"

section \<open>Replay\<close>

lemma find_update:
  assumes "\<And>x. P x \<Longrightarrow> P (f x)"
  shows "find P (update_where P f xs) = map_option f (find P xs)"
  using assms by (induction xs) auto

lemma find_snoc: "find P xs = None \<Longrightarrow> find P (xs @ [x]) = (if P x then Some x else None)"
  by (induction xs) (auto split: if_splits)

lemma stored_after:
  "\<exists>row. stored_response caller key (store_response e caller key req status body d) = Some row \<and> same_call e req row
     \<and> ik_responseStatus row = status \<and> ik_responseBody row = body \<and> ik_expiresAt row = now e + TTL"
proof (cases "stored_response caller key d")
  case None
  then show ?thesis
    by (auto simp: store_response_def take_id_def stored_response_def same_call_def find_snoc)
next
  case (Some row)
  then show ?thesis
    by (auto simp: store_response_def stored_response_def same_call_def find_update)
qed

text \<open>
  The same request again within the time to live gets the same answer and nothing is done again,
  whatever happened in between as long as the stored row is there.
\<close>

lemma replayed:
  assumes first: "intercept e route req handle d = Inr (reply, d1)" and key: "ro_idempotent route = Some required" "hr_key req = Some key" "key \<noteq> []"
    and kept: "stored_response (principal_of e req) key d2 = stored_response (principal_of e req) key d1"
    and later: "printers.truncate e2 = printers.truncate e" "sha256 e2 = sha256 e" "now e \<le> now e2" "now e2 < now e + TTL"
    and fresh: "\<not> rp_replayed reply"
  shows "intercept e2 route req handle2 d2 = Inr (reply\<lparr>rp_replayed := True\<rparr>, d2)"
proof -
  have printers: "show_uuid e2 = show_uuid e" using later(1) by (metis printers.select_convs(2) printers.truncate_def)
  have same: "principal_of e2 req = principal_of e req" "same_call e2 req = same_call e req"
    using later(1,2) printers by (simp_all add: principal_of_def same_call_def requestHash_def fun_eq_iff split: option.split)
  have ok: "\<not> (\<not> key_pattern key \<or> principal_of e req = ''anonymous'' \<and> \<not> uuid_pattern key)"
    using first key by (auto simp: intercept_def Let_def)
  obtain body d0 where run: "reply = \<lparr>rp_status = ro_status route, rp_body = body, rp_replayed = False\<rparr>"
      "d1 = store_response e (principal_of e req) key req (ro_status route) body d0"
    using first key ok fresh by (auto simp: intercept_def Let_def split: option.splits if_splits)
  obtain row where row: "stored_response (principal_of e req) key d2 = Some row" "same_call e req row"
      "ik_responseStatus row = ro_status route" "ik_responseBody row = body" "ik_expiresAt row = now e + TTL"
    using stored_after[of "principal_of e req" key e req "ro_status route" body d0] run(2) kept by auto
  show ?thesis using key ok row same later(4) run(1) by (simp add: intercept_def Let_def)
qed

text \<open>A handler that fails leaves the key free: the next try runs.\<close>

lemma failure_leaves_key:
  assumes "intercept e route req handle d = Inl err" "err \<noteq> Idempotency IdempotencyKeyRequired" "err \<noteq> Idempotency InvalidIdempotencyKey"
    and "err \<noteq> Idempotency IdempotencyKeyReused"
  shows "handle d = Inl err"
  using assms by (auto simp: intercept_def Let_def bindE_eq_Inl split: option.splits if_splits)

text \<open>The key used for another request is refused.\<close>

lemma reused_refused:
  assumes "ro_idempotent route = Some required" "hr_key req = Some key" "key \<noteq> []"
    and "key_pattern key" "principal_of e req = ''anonymous'' \<longrightarrow> uuid_pattern key"
    and "stored_response (principal_of e req) key d = Some row" "now e < ik_expiresAt row" "\<not> same_call e req row"
  shows "intercept e route req handle d = Inl (Idempotency IdempotencyKeyReused)"
  using assms by (auto simp: intercept_def Let_def)

end
