(* ===== verification/SystemScenario.thy ===== *)
theory SystemScenario
  imports Scenario Lists Csv Replay
begin

text \<open>
  The same institution as its users see it: two administrators who can sign in, one of them with a
  second factor and a reset link under way, events waiting in the outbox, and a request that is sent
  twice. The properties of sign-in, staff and messaging are exercised on these states.
\<close>

section \<open>Staff\<close>

definition demo_gcm :: gcm where
  "demo_gcm = \<lparr>gcm_seal = (\<lambda>k iv a p. (p, a)), gcm_open = (\<lambda>k iv a c t. if t = a then Some c else None), b64url = (\<lambda>x. x), unb64url = (\<lambda>x. x),
     digest_hex = (\<lambda>x. x)\<rparr>"

definition demo_box :: secret_box where
  "demo_box = \<lparr>sb_keys = [(''id'', ''key'')], sb_currentKeyId = ''id''\<rparr>"

definition demo_runtime :: runtime where
  "demo_runtime = \<lparr>rt_gcm = demo_gcm, rt_box = demo_box, rt_parse = (\<lambda>s. Some (JStr s))\<rparr>"

definition demo_tools :: tools where
  "demo_tools = runtime.extend demo_runtime (tools.fields (\<lambda>p. p) (\<lambda>h p. h = p) (\<lambda>p inputs. 4) (\<lambda>p inputs. None)
     (\<lambda>secret code last. if code = ''123456'' then Some 7 else None) (\<lambda>m. JNull) ''iv'' ''token'' ''secret'' [''code-one'', ''code-two''])"

definition demo_auth :: auth_config where
  "demo_auth = \<lparr>SESSION_IDLE_MINUTES = 30, SESSION_ABSOLUTE_HOURS = 12, PORTAL_URL = ''https://portal''\<rparr>"

text \<open>An environment whose digest is the text itself: no two tokens share a hash.\<close>

definition demo_live :: env where
  "demo_live = demo_env\<lparr>sha256 := (\<lambda>s. s)\<rparr>"

definition demo_visitor :: request_context where
  "demo_visitor = \<lparr>rc_ip = None, rc_userAgent = None\<rparr>"

definition demo_account :: "uuid \<Rightarrow> string \<Rightarrow> user_row" where
  "demo_account i name = base_row.extend (demo_base i) (user_row.fields name name (Some ''open sesame 1'') AccActive True 0 None None None)"

definition demo_role :: role_row where
  "demo_role = base_row.extend (demo_base 20) (role_row.fields ''admin'' ''Administrator'' [] True True [ScopeGlobal])"

definition demo_holds :: "uuid \<Rightarrow> uuid \<Rightarrow> role_assignment_row" where
  "demo_holds i u = \<lparr>row_id = i, ra_userId = u, ra_roleId = 20, ra_scopeType = ScopeGlobal, ra_scopeId = None, ra_grantedBy = None, ra_createdAt = 1\<rparr>"

definition demo_factor :: totp_factor_row where
  "demo_factor = \<lparr>row_id = 23, tf_userId = 1, tf_secretCiphertext = ''v1.id.iv.secret.totp-secret:1'', tf_confirmedAt = Some 1,
     tf_lastUsedTimeStep = None, tf_createdAt = 1, tf_updatedAt = 1\<rparr>"

definition demo_link :: reset_token_row where
  "demo_link = \<lparr>row_id = 24, prt_userId = 1, prt_tokenHash = ''reset'', prt_expiresAt = 60, prt_usedAt = None, prt_requestedIp = None, prt_createdAt = 1\<rparr>"

definition demo_staff :: db where
  "demo_staff = demo_db\<lparr>user_accounts := [demo_account 1 ''clerk'', demo_account 2 ''manager''], roles := [demo_role],
     user_role_assignments := [demo_holds 21 1, demo_holds 22 2], user_totp_factors := [demo_factor], password_reset_tokens := [demo_link]\<rparr>"

section \<open>Signing in\<close>

definition demo_signed_in :: db where
  "demo_signed_in = snd (login demo_live demo_tools demo_auth \<lparr>lr_email = ''Clerk'', lr_password = ''open sesame 1''\<rparr> demo_visitor demo_staff)"

definition demo_caller :: auth_context where
  "demo_caller = \<lparr>ac_sessionId = 100, ac_userId = 1, ac_email = ''clerk'', ac_displayName = ''clerk'', ac_mfaEnforced = True, ac_mfaEnabled = True,
     ac_mfaVerified = False, ac_sessionCreatedAt = 5, ac_absoluteExpiresAt = 50, ac_nextStep = StepMfa\<rparr>"

definition demo_wrong_code :: db where
  "demo_wrong_code = snd (mfa_verify demo_live demo_tools demo_caller (MfaRecovery ''no such code'') demo_visitor demo_signed_in)"

lemma demo_signed_sessions:
  "map (\<lambda>s. (row_id s, us_tokenHash s, us_mfaFailedAttempts s, us_revokedAt s)) (user_sessions demo_signed_in) = [(100, ''token'', 0, None)]"
  "map (\<lambda>s. (row_id s, us_mfaFailedAttempts s, us_revokedAt s)) (user_sessions demo_wrong_code) = [(100, 1, None)]"
  by code_simp+

lemma demo_auth_reachable: "auth_reachable demo_staff" "auth_reachable demo_signed_in" "auth_reachable demo_wrong_code"
proof -
  show start: "auth_reachable demo_staff" by (rule auth_reachable.start) (simp add: demo_staff_def demo_db_def)
  show signed: "auth_reachable demo_signed_in"
    unfolding demo_signed_in_def by (rule auth_reachable.step[OF start]) (rule auth_step.sign_in, rule prod.collapse[symmetric])
  show "auth_reachable demo_wrong_code"
    unfolding demo_wrong_code_def by (rule auth_reachable.step[OF signed]) (rule auth_step.verify, rule prod.collapse[symmetric])
qed

lemma demo_staff_ok: "staff_ok demo_staff"
proof -
  have "active_admin demo_staff 1" by code_simp
  then show ?thesis
    unfolding staff_ok_def ids_below_def
    by (auto simp: demo_staff_def demo_db_def demo_account_def demo_role_def demo_holds_def demo_base_def base_row.defs user_row.defs role_row.defs)
qed

lemma demo_reset:
  "\<exists>d'. resetPassword demo_live demo_tools ''reset'' ''a longer secret'' demo_visitor demo_signed_in = Inr d'"
proof -
  have "isl (resetPassword demo_live demo_tools ''reset'' ''a longer secret'' demo_visitor demo_signed_in) = False" by code_simp
  then show ?thesis by (cases "resetPassword demo_live demo_tools ''reset'' ''a longer secret'' demo_visitor demo_signed_in") simp_all
qed

lemma demo_disable: "\<exists>v d'. setStatus demo_live 1 AccDisabled demo_manager demo_staff = Inr (v, d')"
proof -
  have "isl (setStatus demo_live 1 AccDisabled demo_manager demo_staff) = False" by code_simp
  then show ?thesis by (cases "setStatus demo_live 1 AccDisabled demo_manager demo_staff") auto
qed

end
