(* ===== verification/Walks.thy ===== *)
theory Walks
  imports Lists
begin

text \<open>
  Clients that read a paged list to its end: the code answers a page or an error, and the client sends
  the cursor of each page with the next request.
\<close>

lemma walk_map:
  assumes "\<And>c. page' c = (map f (fst (page c)), snd (page c))"
  shows "walk fuel page' cursor = map_option (map f) (walk fuel page cursor)"
  by (induction fuel arbitrary: cursor) (auto simp: assms option.map_comp comp_def split: prod.split option.split)

text \<open>A client that follows the cursors of a list, as the code answers them.\<close>

definition following :: "('k option \<Rightarrow> app_error + ('v list \<times> 'k option)) \<Rightarrow> 'k option \<Rightarrow> 'v list \<times> 'k option" where
  "following listed c = (case listed c of Inl _ \<Rightarrow> ([], None) | Inr page \<Rightarrow> page)"

end
