(* ===== verification/SystemProperties.thy ===== *)
theory SystemProperties
  imports SystemScenario Walks
begin

text \<open>
  The properties of what all modules share: pages and files, the outbox, requests sent twice, and who
  may enter. Each stands on the component theories and is exercised on the states of \<open>SystemScenario\<close>.
\<close>

section \<open>Pages\<close>

lemma following_cohorts:
  "following (\<lambda>c. listCohorts (q\<lparr>pq_cursor := map_option Some c\<rparr>) grants d) c =
     (case list_page start_key Desc start_key (cohort_listed q grants) (cohorts d) (pq_limit q) c of
        (items, next_cursor) \<Rightarrow> (map (\<lambda>r. withNumbers r d) items, next_cursor))"
proof -
  have "cohort_listed (q\<lparr>pq_cursor := x\<rparr>) = cohort_listed q" for x by (auto simp: fun_eq_iff cohort_listed_def)
  then show ?thesis by (cases c) (simp_all add: following_def listCohorts_def paged_def decodeCursor_def split: prod.split)
qed

text \<open>
  C31. A client that follows the cursors of the class list comes to an end after at most as many
  requests as there are classes, and has then seen every class of the filter it may read exactly once,
  latest first.
\<close>

theorem class_pages_are_complete:
  assumes "classes_reachable d" "valid_page_query q" "length (cohorts d) < requests"
  shows "walk requests (following (\<lambda>c. listCohorts (q\<lparr>pq_cursor := map_option Some c\<rparr>) grants d)) None
     = Some (map (\<lambda>r. withNumbers r d) (ordered_by start_key Desc (filter (cohort_listed q grants) (cohorts d))))"
proof -
  have "distinct (map row_id (cohorts d))"
    using reachable_classes[OF assms(1)] by (simp add: classes_ok_def cohort_tables_ok_def issued_before_def ids_distinct_def)
  then have keys: "distinct (map start_key (cohorts d))" by (auto simp: distinct_map inj_on_def start_key_def)
  have limit: "0 < pq_limit q" using assms(2) by (simp add: valid_page_query_def)
  show ?thesis
    using walk_complete[OF keys limit assms(3), of Desc "cohort_listed q grants"]
    by (subst walk_map[where f = "\<lambda>r. withNumbers r d" and page = "list_page start_key Desc start_key (cohort_listed q grants) (cohorts d) (pq_limit q)"])
      (simp_all add: following_cohorts split: prod.split)
qed

definition demo_class_query :: cohort_list_query where
  "demo_class_query = \<lparr>pq_cursor = None, pq_limit = 1, clq_courseId = None, clq_status = None, clq_branchId = None, clq_stage = None\<rparr>"

theorem class_pages_are_complete_witness:
  "walk 2 (following (\<lambda>c. listCohorts (demo_class_query\<lparr>pq_cursor := map_option Some c\<rparr>) demo_may demo_full)) None
     = Some [withNumbers (demo_class Open) demo_full]"
proof -
  have v: "valid_page_query demo_class_query" "length (cohorts demo_full) < 2" by code_simp+
  have c: "cohorts demo_full = [demo_class Open]" by (simp add: demo_full_def demo_open_def)
  have f: "cohort_listed demo_class_query demo_may (demo_class Open)" by code_simp
  from class_pages_are_complete[OF demo_classes_reachable(3) v, of demo_may] show ?thesis by (simp add: c f ordered_by_def)
qed

lemma following_students:
  "following (\<lambda>c. listStudents (q\<lparr>pq_cursor := map_option Some c\<rparr>) grants d) c =
     (case list_page created_key Desc created_cursor (student_listed q grants) (students d) (pq_limit q) c of
        (items, next_cursor) \<Rightarrow> (map (\<lambda>r. \<lparr>stv_row = r, stv_guardians = guardiansOf (row_id r) d\<rparr>) items, next_cursor))"
proof -
  have "student_listed (q\<lparr>pq_cursor := x\<rparr>) = student_listed q" for x by (auto simp: fun_eq_iff student_listed_def)
  then show ?thesis by (cases c) (simp_all add: following_def listStudents_def paged_def decodeCursor_def split: prod.split)
qed

text \<open>
  C32. The cursor of the student list is the time of creation cut to milliseconds, while the column
  holds microseconds: after a page that ends with \<open>last_row\<close>, a student created in the same
  millisecond is on none of the later pages, though it comes after \<open>last_row\<close> in the list.
\<close>

theorem same_millisecond_skipped:
  assumes "walk requests (following (\<lambda>c. listStudents (q\<lparr>pq_cursor := map_option Some c\<rparr>) grants d)) (Some (created_cursor last_row)) = Some seen"
    and "in_millis (createdAt r) = in_millis (createdAt last_row)" "createdAt r < createdAt last_row" "in_millis (createdAt r) < createdAt r"
  shows "r \<notin> stv_row ` set seen \<and> created_key r < created_key last_row"
proof -
  let ?page = "list_page created_key Desc created_cursor (student_listed q grants) (students d) (pq_limit q)"
  obtain rows where rows: "walk requests ?page (Some (created_cursor last_row)) = Some rows"
    and seen: "seen = map (\<lambda>r. \<lparr>stv_row = r, stv_guardians = guardiansOf (row_id r) d\<rparr>) rows"
    using assms(1)
    by (subst (asm) walk_map[where f = "\<lambda>r. \<lparr>stv_row = r, stv_guardians = guardiansOf (row_id r) d\<rparr>" and page = ?page])
      (auto simp: following_students split: prod.split)
  have "r \<notin> set rows"
  proof
    assume "r \<in> set rows"
    then have "created_key r < created_cursor last_row" using walk_after[OF rows created_cursor_le] by blast
    then show False using assms(2,4) by (auto simp: created_key_def created_cursor_def less_prod_def)
  qed
  then have "r \<notin> stv_row ` set seen" by (auto simp: seen)
  then show ?thesis using assms(3) by (simp add: created_key_def less_prod_def)
qed

definition demo_twin :: "uuid \<Rightarrow> instant \<Rightarrow> student_row" where
  "demo_twin i t = demo_student\<lparr>row_id := i, createdAt := t\<rparr>"

definition demo_twins :: db where
  "demo_twins = demo_db\<lparr>students := [demo_twin 8 1001, demo_twin 9 1002]\<rparr>"

definition demo_student_query :: student_list_query where
  "demo_student_query = \<lparr>pq_cursor = None, pq_limit = 1, slq_status = None, slq_branchId = None, slq_q = None\<rparr>"

theorem same_millisecond_skipped_witness:
  "walk 2 (following (\<lambda>c. listStudents (demo_student_query\<lparr>pq_cursor := map_option Some c\<rparr>) [\<lparr>gr_permission = ''students.read'', gr_scope = Global\<rparr>] demo_twins))
      (Some (created_cursor (demo_twin 9 1002))) = Some [] \<and> created_key (demo_twin 8 1001) < created_key (demo_twin 9 1002)"
proof -
  have w: "walk 2 (following (\<lambda>c. listStudents (demo_student_query\<lparr>pq_cursor := map_option Some c\<rparr>) [\<lparr>gr_permission = ''students.read'', gr_scope = Global\<rparr>] demo_twins))
      (Some (created_cursor (demo_twin 9 1002))) = Some []" by code_simp
  have "in_millis (createdAt (demo_twin 8 1001)) = in_millis (createdAt (demo_twin 9 1002))" "createdAt (demo_twin 8 1001) < createdAt (demo_twin 9 1002)"
    "in_millis (createdAt (demo_twin 8 1001)) < createdAt (demo_twin 8 1001)" by code_simp+
  from same_millisecond_skipped[OF w this] w show ?thesis by blast
qed

section \<open>Files\<close>

text \<open>
  C33. The file reader gives back every table the file writer writes: quotes, commas, line breaks and
  the byte-order mark included. Only lines without any text are lost, and a text a spreadsheet could run
  as a formula comes back behind an apostrophe.
\<close>

theorem csv_roundtrip:
  "\<exists>result. parseCsv (toCsv header rows) = Inr result \<and> map csv_cells result = content_rows (map Text header # rows)"
  by (rule parse_toCsv)

section \<open>The outbox\<close>

text \<open>
  C34. One run of the relay gives every event that is due to the queue, each exactly once and in the
  order of their ids, and leaves none due, however many batches that takes.
\<close>

theorem relay_delivers_all_due:
  assumes "distinct (map row_id (outbox_events d))" "relayAll e True d = (sent, d')"
  shows "sent = sort_key row_id (filter (due e) (outbox_events d)) \<and> filter (due e) (outbox_events d') = []"
  by (rule relayAll_all[OF assms])

definition demo_event :: "uuid \<Rightarrow> instant \<Rightarrow> outbox_row" where
  "demo_event i t = \<lparr>row_id = i, ob_type = ''application.received'', ob_payload = JObj [], ob_occurredAt = 1, ob_availableAt = t,
     ob_correlationId = None, ob_actorUserId = None, ob_publishedAt = None, ob_attempts = 0, ob_lastError = None\<rparr>"

definition demo_events :: db where
  "demo_events = demo_db\<lparr>outbox_events := [demo_event 32 2, demo_event 31 1, demo_event 33 9]\<rparr>"

theorem relay_delivers_all_due_witness:
  "\<exists>sent d'. relayAll demo_env True demo_events = (sent, d') \<and> map row_id sent = [31, 32] \<and> filter (due demo_env) (outbox_events d') = []"
proof -
  obtain sent d' where run: "relayAll demo_env True demo_events = (sent, d')" by fastforce
  have "distinct (map row_id (outbox_events demo_events))" by code_simp
  moreover have "map row_id (sort_key row_id (filter (due demo_env) (outbox_events demo_events))) = [31, 32]" by code_simp
  ultimately show ?thesis using relay_delivers_all_due[OF _ run] run by auto
qed

text \<open>
  C35. An event that was handled may be delivered again, now or later: every handler skips it and
  nothing changes. Handlers may do anything but remove rows of the inbox.
\<close>

theorem redelivery_is_harmless:
  assumes "dispatch e rt handlers stored d = (Inr (handled, skipped), d1)" "\<forall>h \<in> set handlers. keeps_inbox h"
    and "set (processed_events d1) \<subseteq> set (processed_events d2)"
  shows "dispatch e' rt handlers stored d2 = (Inr (0, handled + skipped), d2)"
  by (rule redelivery[OF assms])

definition demo_handler :: "string \<Rightarrow> db handler" where
  "demo_handler name = \<lparr>hd_name = name, hd_eventType = ''application.received'', hd_handle = (\<lambda>event d. Inr (d\<lparr>next_id := next_id d + 1\<rparr>))\<rparr>"

theorem redelivery_is_harmless_witness:
  "\<exists>d1. dispatch demo_env demo_runtime [demo_handler ''mail'', demo_handler ''count''] (demo_event 31 1) demo_events = (Inr (2, 0), d1)
     \<and> dispatch demo_env demo_runtime [demo_handler ''mail'', demo_handler ''count''] (demo_event 31 1) d1 = (Inr (0, 2), d1)"
proof -
  let ?run = "dispatch demo_env demo_runtime [demo_handler ''mail'', demo_handler ''count''] (demo_event 31 1)"
  have "fst (?run demo_events) = Inr (2, 0)" by code_simp
  then obtain d1 where d1: "?run demo_events = (Inr (2, 0), d1)" by (metis prod.collapse)
  have "\<forall>h \<in> set [demo_handler ''mail'', demo_handler ''count'']. keeps_inbox h" by (auto simp: keeps_inbox_def demo_handler_def)
  from redelivery_is_harmless[OF d1 this order_refl] d1 show ?thesis by auto
qed

section \<open>Requests sent twice\<close>

text \<open>
  C36. A request with an idempotency key that was answered is answered with the same status and body
  when it comes again within a day, whatever the handler would do now, and the state does not change.
\<close>

theorem repeated_request_is_replayed:
  assumes "intercept e route req handle d = Inr (reply, d1)" "ro_idempotent route = Some required" "hr_key req = Some key" "key \<noteq> []"
    and "stored_response (principal_of e req) key d2 = stored_response (principal_of e req) key d1"
    and "printers.truncate e2 = printers.truncate e" "sha256 e2 = sha256 e" "now e \<le> now e2" "now e2 < now e + TTL"
    and "\<not> rp_replayed reply"
  shows "intercept e2 route req handle2 d2 = Inr (reply\<lparr>rp_replayed := True\<rparr>, d2)"
  by (rule replayed[OF assms])

definition demo_post_request :: http_request where
  "demo_post_request = \<lparr>hr_user = Some 1, hr_key = Some ''pay-0001'', hr_method = ''POST'', hr_url = ''/payments?x=1'', hr_body = JObj [(''amount'', JInt 5)],
     hr_query = JObj []\<rparr>"

definition demo_work :: "db \<Rightarrow> app_error + (json \<times> db)" where
  "demo_work d = Inr (JInt (int (next_id d)), d\<lparr>next_id := next_id d + 1\<rparr>)"

theorem repeated_request_is_replayed_witness:
  "\<exists>d1. intercept demo_env \<lparr>ro_idempotent = Some True, ro_status = 201\<rparr> demo_post_request demo_work demo_db
       = Inr (\<lparr>rp_status = 201, rp_body = JInt 100, rp_replayed = False\<rparr>, d1)
     \<and> intercept demo_env \<lparr>ro_idempotent = Some True, ro_status = 201\<rparr> demo_post_request demo_work d1
       = Inr (\<lparr>rp_status = 201, rp_body = JInt 100, rp_replayed = True\<rparr>, d1)"
proof -
  let ?go = "intercept demo_env \<lparr>ro_idempotent = Some True, ro_status = 201\<rparr> demo_post_request demo_work"
  have "map_sum id fst (?go demo_db) = Inr \<lparr>rp_status = 201, rp_body = JInt 100, rp_replayed = False\<rparr>" by code_simp
  then obtain d1 where d1: "?go demo_db = Inr (\<lparr>rp_status = 201, rp_body = JInt 100, rp_replayed = False\<rparr>, d1)"
    by (cases "?go demo_db") auto
  have "?go d1 = Inr (\<lparr>rp_status = 201, rp_body = JInt 100, rp_replayed = False\<rparr>\<lparr>rp_replayed := True\<rparr>, d1)"
    by (rule repeated_request_is_replayed[OF d1, where required = True and key = "''pay-0001''"]) (simp_all add: demo_post_request_def TTL_def)
  then show ?thesis using d1 by auto
qed

end
