(* ===== verification/AccessProperties.thy ===== *)
theory AccessProperties
  imports SystemScenario
begin

text \<open>
  The properties of who may enter: the guards in front of a route, second factors, reset links and the
  administrators of the institution.
\<close>

section \<open>Sessions\<close>

text \<open>
  C37. Nobody gets past the guards of a route that is not public without a session: one that is not
  revoked and not expired, of an account that is on, with its second factor given where one is set or
  demanded, and with the permission the route asks for. An undeclared route lets nobody in.
\<close>

theorem guards_admit_only_the_entitled:
  assumes "enter e c r cookie d = (Inr auth, d')" "route_access r \<noteq> Public"
  shows "\<exists>token s u a. cookie = Some token \<and> auth = Some a \<and> s \<in> set (user_sessions d) \<and> us_tokenHash s = hashToken e token
    \<and> us_revokedAt s = None \<and> now e < us_idleExpiresAt s \<and> now e < us_absoluteExpiresAt s
    \<and> findById (us_userId s) d = Some u \<and> usr_status u = AccActive \<and> ac_userId a = row_id u
    \<and> (route_allowsPending r \<or> us_mfaVerifiedAt s \<noteq> None \<or> \<not> usr_mfaEnforced u \<and> Option.bind (factorOf (us_userId s) d) tf_confirmedAt = None)
    \<and> (route_access r = SelfService \<or> (\<exists>p. route_access r = Requires p \<and> hasPermission (grantsFor (row_id u) d) p None))"
  by (rule enter_means[OF assms])

theorem guards_admit_only_the_entitled_witness:
  "\<exists>auth d'. enter demo_live demo_auth \<lparr>route_access = SelfService, route_allowsPending = True\<rparr> (Some ''token'') demo_signed_in = (Inr auth, d')
     \<and> (\<exists>s \<in> set (user_sessions demo_signed_in). us_tokenHash s = ''token'' \<and> us_revokedAt s = None)"
proof -
  let ?go = "enter demo_live demo_auth \<lparr>route_access = SelfService, route_allowsPending = True\<rparr> (Some ''token'') demo_signed_in"
  have "isl (fst ?go) = False" by code_simp
  then obtain auth d' where go: "?go = (Inr auth, d')" by (metis isl_def prod.collapse sum.exhaust)
  have h: "hashToken demo_live ''token'' = ''token''" by (simp add: hashToken_def demo_live_def)
  from guards_admit_only_the_entitled[OF go] have "\<exists>s \<in> set (user_sessions demo_signed_in). us_tokenHash s = ''token'' \<and> us_revokedAt s = None"
    by (auto simp: h)
  with go show ?thesis by blast
qed





text \<open>
  C39. A password is reset only with a link that is open, of an account that is on; afterwards no session
  of that account is open, and the link works no more.
\<close>

theorem reset_signs_out_and_spends_the_link:
  assumes "resetPassword e k token password ctx d = Inr d'" "distinct (map prt_tokenHash (password_reset_tokens d))"
  shows "\<exists>t u. t \<in> set (password_reset_tokens d) \<and> usable_token e token d t \<and> findById (prt_userId t) d = Some u
    \<and> (\<forall>s \<in> set (user_sessions d'). us_userId s = row_id u \<longrightarrow> us_revokedAt s \<noteq> None)
    \<and> (\<forall>e' x. hashToken e' token = hashToken e token \<longrightarrow> resetPassword e' k token x ctx d' = Inl (Auth InvalidResetToken))"
  by (rule reset_effect[OF assms])

theorem reset_signs_out_and_spends_the_link_witness:
  "\<exists>d'. resetPassword demo_live demo_tools ''reset'' ''a longer secret'' demo_visitor demo_signed_in = Inr d'
     \<and> resetPassword demo_live demo_tools ''reset'' ''another secret'' demo_visitor d' = Inl (Auth InvalidResetToken)"
proof -
  obtain d' where s: "resetPassword demo_live demo_tools ''reset'' ''a longer secret'' demo_visitor demo_signed_in = Inr d'"
    using demo_reset by blast
  have "map prt_tokenHash (password_reset_tokens demo_signed_in) = [''reset'']" by code_simp
  then have "distinct (map prt_tokenHash (password_reset_tokens demo_signed_in))" by simp
  from reset_signs_out_and_spends_the_link[OF s this] s show ?thesis by blast
qed

section \<open>Administrators\<close>

text \<open>
  C40. Whatever is done to staff accounts, invitations and roles, by whomever and in whatever order, the
  institution never loses its last administrator who can sign in.
\<close>

theorem an_administrator_remains:
  assumes "staff_ok d" "staff_step\<^sup>*\<^sup>* d d'"
  shows "\<exists>i. active_admin d' i"
  using staff_steps_ok[OF assms(2,1)] by (simp add: staff_ok_def)

theorem an_administrator_remains_witness:
  "\<exists>v d'. setStatus demo_live 1 AccDisabled demo_manager demo_staff = Inr (v, d') \<and> (\<exists>i. active_admin d' i)"
proof -
  obtain v d' where s: "setStatus demo_live 1 AccDisabled demo_manager demo_staff = Inr (v, d')" using demo_disable by blast
  have "staff_step\<^sup>*\<^sup>* demo_staff d'" by (rule r_into_rtranclp) (rule staff_step.set_status[OF s])
  from an_administrator_remains[OF demo_staff_ok this] s show ?thesis by blast
qed

end
