(* ===== verification/PaymentForm.thy ===== *)
theory PaymentForm
  imports Books
begin

text \<open>
  The form that records a payment (\<open>PaymentForm\<close> of
  \<open>apps/portal/src/features/billing/invoice-detail-screen.tsx\<close> with the \<open>MoneyInput\<close> of \<open>money.tsx\<close>): it
  opens with what the next instalment owes, as a text and as a number of minor units, and keeps the two
  apart from then on. What the server makes of its body is \<open>recordPaymentRequestSchema\<close>. Rendering,
  the idempotency key and the request itself are not modelled.
\<close>

section \<open>The form\<close>

record payment_form =
  pf_text :: string
  pf_minor :: "int option"
  pf_method :: payment_method
  pf_reference :: string

text \<open>
  \<open>(n / 100).toFixed(2)\<close>. The quotient is the double nearest to it and \<open>toFixed\<close> prints the decimal
  nearest to that; for amounts up to \<open>MAX_MINOR_UNITS\<close> the double is off by less than a thousandth of a
  unit, so what is printed is the exact quotient.
\<close>

definition toFixed2 :: "int \<Rightarrow> string" where
  "toFixed2 n = (if n < 0 then ''-'' else []) @ show_nat (nat (abs n div 100)) @ CHR ''.''
     # padStart 2 (CHR ''0'') (show_nat (nat (abs n mod 100)))"

definition suggested :: "invoice_view \<Rightarrow> int" where
  "suggested invoice = (case find (\<lambda>i. ivp_paidAmount i < ivp_amount i) (iv_installments invoice) of
     Some nextOwed \<Rightarrow> ivp_amount nextOwed - ivp_paidAmount nextOwed | None \<Rightarrow> 0)"

definition paymentForm :: "invoice_view \<Rightarrow> payment_form" where
  "paymentForm invoice = \<lparr>pf_text = toFixed2 (suggested invoice), pf_minor = Some (suggested invoice),
     pf_method = Cash, pf_reference = []\<rparr>"

datatype form_edit = TypeAmount string | ChooseMethod payment_method | TypeReference string

fun edit_form :: "form_edit \<Rightarrow> payment_form \<Rightarrow> payment_form" where
  "edit_form (TypeAmount value) form = form\<lparr>pf_text := value, pf_minor := parseMoney value\<rparr>"
| "edit_form (ChooseMethod method) form = form\<lparr>pf_method := method\<rparr>"
| "edit_form (TypeReference value) form = form\<lparr>pf_reference := value\<rparr>"

definition METHODS_NEEDING_REFERENCE :: "payment_method list" where
  "METHODS_NEEDING_REFERENCE = [BankTransfer, Cheque]"

definition form_invalid :: "payment_form \<Rightarrow> bool" where
  "form_invalid form \<longleftrightarrow> (case pf_minor form of None \<Rightarrow> True | Some minor \<Rightarrow> minor < 1)
     \<or> pf_method form \<in> set METHODS_NEEDING_REFERENCE \<and> trim (pf_reference form) = []"

text \<open>What the server reads from the body, if the schema accepts it.\<close>

definition recordPaymentRequest :: "invoice_view \<Rightarrow> payment_form \<Rightarrow> record_payment option" where
  "recordPaymentRequest invoice form = (let reference = trim (pf_reference form) in
     case pf_minor form of
       None \<Rightarrow> None
     | Some amount \<Rightarrow>
         if is_positive_minor_units amount \<and> length reference \<le> 60
           \<and> (pf_method form \<in> set METHODS_NEEDING_REFERENCE \<longrightarrow> reference \<noteq> [])
         then Some \<lparr>rp_invoiceId = iv_id invoice, rp_amount = amount, rp_method = pf_method form,
           rp_reference = (if reference = [] then None else Some reference)\<rparr>
         else None)"

section \<open>The text and the number\<close>

lemma parse_toFixed2:
  assumes "is_minor_units n"
  shows "parseMoney (toFixed2 n) = Some n"
proof -
  let ?w = "show_nat (nat (n div 100))"
  let ?f = "padStart 2 (CHR ''0'') (show_nat (nat (n mod 100)))"
  have n: "0 \<le> n" "n \<le> MAX_MINOR_UNITS" using assms by (simp_all add: is_minor_units_def)
  have f: "\<forall>c \<in> set ?f. is_digit c" using digits_padStart[OF digits_show_nat] by blast
  have "nat (n mod 100) < 10 ^ Suc 1" by (simp add: nat_less_iff)
  then have "length (show_nat (nat (n mod 100))) \<le> Suc 1" by (rule length_show_nat)
  then have lf: "length ?f = 2" by (simp add: length_padStart)
  have "n div 100 < 10 ^ 12" using n(2) by (simp add: MAX_MINOR_UNITS_def)
  then have "nat (n div 100) < 10 ^ Suc 11" using n(1) by (simp add: nat_less_iff)
  then have lw: "1 \<le> length ?w" "length ?w \<le> 12"
    using length_show_nat[of "nat (n div 100)" 11] show_nat_nonempty[of "nat (n div 100)"] by (cases ?w; simp)+
  have plain: "\<forall>c \<in> set (?w @ CHR ''.'' # ?f). c \<noteq> CHR '','' \<and> \<not> is_space c"
    using f digits_show_nat[of "nat (n div 100)"] by (auto simp: is_digit_def is_space_def)
  then have "filter (\<lambda>c. c \<noteq> CHR '','' \<and> \<not> is_space c) (trim (?w @ CHR ''.'' # ?f)) = ?w @ CHR ''.'' # ?f"
    using trim_no_space[of "?w @ CHR ''.'' # ?f"] by (simp add: filter_id_conv)
  moreover have "money_match (?w @ CHR ''.'' # ?f) = Some (?w, ?f)"
    by (rule money_match_digits) (use digits_show_nat f lf lw in auto)
  moreover have "padEnd 2 (CHR ''0'') ?f = ?f" by (simp add: padEnd_def lf)
  moreover have "0 \<le> n div 100" using n(1) by simp
  ultimately show ?thesis using n by (simp add: parseMoney_def toFixed2_def)
qed

lemma parseMoney_bounds: "parseMoney s = Some n \<Longrightarrow> is_minor_units n"
  by (auto simp: parseMoney_def is_minor_units_def Let_def split: option.splits if_splits)

text \<open>Whatever is typed, the number the form sends is the one its text reads as.\<close>

definition form_agrees :: "payment_form \<Rightarrow> bool" where
  "form_agrees form \<longleftrightarrow> pf_minor form = parseMoney (pf_text form)"

lemma form_agrees_open: "is_minor_units (suggested invoice) \<Longrightarrow> form_agrees (paymentForm invoice)"
  by (simp add: form_agrees_def paymentForm_def parse_toFixed2)

lemma form_agrees_edit: "form_agrees form \<Longrightarrow> form_agrees (edit_form edit form)"
  by (cases edit) (simp_all add: form_agrees_def)

lemma form_agrees_edits: "form_agrees form \<Longrightarrow> form_agrees (fold edit_form edits form)"
  by (induction edits arbitrary: form) (simp_all add: form_agrees_edit)

text \<open>A button that is on sends what the server's schema accepts, but for a reference that is too long.\<close>

lemma form_accepted:
  assumes "form_agrees form" "\<not> form_invalid form" "length (trim (pf_reference form)) \<le> 60"
  obtains req where "recordPaymentRequest invoice form = Some req" "valid_payment_request req"
    "rp_invoiceId req = iv_id invoice" "pf_minor form = Some (rp_amount req)"
proof (cases "pf_minor form")
  case None
  then show ?thesis using assms(2) by (simp add: form_invalid_def)
next
  case (Some amount)
  then have "is_positive_minor_units amount"
    using assms(1,2) parseMoney_bounds[of "pf_text form" amount]
    by (auto simp: form_agrees_def form_invalid_def is_minor_units_def is_positive_minor_units_def split: option.splits)
  with Some assms show ?thesis
    by (intro that[of "the (recordPaymentRequest invoice form)"])
      (auto simp: recordPaymentRequest_def form_invalid_def METHODS_NEEDING_REFERENCE_def valid_payment_request_def Let_def)
qed

section \<open>What is suggested\<close>

lemma find_map_Some: "find P (map f xs) = map_option f (find (\<lambda>x. P (f x)) xs)"
  by (induction xs) simp_all

text \<open>In sound books the form suggests something exactly when the invoice owes something, and never more.\<close>

lemma suggested_owes:
  assumes "ledger_ok d" "bill \<in> set (invoices d)" "inv_status bill \<noteq> InvVoid"
  shows "0 \<le> suggested (presentInvoice t d bill) \<and> suggested (presentInvoice t d bill) \<le> inv_total bill - inv_paidTotal bill
    \<and> (suggested (presentInvoice t d bill) = 0 \<longleftrightarrow> inv_total bill = inv_paidTotal bill)"
proof -
  let ?ps = "installmentsOf (row_id bill) d"
  have pos: "0 \<le> owed p" if "p \<in> set ?ps" for p
    using that base_part(5)[of d p] assms(1) by (auto simp: installmentsOf_def ledger_ok_def)
  have rest: "inv_total bill - inv_paidTotal bill = sum_list (map owed ?ps)" by (rule open_invoice_owes[OF assms])
  have first: "suggested (presentInvoice t d bill)
      = (case find (\<lambda>p. 0 < owed p) ?ps of Some p \<Rightarrow> owed p | None \<Rightarrow> 0)"
    unfolding suggested_def presentInvoice_def Let_def
    by (simp add: find_map_Some) (auto simp: owed_def comp_def split: option.splits)
  show ?thesis
  proof (cases "find (\<lambda>p. 0 < owed p) ?ps")
    case None
    then have "\<forall>p \<in> set ?ps. owed p = 0" using pos by (force simp: find_None_iff)
    then have "sum_list (map owed ?ps) = 0" by (simp add: sum_list_eq_0_iff[symmetric] cong: map_cong)
    with None first rest show ?thesis by simp
  next
    case (Some p)
    then obtain i where "i < length ?ps" "p = ?ps ! i" "0 < owed p" by (auto simp: find_Some_iff)
    then have p: "p \<in> set ?ps" "0 < owed p" by (simp_all only: nth_mem)
    have "owed p \<le> sum_list (map owed ?ps)" using p(1) pos by (intro member_le_sum_list) auto
    with Some first rest p(2) show ?thesis by simp
  qed
qed

end
