(* ===== verification/Reports.thy ===== *)
theory Reports
  imports Lists Csv
begin

text \<open>
  The finance reports (\<open>reports/application/reports.service.ts\<close>, \<open>reports/domain/range.ts\<close>,
  \<open>packages/contracts/src/reports.ts\<close>): what was received in a range of days, what is still owed by
  age, the list behind each age, and both as files. A query is the parsed query string. Text columns
  sort by their bytes; the order of rows that agree in every sort column is not fixed by the database
  and is the table's here.
\<close>

section \<open>Ages and ranges\<close>

datatype aging_bucket = NotDue | D1_30 | D31_60 | D61_90 | D90_plus

definition AGING_BUCKETS :: "aging_bucket list" where
  "AGING_BUCKETS = [NotDue, D1_30, D31_60, D61_90, D90_plus]"

text \<open>The dash is U+2013, three bytes.\<close>

definition EN_DASH :: string where "EN_DASH = [CHR 0xE2, CHR 0x80, CHR 0x93]"

fun AGING_LABELS :: "aging_bucket \<Rightarrow> string" where
  "AGING_LABELS NotDue = ''Not yet due''"
| "AGING_LABELS D1_30 = ''1'' @ EN_DASH @ ''30 days overdue''"
| "AGING_LABELS D31_60 = ''31'' @ EN_DASH @ ''60 days overdue''"
| "AGING_LABELS D61_90 = ''61'' @ EN_DASH @ ''90 days overdue''"
| "AGING_LABELS D90_plus = ''Over 90 days overdue''"

definition agingBucketFor :: "int \<Rightarrow> aging_bucket" where
  "agingBucketFor daysOverdue =
     (if daysOverdue \<le> 0 then NotDue
      else if daysOverdue \<le> 30 then D1_30
      else if daysOverdue \<le> 60 then D31_60
      else if daysOverdue \<le> 90 then D61_90
      else D90_plus)"

fun bucketDueRange :: "aging_bucket \<Rightarrow> date \<Rightarrow> date option \<times> date option" where
  "bucketDueRange NotDue asOf = (Some asOf, None)"
| "bucketDueRange D1_30 asOf = (Some (addDays asOf (- 30)), Some (addDays asOf (- 1)))"
| "bucketDueRange D31_60 asOf = (Some (addDays asOf (- 60)), Some (addDays asOf (- 31)))"
| "bucketDueRange D61_90 asOf = (Some (addDays asOf (- 90)), Some (addDays asOf (- 61)))"
| "bucketDueRange D90_plus asOf = (None, Some (addDays asOf (- 91)))"

definition MAX_REPORT_DAYS :: int where "MAX_REPORT_DAYS = 1100"

definition resolveRange :: "date option \<Rightarrow> date option \<Rightarrow> date \<Rightarrow> app_error + (date \<times> date)" where
  "resolveRange fromDay toDay todayDate =
     (let lastDay = (case toDay of None \<Rightarrow> todayDate | Some d \<Rightarrow> d);
          firstDay = (case fromDay of None \<Rightarrow> Date (year lastDay) (month lastDay) 1 | Some d \<Rightarrow> d) in
      bindE (throwIf (lastDay < firstDay) InvalidDateRange) (\<lambda>_.
      bindE (throwIf (days_of lastDay - days_of firstDay + 1 > MAX_REPORT_DAYS) DateRangeTooLarge) (\<lambda>_.
      Inr (firstDay, lastDay))))"

section \<open>Who sees what\<close>

text \<open>\<open>leftJoin\<close> from an invoice's class to its program; there may be none.\<close>

definition programOf :: "invoice_row \<Rightarrow> 'a classes_db_scheme \<Rightarrow> program_row option" where
  "programOf invoice d =
     Option.bind (inv_cohortId invoice) (\<lambda>c.
     Option.bind (find_by row_id c (cohorts d)) (\<lambda>cohort.
     Option.bind (find_by row_id (coh_courseId cohort) (courses d)) (\<lambda>course.
     find_by row_id (crs_programId course) (programs d))))"

text \<open>A comparison with a NULL department is not true.\<close>

definition report_scope :: "grant list \<Rightarrow> uuid \<Rightarrow> uuid option \<Rightarrow> bool" where
  "report_scope grants branchId departmentId = (let r = scopesFor grants ''reports.finance'' in
     rs_all r \<or> branchId \<in> set (rs_branchIds r)
     \<or> (case departmentId of None \<Rightarrow> False | Some dp \<Rightarrow> dp \<in> set (rs_departmentIds r)))"

definition in_department :: "uuid option \<Rightarrow> uuid option \<Rightarrow> bool" where
  "in_department wanted departmentId = if_given wanted (\<lambda>dp. departmentId = Some dp)"

section \<open>Outstanding balances\<close>

record outstanding_query =
  oq_asOf :: "date option"
  oq_branchId :: "uuid option"
  oq_departmentId :: "uuid option"

type_synonym owed_row = "installment_row \<times> invoice_row"

definition owedConditions :: "outstanding_query \<Rightarrow> grant list \<Rightarrow> db \<Rightarrow> owed_row \<Rightarrow> bool" where
  "owedConditions q grants d = (\<lambda>(p, invoice). let dept = map_option prog_departmentId (programOf invoice d) in
     inv_status invoice \<noteq> InvVoid \<and> part_amount p > part_paidAmount p
     \<and> if_given (oq_branchId q) (\<lambda>b. inv_branchId invoice = b)
     \<and> in_department (oq_departmentId q) dept
     \<and> report_scope grants (inv_branchId invoice) dept)"

text \<open>\<open>from(installments).innerJoin(invoices)\<close>.\<close>

definition billed_parts :: "db \<Rightarrow> owed_row list" where
  "billed_parts d = concat (map (\<lambda>p. case find_by row_id (part_invoiceId p) (invoices d) of
     None \<Rightarrow> [] | Some invoice \<Rightarrow> [(p, invoice)]) (installments d))"

definition left_to_pay :: "owed_row \<Rightarrow> int" where
  "left_to_pay r = part_amount (fst r) - part_paidAmount (fst r)"

definition bucketExpr :: "date \<Rightarrow> owed_row \<Rightarrow> aging_bucket" where
  "bucketExpr asOf r = agingBucketFor (daysPastDue asOf (part_dueDate (fst r)))"

record aging_row =
  ag_bucket :: aging_bucket
  ag_label :: string
  ag_count :: nat
  ag_amount :: int

record outstanding_report =
  or_asOf :: date
  or_currency :: string
  or_buckets :: "aging_row list"
  or_count :: nat
  or_amount :: int
  or_overdueCount :: nat
  or_overdueAmount :: int

definition aging_of :: "date \<Rightarrow> owed_row list \<Rightarrow> aging_bucket \<Rightarrow> aging_row" where
  "aging_of asOf rows bucket = (let group = filter (\<lambda>r. bucketExpr asOf r = bucket) rows in
     \<lparr>ag_bucket = bucket, ag_label = AGING_LABELS bucket, ag_count = length group,
      ag_amount = sum_list (map left_to_pay group)\<rparr>)"

definition asOf_day :: "env \<Rightarrow> outstanding_query \<Rightarrow> db \<Rightarrow> app_error + date" where
  "asOf_day e q d = (case oq_asOf q of Some day_given \<Rightarrow> Inr day_given | None \<Rightarrow> today e d)"

definition outstanding :: "env \<Rightarrow> outstanding_query \<Rightarrow> grant list \<Rightarrow> db \<Rightarrow> app_error + outstanding_report" where
  "outstanding e q grants d =
     bindE (institution_row d) (\<lambda>inst.
     bindE (asOf_day e q d) (\<lambda>asOf.
     let buckets = map (aging_of asOf (filter (owedConditions q grants d) (billed_parts d))) AGING_BUCKETS;
         overdue = filter (\<lambda>b. ag_bucket b \<noteq> NotDue) buckets in
     Inr \<lparr>or_asOf = asOf, or_currency = inst_currency inst, or_buckets = buckets,
       or_count = sum_list (map ag_count buckets), or_amount = sum_list (map ag_amount buckets),
       or_overdueCount = sum_list (map ag_count overdue), or_overdueAmount = sum_list (map ag_amount overdue)\<rparr>))"

section \<open>The list behind it\<close>

record outstanding_items_query = "(date \<times> uuid) page_query" +
  oiq_filter :: outstanding_query
  oiq_bucket :: "aging_bucket option"

record outstanding_item =
  oi_installmentId :: uuid
  oi_invoiceId :: uuid
  oi_invoiceNumber :: string
  oi_studentId :: uuid
  oi_studentNumber :: string
  oi_studentName :: string
  oi_branchId :: uuid
  oi_sequence :: nat
  oi_dueDate :: date
  oi_owed :: int
  oi_daysOverdue :: int
  oi_bucket :: aging_bucket

type_synonym student_part = "student_row \<times> owed_row"

text \<open>\<open>.innerJoin(students)\<close>.\<close>

definition student_parts :: "db \<Rightarrow> student_part list" where
  "student_parts d = concat (map (\<lambda>r. case find_by row_id (inv_studentId (snd r)) (students d) of
     None \<Rightarrow> [] | Some s \<Rightarrow> [(s, r)]) (billed_parts d))"

definition in_due_range :: "aging_bucket option \<Rightarrow> date \<Rightarrow> owed_row \<Rightarrow> bool" where
  "in_due_range bucket asOf r = (case bucket of None \<Rightarrow> True
     | Some b \<Rightarrow> (case bucketDueRange b asOf of (lo, hi) \<Rightarrow>
         if_given lo (\<lambda>m. m \<le> part_dueDate (fst r)) \<and> if_given hi (\<lambda>m. part_dueDate (fst r) \<le> m)))"

definition toItem :: "date \<Rightarrow> student_part \<Rightarrow> outstanding_item" where
  "toItem asOf = (\<lambda>(s, p, invoice). let daysOverdue = days_of asOf - days_of (part_dueDate p) in
     \<lparr>oi_installmentId = row_id p, oi_invoiceId = row_id invoice, oi_invoiceNumber = inv_number invoice,
      oi_studentId = row_id s, oi_studentNumber = st_number s, oi_studentName = st_givenName s @ '' '' @ st_fatherName s,
      oi_branchId = inv_branchId invoice, oi_sequence = part_sequence p, oi_dueDate = part_dueDate p,
      oi_owed = part_amount p - part_paidAmount p, oi_daysOverdue = daysOverdue, oi_bucket = agingBucketFor daysOverdue\<rparr>)"

definition due_key :: "student_part \<Rightarrow> date \<times> uuid" where
  "due_key x = (part_dueDate (fst (snd x)), row_id (fst (snd x)))"

definition item_listed :: "outstanding_query \<Rightarrow> aging_bucket option \<Rightarrow> grant list \<Rightarrow> date \<Rightarrow> db \<Rightarrow> student_part \<Rightarrow> bool" where
  "item_listed q bucket grants asOf d x \<longleftrightarrow> owedConditions q grants d (snd x) \<and> in_due_range bucket asOf (snd x)"

definition outstandingItems :: "env \<Rightarrow> outstanding_items_query \<Rightarrow> grant list \<Rightarrow> db
    \<Rightarrow> app_error + (outstanding_item list \<times> (date \<times> uuid) option)" where
  "outstandingItems e q grants d =
     bindE (asOf_day e (oiq_filter q) d) (\<lambda>asOf.
     bindE (paged due_key Asc due_key (item_listed (oiq_filter q) (oiq_bucket q) grants asOf d) (student_parts d) q) (\<lambda>(items, nextCursor).
     Inr (map (toItem asOf) items, nextCursor)))"

section \<open>Revenue\<close>

datatype revenue_grouping = ByDay | ByMonth | ByBranch | ByDepartment | ByProgram | ByMethod

record revenue_query =
  rq_from :: "date option"
  rq_to :: "date option"
  rq_groupBy :: revenue_grouping
  rq_branchId :: "uuid option"
  rq_departmentId :: "uuid option"
  rq_method :: "payment_method option"

record revenue_row =
  rr_key :: string
  rr_label :: string
  rr_count :: nat
  rr_amount :: int

record revenue_report =
  rv_from :: date
  rv_to :: date
  rv_groupBy :: revenue_grouping
  rv_currency :: string
  rv_rows :: "revenue_row list"
  rv_count :: nat
  rv_amount :: int
  rv_voidedCount :: nat
  rv_voidedAmount :: int

text \<open>A payment with what its joins bring: its invoice, its branch and the program of the invoice's class.\<close>

type_synonym joined_payment = "payment_row \<times> branch_row \<times> program_row option"

definition joined_payments :: "db \<Rightarrow> joined_payment list" where
  "joined_payments d = concat (map (\<lambda>p.
     case (find_by row_id (pay_invoiceId p) (invoices d), find_by row_id (pay_branchId p) (branches d)) of
       (Some invoice, Some branch) \<Rightarrow> [(p, branch, programOf invoice d)] | _ \<Rightarrow> []) (payments d))"

definition revenueConditions :: "revenue_query \<Rightarrow> grant list \<Rightarrow> instant \<Rightarrow> instant \<Rightarrow> payment_status \<Rightarrow> joined_payment \<Rightarrow> bool" where
  "revenueConditions q grants start stop status = (\<lambda>(p, branch, program). let dept = map_option prog_departmentId program in
     pay_status p = status \<and> start \<le> pay_receivedAt p \<and> pay_receivedAt p < stop
     \<and> if_given (rq_branchId q) (\<lambda>b. pay_branchId p = b)
     \<and> in_department (rq_departmentId q) dept
     \<and> if_given (rq_method q) (\<lambda>m. pay_method p = m)
     \<and> report_scope grants (pay_branchId p) dept)"

fun grouping :: "env \<Rightarrow> string \<Rightarrow> db \<Rightarrow> revenue_grouping \<Rightarrow> joined_payment \<Rightarrow> string \<times> string" where
  "grouping e tz d ByDay (p, branch, program) = (let t = iso_date (wall e (pay_receivedAt p) tz) in (t, t))"
| "grouping e tz d ByMonth (p, branch, program) = (let t = take 7 (iso_date (wall e (pay_receivedAt p) tz)) in (t, t))"
| "grouping e tz d ByBranch (p, branch, program) = (show_uuid e (row_id branch), br_name branch)"
| "grouping e tz d ByDepartment (p, branch, program) =
     (case Option.bind program (\<lambda>g. find_by row_id (prog_departmentId g) (departments d)) of
        None \<Rightarrow> (''none'', ''No class'') | Some dep \<Rightarrow> (show_uuid e (row_id dep), dept_name dep))"
| "grouping e tz d ByProgram (p, branch, program) =
     (case program of None \<Rightarrow> (''none'', ''No class'') | Some g \<Rightarrow> (show_uuid e (row_id g), prog_name g))"
| "grouping e tz d ByMethod (p, branch, program) = (method_name (pay_method p), method_name (pay_method p))"

text \<open>\<open>GROUP BY 1, 2\<close> with the count and the sum of each group.\<close>

definition grouped :: "(joined_payment \<Rightarrow> string \<times> string) \<Rightarrow> joined_payment list \<Rightarrow> revenue_row list" where
  "grouped keyLabel rows = map (\<lambda>kl. let group = filter (\<lambda>r. keyLabel r = kl) rows in
     \<lparr>rr_key = fst kl, rr_label = snd kl, rr_count = length group, rr_amount = sum_list (map (pay_amount \<circ> fst) group)\<rparr>)
     (remdups (map keyLabel rows))"

definition revenue_order :: "revenue_grouping \<Rightarrow> revenue_row list \<Rightarrow> revenue_row list" where
  "revenue_order by_what rows = (if by_what \<in> {ByDay, ByMonth} then sort_key rr_key rows
     else sort_key (\<lambda>r. - rr_amount r) (sort_key rr_label rows))"

definition METHOD_LABELS :: "string \<Rightarrow> string option" where
  "METHOD_LABELS = [''cash'' \<mapsto> ''Cash'', ''bank_transfer'' \<mapsto> ''Bank transfer'', ''cheque'' \<mapsto> ''Cheque'']"

definition method_label :: "revenue_grouping \<Rightarrow> revenue_row \<Rightarrow> revenue_row" where
  "method_label by_what r = (if by_what = ByMethod
     then r\<lparr>rr_label := (case METHOD_LABELS (rr_key r) of Some l \<Rightarrow> l | None \<Rightarrow> rr_key r)\<rparr> else r)"

definition revenue :: "env \<Rightarrow> revenue_query \<Rightarrow> grant list \<Rightarrow> db \<Rightarrow> app_error + revenue_report" where
  "revenue e q grants d =
     bindE (institution_row d) (\<lambda>inst.
     bindE (today e d) (\<lambda>t.
     bindE (resolveRange (rq_from q) (rq_to q) t) (\<lambda>(firstDay, lastDay).
     let tz = inst_timezone inst;
         start = zoned e firstDay ''00:00'' tz;
         stop = zoned e (addDays lastDay 1) ''00:00'' tz;
         base = (\<lambda>status. grouped (grouping e tz d (rq_groupBy q))
                   (filter (revenueConditions q grants start stop status) (joined_payments d)));
         rows = map (method_label (rq_groupBy q)) (revenue_order (rq_groupBy q) (base Posted));
         voidedRows = base PayVoid in
     Inr \<lparr>rv_from = firstDay, rv_to = lastDay, rv_groupBy = rq_groupBy q, rv_currency = inst_currency inst, rv_rows = rows,
       rv_count = sum_list (map rr_count rows), rv_amount = sum_list (map rr_amount rows),
       rv_voidedCount = sum_list (map rr_count voidedRows), rv_voidedAmount = sum_list (map rr_amount voidedRows)\<rparr>)))"

section \<open>Files\<close>

record csv_file =
  cf_filename :: string
  cf_content :: string

fun REVENUE_HEADINGS :: "revenue_grouping \<Rightarrow> string" where
  "REVENUE_HEADINGS ByDay = ''Date''"
| "REVENUE_HEADINGS ByMonth = ''Month''"
| "REVENUE_HEADINGS ByBranch = ''Branch''"
| "REVENUE_HEADINGS ByDepartment = ''Department''"
| "REVENUE_HEADINGS ByProgram = ''Program''"
| "REVENUE_HEADINGS ByMethod = ''Method''"

fun grouping_name :: "revenue_grouping \<Rightarrow> string" where
  "grouping_name ByDay = ''day''"
| "grouping_name ByMonth = ''month''"
| "grouping_name ByBranch = ''branch''"
| "grouping_name ByDepartment = ''department''"
| "grouping_name ByProgram = ''program''"
| "grouping_name ByMethod = ''method''"

definition revenueCsv :: "env \<Rightarrow> revenue_query \<Rightarrow> grant list \<Rightarrow> db \<Rightarrow> app_error + (csv_file \<times> db)" where
  "revenueCsv e q grants d =
     bindE (revenue e q grants d) (\<lambda>report.
     Inr (\<lparr>cf_filename = ''revenue-'' @ iso_date (rv_from report) @ ''-to-'' @ iso_date (rv_to report) @ ''.csv'',
         cf_content = toCsv [REVENUE_HEADINGS (rv_groupBy report), ''Payments'', ''Amount ('' @ rv_currency report @ '')'']
           (map (\<lambda>r. [Text (rr_label r), Text (show_nat (rr_count r)), Numeric (decimalMoney (rr_amount r))]) (rv_rows report)
            @ [[Text ''Total'', Text (show_nat (rv_count report)), Numeric (decimalMoney (rv_amount report))]])\<rparr>,
       audit e ''report.exported'' ''report'' JNull
         [(''report'', JStr ''revenue''), (''from'', JStr (iso_date (rv_from report))), (''to'', JStr (iso_date (rv_to report))),
          (''groupBy'', JStr (grouping_name (rv_groupBy report))), (''rows'', JInt (int (length (rv_rows report))))] d))"

definition CSV_ROW_LIMIT :: nat where "CSV_ROW_LIMIT = 50000"

text \<open>
  The \<open>do ... while (cursor && items.length < CSV_ROW_LIMIT)\<close> over pages of 100; \<open>None\<close> is out of
  fuel. A page with a next cursor is full, so 500 pages reach the limit (lemma \<open>collect_items_enough\<close>).
\<close>

fun collect_items :: "nat \<Rightarrow> ('k option \<Rightarrow> app_error + ('v list \<times> 'k option)) \<Rightarrow> 'k option \<Rightarrow> 'v list \<Rightarrow> (app_error + 'v list) option" where
  "collect_items 0 page cursor items = None"
| "collect_items (Suc fuel) page cursor items = (case page cursor of
     Inl err \<Rightarrow> Some (Inl err)
   | Inr (more_items, next_cursor) \<Rightarrow>
       (let items1 = items @ more_items in
        if next_cursor \<noteq> None \<and> length items1 < CSV_ROW_LIMIT then collect_items fuel page next_cursor items1
        else Some (Inr items1)))"

definition page_of_100 :: "outstanding_query \<Rightarrow> date \<Rightarrow> (date \<times> uuid) option \<Rightarrow> outstanding_items_query" where
  "page_of_100 q asOf cursor = \<lparr>pq_cursor = map_option Some cursor, pq_limit = 100, oiq_filter = q\<lparr>oq_asOf := Some asOf\<rparr>, oiq_bucket = None\<rparr>"

definition item_cells :: "outstanding_item \<Rightarrow> cell list" where
  "item_cells i = [Text (oi_studentNumber i), Text (oi_studentName i), Text (oi_invoiceNumber i), Text (show_nat (oi_sequence i)),
     Text (iso_date (oi_dueDate i)), Text (show_nat (nat (max (oi_daysOverdue i) 0))), Text (AGING_LABELS (oi_bucket i)),
     Numeric (decimalMoney (oi_owed i))]"

definition outstandingCsv :: "env \<Rightarrow> outstanding_query \<Rightarrow> grant list \<Rightarrow> db \<Rightarrow> (app_error + (csv_file \<times> db)) option" where
  "outstandingCsv e q grants d =
     (case bindE (institution_row d) (\<lambda>inst. bindE (asOf_day e q d) (\<lambda>asOf. Inr (inst, asOf))) of
        Inl err \<Rightarrow> Some (Inl err)
      | Inr (inst, asOf) \<Rightarrow>
          map_option (\<lambda>collected. bindE collected (\<lambda>items.
            Inr (\<lparr>cf_filename = ''outstanding-as-of-'' @ iso_date asOf @ ''.csv'',
                cf_content = toCsv [''Student number'', ''Student'', ''Invoice'', ''Instalment'', ''Due date'', ''Days overdue'', ''Age'',
                  ''Owed ('' @ inst_currency inst @ '')''] (map item_cells items)\<rparr>,
              audit e ''report.exported'' ''report'' JNull
                [(''report'', JStr ''outstanding''), (''asOf'', JStr (iso_date asOf)), (''rows'', JInt (int (length items)))] d)))
          (collect_items 500 (\<lambda>c. outstandingItems e (page_of_100 q asOf c) grants d) None []))"

end
