(* ===== verification/ReportsOk.thy ===== *)
theory ReportsOk
  imports Reports Walks Billing
begin

text \<open>
  That the reports say what the books say: the ages of the outstanding report add up to what the invoices
  owe, the list behind an age is that age's instalments, the revenue of a range is the payments received
  in it, and the file holds every row of the list.
\<close>

section \<open>Ages\<close>

lemma bucket_in_all: "b \<in> set AGING_BUCKETS" and distinct_buckets: "distinct AGING_BUCKETS"
  by (cases b; simp add: AGING_BUCKETS_def) (simp add: AGING_BUCKETS_def)

text \<open>The due dates of an age and the age of a due date agree, whichever end is open.\<close>

lemma due_range_bucket:
  assumes "valid_date asOf" "valid_date (part_dueDate (fst r))"
  shows "in_due_range (Some b) asOf r \<longleftrightarrow> bucketExpr asOf r = b"
proof -
  let ?due = "part_dueDate (fst r)"
  have le: "addDays asOf n \<le> ?due \<longleftrightarrow> days_of asOf + n \<le> days_of ?due"
    "?due \<le> addDays asOf n \<longleftrightarrow> days_of ?due \<le> days_of asOf + n" for n
    using days_of_le_iff[of "addDays asOf n" ?due] days_of_le_iff[of ?due "addDays asOf n"] assms by simp_all
  have le0: "asOf \<le> ?due \<longleftrightarrow> days_of asOf \<le> days_of ?due" using assms by simp
  show ?thesis unfolding bucketExpr_def agingBucketFor_def daysPastDue_def in_due_range_def
    by (cases b) (auto simp: if_given_def le le0 simp del: days_of_le_iff)
qed

section \<open>The outstanding report\<close>

lemma sum_by_bucket: "sum_list (map (\<lambda>b. sum_list (map g (filter (\<lambda>r. bucketExpr asOf r = b) rows))) AGING_BUCKETS) = sum_list (map g rows)"
  for g :: "owed_row \<Rightarrow> int"
  using sum_where_partition[OF distinct_buckets, of rows "\<lambda>_. True" "bucketExpr asOf" g] bucket_in_all
  by (simp add: sum_where_def)

lemma outstanding_Inr:
  assumes "outstanding e q grants d = Inr rep"
  obtains inst asOf where "institution_row d = Inr inst" "asOf_day e q d = Inr asOf" "or_asOf rep = asOf"
    "or_buckets rep = map (aging_of asOf (filter (owedConditions q grants d) (billed_parts d))) AGING_BUCKETS"
    "or_amount rep = sum_list (map left_to_pay (filter (owedConditions q grants d) (billed_parts d)))"
proof -
  obtain inst asOf where i: "institution_row d = Inr inst" "asOf_day e q d = Inr asOf"
    using assms by (auto simp: outstanding_def bindE_def split: sum.splits)
  have "or_asOf rep = asOf" and b: "or_buckets rep = map (aging_of asOf (filter (owedConditions q grants d) (billed_parts d))) AGING_BUCKETS"
    and a: "or_amount rep = sum_list (map ag_amount (or_buckets rep))"
    using assms i by (auto simp: outstanding_def Let_def)
  moreover have "or_amount rep = sum_list (map left_to_pay (filter (owedConditions q grants d) (billed_parts d)))"
    unfolding a b by (simp add: aging_of_def Let_def comp_def sum_by_bucket del: filter_filter)
  ultimately show ?thesis using that i by blast
qed

definition nothing_filtered :: "outstanding_query \<Rightarrow> grant list \<Rightarrow> bool" where
  "nothing_filtered q grants \<longleftrightarrow> oq_branchId q = None \<and> oq_departmentId q = None \<and> rs_all (scopesFor grants ''reports.finance'')"

lemma concat_option: "concat (map (\<lambda>p. case f p of None \<Rightarrow> [] | Some x \<Rightarrow> [(p, x)]) ps)
    = map (\<lambda>p. (p, the (f p))) (filter (\<lambda>p. f p \<noteq> None) ps)"
  by (induction ps) (auto split: option.splits)

lemma sum_where_positive:
  "(\<And>x. x \<in> set xs \<Longrightarrow> 0 \<le> g x) \<Longrightarrow> sum_where (\<lambda>x. P x \<and> 0 < g x) g xs = sum_where P g xs"
  by (induction xs) force+

text \<open>Taken over the whole institution, what the instalments owe is what the invoices that are not void owe.\<close>

lemma owed_total:
  assumes ok: "ledger_ok d" and all: "nothing_filtered q grants"
  shows "sum_list (map left_to_pay (filter (owedConditions q grants d) (billed_parts d)))
    = sum_where (\<lambda>bill. inv_status bill \<noteq> InvVoid) (\<lambda>bill. inv_total bill - inv_paidTotal bill) (invoices d)"
proof -
  let ?inv = "\<lambda>p. find_by row_id (part_invoiceId p) (invoices d)"
  let ?bills = "filter (\<lambda>bill. inv_status bill \<noteq> InvVoid) (invoices d)"
  let ?P = "\<lambda>p. ?inv p \<noteq> None \<and> inv_status (the (?inv p)) \<noteq> InvVoid"
  have base: "ledger_base d" using ok by (simp add: ledger_ok_def)
  have ids: "distinct (map row_id (invoices d))" using base by (simp add: ledger_base_def ids_distinct_def)
  have left: "left_to_pay (p, b) = owed p" for p b by (simp add: left_to_pay_def owed_def)
  have cond: "owedConditions q grants d (p, b) \<longleftrightarrow> inv_status b \<noteq> InvVoid \<and> 0 < owed p" for p b
    using all by (auto simp: owedConditions_def nothing_filtered_def Let_def if_given_def in_department_def report_scope_def owed_def)
  have pos: "0 \<le> owed p" if "p \<in> set (installments d)" for p using base_part(5)[OF base that] .
  have "sum_list (map left_to_pay (filter (owedConditions q grants d) (billed_parts d)))
      = sum_where (\<lambda>p. ?P p \<and> 0 < owed p) owed (installments d)"
    unfolding billed_parts_def concat_option sum_where_def
    by (simp add: filter_map comp_def cond left conj_ac)
  also have "\<dots> = sum_where ?P owed (installments d)"
    by (rule sum_where_positive) (rule pos)
  also have "\<dots> = sum_list (map (\<lambda>k. sum_where (\<lambda>p. ?P p \<and> part_invoiceId p = k) owed (installments d)) (map row_id ?bills))"
  proof (rule sum_where_partition[symmetric])
    show "distinct (map row_id ?bills)" using ids by (rule distinct_map_filter)
    show "part_invoiceId p \<in> set (map row_id ?bills)" if "?P p" for p
      using that by (auto dest: find_by_in find_by_key intro!: image_eqI)
  qed
  also have "\<dots> = sum_list (map (\<lambda>bill. inv_total bill - inv_paidTotal bill) ?bills)"
  proof -
    have "sum_where (\<lambda>p. ?P p \<and> part_invoiceId p = row_id bill) owed (installments d) = inv_total bill - inv_paidTotal bill"
      if "bill \<in> set ?bills" for bill
    proof -
      have bill: "bill \<in> set (invoices d)" "inv_status bill \<noteq> InvVoid" using that by auto
      have "?inv p = Some bill" if "part_invoiceId p = row_id bill" for p
        using find_by_distinct[OF ids bill(1)] that by simp
      then have "sum_where (\<lambda>p. ?P p \<and> part_invoiceId p = row_id bill) owed (installments d)
          = sum_where (\<lambda>p. part_invoiceId p = row_id bill) owed (installments d)"
        using bill(2) by (intro sum_where_cong) auto
      also have "\<dots> = sum_list (map owed (installmentsOf (row_id bill) d))" by (simp add: sum_where_def parts_of_def)
      finally show ?thesis using open_invoice_owes[OF ok bill] by simp
    qed
    then show ?thesis unfolding map_map comp_def by (intro arg_cong[where f = sum_list] map_cong refl)
  qed
  finally show ?thesis by (simp add: sum_where_def)
qed

section \<open>The list behind an age\<close>

definition students_known :: "db \<Rightarrow> bool" where
  "students_known d \<longleftrightarrow> (\<forall>bill \<in> set (invoices d). inv_studentId bill \<in> row_id ` set (students d))"

definition due_dates_valid :: "db \<Rightarrow> bool" where
  "due_dates_valid d \<longleftrightarrow> (\<forall>p \<in> set (installments d). valid_date (part_dueDate p))"

lemma billed_part:
  assumes "r \<in> set (billed_parts d)"
  shows "fst r \<in> set (installments d)" "snd r \<in> set (invoices d)"
  using assms by (auto simp: billed_parts_def concat_option dest: find_by_in)

lemma student_parts_all:
  assumes "students_known d"
  shows "map snd (student_parts d) = billed_parts d"
proof -
  have "find_by row_id (inv_studentId (snd r)) (students d) \<noteq> None" if "r \<in> set (billed_parts d)" for r
    using assms billed_part(2)[OF that] by (simp add: find_by_None_iff students_known_def)
  then have "concat (map (map snd) (map (\<lambda>r. case find_by row_id (inv_studentId (snd r)) (students d) of
      None \<Rightarrow> [] | Some s \<Rightarrow> [(s, r)]) rows)) = rows" if "set rows \<subseteq> set (billed_parts d)" for rows
    using that by (induction rows) (auto split: option.splits)
  then show ?thesis by (simp add: student_parts_def map_concat)
qed

lemma distinct_due_keys:
  assumes "ledger_base d" "students_known d"
  shows "distinct (map due_key (student_parts d))"
proof -
  have "distinct (map row_id (installments d))" using assms(1) by (simp add: ledger_base_def ids_distinct_def)
  then have "distinct (map (row_id \<circ> fst) (billed_parts d))"
    by (simp add: billed_parts_def concat_option comp_def distinct_map_filter)
  then have "distinct (map (row_id \<circ> fst \<circ> snd) (student_parts d))"
    unfolding student_parts_all[OF assms(2), symmetric] map_map .
  then show ?thesis by (auto simp: distinct_map inj_on_def due_key_def)
qed

definition items_query :: "outstanding_query \<Rightarrow> aging_bucket option \<Rightarrow> nat \<Rightarrow> (date \<times> uuid) option \<Rightarrow> outstanding_items_query" where
  "items_query q bucket limit cursor =
     \<lparr>pq_cursor = map_option Some cursor, pq_limit = limit, oiq_filter = q, oiq_bucket = bucket\<rparr>"

lemma following_items:
  assumes "asOf_day e q d = Inr asOf"
  shows "following (\<lambda>c. outstandingItems e (items_query q bucket limit c) grants d) c =
    (map (toItem asOf) (fst (list_page due_key Asc due_key (item_listed q bucket grants asOf d) (student_parts d) limit c)),
     snd (list_page due_key Asc due_key (item_listed q bucket grants asOf d) (student_parts d) limit c))"
  using assms by (cases c) (simp_all add: following_def outstandingItems_def items_query_def paged_def decodeCursor_def split: prod.split)

text \<open>A client that follows the cursors of the list sees every instalment of the age once, oldest due date first.\<close>

lemma items_walk:
  assumes "ledger_base d" "students_known d" "asOf_day e q d = Inr asOf" "0 < limit" "length (installments d) < requests"
  shows "walk requests (following (\<lambda>c. outstandingItems e (items_query q bucket limit c) grants d)) None
    = Some (map (toItem asOf) (sort_key due_key (filter (item_listed q bucket grants asOf d) (student_parts d))))"
proof -
  have "length (billed_parts d) \<le> length (installments d)" by (simp add: billed_parts_def concat_option)
  then have "length (student_parts d) < requests"
    using arg_cong[OF student_parts_all[OF assms(2)], of length] assms(5) by simp
  from walk_complete[OF distinct_due_keys[OF assms(1,2)] assms(4) this] show ?thesis
    by (subst walk_map[OF following_items[OF assms(3)]]) (simp add: ordered_by_def)
qed

lemma bucket_drill_down:
  assumes "ledger_base d" "students_known d" "due_dates_valid d" "asOf_day e q d = Inr asOf" "valid_date asOf"
    and "0 < limit" "length (installments d) < requests"
    and row: "row = aging_of asOf (filter (owedConditions q grants d) (billed_parts d)) b"
  obtains items where "walk requests (following (\<lambda>c. outstandingItems e (items_query q (Some b) limit c) grants d)) None = Some items"
    "length items = ag_count row" "sum_list (map oi_owed items) = ag_amount row" "\<And>i. i \<in> set items \<Longrightarrow> oi_bucket i = b"
proof -
  let ?xs = "filter (item_listed q (Some b) grants asOf d) (student_parts d)"
  let ?items = "map (toItem asOf) (sort_key due_key ?xs)"
  have listed: "item_listed q (Some b) grants asOf d x \<longleftrightarrow> owedConditions q grants d (snd x) \<and> bucketExpr asOf (snd x) = b"
    if "x \<in> set (student_parts d)" for x
  proof -
    have "snd x \<in> set (billed_parts d)" using that student_parts_all[OF assms(2)] by (metis image_eqI list.set_map)
    then have "valid_date (part_dueDate (fst (snd x)))" using billed_part(1) assms(3) unfolding due_dates_valid_def by blast
    from due_range_bucket[OF assms(5) this] show ?thesis by (simp add: item_listed_def)
  qed
  have xs: "map snd ?xs = filter (\<lambda>r. owedConditions q grants d r \<and> bucketExpr asOf r = b) (billed_parts d)"
    unfolding student_parts_all[OF assms(2), symmetric] filter_map comp_def
    by (rule arg_cong[where f = "map snd"]) (rule filter_cong, simp_all add: listed)
  have same: "mset (map f (sort_key due_key ?xs)) = mset (map f ?xs)" for f :: "student_part \<Rightarrow> int" by simp
  have owed: "oi_owed (toItem asOf x) = left_to_pay (snd x)" "oi_bucket (toItem asOf x) = bucketExpr asOf (snd x)" for x
    by (cases x; simp add: toItem_def left_to_pay_def bucketExpr_def daysPastDue_def Let_def)+
  show ?thesis
  proof (rule that[of ?items])
    show "walk requests (following (\<lambda>c. outstandingItems e (items_query q (Some b) limit c) grants d)) None = Some ?items"
      by (rule items_walk[OF assms(1,2,4,6,7)])
    show "length ?items = ag_count row"
      using arg_cong[OF xs, of length] by (simp add: row aging_of_def Let_def)
    have "sum_list (map oi_owed ?items) = sum_list (map (left_to_pay \<circ> snd) ?xs)"
      using same[of "left_to_pay \<circ> snd", THEN arg_cong[where f = sum_mset]]
      by (simp only: sum_mset_sum_list map_map comp_def owed)
    then show "sum_list (map oi_owed ?items) = ag_amount row"
      using arg_cong[OF xs, of "\<lambda>l. sum_list (map left_to_pay l)"] by (simp add: row aging_of_def Let_def)
    show "oi_bucket i = b" if "i \<in> set ?items" for i using that listed by (auto simp: owed(2))
  qed
qed

section \<open>The file\<close>

text \<open>A page with a next cursor is full, so 500 pages of 100 reach the limit of the file.\<close>

lemma collect_items_enough:
  assumes "\<And>c items next_cursor. page c = Inr (items, Some next_cursor) \<Longrightarrow> length items = 100"
    and "CSV_ROW_LIMIT \<le> length found + 100 * fuel" "0 < fuel"
  shows "collect_items fuel page c found \<noteq> None"
  using assms(2,3)
proof (induction fuel arbitrary: c found)
  case (Suc fuel)
  show ?case
  proof (cases "page c")
    case (Inr r)
    obtain items next_cursor where r: "r = (items, next_cursor)" by (cases r)
    show ?thesis
    proof (cases next_cursor)
      case (Some k)
      then have "length items = 100" using assms(1) Inr r by blast
      with Suc Inr r Some show ?thesis by (cases fuel) (auto simp: Let_def)
    qed (simp add: Inr r)
  qed simp
qed simp

lemma collect_items_walk:
  assumes "page = (\<lambda>c. Inr (shown c))" "walk m shown c = Some rest" "length found + length rest < CSV_ROW_LIMIT"
    and "collect_items fuel page c found \<noteq> None"
  shows "collect_items fuel page c found = Some (Inr (found @ rest))"
  using assms(2-4)
proof (induction fuel arbitrary: m c found rest)
  case (Suc fuel)
  obtain k got next_cursor where p: "m = Suc k" "shown c = (got, next_cursor)"
    using Suc.prems(1) by (cases m; cases "shown c") auto
  show ?case
  proof (cases next_cursor)
    case None
    then show ?thesis using Suc.prems(1) by (simp add: p assms(1))
  next
    case (Some x)
    then obtain rest1 where r: "rest = got @ rest1" "walk k shown (Some x) = Some rest1" using Suc.prems(1) by (auto simp: p)
    then have "collect_items fuel page (Some x) (found @ got) = Some (Inr ((found @ got) @ rest1))"
      using Suc.prems(2,3) Some by (intro Suc.IH) (auto simp: p assms(1))
    then show ?thesis using Some r(1) Suc.prems(2) by (simp add: p assms(1))
  qed
qed simp

lemma collected_all:
  assumes "ledger_base d" "students_known d" "length (installments d) < CSV_ROW_LIMIT"
  shows "collect_items 500 (\<lambda>c. outstandingItems e (page_of_100 q asOf c) grants d) None []
    = Some (Inr (map (toItem asOf) (sort_key due_key (filter (item_listed (q\<lparr>oq_asOf := Some asOf\<rparr>) None grants asOf d) (student_parts d)))))"
    (is "?run = Some (Inr ?all)")
proof -
  let ?q = "q\<lparr>oq_asOf := Some asOf\<rparr>"
  let ?page = "\<lambda>c. outstandingItems e (page_of_100 q asOf c) grants d"
  let ?pg = "list_page due_key Asc due_key (item_listed ?q None grants asOf d) (student_parts d) 100"
  let ?shown = "\<lambda>c. (map (toItem asOf) (fst (?pg c)), snd (?pg c))"
  have asOf: "asOf_day e ?q d = Inr asOf" by (simp add: asOf_day_def)
  have page: "?page c = Inr (?shown c)" for c
    using asOf by (cases c) (simp_all add: outstandingItems_def page_of_100_def paged_def decodeCursor_def case_prod_beta)
  have "?run \<noteq> None"
  proof (rule collect_items_enough)
    show "length items = 100" if "?page c = Inr (items, Some next_cursor)" for c items next_cursor
      using that by (auto simp: page list_page_remaining Let_def split: if_splits)
  qed (simp_all add: CSV_ROW_LIMIT_def)
  have follow: "following (\<lambda>c. outstandingItems e (items_query ?q None 100 c) grants d) = ?shown"
    by (rule ext) (rule following_items[OF asOf])
  have walked: "walk (Suc (length (installments d))) ?shown None = Some ?all"
    using items_walk[OF assms(1,2) asOf, of 100 "Suc (length (installments d))" None grants] by (simp add: follow)
  have "length (billed_parts d) \<le> length (installments d)" by (simp add: billed_parts_def concat_option)
  then have "length (student_parts d) \<le> length (installments d)"
    using arg_cong[OF student_parts_all[OF assms(2)], of length] by simp
  then have "length (filter P (student_parts d)) \<le> length (installments d)" for P
    by (rule le_trans[OF length_filter_le])
  then have "length ?all < CSV_ROW_LIMIT" using assms(3) le_less_trans by (simp, blast)
  with collect_items_walk[OF ext[OF page] walked, of "[]" 500] \<open>?run \<noteq> None\<close> show ?thesis by simp
qed

section \<open>Revenue\<close>

lemma grouped_sum: "sum_list (map rr_amount (grouped keyLabel rows)) = sum_list (map (pay_amount \<circ> fst) rows)"
  using sum_where_partition[of "remdups (map keyLabel rows)" rows "\<lambda>_. True" keyLabel "pay_amount \<circ> fst"]
  by (simp add: grouped_def Let_def sum_where_def comp_def)

lemma ordered_sum: "sum_list (map (\<lambda>r. rr_amount (method_label g r)) (revenue_order g rows)) = sum_list (map rr_amount rows)"
proof -
  have "rr_amount (method_label g r) = rr_amount r" for r by (simp add: method_label_def)
  moreover have "mset (map rr_amount (revenue_order g rows)) = mset (map rr_amount rows)" by (simp add: revenue_order_def)
  ultimately show ?thesis by (simp, metis sum_mset_sum_list)
qed

definition received_between :: "revenue_query \<Rightarrow> grant list \<Rightarrow> db \<Rightarrow> payment_status \<Rightarrow> instant \<Rightarrow> instant \<Rightarrow> int" where
  "received_between q grants d status start stop =
     sum_where (revenueConditions q grants start stop status) (pay_amount \<circ> fst) (joined_payments d)"

text \<open>The totals of the report are the payments of its range, whatever it is grouped by; a void payment is never in them.\<close>

lemma revenue_totals:
  assumes "revenue e q grants d = Inr rep"
  obtains inst t where "institution_row d = Inr inst" "today e d = Inr t" "resolveRange (rq_from q) (rq_to q) t = Inr (rv_from rep, rv_to rep)"
    "rv_amount rep = received_between q grants d Posted (zoned e (rv_from rep) ''00:00'' (inst_timezone inst)) (zoned e (addDays (rv_to rep) 1) ''00:00'' (inst_timezone inst))"
    "rv_voidedAmount rep = received_between q grants d PayVoid (zoned e (rv_from rep) ''00:00'' (inst_timezone inst)) (zoned e (addDays (rv_to rep) 1) ''00:00'' (inst_timezone inst))"
proof -
  obtain inst t r where f: "institution_row d = Inr inst" "today e d = Inr t" "resolveRange (rq_from q) (rq_to q) t = Inr r"
    using assms by (auto simp: revenue_def bindE_def split: sum.splits)
  obtain a b where r: "r = (a, b)" by (cases r)
  show ?thesis
    by (rule that[OF f(1,2)]) (use assms f r in \<open>auto simp: revenue_def Let_def received_between_def sum_where_def ordered_sum grouped_sum comp_def\<close>)
qed

lemma received_splits:
  assumes "start \<le> middle" "middle \<le> stop"
  shows "received_between q grants d status start stop = received_between q grants d status start middle + received_between q grants d status middle stop"
proof -
  have "sum_where (revenueConditions q grants start stop status) (pay_amount \<circ> fst) rows
      = sum_where (revenueConditions q grants start middle status) (pay_amount \<circ> fst) rows
      + sum_where (revenueConditions q grants middle stop status) (pay_amount \<circ> fst) rows" for rows
    by (induction rows) (use assms in \<open>auto simp: revenueConditions_def Let_def\<close>)
  then show ?thesis by (simp add: received_between_def)
qed

end
