(* ===== verification/OfficeProperties.thy ===== *)
theory OfficeProperties
  imports Example PaymentForm ReportsOk
begin

text \<open>
  The properties of what the office works with: the form that takes a payment and the reports.
\<close>

section \<open>The payment form\<close>

text \<open>
  C7. The form that records a payment is honest. However it is edited, the number it would send is the one
  its text reads as. On an open invoice in any state billing can reach it suggests something exactly when
  the invoice owes something, and never more than that. When its button is on, what it sends passes the
  server's schema (unless the reference is longer than the schema allows), for this invoice and for the
  amount shown.
\<close>

theorem payment_form_is_honest:
  assumes "billing_reachable d" "bill \<in> set (invoices d)" "inv_status bill \<noteq> InvVoid" "inv_total bill \<le> MAX_MINOR_UNITS"
    and view: "view = presentInvoice t d bill" and form: "form = fold edit_form edits (paymentForm view)"
  shows "pf_minor form = parseMoney (pf_text form)
    \<and> 0 \<le> suggested view \<and> suggested view \<le> iv_balance view \<and> (suggested view = 0 \<longleftrightarrow> iv_balance view = 0)
    \<and> (\<not> form_invalid form \<longrightarrow> 60 < length (trim (pf_reference form))
        \<or> (\<exists>req. recordPaymentRequest view form = Some req \<and> valid_payment_request req
             \<and> rp_invoiceId req = row_id bill \<and> parseMoney (pf_text form) = Some (rp_amount req)))"
proof -
  have ok: "ledger_ok d" using reachable_books[OF assms(1)] by (simp add: books_ok_def)
  have owes: "iv_balance view = inv_total bill - inv_paidTotal bill" "iv_id view = row_id bill"
    using assms(3) by (simp_all add: view presentInvoice_def Let_def)
  note sum = suggested_owes[OF ok assms(2,3), of t, folded view]
  have "is_minor_units (suggested view)"
    using sum ledger_bounds[OF ok assms(2)] assms(4) unfolding is_minor_units_def by linarith
  then have agrees: "form_agrees form" unfolding form by (intro form_agrees_edits form_agrees_open)
  have sent: "60 < length (trim (pf_reference form)) \<or> (\<exists>req. recordPaymentRequest view form = Some req
      \<and> valid_payment_request req \<and> rp_invoiceId req = row_id bill \<and> parseMoney (pf_text form) = Some (rp_amount req))"
    if on: "\<not> form_invalid form"
  proof (cases "60 < length (trim (pf_reference form))")
    case False
    then obtain req where "recordPaymentRequest view form = Some req" "valid_payment_request req"
        "rp_invoiceId req = iv_id view" "pf_minor form = Some (rp_amount req)"
      using form_accepted[OF agrees on] by (metis not_less)
    then show ?thesis using agrees owes(2) by (simp add: form_agrees_def)
  qed simp
  show ?thesis using agrees sum owes(1) sent by (simp add: form_agrees_def)
qed

theorem payment_form_is_honest_witness:
  "pf_text (paymentForm (presentInvoice (Date 2026 8 5) demo_paid demo_paid_invoice)) = ''1.01''
    \<and> parseMoney ''1.01'' = Some 101
    \<and> (\<exists>req. recordPaymentRequest (presentInvoice (Date 2026 8 5) demo_paid demo_paid_invoice)
          (edit_form (TypeReference ''slip 7'') (paymentForm (presentInvoice (Date 2026 8 5) demo_paid demo_paid_invoice))) = Some req
        \<and> valid_payment_request req \<and> rp_amount req = 101)"
proof -
  let ?view = "presentInvoice (Date 2026 8 5) demo_paid demo_paid_invoice"
  let ?form = "fold edit_form [TypeReference ''slip 7''] (paymentForm ?view)"
  have shown: "pf_text (paymentForm ?view) = ''1.01''" "pf_text ?form = ''1.01''" "pf_minor ?form = Some 101"
    "\<not> form_invalid ?form" "\<not> 60 < length (trim (pf_reference ?form))" by code_simp+
  have "demo_paid_invoice \<in> set (invoices demo_paid)" "inv_status demo_paid_invoice \<noteq> InvVoid" "inv_total demo_paid_invoice \<le> MAX_MINOR_UNITS"
    by (simp_all add: demo_paid_def demo_paid_invoice_def demo_invoice_def MAX_MINOR_UNITS_def)
  from payment_form_is_honest[OF demo_reachable(3) this refl refl, where t = "Date 2026 8 5" and edits = "[TypeReference ''slip 7'']"] shown
  show ?thesis by auto
qed

section \<open>Reports\<close>

text \<open>
  C12. The outstanding report says what the books say. In every state billing can reach, the report over
  the whole institution adds up to what the invoices that are not void still owe. Behind every age of any
  report, the list the portal opens, followed to its last page, holds exactly the instalments counted
  there: as many, owing together the amount shown, each of that age. (Every invoice has its student, by
  the foreign key, and due dates are dates.)
\<close>

theorem outstanding_reconciles:
  assumes "billing_reachable d" "students_known d" "due_dates_valid d"
    and "outstanding e q grants d = Inr rep" "valid_date (or_asOf rep)" "0 < limit" "length (installments d) < requests"
  shows "(nothing_filtered q grants \<longrightarrow>
      or_amount rep = sum_where (\<lambda>bill. inv_status bill \<noteq> InvVoid) (\<lambda>bill. inv_total bill - inv_paidTotal bill) (invoices d))
    \<and> (\<forall>row \<in> set (or_buckets rep). \<exists>items.
        walk requests (following (\<lambda>c. outstandingItems e (items_query q (Some (ag_bucket row)) limit c) grants d)) None = Some items
        \<and> length items = ag_count row \<and> sum_list (map oi_owed items) = ag_amount row
        \<and> (\<forall>i \<in> set items. oi_bucket i = ag_bucket row))"
proof -
  have ok: "ledger_ok d" using reachable_books[OF assms(1)] by (simp add: books_ok_def)
  then have base: "ledger_base d" by (simp add: ledger_ok_def)
  obtain inst asOf where rep: "asOf_day e q d = Inr asOf" "or_asOf rep = asOf"
    "or_buckets rep = map (aging_of asOf (filter (owedConditions q grants d) (billed_parts d))) AGING_BUCKETS"
    "or_amount rep = sum_list (map left_to_pay (filter (owedConditions q grants d) (billed_parts d)))"
    using outstanding_Inr[OF assms(4)] by metis
  have row: "\<exists>items. walk requests (following (\<lambda>c. outstandingItems e (items_query q (Some (ag_bucket row)) limit c) grants d)) None = Some items
      \<and> length items = ag_count row \<and> sum_list (map oi_owed items) = ag_amount row \<and> (\<forall>i \<in> set items. oi_bucket i = ag_bucket row)"
    if listed: "row \<in> set (or_buckets rep)" for row
  proof -
    obtain b where b: "row = aging_of asOf (filter (owedConditions q grants d) (billed_parts d)) b" using listed rep(3) by auto
    have "ag_bucket row = b" by (simp add: b aging_of_def Let_def)
    then show ?thesis
      using bucket_drill_down[OF base assms(2,3) rep(1) assms(5)[unfolded rep(2)] assms(6,7) b] by metis
  qed
  show ?thesis using owed_total[OF ok] rep(4) row by simp
qed

definition demo_books :: outstanding_query where
  "demo_books = \<lparr>oq_asOf = Some (Date 2026 8 20), oq_branchId = None, oq_departmentId = None\<rparr>"

definition demo_auditor :: "grant list" where
  "demo_auditor = [\<lparr>gr_permission = ''reports.finance'', gr_scope = Global\<rparr>]"

theorem outstanding_reconciles_witness:
  "\<exists>rep. outstanding demo_env demo_books demo_auditor demo_paid = Inr rep \<and> or_amount rep = 101
     \<and> (\<exists>items. walk 3 (following (\<lambda>c. outstandingItems demo_env (items_query demo_books (Some D1_30) 1 c) demo_auditor demo_paid)) None = Some items
         \<and> length items = 1 \<and> sum_list (map oi_owed items) = 101)"
proof -
  let ?run = "outstanding demo_env demo_books demo_auditor demo_paid"
  have "isl ?run = False" by code_simp
  then obtain rep where rep: "?run = Inr rep" by (cases ?run) auto
  have "(case ?run of Inl _ \<Rightarrow> False | Inr r \<Rightarrow> valid_date (or_asOf r) \<and>
      list_ex (\<lambda>row. ag_bucket row = D1_30 \<and> ag_count row = 1 \<and> ag_amount row = 101) (or_buckets r))" by code_simp
  then obtain row where row: "valid_date (or_asOf rep)" "row \<in> set (or_buckets rep)" "ag_bucket row = D1_30" "ag_count row = 1" "ag_amount row = 101"
    by (auto simp: rep list_ex_iff)
  have known: "students_known demo_paid" "due_dates_valid demo_paid" "length (installments demo_paid) < 3"
    by (simp_all add: students_known_def due_dates_valid_def valid_date_def days_in_month_def demo_paid_def demo_billed_def demo_db_def
        demo_paid_invoice_def demo_invoice_def demo_paid_installments_def demo_student_def demo_base_def base_row.defs student_row.defs)
  have all: "nothing_filtered demo_books demo_auditor" by code_simp
  have owed: "sum_where (\<lambda>bill. inv_status bill \<noteq> InvVoid) (\<lambda>bill. inv_total bill - inv_paidTotal bill) (invoices demo_paid) = 101"
    by (simp add: demo_paid_def demo_paid_invoice_def demo_invoice_def)
  from outstanding_reconciles[OF demo_reachable(3) known(1,2) rep row(1) zero_less_one known(3)] all owed row
  show ?thesis by (auto simp: rep)
qed

end
