(* ===== verification/Reminders.thy ===== *)
theory Reminders
  imports Outbox Settings Fees
begin

text \<open>
  Reminders about fees (\<open>billing/domain/reminder-stages.ts\<close>, \<open>reminder-email.ts\<close> and
  \<open>application/fee-reminders.service.ts\<close>): which stage an instalment has reached, the text of the email,
  and the run that logs each stage once and queues the email in the same transaction. \<open>iv n\<close> is what the
  sealed box draws for the email queued as number \<open>n\<close>.
\<close>

section \<open>Stages\<close>

datatype reminder_stage = DueIn3 | DueToday | Overdue3 | Overdue7

fun stage_key :: "reminder_stage \<Rightarrow> string" where
  "stage_key DueIn3 = ''due_in_3''" | "stage_key DueToday = ''due_today''"
| "stage_key Overdue3 = ''overdue_3''" | "stage_key Overdue7 = ''overdue_7''"

definition REMINDER_STAGES :: "(reminder_stage \<times> int) list" where
  "REMINDER_STAGES = [(DueIn3, -3), (DueToday, 0), (Overdue3, 3), (Overdue7, 7)]"

definition GRACE_DAYS :: int where "GRACE_DAYS = 2"
definition LOOKAHEAD_DAYS :: int where "LOOKAHEAD_DAYS = 3"
definition LOOKBACK_DAYS :: int where "LOOKBACK_DAYS = 7 + GRACE_DAYS"

definition current_stage :: "int \<Rightarrow> (reminder_stage \<times> int) option" where
  "current_stage daysPast = fold (\<lambda>stage current. if snd stage \<le> daysPast then Some stage else current) REMINDER_STAGES None"

definition stageToSend :: "int \<Rightarrow> string set \<Rightarrow> reminder_stage option" where
  "stageToSend daysPast alreadySent = (case current_stage daysPast of
     None \<Rightarrow> None
   | Some (key, threshold) \<Rightarrow>
       if stage_key key \<in> alreadySent then None
       else if daysPast - threshold > GRACE_DAYS then None else Some key)"

section \<open>The email\<close>

text \<open>\<open>/[&<>"']/g\<close> and the table of its replacements.\<close>

definition esc_char :: "char \<Rightarrow> string" where
  "esc_char c = (if c = CHR ''&'' then ''&amp;'' else if c = CHR ''<'' then ''&lt;'' else if c = CHR ''>'' then ''&gt;''
     else if c = CHR 0x22 then ''&quot;'' else if c = CHR 0x27 then ''&#39;'' else [c])"

definition esc :: "string \<Rightarrow> string" where
  "esc value = concat (map esc_char value)"

record reminder_email_input =
  rei_stage :: reminder_stage
  rei_recipientName :: string
  rei_institutionName :: string
  rei_invoiceNumber :: string
  rei_instalment :: nat
  rei_owed :: int
  rei_currency :: string
  rei_dueDate :: string

record email_text =
  em_subject :: string
  em_text :: string
  em_html :: string

definition reminderEmail :: "reminder_email_input \<Rightarrow> email_text" where
  "reminderEmail inp =
     (let amount = formatMoney (rei_owed inp) (rei_currency inp);
          item = ''instalment '' @ show_nat (rei_instalment inp) @ '' of invoice '' @ rei_invoiceNumber inp;
          overdue = rei_stage inp \<in> {Overdue3, Overdue7};
          subject = (if rei_stage inp = DueIn3 then ''Fee reminder: payment due soon ('' @ rei_invoiceNumber inp @ '')''
            else if rei_stage inp = DueToday then ''Fee reminder: payment due today ('' @ rei_invoiceNumber inp @ '')''
            else ''Fee reminder: payment overdue ('' @ rei_invoiceNumber inp @ '')'');
          due_when = (if rei_stage inp = DueIn3 then ''is due on '' @ rei_dueDate inp
            else if rei_stage inp = DueToday then ''is due today'' else ''was due on '' @ rei_dueDate inp);
          lines = [''Dear '' @ rei_recipientName inp @ '','', [],
            ''This is a reminder that '' @ item @ '', '' @ amount @ '', '' @ due_when @ ''.'',
            (if overdue then ''Please arrange payment as soon as you can, or contact us if you need to talk about it.''
             else ''You can pay at our front desk.''), [],
            ''If you have already paid, thank you, and please disregard this message.'', [], rei_institutionName inp] in
      \<lparr>em_subject = subject, em_text = join [CHR 0x0A] lines,
       em_html = concat (map (\<lambda>l. if l = [] then ''<br>'' else ''<p>'' @ esc l @ ''</p>'') lines)\<rparr>)"

definition outgoing :: "string \<Rightarrow> email_text \<Rightarrow> json" where
  "outgoing address mail = JObj [(''to'', JStr address), (''subject'', JStr (em_subject mail)), (''text'', JStr (em_text mail)), (''html'', JStr (em_html mail))]"

section \<open>The run\<close>

text \<open>One row of the first query; without \<open>ORDER BY\<close> the order is the table's.\<close>

record candidate =
  cd_installmentId :: uuid
  cd_sequence :: nat
  cd_dueDate :: date
  cd_owed :: int
  cd_invoiceNumber :: string
  cd_invoiceCreatedAt :: instant
  cd_currency :: string
  cd_studentId :: uuid

definition candidate_of :: "installment_row \<Rightarrow> invoice_row \<Rightarrow> candidate" where
  "candidate_of p r = \<lparr>cd_installmentId = row_id p, cd_sequence = part_sequence p, cd_dueDate = part_dueDate p,
     cd_owed = part_amount p - part_paidAmount p, cd_invoiceNumber = inv_number r, cd_invoiceCreatedAt = createdAt r,
     cd_currency = inv_currency r, cd_studentId = inv_studentId r\<rparr>"

definition worth_looking :: "date \<Rightarrow> installment_row \<Rightarrow> invoice_row \<Rightarrow> bool" where
  "worth_looking day_now p r \<longleftrightarrow> inv_status r \<in> {Issued, PartiallyPaid} \<and> part_paidAmount p < part_amount p
     \<and> addDays day_now (- LOOKBACK_DAYS) \<le> part_dueDate p \<and> part_dueDate p \<le> addDays day_now LOOKAHEAD_DAYS"

definition reminder_candidates :: "date \<Rightarrow> db \<Rightarrow> candidate list" where
  "reminder_candidates day_now d = concat (map (\<lambda>p. case find_by row_id (part_invoiceId p) (invoices d) of
       None \<Rightarrow> [] | Some r \<Rightarrow> if worth_looking day_now p r then [candidate_of p r] else []) (installments d))"

definition stages_sent :: "uuid \<Rightarrow> reminder_row list \<Rightarrow> string set" where
  "stages_sent i sent = rml_stage ` set (filter (\<lambda>s. rml_installmentId s = i) sent)"

definition payer_of :: "uuid \<Rightarrow> 'a people_db_scheme \<Rightarrow> guardian_row option" where
  "payer_of studentId d = find (\<lambda>g. gd_studentId g = studentId \<and> gd_isPayer g \<and> gd_email g \<noteq> None) (student_guardians d)"

definition reminder_address :: "candidate \<Rightarrow> 'a people_db_scheme \<Rightarrow> string option" where
  "reminder_address c d = (case Option.bind (payer_of (cd_studentId c) d) gd_email of
     Some email \<Rightarrow> Some email | None \<Rightarrow> Option.bind (find_by row_id (cd_studentId c) (students d)) st_email)"

definition recipient_name :: "candidate \<Rightarrow> 'a people_db_scheme \<Rightarrow> string" where
  "recipient_name c d = (case payer_of (cd_studentId c) d of
     Some g \<Rightarrow> gd_name g
   | None \<Rightarrow> (case find_by row_id (cd_studentId c) (students d) of Some s \<Rightarrow> st_givenName s | None \<Rightarrow> ''there''))"

text \<open>\<open>INSERT ... ON CONFLICT DO NOTHING RETURNING\<close>: whether a row was inserted. An empty address is no address.\<close>

definition record_reminder :: "env \<Rightarrow> uuid \<Rightarrow> reminder_stage \<Rightarrow> string option \<Rightarrow> db \<Rightarrow> bool \<times> db" where
  "record_reminder e installmentId stage address d =
     (case take_id d of (i, d1) \<Rightarrow>
       if list_ex (\<lambda>r. rml_installmentId r = installmentId \<and> rml_stage r = stage_key stage) (reminder_log d) then (False, d1)
       else (True, d1\<lparr>reminder_log := reminder_log d @ [\<lparr>row_id = i, rml_installmentId = installmentId, rml_stage = stage_key stage,
          rml_outcome = (if address \<in> {None, Some []} then NoContact else ReminderQueued), rml_createdAt = now e\<rparr>]\<rparr>))"

definition remind :: "env \<Rightarrow> runtime \<Rightarrow> (nat \<Rightarrow> string) \<Rightarrow> date \<Rightarrow> string \<Rightarrow> reminder_row list \<Rightarrow> candidate \<Rightarrow> nat \<Rightarrow> db
    \<Rightarrow> app_error + (nat \<times> db)" where
  "remind e rt iv day_now institutionName sent c queued d =
     bindE (localDate e (cd_invoiceCreatedAt c) d) (\<lambda>made_on.
     if made_on = day_now then Inr (queued, d)
     else case stageToSend (daysPastDue day_now (cd_dueDate c)) (stages_sent (cd_installmentId c) sent) of
       None \<Rightarrow> Inr (queued, d)
     | Some stage \<Rightarrow>
         let address = reminder_address c d in
         case record_reminder e (cd_installmentId c) stage address d of (recorded, d1) \<Rightarrow>
         if \<not> recorded \<or> address \<in> {None, Some []} then Inr (queued, d1)
         else bindE (send_email e rt (iv queued) (outgoing (the address) (reminderEmail
             \<lparr>rei_stage = stage, rei_recipientName = recipient_name c d, rei_institutionName = institutionName,
              rei_invoiceNumber = cd_invoiceNumber c, rei_instalment = cd_sequence c, rei_owed = cd_owed c,
              rei_currency = cd_currency c, rei_dueDate = iso_date (cd_dueDate c)\<rparr>)) d1) (\<lambda>d2.
           Inr (queued + 1, d2)))"

fun remind_each :: "env \<Rightarrow> runtime \<Rightarrow> (nat \<Rightarrow> string) \<Rightarrow> date \<Rightarrow> string \<Rightarrow> reminder_row list \<Rightarrow> candidate list \<Rightarrow> nat \<Rightarrow> db
    \<Rightarrow> app_error + (nat \<times> db)" where
  "remind_each e rt iv day_now name sent [] queued d = Inr (queued, d)"
| "remind_each e rt iv day_now name sent (c # cs) queued d =
     bindE (remind e rt iv day_now name sent c queued d) (\<lambda>(n, d1). remind_each e rt iv day_now name sent cs n d1)"

definition runReminders :: "env \<Rightarrow> runtime \<Rightarrow> (nat \<Rightarrow> string) \<Rightarrow> date option \<Rightarrow> db \<Rightarrow> app_error + (nat \<times> db)" where
  "runReminders e rt iv given_day d =
     (if \<not> isEnabled FeeReminders d then Inr (0, d)
      else bindE (case given_day of Some day_now \<Rightarrow> Inr day_now | None \<Rightarrow> today e d) (\<lambda>day_now.
        bindE (institution_row d) (\<lambda>inst.
        let cs = reminder_candidates day_now d in
        if cs = [] then Inr (0, d)
        else remind_each e rt iv day_now (inst_name inst) (filter (\<lambda>r. rml_installmentId r \<in> cd_installmentId ` set cs) (reminder_log d)) cs 0 d)))"

section \<open>Which stage when\<close>

text \<open>Three days for each stage; on the sixth day late, and from the tenth on, nothing is due.\<close>

lemma stageToSend_days:
  "stageToSend n {} = (if -3 \<le> n \<and> n \<le> -1 then Some DueIn3 else if 0 \<le> n \<and> n \<le> 2 then Some DueToday
     else if 3 \<le> n \<and> n \<le> 5 then Some Overdue3 else if 7 \<le> n \<and> n \<le> 9 then Some Overdue7 else None)"
  by (simp add: stageToSend_def current_stage_def REMINDER_STAGES_def GRACE_DAYS_def)

lemma stageToSend_sent:
  "stageToSend n sent = (case stageToSend n {} of None \<Rightarrow> None | Some s \<Rightarrow> if stage_key s \<in> sent then None else Some s)"
  by (auto simp: stageToSend_def split: option.split)

lemma stageToSend_more: "stageToSend n A = None \<Longrightarrow> A \<subseteq> B \<Longrightarrow> stageToSend n B = None"
  by (auto simp: stageToSend_sent[of n A] stageToSend_sent[of n B] split: option.splits if_splits)

lemma stageToSend_key: "stageToSend n A = Some s \<Longrightarrow> stage_key s \<in> B \<Longrightarrow> stageToSend n B = None"
  by (auto simp: stageToSend_sent[of n A] stageToSend_sent[of n B] split: option.splits if_splits)

text \<open>The window of the query leaves out no instalment that has a stage today.\<close>

lemma window_covers:
  assumes "stageToSend (daysPastDue day_now due_day) sent = Some stage" "valid_date day_now" "valid_date due_day"
  shows "addDays day_now (- LOOKBACK_DAYS) \<le> due_day \<and> due_day \<le> addDays day_now LOOKAHEAD_DAYS"
proof -
  have "stageToSend (daysPastDue day_now due_day) {} \<noteq> None" using assms(1) stageToSend_sent[of _ sent] by (auto split: option.splits)
  then have "-3 \<le> daysPastDue day_now due_day \<and> daysPastDue day_now due_day \<le> 9" by (auto simp: stageToSend_days split: if_splits)
  then show ?thesis
    using assms(2,3) by (simp add: days_of_le_iff[symmetric] valid_addDays days_of_addDays daysPastDue_def LOOKBACK_DAYS_def LOOKAHEAD_DAYS_def GRACE_DAYS_def)
qed

section \<open>Once per stage\<close>

definition log_key :: "reminder_row \<Rightarrow> uuid \<times> string" where
  "log_key r = (rml_installmentId r, rml_stage r)"

definition log_grows :: "db \<Rightarrow> db \<Rightarrow> nat \<Rightarrow> bool" where
  "log_grows d d' n \<longleftrightarrow> (\<exists>i new mails. d' = d\<lparr>next_id := i, reminder_log := reminder_log d @ new, outbox_events := outbox_events d @ mails\<rparr>
     \<and> distinct (map log_key new) \<and> log_key ` set new \<inter> log_key ` set (reminder_log d) = {}
     \<and> n = length (filter (\<lambda>r. rml_outcome r = ReminderQueued) new) \<and> n = length mails)"

lemma log_grows_refl: "log_grows d d 0"
  unfolding log_grows_def by (rule exI[of _ "next_id d"], rule exI[of _ "[]"], rule exI[of _ "[]"]) simp

lemma log_grows_trans:
  assumes "log_grows d d1 m" "log_grows d1 d2 n"
  shows "log_grows d d2 (m + n)"
proof -
  obtain i new mails where 1: "d1 = d\<lparr>next_id := i, reminder_log := reminder_log d @ new, outbox_events := outbox_events d @ mails\<rparr>"
    "distinct (map log_key new)" "log_key ` set new \<inter> log_key ` set (reminder_log d) = {}"
    "m = length (filter (\<lambda>r. rml_outcome r = ReminderQueued) new)" "m = length mails"
    using assms(1) unfolding log_grows_def by blast
  obtain j new' mails' where 2: "d2 = d1\<lparr>next_id := j, reminder_log := reminder_log d1 @ new', outbox_events := outbox_events d1 @ mails'\<rparr>"
    "distinct (map log_key new')" "log_key ` set new' \<inter> log_key ` set (reminder_log d1) = {}"
    "n = length (filter (\<lambda>r. rml_outcome r = ReminderQueued) new')" "n = length mails'"
    using assms(2) unfolding log_grows_def by blast
  show ?thesis
    unfolding log_grows_def
    by (rule exI[of _ j], rule exI[of _ "new @ new'"], rule exI[of _ "mails @ mails'"]) (use 1 2 in \<open>auto simp: image_Un\<close>)
qed

definition settled :: "env \<Rightarrow> date \<Rightarrow> db \<Rightarrow> candidate \<Rightarrow> bool" where
  "settled e day_now d c \<longleftrightarrow> localDate e (cd_invoiceCreatedAt c) d = Inr day_now
     \<or> stageToSend (daysPastDue day_now (cd_dueDate c)) (stages_sent (cd_installmentId c) (reminder_log d)) = None"

lemma stages_sent_append: "stages_sent i (xs @ ys) = stages_sent i xs \<union> stages_sent i ys"
  by (auto simp: stages_sent_def)

lemma settled_grows:
  assumes "settled e day_now d c" "log_grows d d' n"
  shows "settled e day_now d' c"
proof -
  obtain i new mails where d': "d' = d\<lparr>next_id := i, reminder_log := reminder_log d @ new, outbox_events := mails\<rparr>"
    using assms(2) unfolding log_grows_def by blast
  have "localDate e (cd_invoiceCreatedAt c) d' = localDate e (cd_invoiceCreatedAt c) d" by (simp add: d' localDate_def institution_row_def)
  moreover have "stages_sent (cd_installmentId c) (reminder_log d) \<subseteq> stages_sent (cd_installmentId c) (reminder_log d')"
    by (simp add: d' stages_sent_append)
  ultimately show ?thesis using assms(1) stageToSend_more unfolding settled_def by metis
qed

lemma send_email_shape:
  assumes "send_email e rt iv email d = Inr d'"
  shows "\<exists>m. d' = d\<lparr>next_id := Suc (next_id d), outbox_events := outbox_events d @ [m]\<rparr>"
  using assms by (auto simp: send_email_def publish_def take_id_def)

lemma record_reminder_shape:
  assumes "record_reminder e i stage address d = (recorded, d1)"
  shows "(recorded \<and> (\<exists>r. d1 = d\<lparr>next_id := Suc (next_id d), reminder_log := reminder_log d @ [r]\<rparr> \<and> log_key r = (i, stage_key stage)
      \<and> log_key r \<notin> log_key ` set (reminder_log d) \<and> (rml_outcome r = ReminderQueued \<longleftrightarrow> address \<notin> {None, Some []})))
    \<or> (\<not> recorded \<and> d1 = d\<lparr>next_id := Suc (next_id d)\<rparr> \<and> stage_key stage \<in> stages_sent i (reminder_log d))"
proof (cases "list_ex (\<lambda>r. rml_installmentId r = i \<and> rml_stage r = stage_key stage) (reminder_log d)")
  case True
  then show ?thesis using assms by (auto simp: record_reminder_def take_id_def list_ex_iff stages_sent_def image_iff)
next
  case False
  define r where "r = \<lparr>row_id = next_id d, rml_installmentId = i, rml_stage = stage_key stage,
    rml_outcome = (if address \<in> {None, Some []} then NoContact else ReminderQueued), rml_createdAt = now e\<rparr>"
  have "recorded" "d1 = d\<lparr>next_id := Suc (next_id d), reminder_log := reminder_log d @ [r]\<rparr>"
    using assms False by (auto simp: record_reminder_def take_id_def r_def)
  moreover have "log_key r = (i, stage_key stage)" "(rml_outcome r = ReminderQueued) = (address \<notin> {None, Some []})"
    by (simp_all add: r_def log_key_def)
  moreover have "(i, stage_key stage) \<notin> log_key ` set (reminder_log d)" using False by (auto simp: list_ex_iff log_key_def)
  ultimately show ?thesis by auto
qed

lemma remind_effect:
  assumes "remind e rt iv day_now name sent c q d = Inr (n, d')" "set sent \<subseteq> set (reminder_log d)"
  shows "q \<le> n \<and> log_grows d d' (n - q) \<and> settled e day_now d' c"
proof -
  obtain made where made: "localDate e (cd_invoiceCreatedAt c) d = Inr made" using assms(1) by (auto simp: remind_def)
  let ?stage = "stageToSend (daysPastDue day_now (cd_dueDate c)) (stages_sent (cd_installmentId c) sent)"
  have sub: "stages_sent (cd_installmentId c) sent \<subseteq> stages_sent (cd_installmentId c) (reminder_log d)" using assms(2) by (auto simp: stages_sent_def)
  show ?thesis
  proof (cases "made = day_now \<or> ?stage = None")
    case True
    then have "n = q \<and> d' = d"
    proof
      assume "made = day_now"
      then show ?thesis using assms(1) made by (simp add: remind_def)
    next
      assume "?stage = None"
      then show ?thesis using assms(1) made by (simp add: remind_def split: if_splits)
    qed
    moreover have "settled e day_now d c" using True made stageToSend_more[OF _ sub] by (auto simp: settled_def)
    ultimately show ?thesis using log_grows_refl by simp
  next
    case False
    then obtain stage where stage: "?stage = Some stage" by auto
    let ?address = "reminder_address c d"
    obtain recorded d1 where rec: "record_reminder e (cd_installmentId c) stage ?address d = (recorded, d1)" by fastforce
    have done_if: "settled e day_now x c" if "stage_key stage \<in> stages_sent (cd_installmentId c) (reminder_log x)" for x
      using stageToSend_key[OF stage that] by (simp add: settled_def)
    from record_reminder_shape[OF rec] show ?thesis
    proof (elim disjE conjE exE)
      fix r assume recorded: "recorded" and d1: "d1 = d\<lparr>next_id := Suc (next_id d), reminder_log := reminder_log d @ [r]\<rparr>"
        and key: "log_key r = (cd_installmentId c, stage_key stage)" and fresh: "log_key r \<notin> log_key ` set (reminder_log d)"
        and outcome: "(rml_outcome r = ReminderQueued) = (?address \<notin> {None, Some []})"
      have here: "stage_key stage \<in> stages_sent (cd_installmentId c) [r]" using key by (auto simp: stages_sent_def log_key_def)
      show ?thesis
      proof (cases "?address \<in> {None, Some []}")
        case True
        then have "n = q" "d' = d1" using assms(1) made False stage rec by (auto simp: remind_def)
        moreover have "log_grows d d1 0"
          unfolding log_grows_def
          by (rule exI[of _ "Suc (next_id d)"], rule exI[of _ "[r]"], rule exI[of _ "[]"]) (use d1 fresh outcome True in auto)
        ultimately show ?thesis using done_if[of d1] here by (simp add: d1 stages_sent_append)
      next
        case reachable: False
        then obtain mail d2 where mail: "send_email e rt (iv q) mail d1 = Inr d2" and n: "n = q + 1" "d' = d2"
          using assms(1) made False stage rec recorded by (auto simp: remind_def Let_def)
        obtain m where m: "d2 = d1\<lparr>next_id := Suc (next_id d1), outbox_events := outbox_events d1 @ [m]\<rparr>" using send_email_shape[OF mail] by blast
        have "log_grows d d2 1"
          unfolding log_grows_def
          by (rule exI[of _ "Suc (next_id d1)"], rule exI[of _ "[r]"], rule exI[of _ "[m]"]) (use d1 m fresh outcome reachable in auto)
        then show ?thesis using done_if[of d2] here n by (simp add: d1 m stages_sent_append)
      qed
    next
      assume "\<not> recorded" and d1: "d1 = d\<lparr>next_id := Suc (next_id d)\<rparr>" and old: "stage_key stage \<in> stages_sent (cd_installmentId c) (reminder_log d)"
      then have "n = q" "d' = d1" using assms(1) made False stage rec by (auto simp: remind_def)
      moreover have "log_grows d d1 0"
        unfolding log_grows_def by (rule exI[of _ "Suc (next_id d)"], rule exI[of _ "[]"], rule exI[of _ "[]"]) (use d1 in auto)
      ultimately show ?thesis using done_if[of d1] old by (simp add: d1)
    qed
  qed
qed

lemma remind_each_effect:
  assumes "remind_each e rt iv day_now name sent cs q d = Inr (n, d')" "set sent \<subseteq> set (reminder_log d)"
  shows "q \<le> n \<and> log_grows d d' (n - q) \<and> (\<forall>c \<in> set cs. settled e day_now d' c)"
  using assms
proof (induction cs arbitrary: q d)
  case Nil
  then show ?case using log_grows_refl by simp
next
  case (Cons c cs)
  then obtain m d1 where one: "remind e rt iv day_now name sent c q d = Inr (m, d1)"
    and rest: "remind_each e rt iv day_now name sent cs m d1 = Inr (n, d')" by auto
  note eff = remind_effect[OF one Cons.prems(2)]
  then have "set sent \<subseteq> set (reminder_log d1)" using Cons.prems(2) by (auto simp: log_grows_def)
  note IH = Cons.IH[OF rest this]
  have "log_grows d d' ((m - q) + (n - m))" using log_grows_trans eff IH by blast
  moreover have "(m - q) + (n - m) = n - q" using eff IH by simp
  ultimately show ?case using eff IH settled_grows by auto
qed

lemma remind_each_settled:
  assumes "\<forall>c \<in> set cs. settled e day_now d c" "\<forall>c \<in> set cs. stages_sent (cd_installmentId c) sent = stages_sent (cd_installmentId c) (reminder_log d)"
    and "institution d \<noteq> []"
  shows "remind_each e rt iv day_now name sent cs q d = Inr (q, d)"
  using assms
proof (induction cs)
  case (Cons c cs)
  have "remind e rt iv day_now name sent c q d = Inr (q, d)"
    using Cons.prems by (auto simp: settled_def remind_def localDate_def institution_row_def split: list.splits)
  then show ?case using Cons by simp
qed simp

text \<open>
  One run: every new log row is for a stage not logged before, one email is queued for each row that has
  an address, and a second run on the same day finds nothing to do.
\<close>

lemma runReminders_effect:
  assumes "runReminders e rt iv given_day d = Inr (n, d')"
  shows "log_grows d d' n"
proof -
  obtain cs day_now name where "d' = d \<and> n = 0 \<or> remind_each e rt iv day_now name (filter (\<lambda>r. rml_installmentId r \<in> cd_installmentId ` set cs) (reminder_log d)) cs 0 d = Inr (n, d')"
    using assms by (auto simp: runReminders_def Let_def split: if_splits)
  then show ?thesis
  proof
    assume "remind_each e rt iv day_now name (filter (\<lambda>r. rml_installmentId r \<in> cd_installmentId ` set cs) (reminder_log d)) cs 0 d = Inr (n, d')"
    from remind_each_effect[OF this] show ?thesis by auto
  qed (use log_grows_refl in simp)
qed

lemma runReminders_again:
  assumes "runReminders e rt iv (Some day_now) d = Inr (n, d')"
  shows "runReminders e rt iv' (Some day_now) d' = Inr (0, d')"
proof (cases "isEnabled FeeReminders d \<and> reminder_candidates day_now d \<noteq> []")
  case False
  then have "d' = d" using assms by (auto simp: runReminders_def Let_def split: if_splits)
  then show ?thesis using assms False by (auto simp: runReminders_def Let_def split: if_splits)
next
  case True
  let ?cs = "reminder_candidates day_now d" and ?sent = "\<lambda>x. filter (\<lambda>r. rml_installmentId r \<in> cd_installmentId ` set (reminder_candidates day_now d)) (reminder_log x)"
  obtain inst where inst: "institution_row d = Inr inst" and run: "remind_each e rt iv day_now (inst_name inst) (?sent d) ?cs 0 d = Inr (n, d')"
    using assms True by (auto simp: runReminders_def Let_def)
  have eff: "log_grows d d' n" "\<forall>c \<in> set ?cs. settled e day_now d' c" using remind_each_effect[OF run] by auto
  then obtain i log mails where d': "d' = d\<lparr>next_id := i, reminder_log := log, outbox_events := mails\<rparr>" unfolding log_grows_def by blast
  have same: "reminder_candidates day_now d' = ?cs" "institution_row d' = Inr inst" "isEnabled FeeReminders d'"
    using inst True by (simp_all add: d' reminder_candidates_def institution_row_def isEnabled_def)
  have "stages_sent (cd_installmentId c) (?sent d') = stages_sent (cd_installmentId c) (reminder_log d')" if "c \<in> set ?cs" for c
    using that by (auto simp: stages_sent_def)
  moreover have "institution d' \<noteq> []" using inst by (auto simp: d' institution_row_def split: list.splits)
  ultimately have "remind_each e rt iv' day_now (inst_name inst) (?sent d') ?cs 0 d' = Inr (0, d')"
    using remind_each_settled[OF eff(2)] by blast
  then show ?thesis using same True by (simp add: runReminders_def Let_def)
qed

end
