(* ===== verification/Documents.thy ===== *)
theory Documents
  imports Lists Invoices Reminders
begin

text \<open>
  Certificates, student cards and the public check of their codes (\<open>apps/api/src/modules/documents\<close>).
  The 256 random bits of a token are an argument of the call that draws them. Printing (the templates,
  the QR code and the PDF service) is not modelled, the escaping its templates rely on is.
\<close>

section \<open>Escaping\<close>

text \<open>\<open>domain/html.ts\<close>: the \<open>markup\<close> tag escapes every text that is not \<open>Raw\<close>; \<open>null\<close> and \<open>undefined\<close> leave nothing.\<close>

datatype interpolation = Plain string | Safe string | SafeAll "string list" | Absent

fun markup_piece :: "interpolation \<Rightarrow> string" where
  "markup_piece (Plain s) = esc s"
| "markup_piece (Safe s) = s"
| "markup_piece (SafeAll ss) = concat ss"
| "markup_piece Absent = []"

fun markup_rest :: "string list \<Rightarrow> interpolation list \<Rightarrow> string" where
  "markup_rest ss [] = []"
| "markup_rest ss (v # vs) = markup_piece v @ (case ss of [] \<Rightarrow> [] | s # _ \<Rightarrow> s) @ markup_rest (tl ss) vs"

definition markup :: "string list \<Rightarrow> interpolation list \<Rightarrow> string" where
  "markup strings vs = (case strings of [] \<Rightarrow> [] | s # _ \<Rightarrow> s) @ markup_rest (tl strings) vs"

text \<open>\<open>/^#[0-9a-fA-F]{6}$/\<close>.\<close>

definition hex_digit_char :: "char \<Rightarrow> bool" where
  "hex_digit_char c \<longleftrightarrow> is_digit c \<or> c \<in> set ''abcdefABCDEF''"

definition safeColor :: "string \<Rightarrow> string \<Rightarrow> string" where
  "safeColor v fallback = (case v of c # ds \<Rightarrow> if c = CHR ''#'' \<and> length ds = 6 \<and> list_all hex_digit_char ds then v else fallback | [] \<Rightarrow> fallback)"

definition markup_chars :: "char set" where
  "markup_chars = {CHR ''<'', CHR ''>'', CHR 0x22, CHR 0x27}"

lemma esc_no_markup: "set (esc s) \<inter> markup_chars = {}"
  by (induction s) (auto simp: esc_def esc_char_def markup_chars_def)

text \<open>What a person typed adds no markup: tags and quotes of the page are those of the template.\<close>

lemma markup_from_template:
  "filter (\<lambda>c. c \<in> markup_chars) (markup strings vs)
     = filter (\<lambda>c. c \<in> markup_chars) (markup strings (map (\<lambda>v. case v of Plain s \<Rightarrow> Plain [] | _ \<Rightarrow> v) vs))"
proof -
  have esc: "filter (\<lambda>c. c \<in> markup_chars) (esc s) = []" for s using esc_no_markup[of s] by (auto simp: filter_empty_conv)
  have "filter (\<lambda>c. c \<in> markup_chars) (markup_rest ss vs)
     = filter (\<lambda>c. c \<in> markup_chars) (markup_rest ss (map (\<lambda>v. case v of Plain s \<Rightarrow> Plain [] | _ \<Rightarrow> v) vs))" for ss
  proof (induction vs arbitrary: ss)
    case (Cons v vs)
    then show ?case by (cases v) (simp_all add: esc)
  qed simp
  then show ?thesis by (simp add: markup_def)
qed

section \<open>Names\<close>

text \<open>\<open>[given, father, grandfather].filter(Boolean).join(' ')\<close>.\<close>

definition holder_name :: "student_row \<Rightarrow> string" where
  "holder_name s = join '' '' (filter (\<lambda>n. n \<noteq> []) ([st_givenName s, st_fatherName s] @ opt_column (st_grandfatherName s)))"

section \<open>Certificates\<close>

record certificate_list_query = "created_query page_query" +
  celq_studentId :: "uuid option"
  celq_status :: "certificate_status option"

definition issued_key :: "certificate_row \<Rightarrow> instant \<times> uuid" where
  "issued_key r = (cert_issuedAt r, row_id r)"

definition issued_cursor :: "certificate_row \<Rightarrow> instant \<times> uuid" where
  "issued_cursor r = (in_millis (cert_issuedAt r), row_id r)"

definition certificate_listed :: "certificate_list_query \<Rightarrow> grant list \<Rightarrow> student_row list \<Rightarrow> certificate_row \<Rightarrow> bool" where
  "certificate_listed q grants sts r \<longleftrightarrow>
     if_given (celq_studentId q) (\<lambda>s. cert_studentId r = s) \<and> if_given (celq_status q) (\<lambda>s. cert_status r = s)
     \<and> (case branchReach grants ''certificates.read'' of ReachAll \<Rightarrow> True
        | ReachBranches bs \<Rightarrow> list_ex (\<lambda>s. row_id s = cert_studentId r \<and> st_branchId s \<in> set bs) sts)"

definition listCertificates :: "certificate_list_query \<Rightarrow> grant list \<Rightarrow> db \<Rightarrow> app_error + (certificate_row list \<times> created_query option)" where
  "listCertificates q grants d = paged issued_key Desc issued_cursor (certificate_listed q grants (students d)) (certificates d) q"

definition certificate_of :: "uuid \<Rightarrow> grant list \<Rightarrow> db \<Rightarrow> app_error + certificate_row" where
  "certificate_of i grants d =
     bindE (demand (find_by row_id i (certificates d)) (Documents CertificateNotFound)) (\<lambda>row.
     bindE (requireExisting (cert_studentId row) d) (\<lambda>student.
     bindE (assertBranchAccess grants ''certificates.read'' (st_branchId student)) (\<lambda>_.
     Inr row)))"

definition certificate_clash :: "certificate_row \<Rightarrow> certificate_row \<Rightarrow> bool" where
  "certificate_clash x y \<longleftrightarrow> cert_serial x = cert_serial y \<or> cert_token x = cert_token y
     \<or> (cert_status x = CertIssued \<and> cert_status y = CertIssued \<and> cert_enrollmentId x = cert_enrollmentId y)"

definition new_certificate :: "env \<Rightarrow> actor \<Rightarrow> uuid \<Rightarrow> string \<Rightarrow> string \<Rightarrow> billing_context \<Rightarrow> student_row \<Rightarrow> course_row \<Rightarrow> date \<Rightarrow> certificate_row" where
  "new_certificate e a i serial token ctx student course completedOn =
     \<lparr>row_id = i, createdAt = now e, updatedAt = now e, createdBy = Some (actor_userId a), updatedBy = Some (actor_userId a), version = 1,
      cert_serial = serial, cert_enrollmentId = bc_enrollmentId ctx, cert_studentId = bc_studentId ctx, cert_courseId = bc_courseId ctx,
      cert_studentName = holder_name student, cert_courseName = crs_name course, cert_completedOn = completedOn, cert_token = token,
      cert_status = CertIssued, cert_issuedAt = now e, cert_revokedAt = None, cert_revokedReason = None\<rparr>"

text \<open>The guards of \<open>issue\<close>, in their order; the result is what the certificate is made from.\<close>

definition certifiable :: "uuid \<Rightarrow> grant list \<Rightarrow> db \<Rightarrow> app_error + (billing_context \<times> course_row \<times> instant)" where
  "certifiable enrollmentId grants d =
     bindE (demand (billingContext enrollmentId d) (Documents (NotEligible (''That enrollment doesn'' @ CHR 0x27 # ''t exist.'')))) (\<lambda>ctx.
     bindE (findWithDepartment (bc_courseId ctx) d) (\<lambda>found.
     bindE (demand found (Documents (NotEligible (''That course doesn'' @ CHR 0x27 # ''t exist.'')))) (\<lambda>(course, departmentId).
     bindE (assertScope grants ''certificates.issue'' (cohort_target (Some departmentId) (bc_branchId ctx))) (\<lambda>_.
     bindE (demand (if bc_status ctx = EnrCompleted then bc_completedAt ctx else None) (Documents (NotEligible ''Only students who completed the course can be given a certificate.''))) (\<lambda>completedAt.
     bindE (throwIf (\<not> crs_certificateEligible course) (Documents (NotEligible ''This course does not award a certificate.''))) (\<lambda>_.
     bindE (institution_row d) (\<lambda>inst.
     bindE (throwIf (inst_certificateRequiresPaidInFull inst \<and> (case balanceForEnrollment enrollmentId d of None \<Rightarrow> False | Some b \<Rightarrow> b > 0))
       (Documents BalanceOutstanding)) (\<lambda>_.
     Inr (ctx, course, completedAt)))))))))"

definition issueCertificate :: "env \<Rightarrow> string \<Rightarrow> uuid \<Rightarrow> grant list \<Rightarrow> actor \<Rightarrow> db \<Rightarrow> app_error + (certificate_row \<times> db)" where
  "issueCertificate e token enrollmentId grants a d =
     bindE (certifiable enrollmentId grants d) (\<lambda>(ctx, course, completedAt).
     bindE (requireExisting (bc_studentId ctx) d) (\<lambda>student.
     bindE (next_number e SeriesCertificate None d) (\<lambda>(serial, d1).
     bindE (localDate e completedAt d) (\<lambda>completedOn.
     case take_id d1 of (i, d2) \<Rightarrow>
       let row = new_certificate e a i (issued_number serial) token ctx student course completedOn in
       bindE (insert_unless (certificate_clash row) (Documents CertificateAlreadyIssued) row (certificates d2)) (\<lambda>rows.
       Inr (row, audit e ''certificate.issued'' ''certificate'' (JUuid i)
         [(''serial'', JStr (cert_serial row)), (''studentNumber'', JStr (st_number student)), (''enrollmentId'', JUuid enrollmentId)]
         (d2\<lparr>certificates := rows\<rparr>)))))))"

definition apply_revocation :: "env \<Rightarrow> string \<Rightarrow> actor \<Rightarrow> certificate_row \<Rightarrow> certificate_row" where
  "apply_revocation e reason a r = r\<lparr>cert_status := CertRevoked, cert_revokedAt := Some (in_millis (now e)), cert_revokedReason := Some reason,
     updatedBy := Some (actor_userId a)\<rparr>"

definition revokeCertificate :: "env \<Rightarrow> uuid \<Rightarrow> string \<Rightarrow> int \<Rightarrow> grant list \<Rightarrow> actor \<Rightarrow> db \<Rightarrow> app_error + (certificate_row \<times> db)" where
  "revokeCertificate e i reason expectedVersion grants a d =
     bindE (certificate_of i grants d) (\<lambda>found.
     bindE (throwIf (cert_status found = CertRevoked) (Documents CertificateAlreadyRevoked)) (\<lambda>_.
     case updateWithVersion e (apply_revocation e reason a) i expectedVersion (certificates d) of (result, rows) \<Rightarrow>
     bindE (versionedRow (Documents CertificateNotFound) result) (\<lambda>row.
     Inr (row, audit e ''certificate.revoked'' ''certificate'' (JUuid i) [(''serial'', JStr (cert_serial found)), (''reason'', JStr reason)]
       (d\<lparr>certificates := rows\<rparr>)))))"

section \<open>Student cards\<close>

definition CARD_VALID_DAYS :: int where "CARD_VALID_DAYS = 365"

datatype shown_status = ShownValid | ShownExpired | ShownRevoked

definition card_shown :: "date \<Rightarrow> student_card_row \<Rightarrow> shown_status" where
  "card_shown day_now r = (if card_status r = CardRevoked then ShownRevoked else if card_validUntil r < day_now then ShownExpired else ShownValid)"

definition toCard :: "env \<Rightarrow> student_card_row \<Rightarrow> db \<Rightarrow> app_error + (student_card_row \<times> shown_status)" where
  "toCard e r d = bindE (today e d) (\<lambda>day_now. Inr (r, card_shown day_now r))"

definition active_card :: "uuid \<Rightarrow> db \<Rightarrow> student_card_row option" where
  "active_card studentId d = find (\<lambda>r. card_studentId r = studentId \<and> card_status r = CardActive) (student_cards d)"

definition currentCard :: "env \<Rightarrow> uuid \<Rightarrow> grant list \<Rightarrow> db \<Rightarrow> app_error + (student_card_row \<times> shown_status) option" where
  "currentCard e studentId grants d =
     bindE (requireExisting studentId d) (\<lambda>student.
     bindE (assertBranchAccess grants ''students.read'' (st_branchId student)) (\<lambda>_.
     case active_card studentId d of None \<Rightarrow> Inr None | Some r \<Rightarrow> bindE (toCard e r d) (\<lambda>c. Inr (Some c))))"

definition revoke_cards :: "env \<Rightarrow> uuid \<Rightarrow> actor \<Rightarrow> student_card_row list \<Rightarrow> student_card_row list" where
  "revoke_cards e studentId a rows = update_where (\<lambda>r. card_studentId r = studentId \<and> card_status r = CardActive)
     (\<lambda>r. touch e (r\<lparr>card_status := CardRevoked, card_revokedAt := Some (in_millis (now e)), updatedBy := Some (actor_userId a)\<rparr>)) rows"

definition new_card :: "env \<Rightarrow> actor \<Rightarrow> uuid \<Rightarrow> string \<Rightarrow> uuid \<Rightarrow> date \<Rightarrow> student_card_row" where
  "new_card e a i token studentId day_now =
     \<lparr>row_id = i, createdAt = now e, updatedAt = now e, createdBy = Some (actor_userId a), updatedBy = Some (actor_userId a), version = 1,
      card_studentId = studentId, card_token = token, card_validFrom = day_now, card_validUntil = addDays day_now CARD_VALID_DAYS,
      card_status = CardActive, card_issuedAt = now e, card_revokedAt = None\<rparr>"

definition card_clash :: "student_card_row \<Rightarrow> student_card_row \<Rightarrow> bool" where
  "card_clash x y \<longleftrightarrow> card_token x = card_token y
     \<or> (card_status x = CardActive \<and> card_status y = CardActive \<and> card_studentId x = card_studentId y)"

definition issueCard :: "env \<Rightarrow> string \<Rightarrow> uuid \<Rightarrow> grant list \<Rightarrow> actor \<Rightarrow> db \<Rightarrow> app_error + ((student_card_row \<times> shown_status) \<times> db)" where
  "issueCard e token studentId grants a d =
     bindE (requireExisting studentId d) (\<lambda>student.
     bindE (assertScope grants ''students.manage'' (at_branch (st_branchId student))) (\<lambda>_.
     bindE (throwIf (st_status student \<noteq> StActive) (Documents (NotEligible ''Only active students can be given an ID card.''))) (\<lambda>_.
     bindE (today e d) (\<lambda>day_now.
     case take_id (d\<lparr>student_cards := revoke_cards e studentId a (student_cards d)\<rparr>) of (i, d1) \<Rightarrow>
       let row = new_card e a i token studentId day_now in
       bindE (insert_unless (card_clash row) (UniqueViolation ''student_cards'') row (student_cards d1)) (\<lambda>rows.
       let d2 = audit e ''student_card.issued'' ''student_card'' (JUuid i)
         [(''studentNumber'', JStr (st_number student)), (''validUntil'', JStr (iso_date (card_validUntil row)))] (d1\<lparr>student_cards := rows\<rparr>) in
       bindE (toCard e row d2) (\<lambda>c. Inr (c, d2)))))))"

section \<open>The public check\<close>

record verification =
  vf_certificate :: bool
  vf_status :: shown_status
  vf_holderName :: string
  vf_title :: string
  vf_serial :: string
  vf_issuedOn :: date
  vf_validUntil :: "date option"
  vf_revokedOn :: "date option"
  vf_institutionName :: string

text \<open>\<open>toISOString().slice(0, 10)\<close>: the date in UTC.\<close>

definition utc_date :: "env \<Rightarrow> instant \<Rightarrow> date" where
  "utc_date e t = wall e t ''UTC''"

definition card_with_student :: "string \<Rightarrow> db \<Rightarrow> (student_card_row \<times> student_row) option" where
  "card_with_student token d = Option.bind (find_by card_token token (student_cards d)) (\<lambda>r.
     map_option (Pair r) (find_by row_id (card_studentId r) (students d)))"

definition verify_document :: "env \<Rightarrow> string \<Rightarrow> db \<Rightarrow> app_error + verification" where
  "verify_document e token d =
     bindE (institution_row d) (\<lambda>inst.
     bindE (today e d) (\<lambda>day_now.
     case find_by cert_token token (certificates d) of
       Some r \<Rightarrow> Inr \<lparr>vf_certificate = True, vf_status = (if cert_status r = CertRevoked then ShownRevoked else ShownValid),
         vf_holderName = cert_studentName r, vf_title = cert_courseName r, vf_serial = cert_serial r, vf_issuedOn = cert_completedOn r,
         vf_validUntil = None, vf_revokedOn = map_option (utc_date e) (cert_revokedAt r), vf_institutionName = inst_name inst\<rparr>
     | None \<Rightarrow> (case card_with_student token d of
         Some (r, s) \<Rightarrow> Inr \<lparr>vf_certificate = False, vf_status = card_shown day_now r, vf_holderName = holder_name s,
           vf_title = ''Student ID'', vf_serial = st_number s, vf_issuedOn = card_validFrom r, vf_validUntil = Some (card_validUntil r),
           vf_revokedOn = map_option (utc_date e) (card_revokedAt r), vf_institutionName = inst_name inst\<rparr>
       | None \<Rightarrow> Inl (Documents VerificationNotFound))))"

section \<open>Around the renderer\<close>

definition verifyUrl :: "string \<Rightarrow> string \<Rightarrow> string" where
  "verifyUrl webUrl token = (if webUrl \<noteq> [] \<and> last webUrl = CHR ''/'' then butlast webUrl else webUrl) @ ''/verify/'' @ token"

record letterhead =
  lh_name :: string
  lh_address :: "string option"
  lh_phone :: "string option"
  lh_color :: string

definition letterhead_of :: "db \<Rightarrow> app_error + letterhead" where
  "letterhead_of d = bindE (institution_row d) (\<lambda>row.
     let address = join '', '' (filter (\<lambda>x. x \<noteq> []) (opt_column (inst_address row) @ opt_column (inst_city row))) in
     Inr \<lparr>lh_name = inst_name row, lh_address = (if address = [] then None else Some address), lh_phone = inst_phone row, lh_color = inst_primaryColor row\<rparr>)"

end
