(* ===== verification/DocumentsOk.thy ===== *)
theory DocumentsOk
  imports Documents Tables
begin

text \<open>
  What holds of certificates and cards: serials and codes are unique, an enrollment has at most one
  certificate that is not revoked and a student at most one active card, and what is revoked stays
  revoked, so that its code never passes the public check again.
\<close>

section \<open>The life of a document\<close>

definition cert_born :: "certificate_row \<Rightarrow> bool" where
  "cert_born r \<longleftrightarrow> cert_status r = CertIssued \<and> cert_revokedAt r = None"

definition cert_move :: "certificate_row \<Rightarrow> certificate_row \<Rightarrow> bool" where
  "cert_move r r' \<longleftrightarrow> cert_status r = CertIssued \<and> cert_status r' = CertRevoked \<and> cert_revokedAt r' \<noteq> None
     \<and> cert_serial r' = cert_serial r \<and> cert_token r' = cert_token r \<and> cert_enrollmentId r' = cert_enrollmentId r
     \<and> cert_studentName r' = cert_studentName r \<and> cert_courseName r' = cert_courseName r \<and> cert_completedOn r' = cert_completedOn r"

definition cert_ok :: "certificate_row \<Rightarrow> bool" where
  "cert_ok r \<longleftrightarrow> (cert_status r = CertRevoked \<longleftrightarrow> cert_revokedAt r \<noteq> None)"

definition cert_revoked :: "certificate_row \<Rightarrow> bool" where
  "cert_revoked r \<longleftrightarrow> cert_status r = CertRevoked"

interpretation certificate_life: row_lifecycle cert_born cert_move cert_ok cert_revoked
  by unfold_locales (auto simp: cert_born_def cert_move_def cert_ok_def cert_revoked_def)

definition card_born :: "student_card_row \<Rightarrow> bool" where
  "card_born r \<longleftrightarrow> card_status r = CardActive"

definition card_move :: "student_card_row \<Rightarrow> student_card_row \<Rightarrow> bool" where
  "card_move r r' \<longleftrightarrow> card_status r = CardActive \<and> card_status r' = CardRevoked \<and> card_token r' = card_token r
     \<and> card_studentId r' = card_studentId r \<and> card_validUntil r' = card_validUntil r"

definition card_revoked :: "student_card_row \<Rightarrow> bool" where
  "card_revoked r \<longleftrightarrow> card_status r = CardRevoked"

interpretation card_life: row_lifecycle card_born card_move "\<lambda>r. True" card_revoked
  by unfold_locales (auto simp: card_move_def card_revoked_def)

interpretation one_certificate: versioned_exclusion certificate_clash
  by unfold_locales (auto simp: certificate_clash_def)

interpretation one_card: versioned_exclusion card_clash
  by unfold_locales (auto simp: card_clash_def)

definition documents_ok :: "db \<Rightarrow> bool" where
  "documents_ok d \<longleftrightarrow> exclusive certificate_clash (next_id d) (certificates d) \<and> exclusive card_clash (next_id d) (student_cards d)
     \<and> (\<forall>r \<in> set (certificates d). cert_ok r)"

inductive documents_step :: "db \<Rightarrow> db \<Rightarrow> bool" where
  certify: "issueCertificate e token en grants a d = Inr (r, d') \<Longrightarrow> documents_step d d'"
| revoke: "revokeCertificate e i reason v grants a d = Inr (r, d') \<Longrightarrow> documents_step d d'"
| card: "issueCard e token s grants a d = Inr (c, d') \<Longrightarrow> documents_step d d'"
| elsewhere: "certificates d' = certificates d \<Longrightarrow> student_cards d' = student_cards d \<Longrightarrow> next_id d \<le> next_id d' \<Longrightarrow> documents_step d d'"

inductive documents_reachable :: "db \<Rightarrow> bool" where
  start: "certificates d = [] \<Longrightarrow> student_cards d = [] \<Longrightarrow> documents_reachable d"
| step: "documents_reachable d \<Longrightarrow> documents_step d d' \<Longrightarrow> documents_reachable d'"

abbreviation documents_move :: "db \<Rightarrow> db \<Rightarrow> bool" where
  "documents_move d d' \<equiv> table_step cert_born cert_move (next_id d) (certificates d) (certificates d')
     \<and> table_step card_born card_move (next_id d) (student_cards d) (student_cards d') \<and> documents_ok d'"

section \<open>Every call keeps it\<close>

lemma audit_documents [simp]:
  "certificates (audit e x y z c d) = certificates d" "student_cards (audit e x y z c d) = student_cards d"
  "next_id (audit e x y z c d) = next_id d"
  by (simp_all add: audit_def record_audit_def)

lemma next_number_documents:
  "next_number e key b d = Inr (x, d') \<Longrightarrow> certificates d' = certificates d \<and> student_cards d' = student_cards d \<and> next_id d' = next_id d"
  by (auto simp: next_number_def split: prod.splits)

lemma issueCertificate_move:
  assumes "issueCertificate e token en grants a d = Inr (r, d')" "documents_ok d"
  shows "documents_move d d'" "certificates d' = certificates d @ [r]" "cert_token r = token" "cert_status r = CertIssued"
proof -
  have new: "certificates d' = certificates d @ [r]" "student_cards d' = student_cards d" "next_id d' = Suc (next_id d)" "row_id r = next_id d"
    "cert_born r" "\<forall>x \<in> set (certificates d). \<not> certificate_clash r x" "cert_token r = token"
    using assms(1) by (auto simp: issueCertificate_def Let_def new_certificate_def cert_born_def take_id_def insert_unless_def list_ex_iff dest!: next_number_documents split: if_splits)
  then show "certificates d' = certificates d @ [r]" "cert_token r = token" "cert_status r = CertIssued" by (simp_all add: cert_born_def)
  have "documents_ok d'"
    using assms(2) new one_certificate.insert one_card.later_Suc certificate_life.born_ok by (auto simp: documents_ok_def)
  then show "documents_move d d'" using new by (auto intro: table_step_snoc)
qed

lemma revokeCertificate_move:
  assumes "revokeCertificate e i reason v grants a d = Inr (r, d')" "documents_ok d"
  shows "documents_move d d'" "r \<in> set (certificates d')" "cert_status r = CertRevoked"
proof -
  obtain found rows where found: "find_by row_id i (certificates d) = Some found" "cert_status found \<noteq> CertRevoked"
    and upd: "updateWithVersion e (apply_revocation e reason a) i v (certificates d) = (Updated r, rows)"
    and d': "certificates d' = rows" "student_cards d' = student_cards d" "next_id d' = next_id d"
    using assms(1) by (auto simp: revokeCertificate_def certificate_of_def split: prod.splits)
  have ex: "exclusive certificate_clash (next_id d) (certificates d)" using assms(2) by (simp add: documents_ok_def)
  then have ids: "ids_distinct (certificates d)" by (simp add: exclusive_def)
  have key: "keeps_key (apply_revocation e reason a)" by (simp add: keeps_key_def apply_revocation_def)
  obtain before where before: "find_by row_id i (certificates d) = Some before" and r: "r = (touch e (apply_revocation e reason a before))\<lparr>version := v + 1\<rparr>"
    using updateWithVersion_Updated[OF ids upd] by metis
  have b: "before = found" using before found by simp
  have issued: "cert_status found = CertIssued" using found(2) by (cases "cert_status found") auto
  have move: "cert_move found r" using issued by (simp add: r b cert_move_def apply_revocation_def touch_def)
  have step: "table_step cert_born cert_move (next_id d) (certificates d) rows"
    by (rule table_step_update[OF upd ids key found(1)]) (rule move[unfolded r b])
  have "\<not> certificate_clash r x" if x: "x \<in> set rows" "row_id x \<noteq> i" for x
  proof -
    have "x \<in> set (certificates d)" using updateWithVersion_hits(3)[OF upd ids key] x by blast
    then have "\<not> certificate_clash found x"
      using ex find_by_in[OF found(1)] find_by_key[OF found(1)] x(2) by (auto simp: exclusive_def)
    then show ?thesis using move by (auto simp: certificate_clash_def cert_move_def)
  qed
  then have "exclusive certificate_clash (next_id d) rows" using one_certificate.update[OF ex upd key] by blast
  moreover have "\<forall>r \<in> set (certificates d). cert_ok r" using assms(2) by (simp add: documents_ok_def)
  then have "\<forall>r \<in> set rows. cert_ok r" by (rule certificate_life.keeps_ok[OF step])
  ultimately have "documents_ok d'" using assms(2) by (simp add: documents_ok_def d')
  then show "documents_move d d'" using step by (simp add: d')
  show "r \<in> set (certificates d')" using updateWithVersion_hits(1)[OF upd ids key] by (simp add: d')
  show "cert_status r = CertRevoked" using move by (simp add: cert_move_def)
qed

lemma revoke_cards_rows:
  "x \<in> set (revoke_cards e s a rows) \<Longrightarrow> (x \<in> set rows \<or> (\<exists>y \<in> set rows. row_id x = row_id y \<and> card_move y x))
     \<and> (card_studentId x = s \<longrightarrow> card_status x = CardRevoked)"
proof -
  assume "x \<in> set (revoke_cards e s a rows)"
  then obtain y where y: "y \<in> set rows" "x = (if card_studentId y = s \<and> card_status y = CardActive
      then touch e (y\<lparr>card_status := CardRevoked, card_revokedAt := Some (in_millis (now e)), updatedBy := Some (actor_userId a)\<rparr>) else y)"
    unfolding revoke_cards_def update_where_def by auto
  show ?thesis
  proof (cases "card_studentId y = s \<and> card_status y = CardActive")
    case True
    then have "card_move y x" "row_id x = row_id y" "card_status x = CardRevoked" using y(2) by (simp_all add: card_move_def touch_def)
    then show ?thesis using y(1) by blast
  next
    case False
    then show ?thesis using y by (cases "card_status y") auto
  qed
qed

lemma revoke_cards_step: "table_step card_born card_move n rows (revoke_cards e s a rows)"
  unfolding revoke_cards_def by (rule table_step_update_where) (simp add: card_move_def touch_def)

lemma revoke_cards_ok:
  assumes "exclusive card_clash n rows"
  shows "exclusive card_clash n (revoke_cards e s a rows)"
proof -
  have "map row_id (revoke_cards e s a rows) = map row_id rows" by (simp add: revoke_cards_def map_update_where touch_def)
  then have ids: "ids_distinct (revoke_cards e s a rows)" "row_id ` set (revoke_cards e s a rows) = row_id ` set rows"
    using assms by (simp_all add: exclusive_def ids_distinct_def) (metis image_set)
  have same: "\<exists>y \<in> set rows. row_id y = row_id x \<and> card_token y = card_token x \<and> card_studentId y = card_studentId x
      \<and> (card_status x = CardActive \<longrightarrow> card_status y = CardActive)" if "x \<in> set (revoke_cards e s a rows)" for x
    using revoke_cards_rows[OF that] by (auto simp: card_move_def)
  have "\<not> card_clash x y" if xy: "x \<in> set (revoke_cards e s a rows)" "y \<in> set (revoke_cards e s a rows)" "row_id x \<noteq> row_id y" for x y
  proof -
    obtain x0 y0 where "x0 \<in> set rows" "row_id x0 = row_id x" "card_token x0 = card_token x" "card_studentId x0 = card_studentId x"
      "card_status x = CardActive \<longrightarrow> card_status x0 = CardActive"
      "y0 \<in> set rows" "row_id y0 = row_id y" "card_token y0 = card_token y" "card_studentId y0 = card_studentId y"
      "card_status y = CardActive \<longrightarrow> card_status y0 = CardActive"
      using same[OF xy(1)] same[OF xy(2)] by blast
    moreover from this have "\<not> card_clash x0 y0" using assms xy(3) unfolding exclusive_def by metis
    ultimately show ?thesis by (auto simp: card_clash_def)
  qed
  then show ?thesis using assms ids unfolding exclusive_def by (metis image_iff)
qed

lemma issueCard_move:
  assumes "issueCard e token s grants a d = Inr (c, d')" "documents_ok d"
  shows "documents_move d d'" "fst c \<in> set (student_cards d')" "card_token (fst c) = token" "card_status (fst c) = CardActive"
    "\<forall>x \<in> set (student_cards d'). card_studentId x = s \<longrightarrow> x = fst c \<or> card_status x = CardRevoked"
proof -
  obtain day_now where d': "student_cards d' = revoke_cards e s a (student_cards d) @ [fst c]" "certificates d' = certificates d" "next_id d' = Suc (next_id d)"
    and new: "fst c = new_card e a (next_id d) token s day_now" "\<forall>x \<in> set (revoke_cards e s a (student_cards d)). \<not> card_clash (fst c) x"
    using assms(1) by (auto simp: issueCard_def Let_def take_id_def toCard_def insert_unless_def list_ex_iff split: if_splits)
  have ok: "exclusive card_clash (next_id d) (revoke_cards e s a (student_cards d))"
    using assms(2) by (intro revoke_cards_ok) (simp add: documents_ok_def)
  have id: "row_id (fst c) = next_id d" by (simp add: new(1) new_card_def)
  have "exclusive card_clash (Suc (next_id d)) (revoke_cards e s a (student_cards d) @ [fst c])" by (rule one_card.insert[OF ok id new(2)])
  then have "documents_ok d'" using assms(2) one_certificate.later_Suc by (simp add: documents_ok_def d')
  moreover have "card_born (fst c)" by (simp add: new(1) new_card_def card_born_def)
  then have "table_step card_born card_move (next_id d) (student_cards d) (student_cards d')"
    using revoke_cards_step[of "next_id d" "student_cards d" e s a] id unfolding d'(1) table_step_def by fastforce
  ultimately show "documents_move d d'" by (simp add: d'(2))
  show "fst c \<in> set (student_cards d')" "card_token (fst c) = token" "card_status (fst c) = CardActive"
    by (simp_all add: d'(1) new(1) new_card_def)
  show "\<forall>x \<in> set (student_cards d'). card_studentId x = s \<longrightarrow> x = fst c \<or> card_status x = CardRevoked"
    using revoke_cards_rows by (auto simp: d'(1))
qed

lemma documents_step_move:
  assumes "documents_step d d'" "documents_ok d"
  shows "documents_move d d'"
  using assms(1)
proof cases
  case certify
  then show ?thesis using issueCertificate_move(1) assms(2) by blast
next
  case revoke
  then show ?thesis using revokeCertificate_move(1) assms(2) by blast
next
  case card
  then show ?thesis using issueCard_move(1) assms(2) by blast
next
  case elsewhere
  then show ?thesis using assms(2) one_certificate.later one_card.later by (auto simp: documents_ok_def)
qed

lemma reachable_documents: "documents_reachable d \<Longrightarrow> documents_ok d"
proof (induction rule: documents_reachable.induct)
  case (start d)
  then show ?case by (simp add: documents_ok_def exclusive_def ids_distinct_def)
qed (use documents_step_move in blast)

section \<open>Revoked for good\<close>

lemma revoked_stays:
  assumes "documents_step\<^sup>*\<^sup>* d d'" "documents_ok d"
  shows "documents_ok d' \<and> (\<forall>r \<in> set (certificates d). cert_revoked r \<longrightarrow> r \<in> set (certificates d'))
    \<and> (\<forall>r \<in> set (student_cards d). card_revoked r \<longrightarrow> r \<in> set (student_cards d'))"
  using assms
proof (induction rule: rtranclp_induct)
  case (step y z)
  then have ok: "documents_ok y" by blast
  have move: "documents_move y z" by (rule documents_step_move[OF step(2) ok])
  then show ?case using step certificate_life.finished_kept card_life.finished_kept by blast
qed simp

lemma certificate_by_token:
  assumes "documents_ok d" "r \<in> set (certificates d)"
  shows "find_by cert_token (cert_token r) (certificates d) = Some r"
proof -
  have ex: "exclusive certificate_clash (next_id d) (certificates d)" using assms(1) by (simp add: documents_ok_def)
  have "inj_on cert_token (set (certificates d))"
  proof (rule inj_onI)
    fix x y assume xy: "x \<in> set (certificates d)" "y \<in> set (certificates d)" "cert_token x = cert_token y"
    then have "row_id x = row_id y" using ex unfolding exclusive_def certificate_clash_def by blast
    then show "x = y" using xy ex same_row unfolding exclusive_def by blast
  qed
  moreover have "distinct (certificates d)" using ex by (auto simp: exclusive_def ids_distinct_def distinct_map)
  ultimately have "distinct (map cert_token (certificates d))" by (simp add: distinct_map)
  then show ?thesis using find_by_distinct assms(2) by fastforce
qed

lemma verify_certificate:
  assumes "documents_ok d" "r \<in> set (certificates d)" "institution d \<noteq> []"
  shows "\<exists>v. verify_document e (cert_token r) d = Inr v \<and> vf_certificate v \<and> vf_status v = (if cert_status r = CertRevoked then ShownRevoked else ShownValid)
    \<and> vf_holderName v = cert_studentName r \<and> vf_title v = cert_courseName r \<and> vf_serial v = cert_serial r"
  using certificate_by_token[OF assms(1,2)] assms(3)
  by (auto simp: verify_document_def today_def localDate_def institution_row_def split: list.splits)

end
