(* ===== verification/Posts.thy ===== *)
theory Posts
  imports Lists
begin

text \<open>
  News (\<open>apps/api/src/modules/posts\<close>): slugs, the life of a post from draft to published, and the lists of
  staff and of the public. Unicode's NFKD with its combining marks removed is the parameter
  \<open>unaccented\<close>. A \<open>Date\<close> of JavaScript holds whole milliseconds: \<open>js_now\<close>.
\<close>

section \<open>Slugs\<close>

definition MAX_LENGTH :: nat where "MAX_LENGTH = 60"

definition slug_char :: "char \<Rightarrow> bool" where
  "slug_char c \<longleftrightarrow> is_lower c \<or> is_digit c"

text \<open>\<open>replace(/[^a-z0-9]+/g, '-')\<close>, then hyphens off both ends.\<close>

function hyphenate :: "string \<Rightarrow> string" where
  "hyphenate [] = []"
| "hyphenate (c # cs) = (if slug_char c then c # hyphenate cs
     else CHR ''-'' # hyphenate (dropWhile (\<lambda>c. \<not> slug_char c) cs))"
  by pat_completeness auto
termination by (relation "measure length") (auto simp: le_imp_less_Suc length_dropWhile_le)

definition strip_hyphens_right :: "string \<Rightarrow> string" where
  "strip_hyphens_right s = rev (dropWhile (\<lambda>c. c = CHR ''-'') (rev s))"

definition strip_hyphens :: "string \<Rightarrow> string" where
  "strip_hyphens s = strip_hyphens_right (dropWhile (\<lambda>c. c = CHR ''-'') s)"

definition slugify :: "(string \<Rightarrow> string) \<Rightarrow> string \<Rightarrow> string" where
  "slugify unaccented title =
     (let slug = strip_hyphens_right (take MAX_LENGTH (strip_hyphens (hyphenate (toLowerCase (unaccented title)))))
      in if slug = [] then ''post'' else slug)"

definition numbered :: "string \<Rightarrow> nat \<Rightarrow> string" where
  "numbered base n = base @ CHR ''-'' # show_nat n"

lemma numbered_inject: "numbered base m = numbered base n \<Longrightarrow> m = n"
  by (simp add: numbered_def show_nat_inject)

text \<open>The loop of \<open>uniqueSlug\<close>: it ends because only finitely many slugs are taken.\<close>

function first_free :: "string \<Rightarrow> string list \<Rightarrow> nat \<Rightarrow> string" where
  "first_free base taken n = (if numbered base n \<in> set taken then first_free base taken (n + 1) else numbered base n)"
  by auto
termination
proof (relation "measure (\<lambda>(base, taken, n). card {s \<in> set taken. \<exists>k \<ge> n. s = numbered base k})", goal_cases)
  case (2 base taken n)
  have "{s \<in> set taken. \<exists>k \<ge> n + 1. s = numbered base k} \<subset> {s \<in> set taken. \<exists>k \<ge> n. s = numbered base k}"
  proof (rule psubsetI)
    show "{s \<in> set taken. \<exists>k \<ge> n + 1. s = numbered base k} \<subseteq> {s \<in> set taken. \<exists>k \<ge> n. s = numbered base k}" using add_leD1 by blast
    have "numbered base n \<notin> {s \<in> set taken. \<exists>k \<ge> n + 1. s = numbered base k}" using numbered_inject by force
    then show "{s \<in> set taken. \<exists>k \<ge> n + 1. s = numbered base k} \<noteq> {s \<in> set taken. \<exists>k \<ge> n. s = numbered base k}" using 2 by blast
  qed
  then have "card {s \<in> set taken. \<exists>k \<ge> n + 1. s = numbered base k} < card {s \<in> set taken. \<exists>k \<ge> n. s = numbered base k}"
    by (intro psubset_card_mono) auto
  then show ?case by simp
qed simp

declare first_free.simps [simp del]

definition uniqueSlug :: "string \<Rightarrow> string list \<Rightarrow> string" where
  "uniqueSlug base taken = (if base \<notin> set taken then base else first_free base taken 2)"

section \<open>The state of a post\<close>

datatype post_status = PostDraft | PostScheduled | PostPublished

definition postStatusAt :: "instant option \<Rightarrow> instant \<Rightarrow> post_status" where
  "postStatusAt publishAt time = (case publishAt of
     None \<Rightarrow> PostDraft | Some t \<Rightarrow> if t > time then PostScheduled else PostPublished)"

definition js_now :: "env \<Rightarrow> instant" where
  "js_now e = in_millis (now e)"

record post_view =
  pv_row :: post_row
  pv_status :: post_status

definition toPost :: "env \<Rightarrow> post_row \<Rightarrow> post_view" where
  "toPost e r = \<lparr>pv_row = r, pv_status = postStatusAt (post_publishAt r) (js_now e)\<rparr>"

fun post_kind_name :: "post_kind \<Rightarrow> string" where
  "post_kind_name Announcement = ''announcement''" | "post_kind_name post_kind.News = ''news''" | "post_kind_name Story = ''story''"

record post_list_query = "created_query page_query" +
  polq_status :: "post_status option"
  polq_kind :: "post_kind option"
  polq_q :: "string option"

definition post_listed :: "instant \<Rightarrow> post_list_query \<Rightarrow> post_row \<Rightarrow> bool" where
  "post_listed time q r \<longleftrightarrow> if_given (polq_kind q) (\<lambda>k. post_kind r = k)
     \<and> if_given (polq_status q) (\<lambda>s. case s of
          PostDraft \<Rightarrow> post_publishAt r = None
        | PostScheduled \<Rightarrow> (case post_publishAt r of None \<Rightarrow> False | Some t \<Rightarrow> t > time)
        | PostPublished \<Rightarrow> (case post_publishAt r of None \<Rightarrow> False | Some t \<Rightarrow> t \<le> time))
     \<and> (case polq_q q of None \<Rightarrow> True | Some t \<Rightarrow> t = [] \<or> ilike (post_title r) (containing t))"

definition listPosts :: "env \<Rightarrow> post_list_query \<Rightarrow> db \<Rightarrow> app_error + (post_view list \<times> created_query option)" where
  "listPosts e q d = bindE (paged created_key Desc created_cursor (post_listed (js_now e) q) (posts d) q) (\<lambda>(items, nextCursor).
     Inr (map (toPost e) items, nextCursor))"

definition post_row_of :: "uuid \<Rightarrow> db \<Rightarrow> app_error + post_row" where
  "post_row_of i d = demand (find_by row_id i (posts d)) (Posts PostNotFound)"

definition getPost :: "env \<Rightarrow> uuid \<Rightarrow> db \<Rightarrow> app_error + post_view" where
  "getPost e i d = bindE (post_row_of i d) (\<lambda>r. Inr (toPost e r))"

definition assertMayChange :: "post_row \<Rightarrow> grant list \<Rightarrow> app_error + unit" where
  "assertMayChange r grants = throwIf (post_publishAt r \<noteq> None \<and> \<not> hasPermission grants ''posts.publish'' None) (Posts PublishRestricted)"

section \<open>Changing posts\<close>

text \<open>The checks of the table: the unique slug, its format, and the length of the body.\<close>

fun slug_format :: "string \<Rightarrow> bool" where
  "slug_format [] = False"
| "slug_format [c] = slug_char c"
| "slug_format (c # d # s) = (slug_char c \<and> (if d = CHR ''-'' then slug_format s else slug_format (d # s)))"

definition POST_BODY_MAX :: nat where "POST_BODY_MAX = 20000"

definition insertPost :: "post_row \<Rightarrow> post_row list \<Rightarrow> app_error + post_row list" where
  "insertPost r rows =
     bindE (throwIf (\<not> (1 \<le> length (post_body r) \<and> length (post_body r) \<le> POST_BODY_MAX)) (CheckViolation ''posts_body_length_check'')) (\<lambda>_.
     bindE (throwIf (\<not> slug_format (post_slug r)) (CheckViolation ''posts_slug_format_check'')) (\<lambda>_.
     insert_unless (\<lambda>x. post_slug x = post_slug r) (UniqueViolation ''posts_slug_key'') r rows))"

record create_post =
  cpo_title :: string
  cpo_kind :: post_kind
  cpo_summary :: string
  cpo_body :: string

definition valid_create_post :: "create_post \<Rightarrow> bool" where
  "valid_create_post inp \<longleftrightarrow> 3 \<le> length (cpo_title inp) \<and> length (cpo_title inp) \<le> 150 \<and> length (cpo_summary inp) \<le> 300
     \<and> 1 \<le> length (cpo_body inp) \<and> length (cpo_body inp) \<le> POST_BODY_MAX"

definition similar_slugs :: "string \<Rightarrow> db \<Rightarrow> string list" where
  "similar_slugs base d = filter (\<lambda>s. like_match (escapeLike base @ ''%'') s) (map post_slug (posts d))"

definition createPost :: "(string \<Rightarrow> string) \<Rightarrow> env \<Rightarrow> create_post \<Rightarrow> actor \<Rightarrow> db \<Rightarrow> app_error + (post_view \<times> db)" where
  "createPost unaccented e inp a d =
     (let base = slugify unaccented (cpo_title inp);
          slug = uniqueSlug base (similar_slugs base d) in
      case take_id d of (i, d1) \<Rightarrow>
        let row = \<lparr>row_id = i, createdAt = now e, updatedAt = now e, createdBy = Some (actor_userId a), updatedBy = Some (actor_userId a), version = 1,
             post_slug = slug, post_title = cpo_title inp, post_kind = cpo_kind inp, post_summary = cpo_summary inp, post_body = cpo_body inp,
             post_publishAt = None\<rparr> in
        bindE (insertPost row (posts d1)) (\<lambda>rows.
        Inr (toPost e row, audit e ''post.created'' ''post'' (JUuid i) [(''slug'', JStr slug), (''kind'', JStr (post_kind_name (cpo_kind inp)))]
          (d1\<lparr>posts := rows\<rparr>))))"

record update_post =
  upo_title :: "string option"
  upo_kind :: "post_kind option"
  upo_summary :: "string option"
  upo_body :: "string option"

definition apply_post_update :: "update_post \<Rightarrow> actor \<Rightarrow> post_row \<Rightarrow> post_row" where
  "apply_post_update inp a r = r\<lparr>post_title := override (upo_title inp) (post_title r), post_kind := override (upo_kind inp) (post_kind r),
     post_summary := override (upo_summary inp) (post_summary r), post_body := override (upo_body inp) (post_body r),
     updatedBy := Some (actor_userId a)\<rparr>"

definition updated_post_fields :: "update_post \<Rightarrow> json" where
  "updated_post_fields inp = given_fields [(''title'', upo_title inp \<noteq> None), (''kind'', upo_kind inp \<noteq> None),
     (''summary'', upo_summary inp \<noteq> None), (''body'', upo_body inp \<noteq> None)]"

definition updatePost :: "env \<Rightarrow> uuid \<Rightarrow> update_post \<Rightarrow> int \<Rightarrow> grant list \<Rightarrow> actor \<Rightarrow> db \<Rightarrow> app_error + (post_view \<times> db)" where
  "updatePost e i inp expectedVersion grants a d =
     bindE (post_row_of i d) (\<lambda>before.
     bindE (assertMayChange before grants) (\<lambda>_.
     case updateWithVersion e (apply_post_update inp a) i expectedVersion (posts d) of (result, rows) \<Rightarrow>
     bindE (versionedRow (Posts PostNotFound) result) (\<lambda>row.
     Inr (toPost e row, audit e ''post.updated'' ''post'' (JUuid i)
       [(''slug'', JStr (post_slug row)), (''fields'', updated_post_fields inp)] (d\<lparr>posts := rows\<rparr>)))))"

text \<open>A time asked for that is not ahead means now.\<close>

definition publish_time :: "env \<Rightarrow> instant option \<Rightarrow> instant" where
  "publish_time e requested = (case requested of None \<Rightarrow> js_now e | Some t \<Rightarrow> if in_millis t > js_now e then in_millis t else js_now e)"

definition publishPost :: "env \<Rightarrow> uuid \<Rightarrow> instant option \<Rightarrow> int \<Rightarrow> actor \<Rightarrow> db \<Rightarrow> app_error + (post_view \<times> db)" where
  "publishPost e i requested expectedVersion a d =
     (let publishAt = publish_time e requested in
      case updateWithVersion e (\<lambda>r. r\<lparr>post_publishAt := Some publishAt, updatedBy := Some (actor_userId a)\<rparr>) i expectedVersion (posts d) of (result, rows) \<Rightarrow>
      bindE (versionedRow (Posts PostNotFound) result) (\<lambda>row.
      Inr (toPost e row, audit e (if publishAt > js_now e then ''post.scheduled'' else ''post.published'') ''post'' (JUuid i)
        [(''slug'', JStr (post_slug row)), (''publishAt'', JStr (to_iso e publishAt))] (d\<lparr>posts := rows\<rparr>))))"

definition unpublishPost :: "env \<Rightarrow> uuid \<Rightarrow> int \<Rightarrow> actor \<Rightarrow> db \<Rightarrow> app_error + (post_view \<times> db)" where
  "unpublishPost e i expectedVersion a d =
     (case updateWithVersion e (\<lambda>r. r\<lparr>post_publishAt := None, updatedBy := Some (actor_userId a)\<rparr>) i expectedVersion (posts d) of (result, rows) \<Rightarrow>
      bindE (versionedRow (Posts PostNotFound) result) (\<lambda>row.
      Inr (toPost e row, audit e ''post.unpublished'' ''post'' (JUuid i) [(''slug'', JStr (post_slug row))] (d\<lparr>posts := rows\<rparr>))))"

definition removePost :: "env \<Rightarrow> uuid \<Rightarrow> grant list \<Rightarrow> db \<Rightarrow> app_error + db" where
  "removePost e i grants d =
     bindE (post_row_of i d) (\<lambda>row.
     bindE (assertMayChange row grants) (\<lambda>_.
     Inr (audit e ''post.deleted'' ''post'' (JUuid i) [(''slug'', JStr (post_slug row))]
       (d\<lparr>posts := filter (\<lambda>r. row_id r \<noteq> i) (posts d)\<rparr>))))"

section \<open>What the public sees\<close>

definition is_live :: "instant \<Rightarrow> post_row \<Rightarrow> bool" where
  "is_live time r \<longleftrightarrow> (case post_publishAt r of None \<Rightarrow> False | Some t \<Rightarrow> t \<le> time)"

record public_post_query = "created_query page_query" +
  ppq_kind :: "post_kind option"

text \<open>The sort key of a published post; the cursor prints it in milliseconds.\<close>

definition published_key :: "post_row \<Rightarrow> instant \<times> uuid" where
  "published_key r = ((case post_publishAt r of None \<Rightarrow> 0 | Some t \<Rightarrow> t), row_id r)"

definition published_cursor :: "post_row \<Rightarrow> instant \<times> uuid" where
  "published_cursor r = ((case post_publishAt r of None \<Rightarrow> 0 | Some t \<Rightarrow> in_millis t), row_id r)"

record public_post =
  pp_slug :: string
  pp_title :: string
  pp_kind :: post_kind
  pp_summary :: string
  pp_publishedAt :: instant

definition public_view :: "post_row \<Rightarrow> public_post" where
  "public_view r = \<lparr>pp_slug = post_slug r, pp_title = post_title r, pp_kind = post_kind r, pp_summary = post_summary r,
     pp_publishedAt = fst (published_cursor r)\<rparr>"

definition public_listed :: "instant \<Rightarrow> public_post_query \<Rightarrow> post_row \<Rightarrow> bool" where
  "public_listed time q r \<longleftrightarrow> is_live time r \<and> if_given (ppq_kind q) (\<lambda>k. post_kind r = k)"

definition listPublished :: "env \<Rightarrow> public_post_query \<Rightarrow> db \<Rightarrow> app_error + (public_post list \<times> created_query option)" where
  "listPublished e q d =
     bindE (paged published_key Desc published_cursor (public_listed (js_now e) q) (posts d) q) (\<lambda>(items, nextCursor).
     Inr (map public_view items, nextCursor))"

definition getPublished :: "env \<Rightarrow> string \<Rightarrow> db \<Rightarrow> app_error + (public_post \<times> string)" where
  "getPublished e slug d = (case find (\<lambda>r. post_slug r = slug \<and> is_live (js_now e) r) (posts d) of
     None \<Rightarrow> Inl (Posts PostNotFound) | Some r \<Rightarrow> Inr (public_view r, post_body r))"

section \<open>Slugs fit the table\<close>

text \<open>Slug characters and single hyphens, a last hyphen allowed.\<close>

fun tidy :: "string \<Rightarrow> bool" where
  "tidy [] = True"
| "tidy (c # s) = ((slug_char c \<or> c = CHR ''-'' \<and> (s = [] \<or> hd s \<noteq> CHR ''-'')) \<and> tidy s)"

lemma hyphen_not_slug [simp]: "\<not> slug_char (CHR ''-'')"
  by code_simp

lemma slug_format_tidy: "slug_format s \<longleftrightarrow> tidy s \<and> s \<noteq> [] \<and> hd s \<noteq> CHR ''-'' \<and> last s \<noteq> CHR ''-''"
proof (induction s rule: slug_format.induct)
  case (3 c d s)
  show ?case
  proof (cases "d = CHR ''-''")
    case True
    then show ?thesis using 3 by (cases s) auto
  next
    case False
    then show ?thesis using 3 by auto
  qed
qed auto

lemma tidy_hyphenate: "tidy (hyphenate s)"
proof (induction s rule: hyphenate.induct)
  case (2 c cs)
  have "hd (hyphenate (dropWhile (\<lambda>c. \<not> slug_char c) cs)) \<noteq> CHR ''-''" if "hyphenate (dropWhile (\<lambda>c. \<not> slug_char c) cs) \<noteq> []"
  proof (cases "dropWhile (\<lambda>c. \<not> slug_char c) cs")
    case (Cons x xs)
    then have "slug_char x" by (metis hd_dropWhile list.distinct(1) list.sel(1))
    then show ?thesis using Cons by auto
  next
    case Nil
    then show ?thesis using that by (metis hyphenate.simps(1))
  qed
  then show ?case using 2 by auto
qed simp

lemma tidy_append: "tidy (a @ b) \<Longrightarrow> tidy a \<and> tidy b"
  by (induction a) (auto simp: hd_append split: if_splits)

lemma tidy_dropWhile: "tidy s \<Longrightarrow> tidy (dropWhile P s)"
  using tidy_append[of "takeWhile P s" "dropWhile P s"] by simp

lemma strip_right_split: "\<exists>t. s = strip_hyphens_right s @ t"
  unfolding strip_hyphens_right_def by (metis rev_append rev_rev_ident takeWhile_dropWhile_id)

lemma strip_right_Nil [simp]: "strip_hyphens_right [] = []"
  by (simp add: strip_hyphens_right_def)

lemma strip_right_last: "strip_hyphens_right s \<noteq> [] \<Longrightarrow> last (strip_hyphens_right s) \<noteq> CHR ''-''"
  unfolding strip_hyphens_right_def using hd_dropWhile[of "\<lambda>c. c = CHR ''-''" "rev s"] by (auto simp: last_rev)

lemma strip_right_hd: "strip_hyphens_right s \<noteq> [] \<Longrightarrow> hd (strip_hyphens_right s) = hd s"
  using strip_right_split[of s] by (metis hd_append2)

lemma tidy_strip_right: "tidy s \<Longrightarrow> tidy (strip_hyphens_right s)"
  using strip_right_split[of s] tidy_append by metis

lemma slug_format_slugify: "slug_format (slugify unaccented title)"
proof -
  let ?h = "hyphenate (toLowerCase (unaccented title))"
  let ?d = "dropWhile (\<lambda>c. c = CHR ''-'') ?h"
  let ?s = "strip_hyphens_right (take MAX_LENGTH (strip_hyphens ?h))"
  have "tidy (strip_hyphens ?h)" unfolding strip_hyphens_def by (intro tidy_strip_right tidy_dropWhile tidy_hyphenate)
  then have "tidy (take MAX_LENGTH (strip_hyphens ?h))" using tidy_append by (metis append_take_drop_id)
  then have tidy: "tidy ?s" by (rule tidy_strip_right)
  have "slug_format ?s" if ne: "?s \<noteq> []"
  proof -
    have "take MAX_LENGTH (strip_hyphens ?h) \<noteq> []" using ne by (metis strip_right_Nil)
    then have h: "strip_hyphens ?h \<noteq> []" by (metis take_Nil)
    have "hd ?s = hd (take MAX_LENGTH (strip_hyphens ?h))" by (rule strip_right_hd[OF ne])
    also have "\<dots> = hd (strip_hyphens ?h)" using \<open>take MAX_LENGTH (strip_hyphens ?h) \<noteq> []\<close> by (metis append_take_drop_id hd_append2)
    also have "\<dots> = hd ?d" using h unfolding strip_hyphens_def by (rule strip_right_hd)
    finally have "hd ?s = hd ?d" .
    moreover have "?d \<noteq> []" using h by (metis strip_hyphens_def strip_right_Nil)
    then have "hd ?d \<noteq> CHR ''-''" by (rule hd_dropWhile)
    ultimately show ?thesis using tidy strip_right_last[OF ne] ne by (simp add: slug_format_tidy)
  qed
  moreover have "slug_format ''post''" by code_simp
  ultimately show ?thesis by (simp add: slugify_def Let_def)
qed

lemma slug_format_join: "slug_format a \<Longrightarrow> slug_format b \<Longrightarrow> slug_format (a @ CHR ''-'' # b)"
  by (induction a rule: slug_format.induct) (auto split: if_splits)

lemma slug_format_number: "slug_format (show_nat n)"
proof -
  have digits: "\<forall>c \<in> set (show_nat n). is_digit c" by (rule digits_show_nat)
  have "tidy s" if "\<forall>c \<in> set s. is_digit c" for s using that by (induction s) (auto simp: slug_char_def)
  moreover have "\<not> is_digit (CHR ''-'')" by code_simp
  ultimately show ?thesis using digits show_nat_nonempty[of n] by (metis hd_in_set last_in_set slug_format_tidy)
qed

lemma first_free_spec: "first_free base taken n \<notin> set taken \<and> (\<exists>k \<ge> n. first_free base taken n = numbered base k)"
proof (induction base taken n rule: first_free.induct)
  case (1 base taken n)
  show ?case
  proof (cases "numbered base n \<in> set taken")
    case True
    then show ?thesis using 1 by (subst (1 2) first_free.simps) (auto intro: Suc_leD)
  next
    case False
    then show ?thesis by (subst (1 2) first_free.simps) auto
  qed
qed

lemma uniqueSlug_spec:
  "uniqueSlug base taken \<notin> set taken" "slug_format base \<Longrightarrow> slug_format (uniqueSlug base taken)" "\<exists>rest. uniqueSlug base taken = base @ rest"
  using first_free_spec[of base taken 2] by (auto simp: uniqueSlug_def numbered_def slug_format_join slug_format_number)

lemma similar_slugs_iff: "s \<in> set (similar_slugs base d) \<longleftrightarrow> s \<in> post_slug ` set (posts d) \<and> (\<exists>rest. s = base @ rest)"
  by (auto simp: similar_slugs_def like_match_escape like_match_any)

text \<open>Creating a post never fails: the slug found is free and passes the checks of the table.\<close>

lemma createPost_succeeds:
  assumes "valid_create_post inp"
  shows "\<exists>v d'. createPost unaccented e inp a d = Inr (v, d') \<and> posts d' = posts d @ [pv_row v] \<and> pv_status v = PostDraft
    \<and> post_slug (pv_row v) \<notin> post_slug ` set (posts d) \<and> slug_format (post_slug (pv_row v)) \<and> row_id (pv_row v) = next_id d
    \<and> next_id d' = Suc (next_id d) \<and> post_publishAt (pv_row v) = None"
proof -
  let ?base = "slugify unaccented (cpo_title inp)"
  let ?slug = "uniqueSlug ?base (similar_slugs ?base d)"
  have format: "slug_format ?slug" by (rule uniqueSlug_spec(2)[OF slug_format_slugify])
  have free: "?slug \<notin> post_slug ` set (posts d)"
    using uniqueSlug_spec(1)[of ?base "similar_slugs ?base d"] uniqueSlug_spec(3)[of ?base "similar_slugs ?base d"] by (auto simp: similar_slugs_iff)
  then have "\<forall>x \<in> set (posts d). post_slug x \<noteq> ?slug" by (metis image_eqI)
  then show ?thesis
    using assms format free
    by (auto simp: createPost_def Let_def take_id_def insertPost_def insert_unless_def list_ex_iff valid_create_post_def toPost_def postStatusAt_def
        throwIf_def audit_def record_audit_def)
qed

section \<open>Who changes what the public sees\<close>

text \<open>Without the permission to publish, no call changes what is live, now or at any other time.\<close>

lemma drafter_changes_nothing_live:
  assumes "\<not> hasPermission grants ''posts.publish'' None"
  shows "updatePost e i inp v grants a d = Inr (view, d') \<Longrightarrow> ids_distinct (posts d) \<Longrightarrow> filter (is_live t) (posts d') = filter (is_live t) (posts d)"
    and "removePost e i grants d = Inr d'' \<Longrightarrow> ids_distinct (posts d) \<Longrightarrow> filter (is_live t) (posts d'') = filter (is_live t) (posts d)"
    and "createPost unaccented e new a d = Inr (view2, d3) \<Longrightarrow> filter (is_live t) (posts d3) = filter (is_live t) (posts d)"
proof -
  have hidden: "\<not> is_live t x" if "find_by row_id i (posts d) = Some r" "post_publishAt r = None" "x \<in> set (posts d)" "row_id x = i" "ids_distinct (posts d)" for r x
  proof -
    have "x = r" using that same_row[of "posts d" x r] find_by_in find_by_key by metis
    then show ?thesis using that by (simp add: is_live_def)
  qed
  show "filter (is_live t) (posts d') = filter (is_live t) (posts d)" if upd: "updatePost e i inp v grants a d = Inr (view, d')" and ids: "ids_distinct (posts d)"
  proof -
    obtain before row rows where found: "find_by row_id i (posts d) = Some before" "post_publishAt before = None"
      and u: "updateWithVersion e (apply_post_update inp a) i v (posts d) = (Updated row, rows)" and d': "posts d' = rows"
      using upd assms by (auto simp: updatePost_def post_row_of_def assertMayChange_def audit_def record_audit_def split: prod.splits)
    have rows: "rows = update_where (\<lambda>r. row_id r = i) (\<lambda>r. (touch e (apply_post_update inp a r))\<lparr>version := v + 1\<rparr>) (posts d)"
      by (rule updateWithVersion_rows[OF ids u])
    have "filter (is_live t) (update_where (\<lambda>r. row_id r = i) (\<lambda>r. (touch e (apply_post_update inp a r))\<lparr>version := v + 1\<rparr>) xs) = filter (is_live t) xs"
      if "set xs \<subseteq> set (posts d)" for xs
      using that hidden[OF found _ _ ids] by (induction xs) (auto simp: is_live_def touch_def apply_post_update_def)
    then show ?thesis by (simp add: d' rows)
  qed
  show "filter (is_live t) (posts d'') = filter (is_live t) (posts d)" if del: "removePost e i grants d = Inr d''" and ids: "ids_distinct (posts d)"
  proof -
    obtain r where found: "find_by row_id i (posts d) = Some r" "post_publishAt r = None" and d'': "posts d'' = filter (\<lambda>r. row_id r \<noteq> i) (posts d)"
      using del assms by (auto simp: removePost_def post_row_of_def assertMayChange_def audit_def record_audit_def)
    have "filter (is_live t) (filter (\<lambda>r. row_id r \<noteq> i) xs) = filter (is_live t) xs" if "set xs \<subseteq> set (posts d)" for xs
      using that hidden[OF found _ _ ids] by (induction xs) auto
    then show ?thesis by (simp add: d'')
  qed
  show "filter (is_live t) (posts d3) = filter (is_live t) (posts d)" if "createPost unaccented e new a d = Inr (view2, d3)"
    using that by (auto simp: createPost_def Let_def take_id_def insertPost_def is_live_def audit_def record_audit_def)
qed

end
