(* ===== verification/Spec2Isabelle.thy ===== *)
theory Spec2Isabelle
  imports SchoolProperties SystemProperties AccessProperties OfficeProperties DocumentsOk Posts
begin

text \<open>
  A verification library for EMIS, a management system for a training institution: the TypeScript
  API (\<open>src/apps/api/src\<close>), the contracts it shares with its clients (\<open>src/packages/contracts/src\<close>), the
  permission catalogue (\<open>src/packages/permissions/src\<close>), the parts of the database package that hold logic
  (\<open>src/packages/db/src\<close>) and one form of the staff portal. Paths below are relative to
  \<open>src/apps/api/src/modules\<close> unless they name another root.

  THE PROGRAM. A request passes the guards (\<open>identity\<close>, \<open>access\<close>), perhaps the idempotency interceptor,
  and reaches one method of one service. The method runs in a transaction: it reads rows, checks
  permissions, contracts and states, writes rows with optimistic versions, appends to the audit log and
  perhaps to the outbox, or throws, and then nothing is kept. Workers relay the outbox to a queue and run
  event handlers once. Settings decide what the others may do (modules, number patterns, code lists,
  custom fields); the catalog holds programs, courses and the calendar; people apply, become students,
  enrol in classes, are billed, pay, and are given certificates and cards.

  THE MODEL. The database is one record of tables, \<open>db\<close>, that grows by record extension in the order the
  modules depend on each other (\<open>Schema\<close>: \<open>system_db\<close>, \<open>access_db\<close>, \<open>settings_db\<close>, \<open>catalog_db\<close>,
  \<open>people_db\<close>, \<open>classes_db\<close>, \<open>db\<close>); a table is a list of rows, a row a record with the columns of the
  Drizzle schema. A service method is a function from its input, the caller's grants and the state to an
  error or a result with the new state, \<open>app_error + 'v \<times> db\<close>: \<open>Inl\<close> is every throw, and the state
  of a failed call is the old one, as a rolled-back transaction leaves it (the few methods of \<open>Mfa\<close> and
  \<open>SignIn\<close> that write and then refuse return the state in both cases). \<open>bindE\<close>, \<open>demand\<close> and \<open>throwIf\<close>
  of \<open>Prelude\<close> are \<open>await\<close>, a row that must be there and an \<open>if (...) throw\<close>. Requests are values
  that passed their Zod schema; the checks of a schema that a claim needs are \<open>valid_...\<close> predicates.
  A constraint of the database (unique index, CHECK, exclusion) is an error of the insert or update.
  Each operation is one step; transactions that overlap are taken as serialised, so \<open>SELECT ... FOR
  UPDATE\<close> and advisory locks are reads. What the source takes from elsewhere is a parameter:
  the record \<open>env\<close> (the time of the call \<open>now\<close>, SHA-256, the wall clock of a time zone \<open>wall\<close> and its inverse
  \<open>zoned\<close>, pg_trgm's \<open>similarity\<close>, printed forms of ids and rationals, the request and actor of the
  audit trail), and \<open>runtime\<close> and \<open>tools\<close> (AES-GCM, argon2, TOTP, random draws, password strength,
  the text of mails). Strings are lists of bytes; amounts are whole minor units as \<open>int\<close>, which is exact because the
  contracts bound them by \<open>MAX_MINOR_UNITS\<close>, far below 2^53. Instants are microseconds as \<open>int\<close>.

  THE THEORIES, in the order of the dependencies; a name ending in \<open>Ok\<close> holds invariants and lemmas.
    \<^item> \<open>Prelude\<close>, \<open>JsString\<close>, \<open>Dates\<close>, \<open>Json\<close>, \<open>Errors\<close>, \<open>Schema\<close>: results, rows, text and numbers as
      JavaScript has them, calendar days (\<open>common/dates.ts\<close>), canonical JSON, every error with its HTTP
      answer (\<open>*/domain/errors.ts\<close>), the tables.
    \<^item> \<open>Money\<close>, \<open>MoneyFlow\<close>, \<open>Numbering\<close>: \<open>contracts/src/money.ts\<close>, \<open>billing/domain/money-flow.ts\<close>,
      \<open>contracts/src/numbering.ts\<close>.
    \<^item> \<open>AuditLog\<close> (\<open>audit\<close>), \<open>Versioning\<close> (\<open>db/src/versioning.ts\<close>), \<open>Tables\<close> (exclusion constraints,
      rows with a lifecycle), \<open>Authz\<close> (\<open>permissions/src\<close>, \<open>common/authz\<close>), \<open>Pages\<close> and \<open>Walks\<close>
      (\<open>db/src/pagination.ts\<close>, \<open>common/db/like.ts\<close> and clients that follow cursors), \<open>Csv\<close>
      (\<open>reports/domain/csv.ts\<close>, \<open>imports/domain/csv-parse.ts\<close>).
    \<^item> \<open>Institution\<close>, \<open>Settings\<close>: the institution's clock, number series, modules, code lists, branches,
      departments and custom fields (\<open>settings\<close>). \<open>Lookups\<close>: what modules read from each other.
    \<^item> \<open>Prerequisites\<close>, \<open>Catalog\<close>, \<open>Calendar\<close>, \<open>CatalogOk\<close>: \<open>catalog\<close>.
    \<^item> \<open>Phone\<close>, \<open>Students\<close>, \<open>Applications\<close>, \<open>AdmissionsOk\<close>: \<open>students\<close>, \<open>admissions\<close>.
    \<^item> \<open>Schedule\<close>, \<open>Cohorts\<close>, \<open>Enrollments\<close>, \<open>CohortsOk\<close>, \<open>Seats\<close>, \<open>ClassesOk\<close>, \<open>Waitlist\<close>: \<open>cohorts\<close>.
    \<^item> \<open>Fees\<close>, \<open>Invoices\<close>, \<open>Payments\<close>, \<open>Approvals\<close>, \<open>Reminders\<close>, \<open>Ledger\<close>, \<open>Books\<close>, \<open>Billing\<close>: \<open>billing\<close>;
      \<open>PaymentForm\<close>: the portal's payment form; \<open>Reports\<close>, \<open>ReportsOk\<close>: \<open>reports\<close>.
    \<^item> \<open>Access\<close>, \<open>Users\<close>, \<open>StaffOk\<close>: \<open>access\<close>. \<open>SecretBox\<close>, \<open>Identity\<close>, \<open>SignIn\<close>, \<open>Mfa\<close>, \<open>AuthOk\<close>: \<open>identity\<close>.
    \<^item> \<open>Outbox\<close> (\<open>messaging\<close>), \<open>Replay\<close> (\<open>common/idempotency\<close>), \<open>Documents\<close>, \<open>DocumentsOk\<close> (\<open>documents\<close>),
      \<open>Posts\<close> (\<open>posts\<close>), \<open>Lists\<close> (the paged lists of all modules).
    \<^item> \<open>Example\<close>, \<open>Scenario\<close>, \<open>SystemScenario\<close>: a small institution on which the properties are exercised.
    \<^item> \<open>SchoolProperties\<close>, \<open>SystemProperties\<close>, \<open>AccessProperties\<close>, \<open>OfficeProperties\<close> and this theory: the
      properties C1 to C40, each with a witness where it has a hypothesis.

  THE INTERFACES are locales, each interpreted on the model: \<open>optimistic\<close> (a versioned row and its
  editors), \<open>authorizer\<close> (a guard and the scopes that reach a record), \<open>number_issuer\<close> (a counter that
  issues), \<open>exclusion_constraint\<close> and \<open>versioned_exclusion\<close> (a table where no two rows clash),
  \<open>row_lifecycle\<close> (how rows are born and move, and what then holds of all).

  WHAT THE LEMMAS SHOW. A step relation per area (\<open>billing_step\<close>, \<open>catalog_step\<close>, \<open>people_step\<close>,
  \<open>classes_step\<close>, \<open>auth_step\<close>, \<open>staff_step\<close>, \<open>documents_step\<close>) holds every call that writes, with any
  caller and input; a state is reachable when calls lead to it, and invariants are proved by rule
  induction over it. Billing: the books balance, payments and voids undo each other, duties stay separated.
  Catalog: prerequisites stay acyclic, because the search of the code is exact. Admissions: the services
  refine an abstract pipeline. Classes: places, sizes, double bookings and the waitlist. Access and identity:
  guards, sessions, codes that count, links that work once, an administrator who remains. Shared
  machinery: the hash chain, pages, CSV, outbox, redelivery, idempotency. Office: what the payment form
  sends, and that the report of debts agrees with the books and its own pages.

  BOUNDS AND FUEL. \<open>verify_loop\<close>, the relay, \<open>walk\<close>, \<open>collect_items\<close> and the cycle search are
  recursions over data or over fuel; where there is fuel the result is an option and a lemma shows that
  the fuel given is enough: \<open>walk\<close> needs one request more than there are rows, the relay one batch more
  than there are due events, the file of debts 500 pages of 100 for its 50,000 rows.

  SMALL DEPARTURES. \<open>formatMoney\<close> is the \<open>en\<close> format. The audit log's \<open>seq\<close> is one more than the last; the
  database's identity column may leave gaps after a rollback. \<open>next_number\<close> has no \<open>at\<close> argument, which no
  caller gives. \<open>relayBatch\<close> has no other workers and takes the queue's failure as an argument.
  \<open>authGuard\<close> leaves out clearing the cookie and requests that are not HTTP. \<open>activeUsersWithRole\<close> is not
  sorted. A cursor is the sort key it encodes. The byte-order mark is the three bytes of its encoding.
  \<open>toFixed2\<close> divides exactly, as the rounded double does in the range of the contracts. Rows that agree in every sort
  column of a report come in the order of the table.

  NOT MODELLED: the controllers (they parse and call one method), configuration and start-up, cookies and
  headers, throttling, mail texts, PDF and QR rendering, the dashboard's aggregates, the set-up wizard and
  its presets, terminology, the row checks of an import, the read-only views of the public site, the other screens
  of the portal, the website, the UI package and the migrations. They hold no state of their own or only display what
  the modelled services return, apart from the set-up wizard and the import, which call modelled services in
  a row.
\<close>

section \<open>The books\<close>

text \<open>
  C1. Whatever billing does, in whatever order and by whomever, the books are sound: in every
  reachable state each invoice's total, paid total, discount and status are what its instalments say,
  no instalment is paid beyond its amount, what is paid on an instalment is what the posted payments
  put on it, and every payment is fully allocated to instalments of its own invoice.
\<close>

theorem books_are_sound:
  assumes "billing_reachable d"
  shows "ledger_ok d"
  using reachable_books[OF assms] by (simp add: books_ok_def)

theorem books_are_sound_witness: "ledger_ok demo_paid \<and> payments demo_paid \<noteq> []"
  using books_are_sound[OF demo_reachable(3)] by (simp add: demo_paid_def)

text \<open>
  C2. In every reachable state the paid total of an invoice is the sum of the payments posted on it,
  and it lies between nothing and the invoice's total, which is at most its subtotal.
\<close>

theorem paid_total_is_posted:
  assumes "billing_reachable d" "bill \<in> set (invoices d)"
  shows "inv_paidTotal bill = sum_where (\<lambda>p. pay_invoiceId p = row_id bill \<and> pay_status p = Posted) pay_amount (payments d)
    \<and> 0 \<le> inv_paidTotal bill \<and> inv_paidTotal bill \<le> inv_total bill \<and> inv_total bill \<le> inv_subtotal bill"
proof -
  have ok: "ledger_ok d" using reachable_books[OF assms(1)] by (simp add: books_ok_def)
  show ?thesis using paid_total_posted[OF ok assms(2)] ledger_bounds[OF ok assms(2)] by blast
qed

theorem paid_total_is_posted_witness:
  "inv_paidTotal demo_paid_invoice = sum_where (\<lambda>p. pay_invoiceId p = 100 \<and> pay_status p = Posted) pay_amount [demo_payment]"
proof -
  have m: "demo_paid_invoice \<in> set (invoices demo_paid)" "row_id demo_paid_invoice = 100" "payments demo_paid = [demo_payment]"
    by (simp_all add: demo_paid_def demo_paid_invoice_def demo_invoice_def)
  show ?thesis using paid_total_is_posted[OF demo_reachable(3) m(1)] m(2,3) by simp
qed

text \<open>
  C3. Voiding undoes recording: a payment that is recorded and then voided leaves every instalment and
  the money of every invoice (discount, total, paid total, status) as they were.
\<close>

theorem void_reverses_payment:
  assumes "recordPayment e ps inp grants a key d = Inr (v, d1)" "voidPayment e' (pvw_id v) k a' d1 = Inr d2"
    and "ledger_ok d" "valid_payment_request inp"
  shows "installments d2 = installments d \<and> map invoice_money (invoices d2) = map invoice_money (invoices d)"
proof -
  have "0 < rp_amount inp" using assms(4) by (simp add: valid_payment_request_def is_positive_minor_units_def)
  with void_undoes_record[OF assms(1,3) _ assms(2)] show ?thesis by blast
qed

theorem void_reverses_payment_witness:
  "\<exists>v d1 d2. recordPayment demo_env defaultProviders demo_cash demo_grants demo_clerk ''manual'' demo_billed = Inr (v, d1)
     \<and> voidPayment demo_env (pvw_id v) 200 demo_manager d1 = Inr d2 \<and> installments d2 = demo_installments"
proof -
  obtain v d1 where rec: "recordPayment demo_env defaultProviders demo_cash demo_grants demo_clerk ''manual'' demo_billed = Inr (v, d1)"
    and d1: "pvw_id v = 103" "invoices d1 = [demo_paid_invoice]" "payments d1 = [demo_payment]" using demo_recordPayment by blast
  have facts: "row_id demo_payment = 103" "pay_status demo_payment = Posted" "pay_invoiceId demo_payment = 100"
    "row_id demo_paid_invoice = 100"
    by (simp_all add: demo_payment_def demo_paid_invoice_def demo_invoice_def)
  obtain d2 where void: "voidPayment demo_env (pvw_id v) 200 demo_manager d1 = Inr d2"
    by (simp add: voidPayment_def payment_row_def lock_def settle_def invoice_row_def d1 facts reversePayment_facts)
  have ok: "ledger_ok demo_billed" using reachable_books[OF demo_reachable(2)] by (simp add: books_ok_def)
  have valid: "valid_payment_request demo_cash" by code_simp
  have "installments demo_billed = demo_installments" by (simp add: demo_billed_def)
  with void_reverses_payment[OF rec void ok valid] rec void show ?thesis by auto
qed

text \<open>
  C4. Money changes hands only with two people: in every reachable state a decided request was decided
  by someone else than the person who asked, no two requests for the same thing are pending, and a
  step never changes a request that has been decided.
\<close>

theorem duties_are_separated:
  assumes "billing_reachable d"
  shows "separation_ok d \<and> (\<forall>d'. billing_step d d' \<longrightarrow>
    (\<forall>r \<in> set (approval_requests d). ap_status r \<noteq> Pending \<longrightarrow> r \<in> set (approval_requests d')))"
  using reachable_separation[OF assms] billing_step_separation(2) by blast

theorem duties_are_separated_witness: "separation_ok demo_requested \<and> approval_requests demo_requested \<noteq> []"
  using duties_are_separated[OF demo_requested_reachable] by (simp add: demo_requested_def)

text \<open>
  C5. A payment by someone allowed to take it, on an open invoice and by a known way of paying, is
  refused as an overpayment exactly when it is more than the invoice still owes, and the error says
  how much that is.
\<close>

theorem overpayment_refused:
  assumes "ledger_ok d" "find_provider ps key = Some pv" "rp_method inp \<in> set (pv_methods pv)"
    and "find_by row_id (rp_invoiceId inp) (invoices d) = Some bill" "inv_status bill \<notin> {InvVoid, InvPaid}"
    and "assertScope grants ''billing.receive'' (at_branch (inv_branchId bill)) = Inr ()" "valid_payment_request inp"
  shows "recordPayment e ps inp grants a key d = Inl (Billing (Overpayment n))
    \<longleftrightarrow> n = inv_total bill - inv_paidTotal bill \<and> n < rp_amount inp"
proof -
  have pos: "0 < rp_amount inp" using assms(7) by (simp add: valid_payment_request_def is_positive_minor_units_def)
  have status: "inv_status bill \<noteq> InvVoid" "inv_status bill \<noteq> InvPaid" using assms(5) by blast+
  show ?thesis using overpayment_iff[OF assms(1-4) status assms(6) pos, of e a] by blast
qed

theorem overpayment_refused_witness:
  "recordPayment demo_env defaultProviders (demo_cash\<lparr>rp_amount := 302\<rparr>) demo_grants demo_clerk ''manual'' demo_billed
     = Inl (Billing (Overpayment 301))"
proof -
  have ok: "ledger_ok demo_billed" using reachable_books[OF demo_reachable(2)] by (simp add: books_ok_def)
  have facts: "find_provider defaultProviders ''manual'' = Some manualProvider"
    "rp_method (demo_cash\<lparr>rp_amount := 302\<rparr>) \<in> set (pv_methods manualProvider)"
    "find_by row_id (rp_invoiceId (demo_cash\<lparr>rp_amount := 302\<rparr>)) (invoices demo_billed) = Some demo_invoice"
    "inv_status demo_invoice \<notin> {InvVoid, InvPaid}"
    "assertScope demo_grants ''billing.receive'' (at_branch (inv_branchId demo_invoice)) = Inr ()"
    "valid_payment_request (demo_cash\<lparr>rp_amount := 302\<rparr>)" by code_simp+
  have sums: "inv_total demo_invoice = 301" "inv_paidTotal demo_invoice = 0" by (simp_all add: demo_invoice_def)
  show ?thesis using overpayment_refused[OF ok facts, of demo_env demo_clerk 301] by (simp add: sums demo_cash_def)
qed

section \<open>Money\<close>

text \<open>
  C6. Splitting an amount by shares loses and invents nothing: there is one part per share, the
  parts add up to the amount, every part but the last is its share rounded down, and the last is at
  most one unit per part above its own.
\<close>

theorem split_exact:
  assumes "splitByBasisPoints amount shares = Inr parts" "0 \<le> amount" "\<forall>bp \<in> set shares. 0 \<le> bp"
  shows "length parts = length shares \<and> sum_list parts = amount
    \<and> (\<forall>i < length parts. amount * shares ! i div 10000 \<le> parts ! i
         \<and> parts ! i < amount * shares ! i div 10000 + int (length parts)
         \<and> (i < length parts - 1 \<longrightarrow> parts ! i = amount * shares ! i div 10000))"
  using split_length_sum[OF assms(1)] split_parts[OF assms] by fastforce

theorem split_exact_witness:
  "sum_list [33, 33, 35 :: int] = 101 \<and> splitByBasisPoints 101 [3333, 3333, 3334] = Inr [33, 33, 35]"
proof -
  have run: "splitByBasisPoints 101 [3333, 3333, 3334] = Inr [33, 33, 35]" by code_simp
  with split_exact[OF run] show ?thesis by simp
qed

text \<open>
  C8. A payment is spread over the instalments, oldest due date first: what it allocates and what it
  refuses add up to it, nothing is refused while something is owed, no instalment gets more than it
  owes, and one that is due later gets something only when those due before are paid off.
\<close>

theorem payment_allocation:
  assumes "allocatePayment parts amount = (as, remainder)" "0 \<le> amount" "\<forall>p \<in> set parts. 0 \<le> owed p"
    and "distinct (map row_id parts)"
  shows "sum_list (map snd as) + remainder = amount
    \<and> remainder = max 0 (amount - sum_list (map owed parts))
    \<and> distinct (map fst as) \<and> (\<forall>a \<in> set as. 0 < snd a \<and> fst a \<in> row_id ` set parts)
    \<and> (\<forall>p \<in> set parts. allocated as (row_id p) \<le> owed p)
    \<and> (\<forall>p \<in> set parts. \<forall>q \<in> set parts. dueOrder p < dueOrder q \<and> 0 < allocated as (row_id q)
         \<longrightarrow> allocated as (row_id p) = owed p)"
  using allocatePayment_spec[OF assms] allocatePayment_oldest_first[OF assms] by blast

definition demo_parts :: "installment_row list" where
  "demo_parts = [\<lparr>row_id = 101, part_invoiceId = 100, part_sequence = 1, part_dueDate = Date 2026 9 4, part_amount = 150, part_paidAmount = 0\<rparr>,
                 \<lparr>row_id = 102, part_invoiceId = 100, part_sequence = 2, part_dueDate = Date 2026 8 5, part_amount = 151, part_paidAmount = 1\<rparr>]"

theorem payment_allocation_witness:
  "allocatePayment demo_parts 200 = ([(102, 150), (101, 50)], 0) \<and> sum_list (map snd [(102, 150), (101, 50)]) = (200 :: int)"
proof -
  have run: "allocatePayment demo_parts 200 = ([(102, 150), (101, 50)], 0)" by code_simp
  have nn: "\<forall>p \<in> set demo_parts. 0 \<le> owed p" and ids: "distinct (map row_id demo_parts)" by code_simp+
  show ?thesis using payment_allocation[OF run _ nn ids] run by simp
qed

text \<open>
  C9. A discount cuts the instalments by exactly its amount, from the latest due date backward, and
  never below what has been paid; it is refused only when it is more than what is unpaid.
\<close>

theorem discount_cuts:
  assumes "0 \<le> amount" "\<forall>p \<in> set parts. 0 \<le> owed p" "distinct (map row_id parts)"
  shows "(amount \<le> sum_list (map owed parts) \<longleftrightarrow> (\<exists>changes. applyDiscount parts amount = Inr changes))
    \<and> (\<forall>changes. applyDiscount parts amount = Inr changes \<longrightarrow>
         (\<exists>cuts. changes = map (new_amount parts) cuts \<and> sum_list (map snd cuts) = amount \<and> distinct (map fst cuts)
            \<and> (\<forall>p \<in> set parts. 0 \<le> allocated cuts (row_id p) \<and> allocated cuts (row_id p) \<le> owed p)
            \<and> (\<forall>p \<in> set parts. \<forall>q \<in> set parts. dueOrder p < dueOrder q \<and> 0 < allocated cuts (row_id p)
                 \<longrightarrow> allocated cuts (row_id q) = owed q)))"
proof (intro conjI allI impI)
  show "amount \<le> sum_list (map owed parts) \<longleftrightarrow> (\<exists>changes. applyDiscount parts amount = Inr changes)"
    using applyDiscount_ok_iff[OF assms] by blast
  fix changes assume run: "applyDiscount parts amount = Inr changes"
  from applyDiscount_Inr[OF run assms] obtain cuts where
    "changes = map (new_amount parts) cuts" "sum_list (map snd cuts) = amount" "distinct (map fst cuts)"
    "\<forall>p \<in> set parts. 0 \<le> allocated cuts (row_id p) \<and> allocated cuts (row_id p) \<le> owed p"
    and loop: "allocate_loop (rev (byDueDate parts)) amount = (cuts, 0)" by metis
  then show "\<exists>cuts. changes = map (new_amount parts) cuts \<and> sum_list (map snd cuts) = amount \<and> distinct (map fst cuts)
            \<and> (\<forall>p \<in> set parts. 0 \<le> allocated cuts (row_id p) \<and> allocated cuts (row_id p) \<le> owed p)
            \<and> (\<forall>p \<in> set parts. \<forall>q \<in> set parts. dueOrder p < dueOrder q \<and> 0 < allocated cuts (row_id p)
                 \<longrightarrow> allocated cuts (row_id q) = owed q)"
    using applyDiscount_latest_first[OF loop assms] by blast
qed

theorem discount_cuts_witness:
  "\<exists>changes. applyDiscount demo_parts 160 = Inr changes"
proof -
  have nn: "\<forall>p \<in> set demo_parts. 0 \<le> owed p" and ids: "distinct (map row_id demo_parts)"
    and le: "160 \<le> sum_list (map owed demo_parts)" by code_simp+
  show ?thesis using discount_cuts[OF _ nn ids, of 160] le by simp
qed

section \<open>Document numbers\<close>

text \<open>
  C10. A series counts without gaps: whatever number the counter of a scope stands at, issuing \<open>k\<close>
  numbers one after another gives the next \<open>k\<close> in order, and cannot fail.
\<close>

theorem numbers_gapless:
  assumes "number_ready e key b d"
  shows "\<exists>d'. counter.issues e key b k d
      = Some ([Suc (number_count e key b d) ..< Suc (number_count e key b d + k)], d')
    \<and> number_count e key b d' = number_count e key b d + k"
  using counter.gapless[OF assms, of k] by blast

theorem numbers_gapless_witness:
  "\<exists>d'. counter.issues demo_env SeriesReceipt (Some 4) 3 demo_db = Some ([1 ..< 4], d')"
proof -
  have "checkNumberPattern (patternOf SeriesReceipt demo_db) = None"
    and b: "find_by row_id 4 (branches demo_db) = Some demo_branch" and "institution demo_db \<noteq> []" "br_code demo_branch \<noteq> []"
    by code_simp+
  then have ready: "number_ready demo_env SeriesReceipt (Some 4) demo_db" by (simp add: number_ready_def)
  have zero: "number_count demo_env SeriesReceipt (Some 4) demo_db = 0" by code_simp
  show ?thesis using numbers_gapless[OF ready, of 3] by (auto simp: zero)
qed

text \<open>
  C11. Within a scope no number repeats: two sequence numbers formatted by an accepted pattern in
  contexts with the same scope give the same text only if they are equal.
\<close>

theorem numbers_unique_in_scope:
  assumes "checkNumberPattern pattern = None"
    and "numberScope pattern ctx = Inr scope" "numberScope pattern ctx' = Inr scope"
    and "\<And>c. ctx_branchCode ctx = Some c \<Longrightarrow> CHR ''{'' \<notin> set c"
    and "\<And>c. ctx_branchCode ctx' = Some c \<Longrightarrow> CHR ''{'' \<notin> set c"
    and "formatNumber pattern ctx s = Inr number" "formatNumber pattern ctx' t = Inr number"
  shows "s = t"
proof -
  have "formatNumber pattern ctx t = Inr number"
    using scope_determines_number[OF assms(1-5), of t] assms(7) by simp
  then show ?thesis using formatNumber_inject[OF assms(1,6)] by blast
qed

definition demo_context :: "string \<Rightarrow> number_context" where
  "demo_context code = \<lparr>ctx_year = 2026, ctx_month = 8, ctx_fiscalYear = 2026, ctx_branchCode = Some code\<rparr>"

theorem numbers_unique_in_scope_witness:
  "formatNumber ''{BRANCH}{SEQ:1}'' (demo_context ''AB'') 11 = Inr ''AB11'' \<and> (11 :: nat) = 11"
proof -
  have ok: "checkNumberPattern ''{BRANCH}{SEQ:1}'' = None"
    and scope: "numberScope ''{BRANCH}{SEQ:1}'' (demo_context ''AB'') = Inr ''AB{SEQ}''"
    and run: "formatNumber ''{BRANCH}{SEQ:1}'' (demo_context ''AB'') 11 = Inr ''AB11''" by code_simp+
  have plain: "CHR ''{'' \<notin> set c" if "ctx_branchCode (demo_context ''AB'') = Some c" for c
    using that by (auto simp: demo_context_def)
  have "(11 :: nat) = 11" by (rule numbers_unique_in_scope[OF ok scope scope plain plain run run])
  with run show ?thesis by blast
qed

section \<open>Settings\<close>

text \<open>
  C13. A module is never on while one it requires is off: switching any module on or off keeps it so.
\<close>

theorem modules_stay_closed:
  assumes "setModule e key on a d = Inr d'" "modules_closed d"
  shows "modules_closed d'"
  by (rule setModule_closed[OF assms])

theorem modules_stay_closed_witness:
  "\<exists>d'. setModule demo_env ''pre_registration'' False demo_manager demo_db = Inr d' \<and> modules_closed d'"
proof -
  have closed: "modules_closed demo_db" by (simp add: modules_closed_def isEnabled_def demo_db_def)
  have k: "module_of ''pre_registration'' = Some PreRegistration" by code_simp
  have "filter (\<lambda>other. isEnabled other demo_db \<and> PreRegistration \<in> set (module_requires other)) MODULE_KEYS = []"
    by code_simp
  then obtain d' where run: "setModule demo_env ''pre_registration'' False demo_manager demo_db = Inr d'"
    using k by (simp add: setModule_def Let_def)
  with modules_stay_closed[OF run closed] show ?thesis by blast
qed

text \<open>
  C14. At least one branch stays active: no update of a branch can deactivate the last one.
\<close>

theorem a_branch_stays_active:
  assumes "updateBranch e i inp v a d = Inr (row, d')" "ids_distinct (branches d)"
    and "\<exists>b \<in> set (branches d). br_isActive b"
  shows "\<exists>b \<in> set (branches d'). br_isActive b"
  by (rule updateBranch_keeps_active[OF assms])

theorem a_branch_stays_active_witness:
  "\<exists>row d'. updateBranch demo_env 4 \<lparr>ub_name = Some ''Main'', ub_address = None, ub_phone = None, ub_isActive = Some True\<rparr>
      1 demo_manager demo_db = Inr (row, d') \<and> (\<exists>b \<in> set (branches d'). br_isActive b)"
proof -
  let ?inp = "\<lparr>ub_name = Some ''Main'', ub_address = None, ub_phone = None, ub_isActive = Some True\<rparr>"
  have ids: "ids_distinct (branches demo_db)" and act: "\<exists>b \<in> set (branches demo_db). br_isActive b" by code_simp+
  have b: "find_by row_id 4 (branches demo_db) = Some demo_branch" and v: "version demo_branch = 1" by code_simp+
  obtain row rows where "updateWithVersion demo_env (apply_branch_update ?inp demo_manager) 4 1 (branches demo_db) = (Updated row, rows)"
    using updateWithVersion_hit[OF ids b v] by blast
  then obtain d' where run: "updateBranch demo_env 4 ?inp 1 demo_manager demo_db = Inr (row, d')"
    using b by (simp add: updateBranch_def versionedRow_def)
  with a_branch_stays_active[OF run ids act] show ?thesis by blast
qed

section \<open>Prices and plans\<close>

text \<open>
  C15. The price of a course on a date is the best one there is: a structure that applies (active,
  effective by then, for the student's category or for everyone) with none that ranks before it,
  where one for the category ranks before one for everyone and among those the latest ranks first;
  and there is no price only when no structure applies.
\<close>

theorem fee_price_is_best:
  "case resolve courseId categoryCode asOf d of
     None \<Rightarrow> \<not> list_ex (fee_applies courseId categoryCode asOf) (fee_structures d)
   | Some best \<Rightarrow> best \<in> set (fee_structures d) \<and> fee_applies courseId categoryCode asOf best
       \<and> list_all (\<lambda>r. \<not> (fee_applies courseId categoryCode asOf r \<and>
             ((fs_categoryCode best = None \<and> fs_categoryCode r \<noteq> None)
              \<or> ((fs_categoryCode best = None) = (fs_categoryCode r = None)
                  \<and> days_of (fs_effectiveFrom best) < days_of (fs_effectiveFrom r))))) (fee_structures d)"
proof (cases "resolve courseId categoryCode asOf d")
  case None
  then have "\<forall>r \<in> set (fee_structures d). \<not> fee_applies courseId categoryCode asOf r" using resolve_None_iff by blast
  with None show ?thesis by (simp add: list_ex_iff)
next
  case (Some best)
  have rank: "fee_rank best \<le> fee_rank r" if "r \<in> set (fee_structures d)" "fee_applies courseId categoryCode asOf r" for r
    using resolve_Some(3)[OF Some] that by blast
  show ?thesis
    using resolve_Some(1,2)[OF Some] rank by (fastforce simp: Some list_all_iff fee_rank_def less_eq_prod_def)
qed

text \<open>
  C16. Making a retired plan the default takes the default away from the plan that had it and leaves
  the institution with none: the update succeeds, and \<open>defaultPlan\<close> finds nothing afterwards.
\<close>

theorem retired_default_leaves_none:
  assumes "updatePlan e i inp v a d = Inr (row, d')" "upl_isDefault inp = Some True" "upl_isActive inp = None"
    and "find_by row_id i (payment_plans d) = Some plan" "\<not> pl_isActive plan" "ids_distinct (payment_plans d)"
  shows "defaultPlan d' = None"
  by (rule updatePlan_retired_default[OF assms])

definition demo_retired :: db where
  "demo_retired = demo_db\<lparr>payment_plans := [demo_plan, demo_plan\<lparr>row_id := 15, pl_name := ''Old'', pl_isDefault := False, pl_isActive := False\<rparr>]\<rparr>"

theorem retired_default_leaves_none_witness:
  "defaultPlan demo_retired = Some demo_plan \<and>
   (\<exists>row d'. updatePlan demo_env 15 \<lparr>upl_name = None, upl_isDefault = Some True, upl_isActive = None\<rparr> 1 demo_manager demo_retired
      = Inr (row, d') \<and> defaultPlan d' = None)"
proof -
  let ?inp = "\<lparr>upl_name = None, upl_isDefault = Some True, upl_isActive = None\<rparr>"
  let ?old = "demo_plan\<lparr>row_id := 15, pl_name := ''Old'', pl_isDefault := False, pl_isActive := False\<rparr>"
  have start: "defaultPlan demo_retired = Some demo_plan"
    and plan: "find_by row_id 15 (payment_plans demo_retired) = Some ?old" and off: "\<not> pl_isActive ?old"
    and ids: "ids_distinct (payment_plans demo_retired)" by code_simp+
  obtain row rows where u: "updateWithVersion demo_env (apply_plan_update ?inp demo_manager) 15 1
      (payment_plans (clearDefault demo_env demo_retired)) = (Updated row, rows)" "\<not> list_ex (plan_clash row) rows"
    by (rule that) code_simp+
  then obtain d' where run: "updatePlan demo_env 15 ?inp 1 demo_manager demo_retired = Inr (row, d')"
    by (simp add: updatePlan_def versionedRow_def throwIf_def)
  with retired_default_leaves_none[OF run _ _ plan off ids] start show ?thesis by auto
qed

section \<open>Audit log\<close>

text \<open>
  C17. Appending keeps the log sound: if \<open>verify\<close> accepts the log, it accepts it with the entry that
  \<open>record\<close> appends, whoever makes it and whatever it holds.
\<close>

theorem recorded_log_verifies:
  assumes "verify e rows = (True, length rows, None)" "seq_sorted rows"
  shows "verify e (audit_append e ov entry rows) = (True, length rows + 1, None)
    \<and> seq_sorted (audit_append e ov entry rows)"
proof -
  have s: "seq_sorted (audit_append e ov entry rows)" by (rule seq_sorted_audit_append[OF assms(2)])
  have "chained e None (audit_append e ov entry rows)"
    using assms verify_intact_iff[OF assms(2)] chained_audit_append by blast
  moreover have "length (audit_append e ov entry rows) = length rows + 1" by (simp add: audit_append_def Let_def)
  ultimately show ?thesis using verify_intact_iff[OF s, of e] s by simp
qed

theorem recorded_log_verifies_witness:
  "verify demo_env (audit_append demo_env None \<lparr>ar_action = ''a'', ar_entityType = ''b'', ar_entityId = JNull, ar_changes = JNull\<rparr> [])
     = (True, 1, None)"
proof -
  have s: "seq_sorted []" by (simp add: seq_sorted_def)
  then have "verify demo_env [] = (True, length ([] :: audit_row list), None)" using verify_intact_iff by fastforce
  from recorded_log_verifies[OF this s] show ?thesis by simp
qed

text \<open>
  C18. Editing the log shows: two logs of the same length that \<open>verify\<close> accepts and that end in the
  same hash hold the same hashed text in every row, unless two different inputs have the same digest
  (the digests being 64 characters, as SHA-256 in hex is).
\<close>

theorem edits_are_evident:
  assumes "\<forall>s. length (sha256 e s) = 64" "seq_sorted xs" "seq_sorted ys" "length xs = length ys"
    and "verify e xs = (True, length xs, None)" "verify e ys = (True, length ys, None)"
    and "head_hash xs = head_hash ys"
  shows "map (hashed_text e) xs = map (hashed_text e) ys
    \<or> (\<exists>i < length xs. input_at e xs i \<noteq> input_at e ys i \<and> sha256 e (input_at e xs i) = sha256 e (input_at e ys i))"
  using chain_fork[OF assms(1,4)] assms(2,3,5-7) by (simp add: verify_intact_iff)

definition demo_log :: "string \<Rightarrow> audit_row list" where
  "demo_log action = audit_append demo_env None
     \<lparr>ar_action = action, ar_entityType = ''payment'', ar_entityId = JUuid 1, ar_changes = JObj []\<rparr> []"

theorem edits_are_evident_witness:
  "\<exists>i < 1. input_at demo_env (demo_log ''a'') i \<noteq> input_at demo_env (demo_log ''b'') i
     \<and> sha256 demo_env (input_at demo_env (demo_log ''a'') i) = sha256 demo_env (input_at demo_env (demo_log ''b'') i)"
proof -
  have len: "length (demo_log x) = 1" for x by (simp add: demo_log_def audit_append_def Let_def)
  have sorted: "seq_sorted (demo_log x)" for x
    unfolding demo_log_def by (rule seq_sorted_audit_append) (simp add: seq_sorted_def)
  have "chained demo_env None (demo_log x)" for x unfolding demo_log_def by (rule chained_audit_append) simp_all
  then have v: "verify demo_env (demo_log x) = (True, length (demo_log x), None)" for x
    using verify_intact_iff[OF sorted] by blast
  have head: "head_hash (demo_log ''a'') = head_hash (demo_log ''b'')"
    by (simp add: demo_log_def audit_append_def Let_def head_hash_def last_audit_def chainHash_def demo_env_def
        audit_row.defs audit_content.defs)
  have digest: "\<forall>s. length (sha256 demo_env s) = 64" by (simp add: demo_env_def)
  have "map (hashed_text demo_env) (demo_log ''a'') \<noteq> map (hashed_text demo_env) (demo_log ''b'')" by code_simp
  with edits_are_evident[OF digest sorted sorted _ v v head] show ?thesis by (simp add: len)
qed

text \<open>
  C19. Removing entries from the end does not show: whatever number of them is cut off, \<open>verify\<close>
  accepts what is left (its comment says that any removed row shows up).
\<close>

theorem removed_tail_is_not_evident:
  assumes "verify e rows = (True, length rows, None)" "seq_sorted rows"
  shows "verify e (take n rows) = (True, min (length rows) n, None)"
  using assms verify_intact_iff[OF seq_sorted_take[OF assms(2)], of e n] chained_take by (auto simp: verify_intact_iff)

theorem removed_tail_is_not_evident_witness:
  "verify demo_env (take 0 (demo_log ''a'')) = (True, 0, None) \<and> demo_log ''a'' \<noteq> []"
proof -
  have sorted: "seq_sorted (demo_log ''a'')"
    unfolding demo_log_def by (rule seq_sorted_audit_append) (simp add: seq_sorted_def)
  have "chained demo_env None (demo_log ''a'')" unfolding demo_log_def by (rule chained_audit_append) simp_all
  then have "verify demo_env (demo_log ''a'') = (True, length (demo_log ''a''), None)"
    using verify_intact_iff[OF sorted] by blast
  from removed_tail_is_not_evident[OF this sorted, of 0] show ?thesis
    by (simp add: demo_log_def audit_append_def Let_def)
qed

text \<open>
  C20. The hash of an entry does not depend on the order in which the fields of an object were
  written, so what \<open>jsonb\<close> gives back hashes to what was stored.
\<close>

theorem canonical_order:
  assumes "mset fs = mset gs" "distinct (map fst fs)"
  shows "canonicalJson p (JObj fs) = canonicalJson p (JObj gs)"
  by (rule canonicalJson_permute[OF assms])

theorem canonical_order_witness:
  "canonicalJson (printers.truncate demo_env) (JObj [(''b'', JInt 1), (''a'', JNull)])
     = canonicalJson (printers.truncate demo_env) (JObj [(''a'', JNull), (''b'', JInt 1)])"
  by (rule canonical_order) simp_all

section \<open>Access\<close>

text \<open>
  C21. A change at a branch needs a grant of the permission there or everywhere; seeing records of a
  branch is also open to a department grant; so whoever may change a branch's records may see them.
\<close>

theorem branch_access:
  "(assertScope grants p (at_branch b) = Inr () \<longleftrightarrow>
      list_ex (\<lambda>g. gr_permission g = p \<and> (gr_scope g = Global \<or> gr_scope g = Branch b)) grants)
   \<and> (assertBranchAccess grants p b = Inr () \<longleftrightarrow>
      list_ex (\<lambda>g. gr_permission g = p \<and> gr_scope g \<notin> Branch ` (- {b})) grants)
   \<and> (assertScope grants p (at_branch b) = Inr () \<longrightarrow> assertBranchAccess grants p b = Inr ())"
proof -
  have "(g = Global \<or> g = Branch b \<or> (\<exists>d. g = Department d)) \<longleftrightarrow> g \<notin> Branch ` (- {b})" for g
    by (cases g) auto
  then show ?thesis
    using branch_write.passes_iff[of grants p b] branch_read.passes_iff[of grants p b] write_implies_read[of grants p b]
    by (auto simp: covers_branch_def reads_branch_def list_ex_iff)
qed

theorem branch_access_witness:
  "assertScope demo_grants ''billing.read'' (at_branch 4) = Inr () \<and> assertBranchAccess demo_grants ''billing.read'' 4 = Inr ()"
proof -
  have "assertScope demo_grants ''billing.read'' (at_branch 4) = Inr ()" by code_simp
  then show ?thesis using branch_access[of demo_grants "''billing.read''" 4] by blast
qed

section \<open>Concurrent edits\<close>

text \<open>
  C22. No update is lost: of any number of editors that read the same version of a row, the first to
  save succeeds and every other one is told of the conflict, whatever they wanted to write.
\<close>

theorem one_editor_wins:
  assumes "ids_distinct rows" "find_by row_id i rows = Some r" "version r = v" "keeps_key f"
  shows "\<exists>r'. table.race e (f # fs) i v rows = Updated r' # replicate (length fs) (Conflict (v + 1))"
  by (rule table.race_one_winner[OF assms])

theorem one_editor_wins_witness:
  "\<exists>r'. table.race demo_env [id, id, id] 4 1 (branches demo_db) = [Updated r', Conflict 2, Conflict 2]"
proof -
  have facts: "ids_distinct (branches demo_db)" "find_by row_id 4 (branches demo_db) = Some demo_branch"
    "version demo_branch = 1" by code_simp+
  have key: "keeps_key id" by (simp add: keeps_key_def)
  show ?thesis using one_editor_wins[OF facts key, of demo_env "[id, id]"] by (simp add: numeral_2_eq_2)
qed

end
